(* ===== verification/Prelude.thy ===== *)
theory Prelude
  imports "HOL-Library.Code_Target_Nat" Main "HOL-Library.Sublist"
begin

text \<open>
  Shared vocabulary of the development: the type of a fallible, stateful Go
  operation and its combinators, the preservation calculus the invariants are
  proved with, the types of instants and of ids, and generic lemmas on lists.

  A Go function that may fail and that reads and writes the store is a function
  from the state to an error or a value, together with the state it leaves
  behind.  The state is returned on BOTH arms: a handler of this program is not
  a transaction, so a write that happened before a later failure stays.
\<close>

section \<open>Names of types\<close>

type_synonym instant = int       \<comment> \<open>time.Time: nanoseconds since 1970-01-01T00:00:00Z\<close>
type_synonym duration = int      \<comment> \<open>time.Duration: nanoseconds\<close>
type_synonym ident = string      \<comment> \<open>a row id; a Go string is its bytes\<close>

type_synonym ('s, 'e, 'a) oper = "'s \<Rightarrow> ('e + 'a) \<times> 's"

named_theorems oper_simps "evaluation of the operation combinators"
named_theorems keeps_intros "preservation of an invariant by an operation"

section \<open>Operations\<close>

definition ret :: "'a \<Rightarrow> ('s, 'e, 'a) oper" where
  "ret x s = (Inr x, s)"

definition failed :: "'e \<Rightarrow> ('s, 'e, 'a) oper" where
  "failed e s = (Inl e, s)"

definition bindE :: "('s, 'e, 'a) oper \<Rightarrow> ('a \<Rightarrow> ('s, 'e, 'b) oper) \<Rightarrow> ('s, 'e, 'b) oper" where
  "bindE m f s = (case m s of (Inl e, t) \<Rightarrow> (Inl e, t) | (Inr x, t) \<Rightarrow> f x t)"

definition thenE :: "('s, 'e, 'a) oper \<Rightarrow> ('s, 'e, 'b) oper \<Rightarrow> ('s, 'e, 'b) oper" where
  "thenE m k = bindE m (\<lambda>_. k)"

definition refuse_if :: "bool \<Rightarrow> 'e \<Rightarrow> ('s, 'e, unit) oper" where
  "refuse_if b e = (if b then failed e else ret ())"

definition reads :: "('s \<Rightarrow> 'a) \<Rightarrow> ('s, 'e, 'a) oper" where
  "reads f s = (Inr (f s), s)"

definition writes :: "('s \<Rightarrow> 's) \<Rightarrow> ('s, 'e, unit) oper" where
  "writes f s = (Inr (), f s)"

definition of_sum :: "'e + 'a \<Rightarrow> ('s, 'e, 'a) oper" where
  "of_sum r s = (r, s)"

text \<open>The value of an option, or the error the code returns when there is none.\<close>
definition the_or :: "'e \<Rightarrow> 'a option \<Rightarrow> ('s, 'e, 'a) oper" where
  "the_or e r = (case r of None \<Rightarrow> failed e | Some x \<Rightarrow> ret x)"

text \<open>A condition on the state, such as a table constraint, that fails the operation.\<close>
definition require :: "('s \<Rightarrow> bool) \<Rightarrow> 'e \<Rightarrow> ('s, 'e, unit) oper" where
  "require p e s = (if p s then (Inr (), s) else (Inl e, s))"

text \<open>Translating the error of a call: \<open>errors.Is\<close> and re-wrapping.\<close>
definition map_err :: "('e \<Rightarrow> 'f) \<Rightarrow> ('s, 'e, 'a) oper \<Rightarrow> ('s, 'f, 'a) oper" where
  "map_err h m s = (case m s of (Inl e, t) \<Rightarrow> (Inl (h e), t) | (Inr x, t) \<Rightarrow> (Inr x, t))"

text \<open>A loop over a slice that stops at the first failure.\<close>
fun each :: "('a \<Rightarrow> ('s, 'e, unit) oper) \<Rightarrow> 'a list \<Rightarrow> ('s, 'e, unit) oper" where
  "each f [] = ret ()"
| "each f (x # xs) = thenE (f x) (each f xs)"

text \<open>What a whole request did: its outcome and the state it left.\<close>
abbreviation outcome :: "('e + 'a) \<times> 's \<Rightarrow> 'e + 'a" where "outcome \<equiv> fst"
abbreviation after :: "('e + 'a) \<times> 's \<Rightarrow> 's" where "after \<equiv> snd"

lemma oper_apply [oper_simps, simp]:
  "ret x s = (Inr x, s)" "failed e s = (Inl e, s)" "reads f s = (Inr (f s), s)"
  "writes g s = (Inr (), g s)" "of_sum r s = (r, s)"
  by (simp_all add: ret_def failed_def reads_def writes_def of_sum_def)

lemma bindE_apply [oper_simps]:
  "bindE m f s = (case m s of (Inl e, t) \<Rightarrow> (Inl e, t) | (Inr x, t) \<Rightarrow> f x t)"
  by (simp add: bindE_def)

lemma bindE_steps [simp]:
  "bindE (ret x) f = f x" "bindE (failed e) f = failed e"
  "bindE (reads g) h s = h (g s) s" "bindE (writes w) k s = k () (w s)"
  "bindE (refuse_if b e) k = (if b then failed e else k ())"
  "bindE (of_sum (Inl e)) f = failed e" "bindE (of_sum (Inr x)) f = f x"
  by (auto simp: bindE_def fun_eq_iff refuse_if_def)

lemma the_or_steps [simp]:
  "the_or e None = failed e" "the_or e (Some x) = ret x"
  by (simp_all add: the_or_def)

lemma thenE_apply [oper_simps]: "thenE m k s = (case m s of (Inl e, t) \<Rightarrow> (Inl e, t) | (Inr x, t) \<Rightarrow> k t)"
  by (simp add: thenE_def bindE_def)

lemma thenE_steps [simp]:
  "thenE (ret x) k = k" "thenE (failed e) k = failed e" "thenE (writes w) k s = k (w s)"
  "thenE (refuse_if b e) k = (if b then failed e else k)"
  by (auto simp: thenE_def)

lemma bindE_Inr:
  "bindE m f s = (Inr y, t) \<longleftrightarrow> (\<exists>x u. m s = (Inr x, u) \<and> f x u = (Inr y, t))"
  by (auto simp: bindE_def split: prod.splits sum.splits)

lemma bindE_Inl:
  "bindE m f s = (Inl e, t) \<longleftrightarrow> m s = (Inl e, t) \<or> (\<exists>x u. m s = (Inr x, u) \<and> f x u = (Inl e, t))"
  by (auto simp: bindE_def split: prod.splits sum.splits)

lemma thenE_Inr:
  "thenE m k s = (Inr y, t) \<longleftrightarrow> (\<exists>x u. m s = (Inr x, u) \<and> k u = (Inr y, t))"
  by (simp add: thenE_def bindE_Inr)

lemma refuse_if_Inr [simp]: "refuse_if b e s = (Inr x, t) \<longleftrightarrow> \<not> b \<and> t = s"
  by (auto simp: refuse_if_def)

lemma the_or_Inr [simp]: "the_or e r s = (Inr x, t) \<longleftrightarrow> r = Some x \<and> t = s"
  by (auto simp: the_or_def split: option.splits)

lemma bindE_assoc: "bindE (bindE m f) g = bindE m (\<lambda>x. bindE (f x) g)"
  by (auto simp: bindE_def fun_eq_iff split: prod.splits sum.splits)

lemma require_Inr [simp]: "require p e s = (Inr x, t) \<longleftrightarrow> p s \<and> t = s"
  by (auto simp: require_def)

lemma require_steps [simp]:
  "bindE (require p e) k s = (if p s then k () s else (Inl e, s))"
  "thenE (require p e) m s = (if p s then m s else (Inl e, s))"
  by (simp_all add: require_def thenE_def bindE_def)

lemma map_err_Inr [simp]: "map_err h m s = (Inr x, t) \<longleftrightarrow> m s = (Inr x, t)"
  by (auto simp: map_err_def split: prod.splits sum.splits)

lemma map_err_snd [simp]: "snd (map_err h m s) = snd (m s)"
  by (auto simp: map_err_def split: prod.splits sum.splits)

lemma map_err_steps [simp]:
  "map_err h (ret x) = ret x" "map_err h (failed e) = failed (h e)"
  "map_err h (reads f) = reads f" "map_err h (writes w) = writes w"
  by (auto simp: map_err_def fun_eq_iff)

lemma map_err_the_or [simp]: "map_err h (the_or e q) = the_or (h e) q"
  by (cases q) simp_all

lemma map_err_apply [oper_simps]:
  "map_err h m s = (case m s of (Inl e, t) \<Rightarrow> (Inl (h e), t) | (Inr x, t) \<Rightarrow> (Inr x, t))"
  by (simp add: map_err_def)

lemmas oper_Inr = bindE_Inr thenE_Inr

section \<open>Preservation\<close>

text \<open>
  \<open>keeps P m\<close>: whatever \<open>m\<close> returns, a value or an error, it leaves a state
  with \<open>P\<close> whenever it was started in one.
\<close>
definition keeps :: "('s \<Rightarrow> bool) \<Rightarrow> ('s, 'e, 'a) oper \<Rightarrow> bool" where
  "keeps P m \<longleftrightarrow> (\<forall>s. P s \<longrightarrow> P (snd (m s)))"

lemma keepsI: "(\<And>s. P s \<Longrightarrow> P (snd (m s))) \<Longrightarrow> keeps P m"
  by (simp add: keeps_def)

lemma keepsD: "keeps P m \<Longrightarrow> P s \<Longrightarrow> P (snd (m s))"
  by (simp add: keeps_def)

lemma keeps_pure [keeps_intros, intro, simp]:
  "keeps P (ret x)" "keeps P (failed e)" "keeps P (reads f)" "keeps P (of_sum r)"
  "keeps P (refuse_if b e')" "keeps P (the_or e'' q)"
  by (auto simp: keeps_def refuse_if_def the_or_def split: option.splits)

lemma keeps_require [keeps_intros, intro, simp]: "keeps P (require p e)"
  by (simp add: keeps_def require_def)

lemma keeps_map_err [keeps_intros]: "keeps P m \<Longrightarrow> keeps P (map_err h m)"
  by (simp add: keeps_def)

lemma keeps_bindE [keeps_intros]:
  "keeps P m \<Longrightarrow> (\<And>x. keeps P (f x)) \<Longrightarrow> keeps P (bindE m f)"
  by (fastforce simp: keeps_def bindE_def split: prod.splits sum.splits)

lemma keeps_thenE [keeps_intros]:
  "keeps P m \<Longrightarrow> keeps P k \<Longrightarrow> keeps P (thenE m k)"
  by (simp add: thenE_def keeps_bindE)

lemma keeps_if [keeps_intros]:
  "(b \<Longrightarrow> keeps P m) \<Longrightarrow> (\<not> b \<Longrightarrow> keeps P k) \<Longrightarrow> keeps P (if b then m else k)"
  by simp

lemma keeps_each [keeps_intros]:
  "(\<And>x. x \<in> set xs \<Longrightarrow> keeps P (f x)) \<Longrightarrow> keeps P (each f xs)"
  by (induction xs) (auto intro: keeps_thenE)

lemma keeps_writes: "(\<And>s. P s \<Longrightarrow> P (w s)) \<Longrightarrow> keeps P (writes w)"
  by (simp add: keeps_def)

text \<open>An operation that leaves a part of the state as it was.\<close>
definition leaves :: "('s \<Rightarrow> 'v) \<Rightarrow> ('s, 'e, 'a) oper \<Rightarrow> bool" where
  "leaves f m \<longleftrightarrow> (\<forall>s. f (snd (m s)) = f s)"

named_theorems leaves_intros "operations that leave a part of the state alone"

lemma leavesD: "leaves f m \<Longrightarrow> f (snd (m s)) = f s"
  by (simp add: leaves_def)

lemma leaves_bindE [leaves_intros]: "leaves f m \<Longrightarrow> (\<And>x. leaves f (k x)) \<Longrightarrow> leaves f (bindE m k)"
  by (auto simp: leaves_def bindE_def split: prod.splits sum.splits) (metis snd_conv)+

lemma leaves_thenE [leaves_intros]: "leaves f m \<Longrightarrow> leaves f k \<Longrightarrow> leaves f (thenE m k)"
  by (simp add: thenE_def leaves_bindE)

lemma leaves_map_err [simp]: "leaves f (map_err h m) = leaves f m"
  by (simp add: leaves_def)

lemma leaves_if [leaves_intros]: "(b \<Longrightarrow> leaves f m) \<Longrightarrow> (\<not> b \<Longrightarrow> leaves f k) \<Longrightarrow> leaves f (if b then m else k)"
  by simp

lemma leaves_option [leaves_intros]:
  "leaves f m \<Longrightarrow> (\<And>x. leaves f (k x)) \<Longrightarrow> leaves f (case y of None \<Rightarrow> m | Some x \<Rightarrow> k x)"
  by (cases y) auto

lemma leaves_each [leaves_intros]: "(\<And>x. leaves f (k x)) \<Longrightarrow> leaves f (each k xs)"
  by (induction xs) (auto simp: leaves_def intro: leaves_thenE [unfolded leaves_def, rule_format])

lemma leaves_writes: "(\<And>s. f (w s) = f s) \<Longrightarrow> leaves f (writes w)"
  by (simp add: leaves_def)

lemma leaves_keeps: "leaves f m \<Longrightarrow> keeps (\<lambda>s. P (f s)) m"
  by (simp add: leaves_def keeps_def)

text \<open>An operation that reads only.\<close>
definition pure_op :: "('s, 'e, 'a) oper \<Rightarrow> bool" where
  "pure_op m \<longleftrightarrow> (\<forall>s. snd (m s) = s)"

lemma pure_op_pure [intro, simp]:
  "pure_op (ret x)" "pure_op (failed e)" "pure_op (reads f)" "pure_op (of_sum r)"
  "pure_op (refuse_if b e')" "pure_op (the_or e'' q)"
  by (auto simp: pure_op_def refuse_if_def the_or_def split: option.splits)

lemma pure_op_require [intro, simp]: "pure_op (require p e)"
  by (simp add: pure_op_def require_def)

lemma pure_op_reading [simp]: "pure_op (\<lambda>s. (f s, s))"
  by (simp add: pure_op_def)

lemma pure_op_map_err [simp]: "pure_op (map_err h m) = pure_op m"
  by (simp add: pure_op_def)

lemma pure_op_bindE: "pure_op m \<Longrightarrow> (\<And>x. pure_op (f x)) \<Longrightarrow> pure_op (bindE m f)"
  by (auto simp: pure_op_def bindE_def split: prod.splits sum.splits) (metis snd_conv)+

lemma pure_op_thenE: "pure_op m \<Longrightarrow> pure_op k \<Longrightarrow> pure_op (thenE m k)"
  by (simp add: thenE_def pure_op_bindE)

lemma pure_op_keeps: "pure_op m \<Longrightarrow> keeps P m"
  by (simp add: pure_op_def keeps_def)

lemma pure_op_leaves [intro]: "pure_op m \<Longrightarrow> leaves f m"
  by (simp add: pure_op_def leaves_def)

lemma leaves_pure [simp]:
  "leaves f (ret x)" "leaves f (failed e)" "leaves f (reads g)" "leaves f (of_sum r)"
  "leaves f (refuse_if b e')" "leaves f (the_or e'' q)" "leaves f (require p e3)"
  by (auto intro!: pure_op_leaves)

lemma pure_opD: "pure_op m \<Longrightarrow> m s = (r, t) \<Longrightarrow> t = s"
  unfolding pure_op_def by (metis snd_conv)

text \<open>A guard that passed is known to what follows it.\<close>
lemma keeps_guarded:
  assumes "pure_op g" "\<And>s x. P s \<Longrightarrow> g s = (Inr x, s) \<Longrightarrow> P (snd (k s))"
  shows "keeps P (thenE g k)"
proof (rule keepsI)
  fix s assume P: "P s"
  obtain r t where r: "g s = (r, t)" by fastforce
  then have t: "t = s" using pure_opD [OF assms(1)] by blast
  show "P (snd (thenE g k s))" using assms(2) P r t by (cases r) (auto simp: thenE_apply)
qed

lemma keeps_guardedE:
  assumes "pure_op g" "\<And>s x. P s \<Longrightarrow> g s = (Inr x, s) \<Longrightarrow> P (snd (f x s))"
  shows "keeps P (bindE g f)"
proof (rule keepsI)
  fix s assume P: "P s"
  obtain r t where r: "g s = (r, t)" by fastforce
  then have t: "t = s" using pure_opD [OF assms(1)] by blast
  show "P (snd (bindE g f s))" using assms(2) P r t by (cases r) (auto simp: bindE_apply)
qed

lemma keeps_step: "P (snd (w s)) \<Longrightarrow> keeps P m \<Longrightarrow> P (snd (thenE w m s))"
  by (auto simp: keeps_def thenE_apply split: prod.splits sum.splits)

lemma keeps_stepE: "P (snd (w s)) \<Longrightarrow> (\<And>x. keeps P (f x)) \<Longrightarrow> P (snd (bindE w f s))"
  by (auto simp: keeps_def bindE_apply split: prod.splits sum.splits)

lemma keeps_case_option [keeps_intros]:
  "keeps P m \<Longrightarrow> (\<And>x. keeps P (f x)) \<Longrightarrow> keeps P (case y of None \<Rightarrow> m | Some x \<Rightarrow> f x)"
  by (cases y) auto

section \<open>Lists read as tables\<close>

text \<open>SELECT ... WHERE: the first row that matches, or none.\<close>
fun row :: "('r \<Rightarrow> bool) \<Rightarrow> 'r list \<Rightarrow> 'r option" where
  "row p [] = None"
| "row p (x # xs) = (if p x then Some x else row p xs)"

definition has_row :: "('r \<Rightarrow> bool) \<Rightarrow> 'r list \<Rightarrow> bool" where
  "has_row p t = list_ex p t"

text \<open>UPDATE ... WHERE: every row that matches.\<close>
definition set_rows :: "('r \<Rightarrow> bool) \<Rightarrow> ('r \<Rightarrow> 'r) \<Rightarrow> 'r list \<Rightarrow> 'r list" where
  "set_rows p f t = map (\<lambda>x. if p x then f x else x) t"

text \<open>DELETE ... WHERE: what stays.\<close>
definition del_rows :: "('r \<Rightarrow> bool) \<Rightarrow> 'r list \<Rightarrow> 'r list" where
  "del_rows p t = filter (\<lambda>x. \<not> p x) t"

definition count_rows :: "('r \<Rightarrow> bool) \<Rightarrow> 'r list \<Rightarrow> int" where
  "count_rows p t = int (length (filter p t))"

lemma has_row_iff [simp]: "has_row p t \<longleftrightarrow> (\<exists>x\<in>set t. p x)"
  by (simp add: has_row_def list_ex_iff)

lemma row_SomeD: "row p t = Some x \<Longrightarrow> x \<in> set t \<and> p x"
  by (induction t) (auto split: if_splits)

lemma row_None_iff: "row p t = None \<longleftrightarrow> (\<forall>x\<in>set t. \<not> p x)"
  by (induction t) auto

lemma row_Some_iff_has: "(\<exists>x. row p t = Some x) \<longleftrightarrow> has_row p t"
  using row_None_iff [of p t] by (cases "row p t") auto

lemma row_append: "row p (xs @ ys) = (case row p xs of None \<Rightarrow> row p ys | Some x \<Rightarrow> Some x)"
  by (induction xs) auto

lemma set_del_rows [simp]: "set (del_rows p t) = {x \<in> set t. \<not> p x}"
  by (auto simp: del_rows_def)

lemma set_set_rows [simp]: "set (set_rows p f t) = (\<lambda>x. if p x then f x else x) ` set t"
  by (simp add: set_rows_def)

lemma set_rows_map_same:
  "(\<And>x. x \<in> set t \<Longrightarrow> p x \<Longrightarrow> k (f x) = k x) \<Longrightarrow> map k (set_rows p f t) = map k t"
  by (auto simp: set_rows_def)

lemma set_rows_keys: "(\<And>x. k (f x) = k x) \<Longrightarrow> map k (set_rows p f t) = map k t"
  by (rule set_rows_map_same) simp

lemma set_rows_key_set: "(\<And>x. k (f x) = k x) \<Longrightarrow> k ` set (set_rows p f t) = k ` set t"
  using set_rows_keys [of k f p t] by (metis list.set_map)

lemma distinct_map_del_rows [intro]: "distinct (map k t) \<Longrightarrow> distinct (map k (del_rows p t))"
  by (auto simp: del_rows_def intro: distinct_map_filter)

lemma count_rows_simps [simp]:
  "count_rows p [] = 0" "count_rows p (x # xs) = (if p x then 1 else 0) + count_rows p xs"
  "count_rows p (xs @ ys) = count_rows p xs + count_rows p ys"
  by (simp_all add: count_rows_def)

lemma count_rows_nonneg [simp]: "0 \<le> count_rows p t"
  by (simp add: count_rows_def)

lemma count_rows_pos_iff: "0 < count_rows p t \<longleftrightarrow> (\<exists>x\<in>set t. p x)"
  by (induction t) (auto simp: add_strict_increasing intro: add_pos_nonneg)

lemma distinct_map_inj: "distinct (map k t) \<Longrightarrow> x \<in> set t \<Longrightarrow> y \<in> set t \<Longrightarrow> k x = k y \<Longrightarrow> x = y"
  by (metis distinct_map inj_onD)

lemma row_unique:
  assumes "distinct (map k t)" "x \<in> set t" "\<And>y. p y \<longleftrightarrow> k y = k x"
  shows "row p t = Some x"
  using assms
proof (induction t)
  case (Cons y t)
  then show ?case by (cases "y = x") (auto simp: image_iff)
qed simp

end
