(* ===== verification/Errors.thy ===== *)
theory Errors
  imports Prelude
begin

text \<open>
  The error contract of \<open>csilservices/errors.go\<close>.  A handler fails with an
  \<open>AppError\<close>, which the dispatcher encodes for the caller, or with any other
  error, which the caller sees as transport status "internal" and nothing more.
  The human-readable \<open>Message\<close> is not modelled: the code is what a client
  branches on, the field and the resource type are what it renders.
\<close>

record AppError =
  Code :: nat
  Field :: string
  ResourceType :: string

definition CodeInvalid :: nat where "CodeInvalid = 1"
definition CodeUnauthenticated :: nat where "CodeUnauthenticated = 2"
definition CodeForbidden :: nat where "CodeForbidden = 3"
definition CodeNotFound :: nat where "CodeNotFound = 4"
definition CodeUnavailable :: nat where "CodeUnavailable = 5"

text \<open>A Go \<open>error\<close>: an AppError, or one the dispatcher will not show.\<close>
datatype error =
    App AppError
  | Internal

definition Invalid :: "string \<Rightarrow> error" where
  "Invalid field = App \<lparr>Code = CodeInvalid, Field = field, ResourceType = []\<rparr>"

definition Unauthenticated :: error where
  "Unauthenticated = App \<lparr>Code = CodeUnauthenticated, Field = [], ResourceType = []\<rparr>"

definition Forbidden :: error where
  "Forbidden = App \<lparr>Code = CodeForbidden, Field = [], ResourceType = []\<rparr>"

definition NotFound :: "string \<Rightarrow> error" where
  "NotFound resourceType = App \<lparr>Code = CodeNotFound, Field = [], ResourceType = resourceType\<rparr>"

definition Unavailable :: error where
  "Unavailable = App \<lparr>Code = CodeUnavailable, Field = [], ResourceType = []\<rparr>"

text \<open>\<open>AsAppError\<close> and \<open>ServiceError\<close>: an empty field or resource type is absent on the wire.\<close>
definition AsAppError :: "error \<Rightarrow> AppError option" where
  "AsAppError e = (case e of App a \<Rightarrow> Some a | Internal \<Rightarrow> None)"

record ServiceError =
  seCode :: nat
  seField :: "string option"
  seResourceType :: "string option"

definition toServiceError :: "AppError \<Rightarrow> ServiceError" where
  "toServiceError e =
     \<lparr>seCode = Code e,
      seField = (if Field e \<noteq> [] then Some (Field e) else None),
      seResourceType = (if ResourceType e \<noteq> [] then Some (ResourceType e) else None)\<rparr>"

lemmas error_codes =
  CodeInvalid_def CodeUnauthenticated_def CodeForbidden_def CodeNotFound_def CodeUnavailable_def

lemma error_distinct [simp]:
  "Invalid f \<noteq> Unauthenticated" "Invalid f \<noteq> Forbidden" "Invalid f \<noteq> NotFound r" "Invalid f \<noteq> Unavailable"
  "Unauthenticated \<noteq> Invalid f" "Unauthenticated \<noteq> Forbidden" "Unauthenticated \<noteq> NotFound r" "Unauthenticated \<noteq> Unavailable"
  "Forbidden \<noteq> Invalid f" "Forbidden \<noteq> Unauthenticated" "Forbidden \<noteq> NotFound r" "Forbidden \<noteq> Unavailable"
  "NotFound r \<noteq> Invalid f" "NotFound r \<noteq> Unauthenticated" "NotFound r \<noteq> Forbidden" "NotFound r \<noteq> Unavailable"
  "Internal \<noteq> Invalid f" "Internal \<noteq> Unauthenticated" "Internal \<noteq> Forbidden" "Internal \<noteq> NotFound r"
  "Invalid f \<noteq> Internal" "Unauthenticated \<noteq> Internal" "Forbidden \<noteq> Internal" "NotFound r \<noteq> Internal"
  by (simp_all add: Invalid_def Unauthenticated_def Forbidden_def NotFound_def Unavailable_def error_codes)

lemma error_inject [simp]:
  "Invalid f = Invalid g \<longleftrightarrow> f = g" "NotFound r = NotFound q \<longleftrightarrow> r = q"
  by (simp_all add: Invalid_def NotFound_def)

end
