(* ===== verification/Text.thy ===== *)
theory Text
  imports Prelude
begin

text \<open>
  \<open>csilservices/text.go\<close> and the parts of Go's \<open>strings\<close> and \<open>unicode\<close> it
  uses.  Human text (names, blurbs, titles) is a list of runes, which is what
  the code ranges over; addresses and ids are byte strings.  The Unicode lower
  case table is a parameter \<open>lower\<close>; what the code relies on is that it is the
  ASCII folding on ASCII (\<open>ascii_lower\<close>).  White space is Go's own list.
\<close>

type_synonym rune = nat
type_synonym utext = "rune list"

definition runes :: "string \<Rightarrow> utext" where
  "runes s = map of_char s"

definition chars :: "utext \<Rightarrow> string" where
  "chars t = map char_of t"

section \<open>unicode and strings\<close>

definition IsSpace :: "rune \<Rightarrow> bool" where
  "IsSpace r \<longleftrightarrow> r \<in> {9, 10, 11, 12, 13, 32, 0x85, 0xA0, 0x1680, 0x2028, 0x2029, 0x202f, 0x205f, 0x3000}
     \<or> (0x2000 \<le> r \<and> r \<le> 0x200a)"

text \<open>Evaluated so that an ASCII rune is not compared with the far blocks.\<close>
lemma IsSpace_code [code]:
  "IsSpace r = (if r < 128 then r = 32 \<or> (9 \<le> r \<and> r \<le> 13)
     else r \<in> {0x85, 0xA0, 0x1680, 0x2028, 0x2029, 0x202f, 0x205f, 0x3000} \<or> (0x2000 \<le> r \<and> r \<le> 0x200a))"
  by (auto simp: IsSpace_def)

definition trim_runes :: "(rune \<Rightarrow> bool) \<Rightarrow> utext \<Rightarrow> utext" where
  "trim_runes p t = rev (dropWhile p (rev (dropWhile p t)))"

definition TrimSpace :: "utext \<Rightarrow> utext" where
  "TrimSpace t = trim_runes IsSpace t"

text \<open>\<open>strings.FieldsFunc\<close>: the maximal runs of runes that do not satisfy \<open>f\<close>.\<close>
function FieldsFunc :: "(rune \<Rightarrow> bool) \<Rightarrow> utext \<Rightarrow> utext list" where
  "FieldsFunc f [] = []"
| "FieldsFunc f (r # rs) =
     (if f r then FieldsFunc f rs
      else (r # takeWhile (\<lambda>x. \<not> f x) rs) # FieldsFunc f (dropWhile (\<lambda>x. \<not> f x) rs))"
  by pat_completeness auto
termination
  by (relation "measure (length \<circ> snd)") (auto simp: less_Suc_eq_le length_dropWhile_le)

definition ascii_lower_rune :: "rune \<Rightarrow> rune" where
  "ascii_lower_rune r = (if 65 \<le> r \<and> r \<le> 90 then r + 32 else r)"

text \<open>What is relied on of \<open>unicode.ToLower\<close>.\<close>
definition ascii_lower :: "(rune \<Rightarrow> rune) \<Rightarrow> bool" where
  "ascii_lower lower \<longleftrightarrow> (\<forall>r. r < 128 \<longrightarrow> lower r = ascii_lower_rune r)"

definition ToLower :: "(rune \<Rightarrow> rune) \<Rightarrow> utext \<Rightarrow> utext" where
  "ToLower lower t = map lower t"

text \<open>\<open>strings.ToLower\<close> on an id, which is ASCII.\<close>
definition ToLowerId :: "string \<Rightarrow> string" where
  "ToLowerId s = map (\<lambda>c. char_of (ascii_lower_rune (of_char c))) s"

section \<open>text.go\<close>

definition maxBlurbWords :: nat where "maxBlurbWords = 300"

definition wordCount :: "utext \<Rightarrow> nat" where
  "wordCount s = length (FieldsFunc IsSpace s)"

definition slug_rune :: "rune \<Rightarrow> bool" where
  "slug_rune r \<longleftrightarrow> 97 \<le> r \<and> r \<le> 122 \<or> 48 \<le> r \<and> r \<le> 57"

text \<open>The loop of \<open>slugify\<close>; the flag is \<open>lastHyphen\<close>.\<close>
fun slug_loop :: "bool \<Rightarrow> utext \<Rightarrow> utext" where
  "slug_loop lastHyphen [] = []"
| "slug_loop lastHyphen (r # rs) =
     (if slug_rune r then r # slug_loop False rs
      else if \<not> lastHyphen then 45 # slug_loop True rs
      else slug_loop lastHyphen rs)"

definition slugify :: "(rune \<Rightarrow> rune) \<Rightarrow> utext \<Rightarrow> utext" where
  "slugify lower name = trim_runes (\<lambda>r. r = 45) (slug_loop True (ToLower lower name))"

definition maxSlugLength :: nat where "maxSlugLength = 64"

definition slug_base :: "(rune \<Rightarrow> rune) \<Rightarrow> utext \<Rightarrow> string \<Rightarrow> string" where
  "slug_base lower name rid =
     (let base = slugify lower name;
          base = (if length base > maxSlugLength
                  then trim_runes (\<lambda>r. r = 45) (take maxSlugLength base) else base)
      in if base = [] then ToLowerId rid else chars base)"

definition slug_suffix :: "string \<Rightarrow> string" where
  "slug_suffix rid = (let suffix = ToLowerId rid in
     if length suffix > 6 then drop (length suffix - 6) suffix else suffix)"

definition uniqueSlug :: "(rune \<Rightarrow> rune) \<Rightarrow> utext \<Rightarrow> string \<Rightarrow> (string \<Rightarrow> bool) \<Rightarrow> string" where
  "uniqueSlug lower name rid taken =
     (let base = slug_base lower name rid in
      if \<not> taken base then base else base @ ''-'' @ slug_suffix rid)"

text \<open>\<open>searchText\<close>: the parts joined with " \<open>\n\<close>" and folded.\<close>
fun join_text :: "utext \<Rightarrow> utext list \<Rightarrow> utext" where
  "join_text sep [] = []"
| "join_text sep [x] = x"
| "join_text sep (x # y # ys) = x @ sep @ join_text sep (y # ys)"

definition searchText :: "(rune \<Rightarrow> rune) \<Rightarrow> utext list \<Rightarrow> utext" where
  "searchText lower parts = ToLower lower (join_text [32, 10] parts)"

section \<open>Lemmas\<close>

lemma trim_runes_sublist: "sublist (trim_runes p t) t"
proof -
  have "suffix (dropWhile p t) t" by (rule suffix_dropWhile)
  moreover have "prefix (trim_runes p t) (dropWhile p t)"
    unfolding trim_runes_def by (metis rev_rev_ident suffix_dropWhile suffix_to_prefix)
  ultimately show ?thesis
    by (meson prefix_imp_sublist sublist_order.order.trans suffix_imp_sublist)
qed

lemma set_trim_runes: "set (trim_runes p t) \<subseteq> set t"
  using trim_runes_sublist set_mono_sublist by blast

lemma length_trim_runes: "length (trim_runes p t) \<le> length t"
  using trim_runes_sublist sublist_length_le by blast

lemma hd_dropWhile_not: "dropWhile p t \<noteq> [] \<Longrightarrow> \<not> p (hd (dropWhile p t))"
  by (induction t) auto

lemma trim_runes_ends:
  assumes "trim_runes p t \<noteq> []"
  shows "\<not> p (hd (trim_runes p t)) \<and> \<not> p (last (trim_runes p t))"
proof -
  let ?u = "dropWhile p t"
  have last: "\<not> p (last (trim_runes p t))"
    using hd_dropWhile_not [of p "rev ?u"] assms by (simp add: trim_runes_def last_rev)
  obtain zs where zs: "?u = trim_runes p t @ zs"
    unfolding trim_runes_def by (metis rev_append rev_rev_ident takeWhile_dropWhile_id)
  then have "hd ?u = hd (trim_runes p t)" and "?u \<noteq> []" using assms by auto
  then show ?thesis using hd_dropWhile_not [of p t] last by simp
qed

text \<open>No two hyphens in a row.\<close>
fun single_hyphens :: "utext \<Rightarrow> bool" where
  "single_hyphens (x # y # ys) = (\<not> (x = 45 \<and> y = 45) \<and> single_hyphens (y # ys))"
| "single_hyphens _ = True"

lemma single_hyphens_Cons: "single_hyphens (x # ys) \<longleftrightarrow> \<not> (x = 45 \<and> ys \<noteq> [] \<and> hd ys = 45) \<and> single_hyphens ys"
  by (cases ys) auto

lemma single_hyphens_append: "single_hyphens (xs @ ys) \<Longrightarrow> single_hyphens xs \<and> single_hyphens ys"
  by (induction xs) (auto simp: single_hyphens_Cons hd_append)

lemma single_hyphens_sublist: "sublist xs ys \<Longrightarrow> single_hyphens ys \<Longrightarrow> single_hyphens xs"
  by (metis single_hyphens_append sublist_def)

lemma slug_loop_runes: "set (slug_loop h t) \<subseteq> {r. slug_rune r \<or> r = 45}"
  by (induction h t rule: slug_loop.induct) auto

lemma slug_loop_head: "slug_loop True t \<noteq> [] \<Longrightarrow> hd (slug_loop True t) \<noteq> 45"
  by (induction t) (auto simp: slug_rune_def)

lemma slug_loop_single: "single_hyphens (slug_loop h t)"
proof (induction h t rule: slug_loop.induct)
  case (2 h r rs)
  show ?case
  proof (cases "slug_rune r")
    case True
    with 2 have "single_hyphens (slug_loop False rs)" by blast
    moreover have "r \<noteq> 45" using True by (auto simp: slug_rune_def)
    ultimately show ?thesis using True by (cases "slug_loop False rs") auto
  next
    case False
    with 2 slug_loop_head [of rs] show ?thesis by (cases "slug_loop True rs") (auto split: if_splits)
  qed
qed simp

lemma slugify_shape:
  "set (slugify lower name) \<subseteq> {r. slug_rune r \<or> r = 45}"
  "single_hyphens (slugify lower name)"
  "slugify lower name \<noteq> [] \<Longrightarrow> hd (slugify lower name) \<noteq> 45 \<and> last (slugify lower name) \<noteq> 45"
  unfolding slugify_def
  using set_trim_runes slug_loop_runes apply fastforce
  using single_hyphens_sublist [OF trim_runes_sublist slug_loop_single] apply fastforce
  using trim_runes_ends by fastforce

text \<open>The reference reading of \<open>wordCount\<close>: a word starts at a non-space that follows a space or nothing.\<close>
fun word_starts :: "bool \<Rightarrow> utext \<Rightarrow> nat" where
  "word_starts prevSpace [] = 0"
| "word_starts prevSpace (r # rs) =
     (if IsSpace r then word_starts True rs else (if prevSpace then 1 else 0) + word_starts False rs)"

lemma word_starts_skip:
  "word_starts False t = word_starts True (dropWhile (\<lambda>x. \<not> IsSpace x) t)"
  by (induction t) auto

lemma wordCount_starts: "wordCount s = word_starts True s"
  unfolding wordCount_def
  by (induction IsSpace s rule: FieldsFunc.induct) (auto simp: word_starts_skip)

lemma slug_base_length:
  assumes "slugify lower name \<noteq> []"
  shows "length (slug_base lower name rid) \<le> max maxSlugLength (length rid)"
  using length_trim_runes [of "\<lambda>r. r = 45" "take maxSlugLength (slugify lower name)"]
  by (auto simp: slug_base_def Let_def chars_def ToLowerId_def)

end
