(* ===== verification/Models.thy ===== *)
theory Models
  imports Text "HOL-Library.Word"
begin

text \<open>
  The row and value types of \<open>store/models.go\<close>.  A string-typed Go enumeration
  whose column carries a CHECK constraint is a datatype of the values the CHECK
  admits; where a request supplies the raw string, the service that parses it
  has its own conversion from \<open>string\<close>.  A \<open>*T\<close> is \<open>T option\<close>.  A
  coordinate is the bit pattern of its float64: nothing modelled here compares
  two of them.
\<close>

type_synonym float64 = "64 word"

datatype UserKind = UserKindHuman | UserKindSystem

record User =
  uID :: ident
  uLinkkeysDomain :: string
  uLinkkeysUserID :: string
  uHandle :: string
  uDisplayName :: utext
  uKind :: UserKind
  uCreatedAt :: instant
  uIsAdmin :: bool
  uAdminGrantedAt :: "instant option"

datatype OrganizationRole = RoleOwner | RoleMember
datatype OwnerKind = OwnerUser | OwnerOrganization
datatype EventRole = Organizer | Presenter
datatype RecurrenceFreq = Weekly | Monthly | Quarterly | Yearly
datatype PublishSetting = PublishUnset | PublishIn | PublishOut
datatype GatheringOfferStatus = OfferPending | OfferAccepted | OfferDeclined | OfferWithdrawn

text \<open>The weekdays in Go's order, from Sunday: \<open>weekdaysFromSunday\<close>.\<close>
datatype Weekday = Sunday | Monday | Tuesday | Wednesday | Thursday | Friday | Saturday

definition weekdaysFromSunday :: "Weekday list" where
  "weekdaysFromSunday = [Sunday, Monday, Tuesday, Wednesday, Thursday, Friday, Saturday]"

fun index_of :: "'a \<Rightarrow> 'a list \<Rightarrow> nat option" where
  "index_of x [] = None"
| "index_of x (y # ys) = (if x = y then Some 0 else map_option Suc (index_of x ys))"

definition TimeWeekday :: "Weekday \<Rightarrow> nat option" where
  "TimeWeekday w = index_of w weekdaysFromSunday"

definition WeekdayOf :: "nat \<Rightarrow> Weekday" where
  "WeekdayOf n = weekdaysFromSunday ! n"

record Location =
  locName :: utext
  locAddress :: utext
  locLocality :: utext
  locRegion :: utext
  locPostalCode :: utext
  locCountry :: utext
  locLatitude :: "float64 option"
  locLongitude :: "float64 option"

definition emptyLocation :: Location where
  "emptyLocation = \<lparr>locName = [], locAddress = [], locLocality = [], locRegion = [],
     locPostalCode = [], locCountry = [], locLatitude = None, locLongitude = None\<rparr>"

definition IsZero :: "Location \<Rightarrow> bool" where
  "IsZero l \<longleftrightarrow> locName l = [] \<and> locAddress l = [] \<and> locLocality l = [] \<and> locRegion l = []
     \<and> locPostalCode l = [] \<and> locCountry l = [] \<and> locLatitude l = None \<and> locLongitude l = None"

lemma IsZero_iff: "IsZero l \<longleftrightarrow> l = emptyLocation"
  by (cases l) (simp add: IsZero_def emptyLocation_def)

record Recurrence =
  rFreq :: RecurrenceFreq
  rInterval :: int
  rWeekday :: "Weekday option"
  rOrdinal :: "int option"
  rDayOfMonth :: "int option"

record OrganizationInput =
  oiSlug :: string
  oiOriginDomain :: string
  oiName :: utext
  oiBlurb :: utext
  oiDescription :: utext
  oiSearchText :: utext
  oiPublishEvents :: PublishSetting

text \<open>A gathering's own fields are the same seven.\<close>
type_synonym GatheringInput = OrganizationInput

record Organization =
  oID :: ident
  oOwn :: OrganizationInput
  oMemberCount :: int
  oOwnerCount :: int
  oCreatedAt :: instant
  oUpdatedAt :: instant

record OrganizationMember =
  omOrganizationID :: ident
  omUserID :: ident
  omHandle :: string
  omLinkkeysDomain :: string
  omDisplayName :: utext
  omRole :: OrganizationRole
  omJoinedAt :: instant

record OwnerRef =
  owKind :: OwnerKind
  owID :: ident
  owDisplayName :: utext
  owHandle :: string
  owOriginDomain :: string

record Gathering =
  gID :: ident
  gOwn :: GatheringInput
  gOwners :: "OwnerRef list"
  gMemberCount :: int
  gEventCount :: int
  gNextEventAt :: "instant option"
  gCreatedAt :: instant
  gUpdatedAt :: instant

record GatheringMember =
  gmGatheringID :: ident
  gmUserID :: ident
  gmHandle :: string
  gmLinkkeysDomain :: string
  gmDisplayName :: utext
  gmJoinedAt :: instant

record EventInput =
  eiGatheringID :: ident
  eiSeriesID :: "ident option"
  eiTitle :: utext
  eiDescription :: utext
  eiSearchText :: utext
  eiIsOnline :: bool
  eiIsInPerson :: bool
  eiOnlineURL :: utext
  eiLocation :: Location
  eiStartsAt :: instant
  eiEndsAt :: instant
  eiTimezone :: string

record Event =
  eID :: ident
  eOwn :: EventInput
  eAttendeeCount :: int
  eViewerAttending :: bool
  eCreatedAt :: instant
  eUpdatedAt :: instant

record EventSeriesInput =
  siGatheringID :: ident
  siTitle :: utext
  siDescription :: utext
  siSearchText :: utext
  siIsOnline :: bool
  siIsInPerson :: bool
  siOnlineURL :: utext
  siLocation :: Location
  siRecurrence :: Recurrence
  siStartsOn :: instant
  siEndsOn :: "instant option"
  siStartTime :: string
  siDurationMinutes :: int
  siTimezone :: string
  siMaterializedThrough :: instant

record EventSeries =
  sID :: ident
  sOwn :: EventSeriesInput
  sOccurrenceCount :: int
  sNextOccurrenceAt :: "instant option"
  sCreatedAt :: instant
  sUpdatedAt :: instant

text \<open>\<open>RoleScope\<close>: what a role assignment hangs off; exactly one id is set when it is valid.\<close>
record RoleScope =
  scEventID :: string
  scSeriesID :: string

definition ValidScope :: "RoleScope \<Rightarrow> bool" where
  "ValidScope s \<longleftrightarrow> (scEventID s = []) \<noteq> (scSeriesID s = [])"

record EventRoleAssignment =
  raEventID :: "ident option"
  raSeriesID :: "ident option"
  raUserID :: ident
  raHandle :: string
  raLinkkeysDomain :: string
  raDisplayName :: utext
  raRole :: EventRole
  raAssignedAt :: instant

record Attendee =
  atUserID :: ident
  atHandle :: string
  atLinkkeysDomain :: string
  atDisplayName :: utext
  atMarkedAt :: instant

record GatheringAccess =
  IsMember :: bool
  IsOwner :: bool

record Page =
  pLimit :: int
  pOffset :: int

record InstanceSettings =
  PublishDefault :: PublishSetting
  OrganizationOverrideAllowed :: bool
  GatheringOverrideAllowed :: bool
  RetentionDays :: int
  PeerRateLimitPerMinute :: int
  OriginRateLimitPerMinute :: int

definition DefaultInstanceSettings :: InstanceSettings where
  "DefaultInstanceSettings =
     \<lparr>PublishDefault = PublishIn, OrganizationOverrideAllowed = True,
      GatheringOverrideAllowed = True, RetentionDays = 365,
      PeerRateLimitPerMinute = 60, OriginRateLimitPerMinute = 20\<rparr>"

record GatheringOffer =
  goID :: ident
  goGatheringID :: ident
  goGatheringName :: utext
  goOrganizationID :: ident
  goOrganizationName :: utext
  goOfferedByID :: ident
  goOfferedByHandle :: string
  goOfferedByName :: utext
  goOfferedByDomain :: string
  goNote :: utext
  goStatus :: GatheringOfferStatus
  goCreatedAt :: instant
  goResolvedAt :: "instant option"

section \<open>Weekdays\<close>

text \<open>\<open>TimeWeekday\<close> and \<open>WeekdayOf\<close> are inverse to one another.\<close>

lemma TimeWeekday_values [simp]:
  "TimeWeekday Sunday = Some 0" "TimeWeekday Monday = Some 1" "TimeWeekday Tuesday = Some 2"
  "TimeWeekday Wednesday = Some 3" "TimeWeekday Thursday = Some 4" "TimeWeekday Friday = Some 5"
  "TimeWeekday Saturday = Some 6"
  by (simp_all add: TimeWeekday_def weekdaysFromSunday_def)

lemma WeekdayOf_TimeWeekday: "\<exists>n<7. TimeWeekday w = Some n \<and> WeekdayOf n = w"
  by (cases w) (simp_all add: WeekdayOf_def weekdaysFromSunday_def)

lemma TimeWeekday_WeekdayOf: "n < 7 \<Longrightarrow> TimeWeekday (WeekdayOf n) = Some n"
proof -
  assume "n < 7"
  then have "n \<in> {0, 1, 2, 3, 4, 5, 6}" by auto
  then show ?thesis by (auto simp: WeekdayOf_def weekdaysFromSunday_def)
qed

end
