(* ===== verification/Perms.thy ===== *)
theory Perms
  imports Errors Models
begin

text \<open>
  \<open>csilservices/perms.go\<close>: who the caller is and what each viewer function says
  the caller may do.  Every handler of the model consults these functions, as
  the code's do.
\<close>

record caller =
  cID :: ident
  cIsAdmin :: bool

record ViewerContext =
  vIsAdmin :: bool
  vIsOwner :: bool
  vIsOrganizer :: bool
  vIsPresenter :: bool
  vIsMember :: bool
  vHasJoined :: bool
  vCanEdit :: bool
  vCanDelete :: bool
  vCanManageMembers :: bool

text \<open>\<open>callerOf\<close> and \<open>authenticated\<close>: the request context carries a user or none.\<close>
definition callerOf :: "User option \<Rightarrow> caller" where
  "callerOf user = (case user of
      None \<Rightarrow> \<lparr>cID = [], cIsAdmin = False\<rparr>
    | Some u \<Rightarrow> \<lparr>cID = uID u, cIsAdmin = uIsAdmin u\<rparr>)"

definition authenticated :: "caller \<Rightarrow> ('s, error, caller) oper" where
  "authenticated c = (if cID c = [] then failed Unauthenticated else ret c)"

definition organizationViewer :: "caller \<Rightarrow> OrganizationRole option \<Rightarrow> ViewerContext" where
  "organizationViewer c role =
     (let isOwner = (role = Some RoleOwner); onRoster = (role \<noteq> None) in
      \<lparr>vIsAdmin = cIsAdmin c, vIsOwner = isOwner, vIsOrganizer = False, vIsPresenter = False,
       vIsMember = onRoster, vHasJoined = onRoster, vCanEdit = isOwner,
       vCanDelete = cIsAdmin c, vCanManageMembers = isOwner\<rparr>)"

definition gatheringViewer :: "caller \<Rightarrow> GatheringAccess \<Rightarrow> ViewerContext" where
  "gatheringViewer c access =
     \<lparr>vIsAdmin = cIsAdmin c, vIsOwner = IsOwner access, vIsOrganizer = False, vIsPresenter = False,
      vIsMember = IsMember access \<or> IsOwner access, vHasJoined = IsMember access,
      vCanEdit = IsOwner access, vCanDelete = IsOwner access \<or> cIsAdmin c,
      vCanManageMembers = IsOwner access\<rparr>"

definition eventViewer ::
  "caller \<Rightarrow> GatheringAccess \<Rightarrow> bool \<Rightarrow> bool \<Rightarrow> bool \<Rightarrow> ViewerContext" where
  "eventViewer c access isOrganizer isPresenter locked =
     (let canWrite = (IsOwner access \<or> isOrganizer) \<and> \<not> locked;
          canDelete = IsOwner access \<or> isOrganizer \<or> cIsAdmin c;
          canDelete = (if locked then cIsAdmin c else canDelete)
      in \<lparr>vIsAdmin = cIsAdmin c, vIsOwner = IsOwner access, vIsOrganizer = isOrganizer,
          vIsPresenter = isPresenter, vIsMember = IsMember access \<or> IsOwner access,
          vHasJoined = IsMember access, vCanEdit = canWrite, vCanDelete = canDelete,
          vCanManageMembers = IsOwner access \<and> \<not> locked\<rparr>)"

definition seriesViewer :: "caller \<Rightarrow> GatheringAccess \<Rightarrow> bool \<Rightarrow> bool \<Rightarrow> ViewerContext" where
  "seriesViewer c access isOrganizer isPresenter =
     (let canWrite = IsOwner access \<or> isOrganizer in
      \<lparr>vIsAdmin = cIsAdmin c, vIsOwner = IsOwner access, vIsOrganizer = isOrganizer,
       vIsPresenter = isPresenter, vIsMember = IsMember access \<or> IsOwner access,
       vHasJoined = IsMember access, vCanEdit = canWrite, vCanDelete = canWrite \<or> cIsAdmin c,
       vCanManageMembers = IsOwner access\<rparr>)"

text \<open>\<open>!now.Before(startsAt)\<close>: at the start instant the event has started.\<close>
definition lockedAt :: "instant \<Rightarrow> instant \<Rightarrow> bool" where
  "lockedAt startsAt now = (\<not> now < startsAt)"

named_theorems viewers "the viewer functions, unfolded"
declare organizationViewer_def [viewers] gatheringViewer_def [viewers]
  eventViewer_def [viewers] seriesViewer_def [viewers] Let_def [viewers]

lemma authenticated_Inr [simp]:
  "authenticated c s = (Inr x, t) \<longleftrightarrow> cID c \<noteq> [] \<and> x = c \<and> t = s"
  by (auto simp: authenticated_def)

lemma authenticated_steps [simp]:
  "bindE (authenticated c) f = (if cID c = [] then failed Unauthenticated else f c)"
  by (simp add: authenticated_def)

lemma pure_authenticated [intro, simp]: "pure_op (authenticated c)" "keeps P (authenticated c)"
  by (simp_all add: authenticated_def)

lemma lockedAt_mono: "lockedAt t now \<Longrightarrow> now \<le> now' \<Longrightarrow> lockedAt t now'"
  by (simp add: lockedAt_def)

end
