(* ===== verification/Store.thy ===== *)
theory Store
  imports Models "HOL-Library.List_Lexorder" "HOL-Library.Char_ord" "HOL-Library.Product_Lexorder"
begin

text \<open>
  The database of \<open>store/sqlite\<close>: its tables as lists of rows, with the
  constraints the migrations declare (primary and foreign keys, unique indexes,
  CHECKs, cascades), the clock a statement reads, and the supply of ids
  \<open>store.NewID\<close> draws from.  A statement that breaks a constraint fails with
  \<open>DBError\<close> and changes nothing; the loss of the database itself is not
  modelled.  This theory holds the people and organization statements
  (\<open>sqlite.go\<close>, \<open>people.go\<close>, \<open>organizations.go\<close>) and what every other table needs.
\<close>

datatype store_error = ErrNotFound | ErrLimitReached | DBError

section \<open>Rows\<close>

record organization_row =
  orID :: ident
  orOwn :: OrganizationInput
  orCreatedAt :: instant
  orUpdatedAt :: instant

record organization_member_row =
  omrOrganization :: ident
  omrUser :: ident
  omrRole :: OrganizationRole
  omrJoinedAt :: instant

record gathering_row =
  grID :: ident
  grOwn :: GatheringInput
  grCreatedAt :: instant
  grUpdatedAt :: instant

record gathering_owner_row =
  gorID :: ident
  gorGathering :: ident
  gorUser :: "ident option"
  gorOrganization :: "ident option"
  gorAddedAt :: instant

record gathering_member_row =
  gmrGathering :: ident
  gmrUser :: ident
  gmrJoinedAt :: instant

record event_row =
  erID :: ident
  erOwn :: EventInput
  erCreatedAt :: instant
  erUpdatedAt :: instant

record series_row =
  srID :: ident
  srOwn :: EventSeriesInput
  srCreatedAt :: instant
  srUpdatedAt :: instant

record attendance_row =
  arEvent :: ident
  arUser :: ident
  arMarkedAt :: instant

record event_role_row =
  rrID :: ident
  rrEvent :: "ident option"
  rrSeries :: "ident option"
  rrUser :: ident
  rrRole :: EventRole
  rrAssignedAt :: instant

record offer_row =
  frID :: ident
  frGathering :: ident
  frOrganization :: ident
  frOfferedBy :: ident
  frNote :: utext
  frStatus :: GatheringOfferStatus
  frCreatedAt :: instant
  frResolvedAt :: "instant option"

section \<open>The database\<close>

record core_db =
  clock :: instant
  ulid :: "nat \<Rightarrow> ident"
  minted :: nat
  settings :: InstanceSettings
  users :: "User list"
  organizations :: "organization_row list"
  organization_members :: "organization_member_row list"
  gatherings :: "gathering_row list"
  gathering_owners :: "gathering_owner_row list"
  gathering_members :: "gathering_member_row list"
  event_series :: "series_row list"
  events :: "event_row list"
  event_attendance :: "attendance_row list"
  event_roles :: "event_role_row list"
  gathering_offers :: "offer_row list"

text \<open>\<open>formatTime\<close> then \<open>parseTime\<close>: the layout has no fraction, so a stored time is a whole second.\<close>
definition second :: duration where "second = 1000000000"

definition stored_time :: "instant \<Rightarrow> instant" where
  "stored_time t = (t div second) * second"

text \<open>\<open>strftime('%Y-%m-%dT%H:%M:%SZ', 'now')\<close>.\<close>
definition nowSQL :: "'m core_db_scheme \<Rightarrow> instant" where
  "nowSQL s = stored_time (clock s)"

definition NewID :: "('m core_db_scheme, 'e, ident) oper" where
  "NewID s = (Inr (ulid s (minted s)), s\<lparr>minted := Suc (minted s)\<rparr>)"

text \<open>\<open>clamp\<close> of \<open>query.go\<close>, and LIMIT ... OFFSET with what it returns.\<close>
definition defaultLimit :: int where "defaultLimit = 25"
definition maxLimit :: int where "maxLimit = 100"

definition clamp :: "Page \<Rightarrow> int \<times> int" where
  "clamp p =
     (let limit = pLimit p;
          limit = (if limit \<le> 0 then defaultLimit else limit);
          limit = (if limit > maxLimit then maxLimit else limit);
          offset = (if pOffset p < 0 then 0 else pOffset p)
      in (limit, offset))"

definition page_rows :: "Page \<Rightarrow> 'r list \<Rightarrow> 'r list" where
  "page_rows p rs = (case clamp p of (limit, offset) \<Rightarrow> take (nat limit) (drop (nat offset) rs))"

section \<open>People\<close>

definition user_exists :: "ident \<Rightarrow> 'm core_db_scheme \<Rightarrow> bool" where
  "user_exists u s = has_row (\<lambda>x. uID x = u) (users s)"

definition UserByID :: "ident \<Rightarrow> ('m core_db_scheme, store_error, User) oper" where
  "UserByID u = bindE (reads (\<lambda>s. row (\<lambda>x. uID x = u) (users s))) (the_or ErrNotFound)"

definition ListAdmins :: "('m core_db_scheme, store_error, User list) oper" where
  "ListAdmins = reads (\<lambda>s. sort_key (\<lambda>u. (uAdminGrantedAt u \<noteq> None, (case uAdminGrantedAt u of None \<Rightarrow> 0 | Some t \<Rightarrow> t), uHandle u))
                 (filter uIsAdmin (users s)))"

definition SetAdminRow :: "ident \<Rightarrow> bool \<Rightarrow> ('m core_db_scheme, store_error, unit) oper" where
  "SetAdminRow u granted =
     thenE (require (user_exists u) ErrNotFound)
       (writes (\<lambda>s. s\<lparr>users := set_rows (\<lambda>x. uID x = u)
          (\<lambda>x. x\<lparr>uIsAdmin := granted, uAdminGrantedAt := (if granted then Some (nowSQL s) else None)\<rparr>) (users s)\<rparr>))"

end
