(* ===== verification/StoreOrganizations.thy ===== *)
theory StoreOrganizations
  imports Store
begin

text \<open>
  \<open>store/sqlite/organizations.go\<close>: the statements on \<open>organizations\<close> and
  \<open>organization_members\<close>, with their constraints and cascades.
\<close>

section \<open>Reading\<close>

definition organization_exists :: "ident \<Rightarrow> 'm core_db_scheme \<Rightarrow> bool" where
  "organization_exists i s = has_row (\<lambda>r. orID r = i) (organizations s)"

text \<open>\<open>organizationColumnsSQL\<close>: a row with its two roster counts.\<close>
definition scanOrganization :: "'m core_db_scheme \<Rightarrow> organization_row \<Rightarrow> Organization" where
  "scanOrganization s r =
     \<lparr>oID = orID r, oOwn = orOwn r,
      oMemberCount = count_rows (\<lambda>m. omrOrganization m = orID r) (organization_members s),
      oOwnerCount = count_rows (\<lambda>m. omrOrganization m = orID r \<and> omrRole m = RoleOwner) (organization_members s),
      oCreatedAt = orCreatedAt r, oUpdatedAt = orUpdatedAt r\<rparr>"

definition organization_by_id :: "ident \<Rightarrow> 'm core_db_scheme \<Rightarrow> Organization option" where
  "organization_by_id i s = map_option (scanOrganization s) (row (\<lambda>r. orID r = i) (organizations s))"

definition OrganizationByID :: "ident \<Rightarrow> ('m core_db_scheme, store_error, Organization) oper" where
  "OrganizationByID i = bindE (reads (organization_by_id i)) (the_or ErrNotFound)"

definition OrganizationBySlug :: "string \<Rightarrow> string \<Rightarrow> ('m core_db_scheme, store_error, Organization) oper" where
  "OrganizationBySlug domain slug =
     bindE (reads (\<lambda>s. map_option (scanOrganization s)
        (row (\<lambda>r. oiOriginDomain (orOwn r) = domain \<and> oiSlug (orOwn r) = slug) (organizations s))))
       (the_or ErrNotFound)"

definition organization_role :: "ident \<Rightarrow> ident \<Rightarrow> 'm core_db_scheme \<Rightarrow> OrganizationRole option" where
  "organization_role i u s =
     map_option omrRole (row (\<lambda>m. omrOrganization m = i \<and> omrUser m = u) (organization_members s))"

definition OrganizationRoleFor ::
  "ident \<Rightarrow> ident \<Rightarrow> ('m core_db_scheme, store_error, OrganizationRole option) oper" where
  "OrganizationRoleFor i u = reads (organization_role i u)"

text \<open>The roster joined to the people on it: owners first, then by joining time and handle.\<close>
definition roster :: "ident \<Rightarrow> 'm core_db_scheme \<Rightarrow> OrganizationMember list" where
  "roster i s = List.map_filter (\<lambda>m.
     if omrOrganization m = i
     then map_option (\<lambda>u. \<lparr>omOrganizationID = i, omUserID = omrUser m, omHandle = uHandle u,
            omLinkkeysDomain = uLinkkeysDomain u, omDisplayName = uDisplayName u,
            omRole = omrRole m, omJoinedAt = omrJoinedAt m\<rparr>)
          (row (\<lambda>u. uID u = omrUser m) (users s))
     else None) (organization_members s)"

definition ListOrganizationMembers ::
  "ident \<Rightarrow> Page \<Rightarrow> ('m core_db_scheme, store_error, OrganizationMember list \<times> int) oper" where
  "ListOrganizationMembers i page = reads (\<lambda>s.
     (page_rows page (sort_key (\<lambda>m. (omRole m \<noteq> RoleOwner, omJoinedAt m, omHandle m)) (roster i s)),
      count_rows (\<lambda>m. omrOrganization m = i) (organization_members s)))"

section \<open>Writing\<close>

text \<open>INSERT INTO organization_members ... ON CONFLICT DO UPDATE SET role.\<close>
definition SetOrganizationMemberRow ::
  "ident \<Rightarrow> ident \<Rightarrow> OrganizationRole \<Rightarrow> ('m core_db_scheme, store_error, unit) oper" where
  "SetOrganizationMemberRow i u role =
     thenE (require (\<lambda>s. organization_exists i s \<and> user_exists u s) DBError)
       (writes (\<lambda>s. s\<lparr>organization_members :=
          (if has_row (\<lambda>m. omrOrganization m = i \<and> omrUser m = u) (organization_members s)
           then set_rows (\<lambda>m. omrOrganization m = i \<and> omrUser m = u) (\<lambda>m. m\<lparr>omrRole := role\<rparr>)
                  (organization_members s)
           else organization_members s @
                  [\<lparr>omrOrganization = i, omrUser = u, omrRole = role, omrJoinedAt = nowSQL s\<rparr>])\<rparr>))"

definition RemoveOrganizationMemberRow ::
  "ident \<Rightarrow> ident \<Rightarrow> ('m core_db_scheme, store_error, unit) oper" where
  "RemoveOrganizationMemberRow i u = writes (\<lambda>s. s\<lparr>organization_members :=
     del_rows (\<lambda>m. omrOrganization m = i \<and> omrUser m = u) (organization_members s)\<rparr>)"

text \<open>
  One transaction: the organization and its first owner.  Each of the two
  inserts is checked before either is made visible, as a rolled-back
  transaction leaves neither.
\<close>
definition CreateOrganizationRow ::
  "OrganizationInput \<Rightarrow> ident \<Rightarrow> ('m core_db_scheme, store_error, Organization) oper" where
  "CreateOrganizationRow own firstOwner =
     bindE NewID (\<lambda>i.
     thenE (require (\<lambda>s. \<not> organization_exists i s
                \<and> \<not> has_row (\<lambda>r. oiOriginDomain (orOwn r) = oiOriginDomain own \<and> oiSlug (orOwn r) = oiSlug own)
                     (organizations s)
                \<and> user_exists firstOwner s) DBError)
    (thenE (writes (\<lambda>s. s\<lparr>
         organizations := organizations s @
           [\<lparr>orID = i, orOwn = own, orCreatedAt = nowSQL s, orUpdatedAt = nowSQL s\<rparr>],
         organization_members := organization_members s @
           [\<lparr>omrOrganization = i, omrUser = firstOwner, omrRole = RoleOwner, omrJoinedAt = nowSQL s\<rparr>]\<rparr>))
     (OrganizationByID i)))"

text \<open>The slug and the domain are not among the columns an update sets.\<close>
definition update_own :: "OrganizationInput \<Rightarrow> OrganizationInput \<Rightarrow> OrganizationInput" where
  "update_own new old = old\<lparr>oiName := oiName new, oiBlurb := oiBlurb new, oiDescription := oiDescription new,
     oiSearchText := oiSearchText new, oiPublishEvents := oiPublishEvents new\<rparr>"

definition UpdateOrganizationRow ::
  "ident \<Rightarrow> OrganizationInput \<Rightarrow> ('m core_db_scheme, store_error, Organization) oper" where
  "UpdateOrganizationRow i own =
     thenE (require (organization_exists i) ErrNotFound)
    (thenE (writes (\<lambda>s. s\<lparr>organizations := set_rows (\<lambda>r. orID r = i)
         (\<lambda>r. r\<lparr>orOwn := update_own own (orOwn r), orUpdatedAt := nowSQL s\<rparr>) (organizations s)\<rparr>))
     (OrganizationByID i))"

text \<open>DELETE, with the roster, the ownership rows and the offers that cascade.\<close>
definition DeleteOrganizationRow :: "ident \<Rightarrow> ('m core_db_scheme, store_error, unit) oper" where
  "DeleteOrganizationRow i = writes (\<lambda>s. s\<lparr>
     organizations := del_rows (\<lambda>r. orID r = i) (organizations s),
     organization_members := del_rows (\<lambda>m. omrOrganization m = i) (organization_members s),
     gathering_owners := del_rows (\<lambda>w. gorOrganization w = Some i) (gathering_owners s),
     gathering_offers := del_rows (\<lambda>f. frOrganization f = i) (gathering_offers s)\<rparr>)"

section \<open>The organization tables' invariant\<close>

text \<open>
  Unique ids and addresses, one roster row per person, roster rows that name an
  existing organization and person, and an owner for every organization.
\<close>
definition organizations_ok :: "'m core_db_scheme \<Rightarrow> bool" where
  "organizations_ok s \<longleftrightarrow>
     distinct (map orID (organizations s))
   \<and> distinct (map (\<lambda>r. (oiOriginDomain (orOwn r), oiSlug (orOwn r))) (organizations s))
   \<and> distinct (map (\<lambda>m. (omrOrganization m, omrUser m)) (organization_members s))
   \<and> (\<forall>m\<in>set (organization_members s). omrOrganization m \<in> orID ` set (organizations s)
        \<and> omrUser m \<in> uID ` set (users s))"

definition organizations_owned :: "'m core_db_scheme \<Rightarrow> bool" where
  "organizations_owned s \<longleftrightarrow> (\<forall>r\<in>set (organizations s).
     \<exists>m\<in>set (organization_members s). omrOrganization m = orID r \<and> omrRole m = RoleOwner)"

lemma organization_exists_iff: "organization_exists i s \<longleftrightarrow> i \<in> orID ` set (organizations s)"
  by (auto simp: organization_exists_def)

lemma user_exists_iff: "user_exists u s \<longleftrightarrow> u \<in> uID ` set (users s)"
  by (auto simp: user_exists_def)

lemma organization_by_id_Some:
  "organization_by_id i s = Some g \<Longrightarrow> oID g = i \<and> organization_exists i s
     \<and> oOwnerCount g = count_rows (\<lambda>m. omrOrganization m = i \<and> omrRole m = RoleOwner) (organization_members s)"
  by (auto simp: organization_by_id_def scanOrganization_def organization_exists_def dest!: row_SomeD)

lemma organization_by_id_None: "organization_by_id i s = None \<longleftrightarrow> \<not> organization_exists i s"
  by (auto simp: organization_by_id_def organization_exists_def row_None_iff)

lemma OrganizationByID_Inr [simp]:
  "OrganizationByID i s = (Inr g, t) \<longleftrightarrow> organization_by_id i s = Some g \<and> t = s"
  by (auto simp: OrganizationByID_def bindE_Inr)

lemma OrganizationByID_apply [oper_simps]:
  "OrganizationByID i s = (case organization_by_id i s of None \<Rightarrow> Inl ErrNotFound | Some g \<Rightarrow> Inr g, s)"
  by (simp add: OrganizationByID_def oper_simps the_or_def split: option.splits)

lemma pure_organization_reads [intro, simp]:
  "pure_op (OrganizationByID i)" "pure_op (OrganizationBySlug d g)" "pure_op (OrganizationRoleFor i u)"
  "pure_op (ListOrganizationMembers i p)" "pure_op (UserByID u)" "pure_op ListAdmins"
  by (auto simp: OrganizationByID_def OrganizationBySlug_def OrganizationRoleFor_def
      ListOrganizationMembers_def UserByID_def ListAdmins_def intro!: pure_op_bindE)

lemma organization_role_member:
  "organization_role i u s = Some r \<Longrightarrow> \<exists>m\<in>set (organization_members s).
     omrOrganization m = i \<and> omrUser m = u \<and> omrRole m = r"
  by (auto simp: organization_role_def dest!: row_SomeD)

lemma organization_role_unique:
  assumes "organizations_ok s" "m \<in> set (organization_members s)"
  shows "organization_role (omrOrganization m) (omrUser m) s = Some (omrRole m)"
proof -
  have "row (\<lambda>x. omrOrganization x = omrOrganization m \<and> omrUser x = omrUser m) (organization_members s) = Some m"
    using assms by (intro row_unique [where k = "\<lambda>m. (omrOrganization m, omrUser m)"])
      (auto simp: organizations_ok_def)
  then show ?thesis by (simp add: organization_role_def)
qed

lemma keeps_NewID [keeps_intros]:
  "(\<And>s n. P s \<Longrightarrow> P (s\<lparr>minted := n\<rparr>)) \<Longrightarrow> keeps P NewID"
  by (simp add: keeps_def NewID_def)

lemma ok_minted [simp]:
  "organizations_ok (s\<lparr>minted := n\<rparr>) = organizations_ok s"
  "organizations_owned (s\<lparr>minted := n\<rparr>) = organizations_owned s"
  by (simp_all add: organizations_ok_def organizations_owned_def)

text \<open>What the five writes do to the two tables, for the invariant proofs.\<close>
lemma keeps_ok_SetOrganizationMemberRow:
  "keeps organizations_ok (SetOrganizationMemberRow i u role)"
proof (rule keepsI)
  fix s :: "'m core_db_scheme" assume ok: "organizations_ok s"
  let ?p = "\<lambda>m. omrOrganization m = i \<and> omrUser m = u"
  show "organizations_ok (snd (SetOrganizationMemberRow i u role s))"
  proof (cases "has_row ?p (organization_members s)")
    case True
    have "map (\<lambda>m. (omrOrganization m, omrUser m))
        (set_rows ?p (\<lambda>m. m\<lparr>omrRole := role\<rparr>) (organization_members s))
      = map (\<lambda>m. (omrOrganization m, omrUser m)) (organization_members s)"
      by (rule set_rows_map_same) simp
    then show ?thesis using ok True
      by (auto simp: SetOrganizationMemberRow_def organizations_ok_def simp del: set_set_rows)
        (auto)
  next
    case False
    then show ?thesis using ok
      by (auto simp: SetOrganizationMemberRow_def organizations_ok_def organization_exists_iff user_exists_iff)
  qed
qed

lemma keeps_ok_RemoveOrganizationMemberRow:
  "keeps organizations_ok (RemoveOrganizationMemberRow i u)"
  by (rule keepsI) (auto simp: RemoveOrganizationMemberRow_def organizations_ok_def)

lemma keeps_ok_CreateOrganizationRow:
  "keeps organizations_ok (CreateOrganizationRow own u)"
  unfolding CreateOrganizationRow_def
proof (rule keeps_bindE)
  show "keeps organizations_ok NewID" by (rule keeps_NewID) simp
next
  fix i
  let ?c = "\<lambda>s. \<not> organization_exists i s
      \<and> \<not> has_row (\<lambda>r. oiOriginDomain (orOwn r) = oiOriginDomain own \<and> oiSlug (orOwn r) = oiSlug own)
           (organizations s) \<and> user_exists u s"
  show "keeps organizations_ok (thenE (require ?c DBError)
     (thenE (writes (\<lambda>s. s\<lparr>
         organizations := organizations s @
           [\<lparr>orID = i, orOwn = own, orCreatedAt = nowSQL s, orUpdatedAt = nowSQL s\<rparr>],
         organization_members := organization_members s @
           [\<lparr>omrOrganization = i, omrUser = u, omrRole = RoleOwner, omrJoinedAt = nowSQL s\<rparr>]\<rparr>))
       (OrganizationByID i)))"
    by (rule keepsI) (auto simp: organizations_ok_def organization_exists_iff user_exists_iff
        OrganizationByID_apply image_iff)
qed

lemma keeps_ok_UpdateOrganizationRow:
  "keeps organizations_ok (UpdateOrganizationRow i own)"
proof -
  have 1: "map orID (set_rows p (\<lambda>r. r\<lparr>orOwn := update_own own (orOwn r), orUpdatedAt := t\<rparr>) rs) = map orID rs"
    for p t rs by (rule set_rows_map_same) simp
  have 2: "map (\<lambda>r. (oiOriginDomain (orOwn r), oiSlug (orOwn r)))
     (set_rows p (\<lambda>r. r\<lparr>orOwn := update_own own (orOwn r), orUpdatedAt := t\<rparr>) rs)
     = map (\<lambda>r. (oiOriginDomain (orOwn r), oiSlug (orOwn r))) rs"
    for p t rs by (rule set_rows_map_same) (simp add: update_own_def)
  have 3: "orID ` set (set_rows p (\<lambda>r. r\<lparr>orOwn := update_own own (orOwn r), orUpdatedAt := t\<rparr>) rs)
     = orID ` set rs" for p t rs
    using 1 [of p t rs] by (metis list.set_map)
  show ?thesis
    by (rule keepsI)
      (auto simp: UpdateOrganizationRow_def organizations_ok_def OrganizationByID_apply 1 2 3
        simp del: set_set_rows)
qed

lemma keeps_ok_DeleteOrganizationRow:
  "keeps organizations_ok (DeleteOrganizationRow i)"
  by (rule keepsI) (auto simp: DeleteOrganizationRow_def organizations_ok_def)

lemmas keeps_ok_organizations [keeps_intros] =
  keeps_ok_SetOrganizationMemberRow keeps_ok_RemoveOrganizationMemberRow keeps_ok_CreateOrganizationRow
  keeps_ok_UpdateOrganizationRow keeps_ok_DeleteOrganizationRow

text \<open>Ownership: only a demotion or a removal can take an organization's last owner.\<close>

lemma keeps_owned_CreateOrganizationRow: "keeps organizations_owned (CreateOrganizationRow own u)"
  by (rule keepsI)
    (auto simp: CreateOrganizationRow_def NewID_def bindE_def organizations_owned_def OrganizationByID_apply require_def thenE_apply)

lemma keeps_owned_UpdateOrganizationRow: "keeps organizations_owned (UpdateOrganizationRow i own)"
  by (rule keepsI)
    (auto simp: UpdateOrganizationRow_def organizations_owned_def OrganizationByID_apply)

lemma keeps_owned_DeleteOrganizationRow: "keeps organizations_owned (DeleteOrganizationRow i)"
  by (rule keepsI) (fastforce simp: DeleteOrganizationRow_def organizations_owned_def)

text \<open>Every roster row survives an upsert, with a new role at most.\<close>
lemma SetOrganizationMemberRow_rows:
  assumes "m \<in> set (organization_members s)"
  shows "\<exists>m'\<in>set (organization_members (snd (SetOrganizationMemberRow i u role s))).
     omrOrganization m' = omrOrganization m \<and> omrUser m' = omrUser m
     \<and> (omrRole m' = omrRole m \<or> omrOrganization m = i \<and> omrUser m = u \<and> omrRole m' = role)"
proof (cases "omrOrganization m = i \<and> omrUser m = u")
  case True
  let ?m = "if organization_exists i s \<and> user_exists u s then m\<lparr>omrRole := role\<rparr> else m"
  have "?m \<in> set (organization_members (snd (SetOrganizationMemberRow i u role s)))"
    using True assms by (auto simp: SetOrganizationMemberRow_def image_iff)
  then show ?thesis using True by (intro bexI [of _ ?m]) auto
next
  case False
  then show ?thesis using assms
    by (auto simp: SetOrganizationMemberRow_def image_iff require_def thenE_apply intro!: bexI [of _ m])
qed

lemma SetOrganizationMemberRow_organizations [simp]:
  "organizations (snd (SetOrganizationMemberRow i u role s)) = organizations s"
  by (simp add: SetOrganizationMemberRow_def)

lemma keeps_owned_promote: "keeps organizations_owned (SetOrganizationMemberRow i u RoleOwner)"
proof (rule keepsI)
  fix s :: "'m core_db_scheme" assume owned: "organizations_owned s"
  show "organizations_owned (snd (SetOrganizationMemberRow i u RoleOwner s))"
    unfolding organizations_owned_def SetOrganizationMemberRow_organizations
  proof
    fix r assume "r \<in> set (organizations s)"
    then obtain m where "m \<in> set (organization_members s)" "omrOrganization m = orID r" "omrRole m = RoleOwner"
      using owned by (auto simp: organizations_owned_def)
    with SetOrganizationMemberRow_rows [of m s i u RoleOwner]
    show "\<exists>m\<in>set (organization_members (snd (SetOrganizationMemberRow i u RoleOwner s))).
        omrOrganization m = orID r \<and> omrRole m = RoleOwner" by metis
  qed
qed

lemmas keeps_owned [keeps_intros] =
  keeps_owned_CreateOrganizationRow keeps_owned_UpdateOrganizationRow
  keeps_owned_DeleteOrganizationRow keeps_owned_promote

text \<open>A change to a roster row that leaves another owner leaves the organization owned.\<close>

definition last_owner :: "ident \<Rightarrow> ident \<Rightarrow> 'm core_db_scheme \<Rightarrow> bool" where
  "last_owner i u s \<longleftrightarrow> organization_role i u s = Some RoleOwner
     \<and> count_rows (\<lambda>m. omrOrganization m = i \<and> omrRole m = RoleOwner) (organization_members s) \<le> 1"

lemma other_owner:
  assumes ok: "organizations_ok s" and owned: "organizations_owned s"
    and i: "i \<in> orID ` set (organizations s)" and nl: "\<not> last_owner i u s"
  shows "\<exists>m\<in>set (organization_members s). omrOrganization m = i \<and> omrRole m = RoleOwner \<and> omrUser m \<noteq> u"
proof -
  let ?q = "\<lambda>m. omrOrganization m = i \<and> omrRole m = RoleOwner"
  obtain m where m: "m \<in> set (organization_members s)" "?q m"
    using owned i by (auto simp: organizations_owned_def)
  show ?thesis
  proof (cases "omrUser m = u")
    case True
    have "organization_role i u s = Some RoleOwner"
      using organization_role_unique [OF ok m(1)] m(2) True by simp
    with nl have c: "1 < length (filter ?q (organization_members s))"
      by (auto simp: last_owner_def count_rows_def)
    have "distinct (map (\<lambda>m. (omrOrganization m, omrUser m)) (filter ?q (organization_members s)))"
      using ok by (auto simp: organizations_ok_def intro: distinct_map_filter)
    then have "distinct (filter ?q (organization_members s))" by (simp add: distinct_map)
    with c have "card (set (filter ?q (organization_members s))) > 1"
      by (simp add: distinct_card del: set_filter)
    then have "\<not> set (filter ?q (organization_members s)) \<subseteq> {m}"
      by (metis card.empty card_insert_disjoint card_mono empty_iff finite.emptyI finite.insertI
          leD One_nat_def)
    then obtain n where n: "n \<in> set (organization_members s)" "?q n" "n \<noteq> m" by auto
    have "omrUser n \<noteq> u"
      using distinct_map_inj [of "\<lambda>m. (omrOrganization m, omrUser m)" "organization_members s" n m]
        ok n m True by (auto simp: organizations_ok_def)
    with n show ?thesis by blast
  qed (use m in blast)
qed

lemma owned_after_demote:
  assumes "organizations_ok s" "organizations_owned s" "\<not> last_owner i u s"
  shows "organizations_owned (snd (SetOrganizationMemberRow i u role s))"
proof -
  { fix r assume r: "r \<in> set (organizations s)"
    have "\<exists>m\<in>set (organization_members s). omrOrganization m = orID r \<and> omrRole m = RoleOwner
            \<and> (omrOrganization m = i \<longrightarrow> omrUser m \<noteq> u)"
    proof (cases "orID r = i")
      case True
      then show ?thesis using other_owner [OF assms(1,2) _ assms(3)] r by blast
    next
      case False
      obtain m where "m \<in> set (organization_members s)" "omrOrganization m = orID r" "omrRole m = RoleOwner"
        using assms(2) r by (auto simp: organizations_owned_def)
      with False show ?thesis by (intro bexI [of _ m]) auto
    qed }
  note keep = this
  show ?thesis
    unfolding organizations_owned_def SetOrganizationMemberRow_organizations
  proof
    fix r assume "r \<in> set (organizations s)"
    from keep [OF this] obtain m where m: "m \<in> set (organization_members s)" "omrOrganization m = orID r"
      "omrRole m = RoleOwner" "omrOrganization m = i \<longrightarrow> omrUser m \<noteq> u" by blast
    with SetOrganizationMemberRow_rows [of m s i u role]
    show "\<exists>m\<in>set (organization_members (snd (SetOrganizationMemberRow i u role s))).
        omrOrganization m = orID r \<and> omrRole m = RoleOwner" by metis
  qed
qed

lemma owned_after_remove:
  assumes "organizations_ok s" "organizations_owned s" "\<not> last_owner i u s"
  shows "organizations_owned (snd (RemoveOrganizationMemberRow i u s))"
proof -
  { fix r assume r: "r \<in> set (organizations s)"
    have "\<exists>m\<in>set (organization_members s). omrOrganization m = orID r \<and> omrRole m = RoleOwner
            \<and> \<not> (omrOrganization m = i \<and> omrUser m = u)"
    proof (cases "orID r = i")
      case True
      then show ?thesis using other_owner [OF assms(1,2) _ assms(3)] r by blast
    next
      case False
      obtain m where "m \<in> set (organization_members s)" "omrOrganization m = orID r" "omrRole m = RoleOwner"
        using assms(2) r by (auto simp: organizations_owned_def)
      with False show ?thesis by (intro bexI [of _ m]) auto
    qed }
  then show ?thesis
    by (auto simp: RemoveOrganizationMemberRow_def organizations_owned_def)
qed

end
