(* ===== verification/StoreGatherings.thy ===== *)
theory StoreGatherings
  imports StoreOrganizations
begin

text \<open>
  \<open>store/sqlite/gatherings.go\<close> and \<open>offers.go\<close>: gatherings, their owners and
  members, who has what standing in one, and the offers that move a gathering
  under an organization.  The cascades of the two event tables are here too,
  because deleting a gathering runs them.
\<close>

section \<open>Owners and access\<close>

definition gathering_exists :: "ident \<Rightarrow> 'm core_db_scheme \<Rightarrow> bool" where
  "gathering_exists g s = has_row (\<lambda>r. grID r = g) (gatherings s)"

text \<open>\<open>loadOwners\<close>: both kinds of owner, ordered by kind and handle (organizations sort first).\<close>
definition loadOwners :: "ident \<Rightarrow> 'm core_db_scheme \<Rightarrow> OwnerRef list" where
  "loadOwners g s =
     sort_key owHandle (List.map_filter (\<lambda>w.
        if gorGathering w = g then
          (case gorOrganization w of
             None \<Rightarrow> None
           | Some i \<Rightarrow> map_option (\<lambda>r. \<lparr>owKind = OwnerOrganization, owID = orID r, owDisplayName = oiName (orOwn r),
                  owHandle = oiSlug (orOwn r), owOriginDomain = oiOriginDomain (orOwn r)\<rparr>)
                (row (\<lambda>r. orID r = i) (organizations s)))
        else None) (gathering_owners s))
     @ sort_key owHandle (List.map_filter (\<lambda>w.
        if gorGathering w = g then
          (case gorUser w of
             None \<Rightarrow> None
           | Some u \<Rightarrow> map_option (\<lambda>r. \<lparr>owKind = OwnerUser, owID = uID r, owDisplayName = uDisplayName r,
                  owHandle = uHandle r, owOriginDomain = uLinkkeysDomain r\<rparr>)
                (row (\<lambda>r. uID r = u) (users s)))
        else None) (gathering_owners s))"

text \<open>\<open>GatheringAccessFor\<close>: membership, and ownership held directly or through an organization.\<close>
definition owns_directly :: "ident \<Rightarrow> ident \<Rightarrow> 'm core_db_scheme \<Rightarrow> bool" where
  "owns_directly g u s = has_row (\<lambda>w. gorGathering w = g \<and> gorUser w = Some u) (gathering_owners s)"

definition owns_through :: "ident \<Rightarrow> ident \<Rightarrow> 'm core_db_scheme \<Rightarrow> bool" where
  "owns_through g u s = has_row (\<lambda>w. gorGathering w = g \<and>
      has_row (\<lambda>m. gorOrganization w = Some (omrOrganization m) \<and> omrUser m = u \<and> omrRole m = RoleOwner)
        (organization_members s)) (gathering_owners s)"

definition gathering_access :: "ident \<Rightarrow> ident \<Rightarrow> 'm core_db_scheme \<Rightarrow> GatheringAccess" where
  "gathering_access g u s =
     (if u = [] then \<lparr>IsMember = False, IsOwner = False\<rparr>
      else \<lparr>IsMember = has_row (\<lambda>m. gmrGathering m = g \<and> gmrUser m = u) (gathering_members s),
            IsOwner = owns_directly g u s \<or> owns_through g u s\<rparr>)"

definition GatheringAccessFor :: "ident \<Rightarrow> ident \<Rightarrow> ('m core_db_scheme, store_error, GatheringAccess) oper" where
  "GatheringAccessFor g u = reads (gathering_access g u)"

section \<open>Reading a gathering\<close>

definition next_start :: "instant \<Rightarrow> event_row list \<Rightarrow> instant option" where
  "next_start now es =
     (let ts = map (\<lambda>e. eiStartsAt (erOwn e)) (filter (\<lambda>e. now < eiStartsAt (erOwn e)) es)
      in if ts = [] then None else Some (Min (set ts)))"

definition scanGathering :: "'m core_db_scheme \<Rightarrow> gathering_row \<Rightarrow> Gathering" where
  "scanGathering s r =
     \<lparr>gID = grID r, gOwn = grOwn r, gOwners = loadOwners (grID r) s,
      gMemberCount = count_rows (\<lambda>m. gmrGathering m = grID r) (gathering_members s),
      gEventCount = count_rows (\<lambda>e. eiGatheringID (erOwn e) = grID r \<and> eiSeriesID (erOwn e) = None) (events s)
                  + count_rows (\<lambda>e. siGatheringID (srOwn e) = grID r) (event_series s),
      gNextEventAt = next_start (nowSQL s) (filter (\<lambda>e. eiGatheringID (erOwn e) = grID r) (events s)),
      gCreatedAt = grCreatedAt r, gUpdatedAt = grUpdatedAt r\<rparr>"

definition gathering_by_id :: "ident \<Rightarrow> 'm core_db_scheme \<Rightarrow> Gathering option" where
  "gathering_by_id g s = map_option (scanGathering s) (row (\<lambda>r. grID r = g) (gatherings s))"

definition GatheringByID :: "ident \<Rightarrow> ('m core_db_scheme, store_error, Gathering) oper" where
  "GatheringByID g = bindE (reads (gathering_by_id g)) (the_or ErrNotFound)"

text \<open>\<open>GatheringBySlug\<close>: its only caller asks whether the address is free.\<close>
definition GatheringBySlug :: "string \<Rightarrow> string \<Rightarrow> ('m core_db_scheme, store_error, Gathering) oper" where
  "GatheringBySlug domain slug =
     bindE (reads (\<lambda>s. map_option (\<lambda>r. (scanGathering s r)\<lparr>gOwners := []\<rparr>)
        (row (\<lambda>r. oiOriginDomain (grOwn r) = domain \<and> oiSlug (grOwn r) = slug) (gatherings s))))
       (the_or ErrNotFound)"

definition ListGatheringMembers ::
  "ident \<Rightarrow> Page \<Rightarrow> ('m core_db_scheme, store_error, GatheringMember list \<times> int) oper" where
  "ListGatheringMembers g page = reads (\<lambda>s.
     (page_rows page (sort_key (\<lambda>m. (gmJoinedAt m, gmHandle m)) (List.map_filter (\<lambda>m.
        if gmrGathering m = g
        then map_option (\<lambda>u. \<lparr>gmGatheringID = g, gmUserID = gmrUser m, gmHandle = uHandle u,
               gmLinkkeysDomain = uLinkkeysDomain u, gmDisplayName = uDisplayName u,
               gmJoinedAt = gmrJoinedAt m\<rparr>) (row (\<lambda>u. uID u = gmrUser m) (users s))
        else None) (gathering_members s))),
      count_rows (\<lambda>m. gmrGathering m = g) (gathering_members s)))"

definition CountGatheringOwners :: "ident \<Rightarrow> ('m core_db_scheme, store_error, int) oper" where
  "CountGatheringOwners g = reads (\<lambda>s. count_rows (\<lambda>w. gorGathering w = g) (gathering_owners s))"

section \<open>Writing a gathering\<close>

text \<open>\<open>ownerValues\<close>: the two nullable columns, of which the CHECK admits exactly one.\<close>
definition ownerValues :: "OwnerKind \<Rightarrow> ident \<Rightarrow> ident option \<times> ident option" where
  "ownerValues kind i = (case kind of OwnerOrganization \<Rightarrow> (None, Some i) | OwnerUser \<Rightarrow> (Some i, None))"

definition owner_target_exists :: "OwnerKind \<Rightarrow> ident \<Rightarrow> 'm core_db_scheme \<Rightarrow> bool" where
  "owner_target_exists kind i s =
     (case kind of OwnerOrganization \<Rightarrow> organization_exists i s | OwnerUser \<Rightarrow> user_exists i s)"

definition owner_row_is :: "ident \<Rightarrow> OwnerKind \<Rightarrow> ident \<Rightarrow> gathering_owner_row \<Rightarrow> bool" where
  "owner_row_is g kind i w \<longleftrightarrow> gorGathering w = g \<and>
     (case kind of OwnerOrganization \<Rightarrow> gorOrganization w = Some i | OwnerUser \<Rightarrow> gorUser w = Some i)"

definition CreateGatheringRow ::
  "GatheringInput \<Rightarrow> OwnerKind \<Rightarrow> ident \<Rightarrow> ('m core_db_scheme, store_error, Gathering) oper" where
  "CreateGatheringRow own kind i =
     bindE NewID (\<lambda>g. bindE NewID (\<lambda>wid.
     thenE (require (\<lambda>s. \<not> gathering_exists g s
                \<and> \<not> has_row (\<lambda>r. oiOriginDomain (grOwn r) = oiOriginDomain own \<and> oiSlug (grOwn r) = oiSlug own)
                     (gatherings s)
                \<and> \<not> has_row (\<lambda>w. gorID w = wid) (gathering_owners s)
                \<and> owner_target_exists kind i s) DBError)
    (thenE (writes (\<lambda>s. s\<lparr>
         gatherings := gatherings s @
           [\<lparr>grID = g, grOwn = own, grCreatedAt = nowSQL s, grUpdatedAt = nowSQL s\<rparr>],
         gathering_owners := gathering_owners s @
           [\<lparr>gorID = wid, gorGathering = g, gorUser = fst (ownerValues kind i),
             gorOrganization = snd (ownerValues kind i), gorAddedAt = nowSQL s\<rparr>]\<rparr>))
     (GatheringByID g))))"

definition UpdateGatheringRow ::
  "ident \<Rightarrow> GatheringInput \<Rightarrow> ('m core_db_scheme, store_error, Gathering) oper" where
  "UpdateGatheringRow g own =
     thenE (require (gathering_exists g) ErrNotFound)
    (thenE (writes (\<lambda>s. s\<lparr>gatherings := set_rows (\<lambda>r. grID r = g)
         (\<lambda>r. r\<lparr>grOwn := update_own own (grOwn r), grUpdatedAt := nowSQL s\<rparr>) (gatherings s)\<rparr>))
     (GatheringByID g))"

text \<open>INSERT ... ON CONFLICT DO NOTHING, through whichever partial index applies.\<close>
definition AddGatheringOwnerRow ::
  "ident \<Rightarrow> OwnerKind \<Rightarrow> ident \<Rightarrow> ('m core_db_scheme, store_error, unit) oper" where
  "AddGatheringOwnerRow g kind i =
     bindE NewID (\<lambda>wid.
     bindE (reads (\<lambda>s. has_row (owner_row_is g kind i) (gathering_owners s))) (\<lambda>already.
     if already then ret ()
     else thenE (require (\<lambda>s. gathering_exists g s \<and> owner_target_exists kind i s
                    \<and> \<not> has_row (\<lambda>w. gorID w = wid) (gathering_owners s)) DBError)
       (writes (\<lambda>s. s\<lparr>gathering_owners := gathering_owners s @
           [\<lparr>gorID = wid, gorGathering = g, gorUser = fst (ownerValues kind i),
             gorOrganization = snd (ownerValues kind i), gorAddedAt = nowSQL s\<rparr>]\<rparr>))))"

definition RemoveGatheringOwnerRow ::
  "ident \<Rightarrow> OwnerKind \<Rightarrow> ident \<Rightarrow> ('m core_db_scheme, store_error, unit) oper" where
  "RemoveGatheringOwnerRow g kind i = writes (\<lambda>s. s\<lparr>gathering_owners :=
     del_rows (owner_row_is g kind i) (gathering_owners s)\<rparr>)"

definition JoinGatheringRow :: "ident \<Rightarrow> ident \<Rightarrow> ('m core_db_scheme, store_error, unit) oper" where
  "JoinGatheringRow g u =
     bindE (reads (\<lambda>s. has_row (\<lambda>m. gmrGathering m = g \<and> gmrUser m = u) (gathering_members s))) (\<lambda>already.
     if already then ret ()
     else thenE (require (\<lambda>s. gathering_exists g s \<and> user_exists u s) DBError)
       (writes (\<lambda>s. s\<lparr>gathering_members := gathering_members s @
           [\<lparr>gmrGathering = g, gmrUser = u, gmrJoinedAt = nowSQL s\<rparr>]\<rparr>)))"

definition LeaveGatheringRow :: "ident \<Rightarrow> ident \<Rightarrow> ('m core_db_scheme, store_error, unit) oper" where
  "LeaveGatheringRow g u = writes (\<lambda>s. s\<lparr>gathering_members :=
     del_rows (\<lambda>m. gmrGathering m = g \<and> gmrUser m = u) (gathering_members s)\<rparr>)"

section \<open>The cascades under a gathering\<close>

text \<open>Deleting events takes their attendance and their roles.\<close>
definition delete_events :: "(event_row \<Rightarrow> bool) \<Rightarrow> 'm core_db_scheme \<Rightarrow> 'm core_db_scheme" where
  "delete_events p s =
     (let gone = (\<lambda>i. has_row (\<lambda>e. p e \<and> erID e = i) (events s)) in
      s\<lparr>events := del_rows p (events s),
        event_attendance := del_rows (\<lambda>a. gone (arEvent a)) (event_attendance s),
        event_roles := del_rows (\<lambda>r. \<exists>i\<in>set_option (rrEvent r). gone i) (event_roles s)\<rparr>)"

text \<open>Deleting series takes their roles and leaves their events with a null series.\<close>
definition delete_series :: "(series_row \<Rightarrow> bool) \<Rightarrow> 'm core_db_scheme \<Rightarrow> 'm core_db_scheme" where
  "delete_series p s =
     (let gone = (\<lambda>i. has_row (\<lambda>x. p x \<and> srID x = i) (event_series s)) in
      s\<lparr>event_series := del_rows p (event_series s),
        events := set_rows (\<lambda>e. \<exists>i\<in>set_option (eiSeriesID (erOwn e)). gone i)
                    (\<lambda>e. e\<lparr>erOwn := (erOwn e)\<lparr>eiSeriesID := None\<rparr>\<rparr>) (events s),
        event_roles := del_rows (\<lambda>r. \<exists>i\<in>set_option (rrSeries r). gone i) (event_roles s)\<rparr>)"

definition DeleteGatheringRow :: "ident \<Rightarrow> ('m core_db_scheme, store_error, unit) oper" where
  "DeleteGatheringRow g = writes (\<lambda>s.
     let s = delete_events (\<lambda>e. eiGatheringID (erOwn e) = g) s;
         s = delete_series (\<lambda>x. siGatheringID (srOwn x) = g) s
     in s\<lparr>gatherings := del_rows (\<lambda>r. grID r = g) (gatherings s),
          gathering_owners := del_rows (\<lambda>w. gorGathering w = g) (gathering_owners s),
          gathering_members := del_rows (\<lambda>m. gmrGathering m = g) (gathering_members s),
          gathering_offers := del_rows (\<lambda>f. frGathering f = g) (gathering_offers s)\<rparr>)"

section \<open>Offers\<close>

text \<open>\<open>offerColumnsSQL\<close>: an offer joined to its gathering, its organization and who made it.\<close>
definition scanOffer :: "'m core_db_scheme \<Rightarrow> offer_row \<Rightarrow> GatheringOffer option" where
  "scanOffer s f =
     (case (row (\<lambda>r. grID r = frGathering f) (gatherings s),
            row (\<lambda>r. orID r = frOrganization f) (organizations s),
            row (\<lambda>u. uID u = frOfferedBy f) (users s)) of
        (Some g, Some i, Some u) \<Rightarrow>
          Some \<lparr>goID = frID f, goGatheringID = frGathering f, goGatheringName = oiName (grOwn g),
            goOrganizationID = frOrganization f, goOrganizationName = oiName (orOwn i),
            goOfferedByID = frOfferedBy f, goOfferedByHandle = uHandle u, goOfferedByName = uDisplayName u,
            goOfferedByDomain = uLinkkeysDomain u, goNote = frNote f, goStatus = frStatus f,
            goCreatedAt = frCreatedAt f, goResolvedAt = frResolvedAt f\<rparr>
      | _ \<Rightarrow> None)"

definition offer_by_id :: "ident \<Rightarrow> 'm core_db_scheme \<Rightarrow> GatheringOffer option" where
  "offer_by_id i s = Option.bind (row (\<lambda>f. frID f = i) (gathering_offers s)) (scanOffer s)"

definition GatheringOfferByID :: "ident \<Rightarrow> ('m core_db_scheme, store_error, GatheringOffer) oper" where
  "GatheringOfferByID i = bindE (reads (offer_by_id i)) (the_or ErrNotFound)"

definition pending_offer :: "ident \<Rightarrow> ident \<Rightarrow> offer_row \<Rightarrow> bool" where
  "pending_offer g i f \<longleftrightarrow> frGathering f = g \<and> frOrganization f = i \<and> frStatus f = OfferPending"

text \<open>A pending offer of the same pair is returned instead of making a second.\<close>
definition CreateGatheringOfferRow ::
  "ident \<Rightarrow> ident \<Rightarrow> ident \<Rightarrow> utext \<Rightarrow> ('m core_db_scheme, store_error, GatheringOffer) oper" where
  "CreateGatheringOfferRow g i offeredBy note =
     bindE (reads (\<lambda>s. row (pending_offer g i) (gathering_offers s))) (\<lambda>pending.
     case pending of
       Some f \<Rightarrow> GatheringOfferByID (frID f)
     | None \<Rightarrow>
         bindE NewID (\<lambda>fid.
         thenE (require (\<lambda>s. gathering_exists g s \<and> organization_exists i s \<and> user_exists offeredBy s
                    \<and> \<not> has_row (\<lambda>f. frID f = fid) (gathering_offers s)) DBError)
        (thenE (writes (\<lambda>s. s\<lparr>gathering_offers := gathering_offers s @
            [\<lparr>frID = fid, frGathering = g, frOrganization = i, frOfferedBy = offeredBy, frNote = note,
              frStatus = OfferPending, frCreatedAt = nowSQL s, frResolvedAt = None\<rparr>]\<rparr>))
         (GatheringOfferByID fid))))"

text \<open>UPDATE ... WHERE id = ? AND status = 'pending'; the answer is whether a row changed.\<close>
definition ResolveGatheringOffer ::
  "ident \<Rightarrow> GatheringOfferStatus \<Rightarrow> ('m core_db_scheme, store_error, bool) oper" where
  "ResolveGatheringOffer i status =
     bindE (reads (has_row (\<lambda>f. frID f = i \<and> frStatus f = OfferPending) \<circ> gathering_offers)) (\<lambda>changed.
     thenE (writes (\<lambda>s. s\<lparr>gathering_offers := set_rows (\<lambda>f. frID f = i \<and> frStatus f = OfferPending)
          (\<lambda>f. f\<lparr>frStatus := status, frResolvedAt := Some (nowSQL s)\<rparr>) (gathering_offers s)\<rparr>))
       (ret changed))"

end
