(* ===== verification/Publish.thy ===== *)
theory Publish
  imports Perms StoreGatherings
begin

text \<open>
  \<open>csilservices/publish.go\<close>: whether a gathering's events go to peer
  directories, decided by the most specific of three levels that is both set
  and allowed.  Also here: how a handler turns a store error into its own
  (\<open>internal\<close> and \<open>not_found\<close>).
\<close>

section \<open>Store errors in a handler\<close>

text \<open>\<open>return ..., err\<close>: whatever the store answered, the caller sees an internal failure.\<close>
definition internal :: "('s, store_error, 'a) oper \<Rightarrow> ('s, error, 'a) oper" where
  "internal m = map_err (\<lambda>_. Internal) m"

text \<open>\<open>errors.Is(err, store.ErrNotFound)\<close> answered with \<open>NotFound(resource)\<close>.\<close>
definition not_found :: "string \<Rightarrow> ('s, store_error, 'a) oper \<Rightarrow> ('s, error, 'a) oper" where
  "not_found res m = map_err (\<lambda>e. if e = ErrNotFound then NotFound res else Internal) m"

lemma internal_Inr [simp]: "internal m s = (Inr x, t) \<longleftrightarrow> m s = (Inr x, t)"
  by (simp add: internal_def)

lemma not_found_Inr [simp]: "not_found r m s = (Inr x, t) \<longleftrightarrow> m s = (Inr x, t)"
  by (simp add: not_found_def)

lemma internal_reads [simp]: "internal (reads f) = reads f" "internal (writes w) = writes w" "internal (ret x) = ret x"
  by (simp_all add: internal_def)

lemma keeps_internal [keeps_intros]: "keeps P m \<Longrightarrow> keeps P (internal m)"
  by (simp add: internal_def keeps_map_err)

lemma keeps_not_found [keeps_intros]: "keeps P m \<Longrightarrow> keeps P (not_found r m)"
  by (simp add: not_found_def keeps_map_err)

lemma pure_internal [simp]: "pure_op (internal m) = pure_op m" "pure_op (not_found r m) = pure_op m"
  by (simp_all add: internal_def not_found_def)

lemma snd_internal [simp]: "snd (internal m s) = snd (m s)" "snd (not_found r m s) = snd (m s)"
  by (simp_all add: internal_def not_found_def)

section \<open>The decision\<close>

datatype Source = FromInstance | FromOrganization | FromGathering

record PublishDecision =
  Publishing :: bool
  DecisionSource :: Source
  CanOverride :: bool

text \<open>\<open>resolvePublish\<close>; \<open>gathering\<close> is a pointer and may be nil.\<close>
definition resolvePublish ::
  "InstanceSettings \<Rightarrow> Gathering option \<Rightarrow> Organization list \<Rightarrow> PublishDecision" where
  "resolvePublish st gathering owners =
     (let decision = \<lparr>Publishing = (PublishDefault st = PublishIn), DecisionSource = FromInstance,
                       CanOverride = GatheringOverrideAllowed st\<rparr>;
          sawIn = list_ex (\<lambda>g. oiPublishEvents (oOwn g) = PublishIn) owners;
          sawOut = list_ex (\<lambda>g. oiPublishEvents (oOwn g) = PublishOut) owners;
          decision =
            (if OrganizationOverrideAllowed st
             then if sawOut then decision\<lparr>Publishing := False, DecisionSource := FromOrganization\<rparr>
                  else if sawIn then decision\<lparr>Publishing := True, DecisionSource := FromOrganization\<rparr>
                  else decision
             else decision)
      in case gathering of
           None \<Rightarrow> decision
         | Some g \<Rightarrow>
             if GatheringOverrideAllowed st
             then (case oiPublishEvents (gOwn g) of
                     PublishIn \<Rightarrow> decision\<lparr>Publishing := True, DecisionSource := FromGathering\<rparr>
                   | PublishOut \<Rightarrow> decision\<lparr>Publishing := False, DecisionSource := FromGathering\<rparr>
                   | PublishUnset \<Rightarrow> decision)
             else decision)"

text \<open>The owning organizations that can be read; an owner row that points at nothing says nothing.\<close>
definition owning_organizations :: "Gathering \<Rightarrow> 'm core_db_scheme \<Rightarrow> Organization list" where
  "owning_organizations g s =
     List.map_filter (\<lambda>w. if owKind w = OwnerOrganization then organization_by_id (owID w) s else None) (gOwners g)"

definition publishDecisionFor :: "Gathering option \<Rightarrow> ('m core_db_scheme, error, PublishDecision) oper" where
  "publishDecisionFor gathering =
     bindE (reads settings) (\<lambda>st.
     bindE (reads (\<lambda>s. case gathering of
               None \<Rightarrow> []
             | Some g \<Rightarrow> if OrganizationOverrideAllowed st then owning_organizations g s else [])) (\<lambda>owners.
     ret (resolvePublish st gathering owners)))"

text \<open>\<open>publishSettingOf\<close> and \<open>wirePublishSetting\<close>, between the column and the wire.\<close>
definition publishSettingOf :: "string option \<Rightarrow> PublishSetting \<times> bool" where
  "publishSettingOf p = (case p of
      None \<Rightarrow> (PublishUnset, False)
    | Some v \<Rightarrow> if v = ''in'' then (PublishIn, True)
        else if v = ''out'' then (PublishOut, True)
        else if v = ''unset'' then (PublishUnset, True)
        else (PublishUnset, False))"

definition wirePublishSetting :: "PublishSetting \<Rightarrow> string" where
  "wirePublishSetting p = (case p of PublishUnset \<Rightarrow> ''unset'' | PublishIn \<Rightarrow> ''in'' | PublishOut \<Rightarrow> ''out'')"

section \<open>The reference reading of the rule\<close>

text \<open>
  The levels from the most specific down: an answer that is set and allowed.
  Among the owning organizations an explicit \<open>out\<close> beats an explicit \<open>in\<close>.
\<close>
definition gathering_says :: "InstanceSettings \<Rightarrow> Gathering option \<Rightarrow> bool option" where
  "gathering_says st gathering = (case gathering of
      Some g \<Rightarrow> if GatheringOverrideAllowed st \<and> oiPublishEvents (gOwn g) \<noteq> PublishUnset
                then Some (oiPublishEvents (gOwn g) = PublishIn) else None
    | None \<Rightarrow> None)"

definition organizations_say :: "InstanceSettings \<Rightarrow> Organization list \<Rightarrow> bool option" where
  "organizations_say st owners =
     (if OrganizationOverrideAllowed st \<and> (\<exists>g\<in>set owners. oiPublishEvents (oOwn g) \<noteq> PublishUnset)
      then Some (\<forall>g\<in>set owners. oiPublishEvents (oOwn g) \<noteq> PublishOut) else None)"

definition most_specific :: "InstanceSettings \<Rightarrow> Gathering option \<Rightarrow> Organization list \<Rightarrow> bool" where
  "most_specific st gathering owners = (case gathering_says st gathering of
      Some b \<Rightarrow> b
    | None \<Rightarrow> (case organizations_say st owners of
        Some b \<Rightarrow> b
      | None \<Rightarrow> PublishDefault st = PublishIn))"

lemma resolvePublish_reference:
  "Publishing (resolvePublish st gathering owners) = most_specific st gathering owners"
proof -
  have sets: "(\<exists>g\<in>set owners. oiPublishEvents (oOwn g) \<noteq> PublishUnset)
      \<longleftrightarrow> list_ex (\<lambda>g. oiPublishEvents (oOwn g) = PublishIn) owners
         \<or> list_ex (\<lambda>g. oiPublishEvents (oOwn g) = PublishOut) owners"
  proof -
    have "p \<noteq> PublishUnset \<longleftrightarrow> p = PublishIn \<or> p = PublishOut" for p by (cases p) auto
    then show ?thesis by (auto simp: list_ex_iff)
  qed
  have outs: "(\<forall>g\<in>set owners. oiPublishEvents (oOwn g) \<noteq> PublishOut)
      \<longleftrightarrow> \<not> list_ex (\<lambda>g. oiPublishEvents (oOwn g) = PublishOut) owners"
    by (auto simp: list_ex_iff)
  show ?thesis
    unfolding most_specific_def gathering_says_def organizations_say_def resolvePublish_def Let_def sets outs
    by (auto split: option.splits PublishSetting.splits)
qed

lemma pure_publishDecisionFor [intro, simp]: "pure_op (publishDecisionFor g)"
  by (auto simp: publishDecisionFor_def intro!: pure_op_bindE)

lemma publishDecisionFor_apply [oper_simps]:
  "publishDecisionFor gathering s =
     (Inr (resolvePublish (settings s) gathering
        (case gathering of None \<Rightarrow> [] | Some g \<Rightarrow>
           if OrganizationOverrideAllowed (settings s) then owning_organizations g s else [])), s)"
  by (simp add: publishDecisionFor_def)

lemma publishSetting_roundtrip: "publishSettingOf (Some (wirePublishSetting p)) = (p, True)"
  by (cases p) (simp_all add: publishSettingOf_def wirePublishSetting_def)

end
