(* ===== verification/StoreWebhooks.thy ===== *)
theory StoreWebhooks
  imports Store
begin

text \<open>
  \<open>store/sqlite/webhooks.go\<close>: the webhook and delivery tables, as an extension
  of the database record, with the limit, the retry bookkeeping and the switch
  that turns a failing webhook off.  A delivery's payload is the structured
  body; its JSON text is the encoder's business.
\<close>

datatype WebhookOwnerKind = WebhookOwnerOrganization | WebhookOwnerGathering
datatype WebhookScope = WebhookScopeAll | WebhookScopeStructure

datatype Action = ActionCreated | ActionUpdated | ActionDeleted | ActionCancelled
datatype Subject = SubjectOrganization | SubjectGathering | SubjectEvent | SubjectSeries

text \<open>\<open>webhooks.Details\<close> and \<open>webhooks.payload\<close>: what a receiver is sent.\<close>
record Details =
  dtDescription :: utext
  dtBlurb :: utext
  dtStartsAt :: "instant option"
  dtEndsAt :: "instant option"
  dtTimezone :: string
  dtIsOnline :: bool
  dtIsInPerson :: bool
  dtOnlineURL :: utext
  dtLocation :: "(utext \<times> utext \<times> utext \<times> utext \<times> utext \<times> utext) option"
  dtRecurrence :: "(Recurrence \<times> string \<times> string) option"

record payload =
  plAction :: Action
  plSubject :: Subject
  plID :: ident
  plName :: utext
  plGathering :: ident
  plURL :: utext
  plAt :: instant
  plInstance :: string
  plDetails :: "Details option"

record Webhook =
  wID :: ident
  wOwnerKind :: WebhookOwnerKind
  wOwnerID :: ident
  wURL :: utext
  wSecret :: string
  wScope :: WebhookScope
  wNote :: utext
  wActive :: bool
  wIncludeDetails :: bool
  wFailureCount :: int
  wLastStatus :: "int option"
  wLastAttemptAt :: "instant option"
  wCreatedAt :: instant
  wUpdatedAt :: instant

record WebhookInput =
  wiURL :: utext
  wiScope :: WebhookScope
  wiNote :: utext
  wiActive :: bool
  wiIncludeDetails :: bool

record delivery_row =
  wdID :: ident
  wdWebhook :: ident
  wdPayload :: payload
  wdAttempts :: int
  wdNextTryAt :: instant
  wdLastError :: string
  wdCreatedAt :: instant

record WebhookDelivery =
  dvID :: ident
  dvWebhookID :: ident
  dvPayload :: payload
  dvAttempts :: int
  dvURL :: utext
  dvSecret :: string

record hook_db = core_db +
  webhooks :: "Webhook list"
  webhook_deliveries :: "delivery_row list"

section \<open>Statements\<close>

definition webhook_by_id :: "ident \<Rightarrow> 'm hook_db_scheme \<Rightarrow> Webhook option" where
  "webhook_by_id i s = row (\<lambda>w. wID w = i) (webhooks s)"

definition WebhookByID :: "ident \<Rightarrow> ('m hook_db_scheme, store_error, Webhook) oper" where
  "WebhookByID i = bindE (reads (webhook_by_id i)) (the_or ErrNotFound)"

definition on_level :: "WebhookOwnerKind \<Rightarrow> ident \<Rightarrow> Webhook \<Rightarrow> bool" where
  "on_level kind owner w \<longleftrightarrow> wOwnerKind w = kind \<and> wOwnerID w = owner"

text \<open>INSERT ... SELECT ... WHERE (SELECT count(*) ...) < limit.\<close>
definition CreateWebhookRow ::
  "WebhookOwnerKind \<Rightarrow> ident \<Rightarrow> WebhookInput \<Rightarrow> string \<Rightarrow> int \<Rightarrow> ('m hook_db_scheme, store_error, Webhook) oper" where
  "CreateWebhookRow kind owner own secret limit =
     bindE NewID (\<lambda>i.
     thenE (require (\<lambda>s. count_rows (on_level kind owner) (webhooks s) < limit) ErrLimitReached)
    (thenE (require (\<lambda>s. \<not> has_row (\<lambda>w. wID w = i) (webhooks s)) DBError)
    (thenE (writes (\<lambda>s. s\<lparr>webhooks := webhooks s @
        [\<lparr>wID = i, wOwnerKind = kind, wOwnerID = owner, wURL = wiURL own, wSecret = secret,
          wScope = wiScope own, wNote = wiNote own, wActive = True, wIncludeDetails = wiIncludeDetails own,
          wFailureCount = 0, wLastStatus = None, wLastAttemptAt = None,
          wCreatedAt = nowSQL s, wUpdatedAt = nowSQL s\<rparr>]\<rparr>))
     (WebhookByID i))))"

definition ListWebhooks ::
  "WebhookOwnerKind \<Rightarrow> ident \<Rightarrow> ('m hook_db_scheme, store_error, Webhook list) oper" where
  "ListWebhooks kind owner =
     reads (\<lambda>s. sort_key wCreatedAt (filter (on_level kind owner) (webhooks s)))"

text \<open>Switching a webhook back on clears its failure count.\<close>
definition UpdateWebhookRow :: "ident \<Rightarrow> WebhookInput \<Rightarrow> ('m hook_db_scheme, store_error, Webhook) oper" where
  "UpdateWebhookRow i own =
     thenE (writes (\<lambda>s. s\<lparr>webhooks := set_rows (\<lambda>w. wID w = i)
        (\<lambda>w. w\<lparr>wURL := wiURL own, wScope := wiScope own, wNote := wiNote own, wActive := wiActive own,
              wUpdatedAt := nowSQL s, wIncludeDetails := wiIncludeDetails own,
              wFailureCount := (if wiActive own \<and> \<not> wActive w then 0 else wFailureCount w)\<rparr>) (webhooks s)\<rparr>))
       (WebhookByID i)"

text \<open>Deleting webhooks takes the deliveries queued for them.\<close>
definition delete_webhooks :: "(Webhook \<Rightarrow> bool) \<Rightarrow> 'm hook_db_scheme \<Rightarrow> 'm hook_db_scheme" where
  "delete_webhooks p s =
     s\<lparr>webhooks := del_rows p (webhooks s),
       webhook_deliveries := del_rows (\<lambda>d. has_row (\<lambda>w. p w \<and> wID w = wdWebhook d) (webhooks s))
                               (webhook_deliveries s)\<rparr>"

definition DeleteWebhookRow :: "ident \<Rightarrow> ('m hook_db_scheme, store_error, unit) oper" where
  "DeleteWebhookRow i = writes (delete_webhooks (\<lambda>w. wID w = i))"

definition DeleteWebhooksFor ::
  "WebhookOwnerKind \<Rightarrow> ident \<Rightarrow> ('m hook_db_scheme, store_error, unit) oper" where
  "DeleteWebhooksFor kind owner = writes (delete_webhooks (on_level kind owner))"

definition QueueWebhookDelivery ::
  "ident \<Rightarrow> payload \<Rightarrow> instant \<Rightarrow> ('m hook_db_scheme, store_error, unit) oper" where
  "QueueWebhookDelivery w body now =
     bindE NewID (\<lambda>i.
     thenE (require (\<lambda>s. has_row (\<lambda>h. wID h = w) (webhooks s)
                \<and> \<not> has_row (\<lambda>d. wdID d = i) (webhook_deliveries s)) DBError)
       (writes (\<lambda>s. s\<lparr>webhook_deliveries := webhook_deliveries s @
          [\<lparr>wdID = i, wdWebhook = w, wdPayload = body, wdAttempts = 0, wdNextTryAt = stored_time now,
            wdLastError = [], wdCreatedAt = stored_time now\<rparr>]\<rparr>)))"

text \<open>Due now, on an active webhook, oldest first, at most \<open>limit\<close> of them.\<close>
definition due_delivery :: "'m hook_db_scheme \<Rightarrow> instant \<Rightarrow> delivery_row \<Rightarrow> bool" where
  "due_delivery s now d \<longleftrightarrow> wdNextTryAt d \<le> stored_time now
     \<and> has_row (\<lambda>w. wID w = wdWebhook d \<and> wActive w) (webhooks s)"

definition DueWebhookDeliveries ::
  "instant \<Rightarrow> nat \<Rightarrow> ('m hook_db_scheme, store_error, WebhookDelivery list) oper" where
  "DueWebhookDeliveries now limit = reads (\<lambda>s. take limit (List.map_filter (\<lambda>d.
      map_option (\<lambda>w. \<lparr>dvID = wdID d, dvWebhookID = wdWebhook d, dvPayload = wdPayload d,
         dvAttempts = wdAttempts d, dvURL = wURL w, dvSecret = wSecret w\<rparr>)
        (row (\<lambda>w. wID w = wdWebhook d) (webhooks s)))
      (sort_key wdNextTryAt (filter (due_delivery s now) (webhook_deliveries s)))))"

definition WebhookDelivered ::
  "ident \<Rightarrow> ident \<Rightarrow> int \<Rightarrow> instant \<Rightarrow> ('m hook_db_scheme, store_error, unit) oper" where
  "WebhookDelivered d w status now =
     thenE (writes (\<lambda>s. s\<lparr>webhook_deliveries := del_rows (\<lambda>x. wdID x = d) (webhook_deliveries s)\<rparr>))
       (writes (\<lambda>s. s\<lparr>webhooks := set_rows (\<lambda>x. wID x = w)
          (\<lambda>x. x\<lparr>wFailureCount := 0, wLastStatus := Some status, wLastAttemptAt := Some (stored_time now)\<rparr>)
          (webhooks s)\<rparr>))"

text \<open>
  One transaction: the attempt is counted and rescheduled, the webhook's failure
  is recorded, and at \<open>maxAttempts\<close> the delivery is dropped and its webhook
  switched off.  A delivery that is gone leaves everything as it was.
\<close>
definition WebhookFailed ::
  "ident \<Rightarrow> ident \<Rightarrow> int \<Rightarrow> string \<Rightarrow> instant \<Rightarrow> int \<Rightarrow> ('m hook_db_scheme, store_error, unit) oper" where
  "WebhookFailed d w status reason nextTry maxAttempts =
     bindE (reads (\<lambda>s. row (\<lambda>x. wdID x = d) (webhook_deliveries s))) (\<lambda>found.
     bindE (the_or ErrNotFound found) (\<lambda>x.
     let attempts = wdAttempts x + 1 in
     thenE (writes (\<lambda>s. s\<lparr>
         webhook_deliveries := set_rows (\<lambda>x. wdID x = d)
           (\<lambda>x. x\<lparr>wdAttempts := wdAttempts x + 1, wdNextTryAt := stored_time nextTry, wdLastError := reason\<rparr>)
           (webhook_deliveries s),
         webhooks := set_rows (\<lambda>x. wID x = w)
           (\<lambda>x. x\<lparr>wFailureCount := wFailureCount x + 1, wLastStatus := Some status,
                 wLastAttemptAt := Some (stored_time nextTry)\<rparr>) (webhooks s)\<rparr>))
     (if attempts \<ge> maxAttempts then
        writes (\<lambda>s. s\<lparr>webhook_deliveries := del_rows (\<lambda>x. wdID x = d) (webhook_deliveries s),
                     webhooks := set_rows (\<lambda>x. wID x = w) (\<lambda>x. x\<lparr>wActive := False\<rparr>) (webhooks s)\<rparr>)
      else ret ())))"

end
