(* ===== verification/Dispatch.thy ===== *)
theory Dispatch
  imports Publish StoreWebhooks
begin

text \<open>
  \<open>webhooks/webhooks.go\<close>, \<open>webhooks/sender.go\<close> and \<open>csilservices/notify.go\<close>: a
  change is matched against the webhooks that want it, one delivery row is
  written for each, and the sender drains the rows with backoff.  The POST
  itself is an oracle: the status it answered, and an error when it failed.
\<close>

record Change =
  chAction :: Action
  chSubject :: Subject
  chID :: ident
  chName :: utext
  chGatheringID :: ident
  chOrganizationIDs :: "ident list"
  chURL :: utext
  chDetails :: "Details option"
  chAt :: instant

record Dispatcher =
  dsOriginDomain :: string
  dsPublicBaseURL :: string

section \<open>Routing\<close>

text \<open>\<open>wants\<close>: the scope, and the switch.\<close>
definition wants :: "Webhook \<Rightarrow> Change \<Rightarrow> bool" where
  "wants hook change =
     (if \<not> wActive hook then False
      else if wScope hook = WebhookScopeStructure
      then (case chSubject change of SubjectEvent \<Rightarrow> False | SubjectSeries \<Rightarrow> False | _ \<Rightarrow> True)
      else True)"

definition matching :: "Change \<Rightarrow> ('m hook_db_scheme, store_error, Webhook list) oper" where
  "matching change =
     bindE (if chGatheringID change \<noteq> [] then ListWebhooks WebhookOwnerGathering (chGatheringID change) else ret [])
       (\<lambda>own. bindE (reads (\<lambda>s. concat (map (\<lambda>i. sort_key wCreatedAt
                  (filter (on_level WebhookOwnerOrganization i) (webhooks s))) (chOrganizationIDs change))))
       (\<lambda>orgs. ret (filter (\<lambda>h. wants h change) own @ filter (\<lambda>h. wants h change) orgs)))"

text \<open>The two bodies: a pointer, or the record for the owners who asked for it.\<close>
definition pointerBody :: "Dispatcher \<Rightarrow> Change \<Rightarrow> payload" where
  "pointerBody d change =
     \<lparr>plAction = chAction change, plSubject = chSubject change, plID = chID change, plName = chName change,
      plGathering = chGatheringID change, plURL = chURL change, plAt = chAt change,
      plInstance = dsOriginDomain d, plDetails = None\<rparr>"

definition bodyFor :: "Dispatcher \<Rightarrow> Change \<Rightarrow> Webhook \<Rightarrow> payload" where
  "bodyFor d change hook =
     (if wIncludeDetails hook \<and> chDetails change \<noteq> None
      then (pointerBody d change)\<lparr>plDetails := chDetails change\<rparr> else pointerBody d change)"

definition dispatch :: "Dispatcher \<Rightarrow> Change \<Rightarrow> ('m hook_db_scheme, store_error, unit) oper" where
  "dispatch d change =
     bindE (matching change) (\<lambda>hooks.
     each (\<lambda>hook. QueueWebhookDelivery (wID hook) (bodyFor d change hook) (chAt change)) hooks)"

text \<open>\<open>Dispatch\<close>: a nil dispatcher does nothing, and a failure is logged and swallowed.\<close>
definition Dispatch :: "Dispatcher option \<Rightarrow> Change \<Rightarrow> ('m hook_db_scheme, error, unit) oper" where
  "Dispatch d change s = (case d of None \<Rightarrow> (Inr (), s) | Some d \<Rightarrow> (Inr (), snd (dispatch d change s)))"

section \<open>notify.go\<close>

text \<open>The organizations that own a gathering; a gathering that cannot be read has none.\<close>
definition organizationsOwning :: "ident \<Rightarrow> 'm core_db_scheme \<Rightarrow> ident list" where
  "organizationsOwning g s = (case gathering_by_id g s of
      None \<Rightarrow> []
    | Some x \<Rightarrow> map owID (filter (\<lambda>w. owKind w = OwnerOrganization) (gOwners x)))"

definition emptyDetails :: Details where
  "emptyDetails = \<lparr>dtDescription = [], dtBlurb = [], dtStartsAt = None, dtEndsAt = None, dtTimezone = [],
     dtIsOnline = False, dtIsInPerson = False, dtOnlineURL = [], dtLocation = None, dtRecurrence = None\<rparr>"

definition locationDetails :: "Location \<Rightarrow> (utext \<times> utext \<times> utext \<times> utext \<times> utext \<times> utext) option" where
  "locationDetails l = (if IsZero l then None
     else Some (locName l, locAddress l, locLocality l, locRegion l, locPostalCode l, locCountry l))"

definition eventDetails :: "Event \<Rightarrow> Details" where
  "eventDetails e =
     \<lparr>dtDescription = eiDescription (eOwn e), dtBlurb = [], dtStartsAt = Some (eiStartsAt (eOwn e)),
      dtEndsAt = Some (eiEndsAt (eOwn e)), dtTimezone = eiTimezone (eOwn e), dtIsOnline = eiIsOnline (eOwn e),
      dtIsInPerson = eiIsInPerson (eOwn e), dtOnlineURL = eiOnlineURL (eOwn e),
      dtLocation = locationDetails (eiLocation (eOwn e)), dtRecurrence = None\<rparr>"

definition seriesDetails :: "EventSeries \<Rightarrow> Details" where
  "seriesDetails x =
     \<lparr>dtDescription = siDescription (sOwn x), dtBlurb = [], dtStartsAt = None, dtEndsAt = None,
      dtTimezone = siTimezone (sOwn x), dtIsOnline = siIsOnline (sOwn x), dtIsInPerson = siIsInPerson (sOwn x),
      dtOnlineURL = siOnlineURL (sOwn x), dtLocation = locationDetails (siLocation (sOwn x)),
      dtRecurrence = Some (siRecurrence (sOwn x), siStartTime (sOwn x), siTimezone (sOwn x))\<rparr>"

definition notifyOrganization ::
  "Dispatcher option \<Rightarrow> Action \<Rightarrow> Organization \<Rightarrow> ('m hook_db_scheme, error, unit) oper" where
  "notifyOrganization d action g = bindE (reads clock) (\<lambda>now. Dispatch d
     \<lparr>chAction = action, chSubject = SubjectOrganization, chID = oID g, chName = oiName (oOwn g),
      chGatheringID = [], chOrganizationIDs = [oID g], chURL = [],
      chDetails = Some (emptyDetails\<lparr>dtBlurb := oiBlurb (oOwn g), dtDescription := oiDescription (oOwn g)\<rparr>),
      chAt = now\<rparr>)"

definition notifyGathering ::
  "Dispatcher option \<Rightarrow> Action \<Rightarrow> Gathering \<Rightarrow> ident list \<Rightarrow> ('m hook_db_scheme, error, unit) oper" where
  "notifyGathering d action g orgs = bindE (reads clock) (\<lambda>now. Dispatch d
     \<lparr>chAction = action, chSubject = SubjectGathering, chID = gID g, chName = oiName (gOwn g),
      chGatheringID = gID g, chOrganizationIDs = orgs, chURL = [],
      chDetails = Some (emptyDetails\<lparr>dtBlurb := oiBlurb (gOwn g), dtDescription := oiDescription (gOwn g)\<rparr>),
      chAt = now\<rparr>)"

text \<open>Deleting an occurrence of a series is reported as a cancellation.\<close>
definition notifyEvent ::
  "Dispatcher option \<Rightarrow> Action \<Rightarrow> Event \<Rightarrow> ('m hook_db_scheme, error, unit) oper" where
  "notifyEvent d action e = bindE (reads (\<lambda>s. (clock s, organizationsOwning (eiGatheringID (eOwn e)) s))) (\<lambda>(now, orgs).
     let action = (if action = ActionDeleted \<and> eiSeriesID (eOwn e) \<noteq> None \<and> eiSeriesID (eOwn e) \<noteq> Some []
                   then ActionCancelled else action)
     in Dispatch d
       \<lparr>chAction = action, chSubject = SubjectEvent, chID = eID e, chName = eiTitle (eOwn e),
        chGatheringID = eiGatheringID (eOwn e), chOrganizationIDs = orgs, chURL = [],
        chDetails = Some (eventDetails e), chAt = now\<rparr>)"

definition notifySeries ::
  "Dispatcher option \<Rightarrow> Action \<Rightarrow> EventSeries \<Rightarrow> ('m hook_db_scheme, error, unit) oper" where
  "notifySeries d action x = bindE (reads (\<lambda>s. (clock s, organizationsOwning (siGatheringID (sOwn x)) s))) (\<lambda>(now, orgs).
     Dispatch d
       \<lparr>chAction = action, chSubject = SubjectSeries, chID = sID x, chName = siTitle (sOwn x),
        chGatheringID = siGatheringID (sOwn x), chOrganizationIDs = orgs, chURL = [],
        chDetails = Some (seriesDetails x), chAt = now\<rparr>)"

section \<open>The sender\<close>

definition MaxAttempts :: int where "MaxAttempts = 6"
definition BatchSize :: nat where "BatchSize = 50"
definition minute :: duration where "minute = 60 * second"

text \<open>\<open>time.Duration(1<<uint(d.Attempts)) * time.Minute\<close>, in 64-bit two's complement, capped at 32 minutes.\<close>
definition backoff :: "int \<Rightarrow> duration" where
  "backoff attempts =
     (let b = sint (push_bit (nat attempts) (1 :: 64 word) * word_of_int minute)
      in if b > 32 * minute then 32 * minute else b)"

text \<open>One delivery; \<open>post\<close> answers a status and, when it failed, a reason.\<close>
definition deliver ::
  "(WebhookDelivery \<Rightarrow> int \<times> string option) \<Rightarrow> WebhookDelivery \<Rightarrow> ('m hook_db_scheme, store_error, unit) oper" where
  "deliver post d =
     (case post d of (status, err) \<Rightarrow>
     bindE (reads clock) (\<lambda>now.
       case err of
         None \<Rightarrow> WebhookDelivered (dvID d) (dvWebhookID d) status now
       | Some reason \<Rightarrow> WebhookFailed (dvID d) (dvWebhookID d) status reason (now + backoff (dvAttempts d)) MaxAttempts))"

text \<open>\<open>Drain\<close>: a delivery that could not be recorded is logged and the pass goes on.\<close>
fun drain_each ::
  "(WebhookDelivery \<Rightarrow> int \<times> string option) \<Rightarrow> WebhookDelivery list \<Rightarrow> 'm hook_db_scheme \<Rightarrow> 'm hook_db_scheme" where
  "drain_each post [] s = s"
| "drain_each post (d # ds) s = drain_each post ds (snd (deliver post d s))"

definition Drain :: "(WebhookDelivery \<Rightarrow> int \<times> string option) \<Rightarrow> 'm hook_db_scheme \<Rightarrow> 'm hook_db_scheme" where
  "Drain post s = (case DueWebhookDeliveries (clock s) BatchSize s of
      (Inl _, t) \<Rightarrow> t | (Inr due, t) \<Rightarrow> drain_each post due t)"

end
