(* ===== verification/Frame.thy ===== *)
theory Frame
  imports Dispatch StoreOrganizations
begin

text \<open>
  What a notification does not touch.  A handler writes its own tables and then
  queues deliveries; \<open>core_frame\<close> says of an operation that it leaves every
  core table as it was, so an invariant of the core tables (\<open>core_only\<close>) needs
  no argument about the queue.
\<close>

text \<open>Notifications change only the delivery queue and the supply of ids.\<close>

definition same_core :: "'m core_db_scheme \<Rightarrow> 'n core_db_scheme \<Rightarrow> bool" where
  "same_core s t \<longleftrightarrow> clock s = clock t \<and> settings s = settings t \<and> users s = users t
     \<and> organizations s = organizations t \<and> organization_members s = organization_members t
     \<and> gatherings s = gatherings t \<and> gathering_owners s = gathering_owners t
     \<and> gathering_members s = gathering_members t \<and> event_series s = event_series t
     \<and> events s = events t \<and> event_attendance s = event_attendance t
     \<and> event_roles s = event_roles t \<and> gathering_offers s = gathering_offers t"

definition core_only :: "('m core_db_scheme \<Rightarrow> bool) \<Rightarrow> bool" where
  "core_only P \<longleftrightarrow> (\<forall>s t. same_core s t \<longrightarrow> P s = P t)"

lemma core_onlyD: "core_only P \<Longrightarrow> same_core s t \<Longrightarrow> P s \<Longrightarrow> P t"
  by (auto simp: core_only_def)

lemma core_only_organizations [simp]:
  "core_only organizations_ok" "core_only organizations_owned"
  by (simp_all add: core_only_def same_core_def organizations_ok_def organizations_owned_def)

text \<open>An operation that leaves the core tables alone.\<close>
definition core_frame :: "('m core_db_scheme, 'e, 'a) oper \<Rightarrow> bool" where
  "core_frame m \<longleftrightarrow> (\<forall>s. same_core s (snd (m s)))"

lemma same_core_refl [simp]: "same_core s s"
  by (simp add: same_core_def)

lemma same_core_trans: "same_core s t \<Longrightarrow> same_core t u \<Longrightarrow> same_core s u"
  by (simp add: same_core_def)

lemma core_frame_keeps: "core_frame m \<Longrightarrow> core_only P \<Longrightarrow> keeps P m"
  by (auto simp: core_frame_def keeps_def intro: core_onlyD)

named_theorems frame_intros "operations that leave the core tables alone"

lemma core_frame_pure: "pure_op m \<Longrightarrow> core_frame m"
  by (simp add: core_frame_def pure_op_def)

lemma core_frame_basic [simp]:
  "core_frame (ret x)" "core_frame (failed e)" "core_frame (reads f)" "core_frame (of_sum r)"
  "core_frame (require p e)" "core_frame (refuse_if b e)" "core_frame (the_or e q)"
  by (auto intro!: core_frame_pure)

lemma core_frame_NewID [simp]: "core_frame NewID"
  by (simp add: core_frame_def NewID_def same_core_def)

lemma core_frame_internal [simp]: "core_frame (internal m) = core_frame m"
  by (simp add: core_frame_def)

lemma core_frame_bindE: "core_frame m \<Longrightarrow> (\<And>x. core_frame (f x)) \<Longrightarrow> core_frame (bindE m f)"
  unfolding core_frame_def bindE_def
  by (auto split: prod.splits sum.splits) (metis same_core_trans snd_conv)+

lemma core_frame_thenE: "core_frame m \<Longrightarrow> core_frame k \<Longrightarrow> core_frame (thenE m k)"
  by (simp add: thenE_def core_frame_bindE)

lemma core_frame_each: "(\<And>x. core_frame (f x)) \<Longrightarrow> core_frame (each f xs)"
  by (induction xs) (auto intro: core_frame_thenE)

lemmas core_frame_steps [frame_intros] = core_frame_bindE core_frame_thenE core_frame_each

lemma core_frame_QueueWebhookDelivery [simp]: "core_frame (QueueWebhookDelivery w b t)"
  by (simp add: core_frame_def QueueWebhookDelivery_def NewID_def bindE_def same_core_def require_def thenE_apply)

lemma core_frame_ListWebhooks [simp]: "core_frame (ListWebhooks k i)"
  by (simp add: ListWebhooks_def)

lemma core_frame_dispatch: "core_frame (dispatch d change)"
  by (simp add: dispatch_def matching_def core_frame_steps)

lemma core_frame_Dispatch [simp]: "core_frame (Dispatch d change)"
  using core_frame_dispatch by (cases d) (simp_all add: core_frame_def Dispatch_def)

lemma core_frame_notify [simp]:
  "core_frame (notifyOrganization d a g)" "core_frame (notifyGathering d a x xs)"
  "core_frame (notifyEvent d a e)" "core_frame (notifySeries d a y)"
  by (simp_all add: notifyOrganization_def notifyGathering_def notifyEvent_def notifySeries_def Let_def
      core_frame_steps split: prod.splits)

lemma core_frame_DeleteWebhooksFor [simp]: "core_frame (DeleteWebhooksFor k i)"
  by (simp add: core_frame_def DeleteWebhooksFor_def delete_webhooks_def same_core_def)

lemma keeps_core_frame [keeps_intros]:
  "core_only P \<Longrightarrow> keeps P (notifyOrganization d a g)" "core_only P \<Longrightarrow> keeps P (notifyGathering d a x xs)"
  "core_only P \<Longrightarrow> keeps P (notifyEvent d a e)" "core_only P \<Longrightarrow> keeps P (notifySeries d a y)"
  "core_only P \<Longrightarrow> keeps P (DeleteWebhooksFor k i)"
  by (simp_all add: core_frame_keeps)

lemma keeps_split: "(\<And>a b. x = (a, b) \<Longrightarrow> keeps P (f a b)) \<Longrightarrow> keeps P (case x of (a, b) \<Rightarrow> f a b)"
  by (cases x) simp

end
