(* ===== verification/Organizations.thy ===== *)
theory Organizations
  imports Frame
begin

text \<open>
  \<open>csilservices/organizations.go\<close> and the part of \<open>convert.go\<close> it answers with:
  every operation of OrganizationService, each a whole handler with its guards
  in the code's order.  A handler takes the service's own fields, the caller
  read off the request context, and the request.
\<close>

text \<open>The fields of OrganizationService and GatheringService, and the Unicode table they fold with.\<close>
record service =
  svOriginDomain :: string
  svNotify :: "Dispatcher option"
  svLower :: "rune \<Rightarrow> rune"

section \<open>convert.go\<close>

text \<open>\<open>originOf\<close>; a domain is ASCII, so \<open>EqualFold\<close> is ASCII folding.\<close>
definition isExternal :: "string \<Rightarrow> string \<Rightarrow> bool" where
  "isExternal recordDomain instanceDomain \<longleftrightarrow> ToLowerId recordDomain \<noteq> ToLowerId instanceDomain"

record WireOrganization =
  woOrganization :: Organization
  woPublishEvents :: string
  woIsExternal :: bool
  woViewer :: ViewerContext

definition toOrganization :: "Organization \<Rightarrow> ViewerContext \<Rightarrow> string \<Rightarrow> WireOrganization" where
  "toOrganization g viewer instanceDomain =
     \<lparr>woOrganization = g, woPublishEvents = wirePublishSetting (oiPublishEvents (oOwn g)),
      woIsExternal = isExternal (oiOriginDomain (oOwn g)) instanceDomain, woViewer = viewer\<rparr>"

definition parseOrganizationRole :: "string \<Rightarrow> OrganizationRole option" where
  "parseOrganizationRole r =
     (if r = ''owner'' then Some RoleOwner else if r = ''member'' then Some RoleMember else None)"

section \<open>Validation\<close>

definition validateOrganizationText :: "utext \<Rightarrow> utext \<Rightarrow> utext \<Rightarrow> error + (utext \<times> utext \<times> utext)" where
  "validateOrganizationText name blurb description =
     (let name = TrimSpace name; blurb = TrimSpace blurb; description = TrimSpace description in
      if name = [] then Inl (Invalid ''name'')
      else if length name > 120 then Inl (Invalid ''name'')
      else if wordCount blurb > maxBlurbWords then Inl (Invalid ''blurb'')
      else if length description > 10000 then Inl (Invalid ''description'')
      else Inr (name, blurb, description))"

section \<open>Operations\<close>

definition orgViewerFor :: "caller \<Rightarrow> ident \<Rightarrow> ('m core_db_scheme, error, ViewerContext) oper" where
  "orgViewerFor c i =
     (if cID c = [] then ret (organizationViewer c None)
      else bindE (internal (OrganizationRoleFor i (cID c))) (\<lambda>role. ret (organizationViewer c role)))"

definition GetOrganization :: "service \<Rightarrow> caller \<Rightarrow> ident \<Rightarrow> ('m core_db_scheme, error, WireOrganization) oper" where
  "GetOrganization sv c i =
     bindE (not_found ''organization'' (OrganizationByID i)) (\<lambda>g.
     bindE (orgViewerFor c (oID g)) (\<lambda>viewer.
     ret (toOrganization g viewer (svOriginDomain sv))))"

text \<open>\<open>slugTaken\<close>: anything but a definite "no row" counts as taken.\<close>
definition orgSlugTaken :: "service \<Rightarrow> 'm core_db_scheme \<Rightarrow> string \<Rightarrow> bool" where
  "orgSlugTaken sv s slug \<longleftrightarrow> fst (OrganizationBySlug (svOriginDomain sv) slug s) \<noteq> Inl ErrNotFound"

definition CreateOrganization ::
  "service \<Rightarrow> caller \<Rightarrow> utext \<Rightarrow> utext \<Rightarrow> utext \<Rightarrow> ('m hook_db_scheme, error, WireOrganization) oper" where
  "CreateOrganization sv c reqName reqBlurb reqDescription =
     bindE (authenticated c) (\<lambda>c.
     bindE (of_sum (validateOrganizationText reqName reqBlurb reqDescription)) (\<lambda>(name, blurb, description).
     bindE NewID (\<lambda>slugID.
     bindE (reads (\<lambda>s. uniqueSlug (svLower sv) name slugID (orgSlugTaken sv s))) (\<lambda>slug.
     bindE (internal (CreateOrganizationRow
        \<lparr>oiSlug = slug, oiOriginDomain = svOriginDomain sv, oiName = name, oiBlurb = blurb,
         oiDescription = description, oiSearchText = searchText (svLower sv) [name, blurb, description],
         oiPublishEvents = PublishUnset\<rparr> (cID c))) (\<lambda>g.
     thenE (notifyOrganization (svNotify sv) ActionCreated g)
       (ret (toOrganization g (organizationViewer c (Some RoleOwner)) (svOriginDomain sv))))))))"

definition UpdateOrganization ::
  "service \<Rightarrow> caller \<Rightarrow> ident \<Rightarrow> utext option \<Rightarrow> utext option \<Rightarrow> utext option \<Rightarrow> string option
     \<Rightarrow> ('m hook_db_scheme, error, WireOrganization) oper" where
  "UpdateOrganization sv c i reqName reqBlurb reqDescription reqPublish =
     bindE (authenticated c) (\<lambda>c.
     bindE (not_found ''organization'' (OrganizationByID i)) (\<lambda>g.
     bindE (orgViewerFor c (oID g)) (\<lambda>viewer.
     thenE (refuse_if (\<not> vCanEdit viewer) Forbidden)
    (bindE (of_sum (validateOrganizationText
        (case reqName of None \<Rightarrow> oiName (oOwn g) | Some x \<Rightarrow> x)
        (case reqBlurb of None \<Rightarrow> oiBlurb (oOwn g) | Some x \<Rightarrow> x)
        (case reqDescription of None \<Rightarrow> oiDescription (oOwn g) | Some x \<Rightarrow> x))) (\<lambda>(name, blurb, description).
     bindE (case reqPublish of
         None \<Rightarrow> ret (oiPublishEvents (oOwn g))
       | Some _ \<Rightarrow> (case publishSettingOf reqPublish of (v, ok) \<Rightarrow>
           thenE (refuse_if (\<not> ok) (Invalid ''publish_events''))
          (bindE (reads settings) (\<lambda>st.
           thenE (refuse_if (\<not> OrganizationOverrideAllowed st \<and> v \<noteq> PublishUnset) Forbidden)
             (ret v))))) (\<lambda>publishEvents.
     bindE (internal (UpdateOrganizationRow (oID g)
        \<lparr>oiSlug = oiSlug (oOwn g), oiOriginDomain = oiOriginDomain (oOwn g), oiName = name, oiBlurb = blurb,
         oiDescription = description, oiSearchText = searchText (svLower sv) [name, blurb, description],
         oiPublishEvents = publishEvents\<rparr>)) (\<lambda>updated.
     thenE (notifyOrganization (svNotify sv) ActionUpdated updated)
       (ret (toOrganization updated viewer (svOriginDomain sv))))))))))"

definition DeleteOrganization :: "caller \<Rightarrow> ident \<Rightarrow> ('m hook_db_scheme, error, unit) oper" where
  "DeleteOrganization c i =
     bindE (authenticated c) (\<lambda>c.
     thenE (refuse_if (\<not> cIsAdmin c) Forbidden)
    (bindE (not_found ''organization'' (OrganizationByID i)) (\<lambda>g.
     thenE (internal (DeleteOrganizationRow i))
       (internal (DeleteWebhooksFor WebhookOwnerOrganization (oID g))))))"

definition memberList :: "ident \<Rightarrow> Page \<Rightarrow> ('m core_db_scheme, error, OrganizationMember list \<times> int) oper" where
  "memberList i page = internal (ListOrganizationMembers i page)"

text \<open>\<open>refuseLastOwnerChange\<close>.\<close>
definition refuseLastOwnerChange :: "ident \<Rightarrow> ident \<Rightarrow> ('m core_db_scheme, error, unit) oper" where
  "refuseLastOwnerChange i u =
     bindE (internal (OrganizationRoleFor i u)) (\<lambda>role.
     if role \<noteq> Some RoleOwner then ret ()
     else bindE (internal (OrganizationByID i)) (\<lambda>g.
          refuse_if (oOwnerCount g \<le> 1) (Invalid ''user_id'')))"

definition noPage :: Page where "noPage = \<lparr>pLimit = 0, pOffset = 0\<rparr>"

definition SetOrganizationMember ::
  "caller \<Rightarrow> ident \<Rightarrow> ident \<Rightarrow> string \<Rightarrow> ('m core_db_scheme, error, OrganizationMember list \<times> int) oper" where
  "SetOrganizationMember c i u reqRole =
     bindE (authenticated c) (\<lambda>c.
     bindE (orgViewerFor c i) (\<lambda>viewer.
     thenE (refuse_if (\<not> vCanManageMembers viewer) Forbidden)
    (bindE (the_or (Invalid ''role'') (parseOrganizationRole reqRole)) (\<lambda>role.
     thenE (not_found ''user'' (UserByID u))
    (thenE (if role = RoleMember then refuseLastOwnerChange i u else ret ())
    (thenE (internal (SetOrganizationMemberRow i u role))
     (memberList i noPage)))))))"

definition RemoveOrganizationMember ::
  "caller \<Rightarrow> ident \<Rightarrow> ident \<Rightarrow> ('m core_db_scheme, error, OrganizationMember list \<times> int) oper" where
  "RemoveOrganizationMember c i u =
     bindE (authenticated c) (\<lambda>c.
     bindE (orgViewerFor c i) (\<lambda>viewer.
     thenE (refuse_if (\<not> vCanManageMembers viewer \<and> u \<noteq> cID c) Forbidden)
    (thenE (refuseLastOwnerChange i u)
    (thenE (internal (RemoveOrganizationMemberRow i u))
     (memberList i noPage)))))"

section \<open>What the guards leave\<close>

lemma pure_orgViewerFor [intro, simp]: "pure_op (orgViewerFor c i)"
  by (auto simp: orgViewerFor_def intro!: pure_op_bindE)

lemma pure_refuseLastOwnerChange [intro, simp]: "pure_op (refuseLastOwnerChange i u)"
  by (auto simp: refuseLastOwnerChange_def intro!: pure_op_bindE)

lemma pure_memberList [intro, simp]: "pure_op (memberList i p)"
  by (simp add: memberList_def)

lemma refuseLastOwnerChange_Inr:
  assumes "organizations_ok s"
  shows "refuseLastOwnerChange i u s = (Inr x, t) \<longleftrightarrow> t = s \<and> \<not> last_owner i u s"
proof (cases "organization_role i u s = Some RoleOwner")
  case True
  then obtain m where "m \<in> set (organization_members s)" "omrOrganization m = i"
    using organization_role_member by metis
  then have "organization_exists i s" using assms
    by (auto simp: organizations_ok_def organization_exists_iff)
  then obtain g where g: "organization_by_id i s = Some g"
    using organization_by_id_None by (metis option.exhaust)
  have "oOwnerCount g = count_rows (\<lambda>m. omrOrganization m = i \<and> omrRole m = RoleOwner) (organization_members s)"
    using organization_by_id_Some [OF g] by simp
  then show ?thesis using True g
    by (auto simp: refuseLastOwnerChange_def OrganizationRoleFor_def last_owner_def bindE_Inr)
next
  case False
  then show ?thesis
    by (auto simp: refuseLastOwnerChange_def OrganizationRoleFor_def last_owner_def)
qed

end
