(* ===== verification/StoreFederation.thy ===== *)
theory StoreFederation
  imports StoreWebhooks
begin

text \<open>
  \<open>store/sqlite/federation.go\<close>: the peers of an instance, the outbox of signed
  deliveries, what peers sent, and the batches already seen, as a second
  extension of the database record.  The two rate-limit windows of
  \<open>settings.go\<close> are columns of these tables; their statements are in
  \<open>RateLimit\<close>.
\<close>

datatype PeerStatus = PeerNone | PeerPending | PeerApproved | PeerBlocked

record PeerIdentity =
  piSubjectUserID :: string
  piSubjectDomain :: string
  piApplicationID :: string
  piInstanceID :: string

definition EmptyIdentity :: "PeerIdentity \<Rightarrow> bool" where
  "EmptyIdentity p \<longleftrightarrow> piSubjectUserID p = [] \<and> piSubjectDomain p = []
     \<and> piApplicationID p = [] \<and> piInstanceID p = []"

definition noIdentity :: PeerIdentity where
  "noIdentity = \<lparr>piSubjectUserID = [], piSubjectDomain = [], piApplicationID = [], piInstanceID = []\<rparr>"

lemma EmptyIdentity_iff: "EmptyIdentity p \<longleftrightarrow> p = noIdentity"
  by (cases p) (simp add: EmptyIdentity_def noIdentity_def)

text \<open>A peer's row: \<open>store.Peer\<close> and the window columns its allowance is kept in.\<close>
record Peer =
  pID :: ident
  pAddress :: string
  pHandle :: string
  pDomain :: string
  pIdentity :: PeerIdentity
  pBaseURL :: string
  pInboundStatus :: PeerStatus
  pOutboundStatus :: PeerStatus
  pNote :: utext
  pSuspendedAt :: "instant option"
  pFirstFailureAt :: "instant option"
  pLastFailureAt :: "instant option"
  pLastFailureReason :: string
  pLastSuccessAt :: "instant option"
  pRateLimitPerMinute :: "int option"
  pRateLimitedTotal :: int
  pRateWindowStart :: "instant option"
  pRateWindowCount :: int
  pCreatedAt :: instant
  pUpdatedAt :: instant

record PeerInput =
  pnAddress :: string
  pnHandle :: string
  pnDomain :: string
  pnBaseURL :: string
  pnIdentity :: PeerIdentity
  pnNote :: utext

text \<open>The wire types of a delivery, before the encoder: one batch, signed.\<close>
record FederatedEvent =
  feRemoteId :: ident
  feCanonicalUrl :: string
  feTitle :: utext
  feIsOnline :: bool
  feIsInPerson :: bool
  feLocation :: "Location option"
  feStartsAt :: instant
  feEndsAt :: instant
  feTimezone :: string
  feGatheringName :: utext
  feOrganizationName :: utext
  feDeleted :: bool

record EventBatch =
  ebOriginDomain :: string
  ebBatchId :: string
  ebSentAt :: instant
  ebEvents :: "FederatedEvent list"

record SignedDelivery =
  sdSenderAddress :: string
  sdAlgorithm :: string
  sdKeyId :: string
  sdSignature :: string
  sdBody :: EventBatch

record outbox_row =
  obID :: ident
  obPeer :: ident
  obEvent :: ident
  obPayload :: SignedDelivery
  obAttempts :: int
  obNextAttemptAt :: instant
  obLastError :: string
  obCreatedAt :: instant

record RemoteEventInput =
  riRemoteID :: ident
  riOriginDomain :: string
  riCanonicalURL :: string
  riTitle :: utext
  riSearchText :: utext
  riIsOnline :: bool
  riIsInPerson :: bool
  riLocation :: Location
  riStartsAt :: instant
  riEndsAt :: instant
  riTimezone :: string
  riGatheringName :: utext
  riOrganizationName :: utext

record remote_event_row =
  reID :: ident
  rePeer :: ident
  reOwn :: RemoteEventInput
  reReceivedAt :: instant

record origin_row =
  ogPeer :: ident
  ogOrganizationName :: utext
  ogAcceptedTotal :: int
  ogWindowStart :: "instant option"
  ogWindowCount :: int
  ogLastReceivedAt :: "instant option"
  ogRateLimitPerMinute :: "int option"
  ogRateLimitedTotal :: int

record seen_row =
  snPeer :: ident
  snBatch :: string
  snSeenAt :: instant

record fed_db = hook_db +
  peers :: "Peer list"
  outbox :: "outbox_row list"
  remote_events :: "remote_event_row list"
  origin_stats :: "origin_row list"
  seen_batches :: "seen_row list"

section \<open>Peers\<close>

definition peer_by_id :: "ident \<Rightarrow> 'm fed_db_scheme \<Rightarrow> Peer option" where
  "peer_by_id i s = row (\<lambda>p. pID p = i) (peers s)"

definition PeerByID :: "ident \<Rightarrow> ('m fed_db_scheme, store_error, Peer) oper" where
  "PeerByID i = bindE (reads (peer_by_id i)) (the_or ErrNotFound)"

definition PeerByAddress :: "string \<Rightarrow> ('m fed_db_scheme, store_error, Peer) oper" where
  "PeerByAddress a = bindE (reads (\<lambda>s. row (\<lambda>p. pAddress p = a) (peers s))) (the_or ErrNotFound)"

definition CreatePeerRow :: "PeerInput \<Rightarrow> ('m fed_db_scheme, store_error, Peer) oper" where
  "CreatePeerRow own =
     bindE NewID (\<lambda>i.
     thenE (require (\<lambda>s. \<not> has_row (\<lambda>p. pID p = i \<or> pAddress p = pnAddress own) (peers s)) DBError)
    (thenE (writes (\<lambda>s. s\<lparr>peers := peers s @
        [\<lparr>pID = i, pAddress = pnAddress own, pHandle = pnHandle own, pDomain = pnDomain own,
          pIdentity = pnIdentity own, pBaseURL = pnBaseURL own, pInboundStatus = PeerNone,
          pOutboundStatus = PeerNone, pNote = pnNote own, pSuspendedAt = None, pFirstFailureAt = None,
          pLastFailureAt = None, pLastFailureReason = [], pLastSuccessAt = None,
          pRateLimitPerMinute = None, pRateLimitedTotal = 0, pRateWindowStart = None,
          pRateWindowCount = 0, pCreatedAt = nowSQL s, pUpdatedAt = nowSQL s\<rparr>]\<rparr>))
     (PeerByID i)))"

definition update_peer :: "ident \<Rightarrow> ('m fed_db_scheme \<Rightarrow> Peer \<Rightarrow> Peer) \<Rightarrow> 'm fed_db_scheme \<Rightarrow> 'm fed_db_scheme" where
  "update_peer i f s = s\<lparr>peers := set_rows (\<lambda>p. pID p = i) (\<lambda>p. (f s p)\<lparr>pUpdatedAt := nowSQL s\<rparr>) (peers s)\<rparr>"

definition UpdatePeerRow :: "ident \<Rightarrow> PeerInput \<Rightarrow> ('m fed_db_scheme, store_error, Peer) oper" where
  "UpdatePeerRow i own =
     thenE (require (\<lambda>s. has_row (\<lambda>p. pID p = i) (peers s)) ErrNotFound)
    (thenE (writes (update_peer i (\<lambda>s p. p\<lparr>pBaseURL := pnBaseURL own, pNote := pnNote own\<rparr>)))
     (PeerByID i))"

text \<open>COALESCE: an absent argument leaves its columns as they are.\<close>
definition SetPeerStatusRow ::
  "ident \<Rightarrow> PeerStatus option \<Rightarrow> PeerStatus option \<Rightarrow> PeerIdentity option
     \<Rightarrow> ('m fed_db_scheme, store_error, Peer) oper" where
  "SetPeerStatusRow i inbound outbound identity =
     thenE (require (\<lambda>s. has_row (\<lambda>p. pID p = i) (peers s)) ErrNotFound)
    (thenE (writes (update_peer i (\<lambda>s p. p\<lparr>
         pInboundStatus := (case inbound of None \<Rightarrow> pInboundStatus p | Some v \<Rightarrow> v),
         pOutboundStatus := (case outbound of None \<Rightarrow> pOutboundStatus p | Some v \<Rightarrow> v),
         pIdentity := (case identity of None \<Rightarrow> pIdentity p | Some v \<Rightarrow> v)\<rparr>)))
     (PeerByID i))"

text \<open>Deleting a peer takes its outbox, its events, its statistics and its seen batches.\<close>
definition DeletePeerRow :: "ident \<Rightarrow> ('m fed_db_scheme, store_error, unit) oper" where
  "DeletePeerRow i = writes (\<lambda>s. s\<lparr>
     peers := del_rows (\<lambda>p. pID p = i) (peers s),
     outbox := del_rows (\<lambda>b. obPeer b = i) (outbox s),
     remote_events := del_rows (\<lambda>r. rePeer r = i) (remote_events s),
     origin_stats := del_rows (\<lambda>g. ogPeer g = i) (origin_stats s),
     seen_batches := del_rows (\<lambda>b. snPeer b = i) (seen_batches s)\<rparr>)"

section \<open>The health of a peer\<close>

definition RecordDeliverySuccess :: "ident \<Rightarrow> instant \<Rightarrow> ('m fed_db_scheme, store_error, unit) oper" where
  "RecordDeliverySuccess i at = writes (update_peer i (\<lambda>s p. p\<lparr>
     pLastSuccessAt := Some (stored_time at), pFirstFailureAt := None, pLastFailureReason := []\<rparr>))"

text \<open>A failure opens a run if none is open, and suspends the peer when the run is old enough.\<close>
definition failed_peer :: "string \<Rightarrow> instant \<Rightarrow> instant \<Rightarrow> Peer \<Rightarrow> Peer" where
  "failed_peer reason at suspendIfStartedBefore p =
     (let now = stored_time at;
          started = (case pFirstFailureAt p of None \<Rightarrow> now | Some t \<Rightarrow> t)
      in p\<lparr>pFirstFailureAt := Some started, pLastFailureAt := Some now, pLastFailureReason := reason,
           pSuspendedAt := (case pSuspendedAt p of
               Some t \<Rightarrow> Some t
             | None \<Rightarrow> if started \<le> stored_time suspendIfStartedBefore then Some now else None)\<rparr>)"

definition RecordDeliveryFailure ::
  "ident \<Rightarrow> string \<Rightarrow> instant \<Rightarrow> instant \<Rightarrow> ('m fed_db_scheme, store_error, unit) oper" where
  "RecordDeliveryFailure i reason at suspendIfStartedBefore =
     writes (update_peer i (\<lambda>s. failed_peer reason at suspendIfStartedBefore))"

text \<open>Everything waiting becomes due now with its attempts reset.\<close>
definition ResumePeerRow :: "ident \<Rightarrow> instant \<Rightarrow> ('m fed_db_scheme, store_error, unit) oper" where
  "ResumePeerRow i now = writes (\<lambda>s.
     let s = update_peer i (\<lambda>s p. p\<lparr>pSuspendedAt := None, pFirstFailureAt := None, pLastFailureReason := []\<rparr>) s
     in s\<lparr>outbox := set_rows (\<lambda>b. obPeer b = i)
           (\<lambda>b. b\<lparr>obNextAttemptAt := stored_time now, obAttempts := 0\<rparr>) (outbox s)\<rparr>)"

section \<open>The outbox\<close>

text \<open>INSERT ... ON CONFLICT (peer_id, event_id) DO UPDATE: the row keeps its id.\<close>
definition EnqueueDelivery ::
  "ident \<Rightarrow> ident \<Rightarrow> SignedDelivery \<Rightarrow> instant \<Rightarrow> ('m fed_db_scheme, store_error, unit) oper" where
  "EnqueueDelivery p e body dueAt =
     bindE NewID (\<lambda>i.
     bindE (reads (\<lambda>s. has_row (\<lambda>b. obPeer b = p \<and> obEvent b = e) (outbox s))) (\<lambda>queued.
     if queued
     then writes (\<lambda>s. s\<lparr>outbox := set_rows (\<lambda>b. obPeer b = p \<and> obEvent b = e)
        (\<lambda>b. b\<lparr>obPayload := body, obNextAttemptAt := stored_time dueAt, obAttempts := 0, obLastError := []\<rparr>)
        (outbox s)\<rparr>)
     else thenE (require (\<lambda>s. has_row (\<lambda>x. pID x = p) (peers s) \<and> \<not> has_row (\<lambda>b. obID b = i) (outbox s)) DBError)
       (writes (\<lambda>s. s\<lparr>outbox := outbox s @
         [\<lparr>obID = i, obPeer = p, obEvent = e, obPayload = body, obAttempts = 0,
           obNextAttemptAt = stored_time dueAt, obLastError = [], obCreatedAt = nowSQL s\<rparr>]\<rparr>))))"

definition deliverable :: "Peer \<Rightarrow> bool" where
  "deliverable p \<longleftrightarrow> pOutboundStatus p = PeerApproved \<and> pSuspendedAt p = None"

definition DueDeliveries :: "instant \<Rightarrow> nat \<Rightarrow> ('m fed_db_scheme, store_error, (outbox_row \<times> Peer) list) oper" where
  "DueDeliveries now limit = reads (\<lambda>s. take limit (List.map_filter (\<lambda>b.
      map_option (\<lambda>p. (b, p)) (row (\<lambda>p. pID p = obPeer b \<and> deliverable p) (peers s)))
      (sort_key obNextAttemptAt (filter (\<lambda>b. obNextAttemptAt b \<le> stored_time now) (outbox s)))))"

definition MarkDelivered :: "ident \<Rightarrow> ('m fed_db_scheme, store_error, unit) oper" where
  "MarkDelivered i = writes (\<lambda>s. s\<lparr>outbox := del_rows (\<lambda>b. obID b = i) (outbox s)\<rparr>)"

definition MarkDeliveryFailed ::
  "ident \<Rightarrow> string \<Rightarrow> instant \<Rightarrow> ('m fed_db_scheme, store_error, unit) oper" where
  "MarkDeliveryFailed i reason nextAttemptAt = writes (\<lambda>s. s\<lparr>outbox := set_rows (\<lambda>b. obID b = i)
     (\<lambda>b. b\<lparr>obAttempts := obAttempts b + 1, obLastError := reason,
           obNextAttemptAt := stored_time nextAttemptAt\<rparr>) (outbox s)\<rparr>)"

definition DeferDelivery ::
  "ident \<Rightarrow> string \<Rightarrow> instant \<Rightarrow> ('m fed_db_scheme, store_error, unit) oper" where
  "DeferDelivery i reason nextAttemptAt = writes (\<lambda>s. s\<lparr>outbox := set_rows (\<lambda>b. obID b = i)
     (\<lambda>b. b\<lparr>obLastError := reason, obNextAttemptAt := stored_time nextAttemptAt\<rparr>) (outbox s)\<rparr>)"

definition OutboundPeers :: "('m fed_db_scheme, store_error, Peer list) oper" where
  "OutboundPeers = reads (\<lambda>s. sort_key pAddress (filter deliverable (peers s)))"

section \<open>What peers sent\<close>

definition stored_remote :: "RemoteEventInput \<Rightarrow> RemoteEventInput" where
  "stored_remote r = r\<lparr>riStartsAt := stored_time (riStartsAt r), riEndsAt := stored_time (riEndsAt r)\<rparr>"

definition remote_key :: "ident \<Rightarrow> ident \<Rightarrow> remote_event_row \<Rightarrow> bool" where
  "remote_key p i r \<longleftrightarrow> rePeer r = p \<and> riRemoteID (reOwn r) = i"

definition UpsertRemoteEvent :: "ident \<Rightarrow> RemoteEventInput \<Rightarrow> ('m fed_db_scheme, store_error, unit) oper" where
  "UpsertRemoteEvent p own =
     bindE NewID (\<lambda>i.
     bindE (reads (\<lambda>s. has_row (remote_key p (riRemoteID own)) (remote_events s))) (\<lambda>known.
     if known
     then writes (\<lambda>s. s\<lparr>remote_events := set_rows (remote_key p (riRemoteID own))
        (\<lambda>r. r\<lparr>reOwn := stored_remote own, reReceivedAt := nowSQL s\<rparr>) (remote_events s)\<rparr>)
     else thenE (require (\<lambda>s. has_row (\<lambda>x. pID x = p) (peers s) \<and> \<not> has_row (\<lambda>r. reID r = i) (remote_events s)) DBError)
       (writes (\<lambda>s. s\<lparr>remote_events := remote_events s @
         [\<lparr>reID = i, rePeer = p, reOwn = stored_remote own, reReceivedAt = nowSQL s\<rparr>]\<rparr>))))"

definition DeleteRemoteEvent :: "ident \<Rightarrow> ident \<Rightarrow> ('m fed_db_scheme, store_error, bool) oper" where
  "DeleteRemoteEvent p i =
     bindE (reads (\<lambda>s. has_row (remote_key p i) (remote_events s))) (\<lambda>known.
     thenE (writes (\<lambda>s. s\<lparr>remote_events := del_rows (remote_key p i) (remote_events s)\<rparr>))
       (ret known))"

text \<open>The retention sweep, on when the event ended.\<close>
definition DeleteRemoteEventsEndedBefore :: "instant \<Rightarrow> ('m fed_db_scheme, store_error, int) oper" where
  "DeleteRemoteEventsEndedBefore cutoff =
     bindE (reads (\<lambda>s. count_rows (\<lambda>r. riEndsAt (reOwn r) < stored_time cutoff) (remote_events s))) (\<lambda>n.
     thenE (writes (\<lambda>s. s\<lparr>remote_events := del_rows (\<lambda>r. riEndsAt (reOwn r) < stored_time cutoff) (remote_events s)\<rparr>))
       (ret n))"

section \<open>Batches already seen\<close>

definition seen :: "ident \<Rightarrow> string \<Rightarrow> 'm fed_db_scheme \<Rightarrow> bool" where
  "seen p b s = has_row (\<lambda>x. snPeer x = p \<and> snBatch x = b) (seen_batches s)"

text \<open>The INSERT is the check: true when this is the first time.\<close>
definition RememberBatch :: "ident \<Rightarrow> string \<Rightarrow> instant \<Rightarrow> ('m fed_db_scheme, store_error, bool) oper" where
  "RememberBatch p b now =
     bindE (reads (seen p b)) (\<lambda>known.
     if known then ret False
     else thenE (require (\<lambda>s. has_row (\<lambda>x. pID x = p) (peers s)) DBError)
         (thenE (writes (\<lambda>s. s\<lparr>seen_batches := seen_batches s @
             [\<lparr>snPeer = p, snBatch = b, snSeenAt = stored_time now\<rparr>]\<rparr>))
          (ret True)))"

definition ForgetBatch :: "ident \<Rightarrow> string \<Rightarrow> ('m fed_db_scheme, store_error, unit) oper" where
  "ForgetBatch p b = writes (\<lambda>s. s\<lparr>seen_batches :=
     del_rows (\<lambda>x. snPeer x = p \<and> snBatch x = b) (seen_batches s)\<rparr>)"

definition ForgetBatchesSeenBefore :: "instant \<Rightarrow> ('m fed_db_scheme, store_error, int) oper" where
  "ForgetBatchesSeenBefore cutoff =
     bindE (reads (\<lambda>s. count_rows (\<lambda>x. snSeenAt x < stored_time cutoff) (seen_batches s))) (\<lambda>n.
     thenE (writes (\<lambda>s. s\<lparr>seen_batches := del_rows (\<lambda>x. snSeenAt x < stored_time cutoff) (seen_batches s)\<rparr>))
       (ret n))"

end
