(* ===== verification/Sample.thy ===== *)
theory Sample
  imports StoreFederation
begin

text \<open>
  One small directory, for the theorems' instances: two people, one of them the
  administrator, one organization with one owner, and one gathering it owns.
  Everything else is empty.
\<close>

definition ada :: User where
  "ada = \<lparr>uID = ''ada'', uLinkkeysDomain = ''a.org'', uLinkkeysUserID = ''1'', uHandle = ''ada'',
     uDisplayName = [65], uKind = UserKindHuman, uCreatedAt = 0, uIsAdmin = True, uAdminGrantedAt = Some 0\<rparr>"

definition bob :: User where
  "bob = \<lparr>uID = ''bob'', uLinkkeysDomain = ''a.org'', uLinkkeysUserID = ''2'', uHandle = ''bob'',
     uDisplayName = [66], uKind = UserKindHuman, uCreatedAt = 0, uIsAdmin = False, uAdminGrantedAt = None\<rparr>"

definition sample_text :: "string \<Rightarrow> OrganizationInput" where
  "sample_text slug = \<lparr>oiSlug = slug, oiOriginDomain = ''a.org'', oiName = [67], oiBlurb = [], oiDescription = [],
     oiSearchText = [], oiPublishEvents = PublishUnset\<rparr>"

definition sample_id :: "nat \<Rightarrow> ident" where
  "sample_id n = CHR ''i'' # replicate n CHR ''x''"

definition blank_db :: fed_db where
  "blank_db = \<lparr>clock = 1000000000, ulid = sample_id, minted = 0, settings = DefaultInstanceSettings,
     users = [ada, bob], organizations = [], organization_members = [], gatherings = [], gathering_owners = [],
     gathering_members = [], event_series = [], events = [], event_attendance = [], event_roles = [],
     gathering_offers = [], webhooks = [], webhook_deliveries = [], peers = [], outbox = [], remote_events = [],
     origin_stats = [], seen_batches = []\<rparr>"

definition sample_db :: fed_db where
  "sample_db = blank_db\<lparr>
     organizations := [\<lparr>orID = ''org'', orOwn = sample_text ''org'', orCreatedAt = 0, orUpdatedAt = 0\<rparr>],
     organization_members := [\<lparr>omrOrganization = ''org'', omrUser = ''bob'', omrRole = RoleOwner, omrJoinedAt = 0\<rparr>],
     gatherings := [\<lparr>grID = ''gat'', grOwn = sample_text ''gat'', grCreatedAt = 0, grUpdatedAt = 0\<rparr>],
     gathering_owners := [\<lparr>gorID = ''gow'', gorGathering = ''gat'', gorUser = None, gorOrganization = Some ''org'',
       gorAddedAt = 0\<rparr>]\<rparr>"

text \<open>A peer approved in both directions, under an identity of its own.\<close>
definition sample_peer :: Peer where
  "sample_peer = \<lparr>pID = ''peer'', pAddress = ''dir@b.org'', pHandle = ''dir'', pDomain = ''b.org'',
     pIdentity = \<lparr>piSubjectUserID = ''u'', piSubjectDomain = ''b.org'', piApplicationID = ''tinku'', piInstanceID = ''1''\<rparr>,
     pBaseURL = ''https://b.org'', pInboundStatus = PeerApproved, pOutboundStatus = PeerApproved, pNote = [],
     pSuspendedAt = None, pFirstFailureAt = None, pLastFailureAt = None, pLastFailureReason = [],
     pLastSuccessAt = None, pRateLimitPerMinute = None, pRateLimitedTotal = 0, pRateWindowStart = None,
     pRateWindowCount = 0, pCreatedAt = 0, pUpdatedAt = 0\<rparr>"

definition peered_db :: fed_db where
  "peered_db = sample_db\<lparr>peers := [sample_peer]\<rparr>"

lemmas sample_defs = sample_db_def blank_db_def ada_def bob_def sample_text_def

end
