(* ===== verification/OrganizationService.thy ===== *)
theory OrganizationService
  imports Organizations Sample
begin

text \<open>
  OrganizationService as a whole: its requests, what serving one does to the
  database, and the invariant every one of them keeps: the tables stay
  well-formed and no organization is left without an owner.
\<close>

section \<open>Requests\<close>

text \<open>The registered operations that can write, with the arguments the handler reads.\<close>
datatype organization_request =
    GetOrganizationReq ident
  | CreateOrganizationReq utext utext utext
  | UpdateOrganizationReq ident "utext option" "utext option" "utext option" "string option"
  | DeleteOrganizationReq ident
  | SetOrganizationMemberReq ident ident string
  | RemoveOrganizationMemberReq ident ident

definition answered :: "('s, error, 'a) oper \<Rightarrow> ('s, error, unit) oper" where
  "answered m = bindE m (\<lambda>_. ret ())"

fun serve_organization ::
  "service \<Rightarrow> caller \<Rightarrow> organization_request \<Rightarrow> ('m hook_db_scheme, error, unit) oper" where
  "serve_organization sv c (GetOrganizationReq i) = answered (GetOrganization sv c i)"
| "serve_organization sv c (CreateOrganizationReq n b d) = answered (CreateOrganization sv c n b d)"
| "serve_organization sv c (UpdateOrganizationReq i n b d p) = answered (UpdateOrganization sv c i n b d p)"
| "serve_organization sv c (DeleteOrganizationReq i) = DeleteOrganization c i"
| "serve_organization sv c (SetOrganizationMemberReq i u r) = answered (SetOrganizationMember c i u r)"
| "serve_organization sv c (RemoveOrganizationMemberReq i u) = answered (RemoveOrganizationMember c i u)"

text \<open>A run: requests served in order, each by whoever made it, whatever each answered.\<close>
fun serve_organizations ::
  "service \<Rightarrow> (caller \<times> organization_request) list \<Rightarrow> 'm hook_db_scheme \<Rightarrow> 'm hook_db_scheme" where
  "serve_organizations sv [] s = s"
| "serve_organizations sv ((c, r) # rs) s = serve_organizations sv rs (snd (serve_organization sv c r s))"

section \<open>The invariant\<close>

definition organizations_inv :: "'m core_db_scheme \<Rightarrow> bool" where
  "organizations_inv s \<longleftrightarrow> organizations_ok s \<and> organizations_owned s"

lemma core_only_organizations_inv [simp]: "core_only organizations_inv"
  using core_only_organizations by (auto simp: core_only_def organizations_inv_def)

lemma keeps_inv:
  "keeps organizations_ok m \<Longrightarrow> keeps organizations_owned m \<Longrightarrow> keeps organizations_inv m"
  by (simp add: keeps_def organizations_inv_def)

lemma keeps_inv_writes [keeps_intros]:
  "keeps organizations_inv (CreateOrganizationRow own u)" "keeps organizations_inv (UpdateOrganizationRow i own)"
  "keeps organizations_inv (DeleteOrganizationRow i)" "keeps organizations_inv (SetOrganizationMemberRow i u RoleOwner)"
  by (intro keeps_inv keeps_ok_organizations keeps_owned)+

lemma keeps_inv_NewID [keeps_intros]: "keeps organizations_inv NewID"
  by (rule keeps_NewID) (simp add: organizations_inv_def)

lemmas keeps_organization_reads [keeps_intros] =
  pure_organization_reads [THEN pure_op_keeps] pure_orgViewerFor [THEN pure_op_keeps]
  pure_refuseLastOwnerChange [THEN pure_op_keeps] pure_memberList [THEN pure_op_keeps]

lemma keeps_inv_guarded_demote:
  fixes m :: "('m core_db_scheme, error, 'a) oper"
  assumes "keeps organizations_inv m"
  shows "keeps organizations_inv
    (thenE (refuseLastOwnerChange i u) (thenE (internal (SetOrganizationMemberRow i u role)) m))"
proof (rule keeps_guarded [OF pure_refuseLastOwnerChange])
  fix s :: "'m core_db_scheme" and x assume inv: "organizations_inv s" and "refuseLastOwnerChange i u s = (Inr x, s)"
  then have "\<not> last_owner i u s" by (simp add: organizations_inv_def refuseLastOwnerChange_Inr)
  with inv have "organizations_inv (snd (SetOrganizationMemberRow i u role s))"
    using owned_after_demote [of s i u role] keepsD [OF keeps_ok_SetOrganizationMemberRow]
    by (auto simp: organizations_inv_def)
  then show "organizations_inv (snd (thenE (internal (SetOrganizationMemberRow i u role)) m s))"
    using keeps_step [of organizations_inv "internal (SetOrganizationMemberRow i u role)" s m] assms by simp
qed

lemma keeps_inv_guarded_remove:
  fixes m :: "('m core_db_scheme, error, 'a) oper"
  assumes "keeps organizations_inv m"
  shows "keeps organizations_inv
    (thenE (refuseLastOwnerChange i u) (thenE (internal (RemoveOrganizationMemberRow i u)) m))"
proof (rule keeps_guarded [OF pure_refuseLastOwnerChange])
  fix s :: "'m core_db_scheme" and x assume inv: "organizations_inv s" and "refuseLastOwnerChange i u s = (Inr x, s)"
  then have "\<not> last_owner i u s" by (simp add: organizations_inv_def refuseLastOwnerChange_Inr)
  with inv have "organizations_inv (snd (RemoveOrganizationMemberRow i u s))"
    using owned_after_remove [of s i u] keepsD [OF keeps_ok_RemoveOrganizationMemberRow]
    by (auto simp: organizations_inv_def)
  then show "organizations_inv (snd (thenE (internal (RemoveOrganizationMemberRow i u)) m s))"
    using keeps_step [of organizations_inv "internal (RemoveOrganizationMemberRow i u)" s m] assms by simp
qed

section \<open>Every request keeps it\<close>

lemma keeps_inv_SetOrganizationMember: "keeps organizations_inv (SetOrganizationMember c i u r)"
proof (cases "parseOrganizationRole r = Some RoleMember")
  case True
  then show ?thesis unfolding SetOrganizationMember_def
    by (auto simp: bindE_assoc intro!: keeps_intros keeps_inv_guarded_demote)
next
  case False
  then consider "parseOrganizationRole r = None" | "parseOrganizationRole r = Some RoleOwner"
    by (cases "parseOrganizationRole r"; cases "the (parseOrganizationRole r)") auto
  then show ?thesis
    by cases (auto simp: SetOrganizationMember_def intro!: keeps_intros)
qed

lemma keeps_inv_RemoveOrganizationMember: "keeps organizations_inv (RemoveOrganizationMember c i u)"
  unfolding RemoveOrganizationMember_def by (auto intro!: keeps_intros keeps_inv_guarded_remove)

lemma keeps_inv_CreateOrganization: "keeps organizations_inv (CreateOrganization sv c n b d)"
  unfolding CreateOrganization_def by (auto intro!: keeps_intros keeps_split)

lemma keeps_inv_UpdateOrganization: "keeps organizations_inv (UpdateOrganization sv c i n b d p)"
  unfolding UpdateOrganization_def by (auto intro!: keeps_intros keeps_split)

lemma keeps_inv_DeleteOrganization: "keeps organizations_inv (DeleteOrganization c i)"
  unfolding DeleteOrganization_def by (auto intro!: keeps_intros)

lemma pure_GetOrganization [simp]: "pure_op (GetOrganization sv c i)"
  by (auto simp: GetOrganization_def intro!: pure_op_bindE)

lemma keeps_answered [keeps_intros]: "keeps P m \<Longrightarrow> keeps P (answered m)"
  by (simp add: answered_def keeps_bindE)

lemma keeps_inv_serve_organization: "keeps organizations_inv (serve_organization sv c r)"
  by (cases r) (auto intro!: keeps_answered pure_op_keeps [OF pure_GetOrganization] keeps_inv_SetOrganizationMember
      keeps_inv_RemoveOrganizationMember keeps_inv_CreateOrganization keeps_inv_UpdateOrganization
      keeps_inv_DeleteOrganization)

lemma serve_organizations_inv: "organizations_inv s \<Longrightarrow> organizations_inv (serve_organizations sv rs s)"
  by (induction sv rs s rule: serve_organizations.induct) (simp_all add: keepsD [OF keeps_inv_serve_organization])

section \<open>Who may do what\<close>

text \<open>The standing each request needs, read off the tables alone.\<close>
fun entitled_organization :: "caller \<Rightarrow> organization_request \<Rightarrow> 'm core_db_scheme \<Rightarrow> bool" where
  "entitled_organization c (GetOrganizationReq i) s = True"
| "entitled_organization c (CreateOrganizationReq n b d) s = (cID c \<noteq> [])"
| "entitled_organization c (UpdateOrganizationReq i n b d p) s =
     (cID c \<noteq> [] \<and> organization_role i (cID c) s = Some RoleOwner)"
| "entitled_organization c (DeleteOrganizationReq i) s = (cID c \<noteq> [] \<and> cIsAdmin c)"
| "entitled_organization c (SetOrganizationMemberReq i u r) s =
     (cID c \<noteq> [] \<and> organization_role i (cID c) s = Some RoleOwner)"
| "entitled_organization c (RemoveOrganizationMemberReq i u) s =
     (cID c \<noteq> [] \<and> (organization_role i (cID c) s = Some RoleOwner \<or> u = cID c))"

lemma orgViewerFor_apply [oper_simps]:
  "orgViewerFor c i s =
     (Inr (organizationViewer c (if cID c = [] then None else organization_role i (cID c) s)), s)"
  by (simp add: orgViewerFor_def OrganizationRoleFor_def internal_def)

lemma not_found_OrganizationByID_apply [oper_simps]:
  "not_found res (OrganizationByID i) s =
     (case organization_by_id i s of None \<Rightarrow> Inl (NotFound res) | Some g \<Rightarrow> Inr g, s)"
  by (simp add: not_found_def oper_simps split: option.splits)

lemma organization_request_refused:
  assumes "\<not> entitled_organization c r s"
  shows "\<exists>e\<in>{Unauthenticated, Forbidden, NotFound ''organization''}. serve_organization sv c r s = (Inl e, s)"
proof (cases r)
  case (UpdateOrganizationReq i n b d p)
  then show ?thesis using assms organization_by_id_Some [of i s]
    by (auto simp: answered_def UpdateOrganization_def oper_simps viewers split: option.splits)
qed (use assms in \<open>auto simp: answered_def CreateOrganization_def DeleteOrganization_def
    SetOrganizationMember_def RemoveOrganizationMember_def oper_simps viewers\<close>)

lemma refuseLastOwnerChange_Inl:
  assumes "organizations_ok s" "last_owner i u s"
  shows "refuseLastOwnerChange i u s = (Inl (Invalid ''user_id''), s)"
proof -
  obtain g where g: "organization_by_id i s = Some g"
    using assms organization_by_id_None [of i s] organization_role_member [of i u s RoleOwner]
    by (fastforce simp: last_owner_def organizations_ok_def organization_exists_iff)
  then show ?thesis using assms organization_by_id_Some [OF g]
    by (simp add: refuseLastOwnerChange_def OrganizationRoleFor_def last_owner_def internal_def oper_simps refuse_if_def)
qed

section \<open>Properties\<close>

text \<open>
  Whatever requests OrganizationService is sent, by whomever, in whatever order,
  and whatever it answers each of them: the organization tables keep their keys and
  references, and no organization is ever without an owner.
\<close>
theorem organizations_keep_an_owner:
  "organizations_inv s \<Longrightarrow> organizations_inv (serve_organizations sv requests s)"
  by (rule serve_organizations_inv)

definition sample_service :: service where
  "sample_service = \<lparr>svOriginDomain = ''a.org'', svNotify = None, svLower = ascii_lower_rune\<rparr>"

definition sample_requests :: "(caller \<times> organization_request) list" where
  "sample_requests = [(callerOf (Some bob), RemoveOrganizationMemberReq ''org'' ''bob''),
     (callerOf (Some bob), SetOrganizationMemberReq ''org'' ''ada'' ''owner''),
     (callerOf (Some ada), RemoveOrganizationMemberReq ''org'' ''bob'')]"

lemma organizations_inv_sample: "organizations_inv sample_db"
  by (simp add: organizations_inv_def organizations_ok_def organizations_owned_def sample_defs)

theorem organizations_keep_an_owner_witness:
  "organizations_inv sample_db \<and> organizations_inv (serve_organizations sample_service sample_requests sample_db)
   \<and> map omrUser (organization_members (serve_organizations sample_service sample_requests sample_db)) = [''ada'']"
proof -
  have "map omrUser (organization_members (serve_organizations sample_service sample_requests sample_db)) = [''ada'']"
    by code_simp
  then show ?thesis
    using organizations_inv_sample
      organizations_keep_an_owner [OF organizations_inv_sample, of sample_service sample_requests] by blast
qed

text \<open>
  C1.  A request the caller is not entitled to changes nothing and is answered
  "unauthenticated", "forbidden" or "not found": editing and the roster need an owner
  of that organization (anyone may take themself off it), deleting needs a global
  administrator, and creating needs a session.
\<close>
theorem organization_requests_are_guarded:
  assumes "\<not> entitled_organization c r s"
  shows "snd (serve_organization sv c r s) = s
    \<and> (\<exists>e\<in>{Unauthenticated, Forbidden, NotFound ''organization''}. fst (serve_organization sv c r s) = Inl e)"
  using organization_request_refused [OF assms, of sv] by auto

theorem organization_requests_are_guarded_witness:
  "\<not> entitled_organization (callerOf (Some ada)) (UpdateOrganizationReq ''org'' None None None None) sample_db
   \<and> snd (serve_organization sample_service (callerOf (Some ada)) (UpdateOrganizationReq ''org'' None None None None) sample_db)
       = sample_db"
proof -
  have "\<not> entitled_organization (callerOf (Some ada)) (UpdateOrganizationReq ''org'' None None None None) sample_db"
    by (simp add: sample_defs callerOf_def organization_role_def)
  then show ?thesis using organization_requests_are_guarded by blast
qed

text \<open>
  The last owner of an organization cannot be taken off its roster or made an
  ordinary member, not even by their own hand: the request is refused, naming
  the field, and nothing changes.
\<close>
theorem last_owner_stays:
  assumes "organizations_inv s" "last_owner i u s" "cID c \<noteq> []"
    "u = cID c \<or> organization_role i (cID c) s = Some RoleOwner"
  shows "RemoveOrganizationMember c i u s = (Inl (Invalid ''user_id''), s)"
proof -
  have "refuseLastOwnerChange i u s = (Inl (Invalid ''user_id''), s)"
    using assms(1,2) by (auto simp: organizations_inv_def refuseLastOwnerChange_Inl)
  then show ?thesis using assms(3,4)
    by (auto simp: RemoveOrganizationMember_def oper_simps viewers)
qed

theorem last_owner_stays_witness:
  "last_owner ''org'' ''bob'' sample_db
   \<and> RemoveOrganizationMember (callerOf (Some bob)) ''org'' ''bob'' sample_db = (Inl (Invalid ''user_id''), sample_db)"
proof -
  have "last_owner ''org'' ''bob'' sample_db"
    by (simp add: last_owner_def organization_role_def sample_defs)
  with last_owner_stays [OF organizations_inv_sample this, of "callerOf (Some bob)"] show ?thesis
    by (simp add: callerOf_def bob_def)
qed

end
