(* ===== verification/StoreEvents.thy ===== *)
theory StoreEvents
  imports StoreGatherings
begin

text \<open>
  \<open>store/sqlite/events.go\<close> and \<open>series.go\<close>: events, attendance, series, the
  occurrences a series is materialized into, and the roles held on either.  An
  event's and a series' own columns are the records the code inserts; their
  instants are stored as whole seconds.  What is read back carries the search
  text as well, which the code's \<open>Event\<close> does not have and nothing reads.
\<close>

section \<open>Events\<close>

definition stored_event :: "EventInput \<Rightarrow> EventInput" where
  "stored_event e = e\<lparr>eiStartsAt := stored_time (eiStartsAt e), eiEndsAt := stored_time (eiEndsAt e)\<rparr>"

definition event_exists :: "ident \<Rightarrow> 'm core_db_scheme \<Rightarrow> bool" where
  "event_exists i s = has_row (\<lambda>e. erID e = i) (events s)"

definition series_exists :: "ident \<Rightarrow> 'm core_db_scheme \<Rightarrow> bool" where
  "series_exists i s = has_row (\<lambda>x. srID x = i) (event_series s)"

definition scanEvent :: "'m core_db_scheme \<Rightarrow> event_row \<Rightarrow> Event" where
  "scanEvent s r =
     \<lparr>eID = erID r, eOwn = erOwn r, eAttendeeCount = count_rows (\<lambda>a. arEvent a = erID r) (event_attendance s),
      eViewerAttending = False, eCreatedAt = erCreatedAt r, eUpdatedAt = erUpdatedAt r\<rparr>"

definition event_by_id :: "ident \<Rightarrow> 'm core_db_scheme \<Rightarrow> Event option" where
  "event_by_id i s = map_option (scanEvent s) (row (\<lambda>r. erID r = i) (events s))"

definition EventByID :: "ident \<Rightarrow> ('m core_db_scheme, store_error, Event) oper" where
  "EventByID i = bindE (reads (event_by_id i)) (the_or ErrNotFound)"

text \<open>The two CHECKs of the table, and the index on a series' starts.\<close>
definition event_checks :: "EventInput \<Rightarrow> bool" where
  "event_checks e \<longleftrightarrow> (eiIsOnline e \<or> eiIsInPerson e) \<and> eiStartsAt e \<le> eiEndsAt e"

definition same_occurrence :: "EventInput \<Rightarrow> event_row \<Rightarrow> bool" where
  "same_occurrence e r \<longleftrightarrow> eiSeriesID e \<noteq> None \<and> eiSeriesID (erOwn r) = eiSeriesID e
     \<and> eiStartsAt (erOwn r) = eiStartsAt e"

definition event_references :: "EventInput \<Rightarrow> 'm core_db_scheme \<Rightarrow> bool" where
  "event_references e s \<longleftrightarrow> gathering_exists (eiGatheringID e) s
     \<and> (\<forall>x\<in>set_option (eiSeriesID e). series_exists x s)"

definition insert_event :: "ident \<Rightarrow> EventInput \<Rightarrow> 'm core_db_scheme \<Rightarrow> 'm core_db_scheme" where
  "insert_event i e s = s\<lparr>events := events s @
     [\<lparr>erID = i, erOwn = e, erCreatedAt = nowSQL s, erUpdatedAt = nowSQL s\<rparr>]\<rparr>"

definition CreateEventRow :: "EventInput \<Rightarrow> ('m core_db_scheme, store_error, Event) oper" where
  "CreateEventRow own =
     bindE NewID (\<lambda>i. let e = stored_event own in
     thenE (require (\<lambda>s. \<not> event_exists i s \<and> event_checks e \<and> event_references e s
                \<and> \<not> has_row (same_occurrence e) (events s)) DBError)
    (thenE (writes (insert_event i e))
     (EventByID i)))"

text \<open>The gathering and the series are not among the columns an update sets.\<close>
definition update_event :: "EventInput \<Rightarrow> EventInput \<Rightarrow> EventInput" where
  "update_event new old = (stored_event new)\<lparr>eiGatheringID := eiGatheringID old, eiSeriesID := eiSeriesID old\<rparr>"

definition UpdateEventRow :: "ident \<Rightarrow> EventInput \<Rightarrow> ('m core_db_scheme, store_error, Event) oper" where
  "UpdateEventRow i own =
     thenE (require (event_exists i) ErrNotFound)
    (thenE (require (\<lambda>s. event_checks (stored_event own) \<and> \<not> has_row (\<lambda>r. erID r = i \<and>
          has_row (\<lambda>q. erID q \<noteq> i \<and> same_occurrence (update_event own (erOwn r)) q) (events s)) (events s)) DBError)
    (thenE (writes (\<lambda>s. s\<lparr>events := set_rows (\<lambda>r. erID r = i)
         (\<lambda>r. r\<lparr>erOwn := update_event own (erOwn r), erUpdatedAt := nowSQL s\<rparr>) (events s)\<rparr>))
     (EventByID i)))"

definition DeleteEventRow :: "ident \<Rightarrow> ('m core_db_scheme, store_error, unit) oper" where
  "DeleteEventRow i = writes (delete_events (\<lambda>r. erID r = i))"

section \<open>Attendance\<close>

definition AttendEventRow :: "ident \<Rightarrow> ident \<Rightarrow> ('m core_db_scheme, store_error, unit) oper" where
  "AttendEventRow i u =
     bindE (reads (\<lambda>s. has_row (\<lambda>a. arEvent a = i \<and> arUser a = u) (event_attendance s))) (\<lambda>already.
     if already then ret ()
     else thenE (require (\<lambda>s. event_exists i s \<and> user_exists u s) DBError)
       (writes (\<lambda>s. s\<lparr>event_attendance := event_attendance s @
           [\<lparr>arEvent = i, arUser = u, arMarkedAt = nowSQL s\<rparr>]\<rparr>)))"

definition UnattendEventRow :: "ident \<Rightarrow> ident \<Rightarrow> ('m core_db_scheme, store_error, unit) oper" where
  "UnattendEventRow i u = writes (\<lambda>s. s\<lparr>event_attendance :=
     del_rows (\<lambda>a. arEvent a = i \<and> arUser a = u) (event_attendance s)\<rparr>)"

definition ListAttendees :: "ident \<Rightarrow> Page \<Rightarrow> ('m core_db_scheme, store_error, Attendee list \<times> int) oper" where
  "ListAttendees i page = reads (\<lambda>s.
     (page_rows page (sort_key (\<lambda>a. (atMarkedAt a, atHandle a)) (List.map_filter (\<lambda>a.
        if arEvent a = i
        then map_option (\<lambda>u. \<lparr>atUserID = arUser a, atHandle = uHandle u, atLinkkeysDomain = uLinkkeysDomain u,
               atDisplayName = uDisplayName u, atMarkedAt = arMarkedAt a\<rparr>) (row (\<lambda>u. uID u = arUser a) (users s))
        else None) (event_attendance s))),
      count_rows (\<lambda>a. arEvent a = i) (event_attendance s)))"

definition AttendanceFor :: "ident \<Rightarrow> ident list \<Rightarrow> ('m core_db_scheme, store_error, ident \<Rightarrow> bool) oper" where
  "AttendanceFor u ids = reads (\<lambda>s i. u \<noteq> [] \<and> i \<in> set ids
     \<and> has_row (\<lambda>a. arUser a = u \<and> arEvent a = i) (event_attendance s))"

section \<open>Series\<close>

definition stored_series :: "EventSeriesInput \<Rightarrow> EventSeriesInput" where
  "stored_series x = x\<lparr>siStartsOn := stored_time (siStartsOn x), siEndsOn := map_option stored_time (siEndsOn x),
     siMaterializedThrough := stored_time (siMaterializedThrough x)\<rparr>"

definition scanSeries :: "'m core_db_scheme \<Rightarrow> series_row \<Rightarrow> EventSeries" where
  "scanSeries s r =
     \<lparr>sID = srID r, sOwn = srOwn r,
      sOccurrenceCount = count_rows (\<lambda>e. eiSeriesID (erOwn e) = Some (srID r)) (events s),
      sNextOccurrenceAt = next_start (nowSQL s) (filter (\<lambda>e. eiSeriesID (erOwn e) = Some (srID r)) (events s)),
      sCreatedAt = srCreatedAt r, sUpdatedAt = srUpdatedAt r\<rparr>"

definition series_by_id :: "ident \<Rightarrow> 'm core_db_scheme \<Rightarrow> EventSeries option" where
  "series_by_id i s = map_option (scanSeries s) (row (\<lambda>r. srID r = i) (event_series s))"

definition EventSeriesByID :: "ident \<Rightarrow> ('m core_db_scheme, store_error, EventSeries) oper" where
  "EventSeriesByID i = bindE (reads (series_by_id i)) (the_or ErrNotFound)"

definition series_checks :: "EventSeriesInput \<Rightarrow> bool" where
  "series_checks x \<longleftrightarrow> (siIsOnline x \<or> siIsInPerson x) \<and> 0 < siDurationMinutes x
     \<and> 1 \<le> rInterval (siRecurrence x)
     \<and> (\<forall>k\<in>set_option (rOrdinal (siRecurrence x)). 1 \<le> k \<and> k \<le> 5 \<or> k = -1)
     \<and> (\<forall>k\<in>set_option (rDayOfMonth (siRecurrence x)). 1 \<le> k \<and> k \<le> 31)"

definition CreateEventSeriesRow :: "EventSeriesInput \<Rightarrow> ('m core_db_scheme, store_error, EventSeries) oper" where
  "CreateEventSeriesRow own =
     bindE NewID (\<lambda>i.
     thenE (require (\<lambda>s. \<not> series_exists i s \<and> series_checks own \<and> gathering_exists (siGatheringID own) s) DBError)
    (thenE (writes (\<lambda>s. s\<lparr>event_series := event_series s @
         [\<lparr>srID = i, srOwn = stored_series own, srCreatedAt = nowSQL s, srUpdatedAt = nowSQL s\<rparr>]\<rparr>))
     (EventSeriesByID i)))"

definition UpdateEventSeriesRow :: "ident \<Rightarrow> EventSeriesInput \<Rightarrow> ('m core_db_scheme, store_error, EventSeries) oper" where
  "UpdateEventSeriesRow i own =
     thenE (require (series_exists i) ErrNotFound)
    (thenE (require (\<lambda>s. series_checks own) DBError)
    (thenE (writes (\<lambda>s. s\<lparr>event_series := set_rows (\<lambda>r. srID r = i)
         (\<lambda>r. r\<lparr>srOwn := (stored_series own)\<lparr>siGatheringID := siGatheringID (srOwn r)\<rparr>, srUpdatedAt := nowSQL s\<rparr>)
         (event_series s)\<rparr>))
     (EventSeriesByID i)))"

definition DeleteEventSeriesRow :: "ident \<Rightarrow> ('m core_db_scheme, store_error, unit) oper" where
  "DeleteEventSeriesRow i = writes (delete_series (\<lambda>r. srID r = i))"

definition DeleteOccurrencesFrom :: "ident \<Rightarrow> instant \<Rightarrow> ('m core_db_scheme, store_error, unit) oper" where
  "DeleteOccurrencesFrom i notBefore = writes (delete_events (\<lambda>r. eiSeriesID (erOwn r) = Some i
     \<and> stored_time notBefore \<le> eiStartsAt (erOwn r)))"

text \<open>
  One insert of the transaction: an instant the series has already is passed
  over; a CHECK or a missing reference fails the whole transaction.
\<close>
fun upsert_each :: "EventInput list \<Rightarrow> int \<Rightarrow> ('m core_db_scheme, store_error, int) oper" where
  "upsert_each [] n = ret n"
| "upsert_each (e # es) n =
     bindE NewID (\<lambda>i. let e = stored_event e in
     thenE (require (\<lambda>s. event_checks e) DBError)
    (bindE (reads (\<lambda>s. has_row (same_occurrence e) (events s))) (\<lambda>known.
     if known then upsert_each es n
     else thenE (require (\<lambda>s. \<not> event_exists i s \<and> event_references e s) DBError)
         (thenE (writes (insert_event i e)) (upsert_each es (n + 1))))))"

text \<open>A transaction that fails is rolled back; the ids it drew stay drawn.\<close>
definition UpsertOccurrences :: "ident \<Rightarrow> EventInput list \<Rightarrow> ('m core_db_scheme, store_error, int) oper" where
  "UpsertOccurrences i es s = (case upsert_each (map (\<lambda>e. e\<lparr>eiSeriesID := Some i\<rparr>) es) 0 s of
      (Inr n, t) \<Rightarrow> (Inr n, t)
    | (Inl e, t) \<Rightarrow> (Inl e, s\<lparr>minted := minted t\<rparr>))"

definition SetMaterializedThrough :: "ident \<Rightarrow> instant \<Rightarrow> ('m core_db_scheme, store_error, unit) oper" where
  "SetMaterializedThrough i through = writes (\<lambda>s. s\<lparr>event_series := set_rows (\<lambda>r. srID r = i)
     (\<lambda>r. r\<lparr>srOwn := (srOwn r)\<lparr>siMaterializedThrough := stored_time through\<rparr>\<rparr>) (event_series s)\<rparr>)"

section \<open>Roles\<close>

definition scope_event :: "RoleScope \<Rightarrow> ident option" where
  "scope_event sc = (if scEventID sc \<noteq> [] then Some (scEventID sc) else None)"

definition scope_series :: "RoleScope \<Rightarrow> ident option" where
  "scope_series sc = (if scEventID sc \<noteq> [] then None else Some (scSeriesID sc))"

text \<open>\<open>scopeColumn\<close>: the column a scope constrains.\<close>
definition on_scope :: "RoleScope \<Rightarrow> event_role_row \<Rightarrow> bool" where
  "on_scope sc r = (if scEventID sc \<noteq> [] then rrEvent r = Some (scEventID sc) else rrSeries r = Some (scSeriesID sc))"

definition SetEventRoleRow :: "RoleScope \<Rightarrow> ident \<Rightarrow> EventRole \<Rightarrow> ('m core_db_scheme, store_error, unit) oper" where
  "SetEventRoleRow sc u role =
     thenE (refuse_if (\<not> ValidScope sc) DBError)
    (bindE NewID (\<lambda>i.
     bindE (reads (\<lambda>s. has_row (\<lambda>r. on_scope sc r \<and> rrUser r = u \<and> rrRole r = role) (event_roles s))) (\<lambda>held.
     if held then ret ()
     else thenE (require (\<lambda>s. (\<forall>e\<in>set_option (scope_event sc). event_exists e s)
                   \<and> (\<forall>x\<in>set_option (scope_series sc). series_exists x s) \<and> user_exists u s
                   \<and> \<not> has_row (\<lambda>r. rrID r = i) (event_roles s)) DBError)
       (writes (\<lambda>s. s\<lparr>event_roles := event_roles s @
          [\<lparr>rrID = i, rrEvent = scope_event sc, rrSeries = scope_series sc, rrUser = u, rrRole = role,
            rrAssignedAt = nowSQL s\<rparr>]\<rparr>)))))"

definition RemoveEventRoleRow :: "RoleScope \<Rightarrow> ident \<Rightarrow> EventRole \<Rightarrow> ('m core_db_scheme, store_error, unit) oper" where
  "RemoveEventRoleRow sc u role =
     thenE (refuse_if (\<not> ValidScope sc) DBError)
       (writes (\<lambda>s. s\<lparr>event_roles :=
          del_rows (\<lambda>r. on_scope sc r \<and> rrUser r = u \<and> rrRole r = role) (event_roles s)\<rparr>))"

definition ListEventRoles :: "RoleScope \<Rightarrow> ('m core_db_scheme, store_error, EventRoleAssignment list) oper" where
  "ListEventRoles sc =
     thenE (refuse_if (\<not> ValidScope sc) DBError)
       (reads (\<lambda>s. sort_key (\<lambda>a. (raRole a \<noteq> Organizer, raAssignedAt a, raHandle a)) (List.map_filter (\<lambda>r.
          if on_scope sc r
          then map_option (\<lambda>u. \<lparr>raEventID = rrEvent r, raSeriesID = rrSeries r, raUserID = rrUser r,
                 raHandle = uHandle u, raLinkkeysDomain = uLinkkeysDomain u, raDisplayName = uDisplayName u,
                 raRole = rrRole r, raAssignedAt = rrAssignedAt r\<rparr>) (row (\<lambda>u. uID u = rrUser r) (users s))
          else None) (event_roles s))))"

text \<open>A role on the event, or on the series the event carries.\<close>
definition holds_event_role :: "ident \<Rightarrow> ident \<Rightarrow> EventRole \<Rightarrow> 'm core_db_scheme \<Rightarrow> bool" where
  "holds_event_role i u role s = has_row (\<lambda>r. rrUser r = u \<and> rrRole r = role \<and>
      (rrEvent r = Some i \<or> has_row (\<lambda>e. erID e = i \<and> rrSeries r \<noteq> None \<and> eiSeriesID (erOwn e) = rrSeries r) (events s)))
     (event_roles s)"

definition EventRolesFor :: "ident \<Rightarrow> ident \<Rightarrow> ('m core_db_scheme, store_error, bool \<times> bool) oper" where
  "EventRolesFor i u = reads (\<lambda>s. if u = [] then (False, False)
     else (holds_event_role i u Organizer s, holds_event_role i u Presenter s))"

definition holds_series_role :: "ident \<Rightarrow> ident \<Rightarrow> EventRole \<Rightarrow> 'm core_db_scheme \<Rightarrow> bool" where
  "holds_series_role i u role s = has_row (\<lambda>r. rrSeries r = Some i \<and> rrUser r = u \<and> rrRole r = role) (event_roles s)"

definition SeriesRolesFor :: "ident \<Rightarrow> ident \<Rightarrow> ('m core_db_scheme, store_error, bool \<times> bool) oper" where
  "SeriesRolesFor i u = reads (\<lambda>s. if u = [] then (False, False)
     else (holds_series_role i u Organizer s, holds_series_role i u Presenter s))"

end
