(* ===== verification/Integrity.thy ===== *)
theory Integrity
  imports StoreEvents Frame
begin

text \<open>
  The constraints the migrations declare on gatherings, events, attendance and
  roles, as invariants, and that every statement of the store keeps them.
  Keys stay unique, references stay resolved, an owner row names one owner, a
  role hangs off one thing, an event ends after it starts, and a series has an
  instant at most once.
\<close>

section \<open>Reading one row\<close>

lemma by_id_apply [oper_simps]:
  "GatheringByID g s = (case gathering_by_id g s of None \<Rightarrow> Inl ErrNotFound | Some x \<Rightarrow> Inr x, s)"
  "GatheringOfferByID i s = (case offer_by_id i s of None \<Rightarrow> Inl ErrNotFound | Some x \<Rightarrow> Inr x, s)"
  "EventByID i s = (case event_by_id i s of None \<Rightarrow> Inl ErrNotFound | Some x \<Rightarrow> Inr x, s)"
  "EventSeriesByID i s = (case series_by_id i s of None \<Rightarrow> Inl ErrNotFound | Some x \<Rightarrow> Inr x, s)"
  by (simp_all add: GatheringByID_def GatheringOfferByID_def EventByID_def EventSeriesByID_def the_or_def
      split: option.splits)

section \<open>Gatherings\<close>

definition owner_key :: "gathering_owner_row \<Rightarrow> ident \<times> ident option \<times> ident option" where
  "owner_key w = (gorGathering w, gorUser w, gorOrganization w)"

definition owner_row_ok :: "'m core_db_scheme \<Rightarrow> gathering_owner_row \<Rightarrow> bool" where
  "owner_row_ok s w \<longleftrightarrow> gathering_exists (gorGathering w) s
     \<and> (gorUser w = None) \<noteq> (gorOrganization w = None)
     \<and> (\<forall>u\<in>set_option (gorUser w). user_exists u s)
     \<and> (\<forall>i\<in>set_option (gorOrganization w). organization_exists i s)"

definition gatherings_ok :: "'m core_db_scheme \<Rightarrow> bool" where
  "gatherings_ok s \<longleftrightarrow>
     distinct (map grID (gatherings s))
   \<and> distinct (map (\<lambda>r. (oiOriginDomain (grOwn r), oiSlug (grOwn r))) (gatherings s))
   \<and> distinct (map gorID (gathering_owners s)) \<and> distinct (map owner_key (gathering_owners s))
   \<and> (\<forall>w\<in>set (gathering_owners s). owner_row_ok s w)
   \<and> distinct (map (\<lambda>m. (gmrGathering m, gmrUser m)) (gathering_members s))
   \<and> (\<forall>m\<in>set (gathering_members s). gathering_exists (gmrGathering m) s \<and> user_exists (gmrUser m) s)"

lemma gathering_exists_iff: "gathering_exists g s \<longleftrightarrow> g \<in> grID ` set (gatherings s)"
  by (auto simp: gathering_exists_def)

lemma gatherings_ok_minted [simp]: "gatherings_ok (s\<lparr>minted := n\<rparr>) = gatherings_ok s"
  by (simp add: gatherings_ok_def owner_row_ok_def gathering_exists_def user_exists_def organization_exists_def)

lemma core_only_gatherings_ok [simp]: "core_only gatherings_ok"
  by (auto simp: core_only_def same_core_def gatherings_ok_def owner_row_ok_def gathering_exists_def
      user_exists_def organization_exists_def)

lemma pure_gathering_reads [intro, simp]:
  "pure_op (GatheringByID g)" "pure_op (GatheringBySlug d x)" "pure_op (GatheringAccessFor g u)"
  "pure_op (CountGatheringOwners g)" "pure_op (ListGatheringMembers g p)" "pure_op (GatheringOfferByID i)"
  by (auto simp: GatheringByID_def GatheringBySlug_def GatheringAccessFor_def CountGatheringOwners_def
      ListGatheringMembers_def GatheringOfferByID_def intro!: pure_op_bindE)

lemma keeps_gatherings_CreateGatheringRow: "keeps gatherings_ok (CreateGatheringRow own kind i)"
  unfolding CreateGatheringRow_def
proof (intro keeps_bindE)
  fix g wid
  show "keeps gatherings_ok (thenE (require (\<lambda>s. \<not> gathering_exists g s
       \<and> \<not> has_row (\<lambda>r. oiOriginDomain (grOwn r) = oiOriginDomain own \<and> oiSlug (grOwn r) = oiSlug own) (gatherings s)
       \<and> \<not> has_row (\<lambda>w. gorID w = wid) (gathering_owners s)
       \<and> owner_target_exists kind i s) DBError)
    (thenE (writes (\<lambda>s. s\<lparr>
         gatherings := gatherings s @ [\<lparr>grID = g, grOwn = own, grCreatedAt = nowSQL s, grUpdatedAt = nowSQL s\<rparr>],
         gathering_owners := gathering_owners s @
           [\<lparr>gorID = wid, gorGathering = g, gorUser = fst (ownerValues kind i),
             gorOrganization = snd (ownerValues kind i), gorAddedAt = nowSQL s\<rparr>]\<rparr>))
     (GatheringByID g)))"
    by (intro keepsI, cases kind)
      (auto simp: gatherings_ok_def owner_row_ok_def gathering_exists_iff user_exists_def organization_exists_def
        owner_key_def ownerValues_def owner_target_exists_def by_id_apply image_iff)
qed (auto intro!: keeps_NewID)

lemma keeps_gatherings_UpdateGatheringRow: "keeps gatherings_ok (UpdateGatheringRow g own)"
proof -
  have k: "map grID (set_rows p (\<lambda>r. r\<lparr>grOwn := update_own own (grOwn r), grUpdatedAt := t\<rparr>) rs) = map grID rs"
    "map (\<lambda>r. (oiOriginDomain (grOwn r), oiSlug (grOwn r)))
       (set_rows p (\<lambda>r. r\<lparr>grOwn := update_own own (grOwn r), grUpdatedAt := t\<rparr>) rs)
     = map (\<lambda>r. (oiOriginDomain (grOwn r), oiSlug (grOwn r))) rs"
    "grID ` set (set_rows p (\<lambda>r. r\<lparr>grOwn := update_own own (grOwn r), grUpdatedAt := t\<rparr>) rs) = grID ` set rs"
    for p t rs by (rule set_rows_keys set_rows_key_set, simp add: update_own_def)+
  show ?thesis
    by (rule keepsI)
      (auto simp: UpdateGatheringRow_def gatherings_ok_def owner_row_ok_def gathering_exists_iff user_exists_def
        organization_exists_def by_id_apply k simp del: set_set_rows)
qed

lemma keeps_gatherings_AddGatheringOwnerRow: "keeps gatherings_ok (AddGatheringOwnerRow g kind i)"
  unfolding AddGatheringOwnerRow_def
proof (rule keeps_bindE)
  fix wid
  show "keeps gatherings_ok (bindE (reads (\<lambda>s. has_row (owner_row_is g kind i) (gathering_owners s))) (\<lambda>already.
     if already then ret ()
     else thenE (require (\<lambda>s. gathering_exists g s \<and> owner_target_exists kind i s
                    \<and> \<not> has_row (\<lambda>w. gorID w = wid) (gathering_owners s)) DBError)
       (writes (\<lambda>s. s\<lparr>gathering_owners := gathering_owners s @
           [\<lparr>gorID = wid, gorGathering = g, gorUser = fst (ownerValues kind i),
             gorOrganization = snd (ownerValues kind i), gorAddedAt = nowSQL s\<rparr>]\<rparr>))))"
    by (intro keepsI, cases kind)
      (auto simp: gatherings_ok_def owner_row_ok_def gathering_exists_iff user_exists_def organization_exists_def
        owner_key_def ownerValues_def owner_target_exists_def owner_row_is_def image_iff)
qed (auto intro!: keeps_NewID)

lemma keeps_gatherings_small:
  "keeps gatherings_ok (RemoveGatheringOwnerRow g kind i)"
  "keeps gatherings_ok (JoinGatheringRow g u)"
  "keeps gatherings_ok (LeaveGatheringRow g u)"
  by (rule keepsI, auto simp: RemoveGatheringOwnerRow_def JoinGatheringRow_def LeaveGatheringRow_def gatherings_ok_def
        owner_row_ok_def gathering_exists_iff user_exists_def organization_exists_def image_iff)+

lemma keeps_gatherings_DeleteGatheringRow: "keeps gatherings_ok (DeleteGatheringRow g)"
  by (rule keepsI) (auto simp: DeleteGatheringRow_def delete_events_def delete_series_def Let_def gatherings_ok_def
      owner_row_ok_def gathering_exists_iff user_exists_def organization_exists_def)

lemma gatherings_ok_offers [simp]: "gatherings_ok (s\<lparr>gathering_offers := x\<rparr>) = gatherings_ok s"
  by (simp add: gatherings_ok_def owner_row_ok_def gathering_exists_def user_exists_def organization_exists_def)

lemma keeps_gatherings_offers:
  "keeps gatherings_ok (CreateGatheringOfferRow g i u note)" "keeps gatherings_ok (ResolveGatheringOffer i status)"
  unfolding CreateGatheringOfferRow_def ResolveGatheringOffer_def
  by (auto intro!: keeps_bindE keeps_thenE keeps_case_option keeps_NewID keeps_writes
      pure_gathering_reads [THEN pure_op_keeps])

lemma keeps_gatherings_organizations:
  "keeps gatherings_ok (SetOrganizationMemberRow i u role)" "keeps gatherings_ok (RemoveOrganizationMemberRow i u)"
  by (rule keepsI, auto simp: SetOrganizationMemberRow_def RemoveOrganizationMemberRow_def
      gatherings_ok_def owner_row_ok_def gathering_exists_iff user_exists_def organization_exists_def)+

lemma keeps_gatherings_DeleteOrganizationRow: "keeps gatherings_ok (DeleteOrganizationRow i)"
proof (rule keepsI)
  fix s :: "'m core_db_scheme" assume ok: "gatherings_ok s"
  let ?t = "snd (DeleteOrganizationRow i s)"
  have "owner_row_ok ?t w" if "owner_row_ok s w" "gorOrganization w \<noteq> Some i" for w
    using that by (auto simp: owner_row_ok_def DeleteOrganizationRow_def gathering_exists_iff user_exists_def
        organization_exists_iff image_iff)
  with ok show "gatherings_ok ?t"
    by (auto simp: gatherings_ok_def DeleteOrganizationRow_def gathering_exists_iff user_exists_def)
qed

lemma keeps_gatherings_UpdateOrganizationRow: "keeps gatherings_ok (UpdateOrganizationRow i own)"
proof -
  have k: "organization_exists j (s\<lparr>organizations := set_rows p (\<lambda>r. r\<lparr>orOwn := update_own own (orOwn r), orUpdatedAt := t\<rparr>) (organizations s)\<rparr>)
      = organization_exists j s" for j p t and s :: "'a core_db_scheme"
    by (simp add: organization_exists_iff set_rows_key_set del: set_set_rows)
  show ?thesis
    by (rule keepsI) (simp add: UpdateOrganizationRow_def gatherings_ok_def owner_row_ok_def gathering_exists_iff
        user_exists_def k OrganizationByID_apply)
qed

lemma keeps_gatherings_CreateOrganizationRow: "keeps gatherings_ok (CreateOrganizationRow own u)"
  unfolding CreateOrganizationRow_def
proof (rule keeps_bindE)
  fix i
  show "keeps gatherings_ok (thenE (require (\<lambda>s. \<not> organization_exists i s
                \<and> \<not> has_row (\<lambda>r. oiOriginDomain (orOwn r) = oiOriginDomain own \<and> oiSlug (orOwn r) = oiSlug own)
                     (organizations s)
                \<and> user_exists u s) DBError)
    (thenE (writes (\<lambda>s. s\<lparr>
         organizations := organizations s @ [\<lparr>orID = i, orOwn = own, orCreatedAt = nowSQL s, orUpdatedAt = nowSQL s\<rparr>],
         organization_members := organization_members s @
           [\<lparr>omrOrganization = i, omrUser = u, omrRole = RoleOwner, omrJoinedAt = nowSQL s\<rparr>]\<rparr>))
     (OrganizationByID i)))"
    by (rule keepsI) (auto simp: gatherings_ok_def owner_row_ok_def gathering_exists_iff user_exists_def
        organization_exists_def OrganizationByID_apply)
qed (auto intro!: keeps_NewID)

lemmas keeps_gatherings [keeps_intros] =
  keeps_gatherings_CreateGatheringRow keeps_gatherings_UpdateGatheringRow keeps_gatherings_AddGatheringOwnerRow
  keeps_gatherings_small keeps_gatherings_DeleteGatheringRow keeps_gatherings_offers
  keeps_gatherings_organizations keeps_gatherings_DeleteOrganizationRow keeps_gatherings_UpdateOrganizationRow keeps_gatherings_CreateOrganizationRow

section \<open>Offers\<close>

text \<open>One pending offer per gathering and organization, and a resolution time exactly when resolved.\<close>
definition offers_ok :: "'m core_db_scheme \<Rightarrow> bool" where
  "offers_ok s \<longleftrightarrow> distinct (map frID (gathering_offers s))
   \<and> distinct (map (\<lambda>f. (frGathering f, frOrganization f)) (filter (\<lambda>f. frStatus f = OfferPending) (gathering_offers s)))
   \<and> (\<forall>f\<in>set (gathering_offers s). (frResolvedAt f = None) = (frStatus f = OfferPending)
        \<and> gathering_exists (frGathering f) s \<and> organization_exists (frOrganization f) s \<and> user_exists (frOfferedBy f) s)"

lemma core_only_offers_ok [simp]: "core_only offers_ok"
  by (auto simp: core_only_def same_core_def offers_ok_def gathering_exists_def user_exists_def organization_exists_def)

lemma offers_ok_minted [simp]: "offers_ok (s\<lparr>minted := n\<rparr>) = offers_ok s"
  by (simp add: offers_ok_def gathering_exists_def user_exists_def organization_exists_def)

lemma filter_set_rows_gone:
  "(\<And>x. p x \<Longrightarrow> \<not> q (f x)) \<Longrightarrow> filter q (set_rows p f t) = filter (\<lambda>x. q x \<and> \<not> p x) t"
  by (induction t) (auto simp: set_rows_def)

lemma distinct_map_subfilter:
  "distinct (map k (filter q t)) \<Longrightarrow> distinct (map k (filter (\<lambda>x. q x \<and> r x) t))"
  by (metis distinct_map_filter filter_filter)

lemma filter_del_rows: "filter q (del_rows p t) = filter (\<lambda>x. q x \<and> \<not> p x) t"
  by (simp add: del_rows_def conj_commute)

lemma keeps_offers_CreateGatheringOfferRow: "keeps offers_ok (CreateGatheringOfferRow g i u note)"
proof (rule keepsI)
  fix s :: "'m core_db_scheme" assume ok: "offers_ok s"
  show "offers_ok (snd (CreateGatheringOfferRow g i u note s))"
  proof (cases "row (pending_offer g i) (gathering_offers s)")
    case (Some f)
    then show ?thesis using ok by (simp add: CreateGatheringOfferRow_def by_id_apply)
  next
    case None
    then have "\<forall>f\<in>set (gathering_offers s). frStatus f = OfferPending \<longrightarrow> (frGathering f, frOrganization f) \<noteq> (g, i)"
      by (auto simp: row_None_iff pending_offer_def)
    then show ?thesis using ok None
      by (auto simp: CreateGatheringOfferRow_def by_id_apply NewID_def bindE_apply offers_ok_def gathering_exists_def
          user_exists_def organization_exists_def)
  qed
qed

lemma keeps_offers_ResolveGatheringOffer:
  assumes "status \<noteq> OfferPending"
  shows "keeps offers_ok (ResolveGatheringOffer i status)"
proof (rule keepsI)
  fix s :: "'m core_db_scheme" assume ok: "offers_ok s"
  let ?p = "\<lambda>f. frID f = i \<and> frStatus f = OfferPending"
  let ?f = "\<lambda>f. f\<lparr>frStatus := status, frResolvedAt := Some (nowSQL s)\<rparr>"
  have "map frID (set_rows ?p ?f (gathering_offers s)) = map frID (gathering_offers s)"
    by (rule set_rows_keys) simp
  moreover have "filter (\<lambda>f. frStatus f = OfferPending) (set_rows ?p ?f (gathering_offers s))
      = filter (\<lambda>f. frStatus f = OfferPending \<and> \<not> ?p f) (gathering_offers s)"
    by (rule filter_set_rows_gone) (simp add: assms)
  ultimately show "offers_ok (snd (ResolveGatheringOffer i status s))"
    using ok assms distinct_map_subfilter [of _ "\<lambda>f. frStatus f = OfferPending" "gathering_offers s" "\<lambda>f. \<not> ?p f"]
    unfolding offers_ok_def ResolveGatheringOffer_def
    by (auto simp: gathering_exists_def user_exists_def organization_exists_def)
qed

lemma offers_ok_del:
  assumes "offers_ok s" "\<And>f. f \<in> set (gathering_offers s) \<Longrightarrow> \<not> p f \<Longrightarrow>
      gathering_exists (frGathering f) t \<and> organization_exists (frOrganization f) t"
    "gathering_offers t = del_rows p (gathering_offers s)" "users t = users s"
  shows "offers_ok t"
  using assms distinct_map_subfilter [of "\<lambda>f. (frGathering f, frOrganization f)" "\<lambda>f. frStatus f = OfferPending"
      "gathering_offers s" "\<lambda>f. \<not> p f"]
  by (auto simp: offers_ok_def filter_del_rows user_exists_def simp del: gathering_exists_def)

lemma keeps_offers_DeleteGatheringRow: "keeps offers_ok (DeleteGatheringRow g)"
proof (rule keepsI)
  fix s :: "'m core_db_scheme" assume ok: "offers_ok s"
  show "offers_ok (snd (DeleteGatheringRow g s))"
    by (rule offers_ok_del [where p = "\<lambda>f. frGathering f = g", OF ok])
      (use ok in \<open>auto simp: offers_ok_def DeleteGatheringRow_def delete_events_def delete_series_def Let_def
        gathering_exists_iff organization_exists_iff image_iff\<close>)
qed

lemma keeps_offers_DeleteOrganizationRow: "keeps offers_ok (DeleteOrganizationRow i)"
proof (rule keepsI)
  fix s :: "'m core_db_scheme" assume ok: "offers_ok s"
  show "offers_ok (snd (DeleteOrganizationRow i s))"
    by (rule offers_ok_del [where p = "\<lambda>f. frOrganization f = i", OF ok])
      (use ok in \<open>auto simp: offers_ok_def DeleteOrganizationRow_def gathering_exists_iff organization_exists_iff image_iff\<close>)
qed

lemma offers_ok_frame:
  assumes "offers_ok s" "gathering_offers t = gathering_offers s"
    "grID ` set (gatherings s) \<subseteq> grID ` set (gatherings t)"
    "orID ` set (organizations s) \<subseteq> orID ` set (organizations t)" "users t = users s"
  shows "offers_ok t"
proof -
  have "gathering_exists g s \<Longrightarrow> gathering_exists g t" "organization_exists i s \<Longrightarrow> organization_exists i t"
    "user_exists u s = user_exists u t" for g i u
    using assms by (auto simp: gathering_exists_iff organization_exists_iff user_exists_def)
  then show ?thesis using assms(1,2) by (auto simp: offers_ok_def)
qed

end
