(* ===== verification/EventIntegrity.thy ===== *)
theory EventIntegrity
  imports Integrity
begin

text \<open>
  The constraints on events, series, attendance and roles as an invariant, and
  that every statement of the store keeps it, cascades included.
\<close>

section \<open>The invariant\<close>

definition occurrence_key :: "event_row \<Rightarrow> ident option \<times> instant" where
  "occurrence_key r = (eiSeriesID (erOwn r), eiStartsAt (erOwn r))"

definition is_occurrence :: "event_row \<Rightarrow> bool" where
  "is_occurrence r \<longleftrightarrow> eiSeriesID (erOwn r) \<noteq> None"

definition role_row_ok :: "'m core_db_scheme \<Rightarrow> event_role_row \<Rightarrow> bool" where
  "role_row_ok s r \<longleftrightarrow> (rrEvent r = None) \<noteq> (rrSeries r = None) \<and> user_exists (rrUser r) s
     \<and> (\<forall>i\<in>set_option (rrEvent r). event_exists i s) \<and> (\<forall>i\<in>set_option (rrSeries r). series_exists i s)"

definition event_rows_ok :: "'m core_db_scheme \<Rightarrow> bool" where
  "event_rows_ok s \<longleftrightarrow> distinct (map erID (events s))
   \<and> distinct (map occurrence_key (filter is_occurrence (events s)))
   \<and> (\<forall>r\<in>set (events s). event_checks (erOwn r) \<and> event_references (erOwn r) s)"

definition series_rows_ok :: "'m core_db_scheme \<Rightarrow> bool" where
  "series_rows_ok s \<longleftrightarrow> distinct (map srID (event_series s))
   \<and> (\<forall>x\<in>set (event_series s). series_checks (srOwn x) \<and> gathering_exists (siGatheringID (srOwn x)) s)"

definition attendance_ok :: "'m core_db_scheme \<Rightarrow> bool" where
  "attendance_ok s \<longleftrightarrow> distinct (map (\<lambda>a. (arEvent a, arUser a)) (event_attendance s))
   \<and> (\<forall>a\<in>set (event_attendance s). event_exists (arEvent a) s \<and> user_exists (arUser a) s)"

definition roles_ok :: "'m core_db_scheme \<Rightarrow> bool" where
  "roles_ok s \<longleftrightarrow> distinct (map rrID (event_roles s)) \<and> (\<forall>r\<in>set (event_roles s). role_row_ok s r)"

definition events_ok :: "'m core_db_scheme \<Rightarrow> bool" where
  "events_ok s \<longleftrightarrow> event_rows_ok s \<and> series_rows_ok s \<and> attendance_ok s \<and> roles_ok s"

lemmas events_ok_defs = events_ok_def event_rows_ok_def series_rows_ok_def attendance_ok_def roles_ok_def

lemma event_exists_iff: "event_exists i s \<longleftrightarrow> i \<in> erID ` set (events s)"
  and series_exists_iff: "series_exists i s \<longleftrightarrow> i \<in> srID ` set (event_series s)"
  by (auto simp: event_exists_def series_exists_def)

text \<open>The invariant reads ids of gatherings and people and the four event tables.\<close>
lemma events_ok_frame:
  assumes "events_ok s" "events t = events s" "event_series t = event_series s"
    "event_attendance t = event_attendance s" "event_roles t = event_roles s" "users t = users s"
    "grID ` set (gatherings s) \<subseteq> grID ` set (gatherings t)"
  shows "events_ok t"
proof -
  have "gathering_exists g s \<Longrightarrow> gathering_exists g t" "user_exists u t = user_exists u s"
    "event_exists i t = event_exists i s" "series_exists i t = series_exists i s" for g u i
    using assms by (auto simp: gathering_exists_iff user_exists_def event_exists_def series_exists_def)
  then show ?thesis using assms(1-5)
    by (auto simp: events_ok_defs role_row_ok_def event_references_def)
qed

lemma core_only_events_ok [simp]: "core_only events_ok"
  by (auto simp: core_only_def same_core_def intro: events_ok_frame)

lemma events_ok_minted [simp]: "events_ok (s\<lparr>minted := n\<rparr>) = events_ok s"
  by (auto intro: events_ok_frame)

section \<open>The changes of the tables\<close>

lemma insert_event_ok:
  assumes "events_ok s" "\<not> event_exists i s" "event_checks e" "event_references e s"
    "\<not> has_row (same_occurrence e) (events s)"
  shows "events_ok (insert_event i e s)"
proof -
  let ?t = "insert_event i e s"
  have frame: "gathering_exists g ?t = gathering_exists g s" "user_exists u ?t = user_exists u s"
    "series_exists x ?t = series_exists x s" "event_exists x s \<Longrightarrow> event_exists x ?t" for g u x
    by (auto simp: insert_event_def gathering_exists_def user_exists_def series_exists_def event_exists_def)
  have "event_rows_ok ?t"
    using assms frame
    by (auto simp: events_ok_def event_rows_ok_def insert_event_def event_exists_iff is_occurrence_def occurrence_key_def
        same_occurrence_def event_references_def)
  then show ?thesis using assms(1) frame
    by (auto simp: events_ok_defs role_row_ok_def) (auto simp: insert_event_def)
qed

lemma delete_events_ok:
  assumes "events_ok s"
  shows "events_ok (delete_events p s)"
proof -
  let ?t = "delete_events p s"
  have tables: "gatherings ?t = gatherings s" "users ?t = users s" "event_series ?t = event_series s"
    "events ?t = del_rows p (events s)"
    by (simp_all add: delete_events_def Let_def)
  have frame: "gathering_exists g ?t = gathering_exists g s" "user_exists u ?t = user_exists u s"
    "series_exists x ?t = series_exists x s" for g u x
    by (simp_all add: tables gathering_exists_def user_exists_def series_exists_def)
  have ex: "event_exists i ?t" if "event_exists i s" "\<not> has_row (\<lambda>e. p e \<and> erID e = i) (events s)" for i
    using that by (auto simp: event_exists_def tables)
  have "event_rows_ok ?t"
    using assms distinct_map_subfilter [of occurrence_key is_occurrence "events s" "\<lambda>x. \<not> p x"]
    by (auto simp: events_ok_def event_rows_ok_def event_references_def frame tables filter_del_rows)
  moreover have "attendance_ok ?t"
    using assms ex by (auto simp: events_ok_def attendance_ok_def frame) (auto simp: delete_events_def Let_def)
  moreover have "roles_ok ?t"
    using assms ex by (auto simp: events_ok_def roles_ok_def role_row_ok_def frame) (auto simp: delete_events_def Let_def)
  ultimately show ?thesis using assms frame by (auto simp: events_ok_def series_rows_ok_def tables)
qed

lemma delete_series_ok:
  assumes "events_ok s"
  shows "events_ok (delete_series p s)"
proof -
  let ?t = "delete_series p s"
  let ?gone = "\<lambda>i. has_row (\<lambda>x. p x \<and> srID x = i) (event_series s)"
  let ?q = "\<lambda>e. \<exists>i\<in>set_option (eiSeriesID (erOwn e)). ?gone i"
  let ?f = "\<lambda>e. e\<lparr>erOwn := (erOwn e)\<lparr>eiSeriesID := None\<rparr>\<rparr>"
  have tables: "gatherings ?t = gatherings s" "users ?t = users s" "event_series ?t = del_rows p (event_series s)"
    "events ?t = set_rows ?q ?f (events s)" "event_attendance ?t = event_attendance s"
    "event_roles ?t = del_rows (\<lambda>r. \<exists>i\<in>set_option (rrSeries r). ?gone i) (event_roles s)"
    by (simp_all add: delete_series_def Let_def)
  have ids: "map erID (events ?t) = map erID (events s)" "erID ` set (events ?t) = erID ` set (events s)"
    unfolding tables by (rule set_rows_keys, simp, rule set_rows_key_set, simp)
  have frame: "gathering_exists g ?t = gathering_exists g s" "user_exists u ?t = user_exists u s"
    "event_exists i ?t = event_exists i s" for g u i
    by (simp_all add: tables(1,2) gathering_exists_def user_exists_def event_exists_iff ids)
  have ex: "series_exists i ?t" if "series_exists i s" "\<not> ?gone i" for i
    using that by (auto simp: series_exists_def tables)
  have occ: "filter is_occurrence (events ?t) = filter (\<lambda>e. is_occurrence e \<and> \<not> ?q e) (events s)"
    unfolding tables by (rule filter_set_rows_gone) (simp add: is_occurrence_def)
  have "event_checks (erOwn r) \<and> event_references (erOwn r) ?t" if r: "r \<in> set (events ?t)" for r
  proof -
    from r have "r \<in> (\<lambda>e. if ?q e then ?f e else e) ` set (events s)" unfolding tables set_set_rows .
    then obtain e where e: "r = (if ?q e then ?f e else e)" "e \<in> set (events s)" by (rule imageE)
    have "event_checks (erOwn e) \<and> event_references (erOwn e) s"
      using assms e(2) by (simp add: events_ok_def event_rows_ok_def)
    then show ?thesis using e(1) ex
      by (cases "?q e") (auto simp: event_checks_def event_references_def frame)
  qed
  then have "event_rows_ok ?t"
    using assms distinct_map_subfilter [of occurrence_key is_occurrence "events s" "\<lambda>x. \<not> ?q x"] ids occ
    by (simp add: events_ok_def event_rows_ok_def)
  moreover have "roles_ok ?t"
    using assms ex by (auto simp: events_ok_def roles_ok_def role_row_ok_def frame tables)
  ultimately show ?thesis using assms
    by (auto simp: events_ok_def series_rows_ok_def attendance_ok_def frame tables(3,5))
qed

lemma update_event_ok:
  assumes ok: "events_ok s" and checks: "event_checks (stored_event own)"
    and free: "\<not> has_row (\<lambda>r. erID r = i \<and>
      has_row (\<lambda>q. erID q \<noteq> i \<and> same_occurrence (update_event own (erOwn r)) q) (events s)) (events s)"
  shows "events_ok (s\<lparr>events := set_rows (\<lambda>r. erID r = i)
         (\<lambda>r. r\<lparr>erOwn := update_event own (erOwn r), erUpdatedAt := t\<rparr>) (events s)\<rparr>)" (is "events_ok ?t")
proof -
  let ?f = "\<lambda>r. r\<lparr>erOwn := update_event own (erOwn r), erUpdatedAt := t\<rparr>"
  let ?g = "\<lambda>r. if erID r = i then ?f r else r"
  have ids: "map erID (events ?t) = map erID (events s)" "erID ` set (events ?t) = erID ` set (events s)"
    by (simp_all add: set_rows_keys set_rows_key_set del: set_set_rows)
  have frame: "gathering_exists g ?t = gathering_exists g s" "user_exists u ?t = user_exists u s"
    "event_exists x ?t = event_exists x s" "series_exists x ?t = series_exists x s" for g u x
    using ids(2) by (simp_all add: gathering_exists_def user_exists_def series_exists_def event_exists_iff del: set_set_rows)
  have own: "eiGatheringID (update_event own e) = eiGatheringID e" "eiSeriesID (update_event own e) = eiSeriesID e"
    "event_checks (update_event own e)" for e
    using checks by (simp_all add: update_event_def event_checks_def)
  have inj: "r = q" if "r \<in> set (events s)" "q \<in> set (events s)" "erID r = erID q" for r q
    using ok that distinct_map_inj [of erID "events s"] by (simp add: events_ok_def event_rows_ok_def)
  have clash: False if "r \<in> set (events s)" "q \<in> set (events s)" "is_occurrence r" "erID r = i" "erID q \<noteq> i"
      "occurrence_key (?f r) = occurrence_key q" for r q
  proof -
    have "same_occurrence (update_event own (erOwn r)) q"
      using that by (auto simp: same_occurrence_def occurrence_key_def is_occurrence_def own)
    with that(1,2,4,5) free show False by auto
  qed
  have key: "r = q" if "r \<in> set (events s)" "q \<in> set (events s)" "is_occurrence r" "is_occurrence q"
      "occurrence_key (?g r) = occurrence_key (?g q)" for r q
  proof (cases "erID r = i \<longleftrightarrow> erID q = i")
    case True
    then consider "erID r = i" "erID q = i" | "erID r \<noteq> i" "erID q \<noteq> i" by blast
    then show ?thesis
    proof cases
      case 1 then show ?thesis using inj that by simp
    next
      case 2
      have "distinct (map occurrence_key (filter is_occurrence (events s)))"
        using ok by (simp add: events_ok_def event_rows_ok_def)
      then show ?thesis using distinct_map_inj [of occurrence_key "filter is_occurrence (events s)" r q] that 2 by simp
    qed
  next
    case False
    then consider "erID r = i" "erID q \<noteq> i" | "erID q = i" "erID r \<noteq> i" by blast
    then show ?thesis
    proof cases
      case 1 then show ?thesis using clash [of r q] that by simp
    next
      case 2 then show ?thesis using clash [of q r] that by simp
    qed
  qed
  have dist: "distinct (map erID (events s))" using ok by (simp add: events_ok_def event_rows_ok_def)
  have "filter is_occurrence (events ?t) = map ?g (filter is_occurrence (events s))"
    by (simp add: set_rows_def filter_map comp_def is_occurrence_def own if_distrib cong: if_cong filter_cong)
  moreover have "inj_on (occurrence_key \<circ> ?g) (set (filter is_occurrence (events s)))"
    by (rule inj_onI) (use key in auto)
  moreover have "distinct (filter is_occurrence (events s))" using dist by (simp add: distinct_map)
  ultimately have "distinct (map occurrence_key (filter is_occurrence (events ?t)))"
    by (simp add: distinct_map)
  moreover have "\<forall>r\<in>set (events ?t). event_checks (erOwn r) \<and> event_references (erOwn r) ?t"
    using ok own by (auto simp: events_ok_def event_rows_ok_def event_references_def frame)
  ultimately have "event_rows_ok ?t" using ok ids(1) by (simp add: events_ok_def event_rows_ok_def)
  then show ?thesis using ok
    by (simp add: events_ok_def series_rows_ok_def attendance_ok_def roles_ok_def role_row_ok_def frame)
qed

section \<open>The statements\<close>

lemma keeps_events_CreateEventRow: "keeps events_ok (CreateEventRow own)"
  unfolding CreateEventRow_def Let_def
  by (rule keeps_bindE [OF keeps_NewID], simp, rule keepsI) (auto simp: by_id_apply insert_event_ok)

lemma keeps_events_UpdateEventRow: "keeps events_ok (UpdateEventRow i own)"
proof (rule keepsI)
  fix s :: "'m core_db_scheme" assume "events_ok s"
  then show "events_ok (snd (UpdateEventRow i own s))"
    using update_event_ok [of s own i "nowSQL s"] by (simp add: UpdateEventRow_def by_id_apply del: has_row_iff)
qed

lemma keeps_events_deletes:
  "keeps events_ok (DeleteEventRow i)" "keeps events_ok (DeleteOccurrencesFrom i t)" "keeps events_ok (DeleteEventSeriesRow i)"
  by (auto simp: DeleteEventRow_def DeleteOccurrencesFrom_def DeleteEventSeriesRow_def
      intro!: keeps_writes delete_events_ok delete_series_ok)

lemma keeps_events_attendance:
  "keeps events_ok (AttendEventRow i u)" "keeps events_ok (UnattendEventRow i u)"
  by (rule keepsI, auto simp: AttendEventRow_def UnattendEventRow_def events_ok_defs role_row_ok_def event_references_def
      event_exists_def user_exists_def series_exists_def gathering_exists_def image_iff)+

lemma events_ok_roles:
  assumes "events_ok s" "distinct (map rrID x)" "\<forall>r\<in>set x. role_row_ok s r"
  shows "events_ok (s\<lparr>event_roles := x\<rparr>)"
proof -
  have "gathering_exists g (s\<lparr>event_roles := x\<rparr>) = gathering_exists g s" "user_exists u (s\<lparr>event_roles := x\<rparr>) = user_exists u s"
    "series_exists i (s\<lparr>event_roles := x\<rparr>) = series_exists i s" "event_exists i (s\<lparr>event_roles := x\<rparr>) = event_exists i s" for g u i
    by (simp_all add: gathering_exists_def user_exists_def series_exists_def event_exists_def)
  then show ?thesis using assms by (auto simp: events_ok_defs role_row_ok_def event_references_def)
qed

lemma keeps_events_SetEventRoleRow: "keeps events_ok (SetEventRoleRow sc u role)"
proof (rule keepsI)
  fix s :: "'m core_db_scheme" assume ok: "events_ok s"
  let ?s = "s\<lparr>minted := Suc (minted s)\<rparr>"
  have ok': "events_ok ?s" using ok by simp
  have rows: "distinct (map rrID (event_roles s))" "\<forall>r\<in>set (event_roles s). role_row_ok ?s r"
    using ok' by (simp_all add: events_ok_def roles_ok_def)
  show "events_ok (snd (SetEventRoleRow sc u role s))"
  proof (cases "ValidScope sc \<and> \<not> has_row (\<lambda>r. on_scope sc r \<and> rrUser r = u \<and> rrRole r = role) (event_roles s)
      \<and> (\<forall>e\<in>set_option (scope_event sc). event_exists e ?s) \<and> (\<forall>x\<in>set_option (scope_series sc). series_exists x ?s)
      \<and> user_exists u ?s \<and> \<not> has_row (\<lambda>r. rrID r = ulid s (minted s)) (event_roles s)")
    case True
    let ?new = "\<lparr>rrID = ulid s (minted s), rrEvent = scope_event sc, rrSeries = scope_series sc, rrUser = u, rrRole = role,
            rrAssignedAt = nowSQL ?s\<rparr>"
    have "role_row_ok ?s ?new" using True by (auto simp: role_row_ok_def ValidScope_def scope_event_def scope_series_def)
    then have "events_ok (?s\<lparr>event_roles := event_roles ?s @ [?new]\<rparr>)"
      using rows True by (intro events_ok_roles [OF ok']) auto
    then show ?thesis using True
      by (auto simp: SetEventRoleRow_def NewID_def bindE_apply refuse_if_def thenE_apply require_def)
  next
    case False
    then show ?thesis using ok ok'
      by (auto simp: SetEventRoleRow_def NewID_def bindE_apply refuse_if_def thenE_apply require_def)
  qed
qed

lemma keeps_events_RemoveEventRoleRow: "keeps events_ok (RemoveEventRoleRow sc u role)"
proof (rule keepsI)
  fix s :: "'m core_db_scheme" assume ok: "events_ok s"
  then have "distinct (map rrID (event_roles s))" "\<forall>r\<in>set (event_roles s). role_row_ok s r"
    by (simp_all add: events_ok_def roles_ok_def)
  then have "events_ok (s\<lparr>event_roles := del_rows p (event_roles s)\<rparr>)" for p
    by (intro events_ok_roles [OF ok]) auto
  then show "events_ok (snd (RemoveEventRoleRow sc u role s))"
    using ok by (simp add: RemoveEventRoleRow_def)
qed

lemma events_ok_series:
  assumes "events_ok s" "map srID x = map srID (event_series s)"
    "\<forall>r\<in>set x. series_checks (srOwn r) \<and> gathering_exists (siGatheringID (srOwn r)) s"
  shows "events_ok (s\<lparr>event_series := x\<rparr>)"
proof -
  have "series_exists i (s\<lparr>event_series := x\<rparr>) = series_exists i s" for i
    using arg_cong [OF assms(2), of set] by (simp add: series_exists_iff)
  moreover have "gathering_exists g (s\<lparr>event_series := x\<rparr>) = gathering_exists g s"
    "user_exists u (s\<lparr>event_series := x\<rparr>) = user_exists u s"
    "event_exists i (s\<lparr>event_series := x\<rparr>) = event_exists i s" for g u i
    by (simp_all add: gathering_exists_def user_exists_def event_exists_def)
  ultimately show ?thesis using assms by (auto simp: events_ok_defs role_row_ok_def event_references_def)
qed

lemma series_checks_stored [simp]: "series_checks (stored_series x) = series_checks x"
  by (simp add: series_checks_def stored_series_def)

lemma keeps_events_SetMaterializedThrough: "keeps events_ok (SetMaterializedThrough i t)"
proof (rule keepsI)
  fix s :: "'m core_db_scheme" assume ok: "events_ok s"
  let ?x = "set_rows (\<lambda>r. srID r = i) (\<lambda>r. r\<lparr>srOwn := (srOwn r)\<lparr>siMaterializedThrough := stored_time t\<rparr>\<rparr>) (event_series s)"
  have "map srID ?x = map srID (event_series s)" by (rule set_rows_keys) simp
  moreover have "\<forall>r\<in>set ?x. series_checks (srOwn r) \<and> gathering_exists (siGatheringID (srOwn r)) s"
    using ok by (auto simp: events_ok_def series_rows_ok_def series_checks_def)
  ultimately show "events_ok (snd (SetMaterializedThrough i t s))"
    using events_ok_series [OF ok] by (simp add: SetMaterializedThrough_def)
qed

lemma keeps_events_UpdateEventSeriesRow: "keeps events_ok (UpdateEventSeriesRow i own)"
proof (rule keepsI)
  fix s :: "'m core_db_scheme" assume ok: "events_ok s"
  let ?x = "set_rows (\<lambda>r. srID r = i)
     (\<lambda>r. r\<lparr>srOwn := (stored_series own)\<lparr>siGatheringID := siGatheringID (srOwn r)\<rparr>, srUpdatedAt := nowSQL s\<rparr>) (event_series s)"
  have "map srID ?x = map srID (event_series s)" by (rule set_rows_keys) simp
  moreover have "series_checks ((stored_series own)\<lparr>siGatheringID := g\<rparr>) = series_checks own" for g
    by (simp add: series_checks_def stored_series_def)
  then have "series_checks own \<Longrightarrow> \<forall>r\<in>set ?x. series_checks (srOwn r) \<and> gathering_exists (siGatheringID (srOwn r)) s"
    using ok by (auto simp: events_ok_def series_rows_ok_def)
  ultimately show "events_ok (snd (UpdateEventSeriesRow i own s))"
    using ok events_ok_series [OF ok, of ?x] by (auto simp: UpdateEventSeriesRow_def by_id_apply simp del: set_set_rows)
qed

lemma keeps_events_CreateEventSeriesRow: "keeps events_ok (CreateEventSeriesRow own)"
  unfolding CreateEventSeriesRow_def
proof (rule keeps_bindE)
  fix i
  have "events_ok (s\<lparr>event_series := event_series s @ [\<lparr>srID = i, srOwn = stored_series own, srCreatedAt = a, srUpdatedAt = b\<rparr>]\<rparr>)"
    if ok: "events_ok s" and new: "\<not> series_exists i s" "series_checks own" "gathering_exists (siGatheringID own) s"
    for s :: "'m core_db_scheme" and a b
  proof -
    let ?t = "s\<lparr>event_series := event_series s @ [\<lparr>srID = i, srOwn = stored_series own, srCreatedAt = a, srUpdatedAt = b\<rparr>]\<rparr>"
    have "gathering_exists g ?t = gathering_exists g s" "user_exists u ?t = user_exists u s"
      "event_exists j ?t = event_exists j s" "series_exists j s \<Longrightarrow> series_exists j ?t" for g u j
      by (auto simp: gathering_exists_def user_exists_def event_exists_def series_exists_def)
    then show ?thesis using ok new
      by (auto simp: events_ok_defs role_row_ok_def event_references_def series_exists_iff stored_series_def)
        (auto simp: series_checks_def)
  qed
  then show "keeps events_ok (thenE (require (\<lambda>s. \<not> series_exists i s \<and> series_checks own \<and> gathering_exists (siGatheringID own) s) DBError)
    (thenE (writes (\<lambda>s. s\<lparr>event_series := event_series s @
         [\<lparr>srID = i, srOwn = stored_series own, srCreatedAt = nowSQL s, srUpdatedAt = nowSQL s\<rparr>]\<rparr>))
     (EventSeriesByID i)))"
    by (intro keepsI) (auto simp: by_id_apply)
qed (auto intro!: keeps_NewID)

lemma keeps_events_upsert_each:
  "keeps events_ok (upsert_each es n :: ('m core_db_scheme, store_error, int) oper)"
proof (induction es arbitrary: n)
  case Nil show ?case by (simp add: keeps_def)
next
  case (Cons e es)
  have "keeps events_ok (thenE (require (\<lambda>s. event_checks (stored_event e)) DBError)
    (bindE (reads (\<lambda>s. has_row (same_occurrence (stored_event e)) (events s))) (\<lambda>known.
     if known then (upsert_each es n :: ('m core_db_scheme, store_error, int) oper)
     else thenE (require (\<lambda>s. \<not> event_exists i s \<and> event_references (stored_event e) s) DBError)
         (thenE (writes (insert_event i (stored_event e))) (upsert_each es (n + 1))))))" for i
  proof (rule keepsI)
    fix s :: "'m core_db_scheme" assume ok: "events_ok s"
    have "events_ok (insert_event i (stored_event e) s)"
      if "event_checks (stored_event e)" "\<not> has_row (same_occurrence (stored_event e)) (events s)"
        "\<not> event_exists i s \<and> event_references (stored_event e) s"
      using insert_event_ok [OF ok] that by blast
    then show "events_ok (snd (thenE (require (\<lambda>s. event_checks (stored_event e)) DBError)
       (bindE (reads (\<lambda>s. has_row (same_occurrence (stored_event e)) (events s))) (\<lambda>known.
        if known then upsert_each es n
        else thenE (require (\<lambda>s. \<not> event_exists i s \<and> event_references (stored_event e) s) DBError)
         (thenE (writes (insert_event i (stored_event e))) (upsert_each es (n + 1))))) s))"
      using ok keepsD [OF Cons.IH] by (auto simp del: has_row_iff)
  qed
  then show ?case by (auto simp: Let_def intro!: keeps_bindE keeps_NewID)
qed

lemma keeps_events_UpsertOccurrences: "keeps events_ok (UpsertOccurrences i es)"
proof (rule keepsI)
  fix s :: "'m core_db_scheme" assume "events_ok s"
  then show "events_ok (snd (UpsertOccurrences i es s))"
    using keepsD [OF keeps_events_upsert_each, of s "map (\<lambda>e. e\<lparr>eiSeriesID := Some i\<rparr>) es" 0]
    by (auto simp: UpsertOccurrences_def split: prod.splits sum.splits)
qed

lemma keeps_events_DeleteGatheringRow: "keeps events_ok (DeleteGatheringRow g)"
proof (rule keepsI)
  fix s :: "'m core_db_scheme" assume ok: "events_ok s"
  define e where "e = delete_events (\<lambda>e. eiGatheringID (erOwn e) = g) s"
  define t where "t = delete_series (\<lambda>x. siGatheringID (srOwn x) = g) e"
  let ?r = "snd (DeleteGatheringRow g s)"
  have t: "events_ok t" unfolding t_def e_def by (intro delete_series_ok delete_events_ok ok)
  have r: "?r = t\<lparr>gatherings := del_rows (\<lambda>r. grID r = g) (gatherings s), gathering_owners := gathering_owners ?r,
      gathering_members := gathering_members ?r, gathering_offers := gathering_offers ?r\<rparr>"
    by (simp add: DeleteGatheringRow_def Let_def t_def e_def delete_events_def delete_series_def)
  have gat: "gatherings t = gatherings s" by (simp add: t_def e_def delete_series_def delete_events_def Let_def)
  have same: "events ?r = events t" "event_series ?r = event_series t" "event_attendance ?r = event_attendance t"
    "event_roles ?r = event_roles t" "users ?r = users t" "gatherings ?r = del_rows (\<lambda>r. grID r = g) (gatherings s)"
    by (subst r, simp)+
  have ex: "gathering_exists x t \<Longrightarrow> x \<noteq> g \<Longrightarrow> gathering_exists x ?r" for x
    by (auto simp: gathering_exists_def same gat)
  have e: "\<forall>r\<in>set (events t). eiGatheringID (erOwn r) \<noteq> g"
    by (auto simp: t_def e_def delete_series_def delete_events_def Let_def)
  have x: "\<forall>r\<in>set (event_series t). siGatheringID (srOwn r) \<noteq> g"
    by (auto simp: t_def e_def delete_series_def delete_events_def Let_def)
  have frame: "event_exists i ?r = event_exists i t" "series_exists i ?r = series_exists i t" "user_exists u ?r = user_exists u t" for i u
    by (simp_all add: event_exists_def series_exists_def user_exists_def same)
  show "events_ok ?r" using t e x ex
    by (simp add: events_ok_defs same role_row_ok_def event_references_def frame)
qed

lemma keeps_events_frames:
  "keeps events_ok (CreateGatheringRow own kind i)" "keeps events_ok (AddGatheringOwnerRow g kind i)"
  "keeps events_ok (RemoveGatheringOwnerRow g kind i)" "keeps events_ok (JoinGatheringRow g u)"
  "keeps events_ok (LeaveGatheringRow g u)" "keeps events_ok (CreateGatheringOfferRow g i u note)"
  "keeps events_ok (ResolveGatheringOffer i status)" "keeps events_ok (SetOrganizationMemberRow i u role)"
  "keeps events_ok (RemoveOrganizationMemberRow i u)" "keeps events_ok (DeleteOrganizationRow i)"
  "keeps events_ok (UpdateOrganizationRow i org)" "keeps events_ok (CreateOrganizationRow org u)"
  unfolding CreateGatheringRow_def AddGatheringOwnerRow_def RemoveGatheringOwnerRow_def JoinGatheringRow_def
    LeaveGatheringRow_def CreateGatheringOfferRow_def ResolveGatheringOffer_def SetOrganizationMemberRow_def
    RemoveOrganizationMemberRow_def DeleteOrganizationRow_def UpdateOrganizationRow_def CreateOrganizationRow_def
  by (auto intro!: keeps_bindE keeps_thenE keeps_case_option keeps_NewID keeps_writes keeps_if
      pure_gathering_reads [THEN pure_op_keeps] pure_organization_reads [THEN pure_op_keeps]
      intro: events_ok_frame)

lemma keeps_events_UpdateGatheringRow: "keeps events_ok (UpdateGatheringRow g own)"
proof (rule keepsI)
  fix s :: "'m core_db_scheme" assume ok: "events_ok s"
  let ?x = "set_rows (\<lambda>r. grID r = g) (\<lambda>r. r\<lparr>grOwn := update_own own (grOwn r), grUpdatedAt := nowSQL s\<rparr>) (gatherings s)"
  have "grID ` set ?x = grID ` set (gatherings s)" by (rule set_rows_key_set) simp
  then have "events_ok (s\<lparr>gatherings := ?x\<rparr>)" by (intro events_ok_frame [OF ok]) simp_all
  then show "events_ok (snd (UpdateGatheringRow g own s))"
    using ok by (simp add: UpdateGatheringRow_def by_id_apply del: set_set_rows)
qed

lemmas keeps_events [keeps_intros] =
  keeps_events_CreateEventRow keeps_events_UpdateEventRow keeps_events_deletes keeps_events_attendance
  keeps_events_SetEventRoleRow keeps_events_RemoveEventRoleRow keeps_events_SetMaterializedThrough
  keeps_events_UpdateEventSeriesRow keeps_events_CreateEventSeriesRow keeps_events_UpsertOccurrences
  keeps_events_DeleteGatheringRow keeps_events_frames keeps_events_UpdateGatheringRow

end
