(* ===== verification/FederationPublish.thy ===== *)
theory FederationPublish
  imports StoreFederation
begin

text \<open>
  \<open>federation/publish.go\<close>: an event, or its tombstone, becomes one signed batch
  and one outbox row for every peer this instance delivers to.  The signer is a
  parameter: it answers a signature and a key id, or fails.  The batch stands
  for its CBOR encoding, which is what the code signs and stores.
\<close>

record Publisher =
  pbAddress :: string
  pbAlgorithm :: string
  pbSign :: "EventBatch \<Rightarrow> (string \<times> string) option"
  pbPublicBaseURL :: string
  pbOriginDomain :: string

record FederatedEventInput =
  fiEventID :: ident
  fiTitle :: utext
  fiIsOnline :: bool
  fiIsInPerson :: bool
  fiLocation :: Location
  fiStartsAt :: instant
  fiEndsAt :: instant
  fiTimezone :: string
  fiGatheringName :: utext
  fiOrganizationName :: utext

definition canonicalURL :: "Publisher \<Rightarrow> ident \<Rightarrow> string" where
  "canonicalURL p i = rev (dropWhile (\<lambda>c. c = CHR ''/'') (rev (pbPublicBaseURL p))) @ ''/events/'' @ i"

definition federatedEvent :: "Publisher \<Rightarrow> FederatedEventInput \<Rightarrow> bool \<Rightarrow> FederatedEvent" where
  "federatedEvent p ev deleted =
     \<lparr>feRemoteId = fiEventID ev, feCanonicalUrl = canonicalURL p (fiEventID ev), feTitle = fiTitle ev,
      feIsOnline = fiIsOnline ev, feIsInPerson = fiIsInPerson ev,
      feLocation = (if IsZero (fiLocation ev) then None else Some (fiLocation ev)),
      feStartsAt = fiStartsAt ev, feEndsAt = fiEndsAt ev, feTimezone = fiTimezone ev,
      feGatheringName = fiGatheringName ev, feOrganizationName = fiOrganizationName ev, feDeleted = deleted\<rparr>"

definition envelope :: "Publisher \<Rightarrow> FederatedEventInput \<Rightarrow> bool \<Rightarrow> ('m fed_db_scheme, store_error, SignedDelivery) oper" where
  "envelope p ev deleted =
     bindE NewID (\<lambda>batchID.
     bindE (reads clock) (\<lambda>now.
     let body = \<lparr>ebOriginDomain = pbOriginDomain p, ebBatchId = batchID, ebSentAt = now,
                 ebEvents = [federatedEvent p ev deleted]\<rparr>
     in bindE (the_or DBError (pbSign p body)) (\<lambda>(signature, keyID).
        ret \<lparr>sdSenderAddress = pbAddress p, sdAlgorithm = pbAlgorithm p, sdKeyId = keyID,
             sdSignature = signature, sdBody = body\<rparr>)))"

definition PublishEvent :: "Publisher \<Rightarrow> FederatedEventInput \<Rightarrow> bool \<Rightarrow> ('m fed_db_scheme, store_error, unit) oper" where
  "PublishEvent p ev deleted =
     bindE OutboundPeers (\<lambda>to.
     if to = [] then ret ()
     else bindE (envelope p ev deleted) (\<lambda>body.
          bindE (reads clock) (\<lambda>now.
          each (\<lambda>peer. EnqueueDelivery (pID peer) (fiEventID ev) body now) to)))"

end
