(* ===== verification/Gatherings.thy ===== *)
theory Gatherings
  imports Organizations
begin

text \<open>
  \<open>csilservices/gatherings.go\<close> and \<open>offers.go\<close>: every operation of
  GatheringService, including the two ways a gathering moves under an
  organization, with the viewer each of them answers with.
\<close>

record WireGathering =
  wgGathering :: Gathering
  wgPublishEvents :: string
  wgPublish :: PublishDecision
  wgIsExternal :: bool
  wgViewer :: ViewerContext

definition toGathering :: "Gathering \<Rightarrow> ViewerContext \<Rightarrow> PublishDecision \<Rightarrow> string \<Rightarrow> WireGathering" where
  "toGathering g viewer publish instanceDomain =
     \<lparr>wgGathering = g, wgPublishEvents = wirePublishSetting (oiPublishEvents (gOwn g)), wgPublish = publish,
      wgIsExternal = isExternal (oiOriginDomain (gOwn g)) instanceDomain, wgViewer = viewer\<rparr>"

section \<open>Reading and loading\<close>

definition gatheringViewerFor :: "caller \<Rightarrow> ident \<Rightarrow> ('m core_db_scheme, error, ViewerContext) oper" where
  "gatheringViewerFor c g = bindE (internal (GatheringAccessFor g (cID c))) (\<lambda>access. ret (gatheringViewer c access))"

definition readGathering :: "service \<Rightarrow> caller \<Rightarrow> ident \<Rightarrow> ('m core_db_scheme, error, WireGathering) oper" where
  "readGathering sv c i =
     bindE (not_found ''gathering'' (GatheringByID i)) (\<lambda>g.
     bindE (gatheringViewerFor c i) (\<lambda>viewer.
     bindE (publishDecisionFor (Some g)) (\<lambda>publish.
     ret (toGathering g viewer publish (svOriginDomain sv)))))"

definition GetGathering :: "service \<Rightarrow> caller \<Rightarrow> ident \<Rightarrow> ('m core_db_scheme, error, WireGathering) oper" where
  "GetGathering sv c i = readGathering sv c i"

definition loadGathering :: "caller \<Rightarrow> ident \<Rightarrow> ('m core_db_scheme, error, Gathering \<times> ViewerContext) oper" where
  "loadGathering c i =
     bindE (not_found ''gathering'' (GatheringByID i)) (\<lambda>g.
     bindE (gatheringViewerFor c i) (\<lambda>viewer.
     ret (g, viewer)))"

definition parseOwnerKind :: "string \<Rightarrow> OwnerKind option" where
  "parseOwnerKind k = (if k = ''user'' then Some OwnerUser
     else if k = ''organization'' then Some OwnerOrganization else None)"

text \<open>\<open>resolveOwner\<close>: a reference the caller is entitled to make, or an error.\<close>
definition resolveOwner :: "caller \<Rightarrow> string \<Rightarrow> ident \<Rightarrow> ('m core_db_scheme, error, OwnerKind \<times> ident) oper" where
  "resolveOwner c kind i = (case parseOwnerKind kind of
      Some OwnerUser \<Rightarrow> thenE (not_found ''user'' (UserByID i)) (ret (OwnerUser, i))
    | Some OwnerOrganization \<Rightarrow>
        bindE (internal (OrganizationRoleFor i (cID c))) (\<lambda>role.
        thenE (refuse_if (role \<noteq> Some RoleOwner \<and> \<not> cIsAdmin c) Forbidden)
       (thenE (not_found ''organization'' (OrganizationByID i))
          (ret (OwnerOrganization, i))))
    | None \<Rightarrow> failed (Invalid ''owner''))"

definition gatheringSlugTaken :: "service \<Rightarrow> 'm core_db_scheme \<Rightarrow> string \<Rightarrow> bool" where
  "gatheringSlugTaken sv s slug \<longleftrightarrow> fst (GatheringBySlug (svOriginDomain sv) slug s) \<noteq> Inl ErrNotFound"

section \<open>Creating, changing, deleting\<close>

definition CreateGathering ::
  "service \<Rightarrow> caller \<Rightarrow> utext \<Rightarrow> utext \<Rightarrow> utext \<Rightarrow> (string \<times> ident) option
     \<Rightarrow> ('m hook_db_scheme, error, WireGathering) oper" where
  "CreateGathering sv c reqName reqBlurb reqDescription reqOwner =
     bindE (authenticated c) (\<lambda>c.
     bindE (of_sum (validateOrganizationText reqName reqBlurb reqDescription)) (\<lambda>(name, blurb, description).
     bindE (case reqOwner of None \<Rightarrow> ret (OwnerUser, cID c) | Some (k, i) \<Rightarrow> resolveOwner c k i) (\<lambda>(kind, owner).
     bindE NewID (\<lambda>slugID.
     bindE (reads (\<lambda>s. uniqueSlug (svLower sv) name slugID (gatheringSlugTaken sv s))) (\<lambda>slug.
     bindE (internal (CreateGatheringRow
        \<lparr>oiSlug = slug, oiOriginDomain = svOriginDomain sv, oiName = name, oiBlurb = blurb,
         oiDescription = description, oiSearchText = searchText (svLower sv) [name, blurb, description],
         oiPublishEvents = PublishUnset\<rparr> kind owner)) (\<lambda>g.
     thenE (notifyGathering (svNotify sv) ActionCreated g (if kind = OwnerOrganization then [owner] else []))
       (readGathering sv c (gID g))))))))"

definition UpdateGathering ::
  "service \<Rightarrow> caller \<Rightarrow> ident \<Rightarrow> utext option \<Rightarrow> utext option \<Rightarrow> utext option \<Rightarrow> string option
     \<Rightarrow> ('m hook_db_scheme, error, WireGathering) oper" where
  "UpdateGathering sv c i reqName reqBlurb reqDescription reqPublish =
     bindE (authenticated c) (\<lambda>c.
     bindE (loadGathering c i) (\<lambda>(g, viewer).
     thenE (refuse_if (\<not> vCanEdit viewer) Forbidden)
    (bindE (of_sum (validateOrganizationText
        (case reqName of None \<Rightarrow> oiName (gOwn g) | Some x \<Rightarrow> x)
        (case reqBlurb of None \<Rightarrow> oiBlurb (gOwn g) | Some x \<Rightarrow> x)
        (case reqDescription of None \<Rightarrow> oiDescription (gOwn g) | Some x \<Rightarrow> x))) (\<lambda>(name, blurb, description).
     bindE (case reqPublish of
         None \<Rightarrow> ret (oiPublishEvents (gOwn g))
       | Some _ \<Rightarrow> (case publishSettingOf reqPublish of (v, ok) \<Rightarrow>
           thenE (refuse_if (\<not> ok) (Invalid ''publish_events''))
          (bindE (reads settings) (\<lambda>st.
           thenE (refuse_if (\<not> GatheringOverrideAllowed st \<and> v \<noteq> PublishUnset) Forbidden)
             (ret v))))) (\<lambda>publishEvents.
     thenE (internal (UpdateGatheringRow (gID g)
        \<lparr>oiSlug = oiSlug (gOwn g), oiOriginDomain = oiOriginDomain (gOwn g), oiName = name, oiBlurb = blurb,
         oiDescription = description, oiSearchText = searchText (svLower sv) [name, blurb, description],
         oiPublishEvents = publishEvents\<rparr>))
    (bindE (internal (GatheringByID (gID g))) (\<lambda>updated.
     bindE (reads (organizationsOwning (gID g))) (\<lambda>orgs.
     thenE (notifyGathering (svNotify sv) ActionUpdated updated orgs)
       (readGathering sv c (gID g))))))))))"

definition DeleteGathering :: "service \<Rightarrow> caller \<Rightarrow> ident \<Rightarrow> ('m hook_db_scheme, error, unit) oper" where
  "DeleteGathering sv c i =
     bindE (authenticated c) (\<lambda>c.
     bindE (loadGathering c i) (\<lambda>(g, viewer).
     thenE (refuse_if (\<not> vCanDelete viewer) Forbidden)
    (bindE (reads (organizationsOwning i)) (\<lambda>orgs.
     thenE (internal (DeleteGatheringRow i))
    (thenE (internal (DeleteWebhooksFor WebhookOwnerGathering i))
     (notifyGathering (svNotify sv) ActionDeleted g orgs))))))"

section \<open>Members and owners\<close>

definition JoinGathering :: "service \<Rightarrow> caller \<Rightarrow> ident \<Rightarrow> ('m core_db_scheme, error, WireGathering) oper" where
  "JoinGathering sv c i =
     bindE (authenticated c) (\<lambda>c.
     thenE (loadGathering c i)
    (thenE (internal (JoinGatheringRow i (cID c)))
     (readGathering sv c i)))"

definition LeaveGathering :: "service \<Rightarrow> caller \<Rightarrow> ident \<Rightarrow> ('m core_db_scheme, error, WireGathering) oper" where
  "LeaveGathering sv c i =
     bindE (authenticated c) (\<lambda>c.
     thenE (loadGathering c i)
    (thenE (internal (LeaveGatheringRow i (cID c)))
     (readGathering sv c i)))"

definition AddGatheringOwner ::
  "service \<Rightarrow> caller \<Rightarrow> ident \<Rightarrow> string \<Rightarrow> ident \<Rightarrow> ('m core_db_scheme, error, WireGathering) oper" where
  "AddGatheringOwner sv c g reqKind reqID =
     bindE (authenticated c) (\<lambda>c.
     bindE (loadGathering c g) (\<lambda>(_, viewer).
     thenE (refuse_if (\<not> vCanManageMembers viewer) Forbidden)
    (bindE (resolveOwner c reqKind reqID) (\<lambda>(kind, i).
     thenE (internal (AddGatheringOwnerRow g kind i))
       (readGathering sv c g)))))"

text \<open>The last owner does not come off; the kind is checked after the count, as the code does.\<close>
definition RemoveGatheringOwner ::
  "service \<Rightarrow> caller \<Rightarrow> ident \<Rightarrow> string \<Rightarrow> ident \<Rightarrow> ('m core_db_scheme, error, WireGathering) oper" where
  "RemoveGatheringOwner sv c g reqKind reqID =
     bindE (authenticated c) (\<lambda>c.
     bindE (loadGathering c g) (\<lambda>(_, viewer).
     thenE (refuse_if (\<not> vCanManageMembers viewer) Forbidden)
    (bindE (internal (CountGatheringOwners g)) (\<lambda>count.
     thenE (refuse_if (count \<le> 1) (Invalid ''owner''))
    (bindE (the_or (Invalid ''owner'') (parseOwnerKind reqKind)) (\<lambda>kind.
     thenE (internal (RemoveGatheringOwnerRow g kind reqID))
       (readGathering sv c g)))))))"

section \<open>Offers\<close>

definition offerViewer :: "caller \<Rightarrow> GatheringOffer \<Rightarrow> bool \<Rightarrow> bool \<Rightarrow> ViewerContext" where
  "offerViewer c off ownsOrganization ownsGathering =
     (let pending = (goStatus off = OfferPending) in
      \<lparr>vIsAdmin = cIsAdmin c, vIsOwner = ownsGathering, vIsOrganizer = False, vIsPresenter = False,
       vIsMember = ownsOrganization \<or> ownsGathering, vHasJoined = False,
       vCanEdit = pending \<and> ownsOrganization, vCanDelete = pending \<and> ownsGathering,
       vCanManageMembers = False\<rparr>)"

text \<open>An administrator is not an owner here.\<close>
definition ownsOrganization :: "caller \<Rightarrow> ident \<Rightarrow> ('m core_db_scheme, error, bool) oper" where
  "ownsOrganization c i =
     bindE (internal (OrganizationRoleFor i (cID c))) (\<lambda>role. ret (role = Some RoleOwner))"

definition offerReply :: "caller \<Rightarrow> GatheringOffer \<Rightarrow> ('m core_db_scheme, error, GatheringOffer \<times> ViewerContext) oper" where
  "offerReply c off =
     bindE (ownsOrganization c (goOrganizationID off)) (\<lambda>ownsOrg.
     bindE (internal (GatheringAccessFor (goGatheringID off) (cID c))) (\<lambda>access.
     ret (off, offerViewer c off ownsOrg (IsOwner access))))"

definition OfferGathering ::
  "caller \<Rightarrow> ident \<Rightarrow> ident \<Rightarrow> utext \<Rightarrow> ('m core_db_scheme, error, GatheringOffer \<times> ViewerContext) oper" where
  "OfferGathering c g i note =
     bindE (authenticated c) (\<lambda>c.
     bindE (loadGathering c g) (\<lambda>(_, viewer).
     thenE (refuse_if (\<not> vIsOwner viewer) Forbidden)
    (bindE (not_found ''organization'' (OrganizationByID i)) (\<lambda>organization.
     bindE (internal (GatheringByID g)) (\<lambda>gathering.
     thenE (refuse_if (list_ex (\<lambda>w. owKind w = OwnerOrganization \<and> owID w = oID organization) (gOwners gathering))
              (Invalid ''organization_id''))
    (bindE (internal (CreateGatheringOfferRow g (oID organization) (cID c) note)) (\<lambda>off.
     offerReply c off)))))))"

text \<open>
  \<open>acceptOffer\<close>: the organization becomes an owner, and the gathering's
  individual owners join its roster as members unless they are on it already.
\<close>
definition acceptOffer :: "GatheringOffer \<Rightarrow> ('m core_db_scheme, error, unit) oper" where
  "acceptOffer off =
     bindE (internal (GatheringByID (goGatheringID off))) (\<lambda>gathering.
     thenE (internal (AddGatheringOwnerRow (goGatheringID off) OwnerOrganization (goOrganizationID off)))
       (each (\<lambda>w.
          if owKind w \<noteq> OwnerUser then ret ()
          else bindE (internal (OrganizationRoleFor (goOrganizationID off) (owID w))) (\<lambda>role.
               if role \<noteq> None then ret ()
               else internal (SetOrganizationMemberRow (goOrganizationID off) (owID w) RoleMember)))
        (gOwners gathering)))"

definition RespondToGatheringOffer ::
  "caller \<Rightarrow> ident \<Rightarrow> bool \<Rightarrow> ('m core_db_scheme, error, GatheringOffer \<times> ViewerContext) oper" where
  "RespondToGatheringOffer c offerID accept =
     bindE (authenticated c) (\<lambda>c.
     bindE (not_found ''offer'' (GatheringOfferByID offerID)) (\<lambda>off.
     bindE (ownsOrganization c (goOrganizationID off)) (\<lambda>ownsOrg.
     thenE (refuse_if (\<not> ownsOrg) Forbidden)
    (bindE (internal (ResolveGatheringOffer (goID off) (if accept then OfferAccepted else OfferDeclined))) (\<lambda>resolved.
     thenE (refuse_if (\<not> resolved) (Invalid ''offer_id''))
    (thenE (if accept then acceptOffer off else ret ())
    (bindE (internal (GatheringOfferByID (goID off))) (\<lambda>updated.
     offerReply c updated))))))))"

definition WithdrawGatheringOffer :: "caller \<Rightarrow> ident \<Rightarrow> ('m core_db_scheme, error, unit) oper" where
  "WithdrawGatheringOffer c offerID =
     bindE (authenticated c) (\<lambda>c.
     bindE (not_found ''offer'' (GatheringOfferByID offerID)) (\<lambda>off.
     bindE (internal (GatheringAccessFor (goGatheringID off) (cID c))) (\<lambda>access.
     thenE (refuse_if (\<not> IsOwner access) Forbidden)
    (bindE (internal (ResolveGatheringOffer (goID off) OfferWithdrawn)) (\<lambda>resolved.
     refuse_if (\<not> resolved) (Invalid ''offer_id''))))))"

definition AdoptGathering ::
  "service \<Rightarrow> caller \<Rightarrow> ident \<Rightarrow> ident \<Rightarrow> ('m core_db_scheme, error, WireGathering) oper" where
  "AdoptGathering sv c g i =
     bindE (authenticated c) (\<lambda>c.
     thenE (refuse_if (\<not> cIsAdmin c) Forbidden)
    (thenE (loadGathering c g)
    (thenE (not_found ''organization'' (OrganizationByID i))
    (thenE (internal (AddGatheringOwnerRow g OwnerOrganization i))
     (readGathering sv c g)))))"

end
