(* ===== verification/Calendar.thy ===== *)
theory Calendar
  imports Prelude
begin

text \<open>
  What \<open>recurrence.go\<close> uses of Go's \<open>time\<close> package: the proleptic Gregorian
  calendar, and the conversions between an instant and a wall-clock reading in
  a location.  A day is its number since 1970-01-01.  A location is the offset,
  in seconds east of UTC, that is in force at each UTC second (the zone
  database is data, so it is a parameter); \<open>time.Date\<close> resolves a reading the
  way the library does, by looking the offset up at the reading taken as UTC
  and then at the instant that offset gives.
\<close>

type_synonym day = int
type_synonym zone = "int \<Rightarrow> int"

section \<open>Civil days\<close>

definition leap :: "int \<Rightarrow> bool" where
  "leap y \<longleftrightarrow> 4 dvd y \<and> (\<not> 100 dvd y \<or> 400 dvd y)"

text \<open>Days from 0001-01-01 to the first of January of a year.\<close>
definition days_before_year :: "int \<Rightarrow> int" where
  "days_before_year y = (let p = y - 1 in 365 * p + p div 4 - p div 100 + p div 400)"

definition epoch_days :: int where "epoch_days = 719162"

text \<open>Days of a year before each month; the last entry is the length of the year.\<close>
definition month_starts :: "bool \<Rightarrow> int list" where
  "month_starts l = (if l
     then [0, 31, 60, 91, 121, 152, 182, 213, 244, 274, 305, 335, 366]
     else [0, 31, 59, 90, 120, 151, 181, 212, 243, 273, 304, 334, 365])"

text \<open>The day number of a date; month and day are normalised as \<open>time.Date\<close> does.\<close>
definition civil_day :: "int \<Rightarrow> int \<Rightarrow> int \<Rightarrow> day" where
  "civil_day y m d =
     (let y' = y + (m - 1) div 12; m' = (m - 1) mod 12 in
      days_before_year y' - epoch_days + month_starts (leap y') ! nat m' + (d - 1))"

definition year_of :: "day \<Rightarrow> int" where
  "year_of n =
     (let k = n + epoch_days; y = (400 * k) div 146097 + 1 in
      if k < days_before_year y then y - 1
      else if days_before_year (y + 1) \<le> k then y + 1 else y)"

definition day_of_year :: "day \<Rightarrow> int" where
  "day_of_year n = n + epoch_days - days_before_year (year_of n)"

fun find_month :: "int \<Rightarrow> int \<Rightarrow> int list \<Rightarrow> int" where
  "find_month m doy (a # b # rest) = (if doy < b then m else find_month (m + 1) doy (b # rest))"
| "find_month m doy _ = m"

text \<open>\<open>Month\<close> and \<open>Day\<close> of a date.\<close>
definition month_of :: "day \<Rightarrow> int" where
  "month_of n = find_month 1 (day_of_year n) (month_starts (leap (year_of n)))"

definition dom_of :: "day \<Rightarrow> int" where
  "dom_of n = day_of_year n - month_starts (leap (year_of n)) ! nat (month_of n - 1) + 1"

text \<open>Go numbers the weekdays from Sunday; 1970-01-01 was a Thursday.\<close>
definition weekday_of :: "day \<Rightarrow> int" where
  "weekday_of n = (n + 4) mod 7"

section \<open>Instants and readings\<close>

definition nanos :: int where "nanos = 1000000000"

text \<open>The wall clock of an instant in a location, in seconds.\<close>
definition local_seconds :: "zone \<Rightarrow> instant \<Rightarrow> int" where
  "local_seconds loc t = t div nanos + loc (t div nanos)"

definition local_day :: "zone \<Rightarrow> instant \<Rightarrow> day" where
  "local_day loc t = local_seconds loc t div 86400"

definition local_clock :: "zone \<Rightarrow> instant \<Rightarrow> int" where
  "local_clock loc t = local_seconds loc t mod 86400"

text \<open>The second \<open>time.Date\<close> resolves a reading to.\<close>
definition resolve :: "zone \<Rightarrow> int \<Rightarrow> int" where
  "resolve loc u = (if loc u = 0 then u else u - loc (u - loc u))"

text \<open>\<open>time.Date\<close> on a day and seconds into it, with no fraction of a second.\<close>
definition at_reading :: "zone \<Rightarrow> day \<Rightarrow> int \<Rightarrow> instant" where
  "at_reading loc n secs = resolve loc (n * 86400 + secs) * nanos"

text \<open>\<open>AddDate(0, 0, k)\<close>: the day moves, the clock reading stays.\<close>
definition add_days :: "zone \<Rightarrow> instant \<Rightarrow> int \<Rightarrow> instant" where
  "add_days loc t k = at_reading loc (local_day loc t + k) (local_clock loc t)"

text \<open>\<open>AddDate(0, k, 0)\<close>: months move, with the day normalised.\<close>
definition add_months :: "zone \<Rightarrow> instant \<Rightarrow> int \<Rightarrow> instant" where
  "add_months loc t k =
     (let n = local_day loc t in
      at_reading loc (civil_day (year_of n) (month_of n + k) (dom_of n)) (local_clock loc t))"

section \<open>The calendar is right\<close>

lemma div_pred:
  fixes y k :: int
  assumes "0 < k"
  shows "y div k = (y - 1) div k + (if k dvd y then 1 else 0)"
proof (cases "k dvd y")
  case True
  then obtain q where q: "y = k * q" by blast
  have "(y - 1) div k = q - 1"
    by (rule int_div_pos_eq [where r = "k - 1"]) (use q assms in \<open>auto simp: algebra_simps\<close>)
  then show ?thesis using q assms by simp
next
  case False
  have r: "y = k * (y div k) + y mod k" "0 \<le> y mod k" "y mod k < k" using assms by auto
  have "y mod k \<noteq> 0" using False by (simp add: dvd_eq_mod_eq_0)
  then have "(y - 1) div k = y div k"
    by (intro int_div_pos_eq [where r = "y mod k - 1"]) (use r in auto)
  then show ?thesis using False by simp
qed

lemma days_before_year_step: "days_before_year (y + 1) = days_before_year y + (if leap y then 366 else 365)"
proof -
  define a b c where "a = (y - 1) div 4" and "b = (y - 1) div 100" and "c = (y - 1) div 400"
  have e: "y div 4 = a + (if 4 dvd y then 1 else 0)" "y div 100 = b + (if 100 dvd y then 1 else 0)"
    "y div 400 = c + (if 400 dvd y then 1 else 0)"
    unfolding a_def b_def c_def by (rule div_pred, simp)+
  have d: "100 dvd y" if "400 dvd y" using that by (rule dvd_trans [rotated]) simp
  have d': "4 dvd y" if "100 dvd y" using that by (rule dvd_trans [rotated]) simp
  have "days_before_year (y + 1) = 365 * y + y div 4 - y div 100 + y div 400"
    by (simp add: days_before_year_def Let_def)
  moreover have "days_before_year y = 365 * (y - 1) + a - b + c"
    by (simp add: days_before_year_def Let_def a_def b_def c_def)
  ultimately show ?thesis
    unfolding leap_def e using d d'
    by (cases "4 dvd y"; cases "100 dvd y"; cases "400 dvd y") simp_all
qed

text \<open>A year's first day is within two days of 365.2425 days times the year.\<close>
lemma days_before_year_bounds:
  "146097 * (y - 1) - 700 \<le> 400 * days_before_year y
   \<and> 400 * days_before_year y \<le> 146097 * (y - 1) + 396"
proof -
  have m: "\<exists>r. p = k * (p div k) + r \<and> 0 \<le> r \<and> r < k" if "0 < k" for p k :: int
    using that by (intro exI [of _ "p mod k"]) simp
  define p a b c where "p = y - 1" and "a = p div 4" and "b = p div 100" and "c = p div 400"
  obtain i j k where "p = 4 * a + i" "0 \<le> i" "i < 4" "p = 100 * b + j" "0 \<le> j" "j < 100"
    "p = 400 * c + k" "0 \<le> k" "k < 400"
    using m [of 4 p] m [of 100 p] m [of 400 p] unfolding a_def b_def c_def by auto
  moreover have "days_before_year y = 365 * p + a - b + c"
    by (simp add: days_before_year_def Let_def a_def b_def c_def p_def)
  ultimately show ?thesis unfolding p_def [symmetric] by linarith
qed

lemma year_of_bounds:
  "days_before_year (year_of n) \<le> n + epoch_days \<and> n + epoch_days < days_before_year (year_of n + 1)"
proof -
  define k where "k = n + epoch_days"
  define q where "q = (400 * k) div 146097"
  define y where "y = q + 1"
  have "\<exists>r. 400 * k = 146097 * q + r \<and> 0 \<le> r \<and> r < 146097"
    unfolding q_def by (intro exI [of _ "(400 * k) mod 146097"]) simp
  then obtain r where "400 * k = 146097 * q + r" "0 \<le> r" "r < 146097" by blast
  then have q: "146097 * (y - 1) \<le> 400 * k \<and> 400 * k < 146097 * (y - 1) + 146097"
    by (simp add: y_def)
  have lo: "days_before_year (y - 1) \<le> k"
    using days_before_year_bounds [THEN conjunct2, of "y - 1"] q [THEN conjunct1] by simp
  have hi: "k < days_before_year (y + 2)"
    using days_before_year_bounds [THEN conjunct1, of "y + 2"] q [THEN conjunct2] by simp
  have y2: "y + 1 + 1 = y + 2" "y - 1 + 1 = y" by simp_all
  have "year_of n = (if k < days_before_year y then y - 1 else if days_before_year (y + 1) \<le> k then y + 1 else y)"
    unfolding year_of_def Let_def k_def y_def q_def by simp
  then show ?thesis using lo hi y2 by (auto simp: k_def algebra_simps)
qed

lemma year_of_unique:
  assumes "days_before_year y \<le> n + epoch_days" "n + epoch_days < days_before_year (y + 1)"
  shows "year_of n = y"
proof -
  have mono: "a < b \<Longrightarrow> days_before_year (a + 1) \<le> days_before_year b" for a b :: int
  proof (induction "nat (b - a - 1)" arbitrary: b)
    case (Suc k)
    then have "days_before_year (a + 1) \<le> days_before_year (b - 1)" by simp
    then show ?case using days_before_year_step [of "b - 1"] by (simp split: if_splits)
  next
    case 0
    then have "b = a + 1" by simp
    then show ?case by simp
  qed
  show ?thesis
    using year_of_bounds [of n] assms mono [of y "year_of n"] mono [of "year_of n" y]
    by (cases y "year_of n" rule: linorder_cases) auto
qed

lemma day_of_year_bounds: "0 \<le> day_of_year n" "day_of_year n < (if leap (year_of n) then 366 else 365)"
  using year_of_bounds [of n] days_before_year_step [of "year_of n"]
  by (auto simp: day_of_year_def split: if_splits)

lemma find_month_range:
  assumes "0 \<le> doy" "doy < (if l then 366 else 365)"
  shows "1 \<le> find_month 1 doy (month_starts l) \<and> find_month 1 doy (month_starts l) \<le> 12"
  using assms by (cases l) (auto simp: month_starts_def)

lemma month_of_range: "1 \<le> month_of n" "month_of n \<le> 12"
  using find_month_range [OF day_of_year_bounds] by (auto simp: month_of_def)

text \<open>Reading a day's date and building the day from it are inverse.\<close>
lemma civil_day_of: "civil_day (year_of n) (month_of n) (dom_of n) = n"
proof -
  have "(month_of n - 1) div 12 = 0" "(month_of n - 1) mod 12 = month_of n - 1"
    using month_of_range [of n] by auto
  then show ?thesis
    by (simp add: civil_day_def Let_def dom_of_def day_of_year_def)
qed

lemma civil_day_add: "civil_day y m (d + k) = civil_day y m d + k"
  by (simp add: civil_day_def Let_def)

lemma twelve: "0 \<le> m \<Longrightarrow> m < 12 \<Longrightarrow> m \<in> {0, 1, 2, 3, 4, 5, 6, 7, 8, 9, 10, 11 :: int}"
  by (simp, presburger)

lemma month_starts_step:
  assumes "0 \<le> m" "m < 12"
  shows "month_starts l ! nat m + 28 \<le> month_starts l ! nat (m + 1)"
    "month_starts l ! nat (m + 1) \<le> (if l then 366 else 365)" "0 \<le> month_starts l ! nat m"
proof -
  have "m \<in> {0, 1, 2, 3, 4, 5, 6, 7, 8, 9, 10, 11}" using assms twelve by blast
  then show "month_starts l ! nat m + 28 \<le> month_starts l ! nat (m + 1)"
    "month_starts l ! nat (m + 1) \<le> (if l then 366 else 365)" "0 \<le> month_starts l ! nat m"
    by (cases l; auto simp: month_starts_def)+
qed

lemma find_month_unique:
  assumes "0 \<le> m" "m < 12" "month_starts l ! nat m \<le> doy" "doy < month_starts l ! nat (m + 1)"
  shows "find_month 1 doy (month_starts l) = m + 1"
proof -
  have "m \<in> {0, 1, 2, 3, 4, 5, 6, 7, 8, 9, 10, 11}" using assms twelve by blast
  then show ?thesis using assms(3,4) by (cases l; auto simp: month_starts_def)
qed

text \<open>A date inside its month reads back as itself.\<close>
lemma civil_day_reads:
  assumes m: "1 \<le> m" "m \<le> 12" and d: "1 \<le> d" "d \<le> month_starts (leap y) ! nat m - month_starts (leap y) ! nat (m - 1)"
  shows "year_of (civil_day y m d) = y \<and> month_of (civil_day y m d) = m \<and> dom_of (civil_day y m d) = d"
proof -
  let ?n = "civil_day y m d"
  have mm: "(m - 1) div 12 = 0" "(m - 1) mod 12 = m - 1" using m by auto
  have n: "?n = days_before_year y - epoch_days + month_starts (leap y) ! nat (m - 1) + (d - 1)"
    using mm by (simp add: civil_day_def Let_def)
  have s: "month_starts (leap y) ! nat m \<le> (if leap y then 366 else 365)" "0 \<le> month_starts (leap y) ! nat (m - 1)"
    using month_starts_step [of "m - 1" "leap y"] m by auto
  have y: "year_of ?n = y"
    by (rule year_of_unique) (use n s d days_before_year_step [of y] in auto)
  have doy: "day_of_year ?n = month_starts (leap y) ! nat (m - 1) + (d - 1)"
    using y n by (simp add: day_of_year_def)
  have "month_of ?n = m - 1 + 1"
    unfolding month_of_def y
    by (rule find_month_unique) (use m d doy in auto)
  then show ?thesis using y doy by (simp add: dom_of_def)
qed

section \<open>Readings are near their day\<close>

text \<open>Every zone of the database is less than a day from UTC.\<close>
definition zone_ok :: "zone \<Rightarrow> bool" where
  "zone_ok loc \<longleftrightarrow> (\<forall>u. \<bar>loc u\<bar> < 86400)"

lemma resolve_near: "zone_ok loc \<Longrightarrow> \<bar>resolve loc u - u\<bar> < 86400"
  unfolding resolve_def zone_ok_def by (smt (verit))

lemma local_day_bounds:
  "local_day loc t * 86400 \<le> local_seconds loc t" "local_seconds loc t < local_day loc t * 86400 + 86400"
  unfolding local_day_def by presburger+

lemma nanos_pos [simp]: "0 < nanos" "nanos \<noteq> 0"
  by (simp_all add: nanos_def)

lemma at_reading_div [simp]: "at_reading loc n secs div nanos = resolve loc (n * 86400 + secs)"
  by (simp add: at_reading_def)

lemma at_reading_le_iff: "at_reading loc n a \<le> at_reading loc m b \<longleftrightarrow>
    resolve loc (n * 86400 + a) \<le> resolve loc (m * 86400 + b)"
  by (simp add: at_reading_def)

text \<open>Three days apart is enough to order two readings, whatever the zone.\<close>
lemma at_reading_mono:
  assumes "zone_ok loc" "n + 3 \<le> m" "0 \<le> a" "a < 86400" "0 \<le> b" "b < 86400"
  shows "at_reading loc n a < at_reading loc m b"
  using resolve_near [OF assms(1), of "n * 86400 + a"] resolve_near [OF assms(1), of "m * 86400 + b"] assms
  by (simp add: at_reading_def)

end
