(* ===== verification/Recurrence.thy ===== *)
theory Recurrence
  imports Calendar Errors Models
begin

text \<open>
  \<open>csilservices/recurrence.go\<close>: the instants a recurrence rule produces between
  two bounds.  The rule is evaluated in the series' own zone, on readings, and
  only then turned into instants.  The code's four loops are partial functions
  with values in \<open>option\<close>: \<open>None\<close> is a loop that does not end, and that none of
  them does is a theorem about the zone.
\<close>

section \<open>Bounds\<close>

definition hour :: duration where "hour = 3600 * nanos"
definition defaultHorizon :: duration where "defaultHorizon = 365 * 24 * hour"
definition maxHorizon :: duration where "maxHorizon = 3 * 365 * 24 * hour"
definition maxOccurrencesPerExpansion :: nat where "maxOccurrencesPerExpansion = 500"

definition maxTime :: "instant \<Rightarrow> instant \<Rightarrow> instant" where
  "maxTime a b = (if b < a then a else b)"

section \<open>The start time: parseClock, time.Parse with layout 15:04\<close>

definition is_digit :: "char \<Rightarrow> bool" where
  "is_digit c \<longleftrightarrow> 48 \<le> (of_char c :: nat) \<and> (of_char c :: nat) \<le> 57"

definition digit :: "char \<Rightarrow> int" where
  "digit c = int (of_char c) - 48"

text \<open>\<open>getnum\<close>: two digits, or one when the field is not of fixed width.\<close>
definition getnum :: "bool \<Rightarrow> string \<Rightarrow> (int \<times> string) option" where
  "getnum fixed s = (case s of
      [] \<Rightarrow> None
    | a # r \<Rightarrow>
        if \<not> is_digit a then None
        else (case r of
            [] \<Rightarrow> if fixed then None else Some (digit a, r)
          | b # r' \<Rightarrow> if is_digit b then Some (10 * digit a + digit b, r')
                     else if fixed then None else Some (digit a, r)))"

definition parseClock :: "string \<Rightarrow> (int \<times> int) option" where
  "parseClock s = (case getnum False s of
      None \<Rightarrow> None
    | Some (h, r) \<Rightarrow>
        if 24 \<le> h then None
        else (case r of
            [] \<Rightarrow> None
          | c # r' \<Rightarrow>
              if c \<noteq> CHR '':'' then None
              else (case getnum True r' of
                  None \<Rightarrow> None
                | Some (m, rest) \<Rightarrow> if 60 \<le> m \<or> rest \<noteq> [] then None else Some (h, m))))"

section \<open>Days of a rule\<close>

definition dateIn :: "zone \<Rightarrow> instant \<Rightarrow> instant" where
  "dateIn loc t = at_reading loc (local_day loc t) 0"

definition atClock :: "zone \<Rightarrow> instant \<Rightarrow> int \<Rightarrow> int \<Rightarrow> instant" where
  "atClock loc d h m = at_reading loc (local_day loc d) (h * 3600 + m * 60)"

definition nextWeekday :: "zone \<Rightarrow> instant \<Rightarrow> int \<Rightarrow> instant" where
  "nextWeekday loc t w = add_days loc t ((w - weekday_of (local_day loc t) + 7) mod 7)"

definition periodStart :: "zone \<Rightarrow> instant \<Rightarrow> int \<Rightarrow> instant" where
  "periodStart loc t monthsPerPeriod =
     (let n = local_day loc t; month = month_of n - 1; month = month - month mod monthsPerPeriod
      in at_reading loc (civil_day (year_of n) (month + 1) 1) 0)"

definition ruleWeekday :: "Recurrence \<Rightarrow> int option" where
  "ruleWeekday r = (case rWeekday r of None \<Rightarrow> None | Some w \<Rightarrow> map_option int (TimeWeekday w))"

text \<open>The last such weekday: back from the day before the period ends.\<close>
partial_function (option) last_loop :: "zone \<Rightarrow> instant \<Rightarrow> int \<Rightarrow> instant \<Rightarrow> instant option option" where
  "last_loop loc begin w d =
     (if d < begin then Some None
      else if weekday_of (local_day loc d) = w then Some (Some d)
      else last_loop loc begin w (add_days loc d (-1)))"

text \<open>The \<open>ordinal\<close>-th such weekday before \<open>end\<close>.\<close>
partial_function (option) nth_loop ::
  "zone \<Rightarrow> instant \<Rightarrow> int \<Rightarrow> int \<Rightarrow> instant \<Rightarrow> instant option option" where
  "nth_loop loc end ordinal cnt d =
     (if \<not> d < end then Some None
      else if cnt + 1 = ordinal then Some (Some d)
      else nth_loop loc end ordinal (cnt + 1) (add_days loc d 7))"

definition dayInPeriod :: "zone \<Rightarrow> instant \<Rightarrow> instant \<Rightarrow> Recurrence \<Rightarrow> instant option option" where
  "dayInPeriod loc begin end r = (case rDayOfMonth r of
      Some dm \<Rightarrow>
        (let n = local_day loc begin;
             d = at_reading loc (civil_day (year_of n) (month_of n) dm) 0
         in Some (if month_of (local_day loc d) \<noteq> month_of n then None else Some d))
    | None \<Rightarrow> (case ruleWeekday r of
          None \<Rightarrow> Some None
        | Some w \<Rightarrow>
            (let ordinal = (case rOrdinal r of None \<Rightarrow> 1 | Some k \<Rightarrow> k) in
             if ordinal = -1 then last_loop loc begin w (add_days loc end (-1))
             else nth_loop loc end ordinal 0 (nextWeekday loc begin w))))"

section \<open>The two walks\<close>

definition selects :: "int \<Rightarrow> int \<Rightarrow> bool" where
  "selects interval period \<longleftrightarrow> period mod interval = 0"

partial_function (option) weekly_loop ::
  "zone \<Rightarrow> int \<Rightarrow> int \<Rightarrow> instant \<Rightarrow> instant \<Rightarrow> int \<Rightarrow> int \<Rightarrow> instant \<Rightarrow> instant list \<Rightarrow> instant list option" where
  "weekly_loop loc h m windowStart windowEnd interval period cursor ts =
     (let at = atClock loc cursor h m in
      if windowEnd < at then Some ts
      else if selects interval period \<and> \<not> at < windowStart
           then if length (ts @ [at]) \<ge> maxOccurrencesPerExpansion then Some (ts @ [at])
                else weekly_loop loc h m windowStart windowEnd interval (period + 1) (add_days loc cursor 7) (ts @ [at])
           else weekly_loop loc h m windowStart windowEnd interval (period + 1) (add_days loc cursor 7) ts)"

partial_function (option) period_loop ::
  "zone \<Rightarrow> int \<Rightarrow> int \<Rightarrow> instant \<Rightarrow> instant \<Rightarrow> Recurrence \<Rightarrow> int \<Rightarrow> int \<Rightarrow> int \<Rightarrow> instant \<Rightarrow> instant list \<Rightarrow> instant list option" where
  "period_loop loc h m windowStart windowEnd r monthsPerPeriod interval period cursor ts =
     (let periodEnd = add_months loc cursor monthsPerPeriod in
      if windowEnd < atClock loc cursor h m then Some ts
      else Option.bind (if selects interval period then dayInPeriod loc cursor periodEnd r else Some None) (\<lambda>found.
        case found of
          None \<Rightarrow> period_loop loc h m windowStart windowEnd r monthsPerPeriod interval (period + 1) periodEnd ts
        | Some d \<Rightarrow>
            (let at = atClock loc d h m in
             if \<not> at < windowStart \<and> \<not> windowEnd < at
             then if length (ts @ [at]) \<ge> maxOccurrencesPerExpansion then Some (ts @ [at])
                  else period_loop loc h m windowStart windowEnd r monthsPerPeriod interval (period + 1) periodEnd (ts @ [at])
             else period_loop loc h m windowStart windowEnd r monthsPerPeriod interval (period + 1) periodEnd ts)))"

declare last_loop.simps [code] nth_loop.simps [code] weekly_loop.simps [code] period_loop.simps [code]

section \<open>occurrenceTimes\<close>

definition windowStartOf :: "EventSeriesInput \<Rightarrow> instant \<Rightarrow> instant" where
  "windowStartOf s from = maxTime from (siStartsOn s)"

definition windowEndOf :: "EventSeriesInput \<Rightarrow> instant \<Rightarrow> instant" where
  "windowEndOf s through = (case siEndsOn s of
      None \<Rightarrow> through | Some e \<Rightarrow> if e < through then e else through)"

definition intervalOf :: "Recurrence \<Rightarrow> int" where
  "intervalOf r = (if rInterval r < 1 then 1 else rInterval r)"

definition monthsPerPeriodOf :: "RecurrenceFreq \<Rightarrow> int" where
  "monthsPerPeriodOf f = (case f of Monthly \<Rightarrow> 1 | Quarterly \<Rightarrow> 3 | Yearly \<Rightarrow> 12 | Weekly \<Rightarrow> 0)"

text \<open>\<open>None\<close>: does not return.  \<open>Inl\<close>: the error.  \<open>LoadLocation\<close> is the zone database.\<close>
definition occurrenceTimes ::
  "(string \<Rightarrow> zone option) \<Rightarrow> EventSeriesInput \<Rightarrow> instant \<Rightarrow> instant \<Rightarrow> (error + instant list) option" where
  "occurrenceTimes LoadLocation s from through =
     (case LoadLocation (siTimezone s) of
        None \<Rightarrow> Some (Inl Internal)
      | Some loc \<Rightarrow> (case parseClock (siStartTime s) of
          None \<Rightarrow> Some (Inl Internal)
        | Some (h, m) \<Rightarrow>
            (let windowStart = windowStartOf s from; windowEnd = windowEndOf s through;
                 r = siRecurrence s; interval = intervalOf r; anchor = siStartsOn s
             in if windowEnd < windowStart then Some (Inr [])
                else if rFreq r = Weekly then
                  (case ruleWeekday r of
                     None \<Rightarrow> Some (Inl Internal)
                   | Some w \<Rightarrow> map_option Inr (weekly_loop loc h m windowStart windowEnd interval 0
                                 (nextWeekday loc (dateIn loc anchor) w) []))
                else map_option Inr (period_loop loc h m windowStart windowEnd r (monthsPerPeriodOf (rFreq r))
                       interval 0 (periodStart loc anchor (monthsPerPeriodOf (rFreq r))) []))))"

end
