(* ===== verification/Events.thy ===== *)
theory Events
  imports StoreEvents FederationPublish Gatherings Recurrence
begin

text \<open>
  \<open>csilservices/events.go\<close>: the events half of EventService.  The clock is read
  once per request: the code reads it at each check, a few instructions apart.
  \<open>time.LoadLocation\<close> and \<open>url.Parse\<close> are fields of the service, because the zone
  database is data and only a parsed URL's scheme and host are used.
\<close>

record event_service = service +
  svPublisher :: "Publisher option"
  svLoadLocation :: "string \<Rightarrow> zone option"
  svParseURL :: "utext \<Rightarrow> (utext \<times> utext) option"

text \<open>\<open>isWebURL\<close>: an allow-list of two schemes, on a URL that has a host.\<close>
definition isWebURL :: "(utext \<Rightarrow> (utext \<times> utext) option) \<Rightarrow> utext \<Rightarrow> bool" where
  "isWebURL parse raw = (case parse (TrimSpace raw) of
      None \<Rightarrow> False
    | Some (scheme, host) \<Rightarrow> host \<noteq> [] \<and> map ascii_lower_rune scheme \<in> {runes ''http'', runes ''https''})"

definition locationSearchParts :: "Location \<Rightarrow> utext list" where
  "locationSearchParts l =
     [locName l, locAddress l, locLocality l, locRegion l, locPostalCode l, locCountry l]"

definition fromLocation :: "Location option \<Rightarrow> Location" where
  "fromLocation l = (case l of None \<Rightarrow> emptyLocation | Some x \<Rightarrow> x)"

definition toLocation :: "Location \<Rightarrow> Location option" where
  "toLocation l = (if IsZero l then None else Some l)"

section \<open>Validation\<close>

definition eventSearchText :: "'v event_service_scheme \<Rightarrow> utext \<Rightarrow> utext \<Rightarrow> Location \<Rightarrow> utext" where
  "eventSearchText sv title description loc = searchText (svLower sv) ([title, description] @ locationSearchParts loc)"

definition validateEvent :: "'v event_service_scheme \<Rightarrow> EventInput \<Rightarrow> error + EventInput" where
  "validateEvent sv e =
     (if eiTitle e = [] then Inl (Invalid ''title'')
      else if length (eiTitle e) > 200 then Inl (Invalid ''title'')
      else if length (eiDescription e) > 10000 then Inl (Invalid ''description'')
      else if \<not> eiIsOnline e \<and> \<not> eiIsInPerson e then Inl (Invalid ''is_online'')
      else if eiIsInPerson e \<and> IsZero (eiLocation e) then Inl (Invalid ''location'')
      else if eiOnlineURL e \<noteq> [] \<and> \<not> isWebURL (svParseURL sv) (eiOnlineURL e) then Inl (Invalid ''online_url'')
      else if eiEndsAt e < eiStartsAt e then Inl (Invalid ''ends_at'')
      else if svLoadLocation sv (eiTimezone e) = None then Inl (Invalid ''timezone'')
      else Inr (e\<lparr>eiSearchText := eventSearchText sv (eiTitle e) (eiDescription e) (eiLocation e)\<rparr>))"

section \<open>Answering with an event\<close>

record WireEvent =
  weID :: ident
  weGatheringID :: ident
  weSeriesID :: "ident option"
  weTitle :: utext
  weDescription :: "utext option"
  weIsOnline :: bool
  weIsInPerson :: bool
  weOnlineURL :: "utext option"
  weLocation :: "Location option"
  weStartsAt :: instant
  weEndsAt :: instant
  weTimezone :: string
  weLocked :: bool
  weAttendeeCount :: int
  weViewerAttending :: bool
  weOriginDomain :: string
  weViewer :: ViewerContext
  weCreatedAt :: instant
  weUpdatedAt :: instant

text \<open>A started event's description and link are withheld, whoever asks.\<close>
definition toEvent :: "Event \<Rightarrow> ViewerContext \<Rightarrow> instant \<Rightarrow> string \<Rightarrow> WireEvent" where
  "toEvent e viewer now instanceDomain =
     (let locked = lockedAt (eiStartsAt (eOwn e)) now in
      \<lparr>weID = eID e, weGatheringID = eiGatheringID (eOwn e), weSeriesID = eiSeriesID (eOwn e),
       weTitle = eiTitle (eOwn e),
       weDescription = (if locked then None else Some (eiDescription (eOwn e))),
       weIsOnline = eiIsOnline (eOwn e), weIsInPerson = eiIsInPerson (eOwn e),
       weOnlineURL = (if locked \<or> eiOnlineURL (eOwn e) = [] then None else Some (eiOnlineURL (eOwn e))),
       weLocation = toLocation (eiLocation (eOwn e)), weStartsAt = eiStartsAt (eOwn e),
       weEndsAt = eiEndsAt (eOwn e), weTimezone = eiTimezone (eOwn e), weLocked = locked,
       weAttendeeCount = eAttendeeCount e, weViewerAttending = eViewerAttending e,
       weOriginDomain = instanceDomain, weViewer = viewer, weCreatedAt = eCreatedAt e, weUpdatedAt = eUpdatedAt e\<rparr>)"

definition eventViewerFor :: "caller \<Rightarrow> Event \<Rightarrow> ('m core_db_scheme, error, ViewerContext) oper" where
  "eventViewerFor c e =
     bindE (internal (GatheringAccessFor (eiGatheringID (eOwn e)) (cID c))) (\<lambda>access.
     bindE (internal (EventRolesFor (eID e) (cID c))) (\<lambda>(organizer, presenter).
     bindE (reads clock) (\<lambda>now.
     ret (eventViewer c access organizer presenter (lockedAt (eiStartsAt (eOwn e)) now)))))"

definition presentEvent :: "'v event_service_scheme \<Rightarrow> caller \<Rightarrow> Event \<Rightarrow> ('m core_db_scheme, error, WireEvent) oper" where
  "presentEvent sv c e =
     bindE (eventViewerFor c e) (\<lambda>viewer.
     bindE (if cID c = [] then ret e
            else bindE (internal (AttendanceFor (cID c) [eID e])) (\<lambda>attending.
                 ret (e\<lparr>eViewerAttending := attending (eID e)\<rparr>))) (\<lambda>e.
     bindE (reads clock) (\<lambda>now.
     ret (toEvent e viewer now (svOriginDomain sv)))))"

definition loadEvent :: "ident \<Rightarrow> ('m core_db_scheme, error, Event) oper" where
  "loadEvent i = not_found ''event'' (EventByID i)"

definition GetEvent :: "'v event_service_scheme \<Rightarrow> caller \<Rightarrow> ident \<Rightarrow> ('m core_db_scheme, error, WireEvent) oper" where
  "GetEvent sv c i = bindE (loadEvent i) (presentEvent sv c)"

definition rereadEvent :: "'v event_service_scheme \<Rightarrow> caller \<Rightarrow> ident \<Rightarrow> ('m core_db_scheme, error, WireEvent) oper" where
  "rereadEvent sv c i = bindE (loadEvent i) (presentEvent sv c)"

section \<open>Publishing to peers\<close>

definition federatedInput :: "Event \<Rightarrow> Gathering \<Rightarrow> FederatedEventInput" where
  "federatedInput e g =
     \<lparr>fiEventID = eID e, fiTitle = eiTitle (eOwn e), fiIsOnline = eiIsOnline (eOwn e),
      fiIsInPerson = eiIsInPerson (eOwn e), fiLocation = eiLocation (eOwn e), fiStartsAt = eiStartsAt (eOwn e),
      fiEndsAt = eiEndsAt (eOwn e), fiTimezone = eiTimezone (eOwn e), fiGatheringName = oiName (gOwn g),
      fiOrganizationName = (case find (\<lambda>w. owKind w = OwnerOrganization) (gOwners g) of
         None \<Rightarrow> [] | Some w \<Rightarrow> owDisplayName w)\<rparr>"

text \<open>
  \<open>EventService.publish\<close>: no publisher, a started event, an unreadable gathering or a
  decision against it queue nothing; a tombstone ignores the lock and the
  decision; a failure to queue is logged and the request goes on.
\<close>
definition publish :: "'v event_service_scheme \<Rightarrow> Event \<Rightarrow> bool \<Rightarrow> ('m fed_db_scheme, error, unit) oper" where
  "publish sv e deleted s = (case svPublisher sv of
      None \<Rightarrow> (Inr (), s)
    | Some p \<Rightarrow>
        if \<not> deleted \<and> lockedAt (eiStartsAt (eOwn e)) (clock s) then (Inr (), s)
        else (case GatheringByID (eiGatheringID (eOwn e)) s of
            (Inl _, s) \<Rightarrow> (Inr (), s)
          | (Inr g, s) \<Rightarrow>
              (case (if deleted then (Inr True, s)
                     else bindE (publishDecisionFor (Some g)) (\<lambda>d. ret (Publishing d)) s) of
                 (Inl _, s) \<Rightarrow> (Inr (), s)
               | (Inr publishing, s) \<Rightarrow>
                   if \<not> publishing then (Inr (), s)
                   else (Inr (), snd (PublishEvent p (federatedInput e g) deleted s)))))"

section \<open>Writing events\<close>

record CreateEventRequest =
  crGatheringID :: ident
  crTitle :: utext
  crDescription :: utext
  crIsOnline :: bool
  crIsInPerson :: bool
  crOnlineURL :: "utext option"
  crLocation :: "Location option"
  crStartsAt :: instant
  crEndsAt :: instant
  crTimezone :: string

definition CreateEvent ::
  "'v event_service_scheme \<Rightarrow> caller \<Rightarrow> CreateEventRequest \<Rightarrow> ('m fed_db_scheme, error, WireEvent) oper" where
  "CreateEvent sv c req =
     bindE (authenticated c) (\<lambda>c.
     bindE (internal (GatheringAccessFor (crGatheringID req) (cID c))) (\<lambda>access.
     thenE (not_found ''gathering'' (GatheringByID (crGatheringID req)))
    (thenE (refuse_if (\<not> IsOwner access) Forbidden)
    (bindE (of_sum (validateEvent sv
        \<lparr>eiGatheringID = crGatheringID req, eiSeriesID = None, eiTitle = TrimSpace (crTitle req),
         eiDescription = TrimSpace (crDescription req), eiSearchText = [], eiIsOnline = crIsOnline req,
         eiIsInPerson = crIsInPerson req,
         eiOnlineURL = (case crOnlineURL req of None \<Rightarrow> [] | Some u \<Rightarrow> TrimSpace u),
         eiLocation = fromLocation (crLocation req), eiStartsAt = crStartsAt req, eiEndsAt = crEndsAt req,
         eiTimezone = crTimezone req\<rparr>)) (\<lambda>e.
     bindE (reads clock) (\<lambda>now.
     thenE (refuse_if (lockedAt (eiStartsAt e) now) (Invalid ''starts_at''))
    (bindE (internal (CreateEventRow e)) (\<lambda>event.
     thenE (publish sv event False)
    (thenE (notifyEvent (svNotify sv) ActionCreated event)
     (presentEvent sv c event))))))))))"

record UpdateEventRequest =
  urTitle :: "utext option"
  urDescription :: "utext option"
  urIsOnline :: "bool option"
  urIsInPerson :: "bool option"
  urOnlineURL :: "utext option"
  urLocation :: "Location option"
  urStartsAt :: "instant option"
  urEndsAt :: "instant option"
  urTimezone :: "string option"

definition changed :: "'a option \<Rightarrow> 'a \<Rightarrow> 'a" where
  "changed new old = (case new of None \<Rightarrow> old | Some x \<Rightarrow> x)"

definition edited_event :: "UpdateEventRequest \<Rightarrow> EventInput \<Rightarrow> EventInput" where
  "edited_event req e = e\<lparr>
     eiTitle := changed (map_option TrimSpace (urTitle req)) (eiTitle e),
     eiDescription := changed (map_option TrimSpace (urDescription req)) (eiDescription e),
     eiIsOnline := changed (urIsOnline req) (eiIsOnline e),
     eiIsInPerson := changed (urIsInPerson req) (eiIsInPerson e),
     eiOnlineURL := changed (map_option TrimSpace (urOnlineURL req)) (eiOnlineURL e),
     eiLocation := changed (urLocation req) (eiLocation e),
     eiStartsAt := changed (urStartsAt req) (eiStartsAt e),
     eiEndsAt := changed (urEndsAt req) (eiEndsAt e),
     eiTimezone := changed (urTimezone req) (eiTimezone e)\<rparr>"

definition UpdateEvent ::
  "'v event_service_scheme \<Rightarrow> caller \<Rightarrow> ident \<Rightarrow> UpdateEventRequest \<Rightarrow> ('m fed_db_scheme, error, WireEvent) oper" where
  "UpdateEvent sv c i req =
     bindE (authenticated c) (\<lambda>c.
     bindE (loadEvent i) (\<lambda>event.
     bindE (eventViewerFor c event) (\<lambda>viewer.
     bindE (reads clock) (\<lambda>now.
     thenE (refuse_if (lockedAt (eiStartsAt (eOwn event)) now) Forbidden)
    (thenE (refuse_if (\<not> vCanEdit viewer) Forbidden)
    (bindE (of_sum (validateEvent sv (edited_event req (eOwn event)))) (\<lambda>e.
     thenE (refuse_if (lockedAt (eiStartsAt e) now) (Invalid ''starts_at''))
    (bindE (internal (UpdateEventRow (eID event) e)) (\<lambda>updated.
     thenE (publish sv updated False)
    (thenE (notifyEvent (svNotify sv) ActionUpdated updated)
     (presentEvent sv c updated)))))))))))"

definition DeleteEvent :: "'v event_service_scheme \<Rightarrow> caller \<Rightarrow> ident \<Rightarrow> ('m fed_db_scheme, error, unit) oper" where
  "DeleteEvent sv c i =
     bindE (authenticated c) (\<lambda>c.
     bindE (loadEvent i) (\<lambda>event.
     bindE (eventViewerFor c event) (\<lambda>viewer.
     thenE (refuse_if (\<not> vCanDelete viewer) Forbidden)
    (thenE (internal (DeleteEventRow (eID event)))
    (thenE (publish sv event True)
     (notifyEvent (svNotify sv) ActionDeleted event))))))"

section \<open>Attendance\<close>

definition AttendEvent :: "'v event_service_scheme \<Rightarrow> caller \<Rightarrow> ident \<Rightarrow> ('m core_db_scheme, error, WireEvent) oper" where
  "AttendEvent sv c i =
     bindE (authenticated c) (\<lambda>c.
     bindE (loadEvent i) (\<lambda>event.
     bindE (reads clock) (\<lambda>now.
     thenE (refuse_if (lockedAt (eiStartsAt (eOwn event)) now) Forbidden)
    (bindE (internal (GatheringAccessFor (eiGatheringID (eOwn event)) (cID c))) (\<lambda>access.
     thenE (refuse_if (\<not> IsMember access \<and> \<not> IsOwner access) Forbidden)
    (thenE (internal (AttendEventRow (eID event) (cID c)))
     (rereadEvent sv c (eID event))))))))"

definition UnattendEvent :: "'v event_service_scheme \<Rightarrow> caller \<Rightarrow> ident \<Rightarrow> ('m core_db_scheme, error, WireEvent) oper" where
  "UnattendEvent sv c i =
     bindE (authenticated c) (\<lambda>c.
     bindE (loadEvent i) (\<lambda>event.
     bindE (reads clock) (\<lambda>now.
     thenE (refuse_if (lockedAt (eiStartsAt (eOwn event)) now) Forbidden)
    (thenE (internal (UnattendEventRow (eID event) (cID c)))
     (rereadEvent sv c (eID event))))))"

end
