(* ===== verification/SeriesService.thy ===== *)
theory SeriesService
  imports Events
begin

text \<open>
  \<open>csilservices/series.go\<close>: the series half of EventService.  A series is a rule
  and a template; its occurrences are ordinary events, materialized out to a
  horizon.  A rule whose expansion does not return (\<open>None\<close> of \<open>occurrenceTimes\<close>) has no
  outcome in the code; it is given the internal error here, and
  \<open>Occurrences.occurrences_returned\<close> shows when it cannot arise.
\<close>

record WireRecurrence =
  wrFreq :: string
  wrInterval :: "64 word"
  wrWeekday :: "string option"
  wrOrdinal :: "int option"
  wrDayOfMonth :: "64 word option"

section \<open>Rules from the wire\<close>

definition parseFreq :: "string \<Rightarrow> RecurrenceFreq option" where
  "parseFreq f = (if f = ''weekly'' then Some Weekly else if f = ''monthly'' then Some Monthly
     else if f = ''quarterly'' then Some Quarterly else if f = ''yearly'' then Some Yearly else None)"

definition parseWeekday :: "string \<Rightarrow> Weekday option" where
  "parseWeekday w = map_of [(''sunday'', Sunday), (''monday'', Monday), (''tuesday'', Tuesday),
     (''wednesday'', Wednesday), (''thursday'', Thursday), (''friday'', Friday), (''saturday'', Saturday)] w"

text \<open>
  \<open>fromRecurrence\<close>: unsigned numbers become signed ones, and an interval below one is
  one.  \<open>None\<close>: a frequency or weekday name that validation will refuse.
\<close>
definition fromRecurrence :: "WireRecurrence \<Rightarrow> Recurrence option" where
  "fromRecurrence r =
     (case parseFreq (wrFreq r) of
        None \<Rightarrow> None
      | Some f \<Rightarrow>
          if wrWeekday r \<noteq> None \<and> parseWeekday (the (wrWeekday r)) = None then None
          else Some \<lparr>rFreq = f,
            rInterval = (if sint (wrInterval r) < 1 then 1 else sint (wrInterval r)),
            rWeekday = Option.bind (wrWeekday r) parseWeekday, rOrdinal = wrOrdinal r,
            rDayOfMonth = map_option sint (wrDayOfMonth r)\<rparr>)"

definition validateRecurrence :: "Recurrence \<Rightarrow> bool" where
  "validateRecurrence r \<longleftrightarrow>
     (case rFreq r of
        Weekly \<Rightarrow> rWeekday r \<noteq> None
      | _ \<Rightarrow> \<not> (rWeekday r = None \<and> rDayOfMonth r = None) \<and> \<not> (rWeekday r \<noteq> None \<and> rOrdinal r = None))
   \<and> (\<forall>k\<in>set_option (rOrdinal r). \<not> (k < -1 \<or> k = 0 \<or> 5 < k))
   \<and> (\<forall>k\<in>set_option (rDayOfMonth r). \<not> (k < 1 \<or> 31 < k))
   \<and> \<not> rInterval r < 1"

definition validateSeries ::
  "'v event_service_scheme \<Rightarrow> EventSeriesInput \<Rightarrow> Recurrence option \<Rightarrow> error + EventSeriesInput" where
  "validateSeries sv x rule =
     (if TrimSpace (siTitle x) = [] then Inl (Invalid ''title'')
      else if length (siTitle x) > 200 then Inl (Invalid ''title'')
      else if length (siDescription x) > 10000 then Inl (Invalid ''description'')
      else if \<not> siIsOnline x \<and> \<not> siIsInPerson x then Inl (Invalid ''is_online'')
      else if siIsInPerson x \<and> IsZero (siLocation x) then Inl (Invalid ''location'')
      else if siOnlineURL x \<noteq> [] \<and> \<not> isWebURL (svParseURL sv) (siOnlineURL x) then Inl (Invalid ''online_url'')
      else if siDurationMinutes x \<le> 0 then Inl (Invalid ''duration_minutes'')
      else if svLoadLocation sv (siTimezone x) = None then Inl (Invalid ''timezone'')
      else if parseClock (siStartTime x) = None then Inl (Invalid ''start_time'')
      else if (\<exists>e\<in>set_option (siEndsOn x). e < siStartsOn x) then Inl (Invalid ''ends_on'')
      else (case rule of
          None \<Rightarrow> Inl (Invalid ''recurrence'')
        | Some r \<Rightarrow>
            if \<not> validateRecurrence r then Inl (Invalid ''recurrence'')
            else Inr (x\<lparr>siRecurrence := r,
                   siSearchText := eventSearchText sv (siTitle x) (siDescription x) (siLocation x)\<rparr>)))"

section \<open>Reading and materializing\<close>

record WireSeries =
  wsSeries :: EventSeries
  wsLocation :: "Location option"
  wsOnlineURL :: "utext option"
  wsOriginDomain :: string
  wsViewer :: ViewerContext

definition toEventSeries :: "EventSeries \<Rightarrow> ViewerContext \<Rightarrow> string \<Rightarrow> WireSeries" where
  "toEventSeries x viewer instanceDomain =
     \<lparr>wsSeries = x, wsLocation = toLocation (siLocation (sOwn x)),
      wsOnlineURL = (if siOnlineURL (sOwn x) = [] then None else Some (siOnlineURL (sOwn x))),
      wsOriginDomain = instanceDomain, wsViewer = viewer\<rparr>"

definition seriesViewerFor :: "caller \<Rightarrow> EventSeries \<Rightarrow> ('m core_db_scheme, error, ViewerContext) oper" where
  "seriesViewerFor c x =
     bindE (internal (GatheringAccessFor (siGatheringID (sOwn x)) (cID c))) (\<lambda>access.
     bindE (internal (SeriesRolesFor (sID x) (cID c))) (\<lambda>(organizer, presenter).
     ret (seriesViewer c access organizer presenter)))"

definition loadSeries :: "ident \<Rightarrow> ('m core_db_scheme, error, EventSeries) oper" where
  "loadSeries i = not_found ''event_series'' (EventSeriesByID i)"

definition rereadSeries :: "'v event_service_scheme \<Rightarrow> caller \<Rightarrow> ident \<Rightarrow> ('m core_db_scheme, error, WireSeries) oper" where
  "rereadSeries sv c i =
     bindE (loadSeries i) (\<lambda>x.
     bindE (seriesViewerFor c x) (\<lambda>viewer.
     ret (toEventSeries x viewer (svOriginDomain sv))))"

text \<open>\<open>time.Duration(minutes) * time.Minute\<close>: 64 bits, so a long enough duration wraps.\<close>
definition minutes_duration :: "int \<Rightarrow> duration" where
  "minutes_duration m = sint (word_of_int m * word_of_int minute :: 64 word)"

definition occurrence_of :: "'v event_service_scheme \<Rightarrow> EventSeriesInput \<Rightarrow> instant \<Rightarrow> EventInput" where
  "occurrence_of sv x at =
     \<lparr>eiGatheringID = siGatheringID x, eiSeriesID = None, eiTitle = siTitle x, eiDescription = siDescription x,
      eiSearchText = eventSearchText sv (siTitle x) (siDescription x) (siLocation x),
      eiIsOnline = siIsOnline x, eiIsInPerson = siIsInPerson x, eiOnlineURL = siOnlineURL x,
      eiLocation = siLocation x, eiStartsAt = at, eiEndsAt = at + minutes_duration (siDurationMinutes x),
      eiTimezone = siTimezone x\<rparr>"

definition horizon_ceiling :: "instant \<Rightarrow> instant \<Rightarrow> instant" where
  "horizon_ceiling now through = (if now + maxHorizon < through then now + maxHorizon else through)"

definition ensureHorizon ::
  "'v event_service_scheme \<Rightarrow> EventSeries \<Rightarrow> instant \<Rightarrow> ('m core_db_scheme, error, unit) oper" where
  "ensureHorizon sv x through =
     bindE (reads (\<lambda>s. horizon_ceiling (clock s) through)) (\<lambda>through.
     if \<not> siMaterializedThrough (sOwn x) < through then ret ()
     else bindE (of_sum (case occurrenceTimes (svLoadLocation sv) (sOwn x) (siMaterializedThrough (sOwn x)) through of
                   None \<Rightarrow> Inl Internal | Some result \<Rightarrow> result)) (\<lambda>times.
          thenE (internal (UpsertOccurrences (sID x) (map (occurrence_of sv (sOwn x)) times)))
            (internal (SetMaterializedThrough (sID x) through))))"

definition GetEventSeries :: "'v event_service_scheme \<Rightarrow> caller \<Rightarrow> ident \<Rightarrow> ('m core_db_scheme, error, WireSeries) oper" where
  "GetEventSeries sv c i =
     bindE (loadSeries i) (\<lambda>x.
     bindE (reads clock) (\<lambda>now.
     thenE (ensureHorizon sv x (now + defaultHorizon))
       (rereadSeries sv c (sID x))))"

section \<open>Writing series\<close>

record CreateSeriesRequest =
  csGatheringID :: ident
  csTitle :: utext
  csDescription :: utext
  csIsOnline :: bool
  csIsInPerson :: bool
  csOnlineURL :: "utext option"
  csLocation :: "Location option"
  csRecurrence :: WireRecurrence
  csStartsOn :: instant
  csEndsOn :: "instant option"
  csStartTime :: string
  csDurationMinutes :: "64 word"
  csTimezone :: string

text \<open>The rule's slot before validation has accepted one.\<close>
definition noRule :: Recurrence where
  "noRule = \<lparr>rFreq = Weekly, rInterval = 1, rWeekday = None, rOrdinal = None, rDayOfMonth = None\<rparr>"

definition CreateEventSeries ::
  "'v event_service_scheme \<Rightarrow> caller \<Rightarrow> CreateSeriesRequest \<Rightarrow> ('m hook_db_scheme, error, WireSeries) oper" where
  "CreateEventSeries sv c req =
     bindE (authenticated c) (\<lambda>c.
     thenE (not_found ''gathering'' (GatheringByID (csGatheringID req)))
    (bindE (internal (GatheringAccessFor (csGatheringID req) (cID c))) (\<lambda>access.
     thenE (refuse_if (\<not> IsOwner access) Forbidden)
    (bindE (of_sum (validateSeries sv
        \<lparr>siGatheringID = csGatheringID req, siTitle = TrimSpace (csTitle req),
         siDescription = TrimSpace (csDescription req), siSearchText = [], siIsOnline = csIsOnline req,
         siIsInPerson = csIsInPerson req,
         siOnlineURL = (case csOnlineURL req of None \<Rightarrow> [] | Some u \<Rightarrow> TrimSpace u),
         siLocation = fromLocation (csLocation req), siRecurrence = noRule, siStartsOn = csStartsOn req,
         siEndsOn = csEndsOn req, siStartTime = csStartTime req,
         siDurationMinutes = sint (csDurationMinutes req), siTimezone = csTimezone req,
         siMaterializedThrough = csStartsOn req\<rparr> (fromRecurrence (csRecurrence req)))) (\<lambda>x.
     bindE (internal (CreateEventSeriesRow x)) (\<lambda>series.
     bindE (reads clock) (\<lambda>now.
     thenE (ensureHorizon sv series (now + defaultHorizon))
    (thenE (notifySeries (svNotify sv) ActionCreated series)
     (rereadSeries sv c (sID series))))))))))"

record UpdateSeriesRequest =
  usTitle :: "utext option"
  usDescription :: "utext option"
  usIsOnline :: "bool option"
  usIsInPerson :: "bool option"
  usOnlineURL :: "utext option"
  usLocation :: "Location option"
  usRecurrence :: "WireRecurrence option"
  usStartsOn :: "instant option"
  usEndsOn :: "instant option"
  usStartTime :: "string option"
  usDurationMinutes :: "64 word option"
  usTimezone :: "string option"

definition edited_series :: "UpdateSeriesRequest \<Rightarrow> EventSeriesInput \<Rightarrow> EventSeriesInput" where
  "edited_series req x = x\<lparr>
     siTitle := changed (map_option TrimSpace (usTitle req)) (siTitle x),
     siDescription := changed (map_option TrimSpace (usDescription req)) (siDescription x),
     siIsOnline := changed (usIsOnline req) (siIsOnline x),
     siIsInPerson := changed (usIsInPerson req) (siIsInPerson x),
     siOnlineURL := changed (map_option TrimSpace (usOnlineURL req)) (siOnlineURL x),
     siLocation := changed (usLocation req) (siLocation x),
     siStartsOn := changed (usStartsOn req) (siStartsOn x),
     siEndsOn := changed (map_option Some (usEndsOn req)) (siEndsOn x),
     siStartTime := changed (usStartTime req) (siStartTime x),
     siDurationMinutes := changed (map_option sint (usDurationMinutes req)) (siDurationMinutes x),
     siTimezone := changed (usTimezone req) (siTimezone x)\<rparr>"

text \<open>The future is dropped and rebuilt from \<open>now\<close>; the past stays as it is.\<close>
definition UpdateEventSeries ::
  "'v event_service_scheme \<Rightarrow> caller \<Rightarrow> ident \<Rightarrow> UpdateSeriesRequest \<Rightarrow> ('m hook_db_scheme, error, WireSeries) oper" where
  "UpdateEventSeries sv c i req =
     bindE (authenticated c) (\<lambda>c.
     bindE (loadSeries i) (\<lambda>series.
     bindE (seriesViewerFor c series) (\<lambda>viewer.
     thenE (refuse_if (\<not> vCanEdit viewer) Forbidden)
    (bindE (of_sum (validateSeries sv (edited_series req (sOwn series))
        (case usRecurrence req of None \<Rightarrow> Some (siRecurrence (sOwn series)) | Some r \<Rightarrow> fromRecurrence r))) (\<lambda>x.
     bindE (reads clock) (\<lambda>now.
     thenE (internal (UpdateEventSeriesRow (sID series) (x\<lparr>siMaterializedThrough := maxTime (siStartsOn x) now\<rparr>)))
    (thenE (internal (DeleteOccurrencesFrom (sID series) now))
    (bindE (loadSeries (sID series)) (\<lambda>updated.
     thenE (ensureHorizon sv updated (now + defaultHorizon))
    (thenE (notifySeries (svNotify sv) ActionUpdated updated)
     (rereadSeries sv c (sID series))))))))))))"

definition DeleteEventSeries :: "'v event_service_scheme \<Rightarrow> caller \<Rightarrow> ident \<Rightarrow> ('m hook_db_scheme, error, unit) oper" where
  "DeleteEventSeries sv c i =
     bindE (authenticated c) (\<lambda>c.
     bindE (loadSeries i) (\<lambda>series.
     bindE (seriesViewerFor c series) (\<lambda>viewer.
     thenE (refuse_if (\<not> vCanDelete viewer) Forbidden)
    (bindE (reads clock) (\<lambda>now.
     thenE (internal (DeleteOccurrencesFrom (sID series) now))
    (thenE (internal (DeleteEventSeriesRow (sID series)))
     (notifySeries (svNotify sv) ActionDeleted series)))))))"

section \<open>Expanding\<close>

text \<open>The page loop: each query is clamped, so it asks again from where it got to.\<close>
function collect_pages :: "'r list \<Rightarrow> 'r list \<Rightarrow> 'r list" where
  "collect_pages rows mine =
     (if length mine < maxOccurrencesPerExpansion
      then (let page = page_rows \<lparr>pLimit = int maxOccurrencesPerExpansion - int (length mine),
                                  pOffset = int (length mine)\<rparr> rows
            in if page = [] then mine else collect_pages rows (mine @ page))
      else mine)"
  by pat_completeness auto
termination
proof (relation "measure (\<lambda>(rows, mine). maxOccurrencesPerExpansion - length mine)")
  fix rows mine page :: "'r list"
  assume "length mine < maxOccurrencesPerExpansion" "page \<noteq> []"
    and "page = page_rows \<lparr>pLimit = int maxOccurrencesPerExpansion - int (length mine), pOffset = int (length mine)\<rparr> rows"
  then have "maxOccurrencesPerExpansion - (length mine + length page) < maxOccurrencesPerExpansion - length mine"
    by (intro diff_less_mono2) simp_all
  then show "((rows, mine @ page), rows, mine) \<in> measure (\<lambda>(rows, mine). maxOccurrencesPerExpansion - length mine)"
    by simp
qed simp

declare collect_pages.simps [simp del]

definition series_occurrences :: "ident \<Rightarrow> ident \<Rightarrow> 'm core_db_scheme \<Rightarrow> Event list" where
  "series_occurrences g i s = map (scanEvent s) (sort_key (\<lambda>r. (eiStartsAt (erOwn r), erID r))
     (filter (\<lambda>r. eiGatheringID (erOwn r) = g \<and> eiSeriesID (erOwn r) = Some i) (events s)))"

text \<open>\<open>presentAll\<close>: attendance for the page in one query, the rest per event.\<close>
fun present_each ::
  "'v event_service_scheme \<Rightarrow> caller \<Rightarrow> (ident \<Rightarrow> bool) \<Rightarrow> Event list \<Rightarrow> ('m core_db_scheme, error, WireEvent list) oper" where
  "present_each sv c attending [] = ret []"
| "present_each sv c attending (e # es) =
     bindE (eventViewerFor c (e\<lparr>eViewerAttending := attending (eID e)\<rparr>)) (\<lambda>viewer.
     bindE (reads clock) (\<lambda>now.
     bindE (present_each sv c attending es) (\<lambda>rest.
     ret (toEvent (e\<lparr>eViewerAttending := attending (eID e)\<rparr>) viewer now (svOriginDomain sv) # rest))))"

definition presentAll ::
  "'v event_service_scheme \<Rightarrow> caller \<Rightarrow> Event list \<Rightarrow> ('m core_db_scheme, error, WireEvent list) oper" where
  "presentAll sv c es =
     bindE (internal (AttendanceFor (cID c) (map eID es))) (\<lambda>attending. present_each sv c attending es)"

definition ExpandEventSeries ::
  "'v event_service_scheme \<Rightarrow> caller \<Rightarrow> ident \<Rightarrow> instant option \<Rightarrow> ('m core_db_scheme, error, WireEvent list \<times> int) oper" where
  "ExpandEventSeries sv c i reqThrough =
     bindE (authenticated c) (\<lambda>c.
     bindE (loadSeries i) (\<lambda>series.
     bindE (reads clock) (\<lambda>now.
     thenE (ensureHorizon sv series
        (horizon_ceiling now (case reqThrough of None \<Rightarrow> now + defaultHorizon | Some t \<Rightarrow> t)))
    (bindE (reads (series_occurrences (siGatheringID (sOwn series)) (sID series))) (\<lambda>rows.
     bindE (presentAll sv c (collect_pages rows [])) (\<lambda>out.
     ret (out, int (length out))))))))"

section \<open>Roles\<close>

definition resolveScope ::
  "ident option \<Rightarrow> ident option \<Rightarrow> ('m core_db_scheme, error, RoleScope \<times> ident) oper" where
  "resolveScope eventID seriesID = (case (eventID, seriesID) of
      (Some _, Some _) \<Rightarrow> failed (Invalid ''event_id'')
    | (Some i, None) \<Rightarrow> bindE (loadEvent i) (\<lambda>e. ret (\<lparr>scEventID = eID e, scSeriesID = []\<rparr>, eiGatheringID (eOwn e)))
    | (None, Some i) \<Rightarrow> bindE (loadSeries i) (\<lambda>x. ret (\<lparr>scEventID = [], scSeriesID = sID x\<rparr>, siGatheringID (sOwn x)))
    | (None, None) \<Rightarrow> failed (Invalid ''event_id''))"

definition parseEventRole :: "string \<Rightarrow> EventRole option" where
  "parseEventRole r = (if r = ''organizer'' then Some Organizer
     else if r = ''presenter'' then Some Presenter else None)"

definition SetEventRole ::
  "caller \<Rightarrow> ident option \<Rightarrow> ident option \<Rightarrow> ident \<Rightarrow> string
     \<Rightarrow> ('m core_db_scheme, error, EventRoleAssignment list) oper" where
  "SetEventRole c eventID seriesID u reqRole =
     bindE (authenticated c) (\<lambda>c.
     bindE (resolveScope eventID seriesID) (\<lambda>(sc, g).
     bindE (internal (GatheringAccessFor g (cID c))) (\<lambda>access.
     thenE (refuse_if (\<not> IsOwner access) Forbidden)
    (bindE (the_or (Invalid ''role'') (parseEventRole reqRole)) (\<lambda>role.
     thenE (not_found ''user'' (UserByID u))
    (thenE (internal (SetEventRoleRow sc u role))
     (internal (ListEventRoles sc))))))))"

text \<open>The role's name is not checked here: an unknown one matches no row.\<close>
definition RemoveEventRole ::
  "caller \<Rightarrow> ident option \<Rightarrow> ident option \<Rightarrow> ident \<Rightarrow> string
     \<Rightarrow> ('m core_db_scheme, error, EventRoleAssignment list) oper" where
  "RemoveEventRole c eventID seriesID u reqRole =
     bindE (authenticated c) (\<lambda>c.
     bindE (resolveScope eventID seriesID) (\<lambda>(sc, g).
     bindE (internal (GatheringAccessFor g (cID c))) (\<lambda>access.
     thenE (refuse_if (\<not> IsOwner access) Forbidden)
    (thenE (case parseEventRole reqRole of
          None \<Rightarrow> ret () | Some role \<Rightarrow> internal (RemoveEventRoleRow sc u role))
     (internal (ListEventRoles sc))))))"

end
