(* ===== verification/System.thy ===== *)
theory System
  imports OrganizationService EventIntegrity SeriesService
begin

text \<open>
  The directory as a whole: what every request and every background pass keeps.
  \<open>directory_ok\<close> is the conjunction of the tables' invariants; each statement
  keeps it, so each handler does, so every reachable database has it.
\<close>

definition directory_ok :: "'m core_db_scheme \<Rightarrow> bool" where
  "directory_ok s \<longleftrightarrow> organizations_inv s \<and> gatherings_ok s \<and> offers_ok s \<and> events_ok s"

lemma keeps_directory:
  "keeps organizations_inv m \<Longrightarrow> keeps gatherings_ok m \<Longrightarrow> keeps offers_ok m \<Longrightarrow> keeps events_ok m \<Longrightarrow> keeps directory_ok m"
  by (simp add: keeps_def directory_ok_def)

lemma core_only_directory [simp]: "core_only directory_ok"
  using core_only_organizations_inv core_only_gatherings_ok core_only_offers_ok core_only_events_ok
  unfolding core_only_def directory_ok_def by metis

lemma keeps_directory_NewID: "keeps directory_ok NewID"
  by (rule keeps_directory) (auto intro!: keeps_NewID keeps_inv_NewID)

section \<open>Statements\<close>

lemma organizations_inv_frame:
  "organizations_inv s \<Longrightarrow> organizations t = organizations s \<Longrightarrow> organization_members t = organization_members s \<Longrightarrow>
   users t = users s \<Longrightarrow> organizations_inv t"
  by (simp add: organizations_inv_def organizations_ok_def organizations_owned_def)

lemma keeps_organizations_frames:
  "keeps organizations_inv (CreateGatheringRow own kind i)" "keeps organizations_inv (UpdateGatheringRow g own)"
  "keeps organizations_inv (AddGatheringOwnerRow g kind i)" "keeps organizations_inv (RemoveGatheringOwnerRow g kind i)"
  "keeps organizations_inv (JoinGatheringRow g u)" "keeps organizations_inv (LeaveGatheringRow g u)"
  "keeps organizations_inv (CreateGatheringOfferRow g i u note)" "keeps organizations_inv (ResolveGatheringOffer i status)"
  unfolding CreateGatheringRow_def UpdateGatheringRow_def AddGatheringOwnerRow_def RemoveGatheringOwnerRow_def
    JoinGatheringRow_def LeaveGatheringRow_def CreateGatheringOfferRow_def ResolveGatheringOffer_def
  by (auto intro!: keeps_bindE keeps_thenE keeps_case_option keeps_inv_NewID keeps_writes keeps_if
      pure_gathering_reads [THEN pure_op_keeps] intro: organizations_inv_frame)

lemma tables_of_delete_events [simp]:
  "organizations (delete_events p s) = organizations s" "organization_members (delete_events p s) = organization_members s"
  "users (delete_events p s) = users s" "gatherings (delete_events p s) = gatherings s"
  "gathering_owners (delete_events p s) = gathering_owners s" "gathering_members (delete_events p s) = gathering_members s"
  "gathering_offers (delete_events p s) = gathering_offers s"
  by (simp_all add: delete_events_def Let_def)

lemma tables_of_delete_series [simp]:
  "organizations (delete_series p s) = organizations s" "organization_members (delete_series p s) = organization_members s"
  "users (delete_series p s) = users s" "gatherings (delete_series p s) = gatherings s"
  "gathering_owners (delete_series p s) = gathering_owners s" "gathering_members (delete_series p s) = gathering_members s"
  "gathering_offers (delete_series p s) = gathering_offers s"
  by (simp_all add: delete_series_def Let_def)

lemma keeps_organizations_DeleteGatheringRow: "keeps organizations_inv (DeleteGatheringRow g)"
  by (auto simp: DeleteGatheringRow_def Let_def intro!: keeps_writes intro: organizations_inv_frame)

text \<open>The event statements leave everything but the four event tables and the ids alone.\<close>
definition same_but_events :: "'m core_db_scheme \<Rightarrow> 'm core_db_scheme \<Rightarrow> bool" where
  "same_but_events s t \<longleftrightarrow> organizations t = organizations s \<and> organization_members t = organization_members s
     \<and> users t = users s \<and> gatherings t = gatherings s \<and> gathering_owners t = gathering_owners s
     \<and> gathering_members t = gathering_members s \<and> gathering_offers t = gathering_offers s"

lemma same_but_events_simps [simp]:
  "same_but_events s s" "same_but_events s (s\<lparr>minted := n\<rparr>)" "same_but_events s (insert_event i e s)"
  "same_but_events s (delete_events p s)" "same_but_events s (delete_series q s)"
  "same_but_events s (s\<lparr>events := a\<rparr>)" "same_but_events s (s\<lparr>event_series := b\<rparr>)"
  "same_but_events s (s\<lparr>event_attendance := c\<rparr>)" "same_but_events s (s\<lparr>event_roles := d\<rparr>)"
  by (simp_all add: same_but_events_def insert_event_def)

lemma same_but_events_trans: "same_but_events s t \<Longrightarrow> same_but_events t u \<Longrightarrow> same_but_events s u"
  by (simp add: same_but_events_def)

text \<open>Such a statement keeps whatever only reads the other tables.\<close>
definition event_frame :: "('m core_db_scheme, 'e, 'a) oper \<Rightarrow> bool" where
  "event_frame m \<longleftrightarrow> (\<forall>s. same_but_events s (snd (m s)))"

lemma event_frame_bindE: "event_frame m \<Longrightarrow> (\<And>x. event_frame (f x)) \<Longrightarrow> event_frame (bindE m f)"
  unfolding event_frame_def bindE_def
  by (auto split: prod.splits sum.splits) (metis same_but_events_trans snd_conv)+

lemma event_frame_thenE: "event_frame m \<Longrightarrow> event_frame k \<Longrightarrow> event_frame (thenE m k)"
  by (simp add: thenE_def event_frame_bindE)

lemma event_frame_pure: "pure_op m \<Longrightarrow> event_frame m"
  by (simp add: event_frame_def pure_op_def)

lemma event_frame_basic [simp]:
  "event_frame NewID" "event_frame (ret x)" "event_frame (failed e')" "event_frame (require p e)" "event_frame (refuse_if b e)"
  "event_frame (reads f)" "event_frame (EventByID i)" "event_frame (EventSeriesByID i)"
  by (auto intro!: event_frame_pure simp: event_frame_def NewID_def by_id_apply require_def refuse_if_def)

lemma event_frame_writes: "(\<And>s. same_but_events s (w s)) \<Longrightarrow> event_frame (writes w)"
  by (simp add: event_frame_def)

lemma event_frame_upsert_each: "event_frame (upsert_each es n)"
  by (induction es arbitrary: n) (auto simp: Let_def intro!: event_frame_bindE event_frame_thenE event_frame_writes)

lemma event_frame_UpsertOccurrences: "event_frame (UpsertOccurrences i es)"
  unfolding event_frame_def
proof
  fix s :: "'m core_db_scheme"
  let ?es = "map (\<lambda>e. e\<lparr>eiSeriesID := Some i\<rparr>) es"
  obtain r t where r: "upsert_each ?es 0 s = (r, t)" by fastforce
  then have "same_but_events s t"
    using event_frame_upsert_each [of ?es 0] unfolding event_frame_def by (metis snd_conv)
  with r show "same_but_events s (snd (UpsertOccurrences i es s))"
    by (auto simp: UpsertOccurrences_def split: sum.split)
qed

lemma event_frames:
  "event_frame (CreateEventRow e)" "event_frame (UpdateEventRow i e)" "event_frame (DeleteEventRow i)"
  "event_frame (AttendEventRow i u)" "event_frame (UnattendEventRow i u)" "event_frame (CreateEventSeriesRow x)"
  "event_frame (UpdateEventSeriesRow i x)" "event_frame (DeleteEventSeriesRow i)" "event_frame (DeleteOccurrencesFrom i t)"
  "event_frame (SetMaterializedThrough i t)" "event_frame (SetEventRoleRow sc u role)" "event_frame (RemoveEventRoleRow sc u role)"
  unfolding CreateEventRow_def UpdateEventRow_def DeleteEventRow_def AttendEventRow_def UnattendEventRow_def
    CreateEventSeriesRow_def UpdateEventSeriesRow_def DeleteEventSeriesRow_def DeleteOccurrencesFrom_def
    SetMaterializedThrough_def SetEventRoleRow_def RemoveEventRoleRow_def Let_def
  by (auto intro!: event_frame_bindE event_frame_thenE event_frame_writes)

lemma event_frame_keeps:
  assumes "event_frame m"
  shows "keeps organizations_inv m" "keeps gatherings_ok m" "keeps offers_ok m"
proof -
  have "same_but_events s (snd (m s))" for s using assms by (simp add: event_frame_def)
  then show "keeps organizations_inv m" "keeps gatherings_ok m" "keeps offers_ok m"
    by (auto simp: keeps_def same_but_events_def organizations_inv_def organizations_ok_def organizations_owned_def
        gatherings_ok_def owner_row_ok_def offers_ok_def gathering_exists_def organization_exists_def user_exists_def)
qed

lemma keeps_directory_event_statements:
  "keeps directory_ok (CreateEventRow e)" "keeps directory_ok (UpdateEventRow i e)" "keeps directory_ok (DeleteEventRow i)"
  "keeps directory_ok (AttendEventRow i u)" "keeps directory_ok (UnattendEventRow i u)" "keeps directory_ok (CreateEventSeriesRow x)"
  "keeps directory_ok (UpdateEventSeriesRow i x)" "keeps directory_ok (DeleteEventSeriesRow i)" "keeps directory_ok (DeleteOccurrencesFrom i t)"
  "keeps directory_ok (SetMaterializedThrough i t)" "keeps directory_ok (SetEventRoleRow sc u role)"
  "keeps directory_ok (RemoveEventRoleRow sc u role)" "keeps directory_ok (UpsertOccurrences i es)"
  by (intro keeps_directory event_frame_keeps event_frames event_frame_UpsertOccurrences keeps_events)+

lemma keeps_offers_frames:
  "keeps offers_ok (AddGatheringOwnerRow g kind i)" "keeps offers_ok (RemoveGatheringOwnerRow g kind i)"
  "keeps offers_ok (JoinGatheringRow g u)" "keeps offers_ok (LeaveGatheringRow g u)"
  "keeps offers_ok (CreateGatheringRow own kind i)"
  "keeps offers_ok (SetOrganizationMemberRow i u role)" "keeps offers_ok (RemoveOrganizationMemberRow i u)"
  "keeps offers_ok (CreateOrganizationRow org u)"
  unfolding CreateGatheringRow_def AddGatheringOwnerRow_def RemoveGatheringOwnerRow_def JoinGatheringRow_def
    LeaveGatheringRow_def SetOrganizationMemberRow_def RemoveOrganizationMemberRow_def CreateOrganizationRow_def
  by (auto intro!: keeps_bindE keeps_thenE keeps_case_option keeps_NewID keeps_writes keeps_if
      pure_gathering_reads [THEN pure_op_keeps] pure_organization_reads [THEN pure_op_keeps]
      intro: offers_ok_frame)

lemma keeps_offers_UpdateGatheringRow: "keeps offers_ok (UpdateGatheringRow g own)"
  unfolding UpdateGatheringRow_def
proof (intro keeps_thenE keeps_require keeps_writes)
  fix s :: "'m core_db_scheme" assume ok: "offers_ok s"
  show "offers_ok (s\<lparr>gatherings := set_rows (\<lambda>r. grID r = g)
      (\<lambda>r. r\<lparr>grOwn := update_own own (grOwn r), grUpdatedAt := nowSQL s\<rparr>) (gatherings s)\<rparr>)"
    by (rule offers_ok_frame [OF ok]) (simp_all add: set_rows_key_set del: set_set_rows)
qed (rule pure_gathering_reads [THEN pure_op_keeps])

lemma keeps_offers_UpdateOrganizationRow: "keeps offers_ok (UpdateOrganizationRow i own)"
  unfolding UpdateOrganizationRow_def
proof (intro keeps_thenE keeps_require keeps_writes)
  fix s :: "'m core_db_scheme" assume ok: "offers_ok s"
  show "offers_ok (s\<lparr>organizations := set_rows (\<lambda>r. orID r = i)
      (\<lambda>r. r\<lparr>orOwn := update_own own (orOwn r), orUpdatedAt := nowSQL s\<rparr>) (organizations s)\<rparr>)"
    by (rule offers_ok_frame [OF ok]) (simp_all add: set_rows_key_set del: set_set_rows)
qed (rule pure_organization_reads [THEN pure_op_keeps])

lemma keeps_directory_gathering_statements:
  "keeps directory_ok (CreateGatheringRow own kind i)" "keeps directory_ok (UpdateGatheringRow g own)"
  "keeps directory_ok (AddGatheringOwnerRow g kind i)" "keeps directory_ok (RemoveGatheringOwnerRow g kind i)"
  "keeps directory_ok (JoinGatheringRow g u)" "keeps directory_ok (LeaveGatheringRow g u)"
  "keeps directory_ok (DeleteGatheringRow g)" "keeps directory_ok (CreateGatheringOfferRow g i u note)"
  by (intro keeps_directory keeps_organizations_frames keeps_organizations_DeleteGatheringRow keeps_gatherings
      keeps_offers_frames keeps_offers_UpdateGatheringRow keeps_offers_DeleteGatheringRow
      keeps_offers_CreateGatheringOfferRow keeps_events)+

lemma keeps_directory_ResolveGatheringOffer:
  "status \<noteq> OfferPending \<Longrightarrow> keeps directory_ok (ResolveGatheringOffer i status)"
  by (intro keeps_directory keeps_organizations_frames keeps_gatherings keeps_offers_ResolveGatheringOffer keeps_events)

lemma keeps_directory_organization_statements:
  "keeps directory_ok (CreateOrganizationRow org u)" "keeps directory_ok (UpdateOrganizationRow i org)"
  "keeps directory_ok (DeleteOrganizationRow i)" "keeps directory_ok (SetOrganizationMemberRow i u RoleOwner)"
  by (intro keeps_directory keeps_inv_writes keeps_gatherings keeps_offers_frames keeps_offers_UpdateOrganizationRow
      keeps_offers_DeleteOrganizationRow keeps_events)+

lemmas keeps_directory_statements [keeps_intros] =
  keeps_directory_NewID keeps_directory_event_statements keeps_directory_gathering_statements
  keeps_directory_ResolveGatheringOffer keeps_directory_organization_statements

end
