(* ===== verification/Requests.thy ===== *)
theory Requests
  imports System
begin

text \<open>
  Every handler of OrganizationService, GatheringService and EventService keeps
  the directory's invariant, whatever it answers: by the statements' lemmas of
  \<open>System\<close>, and by the guards for the two statements that need one, taking
  an owner off a roster and making one an ordinary member.
\<close>

section \<open>Rosters\<close>

lemma directory_after_roster:
  assumes "directory_ok s" "\<not> last_owner i u s"
  shows "directory_ok (snd (SetOrganizationMemberRow i u role s))"
    "directory_ok (snd (RemoveOrganizationMemberRow i u s))"
proof -
  have inv: "organizations_ok s" "organizations_owned s" "gatherings_ok s" "offers_ok s" "events_ok s"
    using assms(1) by (auto simp: directory_ok_def organizations_inv_def)
  show "directory_ok (snd (SetOrganizationMemberRow i u role s))"
    unfolding directory_ok_def organizations_inv_def
    using owned_after_demote [of s i u role] assms(2) inv
    by (intro conjI keepsD [OF keeps_ok_SetOrganizationMemberRow] keepsD [OF keeps_gatherings_organizations(1)]
        keepsD [OF keeps_offers_frames(6)] keepsD [OF keeps_events_frames(8)]) auto
  show "directory_ok (snd (RemoveOrganizationMemberRow i u s))"
    unfolding directory_ok_def organizations_inv_def
    using owned_after_remove [of s i u] assms(2) inv
    by (intro conjI keepsD [OF keeps_ok_RemoveOrganizationMemberRow] keepsD [OF keeps_gatherings_organizations(2)]
        keepsD [OF keeps_offers_frames(7)] keepsD [OF keeps_events_frames(9)]) auto
qed

lemma directory_ok_organizations: "directory_ok s \<Longrightarrow> organizations_ok s"
  by (simp add: directory_ok_def organizations_inv_def)

lemma keeps_directory_guarded:
  fixes m :: "('m core_db_scheme, error, 'a) oper"
  assumes "\<And>s. directory_ok s \<Longrightarrow> \<not> last_owner i u s \<Longrightarrow> directory_ok (snd (w s))" "keeps directory_ok m"
  shows "keeps directory_ok (thenE (refuseLastOwnerChange i u) (thenE (internal w) m))"
proof (rule keeps_guarded [OF pure_refuseLastOwnerChange])
  fix s :: "'m core_db_scheme" and x assume ok: "directory_ok s" and "refuseLastOwnerChange i u s = (Inr x, s)"
  then have "\<not> last_owner i u s" by (simp add: directory_ok_organizations refuseLastOwnerChange_Inr)
  then have "directory_ok (snd (internal w s))" using assms(1) ok by simp
  then show "directory_ok (snd (thenE (internal w) m s))" using assms(2) by (rule keeps_step)
qed

lemma keeps_directory_roster:
  "keeps directory_ok m \<Longrightarrow> keeps directory_ok
     (thenE (refuseLastOwnerChange i u) (thenE (internal (SetOrganizationMemberRow i u role)) m))"
  "keeps directory_ok k \<Longrightarrow> keeps directory_ok
     (thenE (refuseLastOwnerChange i u) (thenE (internal (RemoveOrganizationMemberRow i u)) k))"
  by (rule keeps_directory_guarded; simp add: directory_after_roster)+

lemma keeps_directory_new_member:
  "keeps directory_ok (bindE (internal (OrganizationRoleFor i u)) (\<lambda>role.
     if role \<noteq> None then ret () else internal (SetOrganizationMemberRow i u RoleMember)))"
proof (rule keepsI)
  fix s assume ok: "directory_ok s"
  show "directory_ok (snd (bindE (internal (OrganizationRoleFor i u)) (\<lambda>role.
     if role \<noteq> None then ret () else internal (SetOrganizationMemberRow i u RoleMember)) s))"
  proof (cases "organization_role i u s")
    case None
    then have "\<not> last_owner i u s" by (simp add: last_owner_def)
    then show ?thesis using None directory_after_roster(1) [OF ok]
      by (simp add: OrganizationRoleFor_def internal_def)
  qed (use ok in \<open>simp add: OrganizationRoleFor_def internal_def\<close>)
qed

section \<open>Publication\<close>

lemma core_frame_EnqueueDelivery [simp]: "core_frame (EnqueueDelivery p i body now)"
  by (auto simp: core_frame_def EnqueueDelivery_def NewID_def bindE_apply thenE_apply require_def same_core_def Let_def
      split: prod.splits sum.splits)

lemma core_frame_PublishEvent [simp]: "core_frame (PublishEvent p ev deleted)"
  by (auto simp: PublishEvent_def OutboundPeers_def envelope_def Let_def intro!: core_frame_steps)

lemma same_core_PublishEvent [simp]: "same_core s (snd (PublishEvent p ev deleted s))"
  using core_frame_PublishEvent unfolding core_frame_def by blast

lemma core_frame_publish [simp]: "core_frame (publish sv e deleted)"
  unfolding core_frame_def
  by (auto simp: publish_def by_id_apply publishDecisionFor_apply bindE_apply split: option.split)

section \<open>Reads\<close>

lemma pure_viewers [intro, simp]:
  "pure_op (gatheringViewerFor c g)" "pure_op (readGathering sv c g)" "pure_op (loadGathering c g)"
  "pure_op (resolveOwner c k i)" "pure_op (ownsOrganization c i)" "pure_op (offerReply c off)"
  unfolding gatheringViewerFor_def readGathering_def loadGathering_def resolveOwner_def ownsOrganization_def offerReply_def
  by (auto intro!: pure_op_bindE pure_op_thenE split: option.split OwnerKind.split)

lemma pure_store_event_reads [intro, simp]:
  "pure_op (EventByID i)" "pure_op (EventSeriesByID i)" "pure_op (EventRolesFor i u)" "pure_op (SeriesRolesFor i u)"
  "pure_op (AttendanceFor u is)" "pure_op (ListEventRoles sc)"
  by (auto simp: EventByID_def EventSeriesByID_def EventRolesFor_def SeriesRolesFor_def AttendanceFor_def ListEventRoles_def
      intro!: pure_op_bindE)

lemma pure_eventViewerFor [intro, simp]: "pure_op (eventViewerFor c e)"
  by (auto simp: eventViewerFor_def intro!: pure_op_bindE)

lemma pure_present_each [intro, simp]: "pure_op (present_each sv c f es)"
  by (induction es) (auto intro!: pure_op_bindE)

lemma pure_event_reads [intro, simp]:
  "pure_op (presentEvent sv c e)" "pure_op (loadEvent i)" "pure_op (rereadEvent sv c i)"
  "pure_op (seriesViewerFor c x)" "pure_op (loadSeries i)" "pure_op (rereadSeries sv c i)"
  "pure_op (resolveScope ei si)" "pure_op (presentAll sv c es)"
  unfolding presentEvent_def loadEvent_def rereadEvent_def seriesViewerFor_def loadSeries_def
    rereadSeries_def resolveScope_def presentAll_def
  by (auto intro!: pure_op_bindE pure_op_thenE split: option.split prod.split)

section \<open>Handlers\<close>

lemmas keeps_reads [keeps_intros] =
  pure_viewers [THEN pure_op_keeps] pure_event_reads [THEN pure_op_keeps] pure_store_event_reads [THEN pure_op_keeps]
  pure_eventViewerFor [THEN pure_op_keeps] pure_gathering_reads [THEN pure_op_keeps]
  pure_publishDecisionFor [THEN pure_op_keeps]

lemma keeps_directory_publish [keeps_intros]: "keeps directory_ok (publish sv e deleted)"
  by (simp add: core_frame_keeps)

lemma keeps_directory_ensureHorizon [keeps_intros]: "keeps directory_ok (ensureHorizon sv x through)"
  by (auto simp: ensureHorizon_def intro!: keeps_intros)

lemma keeps_directory_organization_handlers:
  "keeps directory_ok (CreateOrganization os c n b d)" "keeps directory_ok (UpdateOrganization os c i n' b' d' p)"
  "keeps directory_ok (DeleteOrganization c i)" "keeps directory_ok (RemoveOrganizationMember c i u)"
  unfolding CreateOrganization_def UpdateOrganization_def DeleteOrganization_def RemoveOrganizationMember_def
  by (auto intro!: keeps_intros keeps_split keeps_directory_roster)

lemma keeps_directory_SetOrganizationMember: "keeps directory_ok (SetOrganizationMember c i u r)"
proof (cases "parseOrganizationRole r = Some RoleMember")
  case True
  then show ?thesis unfolding SetOrganizationMember_def
    by (auto simp: bindE_assoc intro!: keeps_intros keeps_directory_roster)
next
  case False
  then consider "parseOrganizationRole r = None" | "parseOrganizationRole r = Some RoleOwner"
    by (cases "parseOrganizationRole r"; cases "the (parseOrganizationRole r)") auto
  then show ?thesis
    by cases (auto simp: SetOrganizationMember_def intro!: keeps_intros)
qed

lemma keeps_directory_gathering_handlers:
  "keeps directory_ok (CreateGathering os c n b d ow)" "keeps directory_ok (UpdateGathering os c i n' b' d' p)"
  "keeps directory_ok (DeleteGathering os c i)" "keeps directory_ok (JoinGathering os c i)"
  "keeps directory_ok (LeaveGathering os c i)" "keeps directory_ok (AddGatheringOwner os c i k j)"
  "keeps directory_ok (RemoveGatheringOwner os c i k j)" "keeps directory_ok (OfferGathering c i j note)"
  "keeps directory_ok (WithdrawGatheringOffer c i)" "keeps directory_ok (AdoptGathering os c i j)"
  unfolding CreateGathering_def UpdateGathering_def DeleteGathering_def JoinGathering_def LeaveGathering_def
    AddGatheringOwner_def RemoveGatheringOwner_def OfferGathering_def WithdrawGatheringOffer_def AdoptGathering_def
  by (auto intro!: keeps_intros keeps_split)

lemma keeps_directory_acceptOffer: "keeps directory_ok (acceptOffer off)"
proof -
  have "keeps directory_ok (each (\<lambda>w. if owKind w \<noteq> OwnerUser then ret ()
      else bindE (internal (OrganizationRoleFor i (owID w))) (\<lambda>role.
        if role \<noteq> None then ret () else internal (SetOrganizationMemberRow i (owID w) RoleMember))) ws)" for i ws
    by (intro keeps_each keeps_if keeps_pure keeps_directory_new_member)
  then show ?thesis unfolding acceptOffer_def
    by (intro keeps_bindE keeps_thenE keeps_internal keeps_reads keeps_directory_statements)
qed

lemma keeps_directory_RespondToGatheringOffer: "keeps directory_ok (RespondToGatheringOffer c i accept)"
  unfolding RespondToGatheringOffer_def
  by (auto intro!: keeps_intros keeps_directory_acceptOffer)

lemma keeps_directory_event_handlers:
  "keeps directory_ok (CreateEvent sv c req)" "keeps directory_ok (UpdateEvent sv c i req')"
  "keeps directory_ok (DeleteEvent sv c i)" "keeps directory_ok (AttendEvent sv c i)" "keeps directory_ok (UnattendEvent sv c i)"
  unfolding CreateEvent_def UpdateEvent_def DeleteEvent_def AttendEvent_def UnattendEvent_def
  by (auto intro!: keeps_intros)

lemma keeps_directory_series_handlers:
  "keeps directory_ok (GetEventSeries sv c i)" "keeps directory_ok (CreateEventSeries sv c req)"
  "keeps directory_ok (UpdateEventSeries sv c i req')" "keeps directory_ok (DeleteEventSeries sv c i)"
  "keeps directory_ok (ExpandEventSeries sv c i t)" "keeps directory_ok (SetEventRole c ei si u r)"
  "keeps directory_ok (RemoveEventRole c ei si u r)"
  unfolding GetEventSeries_def CreateEventSeries_def UpdateEventSeries_def DeleteEventSeries_def ExpandEventSeries_def
    SetEventRole_def RemoveEventRole_def
  by (auto intro!: keeps_intros keeps_split)

end
