(* ===== verification/RecurrenceWeekly.thy ===== *)
theory RecurrenceWeekly
  imports Recurrence
begin

text \<open>
  The weekly walk of \<open>occurrenceTimes\<close>: an induction rule for its runs, that it
  ends in every zone, that what it returns is inside the window and at most
  500 long, and, where a zone has a midnight every day, that it is exactly the
  rule's instants.
\<close>

section \<open>Runs of the walk\<close>

lemma weekly_loop_induct [consumes 1, case_names stop full more skip]:
  assumes run: "weekly_loop loc h m ws we iv p cur ts = Some r"
    and stop: "\<And>p cur ts. we < atClock loc cur h m \<Longrightarrow> P p cur ts ts"
    and full: "\<And>p cur ts at. at = atClock loc cur h m \<Longrightarrow> at \<le> we \<Longrightarrow> selects iv p \<Longrightarrow> ws \<le> at \<Longrightarrow>
      maxOccurrencesPerExpansion \<le> length (ts @ [at]) \<Longrightarrow> P p cur ts (ts @ [at])"
    and more: "\<And>p cur ts at r. at = atClock loc cur h m \<Longrightarrow> at \<le> we \<Longrightarrow> selects iv p \<Longrightarrow> ws \<le> at \<Longrightarrow>
      length (ts @ [at]) < maxOccurrencesPerExpansion \<Longrightarrow> P (p + 1) (add_days loc cur 7) (ts @ [at]) r \<Longrightarrow> P p cur ts r"
    and skip: "\<And>p cur ts at r. at = atClock loc cur h m \<Longrightarrow> at \<le> we \<Longrightarrow> \<not> (selects iv p \<and> ws \<le> at) \<Longrightarrow>
      P (p + 1) (add_days loc cur 7) ts r \<Longrightarrow> P p cur ts r"
  shows "P p cur ts r"
proof -
  let ?Q = "\<lambda>loc' h' m' ws' we' iv' p' cur' ts' r'. (loc', h', m', ws', we', iv') = (loc, h, m, ws, we, iv) \<longrightarrow> P p' cur' ts' r'"
  have "?Q loc h m ws we iv p cur ts r"
  proof (rule weekly_loop.raw_induct [where P = ?Q, OF _ run])
    fix wl loc' h' m' ws' we' iv' p' cur' ts' and r' :: "instant list"
    assume IH: "\<And>loc h m ws we iv p cur ts r. wl loc h m ws we iv p cur ts = Some r \<Longrightarrow> ?Q loc h m ws we iv p cur ts r"
      and body: "(let at = atClock loc' cur' h' m' in
        if we' < at then Some ts'
        else if selects iv' p' \<and> \<not> at < ws'
             then if maxOccurrencesPerExpansion \<le> length (ts' @ [at]) then Some (ts' @ [at])
                  else wl loc' h' m' ws' we' iv' (p' + 1) (add_days loc' cur' 7) (ts' @ [at])
             else wl loc' h' m' ws' we' iv' (p' + 1) (add_days loc' cur' 7) ts') = Some r'"
    show "?Q loc' h' m' ws' we' iv' p' cur' ts' r'"
    proof
      assume eq: "(loc', h', m', ws', we', iv') = (loc, h, m, ws, we, iv)"
      define at where "at = atClock loc cur' h m"
      note step = body [unfolded Let_def] 
      consider "we < at" | "at \<le> we" "selects iv p'" "ws \<le> at" "maxOccurrencesPerExpansion \<le> length (ts' @ [at])"
        | "at \<le> we" "selects iv p'" "ws \<le> at" "\<not> maxOccurrencesPerExpansion \<le> length (ts' @ [at])"
        | "at \<le> we" "\<not> (selects iv p' \<and> ws \<le> at)" by linarith
      then show "P p' cur' ts' r'"
      proof cases
        case 1 then show ?thesis using step eq stop [of cur' p' ts'] by (simp add: at_def)
      next
        case 2 then show ?thesis using step eq full [of at cur' p' ts'] by (simp add: at_def)
      next
        case 3
        then have "wl loc h m ws we iv (p' + 1) (add_days loc cur' 7) (ts' @ [at]) = Some r'"
          using step eq by (simp add: at_def)
        from IH [OF this] show ?thesis using 3 by (intro more [of at cur' p' ts']) (simp_all add: at_def)
      next
        case 4
        then have "wl loc h m ws we iv (p' + 1) (add_days loc cur' 7) ts' = Some r'"
          using step eq by (auto simp: at_def split: if_splits)
        from IH [OF this] show ?thesis using 4 by (intro skip [of at cur' p' ts']) (simp_all add: at_def)
      qed
    qed
  qed
  then show ?thesis by blast
qed


lemma weekly_loop_window:
  assumes "weekly_loop loc h m ws we iv p cur ts = Some r"
    and "\<forall>x\<in>set ts. ws \<le> x \<and> x \<le> we" "length ts < maxOccurrencesPerExpansion"
  shows "(\<forall>x\<in>set r. ws \<le> x \<and> x \<le> we) \<and> length r \<le> maxOccurrencesPerExpansion"
proof -
  let ?W = "\<lambda>ts. (\<forall>x\<in>set ts. ws \<le> x \<and> x \<le> we)"
  have "?W ts \<longrightarrow> length ts < maxOccurrencesPerExpansion \<longrightarrow> ?W r \<and> length r \<le> maxOccurrencesPerExpansion"
    using assms(1)
  proof (induction rule: weekly_loop_induct)
    case (stop p cur ts) then show ?case by simp
  next
    case (full p cur ts at)
    have "?W ts \<Longrightarrow> ?W (ts @ [at])" using full(2,4) by simp
    moreover have "length ts < maxOccurrencesPerExpansion \<Longrightarrow> length (ts @ [at]) \<le> maxOccurrencesPerExpansion"
      by simp
    ultimately show ?case by blast
  next
    case (more p cur ts at r)
    have "?W ts \<Longrightarrow> ?W (ts @ [at])" using more(2,4) by simp
    with more(5,6) show ?case by blast
  next
    case (skip p cur ts at r) show ?case by (rule skip(4))
  qed
  with assms show ?thesis by blast
qed

section \<open>The walk ends\<close>

lemma local_seconds_at_reading:
  assumes "zone_ok loc"
  shows "\<bar>local_seconds loc (at_reading loc n a) - (n * 86400 + a)\<bar> < 172800"
proof -
  have "\<bar>resolve loc (n * 86400 + a) - (n * 86400 + a)\<bar> < 86400" by (rule resolve_near [OF assms])
  moreover have "\<bar>loc (resolve loc (n * 86400 + a))\<bar> < 86400" using assms by (simp add: zone_ok_def)
  ultimately show ?thesis by (simp add: local_seconds_def)
qed

lemma local_day_at_reading:
  assumes "zone_ok loc" "0 \<le> a" "a < 86400"
  shows "n - 2 \<le> local_day loc (at_reading loc n a)" "local_day loc (at_reading loc n a) \<le> n + 2"
  using local_seconds_at_reading [OF assms(1), of n a] local_day_bounds [of loc "at_reading loc n a"] assms(2,3)
  by linarith+

lemma local_clock_range: "0 \<le> local_clock loc t" "local_clock loc t < 86400"
  by (simp_all add: local_clock_def)

lemma local_day_add_days:
  assumes "zone_ok loc"
  shows "local_day loc t + k - 2 \<le> local_day loc (add_days loc t k)"
  unfolding add_days_def using local_day_at_reading [OF assms local_clock_range] by blast

text \<open>A reading is not before the day before its own.\<close>
lemma at_reading_lower:
  assumes "zone_ok loc" "0 \<le> a"
  shows "((n - 1) * 86400) * nanos \<le> at_reading loc n a"
proof -
  have "(n - 1) * 86400 \<le> resolve loc (n * 86400 + a)"
    using resolve_near [OF assms(1), of "n * 86400 + a"] assms(2) by (smt (verit))
  then show ?thesis by (simp add: at_reading_def)
qed

lemma atClock_day_bound:
  assumes "zone_ok loc" "0 \<le> h" "0 \<le> m" "atClock loc cur h m \<le> we"
  shows "local_day loc cur - 1 \<le> we div nanos div 86400"
proof -
  have "((local_day loc cur - 1) * 86400) * nanos \<le> we"
    using at_reading_lower [OF assms(1), of "h * 3600 + m * 60" "local_day loc cur"] assms(2-4)
    by (simp add: atClock_def)
  then show ?thesis
    using zdiv_mono1 [of "(local_day loc cur - 1) * 86400 * nanos" we nanos]
      zdiv_mono1 [of "(local_day loc cur - 1) * 86400" "we div nanos" 86400] by simp
qed

lemma weekly_loop_ends:
  assumes zone: "zone_ok loc" and clock: "0 \<le> h" "0 \<le> m"
  shows "\<exists>r. weekly_loop loc h m ws we iv p cur ts = Some r"
proof (induction "nat (we div nanos div 86400 + 2 - local_day loc cur)" arbitrary: p cur ts rule: less_induct)
  case less
  let ?next = "add_days loc cur 7"
  show ?case
  proof (cases "we < atClock loc cur h m")
    case True
    then show ?thesis by (subst weekly_loop.simps) (simp add: Let_def)
  next
    case False
    have "local_day loc cur - 1 \<le> we div nanos div 86400"
      using atClock_day_bound [OF zone clock] False by simp
    moreover have "local_day loc cur + 5 \<le> local_day loc ?next"
      using local_day_add_days [OF zone, of cur 7] by simp
    ultimately have "nat (we div nanos div 86400 + 2 - local_day loc ?next) < nat (we div nanos div 86400 + 2 - local_day loc cur)"
      by linarith
    then have ih: "\<exists>r. weekly_loop loc h m ws we iv (p + 1) ?next ts' = Some r" for ts'
      using less.hyps by blast
    show ?thesis by (subst weekly_loop.simps) (simp add: Let_def ih)
  qed
qed

section \<open>Where every day has a midnight\<close>

text \<open>The walk's cursor is a midnight; this is what it needs to stay one.\<close>
definition midnights :: "zone \<Rightarrow> bool" where
  "midnights loc \<longleftrightarrow> (\<forall>n. local_day loc (at_reading loc n 0) = n \<and> local_clock loc (at_reading loc n 0) = 0)"

lemma midnights_simps:
  assumes "midnights loc"
  shows "local_day loc (at_reading loc n 0) = n" "local_clock loc (at_reading loc n 0) = 0"
    "add_days loc (at_reading loc n 0) k = at_reading loc (n + k) 0"
    "atClock loc (at_reading loc n 0) h m = at_reading loc n (h * 3600 + m * 60)"
    "nextWeekday loc (at_reading loc n 0) w = at_reading loc (n + (w - weekday_of n + 7) mod 7) 0"
  using assms by (simp_all add: midnights_def add_days_def atClock_def nextWeekday_def)

text \<open>The first day on or after \<open>n\<close> that is a \<open>w\<close>.\<close>
definition weekday_from :: "day \<Rightarrow> int \<Rightarrow> day" where
  "weekday_from n w = n + (w - weekday_of n + 7) mod 7"

lemma weekday_from:
  assumes "0 \<le> w" "w < 7"
  shows "weekday_of (weekday_from n w) = w" "n \<le> weekday_from n w" "weekday_from n w < n + 7"
proof -
  define a where "a = n + 4"
  have "weekday_of (weekday_from n w) = (a + (w - a mod 7 + 7) mod 7) mod 7"
    by (simp add: weekday_from_def weekday_of_def a_def algebra_simps)
  also have "\<dots> = (a + (w - a mod 7 + 7)) mod 7" by (rule mod_add_right_eq)
  also have "a + (w - a mod 7 + 7) = w + 7 * (1 + a div 7)"
    using minus_mod_eq_mult_div [of a 7] by (simp add: algebra_simps)
  also have "\<dots> mod 7 = w mod 7" by (rule mod_mult_self2)
  finally show "weekday_of (weekday_from n w) = w" using assms by simp
  have "0 \<le> (w - weekday_of n + 7) mod 7" "(w - weekday_of n + 7) mod 7 < 7" by simp_all
  then show "n \<le> weekday_from n w" "weekday_from n w < n + 7" by (simp_all add: weekday_from_def)
qed

lemma weekday_of_week: "weekday_of (n + 7 * k) = weekday_of n"
  using mod_mult_self2 [of "n + 4" 7 k] by (simp add: weekday_of_def algebra_simps)

lemma weekly_loop_exact:
  assumes zone: "zone_ok loc" and mid: "midnights loc" and clock: "0 \<le> h * 3600 + m * 60" "h * 3600 + m * 60 < 86400"
    and run: "weekly_loop loc h m ws we iv p cur ts = Some r"
    and cur: "cur = at_reading loc (d + 7 * p) 0" and len: "length ts < maxOccurrencesPerExpansion"
  defines "f \<equiv> \<lambda>k. at_reading loc (d + 7 * k) (h * 3600 + m * 60)"
  shows "\<exists>es. r = ts @ es \<and> sorted_wrt (<) es
    \<and> (\<forall>x\<in>set es. \<exists>k\<ge>p. selects iv k \<and> x = f k \<and> ws \<le> x \<and> x \<le> we)
    \<and> (\<forall>k\<ge>p. selects iv k \<and> ws \<le> f k \<and> f k \<le> we \<longrightarrow>
         f k \<in> set es \<or> (length r = maxOccurrencesPerExpansion \<and> (\<forall>x\<in>set es. x < f k)))"
    (is "\<exists>es. ?R p ts r es")
proof -
  have mono: "f k < f k'" if "k < k'" for k k'
    unfolding f_def by (rule at_reading_mono [OF zone _ clock clock]) (use that in linarith)
  have "cur = at_reading loc (d + 7 * p) 0 \<longrightarrow> length ts < maxOccurrencesPerExpansion \<longrightarrow> (\<exists>es. ?R p ts r es)"
    using run
  proof (induction rule: weekly_loop_induct)
    case (stop p cur ts)
    { assume cur: "cur = at_reading loc (d + 7 * p) 0"
      then have "we < f p" using stop by (simp add: f_def midnights_simps [OF mid])
      then have "\<not> f k \<le> we" if "p \<le> k" for k using mono [of p k] that by (cases "k = p") auto
      then have "?R p ts ts []" by simp
      then have "\<exists>es. ?R p ts ts es" by blast }
    then show ?case by blast
  next
    case (full p cur ts at)
    { assume cur: "cur = at_reading loc (d + 7 * p) 0" and len: "length ts < maxOccurrencesPerExpansion"
      then have at: "at = f p" using full(1) by (simp add: f_def midnights_simps [OF mid])
      have "f k \<in> set [at] \<or> (length (ts @ [at]) = maxOccurrencesPerExpansion \<and> (\<forall>x\<in>set [at]. x < f k))"
        if "p \<le> k" for k
        using mono [of p k] that full(5) len at by (cases "k = p") auto
      then have "?R p ts (ts @ [at]) [at]" using at full(2-4) by auto
      then have "\<exists>es. ?R p ts (ts @ [at]) es" by blast }
    then show ?case by blast
  next
    case (more p cur ts at r)
    { assume cur: "cur = at_reading loc (d + 7 * p) 0" and len: "length ts < maxOccurrencesPerExpansion"
      then have at: "at = f p" using more(1) by (simp add: f_def midnights_simps [OF mid])
      have "add_days loc cur 7 = at_reading loc (d + 7 * (p + 1)) 0"
        unfolding cur midnights_simps [OF mid] by (simp add: algebra_simps)
      then obtain es where es: "?R (p + 1) (ts @ [at]) r es" using more(5,6) by blast
      have "\<forall>x\<in>set es. f p < x" using es mono [of p] by fastforce
      moreover have "f k \<in> set (at # es) \<or> (length r = maxOccurrencesPerExpansion \<and> (\<forall>x\<in>set (at # es). x < f k))"
        if "p \<le> k" "selects iv k" "ws \<le> f k" "f k \<le> we" for k
      proof (cases "k = p")
        case False
        then have k: "p + 1 \<le> k" "f p < f k" using that(1) mono [of p k] by auto
        with es that(2-4) have "f k \<in> set es \<or> (length r = maxOccurrencesPerExpansion \<and> (\<forall>x\<in>set es. x < f k))"
          by blast
        then show ?thesis using k(2) at by auto
      qed (use at in simp)
      moreover have "\<forall>x\<in>set (at # es). \<exists>k\<ge>p. selects iv k \<and> x = f k \<and> ws \<le> x \<and> x \<le> we"
      proof
        fix x assume "x \<in> set (at # es)"
        then consider "x = f p" | "x \<in> set es" using at by auto
        then show "\<exists>k\<ge>p. selects iv k \<and> x = f k \<and> ws \<le> x \<and> x \<le> we"
        proof cases
          case 1 then show ?thesis using at more(2-4) by blast
        next
          case 2 with es obtain k where "k \<ge> p + 1" "selects iv k \<and> x = f k \<and> ws \<le> x \<and> x \<le> we" by blast
          then show ?thesis by (intro exI [of _ k]) simp
        qed
      qed
      ultimately have "?R p ts r (at # es)" using es at by simp
      then have "\<exists>es. ?R p ts r es" by blast }
    then show ?case by blast
  next
    case (skip p cur ts at r)
    { assume cur: "cur = at_reading loc (d + 7 * p) 0" and len: "length ts < maxOccurrencesPerExpansion"
      then have at: "at = f p" using skip(1) by (simp add: f_def midnights_simps [OF mid])
      have "add_days loc cur 7 = at_reading loc (d + 7 * (p + 1)) 0"
        unfolding cur midnights_simps [OF mid] by (simp add: algebra_simps)
      then obtain es where es: "?R (p + 1) ts r es" using skip(4) len by blast
      have "f k \<in> set es \<or> (length r = maxOccurrencesPerExpansion \<and> (\<forall>x\<in>set es. x < f k))"
        if "p \<le> k" "selects iv k" "ws \<le> f k" "f k \<le> we" for k
      proof (cases "k = p")
        case False
        then have "p + 1 \<le> k" using that(1) by simp
        with es that(2-4) show ?thesis by blast
      qed (use at skip(3) that in simp)
      moreover have "\<forall>x\<in>set es. \<exists>k\<ge>p. selects iv k \<and> x = f k \<and> ws \<le> x \<and> x \<le> we"
      proof
        fix x assume "x \<in> set es"
        with es obtain k where "k \<ge> p + 1" "selects iv k \<and> x = f k \<and> ws \<le> x \<and> x \<le> we" by blast
        then show "\<exists>k\<ge>p. selects iv k \<and> x = f k \<and> ws \<le> x \<and> x \<le> we" by (intro exI [of _ k]) simp
      qed
      ultimately have "?R p ts r es" using es by simp
      then have "\<exists>es. ?R p ts r es" by blast }
    then show ?case by blast
  qed
  with cur len show ?thesis by blast
qed

end
