(* ===== verification/RecurrencePeriods.thy ===== *)
theory RecurrencePeriods
  imports RecurrenceWeekly
begin

text \<open>
  The walk over months, quarters and years, and the two searches inside a
  period: that they end, and that what they return is inside the window and at
  most 500 long.  With the weekly walk this gives the theorems about
  \<open>occurrenceTimes\<close> itself.
\<close>

section \<open>Months move a day at least four weeks\<close>

lemma civil_day_next_month: "civil_day y m d + 28 \<le> civil_day y (m + 1) d"
proof -
  define q a where "q = (m - 1) div 12" and "a = (m - 1) mod 12"
  have a: "0 \<le> a" "a < 12" "m - 1 = 12 * q + a" by (simp_all add: q_def a_def)
  show ?thesis
  proof (cases "a = 11")
    case True
    then have m: "m = 12 * (q + 1)" using a by simp
    have "m div 12 = q + 1" "m mod 12 = 0" unfolding m by simp_all
    moreover have "days_before_year (y + (q + 1)) = days_before_year (y + q) + (if leap (y + q) then 366 else 365)"
      using days_before_year_step [of "y + q"] by (simp add: add.assoc)
    ultimately show ?thesis using True q_def a_def
      by (simp add: civil_day_def Let_def month_starts_def)
  next
    case False
    then have m: "m = 12 * q + (a + 1)" "a + 1 < 12" using a by simp_all
    have d: "m div 12 = q" using int_div_pos_eq [of m 12 q "a + 1"] m a by simp
    have "m mod 12 = a + 1" using minus_mult_div_eq_mod [of m 12] d m by simp
    with d show ?thesis using month_starts_step(1) [OF a(1,2), of "leap (y + q)"] q_def a_def
      by (simp add: civil_day_def Let_def)
  qed
qed

lemma civil_day_later_month: "0 \<le> k \<Longrightarrow> civil_day y m d + 28 * k \<le> civil_day y (m + k) d"
proof (induction "nat k" arbitrary: k)
  case (Suc j)
  then have "j = nat (k - 1)" "0 \<le> k - 1" by simp_all
  from Suc.hyps(1) [OF this] show ?case
    using civil_day_next_month [of y "m + (k - 1)" d] by (simp add: algebra_simps)
qed simp

lemma local_day_add_months:
  assumes "zone_ok loc" "1 \<le> k"
  shows "local_day loc t + 26 \<le> local_day loc (add_months loc t k)"
proof -
  let ?n = "local_day loc t"
  have "?n + 28 * k \<le> civil_day (year_of ?n) (month_of ?n + k) (dom_of ?n)"
    using civil_day_later_month [of k "year_of ?n" "month_of ?n" "dom_of ?n"] assms(2) by (simp add: civil_day_of)
  moreover have "civil_day (year_of ?n) (month_of ?n + k) (dom_of ?n) - 2 \<le> local_day loc (add_months loc t k)"
    unfolding add_months_def Let_def by (rule local_day_at_reading [OF assms(1) local_clock_range])
  ultimately show ?thesis using assms(2) by linarith
qed

section \<open>The searches inside a period end\<close>

text \<open>Over three days a zone's offset changes by less than a day.\<close>
definition calm :: "zone \<Rightarrow> bool" where
  "calm loc \<longleftrightarrow> (\<forall>u v. \<bar>u - v\<bar> \<le> 3 * 86400 \<longrightarrow> \<bar>loc u - loc v\<bar> < 86400)"

lemma resolve_offset: "\<exists>v. resolve loc u = u - loc v \<and> (v = u \<or> v = u - loc u)"
  by (auto simp: resolve_def)

lemma previous_day_is_earlier:
  assumes zone: "zone_ok loc" "calm loc"
  shows "add_days loc d (-1) < d"
proof -
  define S where "S = d div nanos"
  have "local_day loc d * 86400 + local_clock loc d = S + loc S"
    using div_mult_mod_eq [of "local_seconds loc d" 86400]
    by (simp add: local_day_def local_clock_def local_seconds_def S_def)
  then have u: "local_day loc d * 86400 - 86400 + local_clock loc d = S + loc S - 86400" by simp
  obtain v where v: "resolve loc (S + loc S - 86400) = S + loc S - 86400 - loc v"
    "v = S + loc S - 86400 \<or> v = S + loc S - 86400 - loc (S + loc S - 86400)"
    using resolve_offset by blast
  have b: "\<bar>loc S\<bar> < 86400" "\<bar>loc (S + loc S - 86400)\<bar> < 86400" using zone(1) by (simp_all add: zone_ok_def)
  then have "\<bar>S - v\<bar> \<le> 3 * 86400" using v(2) by (smt (verit))
  then have "\<bar>loc S - loc v\<bar> < 86400" using zone(2) unfolding calm_def by blast
  then have "resolve loc (S + loc S - 86400) < S" unfolding v(1) by linarith
  then have "resolve loc (S + loc S - 86400) * nanos < S * nanos" by simp
  also have "\<dots> \<le> d" unfolding S_def by (metis div_mult_mod_eq le_add_same_cancel1 nanos_pos(1) pos_mod_sign)
  finally show ?thesis by (simp add: add_days_def at_reading_def u)
qed

lemma last_loop_ends: "zone_ok loc \<Longrightarrow> calm loc \<Longrightarrow> \<exists>y. last_loop loc begin w d = Some y"
proof (induction "nat (d - begin + 1)" arbitrary: d rule: less_induct)
  case less
  show ?case
  proof (cases "d < begin")
    case True then show ?thesis by (subst last_loop.simps) simp
  next
    case False
    then have "nat (add_days loc d (-1) - begin + 1) < nat (d - begin + 1)"
      using previous_day_is_earlier [OF less.prems, of d] by linarith
    then have "\<exists>y. last_loop loc begin w (add_days loc d (-1)) = Some y" using less by blast
    then show ?thesis using False by (subst last_loop.simps) simp
  qed
qed

text \<open>An instant bounds the day it falls on, whatever the zone.\<close>
lemma local_day_upper:
  assumes "zone_ok loc" "d \<le> e"
  shows "local_day loc d \<le> e div nanos div 86400 + 1"
proof -
  have "d div nanos \<le> e div nanos" using assms(2) by (simp add: zdiv_mono1)
  moreover have "loc (d div nanos) < 86400" using assms(1) by (auto simp: zone_ok_def abs_less_iff)
  ultimately have "local_seconds loc d \<le> e div nanos + 86400" by (simp add: local_seconds_def)
  then have "local_seconds loc d div 86400 \<le> (e div nanos + 86400) div 86400" by (simp add: zdiv_mono1)
  then show ?thesis by (simp add: local_day_def)
qed

lemma nth_loop_ends: "zone_ok loc \<Longrightarrow> \<exists>y. nth_loop loc end ordinal cnt d = Some y"
proof (induction "nat (end div nanos div 86400 + 2 - local_day loc d)" arbitrary: d cnt rule: less_induct)
  case less
  show ?case
  proof (cases "d < end")
    case False then show ?thesis by (subst nth_loop.simps) simp
  next
    case True
    then have "local_day loc d \<le> end div nanos div 86400 + 1"
      using local_day_upper [OF less.prems, of d "end"] by simp
    then have "nat (end div nanos div 86400 + 2 - local_day loc (add_days loc d 7))
        < nat (end div nanos div 86400 + 2 - local_day loc d)"
      using local_day_add_days [OF less.prems, of d 7] by linarith
    then have "\<exists>y. nth_loop loc end ordinal (cnt + 1) (add_days loc d 7) = Some y" using less by blast
    then show ?thesis using True by (subst nth_loop.simps) simp
  qed
qed

lemma dayInPeriod_ends: "zone_ok loc \<Longrightarrow> calm loc \<Longrightarrow> \<exists>y. dayInPeriod loc begin end r = Some y"
  using last_loop_ends [of loc "begin"] nth_loop_ends [of loc "end"]
  by (auto simp: dayInPeriod_def Let_def split: option.split)


section \<open>Runs of the walk over periods\<close>

lemma period_loop_induct [consumes 1, case_names stop miss full more]:
  assumes run: "period_loop loc h m ws we rule mpp iv p cur ts = Some r"
    and stop: "\<And>p cur ts. we < atClock loc cur h m \<Longrightarrow> P p cur ts ts"
    and miss: "\<And>p cur ts r. atClock loc cur h m \<le> we \<Longrightarrow>
      P (p + 1) (add_months loc cur mpp) ts r \<Longrightarrow> P p cur ts r"
    and full: "\<And>p cur ts at. ws \<le> at \<Longrightarrow> at \<le> we \<Longrightarrow> maxOccurrencesPerExpansion \<le> length (ts @ [at]) \<Longrightarrow>
      P p cur ts (ts @ [at])"
    and more: "\<And>p cur ts at r. ws \<le> at \<Longrightarrow> at \<le> we \<Longrightarrow> length (ts @ [at]) < maxOccurrencesPerExpansion \<Longrightarrow>
      P (p + 1) (add_months loc cur mpp) (ts @ [at]) r \<Longrightarrow> P p cur ts r"
  shows "P p cur ts r"
proof -
  let ?Q = "\<lambda>loc' h' m' ws' we' rule' mpp' iv' p' cur' ts' r'.
     (loc', h', m', ws', we', rule', mpp', iv') = (loc, h, m, ws, we, rule, mpp, iv) \<longrightarrow> P p' cur' ts' r'"
  have "?Q loc h m ws we rule mpp iv p cur ts r"
  proof (rule period_loop.raw_induct [where P = ?Q, OF _ run])
    fix wl loc' h' m' ws' we' rule' mpp' iv' p' cur' ts' and r' :: "instant list"
    assume IH: "\<And>loc h m ws we rule mpp iv p cur ts r. wl loc h m ws we rule mpp iv p cur ts = Some r \<Longrightarrow>
        ?Q loc h m ws we rule mpp iv p cur ts r"
      and body: "(let periodEnd = add_months loc' cur' mpp' in
        if we' < atClock loc' cur' h' m' then Some ts'
        else Option.bind (if selects iv' p' then dayInPeriod loc' cur' periodEnd rule' else Some None) (\<lambda>found.
          case found of
            None \<Rightarrow> wl loc' h' m' ws' we' rule' mpp' iv' (p' + 1) periodEnd ts'
          | Some d \<Rightarrow>
              (let at = atClock loc' d h' m' in
               if \<not> at < ws' \<and> \<not> we' < at
               then if length (ts' @ [at]) \<ge> maxOccurrencesPerExpansion then Some (ts' @ [at])
                    else wl loc' h' m' ws' we' rule' mpp' iv' (p' + 1) periodEnd (ts' @ [at])
               else wl loc' h' m' ws' we' rule' mpp' iv' (p' + 1) periodEnd ts'))) = Some r'"
    show "?Q loc' h' m' ws' we' rule' mpp' iv' p' cur' ts' r'"
    proof
      assume eq: "(loc', h', m', ws', we', rule', mpp', iv') = (loc, h, m, ws, we, rule, mpp, iv)"
      note step = body [unfolded Let_def]
      have later: "P (p' + 1) (add_months loc cur' mpp) ts'' r'"
        if "wl loc h m ws we rule mpp iv (p' + 1) (add_months loc cur' mpp) ts'' = Some r'" for ts''
        using IH [OF that] by blast
      show "P p' cur' ts' r'"
      proof (cases "we < atClock loc cur' h m")
        case True then show ?thesis using step eq stop [of cur' p' ts'] by simp
      next
        case False
        then obtain found where found: "(if selects iv p' then dayInPeriod loc cur' (add_months loc cur' mpp) rule else Some None) = Some found"
          using step eq by (auto simp: bind_eq_Some_conv)
        consider "wl loc h m ws we rule mpp iv (p' + 1) (add_months loc cur' mpp) ts' = Some r'"
          | at where "ws \<le> at" "at \<le> we" "maxOccurrencesPerExpansion \<le> length (ts' @ [at])" "r' = ts' @ [at]"
          | at where "ws \<le> at" "at \<le> we" "length (ts' @ [at]) < maxOccurrencesPerExpansion"
              "wl loc h m ws we rule mpp iv (p' + 1) (add_months loc cur' mpp) (ts' @ [at]) = Some r'"
          using step eq False found
        proof (cases found)
          case (Some d)
          then show ?thesis using step eq False found that(1) that(2,3) [of "atClock loc d h m"]
            by (cases "ws \<le> atClock loc d h m \<and> atClock loc d h m \<le> we"; cases "maxOccurrencesPerExpansion \<le> length (ts' @ [atClock loc d h m])")
              (auto simp: not_le not_less)
        qed (use step eq False found that(1) in auto)
        then show ?thesis
        proof cases
          case 1 then show ?thesis using False miss [of cur' p' ts' r'] later by simp
        next
          case 2 then show ?thesis using full by blast
        next
          case 3 then show ?thesis using more later by blast
        qed
      qed
    qed
  qed
  then show ?thesis by blast
qed

lemma period_loop_window:
  assumes "period_loop loc h m ws we rule mpp iv p cur ts = Some r"
    and "\<forall>x\<in>set ts. ws \<le> x \<and> x \<le> we" "length ts < maxOccurrencesPerExpansion"
  shows "(\<forall>x\<in>set r. ws \<le> x \<and> x \<le> we) \<and> length r \<le> maxOccurrencesPerExpansion"
proof -
  let ?W = "\<lambda>ts. (\<forall>x\<in>set ts. ws \<le> x \<and> x \<le> we)"
  have "?W ts \<longrightarrow> length ts < maxOccurrencesPerExpansion \<longrightarrow> ?W r \<and> length r \<le> maxOccurrencesPerExpansion"
    using assms(1)
  proof (induction rule: period_loop_induct)
    case (stop p cur ts) then show ?case by simp
  next
    case (miss p cur ts r) show ?case by (rule miss(2))
  next
    case (full p cur ts at)
    have "?W ts \<Longrightarrow> ?W (ts @ [at])" using full(1,2) by simp
    moreover have "length ts < maxOccurrencesPerExpansion \<Longrightarrow> length (ts @ [at]) \<le> maxOccurrencesPerExpansion"
      by simp
    ultimately show ?case by blast
  next
    case (more p cur ts at r)
    have "?W ts \<Longrightarrow> ?W (ts @ [at])" using more(1,2) by simp
    with more(3,4) show ?case by blast
  qed
  with assms show ?thesis by blast
qed

lemma period_loop_ends:
  assumes zone: "zone_ok loc" "calm loc" and clock: "0 \<le> h" "0 \<le> m" and mpp: "1 \<le> mpp"
  shows "\<exists>r. period_loop loc h m ws we rule mpp iv p cur ts = Some r"
proof (induction "nat (we div nanos div 86400 + 2 - local_day loc cur)" arbitrary: p cur ts rule: less_induct)
  case less
  let ?next = "add_months loc cur mpp"
  show ?case
  proof (cases "we < atClock loc cur h m")
    case True
    then show ?thesis by (subst period_loop.simps) (simp add: Let_def)
  next
    case False
    have "local_day loc cur - 1 \<le> we div nanos div 86400"
      using atClock_day_bound [OF zone(1) clock] False by simp
    then have "nat (we div nanos div 86400 + 2 - local_day loc ?next) < nat (we div nanos div 86400 + 2 - local_day loc cur)"
      using local_day_add_months [OF zone(1) mpp, of cur] by linarith
    then have ih: "\<exists>r. period_loop loc h m ws we rule mpp iv (p + 1) ?next ts' = Some r" for ts'
      using less.hyps by blast
    obtain y where "(if selects iv p then dayInPeriod loc cur ?next rule else Some None) = Some y"
      using dayInPeriod_ends [OF zone, of cur ?next rule] by (cases "selects iv p") auto
    then show ?thesis
      by (subst period_loop.simps) (auto simp: Let_def ih False split: option.split)
  qed
qed

end
