(* ===== verification/Occurrences.thy ===== *)
theory Occurrences
  imports RecurrencePeriods
begin

text \<open>
  What \<open>occurrenceTimes\<close> promises: it returns, what it returns is inside the
  series' window and bounded, and a weekly rule gives exactly its instants
  where every day has a midnight; and what happens to a weekly rule where one
  day has none.
\<close>

section \<open>The clock\<close>

lemma digit_range: "is_digit c \<Longrightarrow> 0 \<le> digit c \<and> digit c \<le> 9"
  by (auto simp: is_digit_def digit_def)

lemma getnum_range: "getnum fixed s = Some (n, r) \<Longrightarrow> 0 \<le> n \<and> n \<le> 99"
  by (auto simp: getnum_def split: list.splits if_splits dest!: digit_range)

lemma parseClock_range:
  assumes "parseClock s = Some (h, m)"
  shows "0 \<le> h \<and> h < 24 \<and> 0 \<le> m \<and> m < 60"
  using assms by (auto simp: parseClock_def split: option.splits if_splits list.splits dest!: getnum_range)

section \<open>The two branches\<close>

lemma occurrenceTimes_Inr:
  assumes "occurrenceTimes LoadLocation s from through = Some (Inr ts)"
  obtains "windowEndOf s through < windowStartOf s from" "ts = []"
  | loc h m w where "LoadLocation (siTimezone s) = Some loc" "parseClock (siStartTime s) = Some (h, m)"
      "rFreq (siRecurrence s) = Weekly" "ruleWeekday (siRecurrence s) = Some w"
      "windowStartOf s from \<le> windowEndOf s through"
      "weekly_loop loc h m (windowStartOf s from) (windowEndOf s through) (intervalOf (siRecurrence s)) 0
         (nextWeekday loc (dateIn loc (siStartsOn s)) w) [] = Some ts"
  | loc h m cur where "LoadLocation (siTimezone s) = Some loc" "parseClock (siStartTime s) = Some (h, m)"
      "rFreq (siRecurrence s) \<noteq> Weekly"
      "period_loop loc h m (windowStartOf s from) (windowEndOf s through) (siRecurrence s)
         (monthsPerPeriodOf (rFreq (siRecurrence s))) (intervalOf (siRecurrence s)) 0 cur [] = Some ts"
  using assms
  by (auto simp: occurrenceTimes_def Let_def not_less split: option.splits prod.splits if_splits)

lemma window_bounds:
  "windowStartOf s from \<le> t \<longleftrightarrow> from \<le> t \<and> siStartsOn s \<le> t"
  "t \<le> windowEndOf s through \<longleftrightarrow> t \<le> through \<and> (\<forall>e\<in>set_option (siEndsOn s). t \<le> e)"
  by (auto simp: windowStartOf_def maxTime_def windowEndOf_def split: option.splits)

lemma cap_pos: "length [] < maxOccurrencesPerExpansion"
  by (simp add: maxOccurrencesPerExpansion_def)

section \<open>Zones and series for the instances\<close>

definition utc :: zone where "utc u = 0"

lemma utc_good: "zone_ok utc" "calm utc" "midnights utc"
  by (simp_all add: utc_def zone_ok_def calm_def midnights_def local_day_def local_clock_def local_seconds_def
      at_reading_def resolve_def)

text \<open>Chile, around the midnight of 6 September 2026 that its clocks skip.\<close>
definition santiago :: zone where
  "santiago u = (if u < 1788667200 then - 14400 else - 10800)"

definition midnight_of :: "int \<Rightarrow> int \<Rightarrow> int \<Rightarrow> instant" where
  "midnight_of y m d = civil_day y m d * 86400 * nanos"

definition sunday_series :: EventSeriesInput where
  "sunday_series = \<lparr>siGatheringID = ''gat'', siTitle = [83], siDescription = [], siSearchText = [], siIsOnline = True,
     siIsInPerson = False, siOnlineURL = [], siLocation = emptyLocation,
     siRecurrence = \<lparr>rFreq = Weekly, rInterval = 1, rWeekday = Some Sunday, rOrdinal = None, rDayOfMonth = None\<rparr>,
     siStartsOn = midnight_of 2026 8 1, siEndsOn = None, siStartTime = ''19:00'', siDurationMinutes = 90,
     siTimezone = ''zone'', siMaterializedThrough = 0\<rparr>"

lemma sunday_in_utc:
  "occurrenceTimes (\<lambda>_. Some utc) sunday_series (midnight_of 2026 8 1) (midnight_of 2026 8 12)
   = Some (Inr [midnight_of 2026 8 2 + 19 * hour, midnight_of 2026 8 9 + 19 * hour])"
  by code_simp

section \<open>The weekly rule, spelled out\<close>

text \<open>The \<open>k\<close>-th week's instant: the rule's weekday on or after the first day, at the rule's clock.\<close>
definition week_instant :: "zone \<Rightarrow> EventSeriesInput \<Rightarrow> int \<Rightarrow> int \<times> int \<Rightarrow> int \<Rightarrow> instant" where
  "week_instant loc s w hm k =
     at_reading loc (weekday_from (local_day loc (siStartsOn s)) w + 7 * k) (fst hm * 3600 + snd hm * 60)"

definition in_window :: "EventSeriesInput \<Rightarrow> instant \<Rightarrow> instant \<Rightarrow> instant \<Rightarrow> bool" where
  "in_window s from through t \<longleftrightarrow> windowStartOf s from \<le> t \<and> t \<le> windowEndOf s through"

section \<open>Properties\<close>

text \<open>
  C3.  Every occurrence lies between the asked-for bounds, not before the series
  starts and not after it ends, and one expansion never gives more than 500.
\<close>
theorem occurrences_in_window:
  assumes "occurrenceTimes LoadLocation s from through = Some (Inr ts)"
  shows "(\<forall>t\<in>set ts. from \<le> t \<and> siStartsOn s \<le> t \<and> t \<le> through \<and> (\<forall>e\<in>set_option (siEndsOn s). t \<le> e))
    \<and> length ts \<le> 500"
proof -
  have "(\<forall>x\<in>set ts. windowStartOf s from \<le> x \<and> x \<le> windowEndOf s through) \<and> length ts \<le> maxOccurrencesPerExpansion"
    using assms
  proof (cases rule: occurrenceTimes_Inr)
    case 1 then show ?thesis by simp
  next
    case 2 from weekly_loop_window [OF 2(6) _ cap_pos] show ?thesis by simp
  next
    case 3 from period_loop_window [OF 3(4) _ cap_pos] show ?thesis by simp
  qed
  then show ?thesis by (auto simp: window_bounds maxOccurrencesPerExpansion_def)
qed

theorem occurrences_in_window_witness:
  "\<exists>ts. occurrenceTimes (\<lambda>_. Some utc) sunday_series (midnight_of 2026 8 1) (midnight_of 2026 8 12) = Some (Inr ts)
     \<and> (\<forall>t\<in>set ts. midnight_of 2026 8 1 \<le> t) \<and> length ts \<le> 500 \<and> ts \<noteq> []"
  using occurrences_in_window [OF sunday_in_utc] sunday_in_utc by auto




text \<open>
  C4.  In a zone where every day has a midnight, a weekly rule's occurrences are exactly
  the rule's: in order, each one the clock time on the rule's weekday of a selected week
  inside the window, and no such instant is missing unless 500 earlier ones were given.
\<close>
theorem weekly_occurrences_exact:
  assumes loc: "LoadLocation (siTimezone s) = Some loc" "zone_ok loc" "midnights loc"
    and rule: "rFreq (siRecurrence s) = Weekly" "ruleWeekday (siRecurrence s) = Some w"
    and clock: "parseClock (siStartTime s) = Some hm"
    and run: "occurrenceTimes LoadLocation s from through = Some (Inr ts)"
  shows "sorted_wrt (<) ts
    \<and> (\<forall>t\<in>set ts. \<exists>k\<ge>0. k mod intervalOf (siRecurrence s) = 0 \<and> t = week_instant loc s w hm k \<and> in_window s from through t)
    \<and> (\<forall>k\<ge>0. k mod intervalOf (siRecurrence s) = 0 \<and> in_window s from through (week_instant loc s w hm k) \<longrightarrow>
         week_instant loc s w hm k \<in> set ts
         \<or> (length ts = maxOccurrencesPerExpansion \<and> (\<forall>t\<in>set ts. t < week_instant loc s w hm k)))"
  using run
proof (cases rule: occurrenceTimes_Inr)
  case 1 then show ?thesis by (auto simp: in_window_def)
next
  case (2 loc' h m w')
  then have eq: "loc' = loc" "hm = (h, m)" "w' = w" using loc(1) rule(2) clock by auto
  have hm: "0 \<le> h * 3600 + m * 60" "h * 3600 + m * 60 < 86400" using parseClock_range [OF 2(2)] by auto
  have cur: "nextWeekday loc (dateIn loc (siStartsOn s)) w
      = at_reading loc (weekday_from (local_day loc (siStartsOn s)) w + 7 * 0) 0"
    by (simp add: dateIn_def midnights_simps [OF loc(3)] weekday_from_def)
  note exact = weekly_loop_exact [OF loc(2,3) hm 2(6) [unfolded eq] cur cap_pos]
  let ?f = "week_instant loc s w hm"
  have f: "at_reading loc (weekday_from (local_day loc (siStartsOn s)) w + 7 * k) (h * 3600 + m * 60) = ?f k" for k
    by (simp add: week_instant_def eq)
  show ?thesis
    using exact unfolding f selects_def append_Nil in_window_def by (elim exE conjE) (intro conjI; simp)
next
  case 3 then show ?thesis using rule by simp
qed

theorem weekly_occurrences_exact_witness:
  "sorted_wrt (<) [midnight_of 2026 8 2 + 19 * hour, midnight_of 2026 8 9 + 19 * hour]
   \<and> (\<exists>k. midnight_of 2026 8 2 + 19 * hour = week_instant utc sunday_series 0 (19, 0) k)
   \<and> (\<exists>k. midnight_of 2026 8 9 + 19 * hour = week_instant utc sunday_series 0 (19, 0) k)"
proof -
  have run: "occurrenceTimes (\<lambda>_. Some utc) sunday_series 0 (midnight_of 2026 8 12)
      = Some (Inr [midnight_of 2026 8 2 + 19 * hour, midnight_of 2026 8 9 + 19 * hour])"
    by code_simp
  have "ruleWeekday (siRecurrence sunday_series) = Some 0" "rFreq (siRecurrence sunday_series) = Weekly"
    "parseClock (siStartTime sunday_series) = Some (19, 0)" by code_simp+
  from weekly_occurrences_exact [OF refl utc_good(1,3) this(2,1,3) run]
  show ?thesis by auto
qed

text \<open>
  C13.  The weekly walk keeps its cursor by adding seven days to a midnight, and where a
  midnight does not exist the cursor moves to the evening before and stays there: a rule
  for Sundays in Chile gives Saturdays from the 6th of September 2026 on.
\<close>
theorem weekly_rule_drifts_off_its_weekday:
  "occurrenceTimes (\<lambda>_. Some santiago) sunday_series (midnight_of 2026 8 29) (midnight_of 2026 9 14)
     = Some (Inr [midnight_of 2026 8 30 + 23 * hour, midnight_of 2026 9 5 + 23 * hour, midnight_of 2026 9 12 + 22 * hour])
   \<and> weekday_of (local_day santiago (midnight_of 2026 8 30 + 23 * hour)) = 0
   \<and> weekday_of (local_day santiago (midnight_of 2026 9 5 + 23 * hour)) = 6
   \<and> weekday_of (local_day santiago (midnight_of 2026 9 12 + 22 * hour)) = 6"
proof (intro conjI)
  show "occurrenceTimes (\<lambda>_. Some santiago) sunday_series (midnight_of 2026 8 29) (midnight_of 2026 9 14)
     = Some (Inr [midnight_of 2026 8 30 + 23 * hour, midnight_of 2026 9 5 + 23 * hour, midnight_of 2026 9 12 + 22 * hour])"
    by code_simp
qed code_simp+

end
