(* ===== verification/Cbor.thy ===== *)
theory Cbor
  imports Prelude "HOL-Library.Word" "HOL-Library.List_Lexorder" "HOL-Library.Multiset"
begin

text \<open>
  \<open>transport/cbor.go\<close>: the CBOR subset the envelopes are made of, byte by byte.
  A byte is an \<open>8 word\<close>, an argument a \<open>64 word\<close>, and a decoder's run ends in a
  value with the number of bytes it used, in an error, or in a panic: Go's
  \<open>make\<close> and slice expressions panic, and what is decoded comes from the network.
  \<open>room\<close> is how many bytes \<open>make\<close> can allocate, the one thing the machine decides.
\<close>

unbundle bit_operations_syntax

type_synonym byte = "8 word"
type_synonym bytes = "8 word list"

section \<open>Values\<close>

datatype cborValue =
    cUint "64 word"
  | cInt "64 word"      \<comment> \<open>int64, read by \<open>sint\<close>\<close>
  | cText string
  | cBytes bytes
  | cArray "cborValue list"
  | cMap "(cborValue \<times> cborValue) list"
  | cTag "64 word" cborValue

text \<open>A Go string is its bytes.\<close>
definition text_bytes :: "string \<Rightarrow> bytes" where
  "text_bytes t = map (\<lambda>c. word_of_nat (of_char c)) t"

definition bytes_text :: "bytes \<Rightarrow> string" where
  "bytes_text bs = map (\<lambda>b. char_of (unat b)) bs"

lemma bytes_text_inverse [simp]: "bytes_text (text_bytes t) = t"
  by (induction t) (simp_all add: bytes_text_def text_bytes_def unat_of_nat)

lemma length_text_bytes [simp]: "length (text_bytes t) = length t"
  by (simp add: text_bytes_def)

section \<open>Encoding\<close>

text \<open>\<open>byte(n >> s)\<close>.\<close>
definition byte_at :: "64 word \<Rightarrow> nat \<Rightarrow> byte" where
  "byte_at n s = ucast (drop_bit s n)"

definition writeHead :: "byte \<Rightarrow> 64 word \<Rightarrow> bytes" where
  "writeHead major n =
     (let mt = push_bit 5 major in
      if n < 24 then [mt OR byte_at n 0]
      else if n < 2 ^ 8 then [mt OR 24, byte_at n 0]
      else if n < 2 ^ 16 then [mt OR 25, byte_at n 8, byte_at n 0]
      else if n < 2 ^ 32 then [mt OR 26, byte_at n 24, byte_at n 16, byte_at n 8, byte_at n 0]
      else [mt OR 27, byte_at n 56, byte_at n 48, byte_at n 40, byte_at n 32,
            byte_at n 24, byte_at n 16, byte_at n 8, byte_at n 0])"

fun encodeValue :: "cborValue \<Rightarrow> bytes" where
  "encodeValue (cUint x) = writeHead 0 x"
| "encodeValue (cInt x) = (if 0 \<le> sint x then writeHead 0 x else writeHead 1 (- 1 - x))"
| "encodeValue (cText x) = writeHead 3 (of_nat (length x)) @ text_bytes x"
| "encodeValue (cBytes x) = writeHead 2 (of_nat (length x)) @ x"
| "encodeValue (cArray x) = writeHead 4 (of_nat (length x)) @ concat (map encodeValue x)"
| "encodeValue (cMap x) = writeHead 5 (of_nat (length x)) @ concat (map (\<lambda>(k, v). encodeValue k @ encodeValue v) x)"
| "encodeValue (cTag num x) = writeHead 6 num @ encodeValue x"

text \<open>A stable sort by the encoded keys, as \<open>bytes.Compare\<close> orders them.\<close>
definition canonMap :: "(cborValue \<times> cborValue) list \<Rightarrow> cborValue" where
  "canonMap entries = cMap (sort_key (\<lambda>e. encodeValue (fst e)) entries)"

section \<open>Decoding\<close>

datatype 'a run = Returns 'a | DecodeError | Panics

fun bindR :: "'a run \<Rightarrow> ('a \<Rightarrow> 'b run) \<Rightarrow> 'b run" where
  "bindR (Returns x) f = f x"
| "bindR DecodeError f = DecodeError"
| "bindR Panics f = Panics"

lemma bindR_cong [fundef_cong]:
  "m = m' \<Longrightarrow> (\<And>x. m' = Returns x \<Longrightarrow> f x = g x) \<Longrightarrow> bindR m f = bindR m' g"
  by (cases m') auto

lemma bindR_Returns: "bindR m f = Returns y \<longleftrightarrow> (\<exists>x. m = Returns x \<and> f x = Returns y)"
  by (cases m) auto

text \<open>\<open>b[lo:hi]\<close>, which panics outside \<open>0 <= lo <= hi <= len(b)\<close>; and \<open>make\<close>.\<close>
definition slice :: "bytes \<Rightarrow> nat \<Rightarrow> nat \<Rightarrow> bytes run" where
  "slice b lo hi = (if lo \<le> hi \<and> hi \<le> length b then Returns (take (hi - lo) (drop lo b)) else Panics)"

definition make :: "nat \<Rightarrow> nat \<Rightarrow> 64 word \<Rightarrow> unit run" where
  "make room width n = (if unat n * width \<le> room then Returns () else Panics)"

fun join_bytes :: "64 word \<Rightarrow> bytes \<Rightarrow> 64 word" where
  "join_bytes v [] = v"
| "join_bytes v (b # bs) = join_bytes (push_bit 8 v OR ucast b) bs"

text \<open>The argument of a head, and the length of the head.\<close>
definition readArg :: "bytes \<Rightarrow> byte \<Rightarrow> (64 word \<times> nat) run" where
  "readArg b low =
     (if low < 24 then Returns (ucast low, 1)
      else if low = 24 then if length b < 2 then DecodeError else Returns (join_bytes 0 (take 1 (drop 1 b)), 2)
      else if low = 25 then if length b < 3 then DecodeError else Returns (join_bytes 0 (take 2 (drop 1 b)), 3)
      else if low = 26 then if length b < 5 then DecodeError else Returns (join_bytes 0 (take 4 (drop 1 b)), 5)
      else if low = 27 then if length b < 9 then DecodeError else Returns (join_bytes 0 (take 8 (drop 1 b)), 9)
      else DecodeError)"

lemma readArg_length: "readArg b low = Returns (a, n) \<Longrightarrow> b \<noteq> [] \<Longrightarrow> 1 \<le> n \<and> n \<le> length b"
  by (auto simp: readArg_def Suc_le_eq split: if_splits)

text \<open>
  \<open>decodeValue\<close> and its two loops.  An interface is 16 bytes and a map entry 32, which is
  what the arrays' \<open>make\<close> asks for before the first element is read.
\<close>
function decodeValue :: "nat \<Rightarrow> bytes \<Rightarrow> (cborValue \<times> nat) run"
  and decodeItems :: "nat \<Rightarrow> nat \<Rightarrow> bytes \<Rightarrow> (cborValue list \<times> nat) run"
  and decodeEntries :: "nat \<Rightarrow> nat \<Rightarrow> bytes \<Rightarrow> ((cborValue \<times> cborValue) list \<times> nat) run" where
  "decodeValue room b =
     (if b = [] then DecodeError
      else let major = drop_bit 5 (hd b) in
        bindR (readArg b (hd b AND 0x1f)) (\<lambda>(arg, n).
        if major = 0 then Returns (cUint arg, n)
        else if major = 1 then
          if arg > 0x7fffffffffffffff then DecodeError else Returns (cInt (- 1 - arg), n)
        else if major = 2 then
          if (of_nat (length b) :: 64 word) < of_nat n + arg then DecodeError
          else bindR (make room 1 arg) (\<lambda>_. bindR (slice b n (unat (of_nat n + arg))) (\<lambda>out.
               Returns (cBytes out, n + unat arg)))
        else if major = 3 then
          if (of_nat (length b) :: 64 word) < of_nat n + arg then DecodeError
          else bindR (slice b n (unat (of_nat n + arg))) (\<lambda>t. Returns (cText (bytes_text t), n + unat arg))
        else if major = 4 then
          bindR (make room 16 arg) (\<lambda>_. bindR (decodeItems room (unat arg) (drop n b)) (\<lambda>(items, off).
            Returns (cArray items, n + off)))
        else if major = 5 then
          bindR (make room 32 arg) (\<lambda>_. bindR (decodeEntries room (unat arg) (drop n b)) (\<lambda>(entries, off).
            Returns (cMap entries, n + off)))
        else if major = 6 then
          bindR (decodeValue room (drop n b)) (\<lambda>(content, m). Returns (cTag arg content, n + m))
        else DecodeError))"
| "decodeItems room 0 b = Returns ([], 0)"
| "decodeItems room (Suc k) b =
     bindR (decodeValue room b) (\<lambda>(item, m).
     bindR (decodeItems room k (drop m b)) (\<lambda>(items, off). Returns (item # items, m + off)))"
| "decodeEntries room 0 b = Returns ([], 0)"
| "decodeEntries room (Suc k) b =
     bindR (decodeValue room b) (\<lambda>(key, m).
     bindR (decodeValue room (drop m b)) (\<lambda>(val, m2).
     bindR (decodeEntries room k (drop m2 (drop m b))) (\<lambda>(entries, off). Returns ((key, val) # entries, m + m2 + off))))"
  by pat_completeness auto
termination
proof (relation "measures
    [\<lambda>x. case x of Inl (room, b) \<Rightarrow> length b | Inr (Inl (room, k, b)) \<Rightarrow> length b | Inr (Inr (room, k, b)) \<Rightarrow> length b,
     \<lambda>x. case x of Inl _ \<Rightarrow> 0 | Inr (Inl (room, k, b)) \<Rightarrow> Suc k | Inr (Inr (room, k, b)) \<Rightarrow> Suc k]")
qed (auto dest: readArg_length simp: less_Suc_eq_le)

declare decodeValue.simps [simp del]

definition decodeEnvelope :: "nat \<Rightarrow> bytes \<Rightarrow> (cborValue \<times> nat) run" where
  "decodeEnvelope room b =
     bindR (decodeValue room b) (\<lambda>(v, n). if n \<noteq> length b then DecodeError else Returns (v, n))"

section \<open>Heads\<close>

lemma byte_step: "push_bit 8 (drop_bit (s + 8) n) OR ucast (byte_at n s) = drop_bit s n"
  by (rule bit_word_eqI) (auto simp: byte_at_def bit_simps not_le add.commute add.left_commute)

lemma join_step: "t = s + 8 \<Longrightarrow> join_bytes (drop_bit t n) (byte_at n s # bs) = join_bytes (drop_bit s n) bs"
  by (simp add: byte_step)

lemma drop_bit_zero: "unat n < 2 ^ t \<Longrightarrow> drop_bit t n = (0 :: 64 word)"
  by (rule unsigned_word_eqI [where 'a = nat]) (simp only: unat_drop_bit_eq, simp add: drop_bit_eq_div)

lemma take_bit_small: "unat w < 2 ^ t \<Longrightarrow> take_bit t w = (w :: byte)"
  by (rule unsigned_word_eqI [where 'a = nat]) (simp add: unsigned_take_bit_eq take_bit_nat_eq_self)

lemma head_bits:
  fixes m l :: byte
  assumes "m < 8" "l < 32"
  shows "drop_bit 5 (push_bit 5 m OR l) = m" "(push_bit 5 m OR l) AND 0x1f = l"
proof -
  have m: "take_bit 3 m = m" and l: "take_bit 5 l = l"
    using assms by (auto intro!: take_bit_small simp: word_less_nat_alt)
  have lb: "\<not> bit l i" if "5 \<le> i" for i using that l by (metis bit_take_bit_iff not_le)
  have mb: "\<not> bit m i" if "3 \<le> i" for i using that m by (metis bit_take_bit_iff not_le)
  show "drop_bit 5 (push_bit 5 m OR l) = m"
  proof (rule bit_word_eqI)
    fix i assume "i < LENGTH(8)"
    show "bit (drop_bit 5 (push_bit 5 m OR l)) i = bit m i"
      using lb [of "i + 5"] mb [of i] by (cases "3 \<le> i") (auto simp: bit_simps add.commute)
  qed
  have "(push_bit 5 m OR l) AND 0x1f = take_bit 5 (push_bit 5 m OR l)"
    by (simp add: take_bit_eq_mask mask_eq_exp_minus_1)
  also have "\<dots> = take_bit 5 l" by (simp add: take_bit_push_bit)
  finally show "(push_bit 5 m OR l) AND 0x1f = l" using l by simp
qed

lemma byte_at_0: "unat n < 32 \<Longrightarrow> byte_at n 0 < 32"
  by (simp add: byte_at_def word_less_nat_alt unsigned_ucast_eq take_bit_nat_eq_self)

lemma readArg_low:
  "low < 24 \<Longrightarrow> readArg b low = Returns (ucast low, 1)"
  "length b \<ge> 2 \<Longrightarrow> readArg b 24 = Returns (join_bytes 0 (take (Suc 0) (drop 1 b)), 2)"
  "length b \<ge> 3 \<Longrightarrow> readArg b 25 = Returns (join_bytes 0 (take (Suc (Suc 0)) (drop 1 b)), 3)"
  "length b \<ge> 5 \<Longrightarrow> readArg b 26 = Returns (join_bytes 0 (take (Suc (Suc (Suc (Suc 0)))) (drop 1 b)), 5)"
  "length b \<ge> 9 \<Longrightarrow> readArg b 27 =
     Returns (join_bytes 0 (take (Suc (Suc (Suc (Suc (Suc (Suc (Suc (Suc 0)))))))) (drop 1 b)), 9)"
proof -
  have "take 1 t = take (Suc 0) t" "take 2 t = take (Suc (Suc 0)) t" "take 4 t = take (Suc (Suc (Suc (Suc 0)))) t"
    "take 8 t = take (Suc (Suc (Suc (Suc (Suc (Suc (Suc (Suc 0)))))))) t" for t :: bytes
    by (rule arg_cong2 [of _ _ _ _ take]; simp)+
  then show "low < 24 \<Longrightarrow> readArg b low = Returns (ucast low, 1)"
    "length b \<ge> 2 \<Longrightarrow> readArg b 24 = Returns (join_bytes 0 (take (Suc 0) (drop 1 b)), 2)"
    "length b \<ge> 3 \<Longrightarrow> readArg b 25 = Returns (join_bytes 0 (take (Suc (Suc 0)) (drop 1 b)), 3)"
    "length b \<ge> 5 \<Longrightarrow> readArg b 26 = Returns (join_bytes 0 (take (Suc (Suc (Suc (Suc 0)))) (drop 1 b)), 5)"
    "length b \<ge> 9 \<Longrightarrow> readArg b 27 =
       Returns (join_bytes 0 (take (Suc (Suc (Suc (Suc (Suc (Suc (Suc (Suc 0)))))))) (drop 1 b)), 9)"
    unfolding readArg_def by simp_all
qed

lemma join_from_zero:
  "unat n < 2 ^ 8 \<Longrightarrow> join_bytes 0 [byte_at n 0] = n"
  "unat n < 2 ^ 16 \<Longrightarrow> join_bytes 0 [byte_at n 8, byte_at n 0] = n"
  "unat n < 2 ^ 32 \<Longrightarrow> join_bytes 0 [byte_at n 24, byte_at n 16, byte_at n 8, byte_at n 0] = n"
  "join_bytes 0 [byte_at n 56, byte_at n 48, byte_at n 40, byte_at n 32, byte_at n 24, byte_at n 16, byte_at n 8, byte_at n 0] = n"
proof -
  note steps = join_step [of 8 0 n] join_step [of 16 8 n] join_step [of 24 16 n] join_step [of 32 24 n]
    join_step [of 40 32 n] join_step [of 48 40 n] join_step [of 56 48 n] join_step [of 64 56 n]
  show "unat n < 2 ^ 8 \<Longrightarrow> join_bytes 0 [byte_at n 0] = n"
    using steps(1) [of "[]"] drop_bit_zero [of n 8] by simp
  show "unat n < 2 ^ 16 \<Longrightarrow> join_bytes 0 [byte_at n 8, byte_at n 0] = n"
    using steps(2) [of "[byte_at n 0]"] steps(1) [of "[]"] drop_bit_zero [of n 16] by simp
  show "unat n < 2 ^ 32 \<Longrightarrow> join_bytes 0 [byte_at n 24, byte_at n 16, byte_at n 8, byte_at n 0] = n"
    using steps(4) [of "[byte_at n 16, byte_at n 8, byte_at n 0]"] steps(3) [of "[byte_at n 8, byte_at n 0]"]
      steps(2) [of "[byte_at n 0]"] steps(1) [of "[]"] drop_bit_zero [of n 32] by simp
  have "drop_bit 64 n = 0" using unsigned_less [where 'a = nat, of n] by (intro drop_bit_zero) simp
  then show "join_bytes 0 [byte_at n 56, byte_at n 48, byte_at n 40, byte_at n 32, byte_at n 24, byte_at n 16,
      byte_at n 8, byte_at n 0] = n"
    using steps(8) [of "[byte_at n 48, byte_at n 40, byte_at n 32, byte_at n 24, byte_at n 16, byte_at n 8, byte_at n 0]"]
      steps(7) [of "[byte_at n 40, byte_at n 32, byte_at n 24, byte_at n 16, byte_at n 8, byte_at n 0]"]
      steps(6) [of "[byte_at n 32, byte_at n 24, byte_at n 16, byte_at n 8, byte_at n 0]"]
      steps(5) [of "[byte_at n 24, byte_at n 16, byte_at n 8, byte_at n 0]"]
      steps(4) [of "[byte_at n 16, byte_at n 8, byte_at n 0]"] steps(3) [of "[byte_at n 8, byte_at n 0]"]
      steps(2) [of "[byte_at n 0]"] steps(1) [of "[]"] by simp
qed

text \<open>A written head is read back, with its major type.\<close>
definition reads_back :: "byte \<Rightarrow> 64 word \<Rightarrow> bytes \<Rightarrow> bool" where
  "reads_back major n h \<longleftrightarrow> h \<noteq> [] \<and> drop_bit 5 (hd h) = major
     \<and> (\<forall>rest. readArg (h @ rest) (hd h AND 0x1f) = Returns (n, length h))"

lemma reads_back_head:
  assumes "major < 8" "l < 32" "\<And>b. length more < length b \<Longrightarrow> take (length more) (drop 1 b) = more \<Longrightarrow>
      readArg b l = Returns (n, Suc (length more))"
  shows "reads_back major n ((push_bit 5 major OR l) # more)"
  using head_bits [OF assms(1,2)] assms(3) by (simp add: reads_back_def del: drop_bit_or and_numerals)

lemma read_head:
  assumes m: "major < 8"
  shows "reads_back major n (writeHead major n)"
proof -
  have le: "n < 2 ^ k \<longleftrightarrow> unat n < 2 ^ k" if "k \<in> {8, 16, 32}" for k using that by (auto simp: word_less_nat_alt)
  consider "n < 24" | "\<not> n < 24" "n < 2 ^ 8" | "\<not> n < 2 ^ 8" "\<not> n < 24" "n < 2 ^ 16"
    | "\<not> n < 2 ^ 16" "\<not> n < 2 ^ 8" "\<not> n < 24" "n < 2 ^ 32" | "\<not> n < 2 ^ 32" "\<not> n < 2 ^ 16" "\<not> n < 2 ^ 8" "\<not> n < 24"
    by blast
  then show ?thesis
  proof cases
    case 1
    have "take_bit 8 (unat n) = unat n" using 1 by (simp add: word_less_nat_alt take_bit_nat_eq_self)
    then have "unat (byte_at n 0) = unat n" by (simp add: byte_at_def unsigned_ucast_eq flip: unsigned_take_bit_eq)
    then have "byte_at n 0 < 24" "ucast (byte_at n 0) = n" using 1
      by (simp_all add: word_less_nat_alt unsigned_ucast_eq word_unat_eq_iff take_bit_nat_eq_self)
    then show ?thesis using 1 m
      by (auto simp: writeHead_def readArg_low word_less_nat_alt intro!: reads_back_head)
  next
    case 2
    then show ?thesis using m le [of 8]
      by (auto simp: writeHead_def Let_def readArg_low join_from_zero simp del: join_bytes.simps intro!: reads_back_head)
  next
    case 3
    then show ?thesis using m le [of 16]
      by (auto simp: writeHead_def Let_def readArg_low join_from_zero simp del: join_bytes.simps intro!: reads_back_head)
  next
    case 4
    then show ?thesis using m le [of 32]
      by (auto simp: writeHead_def Let_def readArg_low join_from_zero simp del: join_bytes.simps intro!: reads_back_head)
  next
    case 5
    then show ?thesis using m
      by (auto simp: writeHead_def Let_def readArg_low join_from_zero simp del: join_bytes.simps intro!: reads_back_head)
  qed
qed

section \<open>The round trip\<close>

text \<open>Every length fits the machine.\<close>
fun wire :: "nat \<Rightarrow> cborValue \<Rightarrow> bool" where
  "wire room (cUint x) = True"
| "wire room (cInt x) = True"
| "wire room (cText x) = True"
| "wire room (cBytes x) = (length x \<le> room)"
| "wire room (cArray x) = (length x * 16 \<le> room \<and> list_all (wire room) x)"
| "wire room (cMap x) = (length x * 32 \<le> room \<and> list_all (\<lambda>(k, v). wire room k \<and> wire room v) x)"
| "wire room (cTag num x) = wire room x"

text \<open>A signed value that is not negative is written, and so read back, as an unsigned one.\<close>
fun norm :: "cborValue \<Rightarrow> cborValue" where
  "norm (cInt x) = (if 0 \<le> sint x then cUint x else cInt x)"
| "norm (cArray x) = cArray (map norm x)"
| "norm (cMap x) = cMap (map (\<lambda>(k, v). (norm k, norm v)) x)"
| "norm (cTag num x) = cTag num (norm x)"
| "norm (cUint x) = cUint x"
| "norm (cText x) = cText x"
| "norm (cBytes x) = cBytes x"

lemma decode_head:
  assumes "reads_back major n h"
  shows "decodeValue room (h @ b) = bindR (Returns (n, length h)) (\<lambda>(arg, n).
        if major = 0 then Returns (cUint arg, n)
        else if major = 1 then
          if arg > 0x7fffffffffffffff then DecodeError else Returns (cInt (- 1 - arg), n)
        else if major = 2 then
          if (of_nat (length (h @ b)) :: 64 word) < of_nat n + arg then DecodeError
          else bindR (make room 1 arg) (\<lambda>_. bindR (slice (h @ b) n (unat (of_nat n + arg))) (\<lambda>out.
               Returns (cBytes out, n + unat arg)))
        else if major = 3 then
          if (of_nat (length (h @ b)) :: 64 word) < of_nat n + arg then DecodeError
          else bindR (slice (h @ b) n (unat (of_nat n + arg))) (\<lambda>t. Returns (cText (bytes_text t), n + unat arg))
        else if major = 4 then
          bindR (make room 16 arg) (\<lambda>_. bindR (decodeItems room (unat arg) (drop n (h @ b))) (\<lambda>(items, off).
            Returns (cArray items, n + off)))
        else if major = 5 then
          bindR (make room 32 arg) (\<lambda>_. bindR (decodeEntries room (unat arg) (drop n (h @ b))) (\<lambda>(entries, off).
            Returns (cMap entries, n + off)))
        else if major = 6 then
          bindR (decodeValue room (drop n (h @ b))) (\<lambda>(content, m). Returns (cTag arg content, n + m))
        else DecodeError)"
proof -
  have hd: "hd (h @ b) = hd h" and ne: "h @ b \<noteq> []" using assms by (auto simp: reads_back_def)
  show ?thesis
    using assms by (subst decodeValue.simps) (simp add: reads_back_def hd)
qed

lemma read_string:
  assumes "length h + length x + length b < 2 ^ 63"
  shows "\<not> (of_nat (length (h @ x @ b)) :: 64 word) < of_nat (length h) + of_nat (length x)"
    "slice (h @ x @ b) (length h) (unat (of_nat (length h) + of_nat (length x) :: 64 word)) = Returns x"
    "unat (of_nat (length x) :: 64 word) = length x"
proof -
  have small: "unat (of_nat k :: 64 word) = k" if "k < 2 ^ 63" for k
    using that by (simp add: unat_of_nat)
  have sum: "(of_nat (length h) + of_nat (length x) :: 64 word) = of_nat (length h + length x)" by simp
  show "\<not> (of_nat (length (h @ x @ b)) :: 64 word) < of_nat (length h) + of_nat (length x)"
    unfolding sum word_less_nat_alt using assms by (subst small, simp)+ simp
  show "slice (h @ x @ b) (length h) (unat (of_nat (length h) + of_nat (length x) :: 64 word)) = Returns x"
    unfolding sum using assms by (subst small) (simp_all add: slice_def)
  show "unat (of_nat (length x) :: 64 word) = length x" using assms by (intro small) simp
qed

lemma sint_sign:
  fixes x :: "64 word"
  shows "sint x < 0 \<longleftrightarrow> \<not> - 1 - x > 0x7fffffffffffffff"
proof -
  have u: "0 \<le> uint x" "uint x < 2 ^ 64" using uint_lt2p [of x] by simp_all
  have "sint x < 0 \<longleftrightarrow> bit x 63" using bit_last_iff [of x] by simp
  also have "\<dots> \<longleftrightarrow> bit (uint x) 63" by (simp add: bit_uint_iff)
  also have "\<dots> \<longleftrightarrow> odd (uint x div 2 ^ 63)" by (simp add: bit_iff_odd)
  also have "\<dots> \<longleftrightarrow> uint x \<ge> 2 ^ 63"
  proof (cases "uint x < 2 ^ 63")
    case False
    then have "uint x div 2 ^ 63 = 1" using u by (simp add: div_pos_geq)
    then show ?thesis using False by simp
  qed (use u in simp)
  finally have s: "sint x < 0 \<longleftrightarrow> uint x \<ge> 2 ^ 63" .
  have "uint (- 1 - x) = uint (- 1 :: 64 word) - uint x"
    using u by (subst uint_sub_lem [symmetric]) (simp add: unsigned_minus_1_eq_mask mask_eq_exp_minus_1)
  then have "uint (- 1 - x) = 2 ^ 64 - 1 - uint x" by (simp add: unsigned_minus_1_eq_mask mask_eq_exp_minus_1)
  then show ?thesis unfolding s by (auto simp: word_less_def)
qed

lemma encode_nonempty: "1 \<le> length (encodeValue v)"
proof -
  have "1 \<le> length (writeHead major n)" for major n by (simp add: writeHead_def Let_def)
  then show ?thesis by (cases v) (simp_all add: trans_le_add1)
qed

lemma items_length: "(\<And>x. x \<in> set xs \<Longrightarrow> 1 \<le> length (f x)) \<Longrightarrow> length xs \<le> length (concat (map f xs))"
  by (induction xs) force+

lemma decode_items:
  assumes "\<And>a rest. a \<in> set y \<Longrightarrow> length (encodeValue a) + length rest < 2 ^ 63 \<Longrightarrow>
      decodeValue room (encodeValue a @ rest) = Returns (norm a, length (encodeValue a))"
    "length (concat (map encodeValue y)) + length rest < 2 ^ 63"
  shows "decodeItems room (length y) (concat (map encodeValue y) @ rest) = Returns (map norm y, length (concat (map encodeValue y)))"
  using assms by (induction y) simp_all

lemma decode_entries:
  assumes "\<And>a rest. a \<in> fst ` set y \<union> snd ` set y \<Longrightarrow> length (encodeValue a) + length rest < 2 ^ 63 \<Longrightarrow>
      decodeValue room (encodeValue a @ rest) = Returns (norm a, length (encodeValue a))"
    "length (concat (map (\<lambda>(k, v). encodeValue k @ encodeValue v) y)) + length rest < 2 ^ 63"
  shows "decodeEntries room (length y) (concat (map (\<lambda>(k, v). encodeValue k @ encodeValue v) y) @ rest)
    = Returns (map (\<lambda>(k, v). (norm k, norm v)) y, length (concat (map (\<lambda>(k, v). encodeValue k @ encodeValue v) y)))"
  using assms by (induction y) auto

lemma decode_encode:
  assumes "wire room v" "length (encodeValue v) + length rest < 2 ^ 63"
  shows "decodeValue room (encodeValue v @ rest) = Returns (norm v, length (encodeValue v))"
  using assms
proof (induction v arbitrary: rest)
  case (cUint x)
  then show ?case by (simp add: decode_head [OF read_head])
next
  case (cInt x)
  then show ?case using sint_sign [of x] by (cases "0 \<le> sint x") (auto simp: decode_head [OF read_head])
next
  case (cText x)
  let ?h = "writeHead 3 (of_nat (length x))"
  have "length ?h + length (text_bytes x) + length rest < 2 ^ 63" using cText by simp
  note r = read_string [OF this, unfolded length_text_bytes]
  show ?case using r by (simp add: decode_head [OF read_head])
next
  case (cBytes x)
  let ?h = "writeHead 2 (of_nat (length x))"
  have "length ?h + length x + length rest < 2 ^ 63" using cBytes by simp
  note r = read_string [OF this]
  show ?case using r cBytes(1) by (simp add: decode_head [OF read_head] make_def)
next
  case (cArray x)
  have items: "decodeItems room (length x) (concat (map encodeValue x) @ rest) = Returns (map norm x, length (concat (map encodeValue x)))"
    using cArray by (intro decode_items) (auto simp: list_all_iff)
  have "length x < 2 ^ 63" using items_length [of x encodeValue] encode_nonempty cArray.prems(2) by simp
  then have "unat (of_nat (length x) :: 64 word) = length x" by (simp add: unat_of_nat)
  then show ?case using items cArray.prems(1) by (simp add: decode_head [OF read_head] make_def)
next
  case (cMap x)
  let ?f = "\<lambda>(k, v). encodeValue k @ encodeValue v"
  have entries: "decodeEntries room (length x) (concat (map ?f x) @ rest)
      = Returns (map (\<lambda>(k, v). (norm k, norm v)) x, length (concat (map ?f x)))"
    using cMap by (intro decode_entries) (fastforce simp: list_all_iff)+
  have "length x < 2 ^ 63"
    using items_length [of x ?f] encode_nonempty cMap.prems(2) by (fastforce simp: trans_le_add1)
  then have "unat (of_nat (length x) :: 64 word) = length x" by (simp add: unat_of_nat)
  then show ?case using entries cMap.prems(1) by (simp add: decode_head [OF read_head] make_def)
next
  case (cTag num v)
  then show ?case by (simp add: decode_head [OF read_head])
qed

lemma decode_envelope_encode:
  "wire room v \<Longrightarrow> length (encodeValue v) < 2 ^ 63 \<Longrightarrow>
   decodeEnvelope room (encodeValue v) = Returns (norm v, length (encodeValue v))"
  using decode_encode [of room v "[]"] by (simp add: decodeEnvelope_def)

text \<open>
  C18. What the encoder writes, the decoder reads back, whole and with nothing else: for
  every value of the subset whose lengths fit the machine, decoding its encoding returns the
  value (a non-negative signed integer as an unsigned one), and one byte more is refused.
\<close>
theorem cbor_roundtrip:
  assumes "wire room v" "length (encodeValue v) < 2 ^ 63 - 1"
  shows "decodeEnvelope room (encodeValue v) = Returns (norm v, length (encodeValue v))
    \<and> decodeEnvelope room (encodeValue v @ [x]) = DecodeError"
  using decode_envelope_encode [of room v] decode_encode [of room v "[x]"] assms by (simp add: decodeEnvelope_def)

theorem cbor_roundtrip_witness:
  "decodeEnvelope 1000 (encodeValue (cMap [(cText ''id'', cUint 300), (cText ''x'', cTag 24 (cArray [cInt (- 5), cBytes [1, 2]]))]))
     = Returns (norm (cMap [(cText ''id'', cUint 300), (cText ''x'', cTag 24 (cArray [cInt (- 5), cBytes [1, 2]]))]), 16)"
proof -
  have "length (encodeValue (cMap [(cText ''id'', cUint 300), (cText ''x'', cTag 24 (cArray [cInt (- 5), cBytes [1, 2]]))])) = 16"
    by (simp add: writeHead_def text_bytes_def)
  then show ?thesis
    using cbor_roundtrip [of 1000 "cMap [(cText ''id'', cUint 300), (cText ''x'', cTag 24 (cArray [cInt (- 5), cBytes [1, 2]]))]"]
    by simp
qed

section \<open>Canonical maps\<close>

text \<open>
  The bytes of a map do not depend on the order its entries were given in: two lists of
  the same entries whose keys encode differently give the same encoding.
\<close>
theorem canonical_maps:
  assumes "mset entries = mset entries'" "distinct (map (encodeValue \<circ> fst) entries)"
  shows "encodeValue (canonMap entries) = encodeValue (canonMap entries')"
proof -
  have "inj_on (encodeValue \<circ> fst) (set entries)" using assms(2) by (simp add: distinct_map)
  then have "sort_key (encodeValue \<circ> fst) entries = sort_key (encodeValue \<circ> fst) entries'"
    using assms(1) by (intro sort_key_inj_key_eq) simp_all
  then show ?thesis by (simp add: canonMap_def comp_def)
qed

theorem canonical_maps_witness:
  "encodeValue (canonMap [(cText ''v'', cUint 1), (cText ''op'', cText ''x'')])
     = encodeValue (canonMap [(cText ''op'', cText ''x''), (cText ''v'', cUint 1)])"
  by (rule canonical_maps) (simp_all add: text_bytes_def writeHead_def)

section \<open>What a header can ask for\<close>

lemma decode_empty [simp]: "decodeValue room [] = DecodeError"
  by (subst decodeValue.simps) simp

lemma text_header_panics: "decodeValue room (writeHead 3 0xffffffffffffffff) = Panics"
proof -
  have "decodeValue room (writeHead 3 0xffffffffffffffff @ []) = Panics"
    by (subst decode_head [OF read_head]) (simp_all add: writeHead_def slice_def)
  then show ?thesis by simp
qed

text \<open>
  C21. A length is believed before it is seen to be there.  An array header alone makes the
  decoder ask for sixteen bytes for each element it announces, and panic when the machine
  has not got them; and a text header whose length wraps the 64-bit sum passes the check
  against the input's length and panics in the slice expression.
\<close>
theorem headers_are_believed:
  assumes "0 < k"
  shows "decodeValue room (writeHead 4 k) = (if unat k * 16 \<le> room then DecodeError else Panics)
    \<and> decodeValue room (writeHead 3 0xffffffffffffffff) = Panics"
proof -
  obtain j where j: "unat k = Suc j" using assms by (metis not0_implies_Suc unat_0_iff word_not_simps(1))
  have "decodeItems room (unat k) [] = DecodeError" by (simp add: j)
  then have "decodeValue room (writeHead 4 k @ []) = (if unat k * 16 \<le> room then DecodeError else Panics)"
    by (subst decode_head [OF read_head]) (simp_all add: make_def)
  then show ?thesis using text_header_panics by simp
qed

theorem headers_are_believed_witness:
  "decodeValue (2 ^ 40) (writeHead 4 (2 ^ 60)) = Panics"
  using headers_are_believed [of "2 ^ 60" "2 ^ 40"] by simp

end
