(* ===== verification/Utf8.thy ===== *)
theory Utf8
  imports Text
begin

text \<open>
  A Go string as its bytes: \<open>unicode/utf8\<close>'s \<open>Valid\<close>, and the runes a valid string is made of.
  The model keeps a human text as runes, the codec writes and reads its bytes; the two are the
  same string, which is what the lemmas of this theory show.
\<close>

section \<open>Bytes and runes\<close>

definition continues :: "nat \<Rightarrow> bool" where
  "continues b \<longleftrightarrow> 0x80 \<le> b \<and> b \<le> 0xBF"

text \<open>\<open>utf8.Valid\<close>: no overlong form, no surrogate, nothing above the last code point.\<close>
fun utf8_Valid :: "nat list \<Rightarrow> bool" where
  "utf8_Valid [] = True"
| "utf8_Valid (a # bs) =
     (if a < 0x80 then utf8_Valid bs
      else if 0xC2 \<le> a \<and> a \<le> 0xDF then (case bs of b # cs \<Rightarrow> continues b \<and> utf8_Valid cs | _ \<Rightarrow> False)
      else if 0xE0 \<le> a \<and> a \<le> 0xEF then
        (case bs of b # c # ds \<Rightarrow> (if a = 0xE0 then 0xA0 else 0x80) \<le> b \<and> b \<le> (if a = 0xED then 0x9F else 0xBF)
           \<and> continues c \<and> utf8_Valid ds | _ \<Rightarrow> False)
      else if 0xF0 \<le> a \<and> a \<le> 0xF4 then
        (case bs of b # c # d # es \<Rightarrow> (if a = 0xF0 then 0x90 else 0x80) \<le> b \<and> b \<le> (if a = 0xF4 then 0x8F else 0xBF)
           \<and> continues c \<and> continues d \<and> utf8_Valid es | _ \<Rightarrow> False)
      else False)"

declare utf8_Valid.simps(2) [simp del]

text \<open>A code point that is not a surrogate.\<close>
definition scalar :: "rune \<Rightarrow> bool" where
  "scalar r \<longleftrightarrow> r < 0xD800 \<or> 0xE000 \<le> r \<and> r < 0x110000"

definition encode_rune :: "rune \<Rightarrow> nat list" where
  "encode_rune r =
     (if r < 0x80 then [r]
      else if r < 0x800 then [0xC0 + r div 64, 0x80 + r mod 64]
      else if r < 0x10000 then [0xE0 + r div 64 div 64, 0x80 + r div 64 mod 64, 0x80 + r mod 64]
      else [0xF0 + r div 64 div 64 div 64, 0x80 + r div 64 div 64 mod 64, 0x80 + r div 64 mod 64, 0x80 + r mod 64])"

text \<open>The runes of a valid string, as a \<open>for range\<close> loop sees them.\<close>
fun utf8_runes :: "nat list \<Rightarrow> rune list" where
  "utf8_runes [] = []"
| "utf8_runes (a # bs) =
     (if a < 0x80 then a # utf8_runes bs
      else if a < 0xE0 then (case bs of b # cs \<Rightarrow> ((a - 0xC0) * 64 + (b - 0x80)) # utf8_runes cs | _ \<Rightarrow> [0xFFFD])
      else if a < 0xF0 then
        (case bs of b # c # ds \<Rightarrow> (((a - 0xE0) * 64 + (b - 0x80)) * 64 + (c - 0x80)) # utf8_runes ds | _ \<Rightarrow> [0xFFFD])
      else (case bs of b # c # d # es \<Rightarrow>
          ((((a - 0xF0) * 64 + (b - 0x80)) * 64 + (c - 0x80)) * 64 + (d - 0x80)) # utf8_runes es | _ \<Rightarrow> [0xFFFD]))"

declare utf8_runes.simps(2) [simp del]

section \<open>Strings\<close>

definition go_string :: "utext \<Rightarrow> string" where
  "go_string rs = map char_of (concat (map encode_rune rs))"

definition runes_of :: "string \<Rightarrow> utext" where
  "runes_of s = utf8_runes (map of_char s)"

text \<open>A string the codec can write and read: valid UTF-8, its length a 64-bit number.\<close>
definition text_ok :: "string \<Rightarrow> bool" where
  "text_ok s \<longleftrightarrow> utf8_Valid (map of_char s) \<and> length s < 2 ^ 64"

lemma rune_parts:
  fixes r :: nat
  obtains a b c d where "r = ((a * 64 + b) * 64 + c) * 64 + d" "b < 64" "c < 64" "d < 64"
    "r div 64 = (a * 64 + b) * 64 + c" "r mod 64 = d"
    "r div 64 div 64 = a * 64 + b" "r div 64 mod 64 = c" "r div 64 div 64 div 64 = a" "r div 64 div 64 mod 64 = b"
proof
  show "r = ((r div 64 div 64 div 64 * 64 + r div 64 div 64 mod 64) * 64 + r div 64 mod 64) * 64 + r mod 64" by simp
qed simp_all

lemma rune_bytes:
  assumes "scalar r"
  obtains "r < 0x80" "encode_rune r = [r]"
  | a b where "encode_rune r = [0xC0 + a, 0x80 + b]" "r = a * 64 + b" "2 \<le> a" "a < 32" "b < 64"
  | a b c where "encode_rune r = [0xE0 + a, 0x80 + b, 0x80 + c]" "r = (a * 64 + b) * 64 + c" "a < 16" "b < 64" "c < 64"
      "a = 0 \<Longrightarrow> 32 \<le> b" "a = 13 \<Longrightarrow> b < 32"
  | a b c d where "encode_rune r = [0xF0 + a, 0x80 + b, 0x80 + c, 0x80 + d]" "r = ((a * 64 + b) * 64 + c) * 64 + d"
      "a < 5" "b < 64" "c < 64" "d < 64" "a = 0 \<Longrightarrow> 16 \<le> b" "a = 4 \<Longrightarrow> b < 16"
proof (rule rune_parts [of r])
  fix a b c d
  assume r: "r = ((a * 64 + b) * 64 + c) * 64 + d" and bounds: "b < 64" "c < 64" "d < 64"
    and q: "r div 64 = (a * 64 + b) * 64 + c" "r mod 64 = d"
    "r div 64 div 64 = a * 64 + b" "r div 64 mod 64 = c" "r div 64 div 64 div 64 = a" "r div 64 div 64 mod 64 = b"
  have l: "r = 262144 * a + 4096 * b + 64 * c + d" using r by simp
  have enc: "encode_rune r = (if r < 0x80 then [r] else if r < 0x800 then [0xC0 + ((a * 64 + b) * 64 + c), 0x80 + d]
      else if r < 0x10000 then [0xE0 + (a * 64 + b), 0x80 + c, 0x80 + d] else [0xF0 + a, 0x80 + b, 0x80 + c, 0x80 + d])"
    unfolding encode_rune_def by (simp only: q(1,2) q(3,4) [unfolded q(1)] q(5,6) [unfolded q(3)])
  consider "r < 0x80" | "\<not> r < 0x80" "r < 0x800" | "\<not> r < 0x80" "\<not> r < 0x800" "r < 0x10000"
    | "\<not> r < 0x80" "\<not> r < 0x800" "\<not> r < 0x10000" "r < 0x110000" using assms by (force simp: scalar_def)
  then show thesis
  proof cases
    case 1
    then show ?thesis using that(1) by (simp add: encode_rune_def)
  next
    case 2
    have "a < 1" using 2(2) l by linarith
    moreover have "b < 1" using 2(2) l by linarith
    ultimately have "a = 0" "b = 0" by simp_all
    then show ?thesis using that(2) [of c d] 2 r bounds enc by simp
  next
    case 3
    have "a < 1" using 3(3) l by linarith
    then have "a = 0" by simp
    moreover have "\<not> (0xD800 \<le> r \<and> r < 0xE000)" using assms by (auto simp: scalar_def)
    moreover have "b = 13 \<Longrightarrow> c < 32" using calculation l bounds by simp
    ultimately show ?thesis using that(3) [of b c d] 3 r bounds enc by simp
  next
    case 4
    then show ?thesis using that(4) [of a b c d] r bounds enc by simp
  qed
qed

lemma encode_rune_bytes: "scalar r \<Longrightarrow> list_all (\<lambda>b. b < 256) (encode_rune r)"
  by (erule rune_bytes) auto

lemma valid_encode_rune: "scalar r \<Longrightarrow> utf8_Valid (encode_rune r @ bs) \<longleftrightarrow> utf8_Valid bs"
  by (erule rune_bytes) (auto simp: utf8_Valid.simps continues_def)

lemma runes_encode_rune: "scalar r \<Longrightarrow> utf8_runes (encode_rune r @ bs) = r # utf8_runes bs"
  by (erule rune_bytes) (auto simp: utf8_runes.simps)

lemma codes_go_string: "list_all scalar rs \<Longrightarrow> map of_char (go_string rs) = concat (map encode_rune rs)"
proof (induction rs)
  case (Cons r rs)
  have "map (of_char \<circ> char_of) (encode_rune r) = encode_rune r"
    using encode_rune_bytes [of r] Cons.prems by (auto simp: list_all_iff intro!: map_idI)
  then show ?case using Cons by (simp add: go_string_def)
qed (simp add: go_string_def)

lemma valid_go_string: "list_all scalar rs \<Longrightarrow> utf8_Valid (map of_char (go_string rs))"
  unfolding codes_go_string by (induction rs) (simp_all add: valid_encode_rune)

lemma runes_of_go_string [simp]: "list_all scalar rs \<Longrightarrow> runes_of (go_string rs) = rs"
  unfolding runes_of_def codes_go_string by (induction rs) (simp_all add: runes_encode_rune)

text \<open>An ASCII string is its own runes.\<close>
lemma ascii_valid: "list_all (\<lambda>c. (of_char c :: nat) < 128) s \<Longrightarrow> utf8_Valid (map of_char s)"
  by (induction s) (simp_all add: utf8_Valid.simps)

lemma ascii_text_ok: "list_all (\<lambda>c. (of_char c :: nat) < 128) s \<Longrightarrow> length s < 2 ^ 64 \<Longrightarrow> text_ok s"
  by (simp add: text_ok_def ascii_valid)

end
