(* ===== verification/Settings.thy ===== *)
theory Settings
  imports StoreOrganizations
begin

text \<open>
  \<open>store/settings.go\<close> and the settings half of \<open>store/sqlite/settings.go\<close>: the
  key/value table an instance's settings are kept in, and the two functions
  between a row and the record.  The rest of the model keeps the record the
  table reads as; \<open>read_put\<close> shows that a write makes the table read as
  \<open>stored_settings\<close> of what was written, whatever it held.
\<close>

section \<open>strconv\<close>

definition digit_char :: "nat \<Rightarrow> char" where
  "digit_char n = char_of (48 + n)"

fun digits :: "nat \<Rightarrow> string" where
  "digits n = (if n < 10 then [digit_char n] else digits (n div 10) @ [digit_char (n mod 10)])"

declare digits.simps [simp del]

definition FormatInt :: "int \<Rightarrow> string" where
  "FormatInt z = (if z < 0 then ''-'' @ digits (nat (- z)) else digits (nat z))"

definition char_digit :: "char \<Rightarrow> nat option" where
  "char_digit c = (if 48 \<le> (of_char c :: nat) \<and> (of_char c :: nat) \<le> 57 then Some (of_char c - 48) else None)"

text \<open>The digits of a number, left to right; \<open>None\<close> for a character that is none.\<close>
fun number :: "nat \<Rightarrow> string \<Rightarrow> nat option" where
  "number acc [] = Some acc"
| "number acc (c # cs) = (case char_digit c of None \<Rightarrow> None | Some d \<Rightarrow> number (10 * acc + d) cs)"

text \<open>\<open>strconv.ParseInt(s, 10, 64)\<close>.\<close>
definition ParseInt :: "string \<Rightarrow> int option" where
  "ParseInt s =
     (let (neg, ds) = (case s of
            [] \<Rightarrow> (False, s)
          | c # cs \<Rightarrow> if c = CHR ''-'' then (True, cs) else if c = CHR ''+'' then (False, cs) else (False, s))
      in if ds = [] then None
         else case number 0 ds of
             None \<Rightarrow> None
           | Some n \<Rightarrow> if neg then (if n \<le> 2 ^ 63 then Some (- int n) else None)
                       else (if n < 2 ^ 63 then Some (int n) else None))"

definition FormatBool :: "bool \<Rightarrow> string" where
  "FormatBool b = (if b then ''true'' else ''false'')"

definition ParseBool :: "string \<Rightarrow> bool option" where
  "ParseBool s =
     (if s \<in> {''1'', ''t'', ''T'', ''TRUE'', ''true'', ''True''} then Some True
      else if s \<in> {''0'', ''f'', ''F'', ''FALSE'', ''false'', ''False''} then Some False else None)"

lemma char_digit_char [simp]: "n < 10 \<Longrightarrow> char_digit (digit_char n) = Some n"
  by (simp add: char_digit_def digit_char_def)

lemma number_append: "number acc (xs @ ys) = (case number acc xs of None \<Rightarrow> None | Some n \<Rightarrow> number n ys)"
  by (induction xs arbitrary: acc) (auto split: option.split)

lemma number_digits: "number 0 (digits n) = Some n"
proof (induction n rule: digits.induct)
  case (1 n)
  then show ?case by (subst digits.simps) (auto simp: number_append)
qed

lemma digits_start: "\<exists>c cs. digits n = c # cs \<and> char_digit c \<noteq> None"
proof (induction n rule: digits.induct)
  case (1 n)
  then show ?case by (subst digits.simps) (auto intro: exI)
qed

lemma ParseInt_FormatInt:
  assumes "- (2 ^ 63) \<le> z" "z < 2 ^ 63"
  shows "ParseInt (FormatInt z) = Some z"
proof (cases "z < 0")
  case True
  obtain c cs where "digits (nat (- z)) = c # cs" using digits_start by blast
  then show ?thesis using True assms number_digits [of "nat (- z)"]
    by (simp add: ParseInt_def FormatInt_def nat_le_iff)
next
  case False
  obtain c cs where c: "digits (nat z) = c # cs" "char_digit c \<noteq> None" using digits_start by blast
  then have "c \<noteq> CHR ''-''" "c \<noteq> CHR ''+''" by (auto simp: char_digit_def)
  then show ?thesis using False assms c number_digits [of "nat z"]
    by (simp add: ParseInt_def FormatInt_def nat_less_iff)
qed

lemma ParseBool_FormatBool [simp]: "ParseBool (FormatBool b) = Some b"
  by (simp add: ParseBool_def FormatBool_def)

section \<open>settings.go\<close>

definition SettingPublishDefault :: string where "SettingPublishDefault = ''federation.publish.default''"
definition SettingOrganizationOverride :: string where
  "SettingOrganizationOverride = ''federation.publish.organization_override_allowed''"
definition SettingGatheringOverride :: string where
  "SettingGatheringOverride = ''federation.publish.gathering_override_allowed''"
definition SettingRetentionDays :: string where "SettingRetentionDays = ''federation.retention_days''"
definition SettingPeerRateLimit :: string where "SettingPeerRateLimit = ''federation.peer_rate_limit_per_minute''"
definition SettingOriginRateLimit :: string where "SettingOriginRateLimit = ''federation.origin_rate_limit_per_minute''"

lemmas setting_keys = SettingPublishDefault_def SettingOrganizationOverride_def SettingGatheringOverride_def
  SettingRetentionDays_def SettingPeerRateLimit_def SettingOriginRateLimit_def

lemma setting_keys_different [simp]:
  "SettingPublishDefault \<noteq> SettingOrganizationOverride" "SettingPublishDefault \<noteq> SettingGatheringOverride" "SettingPublishDefault \<noteq> SettingRetentionDays" "SettingPublishDefault \<noteq> SettingPeerRateLimit" "SettingPublishDefault \<noteq> SettingOriginRateLimit"
  "SettingOrganizationOverride \<noteq> SettingPublishDefault" "SettingOrganizationOverride \<noteq> SettingGatheringOverride" "SettingOrganizationOverride \<noteq> SettingRetentionDays" "SettingOrganizationOverride \<noteq> SettingPeerRateLimit" "SettingOrganizationOverride \<noteq> SettingOriginRateLimit"
  "SettingGatheringOverride \<noteq> SettingPublishDefault" "SettingGatheringOverride \<noteq> SettingOrganizationOverride" "SettingGatheringOverride \<noteq> SettingRetentionDays" "SettingGatheringOverride \<noteq> SettingPeerRateLimit" "SettingGatheringOverride \<noteq> SettingOriginRateLimit"
  "SettingRetentionDays \<noteq> SettingPublishDefault" "SettingRetentionDays \<noteq> SettingOrganizationOverride" "SettingRetentionDays \<noteq> SettingGatheringOverride" "SettingRetentionDays \<noteq> SettingPeerRateLimit" "SettingRetentionDays \<noteq> SettingOriginRateLimit"
  "SettingPeerRateLimit \<noteq> SettingPublishDefault" "SettingPeerRateLimit \<noteq> SettingOrganizationOverride" "SettingPeerRateLimit \<noteq> SettingGatheringOverride" "SettingPeerRateLimit \<noteq> SettingRetentionDays" "SettingPeerRateLimit \<noteq> SettingOriginRateLimit"
  "SettingOriginRateLimit \<noteq> SettingPublishDefault" "SettingOriginRateLimit \<noteq> SettingOrganizationOverride" "SettingOriginRateLimit \<noteq> SettingGatheringOverride" "SettingOriginRateLimit \<noteq> SettingRetentionDays" "SettingOriginRateLimit \<noteq> SettingPeerRateLimit"
  by (simp_all add: setting_keys)

text \<open>The column's spelling of a publish setting.\<close>
definition columnPublish :: "PublishSetting \<Rightarrow> string" where
  "columnPublish p = (case p of PublishUnset \<Rightarrow> [] | PublishIn \<Rightarrow> ''in'' | PublishOut \<Rightarrow> ''out'')"

text \<open>What a stored value makes of the value so far; one that does not parse is ignored.\<close>
definition apply_publish :: "string \<Rightarrow> PublishSetting \<Rightarrow> PublishSetting" where
  "apply_publish v p = (if v = ''in'' then PublishIn else if v = ''out'' then PublishOut else p)"

definition apply_bool :: "string \<Rightarrow> bool \<Rightarrow> bool" where
  "apply_bool v b = (case ParseBool v of None \<Rightarrow> b | Some x \<Rightarrow> x)"

definition apply_count :: "string \<Rightarrow> int \<Rightarrow> int" where
  "apply_count v n = (case ParseInt v of None \<Rightarrow> n | Some x \<Rightarrow> if 0 \<le> x then x else n)"

definition ApplySetting :: "InstanceSettings \<Rightarrow> string \<times> string \<Rightarrow> InstanceSettings" where
  "ApplySetting st kv = (case kv of (k, v) \<Rightarrow>
     if k = SettingPublishDefault then st\<lparr>PublishDefault := apply_publish v (PublishDefault st)\<rparr>
     else if k = SettingOrganizationOverride
       then st\<lparr>OrganizationOverrideAllowed := apply_bool v (OrganizationOverrideAllowed st)\<rparr>
     else if k = SettingGatheringOverride
       then st\<lparr>GatheringOverrideAllowed := apply_bool v (GatheringOverrideAllowed st)\<rparr>
     else if k = SettingRetentionDays then st\<lparr>RetentionDays := apply_count v (RetentionDays st)\<rparr>
     else if k = SettingPeerRateLimit
       then st\<lparr>PeerRateLimitPerMinute := apply_count v (PeerRateLimitPerMinute st)\<rparr>
     else if k = SettingOriginRateLimit
       then st\<lparr>OriginRateLimitPerMinute := apply_count v (OriginRateLimitPerMinute st)\<rparr>
     else st)"

definition SettingRows :: "InstanceSettings \<Rightarrow> (string \<times> string) list" where
  "SettingRows st =
     [(SettingPublishDefault, columnPublish (PublishDefault st)),
      (SettingOrganizationOverride, FormatBool (OrganizationOverrideAllowed st)),
      (SettingGatheringOverride, FormatBool (GatheringOverrideAllowed st)),
      (SettingRetentionDays, FormatInt (RetentionDays st)),
      (SettingPeerRateLimit, FormatInt (PeerRateLimitPerMinute st)),
      (SettingOriginRateLimit, FormatInt (OriginRateLimitPerMinute st))]"

section \<open>The table\<close>

text \<open>\<open>InstanceSettings\<close>: what the rows say, over the defaults.\<close>
definition read_settings :: "(string \<times> string) list \<Rightarrow> InstanceSettings" where
  "read_settings table = foldl ApplySetting DefaultInstanceSettings table"

text \<open>INSERT ... ON CONFLICT (key) DO UPDATE.\<close>
definition put_setting :: "(string \<times> string) list \<Rightarrow> string \<times> string \<Rightarrow> (string \<times> string) list" where
  "put_setting table kv = (if fst kv \<in> fst ` set table
     then map (\<lambda>r. if fst r = fst kv then (fst r, snd kv) else r) table else table @ [kv])"

definition put_settings :: "InstanceSettings \<Rightarrow> (string \<times> string) list \<Rightarrow> (string \<times> string) list" where
  "put_settings st table = foldl put_setting table (SettingRows st)"

text \<open>What the table reads as after a write.\<close>
definition stored_settings :: "InstanceSettings \<Rightarrow> InstanceSettings" where
  "stored_settings st = read_settings (put_settings st [])"

definition PutInstanceSettings :: "InstanceSettings \<Rightarrow> ('m core_db_scheme, store_error, unit) oper" where
  "PutInstanceSettings st = writes (\<lambda>s. s\<lparr>settings := stored_settings st\<rparr>)"

definition or_default :: "(string \<Rightarrow> 'a \<Rightarrow> 'a) \<Rightarrow> 'a \<Rightarrow> string option \<Rightarrow> 'a" where
  "or_default f d v = (case v of None \<Rightarrow> d | Some x \<Rightarrow> f x d)"

lemma ApplySetting_pair:
  "ApplySetting st (SettingPublishDefault, v) = st\<lparr>PublishDefault := apply_publish v (PublishDefault st)\<rparr>"
  "ApplySetting st (SettingOrganizationOverride, v)
     = st\<lparr>OrganizationOverrideAllowed := apply_bool v (OrganizationOverrideAllowed st)\<rparr>"
  "ApplySetting st (SettingGatheringOverride, v) = st\<lparr>GatheringOverrideAllowed := apply_bool v (GatheringOverrideAllowed st)\<rparr>"
  "ApplySetting st (SettingRetentionDays, v) = st\<lparr>RetentionDays := apply_count v (RetentionDays st)\<rparr>"
  "ApplySetting st (SettingPeerRateLimit, v) = st\<lparr>PeerRateLimitPerMinute := apply_count v (PeerRateLimitPerMinute st)\<rparr>"
  "ApplySetting st (SettingOriginRateLimit, v)
     = st\<lparr>OriginRateLimitPerMinute := apply_count v (OriginRateLimitPerMinute st)\<rparr>"
  "k \<noteq> SettingPublishDefault \<Longrightarrow> k \<noteq> SettingOrganizationOverride \<Longrightarrow> k \<noteq> SettingGatheringOverride \<Longrightarrow>
     k \<noteq> SettingRetentionDays \<Longrightarrow> k \<noteq> SettingPeerRateLimit \<Longrightarrow> k \<noteq> SettingOriginRateLimit \<Longrightarrow> ApplySetting st (k, v) = st"
  unfolding ApplySetting_def by (simp_all add: setting_keys)

lemma foldl_ApplySetting:
  "distinct (map fst table) \<Longrightarrow> foldl ApplySetting st table =
     \<lparr>PublishDefault = or_default apply_publish (PublishDefault st) (map_of table SettingPublishDefault),
      OrganizationOverrideAllowed = or_default apply_bool (OrganizationOverrideAllowed st) (map_of table SettingOrganizationOverride),
      GatheringOverrideAllowed = or_default apply_bool (GatheringOverrideAllowed st) (map_of table SettingGatheringOverride),
      RetentionDays = or_default apply_count (RetentionDays st) (map_of table SettingRetentionDays),
      PeerRateLimitPerMinute = or_default apply_count (PeerRateLimitPerMinute st) (map_of table SettingPeerRateLimit),
      OriginRateLimitPerMinute = or_default apply_count (OriginRateLimitPerMinute st) (map_of table SettingOriginRateLimit)\<rparr>"
proof (induction table arbitrary: st)
  case (Cons kv table)
  obtain k v where kv: "kv = (k, v)" by (cases kv)
  have gone: "map_of table k = None" using Cons.prems kv by (auto simp: map_of_eq_None_iff)
  consider "k = SettingPublishDefault" | "k = SettingOrganizationOverride" | "k = SettingGatheringOverride"
    | "k = SettingRetentionDays" | "k = SettingPeerRateLimit" | "k = SettingOriginRateLimit"
    | "k \<notin> set [SettingPublishDefault, SettingOrganizationOverride, SettingGatheringOverride, SettingRetentionDays,
         SettingPeerRateLimit, SettingOriginRateLimit]" by auto
  then show ?case
  proof cases
    case 7
    then have "ApplySetting st kv = st" by (simp add: kv ApplySetting_pair)
    then show ?thesis using Cons 7 by (auto simp: kv or_default_def)
  qed (use Cons.IH [of "ApplySetting st kv"] Cons.prems gone in \<open>simp_all add: kv ApplySetting_pair or_default_def\<close>)
qed (simp add: or_default_def)

lemma put_setting_keys: "distinct (map fst table) \<Longrightarrow> distinct (map fst (put_setting table kv))"
proof -
  have "map fst (map (\<lambda>r. if fst r = fst kv then (fst r, snd kv) else r) table) = map fst table" by simp
  then show "distinct (map fst table) \<Longrightarrow> ?thesis" by (auto simp: put_setting_def simp del: map_map)
qed

lemma map_of_put_setting:
  "map_of (put_setting table (k, v)) j = (if j = k then Some v else map_of table j)"
proof (cases "k \<in> fst ` set table")
  case True
  have "map_of (map (\<lambda>r. if fst r = k then (fst r, v) else r) t) j
      = (if j = k \<and> k \<in> fst ` set t then Some v else map_of t j)" for t :: "(string \<times> string) list"
    by (induction t) (auto simp: image_iff, metis fst_conv)
  then show ?thesis unfolding put_setting_def fst_conv snd_conv using True by simp
next
  case False
  then have "map_of table k = None" by (simp add: map_of_eq_None_iff)
  then show ?thesis using False by (auto simp: put_setting_def map_add_def split: option.split)
qed

lemma read_put:
  assumes "distinct (map fst table)"
  shows "read_settings (put_settings st table) = stored_settings st"
proof -
  have "distinct (map fst (put_settings st t))" if "distinct (map fst t)" for t
    using that by (simp add: put_settings_def SettingRows_def put_setting_keys)
  then show ?thesis using assms
    by (simp add: read_settings_def stored_settings_def foldl_ApplySetting)
      (simp add: put_settings_def SettingRows_def map_of_put_setting)
qed

text \<open>The settings a write keeps: a default that is set, and counts an \<open>int64\<close> holds without a sign.\<close>
definition settings_ok :: "InstanceSettings \<Rightarrow> bool" where
  "settings_ok st \<longleftrightarrow> PublishDefault st \<noteq> PublishUnset
     \<and> (\<forall>n\<in>{RetentionDays st, PeerRateLimitPerMinute st, OriginRateLimitPerMinute st}. 0 \<le> n \<and> n < 2 ^ 63)"

lemma apply_count_FormatInt: "- (2 ^ 63) \<le> n \<Longrightarrow> n < 2 ^ 63 \<Longrightarrow> apply_count (FormatInt n) d = (if 0 \<le> n then n else d)"
  by (simp add: apply_count_def ParseInt_FormatInt)

lemma apply_publish_column: "apply_publish (columnPublish p) d = (if p = PublishUnset then d else p)"
  by (cases p) (simp_all add: apply_publish_def columnPublish_def)

lemma stored_settings_eq:
  assumes "\<forall>n\<in>{RetentionDays st, PeerRateLimitPerMinute st, OriginRateLimitPerMinute st}. - (2 ^ 63) \<le> n \<and> n < 2 ^ 63"
  shows "stored_settings st =
    \<lparr>PublishDefault = (if PublishDefault st = PublishUnset then PublishIn else PublishDefault st),
     OrganizationOverrideAllowed = OrganizationOverrideAllowed st,
     GatheringOverrideAllowed = GatheringOverrideAllowed st,
     RetentionDays = (if 0 \<le> RetentionDays st then RetentionDays st else 365),
     PeerRateLimitPerMinute = (if 0 \<le> PeerRateLimitPerMinute st then PeerRateLimitPerMinute st else 60),
     OriginRateLimitPerMinute = (if 0 \<le> OriginRateLimitPerMinute st then OriginRateLimitPerMinute st else 20)\<rparr>"
proof -
  have "distinct (map fst (put_settings st []))" by (simp add: put_settings_def SettingRows_def put_setting_keys)
  then show ?thesis using assms
    by (simp add: stored_settings_def read_settings_def foldl_ApplySetting)
      (simp add: put_settings_def SettingRows_def map_of_put_setting or_default_def setting_keys
        apply_count_FormatInt apply_publish_column apply_bool_def DefaultInstanceSettings_def)
qed



end
