(* ===== verification/Timestamps.thy ===== *)
theory Timestamps
  imports Recurrence Settings
begin

text \<open>
  \<open>time.Time\<close> on the wire: \<open>Format(RFC3339Nano)\<close> of an instant in UTC, and \<open>Parse(RFC3339)\<close>, as
  the standard library has them - an hour may have one digit, a fraction may follow a comma, an
  offset may be 24 hours, a year has exactly four digits.
\<close>

section \<open>Format\<close>

text \<open>\<open>appendInt\<close>: the digits, padded with zeros to a width, a minus sign before them.\<close>
definition appendInt :: "int \<Rightarrow> nat \<Rightarrow> string" where
  "appendInt x width = (let ds = digits (nat \<bar>x\<bar>) in
     (if x < 0 then ''-'' else []) @ replicate (width - length ds) CHR ''0'' @ ds)"

text \<open>\<open>appendNano\<close> with nine digits, the zeros at the end left out, and the point with them.\<close>
definition appendNano :: "int \<Rightarrow> string" where
  "appendNano ns = (let ds = rev (dropWhile (\<lambda>c. c = CHR ''0'') (rev (appendInt ns 9))) in
     if ds = [] then [] else CHR ''.'' # ds)"

definition FormatRFC3339Nano :: "instant \<Rightarrow> string" where
  "FormatRFC3339Nano t =
     (let n = t div nanos div 86400; c = t div nanos mod 86400 in
      appendInt (year_of n) 4 @ ''-'' @ appendInt (month_of n) 2 @ ''-'' @ appendInt (dom_of n) 2 @ ''T''
      @ appendInt (c div 3600) 2 @ '':'' @ appendInt (c div 60 mod 60) 2 @ '':'' @ appendInt (c mod 60) 2
      @ appendNano (t mod nanos) @ ''Z'')"

section \<open>Parse\<close>

text \<open>\<open>skip\<close>: the literal between two fields.\<close>
definition skip :: "char \<Rightarrow> string \<Rightarrow> string option" where
  "skip c s = (case s of d # r \<Rightarrow> if d = c then Some r else None | [] \<Rightarrow> None)"

text \<open>Four digits.\<close>
definition getyear :: "string \<Rightarrow> (int \<times> string) option" where
  "getyear s = (if length s < 4 then None
     else map_option (\<lambda>n. (int n, drop 4 s)) (number 0 (take 4 s)))"

text \<open>A number in a range; the day of the month is looked at in the end.\<close>
definition getrange :: "bool \<Rightarrow> int \<Rightarrow> int \<Rightarrow> string \<Rightarrow> (int \<times> string) option" where
  "getrange fixed lo hi s = (case getnum fixed s of
      None \<Rightarrow> None
    | Some (x, r) \<Rightarrow> if x < lo \<or> hi \<le> x then None else Some (x, r))"

text \<open>A fraction the layout does not mention: read to nine digits, the rest dropped.\<close>
definition getfraction :: "string \<Rightarrow> int \<times> string" where
  "getfraction s = (case s of
      p # d # r \<Rightarrow>
        if (p = CHR ''.'' \<or> p = CHR '','') \<and> is_digit d
        then let ds = takeWhile is_digit (d # r); ns = take 9 ds in
             (int (the (number 0 ns)) * 10 ^ (9 - length ns), dropWhile is_digit (d # r))
        else (0, s)
    | _ \<Rightarrow> (0, s))"

text \<open>The offset, in seconds, and what is left of the text.\<close>
definition getoffset :: "string \<Rightarrow> (int \<times> string) option" where
  "getoffset s = (case s of
      [] \<Rightarrow> None
    | sign # s \<Rightarrow>
        if sign = CHR ''Z'' then Some (0, s)
        else (case s of
            a # b # colon # c # d # r \<Rightarrow>
              if colon \<noteq> CHR '':'' then None
              else (case (getnum True [a, b], getnum True [c, d]) of
                  (Some (hr, _), Some (mm, _)) \<Rightarrow>
                    if hr > 24 \<or> mm > 60 then None
                    else if sign = CHR ''+'' then Some ((hr * 60 + mm) * 60, r)
                    else if sign = CHR ''-'' then Some (- ((hr * 60 + mm) * 60), r) else None
                | _ \<Rightarrow> None)
          | _ \<Rightarrow> None))"

definition days_in :: "int \<Rightarrow> int \<Rightarrow> int" where
  "days_in y m = month_starts (leap y) ! nat m - month_starts (leap y) ! nat (m - 1)"

definition ParseRFC3339 :: "string \<Rightarrow> instant option" where
  "ParseRFC3339 s =
     Option.bind (getyear s) (\<lambda>(year, s).
     Option.bind (skip CHR ''-'' s) (\<lambda>s.
     Option.bind (getrange True 1 13 s) (\<lambda>(month, s).
     Option.bind (skip CHR ''-'' s) (\<lambda>s.
     Option.bind (getnum True s) (\<lambda>(day, s).
     Option.bind (skip CHR ''T'' s) (\<lambda>s.
     Option.bind (getrange False 0 24 s) (\<lambda>(hr, s).
     Option.bind (skip CHR '':'' s) (\<lambda>s.
     Option.bind (getrange True 0 60 s) (\<lambda>(mi, s).
     Option.bind (skip CHR '':'' s) (\<lambda>s.
     Option.bind (getrange True 0 60 s) (\<lambda>(sec, s).
     case getfraction s of (nsec, s) \<Rightarrow>
     Option.bind (getoffset s) (\<lambda>(zone_offset, s).
     if s \<noteq> [] \<or> day < 1 \<or> days_in year month < day then None
     else Some ((civil_day year month day * 86400 + hr * 3600 + mi * 60 + sec - zone_offset) * nanos + nsec)))))))))))))"

section \<open>The round trip\<close>

text \<open>An instant of the years 0 to 9999, which four digits can write.\<close>
definition time_ok :: "instant \<Rightarrow> bool" where
  "time_ok t \<longleftrightarrow> 0 \<le> year_of (t div nanos div 86400) \<and> year_of (t div nanos div 86400) \<le> 9999"

lemma digits_small:
  "n < 10 \<Longrightarrow> digits n = [digit_char n]"
  "10 \<le> n \<Longrightarrow> n < 100 \<Longrightarrow> digits n = [digit_char (n div 10), digit_char (n mod 10)]"
  by (simp_all add: digits.simps)

lemma digit_zero: "digit_char 0 = CHR ''0''"
  by code_simp

lemma appendInt_two:
  assumes "0 \<le> x" "x < 100"
  shows "appendInt x 2 = [digit_char (nat x div 10), digit_char (nat x mod 10)]"
proof (cases "x < 10")
  case True
  then show ?thesis using assms digits_small(1) [of "nat x"] by (simp add: appendInt_def digit_zero nat_less_iff)
next
  case False
  then show ?thesis using assms digits_small(2) [of "nat x"] by (simp add: appendInt_def nat_less_iff le_nat_iff)
qed

lemma number_zeros: "number acc (replicate k CHR ''0'') = Some (acc * 10 ^ k)"
  by (induction k arbitrary: acc) (simp_all add: char_digit_def)

lemma length_digits: "n < 10 ^ k \<Longrightarrow> 0 < k \<Longrightarrow> length (digits n) \<le> k"
proof (induction n arbitrary: k rule: digits.induct)
  case (1 n)
  show ?case
  proof (cases "n < 10")
    case False
    obtain j where k: "k = Suc j" using 1(3) by (cases k) auto
    moreover have "0 < j" using False 1(2) unfolding k by (intro gr0I) simp
    ultimately have j: "k = Suc j" "0 < j" by simp_all
    then have "n div 10 < 10 ^ j" using 1(2) by (simp add: less_mult_imp_div_less mult.commute)
    then have "length (digits (n div 10)) \<le> j" using 1(1) [OF False _ j(2)] by simp
    then show ?thesis using False j by (subst digits.simps) simp
  qed (use 1 in \<open>simp add: digits.simps\<close>)
qed

lemma padded:
  assumes "0 \<le> x" "x < 10 ^ k" "0 < k"
  shows "length (appendInt x k) = k" "number 0 (appendInt x k) = Some (nat x)"
    "list_all (\<lambda>c. char_digit c \<noteq> None) (appendInt x k)"
proof -
  have len: "length (digits (nat x)) \<le> k" using assms by (intro length_digits) (simp_all add: nat_less_iff)
  then show "length (appendInt x k) = k" using assms(1) by (simp add: appendInt_def Let_def)
  show n: "number 0 (appendInt x k) = Some (nat x)"
    using assms(1) by (simp add: appendInt_def Let_def number_append number_zeros number_digits)
  have all: "list_all (\<lambda>c. char_digit c \<noteq> None) s" if "number acc s \<noteq> None" for acc s
    using that by (induction s arbitrary: acc) (auto split: option.splits)
  show "list_all (\<lambda>c. char_digit c \<noteq> None) (appendInt x k)" using n by (intro all) auto
qed

lemma is_digit_char: "is_digit c \<longleftrightarrow> char_digit c \<noteq> None"
  by (simp add: is_digit_def char_digit_def)

lemma getnum_two:
  assumes "0 \<le> x" "x < 100"
  shows "getnum fixed (appendInt x 2 @ r) = Some (x, r)"
proof -
  have d: "is_digit (digit_char n)" "digit (digit_char n) = int n" if "n < 10" for n
    using that by (auto simp: is_digit_def digit_def digit_char_def)
  have "nat x div 10 < 10" "nat x mod 10 < 10" using assms by (auto simp: nat_less_iff)
  moreover have "10 * int (nat x div 10) + int (nat x mod 10) = x"
    using mult_div_mod_eq [of 10 "nat x"] assms(1) by (metis int_nat_eq of_nat_add of_nat_mult of_nat_numeral)
  ultimately show ?thesis using assms d by (simp add: appendInt_two getnum_def)
qed

lemma getrange_two: "0 \<le> x \<Longrightarrow> x < 100 \<Longrightarrow> lo \<le> x \<Longrightarrow> x < hi \<Longrightarrow> getrange fixed lo hi (appendInt x 2 @ r) = Some (x, r)"
  by (simp add: getrange_def getnum_two)

lemma getyear_four: "0 \<le> y \<Longrightarrow> y \<le> 9999 \<Longrightarrow> getyear (appendInt y 4 @ r) = Some (y, r)"
  using padded [of y 4] by (simp add: getyear_def)

lemma strip_zeros: "\<exists>k. s = rev (dropWhile (\<lambda>c. c = CHR ''0'') (rev s)) @ replicate k CHR ''0''"
proof -
  have "takeWhile (\<lambda>c. c = CHR ''0'') (rev s) = replicate (length (takeWhile (\<lambda>c. c = CHR ''0'') (rev s))) CHR ''0''"
    by (rule replicate_eqI [symmetric, THEN sym]) (auto dest: set_takeWhileD)
  then obtain k where k: "takeWhile (\<lambda>c. c = CHR ''0'') (rev s) = replicate k CHR ''0''" by blast
  have "s = rev (takeWhile (\<lambda>c. c = CHR ''0'') (rev s) @ dropWhile (\<lambda>c. c = CHR ''0'') (rev s))" by simp
  also have "\<dots> = rev (dropWhile (\<lambda>c. c = CHR ''0'') (rev s)) @ replicate k CHR ''0''" unfolding k by simp
  finally show ?thesis by blast
qed

lemma getfraction_nano:
  assumes "0 \<le> ns" "ns < nanos"
  shows "getfraction (appendNano ns @ ''Z'') = (ns, ''Z'')"
proof -
  let ?s = "appendInt ns 9" and ?z = "CHR ''0''"
  define ds where "ds = rev (dropWhile (\<lambda>c. c = ?z) (rev ?s))"
  obtain k where k: "?s = ds @ replicate k ?z" using strip_zeros unfolding ds_def by blast
  have p: "length ?s = 9" "number 0 ?s = Some (nat ns)" "list_all (\<lambda>c. char_digit c \<noteq> None) ?s"
    using padded [of ns 9] assms by (simp_all add: nanos_def)
  have dig: "list_all is_digit ds" using p(3) by (simp add: k is_digit_char list_all_iff)
  have "length ds + k = 9" using p(1) by (simp add: k)
  then have len: "length ds \<le> 9" "k = 9 - length ds" by simp_all
  obtain m where m: "number 0 ds = Some m" "m * 10 ^ k = nat ns"
    using p(2) by (auto simp: k number_append number_zeros split: option.splits)
  have nano: "appendNano ns = (if ds = [] then [] else CHR ''.'' # ds)" by (simp add: appendNano_def Let_def ds_def)
  show ?thesis
  proof (cases ds)
    case Nil
    then have "ns = 0" using m assms by simp
    then show ?thesis using Nil nano by (simp add: getfraction_def)
  next
    case (Cons d r)
    have z: "\<not> is_digit CHR ''Z''" by (simp add: is_digit_def)
    have tw: "takeWhile is_digit (d # r @ ''Z'') = ds" "dropWhile is_digit (d # r @ ''Z'') = ''Z''"
      using dig z takeWhile_append2 [of ds is_digit "''Z''"] dropWhile_append2 [of ds is_digit "''Z''"]
      by (auto simp: Cons list_all_iff)
    have "int m * 10 ^ k = ns" using m(2) assms(1) by (metis int_nat_eq of_nat_mult of_nat_numeral of_nat_power)
    then have "int (the (number 0 (take 9 ds))) * 10 ^ (9 - length (take 9 ds)) = ns" using m(1) len by simp
    then show ?thesis using dig tw Cons
      by (simp add: nano getfraction_def Let_def del: takeWhile.simps dropWhile.simps)
  qed
qed

lemma find_month_bounds:
  "sorted_wrt (<) (a # ms) \<Longrightarrow> ms \<noteq> [] \<Longrightarrow> a \<le> doy \<Longrightarrow> doy < last ms
   \<Longrightarrow> \<exists>k. find_month m doy (a # ms) = m + int k \<and> k < length ms \<and> (a # ms) ! k \<le> doy \<and> doy < ms ! k"
proof (induction m doy "a # ms" arbitrary: a ms rule: find_month.induct)
  case (1 m doy a b rest)
  show ?case
  proof (cases "doy < b")
    case False
    then have "rest \<noteq> []" using 1(5) by auto
    then obtain k where "find_month (m + 1) doy (b # rest) = m + 1 + int k" "k < length rest" "(b # rest) ! k \<le> doy" "doy < rest ! k"
      using 1 False by auto
    then show ?thesis using False by (intro exI [of _ "Suc k"]) simp
  qed (use 1 in \<open>auto intro: exI [of _ 0]\<close>)
qed auto

lemma date_ok:
  "1 \<le> month_of n" "month_of n \<le> 12" "1 \<le> dom_of n" "dom_of n \<le> days_in (year_of n) (month_of n)" "days_in (year_of n) (month_of n) \<le> 31"
proof -
  let ?l = "leap (year_of n)" and ?d = "day_of_year n"
  have "\<exists>ms. month_starts ?l = 0 # ms \<and> length ms = 12 \<and> last ms = (if ?l then 366 else 365) \<and> sorted_wrt (<) (0 # ms)"
    by (cases ?l) (simp_all add: month_starts_def)
  then obtain ms where ms: "month_starts ?l = 0 # ms" "length ms = 12" "last ms = (if ?l then 366 else 365)" "sorted_wrt (<) (0 # ms)"
    by blast
  then have "ms \<noteq> []" by auto
  from find_month_bounds [OF ms(4) this, of ?d 1] obtain k
    where k: "month_of n = 1 + int k" "k < 12" "month_starts ?l ! k \<le> ?d" "?d < month_starts ?l ! Suc k"
    using day_of_year_bounds [of n] ms by (auto simp: month_of_def)
  then show "1 \<le> month_of n" "month_of n \<le> 12" "1 \<le> dom_of n" "dom_of n \<le> days_in (year_of n) (month_of n)"
    by (simp_all add: dom_of_def days_in_def nat_add_distrib)
  have "k \<in> {0, 1, 2, 3, 4, 5, 6, 7, 8, 9, 10, 11}" using k(2) by (simp, presburger)
  then show "days_in (year_of n) (month_of n) \<le> 31"
    unfolding k(1) days_in_def by (auto simp: month_starts_def nat_add_distrib)
qed

lemma skip_literal [simp]: "skip c (c # s) = Some s"
  by (simp add: skip_def)

lemma parse_parts:
  assumes "0 \<le> y" "y \<le> 9999" "1 \<le> m" "m \<le> 12" "1 \<le> d" "d \<le> days_in y m" "days_in y m \<le> 31"
    "0 \<le> h" "h < 24" "0 \<le> mi" "mi < 60" "0 \<le> sec" "sec < 60" "0 \<le> ns" "ns < nanos"
  shows "ParseRFC3339 (appendInt y 4 @ ''-'' @ appendInt m 2 @ ''-'' @ appendInt d 2 @ ''T'' @ appendInt h 2 @ '':''
      @ appendInt mi 2 @ '':'' @ appendInt sec 2 @ appendNano ns @ ''Z'')
    = Some ((civil_day y m d * 86400 + h * 3600 + mi * 60 + sec) * nanos + ns)"
  using assms by (simp add: ParseRFC3339_def getyear_four getrange_two getnum_two getfraction_nano getoffset_def)

lemma clock_parts:
  fixes x :: int
  shows "x div 3600 * 3600 + x div 60 mod 60 * 60 + x mod 60 = x"
proof -
  have "x div 3600 = x div 60 div 60" using zdiv_zmult2_eq [of 60 x 60] by simp
  then show ?thesis using div_mult_mod_eq [of x 60] div_mult_mod_eq [of "x div 60" 60] by linarith
qed

lemma parse_format:
  assumes "time_ok t"
  shows "ParseRFC3339 (FormatRFC3339Nano t) = Some t"
proof -
  let ?n = "t div nanos div 86400" and ?c = "t div nanos mod 86400"
  have c: "0 \<le> ?c div 3600" "?c div 3600 < 24" "0 \<le> ?c div 60 mod 60" "?c div 60 mod 60 < 60" "0 \<le> ?c mod 60" "?c mod 60 < 60"
    using pos_mod_bound [of 86400 "t div nanos"] pos_mod_sign [of 86400 "t div nanos"] by (simp_all add: div_less_iff_less_mult)
  have y: "0 \<le> year_of ?n" "year_of ?n \<le> 9999" and ns: "0 \<le> t mod nanos" "t mod nanos < nanos"
    using assms by (simp_all add: time_ok_def)
  have "?n * 86400 + ?c div 3600 * 3600 + ?c div 60 mod 60 * 60 + ?c mod 60 = t div nanos"
    using clock_parts [of ?c] div_mult_mod_eq [of "t div nanos" 86400] by linarith
  then have "(?n * 86400 + ?c div 3600 * 3600 + ?c div 60 mod 60 * 60 + ?c mod 60) * nanos + t mod nanos = t"
    by (simp only: div_mult_mod_eq)
  then show ?thesis
    unfolding FormatRFC3339Nano_def Let_def parse_parts [OF y date_ok c ns] civil_day_of by (rule arg_cong)
qed

text \<open>
  A time goes over the wire exactly: every instant of the years 0 to 9999, to the nanosecond, is
  read back from the text it is written as.
\<close>
theorem timestamps_roundtrip:
  assumes "time_ok t"
  shows "ParseRFC3339 (FormatRFC3339Nano t) = Some t"
  using assms by (rule parse_format)

theorem timestamps_roundtrip_witness:
  "FormatRFC3339Nano 1500000000 = ''1970-01-01T00:00:01.5Z'' \<and> ParseRFC3339 ''1970-01-01T00:00:01.5Z'' = Some 1500000000"
proof -
  have written: "FormatRFC3339Nano 1500000000 = ''1970-01-01T00:00:01.5Z''" by code_simp
  have "time_ok 1500000000" by code_simp
  from timestamps_roundtrip [OF this] written show ?thesis by simp
qed

end
