(* ===== verification/Payload.thy ===== *)
theory Payload
  imports Cbor Utf8 Timestamps
begin

text \<open>
  The run-time half of \<open>csil/codec.gen.go\<close>: the value tree of a payload, its canonical bytes, the
  decoder that reads them - nested at most 64 deep, every announced length checked against what is
  left - and the accessors the messages' decoders are made of.  An error text is a constructor.
  What \<open>transport/cbor.go\<close> is for the envelopes, this is for the payloads inside them.
\<close>

section \<open>Values\<close>

datatype csil_value =
    pUint "64 word"
  | pInt "64 word"        \<comment> \<open>int64, read by \<open>sint\<close>\<close>
  | pBool bool
  | pFloat float64        \<comment> \<open>the bits\<close>
  | pNull
  | pText string
  | pBytes bytes
  | pArray "csil_value list"
  | pMap "(csil_value \<times> csil_value) list"
  | pTag "64 word" csil_value

datatype csil_error =
    NestingLimit | EndOfInput | TruncatedArgument | ReservedInfo | UnsupportedSimple | NegativeOutOfRange
  | TruncatedBytes | TruncatedText | InvalidUtf8 | ArrayTooLong | MapTooLong | TrailingBytes
  | MissingField string | IntegerOverflow | NegativeUnsigned
  | ExpectedInteger | ExpectedUnsigned | ExpectedFloat | ExpectedBool | ExpectedText | ExpectedBytes | ExpectedArray
  | NotATimestamp | TimestampNotText | BadTimestamp | NotInEnum string

fun bindS :: "'e + 'a \<Rightarrow> ('a \<Rightarrow> 'e + 'b) \<Rightarrow> 'e + 'b" where
  "bindS (Inl e) f = Inl e"
| "bindS (Inr x) f = f x"

lemma bindS_cong [fundef_cong]: "m = m' \<Longrightarrow> (\<And>x. m' = Inr x \<Longrightarrow> f x = g x) \<Longrightarrow> bindS m f = bindS m' g"
  by (cases m') auto

lemma bindS_Inr: "bindS m f = Inr y \<longleftrightarrow> (\<exists>x. m = Inr x \<and> f x = Inr y)"
  by (cases m) auto

section \<open>Encoding\<close>

definition csil_cborHead :: "byte \<Rightarrow> 64 word \<Rightarrow> bytes" where
  "csil_cborHead major n =
     (let mt = push_bit 5 major in
      if n < 24 then [mt OR byte_at n 0]
      else if n < 0x100 then [mt OR 24, byte_at n 0]
      else if n < 0x10000 then [mt OR 25, byte_at n 8, byte_at n 0]
      else if n < 0x100000000 then [mt OR 26, byte_at n 24, byte_at n 16, byte_at n 8, byte_at n 0]
      else [mt OR 27, byte_at n 56, byte_at n 48, byte_at n 40, byte_at n 32,
            byte_at n 24, byte_at n 16, byte_at n 8, byte_at n 0])"

fun csil_cborEnc :: "csil_value \<Rightarrow> bytes" where
  "csil_cborEnc (pUint x) = csil_cborHead 0 x"
| "csil_cborEnc (pInt x) = (if 0 \<le> sint x then csil_cborHead 0 x else csil_cborHead 1 (- (x + 1)))"
| "csil_cborEnc (pBool x) = [if x then 0xf5 else 0xf4]"
| "csil_cborEnc pNull = [0xf6]"
| "csil_cborEnc (pFloat bits) = [0xfb, byte_at bits 56, byte_at bits 48, byte_at bits 40, byte_at bits 32,
     byte_at bits 24, byte_at bits 16, byte_at bits 8, byte_at bits 0]"
| "csil_cborEnc (pText x) = csil_cborHead 3 (of_nat (length x)) @ text_bytes x"
| "csil_cborEnc (pBytes x) = csil_cborHead 2 (of_nat (length x)) @ x"
| "csil_cborEnc (pArray x) = csil_cborHead 4 (of_nat (length x)) @ concat (map csil_cborEnc x)"
| "csil_cborEnc (pMap x) = csil_cborHead 5 (of_nat (length x)) @ concat (map (\<lambda>(k, v). csil_cborEnc k @ csil_cborEnc v) x)"
| "csil_cborEnc (pTag num x) = csil_cborHead 6 num @ csil_cborEnc x"

section \<open>Decoding\<close>

text \<open>The place of the highest bit.\<close>
fun top_bit :: "nat \<Rightarrow> nat" where
  "top_bit n = (if n < 2 then 0 else Suc (top_bit (n div 2)))"

declare top_bit.simps [simp del]

text \<open>\<open>float64(float32)\<close> on the bits: a subnormal becomes normal, a signalling NaN a quiet one.\<close>
definition widen_float :: "64 word \<Rightarrow> float64" where
  "widen_float bits =
     (let b = unat bits mod 2 ^ 32; sign = b div 2 ^ 31; e = b div 2 ^ 23 mod 2 ^ 8; m = b mod 2 ^ 23 in
      of_nat (sign * 2 ^ 63 +
        (if e = 255 then 2047 * 2 ^ 52 + (if m = 0 then 0 else 2 ^ 51 + m mod 2 ^ 22 * 2 ^ 29)
         else if e = 0 then if m = 0 then 0 else let k = top_bit m in (k + 874) * 2 ^ 52 + (m - 2 ^ k) * 2 ^ (52 - k)
         else (e + 896) * 2 ^ 52 + m * 2 ^ 29)))"

text \<open>\<open>float64(n)\<close> of a natural number, to nearest, ties to even.\<close>
definition float_of_nat :: "nat \<Rightarrow> nat" where
  "float_of_nat n =
     (if n = 0 then 0
      else let e = top_bit n in
        (e + 1022) * 2 ^ 52 +
        (if e \<le> 52 then n * 2 ^ (52 - e)
         else let s = e - 52; q = n div 2 ^ s; r = n mod 2 ^ s; half = 2 ^ (s - 1) in
           q + (if half < r \<or> r = half \<and> odd q then 1 else 0)))"

definition float_of_int :: "int \<Rightarrow> float64" where
  "float_of_int x = (if x < 0 then of_nat (2 ^ 63 + float_of_nat (nat (- x))) else of_nat (float_of_nat (nat x)))"

text \<open>The argument of the head at the start of the bytes, and the bytes after it.\<close>
definition csil_cborReadArg :: "bytes \<Rightarrow> byte \<Rightarrow> csil_error + (64 word \<times> bytes)" where
  "csil_cborReadArg b low =
     (if low < 24 then Inr (ucast low, drop 1 b)
      else if low = 24 then if length b < 2 then Inl TruncatedArgument else Inr (join_bytes 0 (take 1 (drop 1 b)), drop 2 b)
      else if low = 25 then if length b < 3 then Inl TruncatedArgument else Inr (join_bytes 0 (take 2 (drop 1 b)), drop 3 b)
      else if low = 26 then if length b < 5 then Inl TruncatedArgument else Inr (join_bytes 0 (take 4 (drop 1 b)), drop 5 b)
      else if low = 27 then if length b < 9 then Inl TruncatedArgument else Inr (join_bytes 0 (take 8 (drop 1 b)), drop 9 b)
      else Inl ReservedInfo)"

text \<open>\<open>cborDec\<close> at a depth, and its two loops: the value, and the bytes after it.\<close>
function csil_cborDec :: "nat \<Rightarrow> bytes \<Rightarrow> csil_error + (csil_value \<times> bytes)"
  and csil_items :: "nat \<Rightarrow> nat \<Rightarrow> bytes \<Rightarrow> csil_error + (csil_value list \<times> bytes)"
  and csil_entries :: "nat \<Rightarrow> nat \<Rightarrow> bytes \<Rightarrow> csil_error + ((csil_value \<times> csil_value) list \<times> bytes)" where
  "csil_cborDec depth b =
     (if depth > 64 then Inl NestingLimit
      else if b = [] then Inl EndOfInput
      else let major = drop_bit 5 (hd b); low = hd b AND 0x1f in
        if major = 7 then
          if low = 20 then Inr (pBool False, drop 1 b)
          else if low = 21 then Inr (pBool True, drop 1 b)
          else if low = 22 \<or> low = 23 then Inr (pNull, drop 1 b)
          else if low = 26 then bindS (csil_cborReadArg b low) (\<lambda>(bits, r). Inr (pFloat (widen_float bits), r))
          else if low = 27 then bindS (csil_cborReadArg b low) (\<lambda>(bits, r). Inr (pFloat bits, r))
          else Inl UnsupportedSimple
        else bindS (csil_cborReadArg b low) (\<lambda>(arg, r).
          if major = 0 then Inr (pUint arg, r)
          else if major = 1 then if arg > 0x7fffffffffffffff then Inl NegativeOutOfRange else Inr (pInt (- 1 - arg), r)
          else if major = 2 then
            if unat arg > length r then Inl TruncatedBytes else Inr (pBytes (take (unat arg) r), drop (unat arg) r)
          else if major = 3 then
            if unat arg > length r then Inl TruncatedText
            else if \<not> utf8_Valid (map unat (take (unat arg) r)) then Inl InvalidUtf8
            else Inr (pText (bytes_text (take (unat arg) r)), drop (unat arg) r)
          else if major = 4 then
            if unat arg > length r then Inl ArrayTooLong
            else bindS (csil_items (depth + 1) (unat arg) r) (\<lambda>(items, r). Inr (pArray items, r))
          else if major = 5 then
            if unat arg > length r then Inl MapTooLong
            else bindS (csil_entries (depth + 1) (unat arg) r) (\<lambda>(entries, r). Inr (pMap entries, r))
          else bindS (csil_cborDec (depth + 1) r) (\<lambda>(inner, r). Inr (pTag arg inner, r))))"
| "csil_items depth 0 b = Inr ([], b)"
| "csil_items depth (Suc k) b =
     bindS (csil_cborDec depth b) (\<lambda>(item, r).
     bindS (csil_items depth k r) (\<lambda>(items, r). Inr (item # items, r)))"
| "csil_entries depth 0 b = Inr ([], b)"
| "csil_entries depth (Suc k) b =
     bindS (csil_cborDec depth b) (\<lambda>(key, r).
     bindS (csil_cborDec depth r) (\<lambda>(val, r).
     bindS (csil_entries depth k r) (\<lambda>(entries, r). Inr ((key, val) # entries, r))))"
  by pat_completeness auto
termination
proof (relation "measures
    [\<lambda>x. case x of Inl (d, b) \<Rightarrow> 66 - d | Inr (Inl (d, k, b)) \<Rightarrow> 66 - d | Inr (Inr (d, k, b)) \<Rightarrow> 66 - d,
     \<lambda>x. case x of Inl _ \<Rightarrow> 0 | Inr (Inl (d, k, b)) \<Rightarrow> Suc k | Inr (Inr (d, k, b)) \<Rightarrow> Suc k]")
qed auto

declare csil_cborDec.simps [simp del]

definition csil_cborDecode :: "bytes \<Rightarrow> csil_error + csil_value" where
  "csil_cborDecode b = bindS (csil_cborDec 0 b) (\<lambda>(v, r). if r \<noteq> [] then Inl TrailingBytes else Inr v)"

section \<open>Accessors\<close>

text \<open>The first entry of a map under a text key; anything but a map has none.\<close>
definition cborMapGet :: "csil_value \<Rightarrow> string \<Rightarrow> csil_value option" where
  "cborMapGet v key = (case v of pMap es \<Rightarrow> map_option snd (find (\<lambda>e. fst e = pText key) es) | _ \<Rightarrow> None)"

definition cborRequire :: "csil_value \<Rightarrow> string \<Rightarrow> csil_error + csil_value" where
  "cborRequire v key = (case cborMapGet v key of Some x \<Rightarrow> Inr x | None \<Rightarrow> Inl (MissingField key))"

fun cborAsI64 :: "csil_value \<Rightarrow> csil_error + 64 word" where
  "cborAsI64 (pUint x) = (if x > 0x7fffffffffffffff then Inl IntegerOverflow else Inr x)"
| "cborAsI64 (pInt x) = Inr x"
| "cborAsI64 _ = Inl ExpectedInteger"

fun cborAsU64 :: "csil_value \<Rightarrow> csil_error + 64 word" where
  "cborAsU64 (pUint x) = Inr x"
| "cborAsU64 (pInt x) = (if sint x < 0 then Inl NegativeUnsigned else Inr x)"
| "cborAsU64 _ = Inl ExpectedUnsigned"

fun cborAsF64 :: "csil_value \<Rightarrow> csil_error + float64" where
  "cborAsF64 (pFloat x) = Inr x"
| "cborAsF64 (pUint x) = Inr (float_of_int (uint x))"
| "cborAsF64 (pInt x) = Inr (float_of_int (sint x))"
| "cborAsF64 _ = Inl ExpectedFloat"

fun cborAsBool :: "csil_value \<Rightarrow> csil_error + bool" where
  "cborAsBool (pBool x) = Inr x"
| "cborAsBool _ = Inl ExpectedBool"

fun cborAsText :: "csil_value \<Rightarrow> csil_error + string" where
  "cborAsText (pText x) = Inr x"
| "cborAsText _ = Inl ExpectedText"

fun cborAsBytes :: "csil_value \<Rightarrow> csil_error + bytes" where
  "cborAsBytes (pBytes x) = Inr x"
| "cborAsBytes _ = Inl ExpectedBytes"

fun cborAsArray :: "csil_value \<Rightarrow> csil_error + csil_value list" where
  "cborAsArray (pArray x) = Inr x"
| "cborAsArray _ = Inl ExpectedArray"

definition csilEncTimestamp :: "instant \<Rightarrow> csil_value" where
  "csilEncTimestamp t = pTag 0 (pText (FormatRFC3339Nano t))"

fun csilAsTimestamp :: "csil_value \<Rightarrow> csil_error + instant" where
  "csilAsTimestamp (pTag num inner) =
     (if num \<noteq> 0 then Inl NotATimestamp
      else (case inner of
          pText s \<Rightarrow> (case ParseRFC3339 s of Some t \<Rightarrow> Inr t | None \<Rightarrow> Inl BadTimestamp)
        | _ \<Rightarrow> Inl TimestampNotText))"
| "csilAsTimestamp _ = Inl NotATimestamp"

definition cborEncArray :: "('a \<Rightarrow> csil_value) \<Rightarrow> 'a list \<Rightarrow> csil_value" where
  "cborEncArray f xs = pArray (map f xs)"

fun each_of :: "(csil_value \<Rightarrow> csil_error + 'a) \<Rightarrow> csil_value list \<Rightarrow> csil_error + 'a list" where
  "each_of f [] = Inr []"
| "each_of f (e # es) = bindS (f e) (\<lambda>x. bindS (each_of f es) (\<lambda>xs. Inr (x # xs)))"

definition cborDecArray :: "(csil_value \<Rightarrow> csil_error + 'a) \<Rightarrow> csil_value \<Rightarrow> csil_error + 'a list" where
  "cborDecArray f v = bindS (cborAsArray v) (each_of f)"

section \<open>Messages\<close>

text \<open>A text that is a member of a declared enumeration.\<close>
definition as_enum :: "string list \<Rightarrow> csil_value \<Rightarrow> csil_error + string" where
  "as_enum names v = bindS (cborAsText v) (\<lambda>s. if s \<in> set names then Inr s else Inl (NotInEnum s))"

text \<open>What a message's encoder appends: an entry, or one for a pointer that is not nil.\<close>
definition entry :: "string \<Rightarrow> csil_value \<Rightarrow> (csil_value \<times> csil_value) list" where
  "entry k x = [(pText k, x)]"

definition opt_entry :: "string \<Rightarrow> ('a \<Rightarrow> csil_value) \<Rightarrow> 'a option \<Rightarrow> (csil_value \<times> csil_value) list" where
  "opt_entry k f p = (case p of None \<Rightarrow> [] | Some x \<Rightarrow> entry k (f x))"

text \<open>What its decoder reads: a field that has to be there, and one that may be.\<close>
definition required :: "csil_value \<Rightarrow> string \<Rightarrow> (csil_value \<Rightarrow> csil_error + 'a) \<Rightarrow> csil_error + 'a" where
  "required v k f = bindS (cborRequire v k) f"

definition optional_field :: "csil_value \<Rightarrow> string \<Rightarrow> (csil_value \<Rightarrow> csil_error + 'a) \<Rightarrow> csil_error + 'a option" where
  "optional_field v k f = (case cborMapGet v k of None \<Rightarrow> Inr None | Some x \<Rightarrow> bindS (f x) (\<lambda>y. Inr (Some y)))"

section \<open>What the bytes of a value decode to\<close>

text \<open>A value the encoder's bytes stand for: nested at most \<open>n\<close> deep, its texts valid, its lengths in 64 bits.\<close>
fun sendable :: "nat \<Rightarrow> csil_value \<Rightarrow> bool" where
  "sendable n (pText x) = text_ok x"
| "sendable n (pBytes x) = (length x < 2 ^ 64)"
| "sendable (Suc n) (pArray x) = (length x < 2 ^ 64 \<and> list_all (sendable n) x)"
| "sendable (Suc n) (pMap x) = (length x < 2 ^ 64 \<and> list_all (\<lambda>(k, v). sendable n k \<and> sendable n v) x)"
| "sendable (Suc n) (pTag num x) = sendable n x"
| "sendable 0 (pArray x) = False"
| "sendable 0 (pMap x) = False"
| "sendable 0 (pTag num x) = False"
| "sendable n v = True"

text \<open>A signed value that is not negative comes back unsigned.\<close>
fun received :: "csil_value \<Rightarrow> csil_value" where
  "received (pInt x) = (if 0 \<le> sint x then pUint x else pInt x)"
| "received (pArray x) = pArray (map received x)"
| "received (pMap x) = pMap (map (\<lambda>(k, v). (received k, received v)) x)"
| "received (pTag num x) = pTag num (received x)"
| "received v = v"

lemma csil_cborHead_eq: "csil_cborHead = writeHead"
  by (intro ext) (simp add: csil_cborHead_def writeHead_def Let_def)

lemma csil_cborReadArg_eq: "readArg b low = Returns (a, n) \<Longrightarrow> csil_cborReadArg b low = Inr (a, drop n b)"
  by (auto simp: csil_cborReadArg_def readArg_def split: if_splits)

lemma csil_head:
  assumes "reads_back major n h"
  shows "csil_cborReadArg (h @ b) (hd h AND 0x1f) = Inr (n, b)"
  using assms by (auto simp: reads_back_def dest!: spec [of _ b] csil_cborReadArg_eq)

lemma csil_cborDec_head:
  assumes "major < 7" "depth \<le> 64"
  shows "csil_cborDec depth (csil_cborHead major arg @ r) =
     (if major = 0 then Inr (pUint arg, r)
      else if major = 1 then if arg > 0x7fffffffffffffff then Inl NegativeOutOfRange else Inr (pInt (- 1 - arg), r)
      else if major = 2 then
        if unat arg > length r then Inl TruncatedBytes else Inr (pBytes (take (unat arg) r), drop (unat arg) r)
      else if major = 3 then
        if unat arg > length r then Inl TruncatedText
        else if \<not> utf8_Valid (map unat (take (unat arg) r)) then Inl InvalidUtf8
        else Inr (pText (bytes_text (take (unat arg) r)), drop (unat arg) r)
      else if major = 4 then
        if unat arg > length r then Inl ArrayTooLong
        else bindS (csil_items (depth + 1) (unat arg) r) (\<lambda>(items, r). Inr (pArray items, r))
      else if major = 5 then
        if unat arg > length r then Inl MapTooLong
        else bindS (csil_entries (depth + 1) (unat arg) r) (\<lambda>(entries, r). Inr (pMap entries, r))
      else bindS (csil_cborDec (depth + 1) r) (\<lambda>(inner, r). Inr (pTag arg inner, r)))"
proof -
  let ?h = "csil_cborHead major arg"
  have m8: "major < 8" using assms(1) by (rule order.strict_trans) simp
  have rb: "reads_back major arg ?h" using read_head [OF m8] by (simp add: csil_cborHead_eq)
  then have hd: "hd (?h @ r) = hd ?h" "?h @ r \<noteq> []" "drop_bit 5 (hd ?h) = major" by (auto simp: reads_back_def)
  have "major \<noteq> 7" using assms(1) by auto
  then show ?thesis
    using assms(2) by (subst csil_cborDec.simps) (simp add: hd csil_head [OF rb] del: append_is_Nil_conv hd_append2)
qed

lemma csil_cborEnc_nonempty: "1 \<le> length (csil_cborEnc v)"
proof -
  have "1 \<le> length (csil_cborHead major n)" for major n by (simp add: csil_cborHead_def Let_def)
  then show ?thesis by (cases v) (simp_all add: trans_le_add1)
qed

lemma text_codes: "map unat (text_bytes s) = map of_char s"
  by (simp add: text_bytes_def unat_of_nat)

lemma csil_items_read:
  assumes "\<And>a rest. a \<in> set y \<Longrightarrow> csil_cborDec d (csil_cborEnc a @ rest) = Inr (received a, rest)"
  shows "csil_items d (length y) (concat (map csil_cborEnc y) @ rest) = Inr (map received y, rest)"
  using assms by (induction y) simp_all

lemma csil_entries_read:
  assumes "\<And>a rest. a \<in> fst ` set y \<union> snd ` set y \<Longrightarrow> csil_cborDec d (csil_cborEnc a @ rest) = Inr (received a, rest)"
  shows "csil_entries d (length y) (concat (map (\<lambda>(k, v). csil_cborEnc k @ csil_cborEnc v) y) @ rest)
    = Inr (map (\<lambda>(k, v). (received k, received v)) y, rest)"
  using assms by (induction y) auto

lemma payload_read:
  assumes "sendable n v" "d + n \<le> 64"
  shows "csil_cborDec d (csil_cborEnc v @ rest) = Inr (received v, rest)"
  using assms
proof (induction v arbitrary: n d rest)
  case (pInt x)
  have e: "- x - 1 = - 1 - x" by simp
  have "sint x < 0 \<longleftrightarrow> \<not> 0x7fffffffffffffff < - x - 1" unfolding e by (rule sint_sign)
  then show ?case using pInt by (cases "0 \<le> sint x") (auto simp: csil_cborDec_head)
next
  case (pBool x)
  then show ?case by (subst csil_cborDec.simps) (simp add: Let_def)
next
  case pNull
  then show ?case by (subst csil_cborDec.simps) (simp add: Let_def)
next
  case (pFloat x)
  have "csil_cborReadArg (csil_cborEnc (pFloat x) @ rest) 27 = Inr (x, rest)"
    using join_from_zero(4) [of x] by (simp add: csil_cborReadArg_def del: join_bytes.simps)
  then show ?case using pFloat by (subst csil_cborDec.simps) (simp add: Let_def)
next
  case (pText x)
  then have "unat (of_nat (length x) :: 64 word) = length (text_bytes x)" by (simp add: text_ok_def unat_of_nat)
  then show ?case using pText by (simp add: csil_cborDec_head text_ok_def text_codes)
next
  case (pBytes x)
  then have "unat (of_nat (length x) :: 64 word) = length x" by (simp add: unat_of_nat)
  then show ?case using pBytes by (simp add: csil_cborDec_head)
next
  case (pArray x)
  then obtain m where m: "n = Suc m" "list_all (sendable m) x" "length x < 2 ^ 64" by (cases n) auto
  have items: "csil_items (d + 1) (length x) (concat (map csil_cborEnc x) @ rest) = Inr (map received x, rest)"
    using m pArray by (intro csil_items_read) (auto simp: list_all_iff)
  have "length x \<le> length (concat (map csil_cborEnc x))" using csil_cborEnc_nonempty by (intro items_length)
  moreover have "unat (of_nat (length x) :: 64 word) = length x" using m by (simp add: unat_of_nat)
  ultimately show ?case using items pArray.prems(2) by (simp add: csil_cborDec_head)
next
  case (pMap x)
  let ?f = "\<lambda>(k, v). csil_cborEnc k @ csil_cborEnc v"
  obtain m where m: "n = Suc m" "list_all (\<lambda>(k, v). sendable m k \<and> sendable m v) x" "length x < 2 ^ 64"
    using pMap.prems(1) by (cases n) auto
  have entries: "csil_entries (d + 1) (length x) (concat (map ?f x) @ rest) = Inr (map (\<lambda>(k, v). (received k, received v)) x, rest)"
    using m pMap by (intro csil_entries_read) (fastforce simp: list_all_iff)
  have "length x \<le> length (concat (map ?f x))"
    using csil_cborEnc_nonempty by (intro items_length) (auto simp: trans_le_add1)
  moreover have "unat (of_nat (length x) :: 64 word) = length x" using m by (simp add: unat_of_nat)
  ultimately show ?case using entries pMap.prems(2) by (simp add: csil_cborDec_head)
next
  case (pTag num v)
  then show ?case by (cases n) (auto simp: csil_cborDec_head)
qed (simp add: csil_cborDec_head)

lemma payload_decoded: "sendable 64 v \<Longrightarrow> csil_cborDecode (csil_cborEnc v) = Inr (received v)"
  using payload_read [of 64 v 0 "[]"] by (simp add: csil_cborDecode_def)

end
