(* ===== verification/Messages.thy ===== *)
theory Messages
  imports Payload
begin

text \<open>
  What a generated message codec is: an encoder into the value tree, a decoder out of it, and the
  values that survive the way.  The locale states the two laws - a sendable tree, and a decoder that
  undoes the encoder on what the other side receives - and derives from them how a field of that type
  behaves inside another message: as it is, behind a pointer, in a slice.  Every scalar and every
  message of the schema is an interpretation, and the rules it yields are collected in \<open>codec\<close>.
\<close>

named_theorems codec

section \<open>Fields of a map\<close>

definition look :: "(csil_value \<times> csil_value) list \<Rightarrow> string \<Rightarrow> csil_value option" where
  "look es k = map_option snd (find (\<lambda>e. fst e = pText k) es)"

definition opt_value :: "('a \<Rightarrow> csil_value) \<Rightarrow> 'a option \<Rightarrow> csil_value option" where
  "opt_value = map_option"

definition read_opt :: "(csil_value \<Rightarrow> csil_error + 'a) \<Rightarrow> csil_value option \<Rightarrow> csil_error + 'a option" where
  "read_opt f p = (case p of None \<Rightarrow> Inr None | Some x \<Rightarrow> bindS (f x) (\<lambda>y. Inr (Some y)))"

definition read_req :: "string \<Rightarrow> (csil_value \<Rightarrow> csil_error + 'a) \<Rightarrow> csil_value option \<Rightarrow> csil_error + 'a" where
  "read_req k f p = (case p of None \<Rightarrow> Inl (MissingField k) | Some x \<Rightarrow> f x)"

definition received_fields :: "(csil_value \<times> csil_value) list \<Rightarrow> (csil_value \<times> csil_value) list" where
  "received_fields es = map (\<lambda>(k, v). (received k, received v)) es"

lemma received_pMap [codec]: "received (pMap es) = pMap (received_fields es)"
  by (simp add: received_fields_def)

declare received.simps(3) [simp del]

lemma received_fields [codec]:
  "received_fields [] = []" "received_fields (xs @ ys) = received_fields xs @ received_fields ys"
  "received_fields (entry k x) = entry k (received x)"
  "received_fields (opt_entry k f p) = opt_entry k (\<lambda>x. received (f x)) p"
  by (auto simp: received_fields_def entry_def opt_entry_def split: option.split)

lemma fields_read [codec]:
  "required (pMap es) k f = read_req k f (look es k)"
  "optional_field (pMap es) k f = read_opt f (look es k)"
  by (auto simp: required_def optional_field_def cborRequire_def cborMapGet_def look_def read_req_def read_opt_def split: option.split)

lemma look_fields [codec]:
  "look [] k = None"
  "look (entry k x @ es) k = Some x" "look (entry k x) k = Some x"
  "k' \<noteq> k \<Longrightarrow> look (entry k' x @ es) k = look es k" "k' \<noteq> k \<Longrightarrow> look (entry k' x) k = None"
  "look es k = None \<Longrightarrow> look (opt_entry k f p @ es) k = opt_value f p" "look (opt_entry k f p) k = opt_value f p"
  "k' \<noteq> k \<Longrightarrow> look (opt_entry k' f p @ es) k = look es k" "k' \<noteq> k \<Longrightarrow> look (opt_entry k' f p) k = None"
  by (auto simp: look_def entry_def opt_entry_def opt_value_def split: option.split)

lemma read_req_Some [codec]: "read_req k f (Some x) = f x"
  by (simp add: read_req_def)

section \<open>Sendable maps\<close>

definition sendable_fields :: "nat \<Rightarrow> (csil_value \<times> csil_value) list \<Rightarrow> bool" where
  "sendable_fields n es \<longleftrightarrow> length es \<le> 1 \<and> list_all (\<lambda>(k, v). sendable n k \<and> sendable n v) es"

lemma sendable_entries [codec]:
  "sendable_fields n (entry k x) \<longleftrightarrow> text_ok k \<and> sendable n x"
  "sendable_fields n (opt_entry k f p) \<longleftrightarrow> (p = None \<or> text_ok k) \<and> pred_option (\<lambda>x. sendable n (f x)) p"
  by (auto simp: sendable_fields_def entry_def opt_entry_def split: option.split)

lemma sendable_map:
  assumes "0 < n" "length ess < 2 ^ 64" "list_all (sendable_fields (n - 1)) ess"
  shows "sendable n (pMap (concat ess))"
proof -
  have "length (concat ess) \<le> length ess"
    using assms(3) by (induction ess) (auto simp: sendable_fields_def)
  then have few: "length (concat ess) < 2 ^ 64" using assms(2) by (rule le_less_trans)
  obtain m where m: "n = Suc m" using assms(1) by (cases n) auto
  have "list_all (\<lambda>(k, v). sendable m k \<and> sendable m v) (concat ess)"
    using assms(3) by (induction ess) (auto simp: sendable_fields_def m)
  with few show ?thesis unfolding m sendable.simps ..
qed

lemma sendable_mono: "sendable m v \<Longrightarrow> m \<le> n \<Longrightarrow> sendable n v"
proof (induction v arbitrary: m n)
  case (pArray x)
  obtain a b where "m = Suc a" "n = Suc b" using pArray.prems by (cases m; cases n) simp_all
  then show ?case using pArray by (auto simp: list_all_iff)
next
  case (pMap x)
  obtain a b where "m = Suc a" "n = Suc b" using pMap.prems by (cases m; cases n) simp_all
  then show ?case using pMap by (fastforce simp: list_all_iff)
next
  case (pTag num v)
  obtain a b where "m = Suc a" "n = Suc b" using pTag.prems by (cases m; cases n) simp_all
  then show ?case using pTag by auto
qed simp_all

section \<open>The contract of a codec\<close>

definition list_ok :: "('a \<Rightarrow> bool) \<Rightarrow> 'a list \<Rightarrow> bool" where
  "list_ok ok xs \<longleftrightarrow> length xs < 2 ^ 64 \<and> list_all ok xs"

locale message =
  fixes ok :: "'a \<Rightarrow> bool" and enc :: "'a \<Rightarrow> csil_value" and dec :: "csil_value \<Rightarrow> csil_error + 'a" and depth :: nat
  assumes undone: "ok v \<Longrightarrow> dec (received (enc v)) = Inr v"
    and sound: "ok v \<Longrightarrow> sendable depth (enc v)"
begin

lemma behind_pointer: "pred_option ok p \<Longrightarrow> read_opt dec (opt_value (\<lambda>x. received (enc x)) p) = Inr p"
  by (cases p) (simp_all add: read_opt_def opt_value_def undone)

lemma in_slice: "list_ok ok xs \<Longrightarrow> cborDecArray dec (received (cborEncArray enc xs)) = Inr xs"
proof -
  assume "list_ok ok xs"
  then have "list_all ok xs" by (simp add: list_ok_def)
  then have "each_of dec (map received (map enc xs)) = Inr xs" by (induction xs) (simp_all add: undone)
  then show ?thesis by (simp add: cborDecArray_def cborEncArray_def)
qed

lemma slice_behind_pointer:
  "pred_option (list_ok ok) p \<Longrightarrow> read_opt (cborDecArray dec) (opt_value (\<lambda>x. received (cborEncArray enc x)) p) = Inr p"
  by (cases p) (simp_all add: read_opt_def opt_value_def in_slice)

lemma sent: "ok v \<Longrightarrow> depth \<le> n \<Longrightarrow> sendable n (enc v)"
  using sound sendable_mono by blast

lemma sent_behind_pointer: "pred_option ok p \<Longrightarrow> depth \<le> n \<Longrightarrow> pred_option (\<lambda>x. sendable n (enc x)) p"
  by (cases p) (simp_all add: sent)

lemma sent_in_slice: "list_ok ok xs \<Longrightarrow> depth < n \<Longrightarrow> sendable n (cborEncArray enc xs)"
  by (cases n) (auto simp: cborEncArray_def list_ok_def list_all_iff sent)

lemma sent_slice_behind_pointer:
  "pred_option (list_ok ok) p \<Longrightarrow> depth < n \<Longrightarrow> pred_option (\<lambda>x. sendable n (cborEncArray enc x)) p"
  by (cases p) (simp_all add: sent_in_slice)

text \<open>Over the wire, as bytes.\<close>
lemma over_the_wire: "ok v \<Longrightarrow> depth \<le> 64 \<Longrightarrow> bindS (csil_cborDecode (csil_cborEnc (enc v))) dec = Inr v"
  using payload_decoded [OF sent] undone by simp

end

section \<open>Scalars\<close>

definition bytes_ok :: "bytes \<Rightarrow> bool" where
  "bytes_ok b \<longleftrightarrow> length b < 2 ^ 64"

definition enum_ok :: "string list \<Rightarrow> string \<Rightarrow> bool" where
  "enum_ok names s \<longleftrightarrow> s \<in> set names \<and> text_ok s"

interpretation text_field: message text_ok pText cborAsText 0
  by unfold_locales simp_all

interpretation bool_field: message "\<lambda>_. True" pBool cborAsBool 0
  by unfold_locales simp_all

interpretation u64_field: message "\<lambda>_. True" pUint cborAsU64 0
  by unfold_locales simp_all

interpretation f64_field: message "\<lambda>_. True" pFloat cborAsF64 0
  by unfold_locales simp_all

interpretation bytes_field: message bytes_ok pBytes cborAsBytes 0
  by unfold_locales (simp_all add: bytes_ok_def)

lemma sint_nonneg: "0 \<le> sint (x :: 64 word) \<Longrightarrow> \<not> 0x7fffffffffffffff < x"
proof -
  assume "0 \<le> sint x"
  then have "\<not> bit x 63" using bit_last_iff [of x] by simp
  then have "bit (NOT x) 63" by (simp add: bit_not_iff)
  then have "sint (NOT x) < 0" using bit_last_iff [of "NOT x"] by simp
  then show ?thesis using sint_sign [of "NOT x"] by (simp add: not_eq_complement)
qed

interpretation i64_field: message "\<lambda>_. True" pInt cborAsI64 0
  by unfold_locales (simp_all add: sint_nonneg)

definition ascii :: "string \<Rightarrow> bool" where
  "ascii s \<longleftrightarrow> list_all (\<lambda>c. (of_char c :: nat) < 128) s"

lemma ascii_append [simp]: "ascii (xs @ ys) \<longleftrightarrow> ascii xs \<and> ascii ys" "ascii (c # xs) \<longleftrightarrow> (of_char c :: nat) < 128 \<and> ascii xs" "ascii []"
  by (auto simp: ascii_def)

lemma ascii_digits: "ascii (digits n)"
proof (induction n rule: digits.induct)
  case (1 n)
  have "n mod 10 < 10" by simp
  then have "n mod 10 < 80" by (rule less_trans) simp
  then show ?case using 1 by (subst digits.simps) (simp add: digit_char_def)
qed

lemma ascii_appendInt: "ascii (appendInt x k)"
proof -
  have "ascii (replicate j CHR ''0'')" for j by (induction j) simp_all
  then show ?thesis by (simp add: appendInt_def Let_def ascii_digits)
qed

lemma ascii_appendNano: "ascii (appendNano x)"
proof -
  have "ascii (rev (dropWhile f (rev s)))" if "ascii s" for f s
    using that by (auto simp: ascii_def list_all_iff dest: set_dropWhileD)
  then show ?thesis using ascii_appendInt by (simp add: appendNano_def Let_def)
qed

lemma formatted_text_ok:
  assumes "time_ok t"
  shows "text_ok (FormatRFC3339Nano t)"
proof -
  let ?n = "t div nanos div 86400" and ?c = "t div nanos mod 86400"
  have two: "length (appendInt x 2) = 2" if "0 \<le> x" "x < 100" for x using padded(1) [of x 2] that by simp
  have c: "0 \<le> ?c div 3600" "?c div 3600 < 100" "0 \<le> ?c div 60 mod 60" "?c div 60 mod 60 < 100" "0 \<le> ?c mod 60" "?c mod 60 < 100"
    using pos_mod_bound [of 86400 "t div nanos"] pos_mod_sign [of 86400 "t div nanos"]
      pos_mod_bound [of 60 ?c] pos_mod_bound [of 60 "?c div 60"]
    by (simp_all add: div_less_iff_less_mult del: pos_mod_bound)
  have d: "length (appendInt (month_of ?n) 2) = 2" "length (appendInt (dom_of ?n) 2) = 2"
    using date_ok [of ?n] by (auto intro!: two)
  have y: "length (appendInt (year_of ?n) 4) = 4" using padded(1) [of "year_of ?n" 4] assms by (simp add: time_ok_def)
  have "length (rev (dropWhile f (rev s))) \<le> length s" for f :: "char \<Rightarrow> bool" and s
    using length_dropWhile_le [of f "rev s"] by simp
  then have "length (appendNano (t mod nanos)) \<le> Suc (length (appendInt (t mod nanos) 9))"
    by (simp add: appendNano_def Let_def del: length_rev)
  then have "length (appendNano (t mod nanos)) \<le> 10" using padded(1) [of "t mod nanos" 9] by (simp add: nanos_def)
  then have "length (FormatRFC3339Nano t) \<le> 30"
    by (simp add: FormatRFC3339Nano_def Let_def two [OF c(1,2)] two [OF c(3,4)] two [OF c(5,6)] d y)
  then have "length (FormatRFC3339Nano t) < 2 ^ 64" by (rule le_less_trans) simp
  moreover have "ascii (FormatRFC3339Nano t)"
    by (simp add: FormatRFC3339Nano_def Let_def ascii_appendInt ascii_appendNano)
  ultimately show ?thesis by (simp add: ascii_text_ok ascii_def)
qed

interpretation time_field: message time_ok csilEncTimestamp csilAsTimestamp 1
  by unfold_locales (simp_all add: csilEncTimestamp_def parse_format formatted_text_ok)

lemma enum_message: "message (enum_ok names) pText (as_enum names) 0"
  by unfold_locales (simp_all add: enum_ok_def as_enum_def)

lemma pred_option_True [simp]: "pred_option (\<lambda>x. True) p"
  by (cases p) simp_all

lemmas scalar_codec [codec] =
  text_field.behind_pointer [simplified] text_field.in_slice text_field.sent_in_slice
  bool_field.behind_pointer [simplified] u64_field.behind_pointer [simplified] f64_field.behind_pointer [simplified]
  i64_field.undone [simplified] i64_field.behind_pointer [simplified]
  bytes_ok_def time_field.undone time_field.behind_pointer time_field.sent time_field.sent_behind_pointer

text \<open>The keys of the schema are ASCII.\<close>
lemmas key_ok [codec] = ascii_text_ok

lemmas message_sent = sendable_map

end
