(* ===== verification/CodecCommon.thy ===== *)
theory CodecCommon
  imports Messages
begin

text \<open>
  The messages of \<open>csil/codec.gen.go\<close> and \<open>csil/types.gen.go\<close>: what every message shares, logins and greetings.  A struct is a record, its
  encoder the entries in the order of the wire, its decoder the fields in the order of the schema; each
  is an interpretation of the contract \<open>message\<close> with the deepest nesting it can have.
\<close>

text \<open>The empty message is \<open>()\<close>.\<close>
definition csilEncEmpty :: "unit \<Rightarrow> csil_value" where
  "csilEncEmpty v = pMap []"

definition csilDecEmpty :: "csil_value \<Rightarrow> csil_error + unit" where
  "csilDecEmpty r = Inr ()"

interpretation Empty_message: message "\<lambda>_. True" csilEncEmpty csilDecEmpty 1
  using sendable_map [of 1 "[]"] by unfold_locales (simp_all add: csilEncEmpty_def csilDecEmpty_def)

record csil_ViewerContext =
  ViewerContext_IsAdmin :: bool
  ViewerContext_IsOwner :: bool
  ViewerContext_IsOrganizer :: bool
  ViewerContext_IsPresenter :: bool
  ViewerContext_IsMember :: bool
  ViewerContext_HasJoined :: bool
  ViewerContext_CanEdit :: bool
  ViewerContext_CanDelete :: bool
  ViewerContext_CanManageMembers :: bool

definition csilEncViewerContext :: "csil_ViewerContext \<Rightarrow> csil_value" where
  "csilEncViewerContext v = pMap (concat [
     entry ''can_edit'' (pBool (ViewerContext_CanEdit v)),
     entry ''is_admin'' (pBool (ViewerContext_IsAdmin v)),
     entry ''is_owner'' (pBool (ViewerContext_IsOwner v)),
     entry ''is_member'' (pBool (ViewerContext_IsMember v)),
     entry ''can_delete'' (pBool (ViewerContext_CanDelete v)),
     entry ''has_joined'' (pBool (ViewerContext_HasJoined v)),
     entry ''is_organizer'' (pBool (ViewerContext_IsOrganizer v)),
     entry ''is_presenter'' (pBool (ViewerContext_IsPresenter v)),
     entry ''can_manage_members'' (pBool (ViewerContext_CanManageMembers v))])"

definition csilDecViewerContext :: "csil_value \<Rightarrow> csil_error + csil_ViewerContext" where
  "csilDecViewerContext r =
     bindS (required r ''is_admin'' cborAsBool) (\<lambda>IsAdmin.
     bindS (required r ''is_owner'' cborAsBool) (\<lambda>IsOwner.
     bindS (required r ''is_organizer'' cborAsBool) (\<lambda>IsOrganizer.
     bindS (required r ''is_presenter'' cborAsBool) (\<lambda>IsPresenter.
     bindS (required r ''is_member'' cborAsBool) (\<lambda>IsMember.
     bindS (required r ''has_joined'' cborAsBool) (\<lambda>HasJoined.
     bindS (required r ''can_edit'' cborAsBool) (\<lambda>CanEdit.
     bindS (required r ''can_delete'' cborAsBool) (\<lambda>CanDelete.
     bindS (required r ''can_manage_members'' cborAsBool) (\<lambda>CanManageMembers.
     Inr \<lparr>ViewerContext_IsAdmin = IsAdmin, ViewerContext_IsOwner = IsOwner, ViewerContext_IsOrganizer = IsOrganizer, ViewerContext_IsPresenter = IsPresenter,
       ViewerContext_IsMember = IsMember, ViewerContext_HasJoined = HasJoined, ViewerContext_CanEdit = CanEdit, ViewerContext_CanDelete = CanDelete,
       ViewerContext_CanManageMembers = CanManageMembers\<rparr>)))))))))"

definition ViewerContext_ok :: "csil_ViewerContext \<Rightarrow> bool" where
  "ViewerContext_ok v \<longleftrightarrow> True"

lemma ViewerContext_undone: "ViewerContext_ok v \<Longrightarrow> csilDecViewerContext (received (csilEncViewerContext v)) = Inr v"
  by (cases v) (simp add: csilEncViewerContext_def csilDecViewerContext_def ViewerContext_ok_def codec)

lemma ViewerContext_sound: "ViewerContext_ok v \<Longrightarrow> sendable 1 (csilEncViewerContext v)"
  unfolding csilEncViewerContext_def ViewerContext_ok_def by (rule sendable_map) (simp_all add: codec)

interpretation ViewerContext_message: message ViewerContext_ok csilEncViewerContext csilDecViewerContext 1
  by unfold_locales (fact ViewerContext_undone, fact ViewerContext_sound)

lemmas ViewerContext_codec [codec] = ViewerContext_message.undone ViewerContext_message.behind_pointer ViewerContext_message.in_slice
  ViewerContext_message.sent ViewerContext_message.sent_behind_pointer ViewerContext_message.sent_in_slice

record csil_Page =
  Page_Limit :: "64 word option"
  Page_Offset :: "64 word option"

definition csilEncPage :: "csil_Page \<Rightarrow> csil_value" where
  "csilEncPage v = pMap (concat [
     opt_entry ''limit'' pUint (Page_Limit v),
     opt_entry ''offset'' pUint (Page_Offset v)])"

definition csilDecPage :: "csil_value \<Rightarrow> csil_error + csil_Page" where
  "csilDecPage r =
     bindS (optional_field r ''limit'' cborAsU64) (\<lambda>Limit.
     bindS (optional_field r ''offset'' cborAsU64) (\<lambda>Offset.
     Inr \<lparr>Page_Limit = Limit, Page_Offset = Offset\<rparr>))"

definition Page_ok :: "csil_Page \<Rightarrow> bool" where
  "Page_ok v \<longleftrightarrow> True"

lemma Page_undone: "Page_ok v \<Longrightarrow> csilDecPage (received (csilEncPage v)) = Inr v"
  by (cases v) (simp add: csilEncPage_def csilDecPage_def Page_ok_def codec)

lemma Page_sound: "Page_ok v \<Longrightarrow> sendable 1 (csilEncPage v)"
  unfolding csilEncPage_def Page_ok_def by (rule sendable_map) (simp_all add: codec)

interpretation Page_message: message Page_ok csilEncPage csilDecPage 1
  by unfold_locales (fact Page_undone, fact Page_sound)

lemmas Page_codec [codec] = Page_message.undone Page_message.behind_pointer Page_message.in_slice
  Page_message.sent Page_message.sent_behind_pointer Page_message.sent_in_slice

definition PublishSource_names :: "string list" where
  "PublishSource_names = [''instance'', ''organization'', ''gathering'']"

interpretation PublishSource_value: message "enum_ok PublishSource_names" pText "as_enum PublishSource_names" 0
  by (rule enum_message)

lemmas PublishSource_codec [codec] = PublishSource_value.undone [simplified] PublishSource_value.behind_pointer [simplified] PublishSource_value.in_slice [simplified]
  PublishSource_value.sent [simplified] PublishSource_value.sent_behind_pointer [simplified] PublishSource_value.sent_in_slice

record csil_PublishDecision =
  PublishDecision_Publishing :: bool
  PublishDecision_Source :: string
  PublishDecision_CanOverride :: bool

definition csilEncPublishDecision :: "csil_PublishDecision \<Rightarrow> csil_value" where
  "csilEncPublishDecision v = pMap (concat [
     entry ''source'' (pText (PublishDecision_Source v)),
     entry ''publishing'' (pBool (PublishDecision_Publishing v)),
     entry ''can_override'' (pBool (PublishDecision_CanOverride v))])"

definition csilDecPublishDecision :: "csil_value \<Rightarrow> csil_error + csil_PublishDecision" where
  "csilDecPublishDecision r =
     bindS (required r ''publishing'' cborAsBool) (\<lambda>Publishing.
     bindS (required r ''source'' (as_enum PublishSource_names)) (\<lambda>Source.
     bindS (required r ''can_override'' cborAsBool) (\<lambda>CanOverride.
     Inr \<lparr>PublishDecision_Publishing = Publishing, PublishDecision_Source = Source, PublishDecision_CanOverride = CanOverride\<rparr>)))"

definition PublishDecision_ok :: "csil_PublishDecision \<Rightarrow> bool" where
  "PublishDecision_ok v \<longleftrightarrow> enum_ok PublishSource_names (PublishDecision_Source v)"

lemma PublishDecision_undone: "PublishDecision_ok v \<Longrightarrow> csilDecPublishDecision (received (csilEncPublishDecision v)) = Inr v"
  by (cases v) (simp add: csilEncPublishDecision_def csilDecPublishDecision_def PublishDecision_ok_def codec)

lemma PublishDecision_sound: "PublishDecision_ok v \<Longrightarrow> sendable 1 (csilEncPublishDecision v)"
  unfolding csilEncPublishDecision_def PublishDecision_ok_def by (rule sendable_map) (simp_all add: codec)

interpretation PublishDecision_message: message PublishDecision_ok csilEncPublishDecision csilDecPublishDecision 1
  by unfold_locales (fact PublishDecision_undone, fact PublishDecision_sound)

lemmas PublishDecision_codec [codec] = PublishDecision_message.undone PublishDecision_message.behind_pointer PublishDecision_message.in_slice
  PublishDecision_message.sent PublishDecision_message.sent_behind_pointer PublishDecision_message.sent_in_slice

record csil_Origin =
  Origin_Domain :: string
  Origin_IsExternal :: bool
  Origin_PeerAddress :: "string option"

definition csilEncOrigin :: "csil_Origin \<Rightarrow> csil_value" where
  "csilEncOrigin v = pMap (concat [
     entry ''domain'' (pText (Origin_Domain v)),
     entry ''is_external'' (pBool (Origin_IsExternal v)),
     opt_entry ''peer_address'' pText (Origin_PeerAddress v)])"

definition csilDecOrigin :: "csil_value \<Rightarrow> csil_error + csil_Origin" where
  "csilDecOrigin r =
     bindS (required r ''domain'' cborAsText) (\<lambda>Domain.
     bindS (required r ''is_external'' cborAsBool) (\<lambda>IsExternal.
     bindS (optional_field r ''peer_address'' cborAsText) (\<lambda>PeerAddress.
     Inr \<lparr>Origin_Domain = Domain, Origin_IsExternal = IsExternal, Origin_PeerAddress = PeerAddress\<rparr>)))"

definition Origin_ok :: "csil_Origin \<Rightarrow> bool" where
  "Origin_ok v \<longleftrightarrow> text_ok (Origin_Domain v) \<and> pred_option text_ok (Origin_PeerAddress v)"

lemma Origin_undone: "Origin_ok v \<Longrightarrow> csilDecOrigin (received (csilEncOrigin v)) = Inr v"
  by (cases v) (simp add: csilEncOrigin_def csilDecOrigin_def Origin_ok_def codec)

lemma Origin_sound: "Origin_ok v \<Longrightarrow> sendable 1 (csilEncOrigin v)"
  unfolding csilEncOrigin_def Origin_ok_def by (rule sendable_map) (simp_all add: codec)

interpretation Origin_message: message Origin_ok csilEncOrigin csilDecOrigin 1
  by unfold_locales (fact Origin_undone, fact Origin_sound)

lemmas Origin_codec [codec] = Origin_message.undone Origin_message.behind_pointer Origin_message.in_slice
  Origin_message.sent Origin_message.sent_behind_pointer Origin_message.sent_in_slice

record csil_ServiceError =
  ServiceError_Code :: "64 word"
  ServiceError_Message :: string
  ServiceError_Field :: "string option"
  ServiceError_ResourceType :: "string option"

definition csilEncServiceError :: "csil_ServiceError \<Rightarrow> csil_value" where
  "csilEncServiceError v = pMap (concat [
     entry ''code'' (pUint (ServiceError_Code v)),
     opt_entry ''field'' pText (ServiceError_Field v),
     entry ''message'' (pText (ServiceError_Message v)),
     opt_entry ''resource_type'' pText (ServiceError_ResourceType v)])"

definition csilDecServiceError :: "csil_value \<Rightarrow> csil_error + csil_ServiceError" where
  "csilDecServiceError r =
     bindS (required r ''code'' cborAsU64) (\<lambda>Code.
     bindS (required r ''message'' cborAsText) (\<lambda>Message.
     bindS (optional_field r ''field'' cborAsText) (\<lambda>Field.
     bindS (optional_field r ''resource_type'' cborAsText) (\<lambda>ResourceType.
     Inr \<lparr>ServiceError_Code = Code, ServiceError_Message = Message, ServiceError_Field = Field, ServiceError_ResourceType = ResourceType\<rparr>))))"

definition ServiceError_ok :: "csil_ServiceError \<Rightarrow> bool" where
  "ServiceError_ok v \<longleftrightarrow> text_ok (ServiceError_Message v) \<and> pred_option text_ok (ServiceError_Field v) \<and> pred_option text_ok (ServiceError_ResourceType v)"

lemma ServiceError_undone: "ServiceError_ok v \<Longrightarrow> csilDecServiceError (received (csilEncServiceError v)) = Inr v"
  by (cases v) (simp add: csilEncServiceError_def csilDecServiceError_def ServiceError_ok_def codec)

lemma ServiceError_sound: "ServiceError_ok v \<Longrightarrow> sendable 1 (csilEncServiceError v)"
  unfolding csilEncServiceError_def ServiceError_ok_def by (rule sendable_map) (simp_all add: codec)

interpretation ServiceError_message: message ServiceError_ok csilEncServiceError csilDecServiceError 1
  by unfold_locales (fact ServiceError_undone, fact ServiceError_sound)

record csil_BeginLoginRequest =
  BeginLoginRequest_Domain :: string

definition csilEncBeginLoginRequest :: "csil_BeginLoginRequest \<Rightarrow> csil_value" where
  "csilEncBeginLoginRequest v = pMap (concat [
     entry ''domain'' (pText (BeginLoginRequest_Domain v))])"

definition csilDecBeginLoginRequest :: "csil_value \<Rightarrow> csil_error + csil_BeginLoginRequest" where
  "csilDecBeginLoginRequest r =
     bindS (required r ''domain'' cborAsText) (\<lambda>Domain.
     Inr \<lparr>BeginLoginRequest_Domain = Domain\<rparr>)"

definition BeginLoginRequest_ok :: "csil_BeginLoginRequest \<Rightarrow> bool" where
  "BeginLoginRequest_ok v \<longleftrightarrow> text_ok (BeginLoginRequest_Domain v)"

lemma BeginLoginRequest_undone: "BeginLoginRequest_ok v \<Longrightarrow> csilDecBeginLoginRequest (received (csilEncBeginLoginRequest v)) = Inr v"
  by (cases v) (simp add: csilEncBeginLoginRequest_def csilDecBeginLoginRequest_def BeginLoginRequest_ok_def codec)

lemma BeginLoginRequest_sound: "BeginLoginRequest_ok v \<Longrightarrow> sendable 1 (csilEncBeginLoginRequest v)"
  unfolding csilEncBeginLoginRequest_def BeginLoginRequest_ok_def by (rule sendable_map) (simp_all add: codec)

interpretation BeginLoginRequest_message: message BeginLoginRequest_ok csilEncBeginLoginRequest csilDecBeginLoginRequest 1
  by unfold_locales (fact BeginLoginRequest_undone, fact BeginLoginRequest_sound)

record csil_BeginLoginResponse =
  BeginLoginResponse_RedirectUrl :: string

definition csilEncBeginLoginResponse :: "csil_BeginLoginResponse \<Rightarrow> csil_value" where
  "csilEncBeginLoginResponse v = pMap (concat [
     entry ''redirect_url'' (pText (BeginLoginResponse_RedirectUrl v))])"

definition csilDecBeginLoginResponse :: "csil_value \<Rightarrow> csil_error + csil_BeginLoginResponse" where
  "csilDecBeginLoginResponse r =
     bindS (required r ''redirect_url'' cborAsText) (\<lambda>RedirectUrl.
     Inr \<lparr>BeginLoginResponse_RedirectUrl = RedirectUrl\<rparr>)"

definition BeginLoginResponse_ok :: "csil_BeginLoginResponse \<Rightarrow> bool" where
  "BeginLoginResponse_ok v \<longleftrightarrow> text_ok (BeginLoginResponse_RedirectUrl v)"

lemma BeginLoginResponse_undone: "BeginLoginResponse_ok v \<Longrightarrow> csilDecBeginLoginResponse (received (csilEncBeginLoginResponse v)) = Inr v"
  by (cases v) (simp add: csilEncBeginLoginResponse_def csilDecBeginLoginResponse_def BeginLoginResponse_ok_def codec)

lemma BeginLoginResponse_sound: "BeginLoginResponse_ok v \<Longrightarrow> sendable 1 (csilEncBeginLoginResponse v)"
  unfolding csilEncBeginLoginResponse_def BeginLoginResponse_ok_def by (rule sendable_map) (simp_all add: codec)

interpretation BeginLoginResponse_message: message BeginLoginResponse_ok csilEncBeginLoginResponse csilDecBeginLoginResponse 1
  by unfold_locales (fact BeginLoginResponse_undone, fact BeginLoginResponse_sound)

definition UserKind_names :: "string list" where
  "UserKind_names = [''human'', ''system'']"

interpretation UserKind_value: message "enum_ok UserKind_names" pText "as_enum UserKind_names" 0
  by (rule enum_message)

lemmas UserKind_codec [codec] = UserKind_value.undone [simplified] UserKind_value.behind_pointer [simplified] UserKind_value.in_slice [simplified]
  UserKind_value.sent [simplified] UserKind_value.sent_behind_pointer [simplified] UserKind_value.sent_in_slice

record csil_UserProfile =
  UserProfile_Id :: string
  UserProfile_LinkkeysDomain :: string
  UserProfile_Handle :: string
  UserProfile_DisplayName :: string
  UserProfile_Kind :: string
  UserProfile_CreatedAt :: instant

definition csilEncUserProfile :: "csil_UserProfile \<Rightarrow> csil_value" where
  "csilEncUserProfile v = pMap (concat [
     entry ''id'' (pText (UserProfile_Id v)),
     entry ''kind'' (pText (UserProfile_Kind v)),
     entry ''handle'' (pText (UserProfile_Handle v)),
     entry ''created_at'' (csilEncTimestamp (UserProfile_CreatedAt v)),
     entry ''display_name'' (pText (UserProfile_DisplayName v)),
     entry ''linkkeys_domain'' (pText (UserProfile_LinkkeysDomain v))])"

definition csilDecUserProfile :: "csil_value \<Rightarrow> csil_error + csil_UserProfile" where
  "csilDecUserProfile r =
     bindS (required r ''id'' cborAsText) (\<lambda>Id.
     bindS (required r ''linkkeys_domain'' cborAsText) (\<lambda>LinkkeysDomain.
     bindS (required r ''handle'' cborAsText) (\<lambda>Handle.
     bindS (required r ''display_name'' cborAsText) (\<lambda>DisplayName.
     bindS (required r ''kind'' (as_enum UserKind_names)) (\<lambda>Kind.
     bindS (required r ''created_at'' csilAsTimestamp) (\<lambda>CreatedAt.
     Inr \<lparr>UserProfile_Id = Id, UserProfile_LinkkeysDomain = LinkkeysDomain, UserProfile_Handle = Handle, UserProfile_DisplayName = DisplayName,
       UserProfile_Kind = Kind, UserProfile_CreatedAt = CreatedAt\<rparr>))))))"

definition UserProfile_ok :: "csil_UserProfile \<Rightarrow> bool" where
  "UserProfile_ok v \<longleftrightarrow> text_ok (UserProfile_Id v) \<and> text_ok (UserProfile_LinkkeysDomain v) \<and> text_ok (UserProfile_Handle v)
    \<and> text_ok (UserProfile_DisplayName v) \<and> enum_ok UserKind_names (UserProfile_Kind v) \<and> time_ok (UserProfile_CreatedAt v)"

lemma UserProfile_undone: "UserProfile_ok v \<Longrightarrow> csilDecUserProfile (received (csilEncUserProfile v)) = Inr v"
  by (cases v) (simp add: csilEncUserProfile_def csilDecUserProfile_def UserProfile_ok_def codec)

lemma UserProfile_sound: "UserProfile_ok v \<Longrightarrow> sendable 2 (csilEncUserProfile v)"
  unfolding csilEncUserProfile_def UserProfile_ok_def by (rule sendable_map) (simp_all add: codec)

interpretation UserProfile_message: message UserProfile_ok csilEncUserProfile csilDecUserProfile 2
  by unfold_locales (fact UserProfile_undone, fact UserProfile_sound)

record csil_DevLoginRequest =
  DevLoginRequest_Handle :: string
  DevLoginRequest_Domain :: string

definition csilEncDevLoginRequest :: "csil_DevLoginRequest \<Rightarrow> csil_value" where
  "csilEncDevLoginRequest v = pMap (concat [
     entry ''domain'' (pText (DevLoginRequest_Domain v)),
     entry ''handle'' (pText (DevLoginRequest_Handle v))])"

definition csilDecDevLoginRequest :: "csil_value \<Rightarrow> csil_error + csil_DevLoginRequest" where
  "csilDecDevLoginRequest r =
     bindS (required r ''handle'' cborAsText) (\<lambda>Handle.
     bindS (required r ''domain'' cborAsText) (\<lambda>Domain.
     Inr \<lparr>DevLoginRequest_Handle = Handle, DevLoginRequest_Domain = Domain\<rparr>))"

definition DevLoginRequest_ok :: "csil_DevLoginRequest \<Rightarrow> bool" where
  "DevLoginRequest_ok v \<longleftrightarrow> text_ok (DevLoginRequest_Handle v) \<and> text_ok (DevLoginRequest_Domain v)"

lemma DevLoginRequest_undone: "DevLoginRequest_ok v \<Longrightarrow> csilDecDevLoginRequest (received (csilEncDevLoginRequest v)) = Inr v"
  by (cases v) (simp add: csilEncDevLoginRequest_def csilDecDevLoginRequest_def DevLoginRequest_ok_def codec)

lemma DevLoginRequest_sound: "DevLoginRequest_ok v \<Longrightarrow> sendable 1 (csilEncDevLoginRequest v)"
  unfolding csilEncDevLoginRequest_def DevLoginRequest_ok_def by (rule sendable_map) (simp_all add: codec)

interpretation DevLoginRequest_message: message DevLoginRequest_ok csilEncDevLoginRequest csilDecDevLoginRequest 1
  by unfold_locales (fact DevLoginRequest_undone, fact DevLoginRequest_sound)

record csil_Greeting =
  Greeting_Id :: string
  Greeting_AuthorId :: "string option"
  Greeting_AuthorHandle :: "string option"
  Greeting_Message :: string
  Greeting_CreatedAt :: instant

definition csilEncGreeting :: "csil_Greeting \<Rightarrow> csil_value" where
  "csilEncGreeting v = pMap (concat [
     entry ''id'' (pText (Greeting_Id v)),
     entry ''message'' (pText (Greeting_Message v)),
     opt_entry ''author_id'' pText (Greeting_AuthorId v),
     entry ''created_at'' (csilEncTimestamp (Greeting_CreatedAt v)),
     opt_entry ''author_handle'' pText (Greeting_AuthorHandle v)])"

definition csilDecGreeting :: "csil_value \<Rightarrow> csil_error + csil_Greeting" where
  "csilDecGreeting r =
     bindS (required r ''id'' cborAsText) (\<lambda>Id.
     bindS (optional_field r ''author_id'' cborAsText) (\<lambda>AuthorId.
     bindS (optional_field r ''author_handle'' cborAsText) (\<lambda>AuthorHandle.
     bindS (required r ''message'' cborAsText) (\<lambda>Message.
     bindS (required r ''created_at'' csilAsTimestamp) (\<lambda>CreatedAt.
     Inr \<lparr>Greeting_Id = Id, Greeting_AuthorId = AuthorId, Greeting_AuthorHandle = AuthorHandle, Greeting_Message = Message,
       Greeting_CreatedAt = CreatedAt\<rparr>)))))"

definition Greeting_ok :: "csil_Greeting \<Rightarrow> bool" where
  "Greeting_ok v \<longleftrightarrow> text_ok (Greeting_Id v) \<and> pred_option text_ok (Greeting_AuthorId v) \<and> pred_option text_ok (Greeting_AuthorHandle v)
    \<and> text_ok (Greeting_Message v) \<and> time_ok (Greeting_CreatedAt v)"

lemma Greeting_undone: "Greeting_ok v \<Longrightarrow> csilDecGreeting (received (csilEncGreeting v)) = Inr v"
  by (cases v) (simp add: csilEncGreeting_def csilDecGreeting_def Greeting_ok_def codec)

lemma Greeting_sound: "Greeting_ok v \<Longrightarrow> sendable 2 (csilEncGreeting v)"
  unfolding csilEncGreeting_def Greeting_ok_def by (rule sendable_map) (simp_all add: codec)

interpretation Greeting_message: message Greeting_ok csilEncGreeting csilDecGreeting 2
  by unfold_locales (fact Greeting_undone, fact Greeting_sound)

lemmas Greeting_codec [codec] = Greeting_message.undone Greeting_message.behind_pointer Greeting_message.in_slice
  Greeting_message.sent Greeting_message.sent_behind_pointer Greeting_message.sent_in_slice

record csil_GreetingList =
  GreetingList_Greetings :: "csil_Greeting list"

definition csilEncGreetingList :: "csil_GreetingList \<Rightarrow> csil_value" where
  "csilEncGreetingList v = pMap (concat [
     entry ''greetings'' (cborEncArray csilEncGreeting (GreetingList_Greetings v))])"

definition csilDecGreetingList :: "csil_value \<Rightarrow> csil_error + csil_GreetingList" where
  "csilDecGreetingList r =
     bindS (required r ''greetings'' (cborDecArray csilDecGreeting)) (\<lambda>Greetings.
     Inr \<lparr>GreetingList_Greetings = Greetings\<rparr>)"

definition GreetingList_ok :: "csil_GreetingList \<Rightarrow> bool" where
  "GreetingList_ok v \<longleftrightarrow> list_ok Greeting_ok (GreetingList_Greetings v)"

lemma GreetingList_undone: "GreetingList_ok v \<Longrightarrow> csilDecGreetingList (received (csilEncGreetingList v)) = Inr v"
  by (cases v) (simp add: csilEncGreetingList_def csilDecGreetingList_def GreetingList_ok_def codec)

lemma GreetingList_sound: "GreetingList_ok v \<Longrightarrow> sendable 4 (csilEncGreetingList v)"
  unfolding csilEncGreetingList_def GreetingList_ok_def by (rule sendable_map) (simp_all add: codec)

interpretation GreetingList_message: message GreetingList_ok csilEncGreetingList csilDecGreetingList 4
  by unfold_locales (fact GreetingList_undone, fact GreetingList_sound)

record csil_CreateGreetingRequest =
  CreateGreetingRequest_Message :: string

definition csilEncCreateGreetingRequest :: "csil_CreateGreetingRequest \<Rightarrow> csil_value" where
  "csilEncCreateGreetingRequest v = pMap (concat [
     entry ''message'' (pText (CreateGreetingRequest_Message v))])"

definition csilDecCreateGreetingRequest :: "csil_value \<Rightarrow> csil_error + csil_CreateGreetingRequest" where
  "csilDecCreateGreetingRequest r =
     bindS (required r ''message'' cborAsText) (\<lambda>Message.
     Inr \<lparr>CreateGreetingRequest_Message = Message\<rparr>)"

definition CreateGreetingRequest_ok :: "csil_CreateGreetingRequest \<Rightarrow> bool" where
  "CreateGreetingRequest_ok v \<longleftrightarrow> text_ok (CreateGreetingRequest_Message v)"

lemma CreateGreetingRequest_undone: "CreateGreetingRequest_ok v \<Longrightarrow> csilDecCreateGreetingRequest (received (csilEncCreateGreetingRequest v)) = Inr v"
  by (cases v) (simp add: csilEncCreateGreetingRequest_def csilDecCreateGreetingRequest_def CreateGreetingRequest_ok_def codec)

lemma CreateGreetingRequest_sound: "CreateGreetingRequest_ok v \<Longrightarrow> sendable 1 (csilEncCreateGreetingRequest v)"
  unfolding csilEncCreateGreetingRequest_def CreateGreetingRequest_ok_def by (rule sendable_map) (simp_all add: codec)

interpretation CreateGreetingRequest_message: message CreateGreetingRequest_ok csilEncCreateGreetingRequest csilDecCreateGreetingRequest 1
  by unfold_locales (fact CreateGreetingRequest_undone, fact CreateGreetingRequest_sound)

record csil_GetGreetingRequest =
  GetGreetingRequest_Id :: string

definition csilEncGetGreetingRequest :: "csil_GetGreetingRequest \<Rightarrow> csil_value" where
  "csilEncGetGreetingRequest v = pMap (concat [
     entry ''id'' (pText (GetGreetingRequest_Id v))])"

definition csilDecGetGreetingRequest :: "csil_value \<Rightarrow> csil_error + csil_GetGreetingRequest" where
  "csilDecGetGreetingRequest r =
     bindS (required r ''id'' cborAsText) (\<lambda>Id.
     Inr \<lparr>GetGreetingRequest_Id = Id\<rparr>)"

definition GetGreetingRequest_ok :: "csil_GetGreetingRequest \<Rightarrow> bool" where
  "GetGreetingRequest_ok v \<longleftrightarrow> text_ok (GetGreetingRequest_Id v)"

lemma GetGreetingRequest_undone: "GetGreetingRequest_ok v \<Longrightarrow> csilDecGetGreetingRequest (received (csilEncGetGreetingRequest v)) = Inr v"
  by (cases v) (simp add: csilEncGetGreetingRequest_def csilDecGetGreetingRequest_def GetGreetingRequest_ok_def codec)

lemma GetGreetingRequest_sound: "GetGreetingRequest_ok v \<Longrightarrow> sendable 1 (csilEncGetGreetingRequest v)"
  unfolding csilEncGetGreetingRequest_def GetGreetingRequest_ok_def by (rule sendable_map) (simp_all add: codec)

interpretation GetGreetingRequest_message: message GetGreetingRequest_ok csilEncGetGreetingRequest csilDecGetGreetingRequest 1
  by unfold_locales (fact GetGreetingRequest_undone, fact GetGreetingRequest_sound)

end
