(* ===== verification/CodecEvents.thy ===== *)
theory CodecEvents
  imports CodecCommon
begin

text \<open>
  The messages of \<open>csil/codec.gen.go\<close> and \<open>csil/types.gen.go\<close>: events, attendance and roles.  A struct is a record, its
  encoder the entries in the order of the wire, its decoder the fields in the order of the schema; each
  is an interpretation of the contract \<open>message\<close> with the deepest nesting it can have.
\<close>

record csil_Location =
  Location_Name :: string
  Location_Address :: string
  Location_Locality :: string
  Location_Region :: string
  Location_PostalCode :: string
  Location_Country :: string
  Location_Latitude :: "float64 option"
  Location_Longitude :: "float64 option"

definition csilEncLocation :: "csil_Location \<Rightarrow> csil_value" where
  "csilEncLocation v = pMap (concat [
     entry ''name'' (pText (Location_Name v)),
     entry ''region'' (pText (Location_Region v)),
     entry ''address'' (pText (Location_Address v)),
     entry ''country'' (pText (Location_Country v)),
     opt_entry ''latitude'' pFloat (Location_Latitude v),
     entry ''locality'' (pText (Location_Locality v)),
     opt_entry ''longitude'' pFloat (Location_Longitude v),
     entry ''postal_code'' (pText (Location_PostalCode v))])"

definition csilDecLocation :: "csil_value \<Rightarrow> csil_error + csil_Location" where
  "csilDecLocation r =
     bindS (required r ''name'' cborAsText) (\<lambda>Name.
     bindS (required r ''address'' cborAsText) (\<lambda>Address.
     bindS (required r ''locality'' cborAsText) (\<lambda>Locality.
     bindS (required r ''region'' cborAsText) (\<lambda>Region.
     bindS (required r ''postal_code'' cborAsText) (\<lambda>PostalCode.
     bindS (required r ''country'' cborAsText) (\<lambda>Country.
     bindS (optional_field r ''latitude'' cborAsF64) (\<lambda>Latitude.
     bindS (optional_field r ''longitude'' cborAsF64) (\<lambda>Longitude.
     Inr \<lparr>Location_Name = Name, Location_Address = Address, Location_Locality = Locality, Location_Region = Region,
       Location_PostalCode = PostalCode, Location_Country = Country, Location_Latitude = Latitude, Location_Longitude = Longitude\<rparr>))))))))"

definition Location_ok :: "csil_Location \<Rightarrow> bool" where
  "Location_ok v \<longleftrightarrow> text_ok (Location_Name v) \<and> text_ok (Location_Address v) \<and> text_ok (Location_Locality v)
    \<and> text_ok (Location_Region v) \<and> text_ok (Location_PostalCode v) \<and> text_ok (Location_Country v)"

lemma Location_undone: "Location_ok v \<Longrightarrow> csilDecLocation (received (csilEncLocation v)) = Inr v"
  by (cases v) (simp add: csilEncLocation_def csilDecLocation_def Location_ok_def codec)

lemma Location_sound: "Location_ok v \<Longrightarrow> sendable 1 (csilEncLocation v)"
  unfolding csilEncLocation_def Location_ok_def by (rule sendable_map) (simp_all add: codec)

interpretation Location_message: message Location_ok csilEncLocation csilDecLocation 1
  by unfold_locales (fact Location_undone, fact Location_sound)

lemmas Location_codec [codec] = Location_message.undone Location_message.behind_pointer Location_message.in_slice
  Location_message.sent Location_message.sent_behind_pointer Location_message.sent_in_slice

record csil_Event =
  Event_Id :: string
  Event_GatheringId :: string
  Event_SeriesId :: "string option"
  Event_Title :: string
  Event_Description :: "string option"
  Event_IsOnline :: bool
  Event_IsInPerson :: bool
  Event_OnlineUrl :: "string option"
  Event_Location :: "csil_Location option"
  Event_StartsAt :: instant
  Event_EndsAt :: instant
  Event_Timezone :: string
  Event_Locked :: bool
  Event_AttendeeCount :: "64 word"
  Event_ViewerAttending :: bool
  Event_Origin :: csil_Origin
  Event_Viewer :: csil_ViewerContext
  Event_CreatedAt :: instant
  Event_UpdatedAt :: instant

definition csilEncEvent :: "csil_Event \<Rightarrow> csil_value" where
  "csilEncEvent v = pMap (concat [
     entry ''id'' (pText (Event_Id v)),
     entry ''title'' (pText (Event_Title v)),
     entry ''locked'' (pBool (Event_Locked v)),
     entry ''origin'' (csilEncOrigin (Event_Origin v)),
     entry ''viewer'' (csilEncViewerContext (Event_Viewer v)),
     entry ''ends_at'' (csilEncTimestamp (Event_EndsAt v)),
     opt_entry ''location'' csilEncLocation (Event_Location v),
     entry ''timezone'' (pText (Event_Timezone v)),
     entry ''is_online'' (pBool (Event_IsOnline v)),
     opt_entry ''series_id'' pText (Event_SeriesId v),
     entry ''starts_at'' (csilEncTimestamp (Event_StartsAt v)),
     entry ''created_at'' (csilEncTimestamp (Event_CreatedAt v)),
     opt_entry ''online_url'' pText (Event_OnlineUrl v),
     entry ''updated_at'' (csilEncTimestamp (Event_UpdatedAt v)),
     opt_entry ''description'' pText (Event_Description v),
     entry ''gathering_id'' (pText (Event_GatheringId v)),
     entry ''is_in_person'' (pBool (Event_IsInPerson v)),
     entry ''attendee_count'' (pUint (Event_AttendeeCount v)),
     entry ''viewer_attending'' (pBool (Event_ViewerAttending v))])"

definition csilDecEvent :: "csil_value \<Rightarrow> csil_error + csil_Event" where
  "csilDecEvent r =
     bindS (required r ''id'' cborAsText) (\<lambda>Id.
     bindS (required r ''gathering_id'' cborAsText) (\<lambda>GatheringId.
     bindS (optional_field r ''series_id'' cborAsText) (\<lambda>SeriesId.
     bindS (required r ''title'' cborAsText) (\<lambda>Title.
     bindS (optional_field r ''description'' cborAsText) (\<lambda>Description.
     bindS (required r ''is_online'' cborAsBool) (\<lambda>IsOnline.
     bindS (required r ''is_in_person'' cborAsBool) (\<lambda>IsInPerson.
     bindS (optional_field r ''online_url'' cborAsText) (\<lambda>OnlineUrl.
     bindS (optional_field r ''location'' csilDecLocation) (\<lambda>Location.
     bindS (required r ''starts_at'' csilAsTimestamp) (\<lambda>StartsAt.
     bindS (required r ''ends_at'' csilAsTimestamp) (\<lambda>EndsAt.
     bindS (required r ''timezone'' cborAsText) (\<lambda>Timezone.
     bindS (required r ''locked'' cborAsBool) (\<lambda>Locked.
     bindS (required r ''attendee_count'' cborAsU64) (\<lambda>AttendeeCount.
     bindS (required r ''viewer_attending'' cborAsBool) (\<lambda>ViewerAttending.
     bindS (required r ''origin'' csilDecOrigin) (\<lambda>Origin.
     bindS (required r ''viewer'' csilDecViewerContext) (\<lambda>Viewer.
     bindS (required r ''created_at'' csilAsTimestamp) (\<lambda>CreatedAt.
     bindS (required r ''updated_at'' csilAsTimestamp) (\<lambda>UpdatedAt.
     Inr \<lparr>Event_Id = Id, Event_GatheringId = GatheringId, Event_SeriesId = SeriesId, Event_Title = Title,
       Event_Description = Description, Event_IsOnline = IsOnline, Event_IsInPerson = IsInPerson, Event_OnlineUrl = OnlineUrl,
       Event_Location = Location, Event_StartsAt = StartsAt, Event_EndsAt = EndsAt, Event_Timezone = Timezone,
       Event_Locked = Locked, Event_AttendeeCount = AttendeeCount, Event_ViewerAttending = ViewerAttending, Event_Origin = Origin,
       Event_Viewer = Viewer, Event_CreatedAt = CreatedAt, Event_UpdatedAt = UpdatedAt\<rparr>)))))))))))))))))))"

definition Event_ok :: "csil_Event \<Rightarrow> bool" where
  "Event_ok v \<longleftrightarrow> text_ok (Event_Id v) \<and> text_ok (Event_GatheringId v) \<and> pred_option text_ok (Event_SeriesId v)
    \<and> text_ok (Event_Title v) \<and> pred_option text_ok (Event_Description v) \<and> pred_option text_ok (Event_OnlineUrl v)
    \<and> pred_option Location_ok (Event_Location v) \<and> time_ok (Event_StartsAt v) \<and> time_ok (Event_EndsAt v)
    \<and> text_ok (Event_Timezone v) \<and> Origin_ok (Event_Origin v) \<and> ViewerContext_ok (Event_Viewer v)
    \<and> time_ok (Event_CreatedAt v) \<and> time_ok (Event_UpdatedAt v)"

lemma Event_undone: "Event_ok v \<Longrightarrow> csilDecEvent (received (csilEncEvent v)) = Inr v"
  by (cases v) (simp add: csilEncEvent_def csilDecEvent_def Event_ok_def codec)

lemma Event_sound: "Event_ok v \<Longrightarrow> sendable 2 (csilEncEvent v)"
  unfolding csilEncEvent_def Event_ok_def by (rule sendable_map) (simp_all add: codec)

interpretation Event_message: message Event_ok csilEncEvent csilDecEvent 2
  by unfold_locales (fact Event_undone, fact Event_sound)

lemmas Event_codec [codec] = Event_message.undone Event_message.behind_pointer Event_message.in_slice
  Event_message.sent Event_message.sent_behind_pointer Event_message.sent_in_slice

definition EventRole_names :: "string list" where
  "EventRole_names = [''organizer'', ''presenter'']"

interpretation EventRole_value: message "enum_ok EventRole_names" pText "as_enum EventRole_names" 0
  by (rule enum_message)

lemmas EventRole_codec [codec] = EventRole_value.undone [simplified] EventRole_value.behind_pointer [simplified] EventRole_value.in_slice [simplified]
  EventRole_value.sent [simplified] EventRole_value.sent_behind_pointer [simplified] EventRole_value.sent_in_slice

record csil_EventRoleAssignment =
  EventRoleAssignment_EventId :: "string option"
  EventRoleAssignment_SeriesId :: "string option"
  EventRoleAssignment_UserId :: string
  EventRoleAssignment_Handle :: string
  EventRoleAssignment_LinkkeysDomain :: string
  EventRoleAssignment_DisplayName :: string
  EventRoleAssignment_Role :: string
  EventRoleAssignment_AssignedAt :: instant

definition csilEncEventRoleAssignment :: "csil_EventRoleAssignment \<Rightarrow> csil_value" where
  "csilEncEventRoleAssignment v = pMap (concat [
     entry ''role'' (pText (EventRoleAssignment_Role v)),
     entry ''handle'' (pText (EventRoleAssignment_Handle v)),
     entry ''user_id'' (pText (EventRoleAssignment_UserId v)),
     opt_entry ''event_id'' pText (EventRoleAssignment_EventId v),
     opt_entry ''series_id'' pText (EventRoleAssignment_SeriesId v),
     entry ''assigned_at'' (csilEncTimestamp (EventRoleAssignment_AssignedAt v)),
     entry ''display_name'' (pText (EventRoleAssignment_DisplayName v)),
     entry ''linkkeys_domain'' (pText (EventRoleAssignment_LinkkeysDomain v))])"

definition csilDecEventRoleAssignment :: "csil_value \<Rightarrow> csil_error + csil_EventRoleAssignment" where
  "csilDecEventRoleAssignment r =
     bindS (optional_field r ''event_id'' cborAsText) (\<lambda>EventId.
     bindS (optional_field r ''series_id'' cborAsText) (\<lambda>SeriesId.
     bindS (required r ''user_id'' cborAsText) (\<lambda>UserId.
     bindS (required r ''handle'' cborAsText) (\<lambda>Handle.
     bindS (required r ''linkkeys_domain'' cborAsText) (\<lambda>LinkkeysDomain.
     bindS (required r ''display_name'' cborAsText) (\<lambda>DisplayName.
     bindS (required r ''role'' (as_enum EventRole_names)) (\<lambda>Role.
     bindS (required r ''assigned_at'' csilAsTimestamp) (\<lambda>AssignedAt.
     Inr \<lparr>EventRoleAssignment_EventId = EventId, EventRoleAssignment_SeriesId = SeriesId, EventRoleAssignment_UserId = UserId, EventRoleAssignment_Handle = Handle,
       EventRoleAssignment_LinkkeysDomain = LinkkeysDomain, EventRoleAssignment_DisplayName = DisplayName, EventRoleAssignment_Role = Role, EventRoleAssignment_AssignedAt = AssignedAt\<rparr>))))))))"

definition EventRoleAssignment_ok :: "csil_EventRoleAssignment \<Rightarrow> bool" where
  "EventRoleAssignment_ok v \<longleftrightarrow> pred_option text_ok (EventRoleAssignment_EventId v) \<and> pred_option text_ok (EventRoleAssignment_SeriesId v) \<and> text_ok (EventRoleAssignment_UserId v)
    \<and> text_ok (EventRoleAssignment_Handle v) \<and> text_ok (EventRoleAssignment_LinkkeysDomain v) \<and> text_ok (EventRoleAssignment_DisplayName v)
    \<and> enum_ok EventRole_names (EventRoleAssignment_Role v) \<and> time_ok (EventRoleAssignment_AssignedAt v)"

lemma EventRoleAssignment_undone: "EventRoleAssignment_ok v \<Longrightarrow> csilDecEventRoleAssignment (received (csilEncEventRoleAssignment v)) = Inr v"
  by (cases v) (simp add: csilEncEventRoleAssignment_def csilDecEventRoleAssignment_def EventRoleAssignment_ok_def codec)

lemma EventRoleAssignment_sound: "EventRoleAssignment_ok v \<Longrightarrow> sendable 2 (csilEncEventRoleAssignment v)"
  unfolding csilEncEventRoleAssignment_def EventRoleAssignment_ok_def by (rule sendable_map) (simp_all add: codec)

interpretation EventRoleAssignment_message: message EventRoleAssignment_ok csilEncEventRoleAssignment csilDecEventRoleAssignment 2
  by unfold_locales (fact EventRoleAssignment_undone, fact EventRoleAssignment_sound)

lemmas EventRoleAssignment_codec [codec] = EventRoleAssignment_message.undone EventRoleAssignment_message.behind_pointer EventRoleAssignment_message.in_slice
  EventRoleAssignment_message.sent EventRoleAssignment_message.sent_behind_pointer EventRoleAssignment_message.sent_in_slice

record csil_Attendee =
  Attendee_UserId :: string
  Attendee_Handle :: string
  Attendee_LinkkeysDomain :: string
  Attendee_DisplayName :: string
  Attendee_MarkedAt :: instant

definition csilEncAttendee :: "csil_Attendee \<Rightarrow> csil_value" where
  "csilEncAttendee v = pMap (concat [
     entry ''handle'' (pText (Attendee_Handle v)),
     entry ''user_id'' (pText (Attendee_UserId v)),
     entry ''marked_at'' (csilEncTimestamp (Attendee_MarkedAt v)),
     entry ''display_name'' (pText (Attendee_DisplayName v)),
     entry ''linkkeys_domain'' (pText (Attendee_LinkkeysDomain v))])"

definition csilDecAttendee :: "csil_value \<Rightarrow> csil_error + csil_Attendee" where
  "csilDecAttendee r =
     bindS (required r ''user_id'' cborAsText) (\<lambda>UserId.
     bindS (required r ''handle'' cborAsText) (\<lambda>Handle.
     bindS (required r ''linkkeys_domain'' cborAsText) (\<lambda>LinkkeysDomain.
     bindS (required r ''display_name'' cborAsText) (\<lambda>DisplayName.
     bindS (required r ''marked_at'' csilAsTimestamp) (\<lambda>MarkedAt.
     Inr \<lparr>Attendee_UserId = UserId, Attendee_Handle = Handle, Attendee_LinkkeysDomain = LinkkeysDomain, Attendee_DisplayName = DisplayName,
       Attendee_MarkedAt = MarkedAt\<rparr>)))))"

definition Attendee_ok :: "csil_Attendee \<Rightarrow> bool" where
  "Attendee_ok v \<longleftrightarrow> text_ok (Attendee_UserId v) \<and> text_ok (Attendee_Handle v) \<and> text_ok (Attendee_LinkkeysDomain v)
    \<and> text_ok (Attendee_DisplayName v) \<and> time_ok (Attendee_MarkedAt v)"

lemma Attendee_undone: "Attendee_ok v \<Longrightarrow> csilDecAttendee (received (csilEncAttendee v)) = Inr v"
  by (cases v) (simp add: csilEncAttendee_def csilDecAttendee_def Attendee_ok_def codec)

lemma Attendee_sound: "Attendee_ok v \<Longrightarrow> sendable 2 (csilEncAttendee v)"
  unfolding csilEncAttendee_def Attendee_ok_def by (rule sendable_map) (simp_all add: codec)

interpretation Attendee_message: message Attendee_ok csilEncAttendee csilDecAttendee 2
  by unfold_locales (fact Attendee_undone, fact Attendee_sound)

lemmas Attendee_codec [codec] = Attendee_message.undone Attendee_message.behind_pointer Attendee_message.in_slice
  Attendee_message.sent Attendee_message.sent_behind_pointer Attendee_message.sent_in_slice

record csil_CreateEventRequest =
  CreateEventRequest_GatheringId :: string
  CreateEventRequest_Title :: string
  CreateEventRequest_Description :: string
  CreateEventRequest_IsOnline :: bool
  CreateEventRequest_IsInPerson :: bool
  CreateEventRequest_OnlineUrl :: "string option"
  CreateEventRequest_Location :: "csil_Location option"
  CreateEventRequest_StartsAt :: instant
  CreateEventRequest_EndsAt :: instant
  CreateEventRequest_Timezone :: string

definition csilEncCreateEventRequest :: "csil_CreateEventRequest \<Rightarrow> csil_value" where
  "csilEncCreateEventRequest v = pMap (concat [
     entry ''title'' (pText (CreateEventRequest_Title v)),
     entry ''ends_at'' (csilEncTimestamp (CreateEventRequest_EndsAt v)),
     opt_entry ''location'' csilEncLocation (CreateEventRequest_Location v),
     entry ''timezone'' (pText (CreateEventRequest_Timezone v)),
     entry ''is_online'' (pBool (CreateEventRequest_IsOnline v)),
     entry ''starts_at'' (csilEncTimestamp (CreateEventRequest_StartsAt v)),
     opt_entry ''online_url'' pText (CreateEventRequest_OnlineUrl v),
     entry ''description'' (pText (CreateEventRequest_Description v)),
     entry ''gathering_id'' (pText (CreateEventRequest_GatheringId v)),
     entry ''is_in_person'' (pBool (CreateEventRequest_IsInPerson v))])"

definition csilDecCreateEventRequest :: "csil_value \<Rightarrow> csil_error + csil_CreateEventRequest" where
  "csilDecCreateEventRequest r =
     bindS (required r ''gathering_id'' cborAsText) (\<lambda>GatheringId.
     bindS (required r ''title'' cborAsText) (\<lambda>Title.
     bindS (required r ''description'' cborAsText) (\<lambda>Description.
     bindS (required r ''is_online'' cborAsBool) (\<lambda>IsOnline.
     bindS (required r ''is_in_person'' cborAsBool) (\<lambda>IsInPerson.
     bindS (optional_field r ''online_url'' cborAsText) (\<lambda>OnlineUrl.
     bindS (optional_field r ''location'' csilDecLocation) (\<lambda>Location.
     bindS (required r ''starts_at'' csilAsTimestamp) (\<lambda>StartsAt.
     bindS (required r ''ends_at'' csilAsTimestamp) (\<lambda>EndsAt.
     bindS (required r ''timezone'' cborAsText) (\<lambda>Timezone.
     Inr \<lparr>CreateEventRequest_GatheringId = GatheringId, CreateEventRequest_Title = Title, CreateEventRequest_Description = Description, CreateEventRequest_IsOnline = IsOnline,
       CreateEventRequest_IsInPerson = IsInPerson, CreateEventRequest_OnlineUrl = OnlineUrl, CreateEventRequest_Location = Location, CreateEventRequest_StartsAt = StartsAt,
       CreateEventRequest_EndsAt = EndsAt, CreateEventRequest_Timezone = Timezone\<rparr>))))))))))"

definition CreateEventRequest_ok :: "csil_CreateEventRequest \<Rightarrow> bool" where
  "CreateEventRequest_ok v \<longleftrightarrow> text_ok (CreateEventRequest_GatheringId v) \<and> text_ok (CreateEventRequest_Title v) \<and> text_ok (CreateEventRequest_Description v)
    \<and> pred_option text_ok (CreateEventRequest_OnlineUrl v) \<and> pred_option Location_ok (CreateEventRequest_Location v) \<and> time_ok (CreateEventRequest_StartsAt v)
    \<and> time_ok (CreateEventRequest_EndsAt v) \<and> text_ok (CreateEventRequest_Timezone v)"

lemma CreateEventRequest_undone: "CreateEventRequest_ok v \<Longrightarrow> csilDecCreateEventRequest (received (csilEncCreateEventRequest v)) = Inr v"
  by (cases v) (simp add: csilEncCreateEventRequest_def csilDecCreateEventRequest_def CreateEventRequest_ok_def codec)

lemma CreateEventRequest_sound: "CreateEventRequest_ok v \<Longrightarrow> sendable 2 (csilEncCreateEventRequest v)"
  unfolding csilEncCreateEventRequest_def CreateEventRequest_ok_def by (rule sendable_map) (simp_all add: codec)

interpretation CreateEventRequest_message: message CreateEventRequest_ok csilEncCreateEventRequest csilDecCreateEventRequest 2
  by unfold_locales (fact CreateEventRequest_undone, fact CreateEventRequest_sound)

record csil_UpdateEventRequest =
  UpdateEventRequest_Id :: string
  UpdateEventRequest_Title :: "string option"
  UpdateEventRequest_Description :: "string option"
  UpdateEventRequest_IsOnline :: "bool option"
  UpdateEventRequest_IsInPerson :: "bool option"
  UpdateEventRequest_OnlineUrl :: "string option"
  UpdateEventRequest_Location :: "csil_Location option"
  UpdateEventRequest_StartsAt :: "instant option"
  UpdateEventRequest_EndsAt :: "instant option"
  UpdateEventRequest_Timezone :: "string option"

definition csilEncUpdateEventRequest :: "csil_UpdateEventRequest \<Rightarrow> csil_value" where
  "csilEncUpdateEventRequest v = pMap (concat [
     entry ''id'' (pText (UpdateEventRequest_Id v)),
     opt_entry ''title'' pText (UpdateEventRequest_Title v),
     opt_entry ''ends_at'' csilEncTimestamp (UpdateEventRequest_EndsAt v),
     opt_entry ''location'' csilEncLocation (UpdateEventRequest_Location v),
     opt_entry ''timezone'' pText (UpdateEventRequest_Timezone v),
     opt_entry ''is_online'' pBool (UpdateEventRequest_IsOnline v),
     opt_entry ''starts_at'' csilEncTimestamp (UpdateEventRequest_StartsAt v),
     opt_entry ''online_url'' pText (UpdateEventRequest_OnlineUrl v),
     opt_entry ''description'' pText (UpdateEventRequest_Description v),
     opt_entry ''is_in_person'' pBool (UpdateEventRequest_IsInPerson v)])"

definition csilDecUpdateEventRequest :: "csil_value \<Rightarrow> csil_error + csil_UpdateEventRequest" where
  "csilDecUpdateEventRequest r =
     bindS (required r ''id'' cborAsText) (\<lambda>Id.
     bindS (optional_field r ''title'' cborAsText) (\<lambda>Title.
     bindS (optional_field r ''description'' cborAsText) (\<lambda>Description.
     bindS (optional_field r ''is_online'' cborAsBool) (\<lambda>IsOnline.
     bindS (optional_field r ''is_in_person'' cborAsBool) (\<lambda>IsInPerson.
     bindS (optional_field r ''online_url'' cborAsText) (\<lambda>OnlineUrl.
     bindS (optional_field r ''location'' csilDecLocation) (\<lambda>Location.
     bindS (optional_field r ''starts_at'' csilAsTimestamp) (\<lambda>StartsAt.
     bindS (optional_field r ''ends_at'' csilAsTimestamp) (\<lambda>EndsAt.
     bindS (optional_field r ''timezone'' cborAsText) (\<lambda>Timezone.
     Inr \<lparr>UpdateEventRequest_Id = Id, UpdateEventRequest_Title = Title, UpdateEventRequest_Description = Description, UpdateEventRequest_IsOnline = IsOnline,
       UpdateEventRequest_IsInPerson = IsInPerson, UpdateEventRequest_OnlineUrl = OnlineUrl, UpdateEventRequest_Location = Location, UpdateEventRequest_StartsAt = StartsAt,
       UpdateEventRequest_EndsAt = EndsAt, UpdateEventRequest_Timezone = Timezone\<rparr>))))))))))"

definition UpdateEventRequest_ok :: "csil_UpdateEventRequest \<Rightarrow> bool" where
  "UpdateEventRequest_ok v \<longleftrightarrow> text_ok (UpdateEventRequest_Id v) \<and> pred_option text_ok (UpdateEventRequest_Title v) \<and> pred_option text_ok (UpdateEventRequest_Description v)
    \<and> pred_option text_ok (UpdateEventRequest_OnlineUrl v) \<and> pred_option Location_ok (UpdateEventRequest_Location v) \<and> pred_option time_ok (UpdateEventRequest_StartsAt v)
    \<and> pred_option time_ok (UpdateEventRequest_EndsAt v) \<and> pred_option text_ok (UpdateEventRequest_Timezone v)"

lemma UpdateEventRequest_undone: "UpdateEventRequest_ok v \<Longrightarrow> csilDecUpdateEventRequest (received (csilEncUpdateEventRequest v)) = Inr v"
  by (cases v) (simp add: csilEncUpdateEventRequest_def csilDecUpdateEventRequest_def UpdateEventRequest_ok_def codec)

lemma UpdateEventRequest_sound: "UpdateEventRequest_ok v \<Longrightarrow> sendable 2 (csilEncUpdateEventRequest v)"
  unfolding csilEncUpdateEventRequest_def UpdateEventRequest_ok_def by (rule sendable_map) (simp_all add: codec)

interpretation UpdateEventRequest_message: message UpdateEventRequest_ok csilEncUpdateEventRequest csilDecUpdateEventRequest 2
  by unfold_locales (fact UpdateEventRequest_undone, fact UpdateEventRequest_sound)

record csil_GetEventRequest =
  GetEventRequest_Id :: string

definition csilEncGetEventRequest :: "csil_GetEventRequest \<Rightarrow> csil_value" where
  "csilEncGetEventRequest v = pMap (concat [
     entry ''id'' (pText (GetEventRequest_Id v))])"

definition csilDecGetEventRequest :: "csil_value \<Rightarrow> csil_error + csil_GetEventRequest" where
  "csilDecGetEventRequest r =
     bindS (required r ''id'' cborAsText) (\<lambda>Id.
     Inr \<lparr>GetEventRequest_Id = Id\<rparr>)"

definition GetEventRequest_ok :: "csil_GetEventRequest \<Rightarrow> bool" where
  "GetEventRequest_ok v \<longleftrightarrow> text_ok (GetEventRequest_Id v)"

lemma GetEventRequest_undone: "GetEventRequest_ok v \<Longrightarrow> csilDecGetEventRequest (received (csilEncGetEventRequest v)) = Inr v"
  by (cases v) (simp add: csilEncGetEventRequest_def csilDecGetEventRequest_def GetEventRequest_ok_def codec)

lemma GetEventRequest_sound: "GetEventRequest_ok v \<Longrightarrow> sendable 1 (csilEncGetEventRequest v)"
  unfolding csilEncGetEventRequest_def GetEventRequest_ok_def by (rule sendable_map) (simp_all add: codec)

interpretation GetEventRequest_message: message GetEventRequest_ok csilEncGetEventRequest csilDecGetEventRequest 1
  by unfold_locales (fact GetEventRequest_undone, fact GetEventRequest_sound)

record csil_DeleteEventRequest =
  DeleteEventRequest_Id :: string

definition csilEncDeleteEventRequest :: "csil_DeleteEventRequest \<Rightarrow> csil_value" where
  "csilEncDeleteEventRequest v = pMap (concat [
     entry ''id'' (pText (DeleteEventRequest_Id v))])"

definition csilDecDeleteEventRequest :: "csil_value \<Rightarrow> csil_error + csil_DeleteEventRequest" where
  "csilDecDeleteEventRequest r =
     bindS (required r ''id'' cborAsText) (\<lambda>Id.
     Inr \<lparr>DeleteEventRequest_Id = Id\<rparr>)"

definition DeleteEventRequest_ok :: "csil_DeleteEventRequest \<Rightarrow> bool" where
  "DeleteEventRequest_ok v \<longleftrightarrow> text_ok (DeleteEventRequest_Id v)"

lemma DeleteEventRequest_undone: "DeleteEventRequest_ok v \<Longrightarrow> csilDecDeleteEventRequest (received (csilEncDeleteEventRequest v)) = Inr v"
  by (cases v) (simp add: csilEncDeleteEventRequest_def csilDecDeleteEventRequest_def DeleteEventRequest_ok_def codec)

lemma DeleteEventRequest_sound: "DeleteEventRequest_ok v \<Longrightarrow> sendable 1 (csilEncDeleteEventRequest v)"
  unfolding csilEncDeleteEventRequest_def DeleteEventRequest_ok_def by (rule sendable_map) (simp_all add: codec)

interpretation DeleteEventRequest_message: message DeleteEventRequest_ok csilEncDeleteEventRequest csilDecDeleteEventRequest 1
  by unfold_locales (fact DeleteEventRequest_undone, fact DeleteEventRequest_sound)

record csil_ListEventsRequest =
  ListEventsRequest_GatheringId :: "string option"
  ListEventsRequest_OwnedByOrganization :: "string option"
  ListEventsRequest_Mine :: "bool option"
  ListEventsRequest_StartsAfter :: "instant option"
  ListEventsRequest_StartsBefore :: "instant option"
  ListEventsRequest_AttendingOnly :: "bool option"
  ListEventsRequest_IncludeStarted :: "bool option"
  ListEventsRequest_Page :: "csil_Page option"

definition csilEncListEventsRequest :: "csil_ListEventsRequest \<Rightarrow> csil_value" where
  "csilEncListEventsRequest v = pMap (concat [
     opt_entry ''mine'' pBool (ListEventsRequest_Mine v),
     opt_entry ''page'' csilEncPage (ListEventsRequest_Page v),
     opt_entry ''gathering_id'' pText (ListEventsRequest_GatheringId v),
     opt_entry ''starts_after'' csilEncTimestamp (ListEventsRequest_StartsAfter v),
     opt_entry ''starts_before'' csilEncTimestamp (ListEventsRequest_StartsBefore v),
     opt_entry ''attending_only'' pBool (ListEventsRequest_AttendingOnly v),
     opt_entry ''include_started'' pBool (ListEventsRequest_IncludeStarted v),
     opt_entry ''owned_by_organization'' pText (ListEventsRequest_OwnedByOrganization v)])"

definition csilDecListEventsRequest :: "csil_value \<Rightarrow> csil_error + csil_ListEventsRequest" where
  "csilDecListEventsRequest r =
     bindS (optional_field r ''gathering_id'' cborAsText) (\<lambda>GatheringId.
     bindS (optional_field r ''owned_by_organization'' cborAsText) (\<lambda>OwnedByOrganization.
     bindS (optional_field r ''mine'' cborAsBool) (\<lambda>Mine.
     bindS (optional_field r ''starts_after'' csilAsTimestamp) (\<lambda>StartsAfter.
     bindS (optional_field r ''starts_before'' csilAsTimestamp) (\<lambda>StartsBefore.
     bindS (optional_field r ''attending_only'' cborAsBool) (\<lambda>AttendingOnly.
     bindS (optional_field r ''include_started'' cborAsBool) (\<lambda>IncludeStarted.
     bindS (optional_field r ''page'' csilDecPage) (\<lambda>Page.
     Inr \<lparr>ListEventsRequest_GatheringId = GatheringId, ListEventsRequest_OwnedByOrganization = OwnedByOrganization, ListEventsRequest_Mine = Mine, ListEventsRequest_StartsAfter = StartsAfter,
       ListEventsRequest_StartsBefore = StartsBefore, ListEventsRequest_AttendingOnly = AttendingOnly, ListEventsRequest_IncludeStarted = IncludeStarted, ListEventsRequest_Page = Page\<rparr>))))))))"

definition ListEventsRequest_ok :: "csil_ListEventsRequest \<Rightarrow> bool" where
  "ListEventsRequest_ok v \<longleftrightarrow> pred_option text_ok (ListEventsRequest_GatheringId v) \<and> pred_option text_ok (ListEventsRequest_OwnedByOrganization v) \<and> pred_option time_ok (ListEventsRequest_StartsAfter v)
    \<and> pred_option time_ok (ListEventsRequest_StartsBefore v) \<and> pred_option Page_ok (ListEventsRequest_Page v)"

lemma ListEventsRequest_undone: "ListEventsRequest_ok v \<Longrightarrow> csilDecListEventsRequest (received (csilEncListEventsRequest v)) = Inr v"
  by (cases v) (simp add: csilEncListEventsRequest_def csilDecListEventsRequest_def ListEventsRequest_ok_def codec)

lemma ListEventsRequest_sound: "ListEventsRequest_ok v \<Longrightarrow> sendable 2 (csilEncListEventsRequest v)"
  unfolding csilEncListEventsRequest_def ListEventsRequest_ok_def by (rule sendable_map) (simp_all add: codec)

interpretation ListEventsRequest_message: message ListEventsRequest_ok csilEncListEventsRequest csilDecListEventsRequest 2
  by unfold_locales (fact ListEventsRequest_undone, fact ListEventsRequest_sound)

record csil_EventList =
  EventList_Events :: "csil_Event list"
  EventList_Total :: "64 word"

definition csilEncEventList :: "csil_EventList \<Rightarrow> csil_value" where
  "csilEncEventList v = pMap (concat [
     entry ''total'' (pUint (EventList_Total v)),
     entry ''events'' (cborEncArray csilEncEvent (EventList_Events v))])"

definition csilDecEventList :: "csil_value \<Rightarrow> csil_error + csil_EventList" where
  "csilDecEventList r =
     bindS (required r ''events'' (cborDecArray csilDecEvent)) (\<lambda>Events.
     bindS (required r ''total'' cborAsU64) (\<lambda>Total.
     Inr \<lparr>EventList_Events = Events, EventList_Total = Total\<rparr>))"

definition EventList_ok :: "csil_EventList \<Rightarrow> bool" where
  "EventList_ok v \<longleftrightarrow> list_ok Event_ok (EventList_Events v)"

lemma EventList_undone: "EventList_ok v \<Longrightarrow> csilDecEventList (received (csilEncEventList v)) = Inr v"
  by (cases v) (simp add: csilEncEventList_def csilDecEventList_def EventList_ok_def codec)

lemma EventList_sound: "EventList_ok v \<Longrightarrow> sendable 4 (csilEncEventList v)"
  unfolding csilEncEventList_def EventList_ok_def by (rule sendable_map) (simp_all add: codec)

interpretation EventList_message: message EventList_ok csilEncEventList csilDecEventList 4
  by unfold_locales (fact EventList_undone, fact EventList_sound)

record csil_AttendEventRequest =
  AttendEventRequest_EventId :: string

definition csilEncAttendEventRequest :: "csil_AttendEventRequest \<Rightarrow> csil_value" where
  "csilEncAttendEventRequest v = pMap (concat [
     entry ''event_id'' (pText (AttendEventRequest_EventId v))])"

definition csilDecAttendEventRequest :: "csil_value \<Rightarrow> csil_error + csil_AttendEventRequest" where
  "csilDecAttendEventRequest r =
     bindS (required r ''event_id'' cborAsText) (\<lambda>EventId.
     Inr \<lparr>AttendEventRequest_EventId = EventId\<rparr>)"

definition AttendEventRequest_ok :: "csil_AttendEventRequest \<Rightarrow> bool" where
  "AttendEventRequest_ok v \<longleftrightarrow> text_ok (AttendEventRequest_EventId v)"

lemma AttendEventRequest_undone: "AttendEventRequest_ok v \<Longrightarrow> csilDecAttendEventRequest (received (csilEncAttendEventRequest v)) = Inr v"
  by (cases v) (simp add: csilEncAttendEventRequest_def csilDecAttendEventRequest_def AttendEventRequest_ok_def codec)

lemma AttendEventRequest_sound: "AttendEventRequest_ok v \<Longrightarrow> sendable 1 (csilEncAttendEventRequest v)"
  unfolding csilEncAttendEventRequest_def AttendEventRequest_ok_def by (rule sendable_map) (simp_all add: codec)

interpretation AttendEventRequest_message: message AttendEventRequest_ok csilEncAttendEventRequest csilDecAttendEventRequest 1
  by unfold_locales (fact AttendEventRequest_undone, fact AttendEventRequest_sound)

record csil_UnattendEventRequest =
  UnattendEventRequest_EventId :: string

definition csilEncUnattendEventRequest :: "csil_UnattendEventRequest \<Rightarrow> csil_value" where
  "csilEncUnattendEventRequest v = pMap (concat [
     entry ''event_id'' (pText (UnattendEventRequest_EventId v))])"

definition csilDecUnattendEventRequest :: "csil_value \<Rightarrow> csil_error + csil_UnattendEventRequest" where
  "csilDecUnattendEventRequest r =
     bindS (required r ''event_id'' cborAsText) (\<lambda>EventId.
     Inr \<lparr>UnattendEventRequest_EventId = EventId\<rparr>)"

definition UnattendEventRequest_ok :: "csil_UnattendEventRequest \<Rightarrow> bool" where
  "UnattendEventRequest_ok v \<longleftrightarrow> text_ok (UnattendEventRequest_EventId v)"

lemma UnattendEventRequest_undone: "UnattendEventRequest_ok v \<Longrightarrow> csilDecUnattendEventRequest (received (csilEncUnattendEventRequest v)) = Inr v"
  by (cases v) (simp add: csilEncUnattendEventRequest_def csilDecUnattendEventRequest_def UnattendEventRequest_ok_def codec)

lemma UnattendEventRequest_sound: "UnattendEventRequest_ok v \<Longrightarrow> sendable 1 (csilEncUnattendEventRequest v)"
  unfolding csilEncUnattendEventRequest_def UnattendEventRequest_ok_def by (rule sendable_map) (simp_all add: codec)

interpretation UnattendEventRequest_message: message UnattendEventRequest_ok csilEncUnattendEventRequest csilDecUnattendEventRequest 1
  by unfold_locales (fact UnattendEventRequest_undone, fact UnattendEventRequest_sound)

record csil_ListAttendeesRequest =
  ListAttendeesRequest_EventId :: string
  ListAttendeesRequest_Page :: "csil_Page option"

definition csilEncListAttendeesRequest :: "csil_ListAttendeesRequest \<Rightarrow> csil_value" where
  "csilEncListAttendeesRequest v = pMap (concat [
     opt_entry ''page'' csilEncPage (ListAttendeesRequest_Page v),
     entry ''event_id'' (pText (ListAttendeesRequest_EventId v))])"

definition csilDecListAttendeesRequest :: "csil_value \<Rightarrow> csil_error + csil_ListAttendeesRequest" where
  "csilDecListAttendeesRequest r =
     bindS (required r ''event_id'' cborAsText) (\<lambda>EventId.
     bindS (optional_field r ''page'' csilDecPage) (\<lambda>Page.
     Inr \<lparr>ListAttendeesRequest_EventId = EventId, ListAttendeesRequest_Page = Page\<rparr>))"

definition ListAttendeesRequest_ok :: "csil_ListAttendeesRequest \<Rightarrow> bool" where
  "ListAttendeesRequest_ok v \<longleftrightarrow> text_ok (ListAttendeesRequest_EventId v) \<and> pred_option Page_ok (ListAttendeesRequest_Page v)"

lemma ListAttendeesRequest_undone: "ListAttendeesRequest_ok v \<Longrightarrow> csilDecListAttendeesRequest (received (csilEncListAttendeesRequest v)) = Inr v"
  by (cases v) (simp add: csilEncListAttendeesRequest_def csilDecListAttendeesRequest_def ListAttendeesRequest_ok_def codec)

lemma ListAttendeesRequest_sound: "ListAttendeesRequest_ok v \<Longrightarrow> sendable 2 (csilEncListAttendeesRequest v)"
  unfolding csilEncListAttendeesRequest_def ListAttendeesRequest_ok_def by (rule sendable_map) (simp_all add: codec)

interpretation ListAttendeesRequest_message: message ListAttendeesRequest_ok csilEncListAttendeesRequest csilDecListAttendeesRequest 2
  by unfold_locales (fact ListAttendeesRequest_undone, fact ListAttendeesRequest_sound)

record csil_AttendeeList =
  AttendeeList_EventId :: string
  AttendeeList_Attendees :: "csil_Attendee list"
  AttendeeList_Total :: "64 word"

definition csilEncAttendeeList :: "csil_AttendeeList \<Rightarrow> csil_value" where
  "csilEncAttendeeList v = pMap (concat [
     entry ''total'' (pUint (AttendeeList_Total v)),
     entry ''event_id'' (pText (AttendeeList_EventId v)),
     entry ''attendees'' (cborEncArray csilEncAttendee (AttendeeList_Attendees v))])"

definition csilDecAttendeeList :: "csil_value \<Rightarrow> csil_error + csil_AttendeeList" where
  "csilDecAttendeeList r =
     bindS (required r ''event_id'' cborAsText) (\<lambda>EventId.
     bindS (required r ''attendees'' (cborDecArray csilDecAttendee)) (\<lambda>Attendees.
     bindS (required r ''total'' cborAsU64) (\<lambda>Total.
     Inr \<lparr>AttendeeList_EventId = EventId, AttendeeList_Attendees = Attendees, AttendeeList_Total = Total\<rparr>)))"

definition AttendeeList_ok :: "csil_AttendeeList \<Rightarrow> bool" where
  "AttendeeList_ok v \<longleftrightarrow> text_ok (AttendeeList_EventId v) \<and> list_ok Attendee_ok (AttendeeList_Attendees v)"

lemma AttendeeList_undone: "AttendeeList_ok v \<Longrightarrow> csilDecAttendeeList (received (csilEncAttendeeList v)) = Inr v"
  by (cases v) (simp add: csilEncAttendeeList_def csilDecAttendeeList_def AttendeeList_ok_def codec)

lemma AttendeeList_sound: "AttendeeList_ok v \<Longrightarrow> sendable 4 (csilEncAttendeeList v)"
  unfolding csilEncAttendeeList_def AttendeeList_ok_def by (rule sendable_map) (simp_all add: codec)

interpretation AttendeeList_message: message AttendeeList_ok csilEncAttendeeList csilDecAttendeeList 4
  by unfold_locales (fact AttendeeList_undone, fact AttendeeList_sound)

record csil_SetEventRoleRequest =
  SetEventRoleRequest_EventId :: "string option"
  SetEventRoleRequest_SeriesId :: "string option"
  SetEventRoleRequest_UserId :: string
  SetEventRoleRequest_Role :: string

definition csilEncSetEventRoleRequest :: "csil_SetEventRoleRequest \<Rightarrow> csil_value" where
  "csilEncSetEventRoleRequest v = pMap (concat [
     entry ''role'' (pText (SetEventRoleRequest_Role v)),
     entry ''user_id'' (pText (SetEventRoleRequest_UserId v)),
     opt_entry ''event_id'' pText (SetEventRoleRequest_EventId v),
     opt_entry ''series_id'' pText (SetEventRoleRequest_SeriesId v)])"

definition csilDecSetEventRoleRequest :: "csil_value \<Rightarrow> csil_error + csil_SetEventRoleRequest" where
  "csilDecSetEventRoleRequest r =
     bindS (optional_field r ''event_id'' cborAsText) (\<lambda>EventId.
     bindS (optional_field r ''series_id'' cborAsText) (\<lambda>SeriesId.
     bindS (required r ''user_id'' cborAsText) (\<lambda>UserId.
     bindS (required r ''role'' (as_enum EventRole_names)) (\<lambda>Role.
     Inr \<lparr>SetEventRoleRequest_EventId = EventId, SetEventRoleRequest_SeriesId = SeriesId, SetEventRoleRequest_UserId = UserId, SetEventRoleRequest_Role = Role\<rparr>))))"

definition SetEventRoleRequest_ok :: "csil_SetEventRoleRequest \<Rightarrow> bool" where
  "SetEventRoleRequest_ok v \<longleftrightarrow> pred_option text_ok (SetEventRoleRequest_EventId v) \<and> pred_option text_ok (SetEventRoleRequest_SeriesId v) \<and> text_ok (SetEventRoleRequest_UserId v)
    \<and> enum_ok EventRole_names (SetEventRoleRequest_Role v)"

lemma SetEventRoleRequest_undone: "SetEventRoleRequest_ok v \<Longrightarrow> csilDecSetEventRoleRequest (received (csilEncSetEventRoleRequest v)) = Inr v"
  by (cases v) (simp add: csilEncSetEventRoleRequest_def csilDecSetEventRoleRequest_def SetEventRoleRequest_ok_def codec)

lemma SetEventRoleRequest_sound: "SetEventRoleRequest_ok v \<Longrightarrow> sendable 1 (csilEncSetEventRoleRequest v)"
  unfolding csilEncSetEventRoleRequest_def SetEventRoleRequest_ok_def by (rule sendable_map) (simp_all add: codec)

interpretation SetEventRoleRequest_message: message SetEventRoleRequest_ok csilEncSetEventRoleRequest csilDecSetEventRoleRequest 1
  by unfold_locales (fact SetEventRoleRequest_undone, fact SetEventRoleRequest_sound)

record csil_RemoveEventRoleRequest =
  RemoveEventRoleRequest_EventId :: "string option"
  RemoveEventRoleRequest_SeriesId :: "string option"
  RemoveEventRoleRequest_UserId :: string
  RemoveEventRoleRequest_Role :: string

definition csilEncRemoveEventRoleRequest :: "csil_RemoveEventRoleRequest \<Rightarrow> csil_value" where
  "csilEncRemoveEventRoleRequest v = pMap (concat [
     entry ''role'' (pText (RemoveEventRoleRequest_Role v)),
     entry ''user_id'' (pText (RemoveEventRoleRequest_UserId v)),
     opt_entry ''event_id'' pText (RemoveEventRoleRequest_EventId v),
     opt_entry ''series_id'' pText (RemoveEventRoleRequest_SeriesId v)])"

definition csilDecRemoveEventRoleRequest :: "csil_value \<Rightarrow> csil_error + csil_RemoveEventRoleRequest" where
  "csilDecRemoveEventRoleRequest r =
     bindS (optional_field r ''event_id'' cborAsText) (\<lambda>EventId.
     bindS (optional_field r ''series_id'' cborAsText) (\<lambda>SeriesId.
     bindS (required r ''user_id'' cborAsText) (\<lambda>UserId.
     bindS (required r ''role'' (as_enum EventRole_names)) (\<lambda>Role.
     Inr \<lparr>RemoveEventRoleRequest_EventId = EventId, RemoveEventRoleRequest_SeriesId = SeriesId, RemoveEventRoleRequest_UserId = UserId, RemoveEventRoleRequest_Role = Role\<rparr>))))"

definition RemoveEventRoleRequest_ok :: "csil_RemoveEventRoleRequest \<Rightarrow> bool" where
  "RemoveEventRoleRequest_ok v \<longleftrightarrow> pred_option text_ok (RemoveEventRoleRequest_EventId v) \<and> pred_option text_ok (RemoveEventRoleRequest_SeriesId v) \<and> text_ok (RemoveEventRoleRequest_UserId v)
    \<and> enum_ok EventRole_names (RemoveEventRoleRequest_Role v)"

lemma RemoveEventRoleRequest_undone: "RemoveEventRoleRequest_ok v \<Longrightarrow> csilDecRemoveEventRoleRequest (received (csilEncRemoveEventRoleRequest v)) = Inr v"
  by (cases v) (simp add: csilEncRemoveEventRoleRequest_def csilDecRemoveEventRoleRequest_def RemoveEventRoleRequest_ok_def codec)

lemma RemoveEventRoleRequest_sound: "RemoveEventRoleRequest_ok v \<Longrightarrow> sendable 1 (csilEncRemoveEventRoleRequest v)"
  unfolding csilEncRemoveEventRoleRequest_def RemoveEventRoleRequest_ok_def by (rule sendable_map) (simp_all add: codec)

interpretation RemoveEventRoleRequest_message: message RemoveEventRoleRequest_ok csilEncRemoveEventRoleRequest csilDecRemoveEventRoleRequest 1
  by unfold_locales (fact RemoveEventRoleRequest_undone, fact RemoveEventRoleRequest_sound)

record csil_ListEventRolesRequest =
  ListEventRolesRequest_EventId :: "string option"
  ListEventRolesRequest_SeriesId :: "string option"

definition csilEncListEventRolesRequest :: "csil_ListEventRolesRequest \<Rightarrow> csil_value" where
  "csilEncListEventRolesRequest v = pMap (concat [
     opt_entry ''event_id'' pText (ListEventRolesRequest_EventId v),
     opt_entry ''series_id'' pText (ListEventRolesRequest_SeriesId v)])"

definition csilDecListEventRolesRequest :: "csil_value \<Rightarrow> csil_error + csil_ListEventRolesRequest" where
  "csilDecListEventRolesRequest r =
     bindS (optional_field r ''event_id'' cborAsText) (\<lambda>EventId.
     bindS (optional_field r ''series_id'' cborAsText) (\<lambda>SeriesId.
     Inr \<lparr>ListEventRolesRequest_EventId = EventId, ListEventRolesRequest_SeriesId = SeriesId\<rparr>))"

definition ListEventRolesRequest_ok :: "csil_ListEventRolesRequest \<Rightarrow> bool" where
  "ListEventRolesRequest_ok v \<longleftrightarrow> pred_option text_ok (ListEventRolesRequest_EventId v) \<and> pred_option text_ok (ListEventRolesRequest_SeriesId v)"

lemma ListEventRolesRequest_undone: "ListEventRolesRequest_ok v \<Longrightarrow> csilDecListEventRolesRequest (received (csilEncListEventRolesRequest v)) = Inr v"
  by (cases v) (simp add: csilEncListEventRolesRequest_def csilDecListEventRolesRequest_def ListEventRolesRequest_ok_def codec)

lemma ListEventRolesRequest_sound: "ListEventRolesRequest_ok v \<Longrightarrow> sendable 1 (csilEncListEventRolesRequest v)"
  unfolding csilEncListEventRolesRequest_def ListEventRolesRequest_ok_def by (rule sendable_map) (simp_all add: codec)

interpretation ListEventRolesRequest_message: message ListEventRolesRequest_ok csilEncListEventRolesRequest csilDecListEventRolesRequest 1
  by unfold_locales (fact ListEventRolesRequest_undone, fact ListEventRolesRequest_sound)

record csil_EventRoleList =
  EventRoleList_Roles :: "csil_EventRoleAssignment list"

definition csilEncEventRoleList :: "csil_EventRoleList \<Rightarrow> csil_value" where
  "csilEncEventRoleList v = pMap (concat [
     entry ''roles'' (cborEncArray csilEncEventRoleAssignment (EventRoleList_Roles v))])"

definition csilDecEventRoleList :: "csil_value \<Rightarrow> csil_error + csil_EventRoleList" where
  "csilDecEventRoleList r =
     bindS (required r ''roles'' (cborDecArray csilDecEventRoleAssignment)) (\<lambda>Roles.
     Inr \<lparr>EventRoleList_Roles = Roles\<rparr>)"

definition EventRoleList_ok :: "csil_EventRoleList \<Rightarrow> bool" where
  "EventRoleList_ok v \<longleftrightarrow> list_ok EventRoleAssignment_ok (EventRoleList_Roles v)"

lemma EventRoleList_undone: "EventRoleList_ok v \<Longrightarrow> csilDecEventRoleList (received (csilEncEventRoleList v)) = Inr v"
  by (cases v) (simp add: csilEncEventRoleList_def csilDecEventRoleList_def EventRoleList_ok_def codec)

lemma EventRoleList_sound: "EventRoleList_ok v \<Longrightarrow> sendable 4 (csilEncEventRoleList v)"
  unfolding csilEncEventRoleList_def EventRoleList_ok_def by (rule sendable_map) (simp_all add: codec)

interpretation EventRoleList_message: message EventRoleList_ok csilEncEventRoleList csilDecEventRoleList 4
  by unfold_locales (fact EventRoleList_undone, fact EventRoleList_sound)

end
