(* ===== verification/CodecPeers.thy ===== *)
theory CodecPeers
  imports CodecCommon
begin

text \<open>
  The messages of \<open>csil/codec.gen.go\<close> and \<open>csil/types.gen.go\<close>: the peers an administrator keeps.  A struct is a record, its
  encoder the entries in the order of the wire, its decoder the fields in the order of the schema; each
  is an interpretation of the contract \<open>message\<close> with the deepest nesting it can have.
\<close>

definition PeerStatus_names :: "string list" where
  "PeerStatus_names = [''none'', ''pending'', ''approved'', ''blocked'']"

interpretation PeerStatus_value: message "enum_ok PeerStatus_names" pText "as_enum PeerStatus_names" 0
  by (rule enum_message)

lemmas PeerStatus_codec [codec] = PeerStatus_value.undone [simplified] PeerStatus_value.behind_pointer [simplified] PeerStatus_value.in_slice [simplified]
  PeerStatus_value.sent [simplified] PeerStatus_value.sent_behind_pointer [simplified] PeerStatus_value.sent_in_slice

record csil_Peer =
  Peer_Id :: string
  Peer_Address :: string
  Peer_Handle :: string
  Peer_Domain :: string
  Peer_SubjectUserId :: "string option"
  Peer_SubjectDomain :: "string option"
  Peer_ApplicationId :: "string option"
  Peer_InstanceId :: "string option"
  Peer_BaseUrl :: string
  Peer_InboundStatus :: string
  Peer_OutboundStatus :: string
  Peer_Note :: string
  Peer_Suspended :: bool
  Peer_SuspendedAt :: "instant option"
  Peer_FirstFailureAt :: "instant option"
  Peer_LastFailureAt :: "instant option"
  Peer_LastFailureReason :: string
  Peer_LastSuccessAt :: "instant option"
  Peer_PendingDeliveries :: "64 word"
  Peer_RateLimitPerMinute :: "64 word option"
  Peer_RateLimitedTotal :: "64 word"
  Peer_CreatedAt :: instant
  Peer_UpdatedAt :: instant

definition csilEncPeer :: "csil_Peer \<Rightarrow> csil_value" where
  "csilEncPeer v = pMap (concat [
     entry ''id'' (pText (Peer_Id v)),
     entry ''note'' (pText (Peer_Note v)),
     entry ''domain'' (pText (Peer_Domain v)),
     entry ''handle'' (pText (Peer_Handle v)),
     entry ''address'' (pText (Peer_Address v)),
     entry ''base_url'' (pText (Peer_BaseUrl v)),
     entry ''suspended'' (pBool (Peer_Suspended v)),
     entry ''created_at'' (csilEncTimestamp (Peer_CreatedAt v)),
     entry ''updated_at'' (csilEncTimestamp (Peer_UpdatedAt v)),
     opt_entry ''instance_id'' pText (Peer_InstanceId v),
     opt_entry ''suspended_at'' csilEncTimestamp (Peer_SuspendedAt v),
     opt_entry ''application_id'' pText (Peer_ApplicationId v),
     entry ''inbound_status'' (pText (Peer_InboundStatus v)),
     opt_entry ''subject_domain'' pText (Peer_SubjectDomain v),
     opt_entry ''last_failure_at'' csilEncTimestamp (Peer_LastFailureAt v),
     opt_entry ''last_success_at'' csilEncTimestamp (Peer_LastSuccessAt v),
     entry ''outbound_status'' (pText (Peer_OutboundStatus v)),
     opt_entry ''subject_user_id'' pText (Peer_SubjectUserId v),
     opt_entry ''first_failure_at'' csilEncTimestamp (Peer_FirstFailureAt v),
     entry ''pending_deliveries'' (pUint (Peer_PendingDeliveries v)),
     entry ''rate_limited_total'' (pUint (Peer_RateLimitedTotal v)),
     entry ''last_failure_reason'' (pText (Peer_LastFailureReason v)),
     opt_entry ''rate_limit_per_minute'' pUint (Peer_RateLimitPerMinute v)])"

definition csilDecPeer :: "csil_value \<Rightarrow> csil_error + csil_Peer" where
  "csilDecPeer r =
     bindS (required r ''id'' cborAsText) (\<lambda>Id.
     bindS (required r ''address'' cborAsText) (\<lambda>Address.
     bindS (required r ''handle'' cborAsText) (\<lambda>Handle.
     bindS (required r ''domain'' cborAsText) (\<lambda>Domain.
     bindS (optional_field r ''subject_user_id'' cborAsText) (\<lambda>SubjectUserId.
     bindS (optional_field r ''subject_domain'' cborAsText) (\<lambda>SubjectDomain.
     bindS (optional_field r ''application_id'' cborAsText) (\<lambda>ApplicationId.
     bindS (optional_field r ''instance_id'' cborAsText) (\<lambda>InstanceId.
     bindS (required r ''base_url'' cborAsText) (\<lambda>BaseUrl.
     bindS (required r ''inbound_status'' (as_enum PeerStatus_names)) (\<lambda>InboundStatus.
     bindS (required r ''outbound_status'' (as_enum PeerStatus_names)) (\<lambda>OutboundStatus.
     bindS (required r ''note'' cborAsText) (\<lambda>Note.
     bindS (required r ''suspended'' cborAsBool) (\<lambda>Suspended.
     bindS (optional_field r ''suspended_at'' csilAsTimestamp) (\<lambda>SuspendedAt.
     bindS (optional_field r ''first_failure_at'' csilAsTimestamp) (\<lambda>FirstFailureAt.
     bindS (optional_field r ''last_failure_at'' csilAsTimestamp) (\<lambda>LastFailureAt.
     bindS (required r ''last_failure_reason'' cborAsText) (\<lambda>LastFailureReason.
     bindS (optional_field r ''last_success_at'' csilAsTimestamp) (\<lambda>LastSuccessAt.
     bindS (required r ''pending_deliveries'' cborAsU64) (\<lambda>PendingDeliveries.
     bindS (optional_field r ''rate_limit_per_minute'' cborAsU64) (\<lambda>RateLimitPerMinute.
     bindS (required r ''rate_limited_total'' cborAsU64) (\<lambda>RateLimitedTotal.
     bindS (required r ''created_at'' csilAsTimestamp) (\<lambda>CreatedAt.
     bindS (required r ''updated_at'' csilAsTimestamp) (\<lambda>UpdatedAt.
     Inr \<lparr>Peer_Id = Id, Peer_Address = Address, Peer_Handle = Handle, Peer_Domain = Domain,
       Peer_SubjectUserId = SubjectUserId, Peer_SubjectDomain = SubjectDomain, Peer_ApplicationId = ApplicationId, Peer_InstanceId = InstanceId,
       Peer_BaseUrl = BaseUrl, Peer_InboundStatus = InboundStatus, Peer_OutboundStatus = OutboundStatus, Peer_Note = Note,
       Peer_Suspended = Suspended, Peer_SuspendedAt = SuspendedAt, Peer_FirstFailureAt = FirstFailureAt, Peer_LastFailureAt = LastFailureAt,
       Peer_LastFailureReason = LastFailureReason, Peer_LastSuccessAt = LastSuccessAt, Peer_PendingDeliveries = PendingDeliveries, Peer_RateLimitPerMinute = RateLimitPerMinute,
       Peer_RateLimitedTotal = RateLimitedTotal, Peer_CreatedAt = CreatedAt, Peer_UpdatedAt = UpdatedAt\<rparr>)))))))))))))))))))))))"

definition Peer_ok :: "csil_Peer \<Rightarrow> bool" where
  "Peer_ok v \<longleftrightarrow> text_ok (Peer_Id v) \<and> text_ok (Peer_Address v) \<and> text_ok (Peer_Handle v)
    \<and> text_ok (Peer_Domain v) \<and> pred_option text_ok (Peer_SubjectUserId v) \<and> pred_option text_ok (Peer_SubjectDomain v)
    \<and> pred_option text_ok (Peer_ApplicationId v) \<and> pred_option text_ok (Peer_InstanceId v) \<and> text_ok (Peer_BaseUrl v)
    \<and> enum_ok PeerStatus_names (Peer_InboundStatus v) \<and> enum_ok PeerStatus_names (Peer_OutboundStatus v) \<and> text_ok (Peer_Note v)
    \<and> pred_option time_ok (Peer_SuspendedAt v) \<and> pred_option time_ok (Peer_FirstFailureAt v) \<and> pred_option time_ok (Peer_LastFailureAt v)
    \<and> text_ok (Peer_LastFailureReason v) \<and> pred_option time_ok (Peer_LastSuccessAt v) \<and> time_ok (Peer_CreatedAt v)
    \<and> time_ok (Peer_UpdatedAt v)"

lemma Peer_undone: "Peer_ok v \<Longrightarrow> csilDecPeer (received (csilEncPeer v)) = Inr v"
  by (cases v) (simp add: csilEncPeer_def csilDecPeer_def Peer_ok_def codec)

lemma Peer_sound: "Peer_ok v \<Longrightarrow> sendable 2 (csilEncPeer v)"
  unfolding csilEncPeer_def Peer_ok_def by (rule sendable_map) (simp_all add: codec)

interpretation Peer_message: message Peer_ok csilEncPeer csilDecPeer 2
  by unfold_locales (fact Peer_undone, fact Peer_sound)

lemmas Peer_codec [codec] = Peer_message.undone Peer_message.behind_pointer Peer_message.in_slice
  Peer_message.sent Peer_message.sent_behind_pointer Peer_message.sent_in_slice

record csil_PeerList =
  PeerList_Peers :: "csil_Peer list"
  PeerList_Total :: "64 word"

definition csilEncPeerList :: "csil_PeerList \<Rightarrow> csil_value" where
  "csilEncPeerList v = pMap (concat [
     entry ''peers'' (cborEncArray csilEncPeer (PeerList_Peers v)),
     entry ''total'' (pUint (PeerList_Total v))])"

definition csilDecPeerList :: "csil_value \<Rightarrow> csil_error + csil_PeerList" where
  "csilDecPeerList r =
     bindS (required r ''peers'' (cborDecArray csilDecPeer)) (\<lambda>Peers.
     bindS (required r ''total'' cborAsU64) (\<lambda>Total.
     Inr \<lparr>PeerList_Peers = Peers, PeerList_Total = Total\<rparr>))"

definition PeerList_ok :: "csil_PeerList \<Rightarrow> bool" where
  "PeerList_ok v \<longleftrightarrow> list_ok Peer_ok (PeerList_Peers v)"

lemma PeerList_undone: "PeerList_ok v \<Longrightarrow> csilDecPeerList (received (csilEncPeerList v)) = Inr v"
  by (cases v) (simp add: csilEncPeerList_def csilDecPeerList_def PeerList_ok_def codec)

lemma PeerList_sound: "PeerList_ok v \<Longrightarrow> sendable 4 (csilEncPeerList v)"
  unfolding csilEncPeerList_def PeerList_ok_def by (rule sendable_map) (simp_all add: codec)

interpretation PeerList_message: message PeerList_ok csilEncPeerList csilDecPeerList 4
  by unfold_locales (fact PeerList_undone, fact PeerList_sound)

record csil_ListPeersRequest =
  ListPeersRequest_Page :: "csil_Page option"

definition csilEncListPeersRequest :: "csil_ListPeersRequest \<Rightarrow> csil_value" where
  "csilEncListPeersRequest v = pMap (concat [
     opt_entry ''page'' csilEncPage (ListPeersRequest_Page v)])"

definition csilDecListPeersRequest :: "csil_value \<Rightarrow> csil_error + csil_ListPeersRequest" where
  "csilDecListPeersRequest r =
     bindS (optional_field r ''page'' csilDecPage) (\<lambda>Page.
     Inr \<lparr>ListPeersRequest_Page = Page\<rparr>)"

definition ListPeersRequest_ok :: "csil_ListPeersRequest \<Rightarrow> bool" where
  "ListPeersRequest_ok v \<longleftrightarrow> pred_option Page_ok (ListPeersRequest_Page v)"

lemma ListPeersRequest_undone: "ListPeersRequest_ok v \<Longrightarrow> csilDecListPeersRequest (received (csilEncListPeersRequest v)) = Inr v"
  by (cases v) (simp add: csilEncListPeersRequest_def csilDecListPeersRequest_def ListPeersRequest_ok_def codec)

lemma ListPeersRequest_sound: "ListPeersRequest_ok v \<Longrightarrow> sendable 2 (csilEncListPeersRequest v)"
  unfolding csilEncListPeersRequest_def ListPeersRequest_ok_def by (rule sendable_map) (simp_all add: codec)

interpretation ListPeersRequest_message: message ListPeersRequest_ok csilEncListPeersRequest csilDecListPeersRequest 2
  by unfold_locales (fact ListPeersRequest_undone, fact ListPeersRequest_sound)

record csil_AddPeerRequest =
  AddPeerRequest_Address :: string
  AddPeerRequest_BaseUrl :: string
  AddPeerRequest_Note :: string

definition csilEncAddPeerRequest :: "csil_AddPeerRequest \<Rightarrow> csil_value" where
  "csilEncAddPeerRequest v = pMap (concat [
     entry ''note'' (pText (AddPeerRequest_Note v)),
     entry ''address'' (pText (AddPeerRequest_Address v)),
     entry ''base_url'' (pText (AddPeerRequest_BaseUrl v))])"

definition csilDecAddPeerRequest :: "csil_value \<Rightarrow> csil_error + csil_AddPeerRequest" where
  "csilDecAddPeerRequest r =
     bindS (required r ''address'' cborAsText) (\<lambda>Address.
     bindS (required r ''base_url'' cborAsText) (\<lambda>BaseUrl.
     bindS (required r ''note'' cborAsText) (\<lambda>Note.
     Inr \<lparr>AddPeerRequest_Address = Address, AddPeerRequest_BaseUrl = BaseUrl, AddPeerRequest_Note = Note\<rparr>)))"

definition AddPeerRequest_ok :: "csil_AddPeerRequest \<Rightarrow> bool" where
  "AddPeerRequest_ok v \<longleftrightarrow> text_ok (AddPeerRequest_Address v) \<and> text_ok (AddPeerRequest_BaseUrl v) \<and> text_ok (AddPeerRequest_Note v)"

lemma AddPeerRequest_undone: "AddPeerRequest_ok v \<Longrightarrow> csilDecAddPeerRequest (received (csilEncAddPeerRequest v)) = Inr v"
  by (cases v) (simp add: csilEncAddPeerRequest_def csilDecAddPeerRequest_def AddPeerRequest_ok_def codec)

lemma AddPeerRequest_sound: "AddPeerRequest_ok v \<Longrightarrow> sendable 1 (csilEncAddPeerRequest v)"
  unfolding csilEncAddPeerRequest_def AddPeerRequest_ok_def by (rule sendable_map) (simp_all add: codec)

interpretation AddPeerRequest_message: message AddPeerRequest_ok csilEncAddPeerRequest csilDecAddPeerRequest 1
  by unfold_locales (fact AddPeerRequest_undone, fact AddPeerRequest_sound)

record csil_SetPeerStatusRequest =
  SetPeerStatusRequest_PeerId :: string
  SetPeerStatusRequest_InboundStatus :: "string option"
  SetPeerStatusRequest_OutboundStatus :: "string option"
  SetPeerStatusRequest_SubjectUserId :: "string option"
  SetPeerStatusRequest_SubjectDomain :: "string option"
  SetPeerStatusRequest_ApplicationId :: "string option"
  SetPeerStatusRequest_InstanceId :: "string option"

definition csilEncSetPeerStatusRequest :: "csil_SetPeerStatusRequest \<Rightarrow> csil_value" where
  "csilEncSetPeerStatusRequest v = pMap (concat [
     entry ''peer_id'' (pText (SetPeerStatusRequest_PeerId v)),
     opt_entry ''instance_id'' pText (SetPeerStatusRequest_InstanceId v),
     opt_entry ''application_id'' pText (SetPeerStatusRequest_ApplicationId v),
     opt_entry ''inbound_status'' pText (SetPeerStatusRequest_InboundStatus v),
     opt_entry ''subject_domain'' pText (SetPeerStatusRequest_SubjectDomain v),
     opt_entry ''outbound_status'' pText (SetPeerStatusRequest_OutboundStatus v),
     opt_entry ''subject_user_id'' pText (SetPeerStatusRequest_SubjectUserId v)])"

definition csilDecSetPeerStatusRequest :: "csil_value \<Rightarrow> csil_error + csil_SetPeerStatusRequest" where
  "csilDecSetPeerStatusRequest r =
     bindS (required r ''peer_id'' cborAsText) (\<lambda>PeerId.
     bindS (optional_field r ''inbound_status'' (as_enum PeerStatus_names)) (\<lambda>InboundStatus.
     bindS (optional_field r ''outbound_status'' (as_enum PeerStatus_names)) (\<lambda>OutboundStatus.
     bindS (optional_field r ''subject_user_id'' cborAsText) (\<lambda>SubjectUserId.
     bindS (optional_field r ''subject_domain'' cborAsText) (\<lambda>SubjectDomain.
     bindS (optional_field r ''application_id'' cborAsText) (\<lambda>ApplicationId.
     bindS (optional_field r ''instance_id'' cborAsText) (\<lambda>InstanceId.
     Inr \<lparr>SetPeerStatusRequest_PeerId = PeerId, SetPeerStatusRequest_InboundStatus = InboundStatus, SetPeerStatusRequest_OutboundStatus = OutboundStatus, SetPeerStatusRequest_SubjectUserId = SubjectUserId,
       SetPeerStatusRequest_SubjectDomain = SubjectDomain, SetPeerStatusRequest_ApplicationId = ApplicationId, SetPeerStatusRequest_InstanceId = InstanceId\<rparr>)))))))"

definition SetPeerStatusRequest_ok :: "csil_SetPeerStatusRequest \<Rightarrow> bool" where
  "SetPeerStatusRequest_ok v \<longleftrightarrow> text_ok (SetPeerStatusRequest_PeerId v) \<and> pred_option (enum_ok PeerStatus_names) (SetPeerStatusRequest_InboundStatus v) \<and> pred_option (enum_ok PeerStatus_names) (SetPeerStatusRequest_OutboundStatus v)
    \<and> pred_option text_ok (SetPeerStatusRequest_SubjectUserId v) \<and> pred_option text_ok (SetPeerStatusRequest_SubjectDomain v) \<and> pred_option text_ok (SetPeerStatusRequest_ApplicationId v)
    \<and> pred_option text_ok (SetPeerStatusRequest_InstanceId v)"

lemma SetPeerStatusRequest_undone: "SetPeerStatusRequest_ok v \<Longrightarrow> csilDecSetPeerStatusRequest (received (csilEncSetPeerStatusRequest v)) = Inr v"
  by (cases v) (simp add: csilEncSetPeerStatusRequest_def csilDecSetPeerStatusRequest_def SetPeerStatusRequest_ok_def codec)

lemma SetPeerStatusRequest_sound: "SetPeerStatusRequest_ok v \<Longrightarrow> sendable 1 (csilEncSetPeerStatusRequest v)"
  unfolding csilEncSetPeerStatusRequest_def SetPeerStatusRequest_ok_def by (rule sendable_map) (simp_all add: codec)

interpretation SetPeerStatusRequest_message: message SetPeerStatusRequest_ok csilEncSetPeerStatusRequest csilDecSetPeerStatusRequest 1
  by unfold_locales (fact SetPeerStatusRequest_undone, fact SetPeerStatusRequest_sound)

record csil_ResumePeerRequest =
  ResumePeerRequest_PeerId :: string

definition csilEncResumePeerRequest :: "csil_ResumePeerRequest \<Rightarrow> csil_value" where
  "csilEncResumePeerRequest v = pMap (concat [
     entry ''peer_id'' (pText (ResumePeerRequest_PeerId v))])"

definition csilDecResumePeerRequest :: "csil_value \<Rightarrow> csil_error + csil_ResumePeerRequest" where
  "csilDecResumePeerRequest r =
     bindS (required r ''peer_id'' cborAsText) (\<lambda>PeerId.
     Inr \<lparr>ResumePeerRequest_PeerId = PeerId\<rparr>)"

definition ResumePeerRequest_ok :: "csil_ResumePeerRequest \<Rightarrow> bool" where
  "ResumePeerRequest_ok v \<longleftrightarrow> text_ok (ResumePeerRequest_PeerId v)"

lemma ResumePeerRequest_undone: "ResumePeerRequest_ok v \<Longrightarrow> csilDecResumePeerRequest (received (csilEncResumePeerRequest v)) = Inr v"
  by (cases v) (simp add: csilEncResumePeerRequest_def csilDecResumePeerRequest_def ResumePeerRequest_ok_def codec)

lemma ResumePeerRequest_sound: "ResumePeerRequest_ok v \<Longrightarrow> sendable 1 (csilEncResumePeerRequest v)"
  unfolding csilEncResumePeerRequest_def ResumePeerRequest_ok_def by (rule sendable_map) (simp_all add: codec)

interpretation ResumePeerRequest_message: message ResumePeerRequest_ok csilEncResumePeerRequest csilDecResumePeerRequest 1
  by unfold_locales (fact ResumePeerRequest_undone, fact ResumePeerRequest_sound)

record csil_SetPeerRateLimitRequest =
  SetPeerRateLimitRequest_PeerId :: string
  SetPeerRateLimitRequest_RateLimitPerMinute :: "64 word option"

definition csilEncSetPeerRateLimitRequest :: "csil_SetPeerRateLimitRequest \<Rightarrow> csil_value" where
  "csilEncSetPeerRateLimitRequest v = pMap (concat [
     entry ''peer_id'' (pText (SetPeerRateLimitRequest_PeerId v)),
     opt_entry ''rate_limit_per_minute'' pUint (SetPeerRateLimitRequest_RateLimitPerMinute v)])"

definition csilDecSetPeerRateLimitRequest :: "csil_value \<Rightarrow> csil_error + csil_SetPeerRateLimitRequest" where
  "csilDecSetPeerRateLimitRequest r =
     bindS (required r ''peer_id'' cborAsText) (\<lambda>PeerId.
     bindS (optional_field r ''rate_limit_per_minute'' cborAsU64) (\<lambda>RateLimitPerMinute.
     Inr \<lparr>SetPeerRateLimitRequest_PeerId = PeerId, SetPeerRateLimitRequest_RateLimitPerMinute = RateLimitPerMinute\<rparr>))"

definition SetPeerRateLimitRequest_ok :: "csil_SetPeerRateLimitRequest \<Rightarrow> bool" where
  "SetPeerRateLimitRequest_ok v \<longleftrightarrow> text_ok (SetPeerRateLimitRequest_PeerId v)"

lemma SetPeerRateLimitRequest_undone: "SetPeerRateLimitRequest_ok v \<Longrightarrow> csilDecSetPeerRateLimitRequest (received (csilEncSetPeerRateLimitRequest v)) = Inr v"
  by (cases v) (simp add: csilEncSetPeerRateLimitRequest_def csilDecSetPeerRateLimitRequest_def SetPeerRateLimitRequest_ok_def codec)

lemma SetPeerRateLimitRequest_sound: "SetPeerRateLimitRequest_ok v \<Longrightarrow> sendable 1 (csilEncSetPeerRateLimitRequest v)"
  unfolding csilEncSetPeerRateLimitRequest_def SetPeerRateLimitRequest_ok_def by (rule sendable_map) (simp_all add: codec)

interpretation SetPeerRateLimitRequest_message: message SetPeerRateLimitRequest_ok csilEncSetPeerRateLimitRequest csilDecSetPeerRateLimitRequest 1
  by unfold_locales (fact SetPeerRateLimitRequest_undone, fact SetPeerRateLimitRequest_sound)

record csil_RemovePeerRequest =
  RemovePeerRequest_PeerId :: string

definition csilEncRemovePeerRequest :: "csil_RemovePeerRequest \<Rightarrow> csil_value" where
  "csilEncRemovePeerRequest v = pMap (concat [
     entry ''peer_id'' (pText (RemovePeerRequest_PeerId v))])"

definition csilDecRemovePeerRequest :: "csil_value \<Rightarrow> csil_error + csil_RemovePeerRequest" where
  "csilDecRemovePeerRequest r =
     bindS (required r ''peer_id'' cborAsText) (\<lambda>PeerId.
     Inr \<lparr>RemovePeerRequest_PeerId = PeerId\<rparr>)"

definition RemovePeerRequest_ok :: "csil_RemovePeerRequest \<Rightarrow> bool" where
  "RemovePeerRequest_ok v \<longleftrightarrow> text_ok (RemovePeerRequest_PeerId v)"

lemma RemovePeerRequest_undone: "RemovePeerRequest_ok v \<Longrightarrow> csilDecRemovePeerRequest (received (csilEncRemovePeerRequest v)) = Inr v"
  by (cases v) (simp add: csilEncRemovePeerRequest_def csilDecRemovePeerRequest_def RemovePeerRequest_ok_def codec)

lemma RemovePeerRequest_sound: "RemovePeerRequest_ok v \<Longrightarrow> sendable 1 (csilEncRemovePeerRequest v)"
  unfolding csilEncRemovePeerRequest_def RemovePeerRequest_ok_def by (rule sendable_map) (simp_all add: codec)

interpretation RemovePeerRequest_message: message RemovePeerRequest_ok csilEncRemovePeerRequest csilDecRemovePeerRequest 1
  by unfold_locales (fact RemovePeerRequest_undone, fact RemovePeerRequest_sound)

record csil_FederationIdentity =
  FederationIdentity_Address :: string
  FederationIdentity_Enabled :: bool
  FederationIdentity_Algorithm :: string
  FederationIdentity_SubjectUserId :: string
  FederationIdentity_SubjectDomain :: string
  FederationIdentity_ApplicationId :: string
  FederationIdentity_InstanceId :: string

definition csilEncFederationIdentity :: "csil_FederationIdentity \<Rightarrow> csil_value" where
  "csilEncFederationIdentity v = pMap (concat [
     entry ''address'' (pText (FederationIdentity_Address v)),
     entry ''enabled'' (pBool (FederationIdentity_Enabled v)),
     entry ''algorithm'' (pText (FederationIdentity_Algorithm v)),
     entry ''instance_id'' (pText (FederationIdentity_InstanceId v)),
     entry ''application_id'' (pText (FederationIdentity_ApplicationId v)),
     entry ''subject_domain'' (pText (FederationIdentity_SubjectDomain v)),
     entry ''subject_user_id'' (pText (FederationIdentity_SubjectUserId v))])"

definition csilDecFederationIdentity :: "csil_value \<Rightarrow> csil_error + csil_FederationIdentity" where
  "csilDecFederationIdentity r =
     bindS (required r ''address'' cborAsText) (\<lambda>Address.
     bindS (required r ''enabled'' cborAsBool) (\<lambda>Enabled.
     bindS (required r ''algorithm'' cborAsText) (\<lambda>Algorithm.
     bindS (required r ''subject_user_id'' cborAsText) (\<lambda>SubjectUserId.
     bindS (required r ''subject_domain'' cborAsText) (\<lambda>SubjectDomain.
     bindS (required r ''application_id'' cborAsText) (\<lambda>ApplicationId.
     bindS (required r ''instance_id'' cborAsText) (\<lambda>InstanceId.
     Inr \<lparr>FederationIdentity_Address = Address, FederationIdentity_Enabled = Enabled, FederationIdentity_Algorithm = Algorithm, FederationIdentity_SubjectUserId = SubjectUserId,
       FederationIdentity_SubjectDomain = SubjectDomain, FederationIdentity_ApplicationId = ApplicationId, FederationIdentity_InstanceId = InstanceId\<rparr>)))))))"

definition FederationIdentity_ok :: "csil_FederationIdentity \<Rightarrow> bool" where
  "FederationIdentity_ok v \<longleftrightarrow> text_ok (FederationIdentity_Address v) \<and> text_ok (FederationIdentity_Algorithm v) \<and> text_ok (FederationIdentity_SubjectUserId v)
    \<and> text_ok (FederationIdentity_SubjectDomain v) \<and> text_ok (FederationIdentity_ApplicationId v) \<and> text_ok (FederationIdentity_InstanceId v)"

lemma FederationIdentity_undone: "FederationIdentity_ok v \<Longrightarrow> csilDecFederationIdentity (received (csilEncFederationIdentity v)) = Inr v"
  by (cases v) (simp add: csilEncFederationIdentity_def csilDecFederationIdentity_def FederationIdentity_ok_def codec)

lemma FederationIdentity_sound: "FederationIdentity_ok v \<Longrightarrow> sendable 1 (csilEncFederationIdentity v)"
  unfolding csilEncFederationIdentity_def FederationIdentity_ok_def by (rule sendable_map) (simp_all add: codec)

interpretation FederationIdentity_message: message FederationIdentity_ok csilEncFederationIdentity csilDecFederationIdentity 1
  by unfold_locales (fact FederationIdentity_undone, fact FederationIdentity_sound)

end
