(* ===== verification/CodecFederation.thy ===== *)
theory CodecFederation
  imports CodecCommon CodecEvents CodecPeers
begin

text \<open>
  The messages of \<open>csil/codec.gen.go\<close> and \<open>csil/types.gen.go\<close>: what peers send each other.  A struct is a record, its
  encoder the entries in the order of the wire, its decoder the fields in the order of the schema; each
  is an interpretation of the contract \<open>message\<close> with the deepest nesting it can have.
\<close>

record csil_FederatedEvent =
  FederatedEvent_RemoteId :: string
  FederatedEvent_CanonicalUrl :: string
  FederatedEvent_Title :: string
  FederatedEvent_IsOnline :: bool
  FederatedEvent_IsInPerson :: bool
  FederatedEvent_Location :: "csil_Location option"
  FederatedEvent_StartsAt :: instant
  FederatedEvent_EndsAt :: instant
  FederatedEvent_Timezone :: string
  FederatedEvent_GatheringName :: string
  FederatedEvent_OrganizationName :: string
  FederatedEvent_Deleted :: bool

definition csilEncFederatedEvent :: "csil_FederatedEvent \<Rightarrow> csil_value" where
  "csilEncFederatedEvent v = pMap (concat [
     entry ''title'' (pText (FederatedEvent_Title v)),
     entry ''deleted'' (pBool (FederatedEvent_Deleted v)),
     entry ''ends_at'' (csilEncTimestamp (FederatedEvent_EndsAt v)),
     opt_entry ''location'' csilEncLocation (FederatedEvent_Location v),
     entry ''timezone'' (pText (FederatedEvent_Timezone v)),
     entry ''is_online'' (pBool (FederatedEvent_IsOnline v)),
     entry ''remote_id'' (pText (FederatedEvent_RemoteId v)),
     entry ''starts_at'' (csilEncTimestamp (FederatedEvent_StartsAt v)),
     entry ''is_in_person'' (pBool (FederatedEvent_IsInPerson v)),
     entry ''canonical_url'' (pText (FederatedEvent_CanonicalUrl v)),
     entry ''gathering_name'' (pText (FederatedEvent_GatheringName v)),
     entry ''organization_name'' (pText (FederatedEvent_OrganizationName v))])"

definition csilDecFederatedEvent :: "csil_value \<Rightarrow> csil_error + csil_FederatedEvent" where
  "csilDecFederatedEvent r =
     bindS (required r ''remote_id'' cborAsText) (\<lambda>RemoteId.
     bindS (required r ''canonical_url'' cborAsText) (\<lambda>CanonicalUrl.
     bindS (required r ''title'' cborAsText) (\<lambda>Title.
     bindS (required r ''is_online'' cborAsBool) (\<lambda>IsOnline.
     bindS (required r ''is_in_person'' cborAsBool) (\<lambda>IsInPerson.
     bindS (optional_field r ''location'' csilDecLocation) (\<lambda>Location.
     bindS (required r ''starts_at'' csilAsTimestamp) (\<lambda>StartsAt.
     bindS (required r ''ends_at'' csilAsTimestamp) (\<lambda>EndsAt.
     bindS (required r ''timezone'' cborAsText) (\<lambda>Timezone.
     bindS (required r ''gathering_name'' cborAsText) (\<lambda>GatheringName.
     bindS (required r ''organization_name'' cborAsText) (\<lambda>OrganizationName.
     bindS (required r ''deleted'' cborAsBool) (\<lambda>Deleted.
     Inr \<lparr>FederatedEvent_RemoteId = RemoteId, FederatedEvent_CanonicalUrl = CanonicalUrl, FederatedEvent_Title = Title, FederatedEvent_IsOnline = IsOnline,
       FederatedEvent_IsInPerson = IsInPerson, FederatedEvent_Location = Location, FederatedEvent_StartsAt = StartsAt, FederatedEvent_EndsAt = EndsAt,
       FederatedEvent_Timezone = Timezone, FederatedEvent_GatheringName = GatheringName, FederatedEvent_OrganizationName = OrganizationName, FederatedEvent_Deleted = Deleted\<rparr>))))))))))))"

definition FederatedEvent_ok :: "csil_FederatedEvent \<Rightarrow> bool" where
  "FederatedEvent_ok v \<longleftrightarrow> text_ok (FederatedEvent_RemoteId v) \<and> text_ok (FederatedEvent_CanonicalUrl v) \<and> text_ok (FederatedEvent_Title v)
    \<and> pred_option Location_ok (FederatedEvent_Location v) \<and> time_ok (FederatedEvent_StartsAt v) \<and> time_ok (FederatedEvent_EndsAt v)
    \<and> text_ok (FederatedEvent_Timezone v) \<and> text_ok (FederatedEvent_GatheringName v) \<and> text_ok (FederatedEvent_OrganizationName v)"

lemma FederatedEvent_undone: "FederatedEvent_ok v \<Longrightarrow> csilDecFederatedEvent (received (csilEncFederatedEvent v)) = Inr v"
  by (cases v) (simp add: csilEncFederatedEvent_def csilDecFederatedEvent_def FederatedEvent_ok_def codec)

lemma FederatedEvent_sound: "FederatedEvent_ok v \<Longrightarrow> sendable 2 (csilEncFederatedEvent v)"
  unfolding csilEncFederatedEvent_def FederatedEvent_ok_def by (rule sendable_map) (simp_all add: codec)

interpretation FederatedEvent_message: message FederatedEvent_ok csilEncFederatedEvent csilDecFederatedEvent 2
  by unfold_locales (fact FederatedEvent_undone, fact FederatedEvent_sound)

lemmas FederatedEvent_codec [codec] = FederatedEvent_message.undone FederatedEvent_message.behind_pointer FederatedEvent_message.in_slice
  FederatedEvent_message.sent FederatedEvent_message.sent_behind_pointer FederatedEvent_message.sent_in_slice

record csil_EventBatch =
  EventBatch_OriginDomain :: string
  EventBatch_BatchId :: string
  EventBatch_SentAt :: instant
  EventBatch_Events :: "csil_FederatedEvent list"

definition csilEncEventBatch :: "csil_EventBatch \<Rightarrow> csil_value" where
  "csilEncEventBatch v = pMap (concat [
     entry ''events'' (cborEncArray csilEncFederatedEvent (EventBatch_Events v)),
     entry ''sent_at'' (csilEncTimestamp (EventBatch_SentAt v)),
     entry ''batch_id'' (pText (EventBatch_BatchId v)),
     entry ''origin_domain'' (pText (EventBatch_OriginDomain v))])"

definition csilDecEventBatch :: "csil_value \<Rightarrow> csil_error + csil_EventBatch" where
  "csilDecEventBatch r =
     bindS (required r ''origin_domain'' cborAsText) (\<lambda>OriginDomain.
     bindS (required r ''batch_id'' cborAsText) (\<lambda>BatchId.
     bindS (required r ''sent_at'' csilAsTimestamp) (\<lambda>SentAt.
     bindS (required r ''events'' (cborDecArray csilDecFederatedEvent)) (\<lambda>Events.
     Inr \<lparr>EventBatch_OriginDomain = OriginDomain, EventBatch_BatchId = BatchId, EventBatch_SentAt = SentAt, EventBatch_Events = Events\<rparr>))))"

definition EventBatch_ok :: "csil_EventBatch \<Rightarrow> bool" where
  "EventBatch_ok v \<longleftrightarrow> text_ok (EventBatch_OriginDomain v) \<and> text_ok (EventBatch_BatchId v) \<and> time_ok (EventBatch_SentAt v)
    \<and> list_ok FederatedEvent_ok (EventBatch_Events v)"

lemma EventBatch_undone: "EventBatch_ok v \<Longrightarrow> csilDecEventBatch (received (csilEncEventBatch v)) = Inr v"
  by (cases v) (simp add: csilEncEventBatch_def csilDecEventBatch_def EventBatch_ok_def codec)

lemma EventBatch_sound: "EventBatch_ok v \<Longrightarrow> sendable 4 (csilEncEventBatch v)"
  unfolding csilEncEventBatch_def EventBatch_ok_def by (rule sendable_map) (simp_all add: codec)

interpretation EventBatch_message: message EventBatch_ok csilEncEventBatch csilDecEventBatch 4
  by unfold_locales (fact EventBatch_undone, fact EventBatch_sound)

record csil_SignedDelivery =
  SignedDelivery_SenderAddress :: string
  SignedDelivery_Algorithm :: string
  SignedDelivery_KeyId :: string
  SignedDelivery_Signature :: string
  SignedDelivery_Body :: bytes

definition csilEncSignedDelivery :: "csil_SignedDelivery \<Rightarrow> csil_value" where
  "csilEncSignedDelivery v = pMap (concat [
     entry ''body'' (pBytes (SignedDelivery_Body v)),
     entry ''key_id'' (pText (SignedDelivery_KeyId v)),
     entry ''algorithm'' (pText (SignedDelivery_Algorithm v)),
     entry ''signature'' (pText (SignedDelivery_Signature v)),
     entry ''sender_address'' (pText (SignedDelivery_SenderAddress v))])"

definition csilDecSignedDelivery :: "csil_value \<Rightarrow> csil_error + csil_SignedDelivery" where
  "csilDecSignedDelivery r =
     bindS (required r ''sender_address'' cborAsText) (\<lambda>SenderAddress.
     bindS (required r ''algorithm'' cborAsText) (\<lambda>Algorithm.
     bindS (required r ''key_id'' cborAsText) (\<lambda>KeyId.
     bindS (required r ''signature'' cborAsText) (\<lambda>Signature.
     bindS (required r ''body'' cborAsBytes) (\<lambda>Body.
     Inr \<lparr>SignedDelivery_SenderAddress = SenderAddress, SignedDelivery_Algorithm = Algorithm, SignedDelivery_KeyId = KeyId, SignedDelivery_Signature = Signature,
       SignedDelivery_Body = Body\<rparr>)))))"

definition SignedDelivery_ok :: "csil_SignedDelivery \<Rightarrow> bool" where
  "SignedDelivery_ok v \<longleftrightarrow> text_ok (SignedDelivery_SenderAddress v) \<and> text_ok (SignedDelivery_Algorithm v) \<and> text_ok (SignedDelivery_KeyId v)
    \<and> text_ok (SignedDelivery_Signature v) \<and> bytes_ok (SignedDelivery_Body v)"

lemma SignedDelivery_undone: "SignedDelivery_ok v \<Longrightarrow> csilDecSignedDelivery (received (csilEncSignedDelivery v)) = Inr v"
  by (cases v) (simp add: csilEncSignedDelivery_def csilDecSignedDelivery_def SignedDelivery_ok_def codec)

lemma SignedDelivery_sound: "SignedDelivery_ok v \<Longrightarrow> sendable 1 (csilEncSignedDelivery v)"
  unfolding csilEncSignedDelivery_def SignedDelivery_ok_def by (rule sendable_map) (simp_all add: codec)

interpretation SignedDelivery_message: message SignedDelivery_ok csilEncSignedDelivery csilDecSignedDelivery 1
  by unfold_locales (fact SignedDelivery_undone, fact SignedDelivery_sound)

record csil_DeliveryReceipt =
  DeliveryReceipt_Accepted :: "64 word"
  DeliveryReceipt_Rejected :: "64 word"
  DeliveryReceipt_Message :: "string option"
  DeliveryReceipt_RateLimited :: "64 word"

definition csilEncDeliveryReceipt :: "csil_DeliveryReceipt \<Rightarrow> csil_value" where
  "csilEncDeliveryReceipt v = pMap (concat [
     opt_entry ''message'' pText (DeliveryReceipt_Message v),
     entry ''accepted'' (pUint (DeliveryReceipt_Accepted v)),
     entry ''rejected'' (pUint (DeliveryReceipt_Rejected v)),
     entry ''rate_limited'' (pUint (DeliveryReceipt_RateLimited v))])"

definition csilDecDeliveryReceipt :: "csil_value \<Rightarrow> csil_error + csil_DeliveryReceipt" where
  "csilDecDeliveryReceipt r =
     bindS (required r ''accepted'' cborAsU64) (\<lambda>Accepted.
     bindS (required r ''rejected'' cborAsU64) (\<lambda>Rejected.
     bindS (optional_field r ''message'' cborAsText) (\<lambda>Message.
     bindS (required r ''rate_limited'' cborAsU64) (\<lambda>RateLimited.
     Inr \<lparr>DeliveryReceipt_Accepted = Accepted, DeliveryReceipt_Rejected = Rejected, DeliveryReceipt_Message = Message, DeliveryReceipt_RateLimited = RateLimited\<rparr>))))"

definition DeliveryReceipt_ok :: "csil_DeliveryReceipt \<Rightarrow> bool" where
  "DeliveryReceipt_ok v \<longleftrightarrow> pred_option text_ok (DeliveryReceipt_Message v)"

lemma DeliveryReceipt_undone: "DeliveryReceipt_ok v \<Longrightarrow> csilDecDeliveryReceipt (received (csilEncDeliveryReceipt v)) = Inr v"
  by (cases v) (simp add: csilEncDeliveryReceipt_def csilDecDeliveryReceipt_def DeliveryReceipt_ok_def codec)

lemma DeliveryReceipt_sound: "DeliveryReceipt_ok v \<Longrightarrow> sendable 1 (csilEncDeliveryReceipt v)"
  unfolding csilEncDeliveryReceipt_def DeliveryReceipt_ok_def by (rule sendable_map) (simp_all add: codec)

interpretation DeliveryReceipt_message: message DeliveryReceipt_ok csilEncDeliveryReceipt csilDecDeliveryReceipt 1
  by unfold_locales (fact DeliveryReceipt_undone, fact DeliveryReceipt_sound)

record csil_PeeringBody =
  PeeringBody_BaseUrl :: string
  PeeringBody_Note :: string
  PeeringBody_RequestedAt :: instant

definition csilEncPeeringBody :: "csil_PeeringBody \<Rightarrow> csil_value" where
  "csilEncPeeringBody v = pMap (concat [
     entry ''note'' (pText (PeeringBody_Note v)),
     entry ''base_url'' (pText (PeeringBody_BaseUrl v)),
     entry ''requested_at'' (csilEncTimestamp (PeeringBody_RequestedAt v))])"

definition csilDecPeeringBody :: "csil_value \<Rightarrow> csil_error + csil_PeeringBody" where
  "csilDecPeeringBody r =
     bindS (required r ''base_url'' cborAsText) (\<lambda>BaseUrl.
     bindS (required r ''note'' cborAsText) (\<lambda>Note.
     bindS (required r ''requested_at'' csilAsTimestamp) (\<lambda>RequestedAt.
     Inr \<lparr>PeeringBody_BaseUrl = BaseUrl, PeeringBody_Note = Note, PeeringBody_RequestedAt = RequestedAt\<rparr>)))"

definition PeeringBody_ok :: "csil_PeeringBody \<Rightarrow> bool" where
  "PeeringBody_ok v \<longleftrightarrow> text_ok (PeeringBody_BaseUrl v) \<and> text_ok (PeeringBody_Note v) \<and> time_ok (PeeringBody_RequestedAt v)"

lemma PeeringBody_undone: "PeeringBody_ok v \<Longrightarrow> csilDecPeeringBody (received (csilEncPeeringBody v)) = Inr v"
  by (cases v) (simp add: csilEncPeeringBody_def csilDecPeeringBody_def PeeringBody_ok_def codec)

lemma PeeringBody_sound: "PeeringBody_ok v \<Longrightarrow> sendable 2 (csilEncPeeringBody v)"
  unfolding csilEncPeeringBody_def PeeringBody_ok_def by (rule sendable_map) (simp_all add: codec)

interpretation PeeringBody_message: message PeeringBody_ok csilEncPeeringBody csilDecPeeringBody 2
  by unfold_locales (fact PeeringBody_undone, fact PeeringBody_sound)

record csil_SignedPeeringRequest =
  SignedPeeringRequest_SenderAddress :: string
  SignedPeeringRequest_Algorithm :: string
  SignedPeeringRequest_KeyId :: string
  SignedPeeringRequest_SubjectUserId :: string
  SignedPeeringRequest_SubjectDomain :: string
  SignedPeeringRequest_ApplicationId :: string
  SignedPeeringRequest_InstanceId :: string
  SignedPeeringRequest_Signature :: string
  SignedPeeringRequest_Body :: bytes

definition csilEncSignedPeeringRequest :: "csil_SignedPeeringRequest \<Rightarrow> csil_value" where
  "csilEncSignedPeeringRequest v = pMap (concat [
     entry ''body'' (pBytes (SignedPeeringRequest_Body v)),
     entry ''key_id'' (pText (SignedPeeringRequest_KeyId v)),
     entry ''algorithm'' (pText (SignedPeeringRequest_Algorithm v)),
     entry ''signature'' (pText (SignedPeeringRequest_Signature v)),
     entry ''instance_id'' (pText (SignedPeeringRequest_InstanceId v)),
     entry ''application_id'' (pText (SignedPeeringRequest_ApplicationId v)),
     entry ''sender_address'' (pText (SignedPeeringRequest_SenderAddress v)),
     entry ''subject_domain'' (pText (SignedPeeringRequest_SubjectDomain v)),
     entry ''subject_user_id'' (pText (SignedPeeringRequest_SubjectUserId v))])"

definition csilDecSignedPeeringRequest :: "csil_value \<Rightarrow> csil_error + csil_SignedPeeringRequest" where
  "csilDecSignedPeeringRequest r =
     bindS (required r ''sender_address'' cborAsText) (\<lambda>SenderAddress.
     bindS (required r ''algorithm'' cborAsText) (\<lambda>Algorithm.
     bindS (required r ''key_id'' cborAsText) (\<lambda>KeyId.
     bindS (required r ''subject_user_id'' cborAsText) (\<lambda>SubjectUserId.
     bindS (required r ''subject_domain'' cborAsText) (\<lambda>SubjectDomain.
     bindS (required r ''application_id'' cborAsText) (\<lambda>ApplicationId.
     bindS (required r ''instance_id'' cborAsText) (\<lambda>InstanceId.
     bindS (required r ''signature'' cborAsText) (\<lambda>Signature.
     bindS (required r ''body'' cborAsBytes) (\<lambda>Body.
     Inr \<lparr>SignedPeeringRequest_SenderAddress = SenderAddress, SignedPeeringRequest_Algorithm = Algorithm, SignedPeeringRequest_KeyId = KeyId, SignedPeeringRequest_SubjectUserId = SubjectUserId,
       SignedPeeringRequest_SubjectDomain = SubjectDomain, SignedPeeringRequest_ApplicationId = ApplicationId, SignedPeeringRequest_InstanceId = InstanceId, SignedPeeringRequest_Signature = Signature,
       SignedPeeringRequest_Body = Body\<rparr>)))))))))"

definition SignedPeeringRequest_ok :: "csil_SignedPeeringRequest \<Rightarrow> bool" where
  "SignedPeeringRequest_ok v \<longleftrightarrow> text_ok (SignedPeeringRequest_SenderAddress v) \<and> text_ok (SignedPeeringRequest_Algorithm v) \<and> text_ok (SignedPeeringRequest_KeyId v)
    \<and> text_ok (SignedPeeringRequest_SubjectUserId v) \<and> text_ok (SignedPeeringRequest_SubjectDomain v) \<and> text_ok (SignedPeeringRequest_ApplicationId v)
    \<and> text_ok (SignedPeeringRequest_InstanceId v) \<and> text_ok (SignedPeeringRequest_Signature v) \<and> bytes_ok (SignedPeeringRequest_Body v)"

lemma SignedPeeringRequest_undone: "SignedPeeringRequest_ok v \<Longrightarrow> csilDecSignedPeeringRequest (received (csilEncSignedPeeringRequest v)) = Inr v"
  by (cases v) (simp add: csilEncSignedPeeringRequest_def csilDecSignedPeeringRequest_def SignedPeeringRequest_ok_def codec)

lemma SignedPeeringRequest_sound: "SignedPeeringRequest_ok v \<Longrightarrow> sendable 1 (csilEncSignedPeeringRequest v)"
  unfolding csilEncSignedPeeringRequest_def SignedPeeringRequest_ok_def by (rule sendable_map) (simp_all add: codec)

interpretation SignedPeeringRequest_message: message SignedPeeringRequest_ok csilEncSignedPeeringRequest csilDecSignedPeeringRequest 1
  by unfold_locales (fact SignedPeeringRequest_undone, fact SignedPeeringRequest_sound)

record csil_PeeringReceipt =
  PeeringReceipt_Status :: string

definition csilEncPeeringReceipt :: "csil_PeeringReceipt \<Rightarrow> csil_value" where
  "csilEncPeeringReceipt v = pMap (concat [
     entry ''status'' (pText (PeeringReceipt_Status v))])"

definition csilDecPeeringReceipt :: "csil_value \<Rightarrow> csil_error + csil_PeeringReceipt" where
  "csilDecPeeringReceipt r =
     bindS (required r ''status'' (as_enum PeerStatus_names)) (\<lambda>Status.
     Inr \<lparr>PeeringReceipt_Status = Status\<rparr>)"

definition PeeringReceipt_ok :: "csil_PeeringReceipt \<Rightarrow> bool" where
  "PeeringReceipt_ok v \<longleftrightarrow> enum_ok PeerStatus_names (PeeringReceipt_Status v)"

lemma PeeringReceipt_undone: "PeeringReceipt_ok v \<Longrightarrow> csilDecPeeringReceipt (received (csilEncPeeringReceipt v)) = Inr v"
  by (cases v) (simp add: csilEncPeeringReceipt_def csilDecPeeringReceipt_def PeeringReceipt_ok_def codec)

lemma PeeringReceipt_sound: "PeeringReceipt_ok v \<Longrightarrow> sendable 1 (csilEncPeeringReceipt v)"
  unfolding csilEncPeeringReceipt_def PeeringReceipt_ok_def by (rule sendable_map) (simp_all add: codec)

interpretation PeeringReceipt_message: message PeeringReceipt_ok csilEncPeeringReceipt csilDecPeeringReceipt 1
  by unfold_locales (fact PeeringReceipt_undone, fact PeeringReceipt_sound)

record csil_RemoteEvent =
  RemoteEvent_Id :: string
  RemoteEvent_PeerAddress :: string
  RemoteEvent_Origin :: csil_Origin
  RemoteEvent_OriginDomain :: string
  RemoteEvent_RemoteId :: string
  RemoteEvent_CanonicalUrl :: string
  RemoteEvent_Title :: string
  RemoteEvent_IsOnline :: bool
  RemoteEvent_IsInPerson :: bool
  RemoteEvent_Location :: "csil_Location option"
  RemoteEvent_StartsAt :: instant
  RemoteEvent_EndsAt :: instant
  RemoteEvent_Timezone :: string
  RemoteEvent_GatheringName :: string
  RemoteEvent_OrganizationName :: string
  RemoteEvent_ReceivedAt :: instant

definition csilEncRemoteEvent :: "csil_RemoteEvent \<Rightarrow> csil_value" where
  "csilEncRemoteEvent v = pMap (concat [
     entry ''id'' (pText (RemoteEvent_Id v)),
     entry ''title'' (pText (RemoteEvent_Title v)),
     entry ''origin'' (csilEncOrigin (RemoteEvent_Origin v)),
     entry ''ends_at'' (csilEncTimestamp (RemoteEvent_EndsAt v)),
     opt_entry ''location'' csilEncLocation (RemoteEvent_Location v),
     entry ''timezone'' (pText (RemoteEvent_Timezone v)),
     entry ''is_online'' (pBool (RemoteEvent_IsOnline v)),
     entry ''remote_id'' (pText (RemoteEvent_RemoteId v)),
     entry ''starts_at'' (csilEncTimestamp (RemoteEvent_StartsAt v)),
     entry ''received_at'' (csilEncTimestamp (RemoteEvent_ReceivedAt v)),
     entry ''is_in_person'' (pBool (RemoteEvent_IsInPerson v)),
     entry ''peer_address'' (pText (RemoteEvent_PeerAddress v)),
     entry ''canonical_url'' (pText (RemoteEvent_CanonicalUrl v)),
     entry ''origin_domain'' (pText (RemoteEvent_OriginDomain v)),
     entry ''gathering_name'' (pText (RemoteEvent_GatheringName v)),
     entry ''organization_name'' (pText (RemoteEvent_OrganizationName v))])"

definition csilDecRemoteEvent :: "csil_value \<Rightarrow> csil_error + csil_RemoteEvent" where
  "csilDecRemoteEvent r =
     bindS (required r ''id'' cborAsText) (\<lambda>Id.
     bindS (required r ''peer_address'' cborAsText) (\<lambda>PeerAddress.
     bindS (required r ''origin'' csilDecOrigin) (\<lambda>Origin.
     bindS (required r ''origin_domain'' cborAsText) (\<lambda>OriginDomain.
     bindS (required r ''remote_id'' cborAsText) (\<lambda>RemoteId.
     bindS (required r ''canonical_url'' cborAsText) (\<lambda>CanonicalUrl.
     bindS (required r ''title'' cborAsText) (\<lambda>Title.
     bindS (required r ''is_online'' cborAsBool) (\<lambda>IsOnline.
     bindS (required r ''is_in_person'' cborAsBool) (\<lambda>IsInPerson.
     bindS (optional_field r ''location'' csilDecLocation) (\<lambda>Location.
     bindS (required r ''starts_at'' csilAsTimestamp) (\<lambda>StartsAt.
     bindS (required r ''ends_at'' csilAsTimestamp) (\<lambda>EndsAt.
     bindS (required r ''timezone'' cborAsText) (\<lambda>Timezone.
     bindS (required r ''gathering_name'' cborAsText) (\<lambda>GatheringName.
     bindS (required r ''organization_name'' cborAsText) (\<lambda>OrganizationName.
     bindS (required r ''received_at'' csilAsTimestamp) (\<lambda>ReceivedAt.
     Inr \<lparr>RemoteEvent_Id = Id, RemoteEvent_PeerAddress = PeerAddress, RemoteEvent_Origin = Origin, RemoteEvent_OriginDomain = OriginDomain,
       RemoteEvent_RemoteId = RemoteId, RemoteEvent_CanonicalUrl = CanonicalUrl, RemoteEvent_Title = Title, RemoteEvent_IsOnline = IsOnline,
       RemoteEvent_IsInPerson = IsInPerson, RemoteEvent_Location = Location, RemoteEvent_StartsAt = StartsAt, RemoteEvent_EndsAt = EndsAt,
       RemoteEvent_Timezone = Timezone, RemoteEvent_GatheringName = GatheringName, RemoteEvent_OrganizationName = OrganizationName, RemoteEvent_ReceivedAt = ReceivedAt\<rparr>))))))))))))))))"

definition RemoteEvent_ok :: "csil_RemoteEvent \<Rightarrow> bool" where
  "RemoteEvent_ok v \<longleftrightarrow> text_ok (RemoteEvent_Id v) \<and> text_ok (RemoteEvent_PeerAddress v) \<and> Origin_ok (RemoteEvent_Origin v)
    \<and> text_ok (RemoteEvent_OriginDomain v) \<and> text_ok (RemoteEvent_RemoteId v) \<and> text_ok (RemoteEvent_CanonicalUrl v)
    \<and> text_ok (RemoteEvent_Title v) \<and> pred_option Location_ok (RemoteEvent_Location v) \<and> time_ok (RemoteEvent_StartsAt v)
    \<and> time_ok (RemoteEvent_EndsAt v) \<and> text_ok (RemoteEvent_Timezone v) \<and> text_ok (RemoteEvent_GatheringName v)
    \<and> text_ok (RemoteEvent_OrganizationName v) \<and> time_ok (RemoteEvent_ReceivedAt v)"

lemma RemoteEvent_undone: "RemoteEvent_ok v \<Longrightarrow> csilDecRemoteEvent (received (csilEncRemoteEvent v)) = Inr v"
  by (cases v) (simp add: csilEncRemoteEvent_def csilDecRemoteEvent_def RemoteEvent_ok_def codec)

lemma RemoteEvent_sound: "RemoteEvent_ok v \<Longrightarrow> sendable 2 (csilEncRemoteEvent v)"
  unfolding csilEncRemoteEvent_def RemoteEvent_ok_def by (rule sendable_map) (simp_all add: codec)

interpretation RemoteEvent_message: message RemoteEvent_ok csilEncRemoteEvent csilDecRemoteEvent 2
  by unfold_locales (fact RemoteEvent_undone, fact RemoteEvent_sound)

lemmas RemoteEvent_codec [codec] = RemoteEvent_message.undone RemoteEvent_message.behind_pointer RemoteEvent_message.in_slice
  RemoteEvent_message.sent RemoteEvent_message.sent_behind_pointer RemoteEvent_message.sent_in_slice

record csil_RemoteEventList =
  RemoteEventList_Events :: "csil_RemoteEvent list"
  RemoteEventList_Total :: "64 word"

definition csilEncRemoteEventList :: "csil_RemoteEventList \<Rightarrow> csil_value" where
  "csilEncRemoteEventList v = pMap (concat [
     entry ''total'' (pUint (RemoteEventList_Total v)),
     entry ''events'' (cborEncArray csilEncRemoteEvent (RemoteEventList_Events v))])"

definition csilDecRemoteEventList :: "csil_value \<Rightarrow> csil_error + csil_RemoteEventList" where
  "csilDecRemoteEventList r =
     bindS (required r ''events'' (cborDecArray csilDecRemoteEvent)) (\<lambda>Events.
     bindS (required r ''total'' cborAsU64) (\<lambda>Total.
     Inr \<lparr>RemoteEventList_Events = Events, RemoteEventList_Total = Total\<rparr>))"

definition RemoteEventList_ok :: "csil_RemoteEventList \<Rightarrow> bool" where
  "RemoteEventList_ok v \<longleftrightarrow> list_ok RemoteEvent_ok (RemoteEventList_Events v)"

lemma RemoteEventList_undone: "RemoteEventList_ok v \<Longrightarrow> csilDecRemoteEventList (received (csilEncRemoteEventList v)) = Inr v"
  by (cases v) (simp add: csilEncRemoteEventList_def csilDecRemoteEventList_def RemoteEventList_ok_def codec)

lemma RemoteEventList_sound: "RemoteEventList_ok v \<Longrightarrow> sendable 4 (csilEncRemoteEventList v)"
  unfolding csilEncRemoteEventList_def RemoteEventList_ok_def by (rule sendable_map) (simp_all add: codec)

interpretation RemoteEventList_message: message RemoteEventList_ok csilEncRemoteEventList csilDecRemoteEventList 4
  by unfold_locales (fact RemoteEventList_undone, fact RemoteEventList_sound)

record csil_ListRemoteEventsRequest =
  ListRemoteEventsRequest_Query :: "string option"
  ListRemoteEventsRequest_StartsAfter :: "instant option"
  ListRemoteEventsRequest_StartsBefore :: "instant option"
  ListRemoteEventsRequest_Page :: "csil_Page option"

definition csilEncListRemoteEventsRequest :: "csil_ListRemoteEventsRequest \<Rightarrow> csil_value" where
  "csilEncListRemoteEventsRequest v = pMap (concat [
     opt_entry ''page'' csilEncPage (ListRemoteEventsRequest_Page v),
     opt_entry ''query'' pText (ListRemoteEventsRequest_Query v),
     opt_entry ''starts_after'' csilEncTimestamp (ListRemoteEventsRequest_StartsAfter v),
     opt_entry ''starts_before'' csilEncTimestamp (ListRemoteEventsRequest_StartsBefore v)])"

definition csilDecListRemoteEventsRequest :: "csil_value \<Rightarrow> csil_error + csil_ListRemoteEventsRequest" where
  "csilDecListRemoteEventsRequest r =
     bindS (optional_field r ''query'' cborAsText) (\<lambda>Query.
     bindS (optional_field r ''starts_after'' csilAsTimestamp) (\<lambda>StartsAfter.
     bindS (optional_field r ''starts_before'' csilAsTimestamp) (\<lambda>StartsBefore.
     bindS (optional_field r ''page'' csilDecPage) (\<lambda>Page.
     Inr \<lparr>ListRemoteEventsRequest_Query = Query, ListRemoteEventsRequest_StartsAfter = StartsAfter, ListRemoteEventsRequest_StartsBefore = StartsBefore, ListRemoteEventsRequest_Page = Page\<rparr>))))"

definition ListRemoteEventsRequest_ok :: "csil_ListRemoteEventsRequest \<Rightarrow> bool" where
  "ListRemoteEventsRequest_ok v \<longleftrightarrow> pred_option text_ok (ListRemoteEventsRequest_Query v) \<and> pred_option time_ok (ListRemoteEventsRequest_StartsAfter v) \<and> pred_option time_ok (ListRemoteEventsRequest_StartsBefore v)
    \<and> pred_option Page_ok (ListRemoteEventsRequest_Page v)"

lemma ListRemoteEventsRequest_undone: "ListRemoteEventsRequest_ok v \<Longrightarrow> csilDecListRemoteEventsRequest (received (csilEncListRemoteEventsRequest v)) = Inr v"
  by (cases v) (simp add: csilEncListRemoteEventsRequest_def csilDecListRemoteEventsRequest_def ListRemoteEventsRequest_ok_def codec)

lemma ListRemoteEventsRequest_sound: "ListRemoteEventsRequest_ok v \<Longrightarrow> sendable 2 (csilEncListRemoteEventsRequest v)"
  unfolding csilEncListRemoteEventsRequest_def ListRemoteEventsRequest_ok_def by (rule sendable_map) (simp_all add: codec)

interpretation ListRemoteEventsRequest_message: message ListRemoteEventsRequest_ok csilEncListRemoteEventsRequest csilDecListRemoteEventsRequest 2
  by unfold_locales (fact ListRemoteEventsRequest_undone, fact ListRemoteEventsRequest_sound)

record csil_OriginVolume =
  OriginVolume_PeerId :: string
  OriginVolume_PeerAddress :: string
  OriginVolume_OrganizationName :: string
  OriginVolume_Held :: "64 word"
  OriginVolume_AcceptedTotal :: "64 word"
  OriginVolume_AcceptedThisMinute :: "64 word"
  OriginVolume_LastReceivedAt :: "instant option"
  OriginVolume_PeerRateLimitPerMinute :: "64 word"
  OriginVolume_PeerRateLimitedTotal :: "64 word"
  OriginVolume_PeerSuspended :: bool
  OriginVolume_RateLimitPerMinute :: "64 word option"
  OriginVolume_EffectiveRateLimitPerMinute :: "64 word"
  OriginVolume_RateLimitedTotal :: "64 word"

definition csilEncOriginVolume :: "csil_OriginVolume \<Rightarrow> csil_value" where
  "csilEncOriginVolume v = pMap (concat [
     entry ''held'' (pUint (OriginVolume_Held v)),
     entry ''peer_id'' (pText (OriginVolume_PeerId v)),
     entry ''peer_address'' (pText (OriginVolume_PeerAddress v)),
     entry ''accepted_total'' (pUint (OriginVolume_AcceptedTotal v)),
     entry ''peer_suspended'' (pBool (OriginVolume_PeerSuspended v)),
     opt_entry ''last_received_at'' csilEncTimestamp (OriginVolume_LastReceivedAt v),
     entry ''organization_name'' (pText (OriginVolume_OrganizationName v)),
     entry ''rate_limited_total'' (pUint (OriginVolume_RateLimitedTotal v)),
     entry ''accepted_this_minute'' (pUint (OriginVolume_AcceptedThisMinute v)),
     opt_entry ''rate_limit_per_minute'' pUint (OriginVolume_RateLimitPerMinute v),
     entry ''peer_rate_limited_total'' (pUint (OriginVolume_PeerRateLimitedTotal v)),
     entry ''peer_rate_limit_per_minute'' (pUint (OriginVolume_PeerRateLimitPerMinute v)),
     entry ''effective_rate_limit_per_minute'' (pUint (OriginVolume_EffectiveRateLimitPerMinute v))])"

definition csilDecOriginVolume :: "csil_value \<Rightarrow> csil_error + csil_OriginVolume" where
  "csilDecOriginVolume r =
     bindS (required r ''peer_id'' cborAsText) (\<lambda>PeerId.
     bindS (required r ''peer_address'' cborAsText) (\<lambda>PeerAddress.
     bindS (required r ''organization_name'' cborAsText) (\<lambda>OrganizationName.
     bindS (required r ''held'' cborAsU64) (\<lambda>Held.
     bindS (required r ''accepted_total'' cborAsU64) (\<lambda>AcceptedTotal.
     bindS (required r ''accepted_this_minute'' cborAsU64) (\<lambda>AcceptedThisMinute.
     bindS (optional_field r ''last_received_at'' csilAsTimestamp) (\<lambda>LastReceivedAt.
     bindS (required r ''peer_rate_limit_per_minute'' cborAsU64) (\<lambda>PeerRateLimitPerMinute.
     bindS (required r ''peer_rate_limited_total'' cborAsU64) (\<lambda>PeerRateLimitedTotal.
     bindS (required r ''peer_suspended'' cborAsBool) (\<lambda>PeerSuspended.
     bindS (optional_field r ''rate_limit_per_minute'' cborAsU64) (\<lambda>RateLimitPerMinute.
     bindS (required r ''effective_rate_limit_per_minute'' cborAsU64) (\<lambda>EffectiveRateLimitPerMinute.
     bindS (required r ''rate_limited_total'' cborAsU64) (\<lambda>RateLimitedTotal.
     Inr \<lparr>OriginVolume_PeerId = PeerId, OriginVolume_PeerAddress = PeerAddress, OriginVolume_OrganizationName = OrganizationName, OriginVolume_Held = Held,
       OriginVolume_AcceptedTotal = AcceptedTotal, OriginVolume_AcceptedThisMinute = AcceptedThisMinute, OriginVolume_LastReceivedAt = LastReceivedAt, OriginVolume_PeerRateLimitPerMinute = PeerRateLimitPerMinute,
       OriginVolume_PeerRateLimitedTotal = PeerRateLimitedTotal, OriginVolume_PeerSuspended = PeerSuspended, OriginVolume_RateLimitPerMinute = RateLimitPerMinute, OriginVolume_EffectiveRateLimitPerMinute = EffectiveRateLimitPerMinute,
       OriginVolume_RateLimitedTotal = RateLimitedTotal\<rparr>)))))))))))))"

definition OriginVolume_ok :: "csil_OriginVolume \<Rightarrow> bool" where
  "OriginVolume_ok v \<longleftrightarrow> text_ok (OriginVolume_PeerId v) \<and> text_ok (OriginVolume_PeerAddress v) \<and> text_ok (OriginVolume_OrganizationName v)
    \<and> pred_option time_ok (OriginVolume_LastReceivedAt v)"

lemma OriginVolume_undone: "OriginVolume_ok v \<Longrightarrow> csilDecOriginVolume (received (csilEncOriginVolume v)) = Inr v"
  by (cases v) (simp add: csilEncOriginVolume_def csilDecOriginVolume_def OriginVolume_ok_def codec)

lemma OriginVolume_sound: "OriginVolume_ok v \<Longrightarrow> sendable 2 (csilEncOriginVolume v)"
  unfolding csilEncOriginVolume_def OriginVolume_ok_def by (rule sendable_map) (simp_all add: codec)

interpretation OriginVolume_message: message OriginVolume_ok csilEncOriginVolume csilDecOriginVolume 2
  by unfold_locales (fact OriginVolume_undone, fact OriginVolume_sound)

lemmas OriginVolume_codec [codec] = OriginVolume_message.undone OriginVolume_message.behind_pointer OriginVolume_message.in_slice
  OriginVolume_message.sent OriginVolume_message.sent_behind_pointer OriginVolume_message.sent_in_slice

record csil_SetOriginRateLimitRequest =
  SetOriginRateLimitRequest_PeerId :: string
  SetOriginRateLimitRequest_OrganizationName :: string
  SetOriginRateLimitRequest_RateLimitPerMinute :: "64 word option"

definition csilEncSetOriginRateLimitRequest :: "csil_SetOriginRateLimitRequest \<Rightarrow> csil_value" where
  "csilEncSetOriginRateLimitRequest v = pMap (concat [
     entry ''peer_id'' (pText (SetOriginRateLimitRequest_PeerId v)),
     entry ''organization_name'' (pText (SetOriginRateLimitRequest_OrganizationName v)),
     opt_entry ''rate_limit_per_minute'' pUint (SetOriginRateLimitRequest_RateLimitPerMinute v)])"

definition csilDecSetOriginRateLimitRequest :: "csil_value \<Rightarrow> csil_error + csil_SetOriginRateLimitRequest" where
  "csilDecSetOriginRateLimitRequest r =
     bindS (required r ''peer_id'' cborAsText) (\<lambda>PeerId.
     bindS (required r ''organization_name'' cborAsText) (\<lambda>OrganizationName.
     bindS (optional_field r ''rate_limit_per_minute'' cborAsU64) (\<lambda>RateLimitPerMinute.
     Inr \<lparr>SetOriginRateLimitRequest_PeerId = PeerId, SetOriginRateLimitRequest_OrganizationName = OrganizationName, SetOriginRateLimitRequest_RateLimitPerMinute = RateLimitPerMinute\<rparr>)))"

definition SetOriginRateLimitRequest_ok :: "csil_SetOriginRateLimitRequest \<Rightarrow> bool" where
  "SetOriginRateLimitRequest_ok v \<longleftrightarrow> text_ok (SetOriginRateLimitRequest_PeerId v) \<and> text_ok (SetOriginRateLimitRequest_OrganizationName v)"

lemma SetOriginRateLimitRequest_undone: "SetOriginRateLimitRequest_ok v \<Longrightarrow> csilDecSetOriginRateLimitRequest (received (csilEncSetOriginRateLimitRequest v)) = Inr v"
  by (cases v) (simp add: csilEncSetOriginRateLimitRequest_def csilDecSetOriginRateLimitRequest_def SetOriginRateLimitRequest_ok_def codec)

lemma SetOriginRateLimitRequest_sound: "SetOriginRateLimitRequest_ok v \<Longrightarrow> sendable 1 (csilEncSetOriginRateLimitRequest v)"
  unfolding csilEncSetOriginRateLimitRequest_def SetOriginRateLimitRequest_ok_def by (rule sendable_map) (simp_all add: codec)

interpretation SetOriginRateLimitRequest_message: message SetOriginRateLimitRequest_ok csilEncSetOriginRateLimitRequest csilDecSetOriginRateLimitRequest 1
  by unfold_locales (fact SetOriginRateLimitRequest_undone, fact SetOriginRateLimitRequest_sound)

record csil_OriginVolumeList =
  OriginVolumeList_Origins :: "csil_OriginVolume list"
  OriginVolumeList_Total :: "64 word"

definition csilEncOriginVolumeList :: "csil_OriginVolumeList \<Rightarrow> csil_value" where
  "csilEncOriginVolumeList v = pMap (concat [
     entry ''total'' (pUint (OriginVolumeList_Total v)),
     entry ''origins'' (cborEncArray csilEncOriginVolume (OriginVolumeList_Origins v))])"

definition csilDecOriginVolumeList :: "csil_value \<Rightarrow> csil_error + csil_OriginVolumeList" where
  "csilDecOriginVolumeList r =
     bindS (required r ''origins'' (cborDecArray csilDecOriginVolume)) (\<lambda>Origins.
     bindS (required r ''total'' cborAsU64) (\<lambda>Total.
     Inr \<lparr>OriginVolumeList_Origins = Origins, OriginVolumeList_Total = Total\<rparr>))"

definition OriginVolumeList_ok :: "csil_OriginVolumeList \<Rightarrow> bool" where
  "OriginVolumeList_ok v \<longleftrightarrow> list_ok OriginVolume_ok (OriginVolumeList_Origins v)"

lemma OriginVolumeList_undone: "OriginVolumeList_ok v \<Longrightarrow> csilDecOriginVolumeList (received (csilEncOriginVolumeList v)) = Inr v"
  by (cases v) (simp add: csilEncOriginVolumeList_def csilDecOriginVolumeList_def OriginVolumeList_ok_def codec)

lemma OriginVolumeList_sound: "OriginVolumeList_ok v \<Longrightarrow> sendable 4 (csilEncOriginVolumeList v)"
  unfolding csilEncOriginVolumeList_def OriginVolumeList_ok_def by (rule sendable_map) (simp_all add: codec)

interpretation OriginVolumeList_message: message OriginVolumeList_ok csilEncOriginVolumeList csilDecOriginVolumeList 4
  by unfold_locales (fact OriginVolumeList_undone, fact OriginVolumeList_sound)

record csil_ListOriginVolumeRequest =
  ListOriginVolumeRequest_PeerId :: "string option"
  ListOriginVolumeRequest_Page :: "csil_Page option"

definition csilEncListOriginVolumeRequest :: "csil_ListOriginVolumeRequest \<Rightarrow> csil_value" where
  "csilEncListOriginVolumeRequest v = pMap (concat [
     opt_entry ''page'' csilEncPage (ListOriginVolumeRequest_Page v),
     opt_entry ''peer_id'' pText (ListOriginVolumeRequest_PeerId v)])"

definition csilDecListOriginVolumeRequest :: "csil_value \<Rightarrow> csil_error + csil_ListOriginVolumeRequest" where
  "csilDecListOriginVolumeRequest r =
     bindS (optional_field r ''peer_id'' cborAsText) (\<lambda>PeerId.
     bindS (optional_field r ''page'' csilDecPage) (\<lambda>Page.
     Inr \<lparr>ListOriginVolumeRequest_PeerId = PeerId, ListOriginVolumeRequest_Page = Page\<rparr>))"

definition ListOriginVolumeRequest_ok :: "csil_ListOriginVolumeRequest \<Rightarrow> bool" where
  "ListOriginVolumeRequest_ok v \<longleftrightarrow> pred_option text_ok (ListOriginVolumeRequest_PeerId v) \<and> pred_option Page_ok (ListOriginVolumeRequest_Page v)"

lemma ListOriginVolumeRequest_undone: "ListOriginVolumeRequest_ok v \<Longrightarrow> csilDecListOriginVolumeRequest (received (csilEncListOriginVolumeRequest v)) = Inr v"
  by (cases v) (simp add: csilEncListOriginVolumeRequest_def csilDecListOriginVolumeRequest_def ListOriginVolumeRequest_ok_def codec)

lemma ListOriginVolumeRequest_sound: "ListOriginVolumeRequest_ok v \<Longrightarrow> sendable 2 (csilEncListOriginVolumeRequest v)"
  unfolding csilEncListOriginVolumeRequest_def ListOriginVolumeRequest_ok_def by (rule sendable_map) (simp_all add: codec)

interpretation ListOriginVolumeRequest_message: message ListOriginVolumeRequest_ok csilEncListOriginVolumeRequest csilDecListOriginVolumeRequest 2
  by unfold_locales (fact ListOriginVolumeRequest_undone, fact ListOriginVolumeRequest_sound)

end
