(* ===== verification/Rpc.thy ===== *)
theory Rpc
  imports Cbor
begin

text \<open>
  \<open>transport/conventions.go\<close>, \<open>rpc.go\<close> and \<open>carrier.go\<close>: statuses, payload tags, field
  access, the three envelopes and the length-prefixed frames.  Error messages are left
  out; a decoder answers a value, an error or a panic.
\<close>

section \<open>Conventions\<close>

definition VERSION :: "64 word" where "VERSION = 1"
definition TagEncodedCBOR :: "64 word" where "TagEncodedCBOR = 24"
definition MaxFrameDefault :: nat where "MaxFrameDefault = 16 * 1024 * 1024"
definition MaxFrameLimit :: int where "MaxFrameLimit = 2147483647"

definition ValidateMaxFrame :: "int \<Rightarrow> bool" where
  "ValidateMaxFrame maxFrame \<longleftrightarrow> \<not> (maxFrame < 1 \<or> maxFrame > MaxFrameLimit)"

text \<open>A status is its code, an int64.\<close>
type_synonym Status = "64 word"

definition StatusOk :: Status where "StatusOk = 0"
definition StatusMalformedEnvelope :: Status where "StatusMalformedEnvelope = 1"
definition StatusUnknownServiceOrOp :: Status where "StatusUnknownServiceOrOp = 2"
definition StatusInternal :: Status where "StatusInternal = 6"

definition IsOk :: "Status \<Rightarrow> bool" where "IsOk st \<longleftrightarrow> st = 0"

definition StatusName :: "Status \<Rightarrow> string" where
  "StatusName st =
     (if st = 0 then ''ok'' else if st = 1 then ''malformed-envelope'' else if st = 2 then ''unknown-service-or-op''
      else if st = 3 then ''unauthenticated'' else if st = 4 then ''forbidden'' else if st = 5 then ''version-unsupported''
      else if st = 6 then ''internal'' else if st = 7 then ''unavailable'' else if st = 8 then ''deadline-exceeded''
      else ''other'')"

definition tag24 :: "bytes \<Rightarrow> cborValue" where
  "tag24 payload = cTag TagEncodedCBOR (cBytes payload)"

definition untag24 :: "cborValue \<Rightarrow> bytes run" where
  "untag24 v = (case v of
      cTag num content \<Rightarrow> if num \<noteq> TagEncodedCBOR then DecodeError
        else (case content of cBytes b \<Rightarrow> Returns b | _ \<Rightarrow> DecodeError)
    | _ \<Rightarrow> DecodeError)"

fun entry_of :: "(cborValue \<times> cborValue) list \<Rightarrow> string \<Rightarrow> cborValue option" where
  "entry_of [] key = None"
| "entry_of ((k, v) # m) key = (if k = cText key then Some v else entry_of m key)"

definition mapGet :: "cborValue \<Rightarrow> string \<Rightarrow> cborValue option" where
  "mapGet v key = (case v of cMap m \<Rightarrow> entry_of m key | _ \<Rightarrow> None)"

definition asU64 :: "cborValue \<Rightarrow> 64 word option" where
  "asU64 v = (case v of cUint x \<Rightarrow> Some x | cInt x \<Rightarrow> if 0 \<le> sint x then Some x else None | _ \<Rightarrow> None)"

definition asI64 :: "cborValue \<Rightarrow> 64 word option" where
  "asI64 v = (case v of cUint x \<Rightarrow> Some x | cInt x \<Rightarrow> Some x | _ \<Rightarrow> None)"

definition found_or_error :: "'a option \<Rightarrow> 'a run" where
  "found_or_error x = (case x of None \<Rightarrow> DecodeError | Some y \<Rightarrow> Returns y)"

definition getUint :: "cborValue \<Rightarrow> string \<Rightarrow> 64 word run" where
  "getUint m key = found_or_error (Option.bind (mapGet m key) asU64)"

definition getInt :: "cborValue \<Rightarrow> string \<Rightarrow> 64 word run" where
  "getInt m key = found_or_error (Option.bind (mapGet m key) asI64)"

definition asText :: "cborValue \<Rightarrow> string option" where
  "asText v = (case v of cText t \<Rightarrow> Some t | _ \<Rightarrow> None)"

definition getText :: "cborValue \<Rightarrow> string \<Rightarrow> string run" where
  "getText m key = found_or_error (Option.bind (mapGet m key) asText)"

definition getTextOpt :: "cborValue \<Rightarrow> string \<Rightarrow> string option" where
  "getTextOpt m key = Option.bind (mapGet m key) asText"

definition getUintOpt :: "cborValue \<Rightarrow> string \<Rightarrow> 64 word option" where
  "getUintOpt m key = Option.bind (mapGet m key) asU64"

definition checkVersion :: "64 word \<Rightarrow> unit run" where
  "checkVersion v = (if v = VERSION then Returns () else DecodeError)"

text \<open>An envelope's entries, the optional ones only when they are there.\<close>
definition envelope_map :: "(string \<times> cborValue) list \<Rightarrow> cborValue" where
  "envelope_map kvs = canonMap (map (\<lambda>(k, v). (cText k, v)) kvs)"

definition optional :: "string \<Rightarrow> ('a \<Rightarrow> cborValue) \<Rightarrow> 'a option \<Rightarrow> (string \<times> cborValue) list" where
  "optional key wrap x = (case x of None \<Rightarrow> [] | Some y \<Rightarrow> [(key, wrap y)])"

section \<open>Envelopes\<close>

record RpcRequest =
  rqService :: string
  rqOp :: string
  rqID :: "64 word option"
  rqPayload :: bytes
  rqAuth :: "string option"

record RpcResponse =
  rsID :: "64 word option"
  rsStatus :: Status
  rsVariant :: "string option"
  rsError :: "string option"
  rsPayload :: bytes

record RpcPush =
  puService :: string
  puEvent :: string
  puPayload :: bytes

definition NewRpcRequest :: "string \<Rightarrow> string \<Rightarrow> bytes \<Rightarrow> RpcRequest" where
  "NewRpcRequest service op payload = \<lparr>rqService = service, rqOp = op, rqID = None, rqPayload = payload, rqAuth = None\<rparr>"

definition EncodeRpcRequest :: "RpcRequest \<Rightarrow> bytes" where
  "EncodeRpcRequest r = encodeValue (envelope_map (
     [(''v'', cUint VERSION), (''service'', cText (rqService r)), (''op'', cText (rqOp r)), (''payload'', tag24 (rqPayload r))]
     @ optional ''id'' cUint (rqID r) @ optional ''auth'' cText (rqAuth r)))"

definition DecodeRpcRequest :: "nat \<Rightarrow> bytes \<Rightarrow> RpcRequest run" where
  "DecodeRpcRequest room b =
     bindR (decodeEnvelope room b) (\<lambda>(v, _).
     bindR (getUint v ''v'') (\<lambda>ver.
     bindR (checkVersion ver) (\<lambda>_.
     bindR (found_or_error (mapGet v ''payload'')) (\<lambda>p.
     bindR (untag24 p) (\<lambda>payload.
     bindR (getText v ''service'') (\<lambda>service.
     bindR (getText v ''op'') (\<lambda>op.
     Returns \<lparr>rqService = service, rqOp = op, rqID = getUintOpt v ''id'', rqPayload = payload,
       rqAuth = getTextOpt v ''auth''\<rparr>)))))))"

definition NewRpcResponseOk :: "string \<Rightarrow> bytes \<Rightarrow> RpcResponse" where
  "NewRpcResponseOk variant payload =
     \<lparr>rsID = None, rsStatus = StatusOk, rsVariant = Some variant, rsError = None, rsPayload = payload\<rparr>"

definition NewRpcResponseTransportError :: "Status \<Rightarrow> string \<Rightarrow> RpcResponse" where
  "NewRpcResponseTransportError status message =
     \<lparr>rsID = None, rsStatus = status, rsVariant = None, rsError = Some message, rsPayload = []\<rparr>"

definition EncodeRpcResponse :: "RpcResponse \<Rightarrow> bytes" where
  "EncodeRpcResponse r = encodeValue (envelope_map (
     [(''v'', cUint VERSION), (''status'', cInt (rsStatus r)), (''payload'', tag24 (rsPayload r))]
     @ optional ''id'' cUint (rsID r) @ optional ''variant'' cText (rsVariant r) @ optional ''error'' cText (rsError r)))"

definition DecodeRpcResponse :: "nat \<Rightarrow> bytes \<Rightarrow> RpcResponse run" where
  "DecodeRpcResponse room b =
     bindR (decodeEnvelope room b) (\<lambda>(v, _).
     bindR (getUint v ''v'') (\<lambda>ver.
     bindR (checkVersion ver) (\<lambda>_.
     bindR (case mapGet v ''payload'' of None \<Rightarrow> Returns [] | Some p \<Rightarrow> untag24 p) (\<lambda>payload.
     bindR (getInt v ''status'') (\<lambda>status.
     Returns \<lparr>rsID = getUintOpt v ''id'', rsStatus = status, rsVariant = getTextOpt v ''variant'',
       rsError = getTextOpt v ''error'', rsPayload = payload\<rparr>)))))"

text \<open>\<open>AsTransportError\<close>: nothing for a typed reply.\<close>
definition AsTransportError :: "RpcResponse \<Rightarrow> (string \<times> Status \<times> string) option" where
  "AsTransportError r = (if IsOk (rsStatus r) then None
     else Some (StatusName (rsStatus r), rsStatus r, case rsError r of None \<Rightarrow> [] | Some m \<Rightarrow> m))"

definition EncodeRpcPush :: "RpcPush \<Rightarrow> bytes" where
  "EncodeRpcPush p = encodeValue (envelope_map
     [(''v'', cUint VERSION), (''service'', cText (puService p)), (''event'', cText (puEvent p)), (''payload'', tag24 (puPayload p))])"

definition DecodeRpcPush :: "nat \<Rightarrow> bytes \<Rightarrow> RpcPush run" where
  "DecodeRpcPush room b =
     bindR (decodeEnvelope room b) (\<lambda>(v, _).
     bindR (getUint v ''v'') (\<lambda>ver.
     bindR (checkVersion ver) (\<lambda>_.
     bindR (found_or_error (mapGet v ''payload'')) (\<lambda>p.
     bindR (untag24 p) (\<lambda>payload.
     bindR (getText v ''service'') (\<lambda>service.
     bindR (getText v ''event'') (\<lambda>event.
     Returns \<lparr>puService = service, puEvent = event, puPayload = payload\<rparr>)))))))"

section \<open>Frames\<close>

definition put_uint32 :: "32 word \<Rightarrow> bytes" where
  "put_uint32 n = [ucast (drop_bit 24 n), ucast (drop_bit 16 n), ucast (drop_bit 8 n), ucast n]"

definition get_uint32 :: "bytes \<Rightarrow> 32 word" where
  "get_uint32 b = fold (\<lambda>x v. push_bit 8 v OR ucast x) b 0"

datatype frame_error = FrameTooLarge | Carrier

text \<open>What a write puts on a stream that takes it, or the refusal before anything is written.\<close>
definition WriteLengthPrefixed :: "bytes \<Rightarrow> nat \<Rightarrow> frame_error + bytes" where
  "WriteLengthPrefixed b limit =
     (if length b > limit then Inl FrameTooLarge else Inr (put_uint32 (of_nat (length b)) @ b))"

text \<open>
  Reading a frame off what the stream will ever deliver: nothing at a clean end, an error
  inside a frame (\<open>io.ErrUnexpectedEOF\<close> is not \<open>io.EOF\<close>), or the frame and the rest.
\<close>
definition ReadLengthPrefixed :: "bytes \<Rightarrow> nat \<Rightarrow> frame_error + (bytes option \<times> bytes)" where
  "ReadLengthPrefixed r limit =
     (if r = [] then Inr (None, [])
      else if length r < 4 then Inl Carrier
      else let n = unat (get_uint32 (take 4 r)); rest = drop 4 r in
        if n > limit then Inl FrameTooLarge
        else if length rest < n then Inl Carrier
        else Inr (Some (take n rest), drop n rest))"

section \<open>Client and server over frames\<close>

record RpcClient =
  clNextID :: "64 word"
  clMultiplexed :: bool

text \<open>The request a call sends, and the client after it.\<close>
definition client_request :: "RpcClient \<Rightarrow> string \<Rightarrow> string \<Rightarrow> bytes \<Rightarrow> string option \<Rightarrow> RpcRequest \<times> RpcClient" where
  "client_request c service op payload auth =
     (let req = (NewRpcRequest service op payload)\<lparr>rqAuth := auth\<rparr> in
      if clMultiplexed c then (req\<lparr>rqID := Some (clNextID c)\<rparr>, c\<lparr>clNextID := clNextID c + 1\<rparr>)
      else (req, c))"

text \<open>What a call makes of the frame that comes back (\<open>None\<close>: the stream ended).\<close>
definition client_response :: "nat \<Rightarrow> bytes option \<Rightarrow> ((string \<times> Status \<times> string) + RpcResponse) run" where
  "client_response room frame = (case frame of
      None \<Rightarrow> DecodeError
    | Some b \<Rightarrow> bindR (DecodeRpcResponse room b) (\<lambda>r. case AsTransportError r of
          Some e \<Rightarrow> Returns (Inl e) | None \<Rightarrow> Returns (Inr r)))"

datatype HandlerOutcome = Reply string bytes | Transport Status string

definition outcome_response :: "64 word option \<Rightarrow> HandlerOutcome \<Rightarrow> RpcResponse" where
  "outcome_response i out = (case out of
      Reply variant payload \<Rightarrow> (NewRpcResponseOk variant payload)\<lparr>rsID := i\<rparr>
    | Transport status message \<Rightarrow> (NewRpcResponseTransportError status message)\<lparr>rsID := i\<rparr>)"

text \<open>\<open>ServeOne\<close> on one frame: the response frame, with the handler's effect on the state.\<close>
definition ServeOne :: "nat \<Rightarrow> (RpcRequest \<Rightarrow> 's \<Rightarrow> HandlerOutcome \<times> 's) \<Rightarrow> bytes \<Rightarrow> 's \<Rightarrow> (bytes \<times> 's) run" where
  "ServeOne room handler frame s = (case DecodeRpcRequest room frame of
      Returns req \<Rightarrow> (case handler req s of (out, t) \<Rightarrow> Returns (EncodeRpcResponse (outcome_response (rqID req) out), t))
    | DecodeError \<Rightarrow> Returns (EncodeRpcResponse (NewRpcResponseTransportError StatusMalformedEnvelope ''malformed envelope''), s)
    | Panics \<Rightarrow> Panics)"

section \<open>Reading an envelope's map\<close>

lemma entry_of_texts: "entry_of (map (\<lambda>(k, v). (cText k, v)) kvs) key = map_of kvs key"
  by (induction kvs) auto

lemma sort_key_map_after: "sort_key f (map g xs) = map g (sort_key (f \<circ> g) xs)"
proof -
  have "insort_key f (g x) (map g ys) = map g (insort_key (f \<circ> g) x ys)" for x ys by (induction ys) auto
  then show ?thesis by (induction xs) simp_all
qed

lemma map_of_mset:
  assumes "distinct (map fst kvs)" "mset kvs' = mset kvs"
  shows "map_of kvs' = map_of kvs"
proof -
  have "mset (map fst kvs') = mset (map fst kvs)" using assms(2) by simp
  then have "distinct (map fst kvs')" using assms(1) mset_eq_imp_distinct_iff by blast
  then show ?thesis using assms map_of_inject_set [of kvs' kvs] mset_eq_setD [OF assms(2)] by simp
qed

text \<open>The length of an envelope, whatever the order of its entries.\<close>
lemma length_envelope:
  "length (encodeValue (envelope_map kvs)) = length (writeHead 5 (of_nat (length kvs)))
     + (\<Sum>(k, v)\<leftarrow>kvs. length (encodeValue (cText k)) + length (encodeValue v))"
proof -
  let ?g = "\<lambda>(k, v). length (encodeValue k) + length (encodeValue v)" and ?es = "map (\<lambda>(k, v). (cText k, v)) kvs"
  have "mset (map ?g (sort_key (\<lambda>e. encodeValue (fst e)) ?es)) = mset (map ?g ?es)"
    by (simp only: mset_map mset_sort)
  then have "sum_list (map ?g (sort_key (\<lambda>e. encodeValue (fst e)) ?es)) = sum_list (map ?g ?es)"
    by (metis sum_mset_sum_list)
  moreover have "length (encodeValue (cMap es)) = length (writeHead 5 (of_nat (length es))) + sum_list (map ?g es)" for es
    by (simp add: length_concat comp_def case_prod_unfold)
  ultimately show ?thesis
    unfolding envelope_map_def canonMap_def by (simp only: length_sort length_map map_map comp_def case_prod_unfold fst_conv snd_conv)
qed

text \<open>Reading the canonical map of named values back: a name finds its value.\<close>
lemma envelope_roundtrip:
  assumes "distinct (map fst kvs)" "list_all (wire room \<circ> snd) kvs" "length kvs * 32 \<le> room"
    "length (encodeValue (envelope_map kvs)) < 2 ^ 63"
  obtains v n where "decodeEnvelope room (encodeValue (envelope_map kvs)) = Returns (v, n)"
    "\<And>key. mapGet v key = map_option norm (map_of kvs key)"
proof -
  let ?f = "\<lambda>(k, v). (cText k, v)" and ?s = "sort_key (\<lambda>(k, v). encodeValue (cText k)) kvs"
  have m: "envelope_map kvs = cMap (map ?f ?s)"
    by (simp add: envelope_map_def canonMap_def sort_key_map_after comp_def case_prod_unfold)
  have set: "set ?s = set kvs" "length ?s = length kvs" by simp_all
  have "wire room (envelope_map kvs)"
    using assms(2,3) unfolding m wire.simps length_map set by (auto simp: list_all_iff set)
  then have d: "decodeEnvelope room (encodeValue (envelope_map kvs)) = Returns (norm (envelope_map kvs), length (encodeValue (envelope_map kvs)))"
    using assms(4) by (rule decode_envelope_encode)
  have "norm (envelope_map kvs) = cMap (map ?f (map (\<lambda>(k, v). (k, norm v)) ?s))"
    by (simp add: m comp_def case_prod_unfold)
  then have "mapGet (norm (envelope_map kvs)) key = map_option norm (map_of ?s key)" for key
    by (simp only: mapGet_def cborValue.simps entry_of_texts map_of_map comp_apply)
  then show thesis using map_of_mset [OF assms(1), of ?s] by (intro that [OF d]) simp
qed

text \<open>Every request envelope is read as the very request it was.\<close>
lemma decode_request:
  assumes "length (EncodeRpcRequest r) < 2 ^ 63" "length (rqPayload r) \<le> room" "192 \<le> room"
  shows "DecodeRpcRequest room (EncodeRpcRequest r) = Returns r"
proof -
  let ?kvs = "[(''v'', cUint VERSION), (''service'', cText (rqService r)), (''op'', cText (rqOp r)), (''payload'', tag24 (rqPayload r))]
     @ optional ''id'' cUint (rqID r) @ optional ''auth'' cText (rqAuth r)"
  have "distinct (map fst ?kvs)" "length ?kvs * 32 \<le> room" "list_all (wire room \<circ> snd) ?kvs"
    using assms(2,3) by (auto simp: optional_def tag24_def split: option.split)
  then obtain v n where d: "decodeEnvelope room (EncodeRpcRequest r) = Returns (v, n)"
    and g: "\<And>key. mapGet v key = map_option norm (map_of ?kvs key)"
    using envelope_roundtrip [of ?kvs room] assms(1) unfolding EncodeRpcRequest_def by metis
  show ?thesis
    unfolding DecodeRpcRequest_def d
    by (cases r) (auto simp: g getUint_def getText_def getUintOpt_def getTextOpt_def asText_def asU64_def
        found_or_error_def checkVersion_def untag24_def tag24_def optional_def split: option.split)
qed

text \<open>Every response envelope is read as the very response it was, the status with its sign.\<close>
lemma decode_response:
  assumes "length (EncodeRpcResponse r) < 2 ^ 63" "length (rsPayload r) \<le> room" "192 \<le> room"
  shows "DecodeRpcResponse room (EncodeRpcResponse r) = Returns r"
proof -
  let ?kvs = "[(''v'', cUint VERSION), (''status'', cInt (rsStatus r)), (''payload'', tag24 (rsPayload r))]
     @ optional ''id'' cUint (rsID r) @ optional ''variant'' cText (rsVariant r) @ optional ''error'' cText (rsError r)"
  have "distinct (map fst ?kvs)" "length ?kvs * 32 \<le> room" "list_all (wire room \<circ> snd) ?kvs"
    using assms(2,3) by (auto simp: optional_def tag24_def split: option.split)
  then obtain v n where d: "decodeEnvelope room (EncodeRpcResponse r) = Returns (v, n)"
    and g: "\<And>key. mapGet v key = map_option norm (map_of ?kvs key)"
    using envelope_roundtrip [of ?kvs room] assms(1) unfolding EncodeRpcResponse_def by metis
  show ?thesis
    unfolding DecodeRpcResponse_def d
    by (cases r) (auto simp: g getUint_def getInt_def getUintOpt_def getTextOpt_def asText_def asU64_def asI64_def
        found_or_error_def checkVersion_def untag24_def tag24_def optional_def split: option.split)
qed

section \<open>A call, end to end\<close>

definition call_result :: "64 word option \<Rightarrow> HandlerOutcome \<Rightarrow> (string \<times> Status \<times> string) + RpcResponse" where
  "call_result i out = (case out of
      Reply variant payload \<Rightarrow> Inr \<lparr>rsID = i, rsStatus = StatusOk, rsVariant = Some variant, rsError = None, rsPayload = payload\<rparr>
    | Transport status message \<Rightarrow>
        if IsOk status then Inr \<lparr>rsID = i, rsStatus = status, rsVariant = None, rsError = Some message, rsPayload = []\<rparr>
        else Inl (StatusName status, status, message))"

definition small_request :: "nat \<Rightarrow> RpcRequest \<Rightarrow> bool" where
  "small_request room r \<longleftrightarrow> length (EncodeRpcRequest r) < 2 ^ 63 \<and> length (rqPayload r) \<le> room \<and> 192 \<le> room"

definition small_response :: "nat \<Rightarrow> RpcResponse \<Rightarrow> bool" where
  "small_response room r \<longleftrightarrow> length (EncodeRpcResponse r) < 2 ^ 63 \<and> length (rsPayload r) \<le> room \<and> 192 \<le> room"

lemma client_reads:
  assumes "small_response room (outcome_response i out)"
  shows "client_response room (Some (EncodeRpcResponse (outcome_response i out))) = Returns (call_result i out)"
proof -
  have d: "DecodeRpcResponse room (EncodeRpcResponse (outcome_response i out)) = Returns (outcome_response i out)"
    using assms unfolding small_response_def by (intro decode_response) auto
  show ?thesis
    unfolding client_response_def option.case d bindR.simps
    by (cases out) (simp_all add: call_result_def outcome_response_def AsTransportError_def
      NewRpcResponseOk_def NewRpcResponseTransportError_def IsOk_def StatusOk_def)
qed

text \<open>
  C22. A call made over frames arrives as it was made and is answered as it was answered: the
  server's handler is given exactly the client's request, and the client is given exactly the
  handler's reply under its own correlation id, or the transport status as an error.
\<close>
theorem calls_roundtrip:
  assumes "client_request c service op payload auth = (req, c')" "handler req s = (out, t)"
    "small_request room req" "small_response room (outcome_response (rqID req) out)"
  shows "\<exists>frame. ServeOne room handler (EncodeRpcRequest req) s = Returns (frame, t)
     \<and> client_response room (Some frame) = Returns (call_result (rqID req) out)"
proof -
  have d: "DecodeRpcRequest room (EncodeRpcRequest req) = Returns req"
    using assms(3) unfolding small_request_def by (intro decode_request) auto
  have "ServeOne room handler (EncodeRpcRequest req) s = Returns (EncodeRpcResponse (outcome_response (rqID req) out), t)"
    unfolding ServeOne_def d run.case assms(2) prod.case ..
  then show ?thesis using client_reads [OF assms(4)] by blast
qed

definition echo :: "RpcRequest \<Rightarrow> unit \<Rightarrow> HandlerOutcome \<times> unit" where
  "echo r s = (Reply (rqOp r) (rqPayload r), s)"

definition sample_request :: RpcRequest where
  "sample_request = \<lparr>rqService = ''S'', rqOp = ''op'', rqID = Some 7, rqPayload = [1, 2], rqAuth = None\<rparr>"

theorem calls_roundtrip_witness:
  "\<exists>frame. ServeOne 1000 echo (EncodeRpcRequest sample_request) () = Returns (frame, ())
     \<and> client_response 1000 (Some frame) = Returns (call_result (Some 7) (Reply ''op'' [1, 2]))"
proof -
  let ?c = "\<lparr>clNextID = 7, clMultiplexed = True\<rparr>" and ?out = "Reply ''op'' [1, 2]"
  have q: "client_request ?c ''S'' ''op'' [1, 2] None = (sample_request, ?c\<lparr>clNextID := 8\<rparr>)"
    by (simp add: client_request_def NewRpcRequest_def sample_request_def)
  have e: "echo sample_request () = (?out, ())" by (simp add: echo_def sample_request_def)
  have "length (EncodeRpcRequest sample_request) \<le> 100"
    by (simp add: EncodeRpcRequest_def sample_request_def length_envelope optional_def tag24_def writeHead_def VERSION_def TagEncodedCBOR_def)
  then have sq: "small_request 1000 sample_request" by (simp add: small_request_def sample_request_def)
  have "length (EncodeRpcResponse (outcome_response (rqID sample_request) ?out)) \<le> 100"
    by (simp add: EncodeRpcResponse_def sample_request_def outcome_response_def NewRpcResponseOk_def length_envelope
        optional_def tag24_def writeHead_def StatusOk_def VERSION_def TagEncodedCBOR_def)
  then have sr: "small_response 1000 (outcome_response (rqID sample_request) ?out)"
    by (simp add: small_response_def outcome_response_def NewRpcResponseOk_def)
  show ?thesis using calls_roundtrip [where handler = echo, OF q e sq sr] by (simp add: sample_request_def)
qed

section \<open>Frames\<close>

lemma get_put_uint32: "get_uint32 (put_uint32 n) = n"
proof (rule bit_word_eqI)
  fix i assume "i < LENGTH(32)"
  then consider "i < 8" | "8 \<le> i" "i < 16" | "16 \<le> i" "i < 24" | "24 \<le> i" "i < 32" by fastforce
  then show "bit (get_uint32 (put_uint32 n)) i = bit n i"
    by cases (auto simp: get_uint32_def put_uint32_def bit_simps)
qed

text \<open>
  C23. A frame written under a limit is read back whole under the same limit, with what
  follows it left on the stream; and a stream that announces more than the limit is refused
  whatever it goes on to hold.
\<close>
theorem frames_roundtrip:
  assumes "WriteLengthPrefixed b limit = Inr out" "limit < 2 ^ 32"
  shows "ReadLengthPrefixed (out @ rest) limit = Inr (Some b, rest)
    \<and> (length b > small \<longrightarrow> ReadLengthPrefixed (out @ rest) small = Inl FrameTooLarge)"
proof -
  have len: "length b \<le> limit" and out: "out = put_uint32 (of_nat (length b)) @ b"
    using assms(1) by (auto simp: WriteLengthPrefixed_def split: if_splits)
  have n: "unat (of_nat (length b) :: 32 word) = length b" using len assms(2) by (simp add: unat_of_nat)
  have four: "length (put_uint32 k) = 4" for k by (simp add: put_uint32_def)
  obtain r where r: "r = out @ rest" by simp
  have "take 4 r = put_uint32 (of_nat (length b))" "drop 4 r = b @ rest" "r \<noteq> []" "\<not> length r < 4"
    using four by (auto simp: out r) (simp add: put_uint32_def)
  then show ?thesis using len n by (auto simp: ReadLengthPrefixed_def Let_def get_put_uint32 simp flip: r)
qed

theorem frames_roundtrip_witness:
  "ReadLengthPrefixed ([0, 0, 0, 3, 1, 2, 3] @ [9]) 100 = Inr (Some [1, 2, 3], [9])"
proof -
  have "WriteLengthPrefixed [1, 2, 3] 100 = Inr [0, 0, 0, 3, 1, 2, 3]"
    by (simp add: WriteLengthPrefixed_def put_uint32_def)
  from frames_roundtrip [OF this, of "[9]"] show ?thesis by simp
qed

end
