(* ===== verification/RateLimit.thy ===== *)
theory RateLimit
  imports Dispatch Sample
begin

text \<open>
  The two allowances of \<open>store/sqlite/settings.go\<close>: how many events a peer, and
  one organization inside a peer, may have accepted in a minute.  Both are one
  UPDATE whose arithmetic reads the row's own columns, so both satisfy one
  contract, the locale \<open>allowance\<close>: a minute never gives more than its limit,
  and how a demand is cut into requests makes no difference.
\<close>

record RateVerdict =
  Allowed :: int
  Refused :: int

text \<open>\<open>now.UTC().Truncate(time.Minute)\<close>.\<close>
definition minute_start :: "instant \<Rightarrow> instant" where
  "minute_start now = (now div minute) * minute"

definition window_used :: "instant option \<Rightarrow> int \<Rightarrow> instant \<Rightarrow> int" where
  "window_used start count w = (case start of None \<Rightarrow> 0 | Some t \<Rightarrow> if t < w then 0 else count)"

definition window_from :: "instant option \<Rightarrow> instant \<Rightarrow> instant option" where
  "window_from start w = (case start of None \<Rightarrow> Some w | Some t \<Rightarrow> if t < w then Some w else Some t)"

definition new_count :: "int \<Rightarrow> int \<Rightarrow> int \<Rightarrow> int" where
  "new_count used wanted limit = min (used + wanted) (max limit used)"

section \<open>A peer's allowance\<close>

definition peerUsed :: "instant \<Rightarrow> Peer \<Rightarrow> int" where
  "peerUsed w p = window_used (pRateWindowStart p) (pRateWindowCount p) w"

definition spend_peer :: "instant \<Rightarrow> int \<Rightarrow> int \<Rightarrow> Peer \<Rightarrow> Peer" where
  "spend_peer w wanted limit p =
     (let new = new_count (peerUsed w p) wanted limit; allowed = new - peerUsed w p
      in p\<lparr>pRateWindowStart := window_from (pRateWindowStart p) w,
           pRateLimitedTotal := pRateLimitedTotal p + wanted - allowed,
           pRateWindowCount := new\<rparr>)"

definition ConsumePeerAllowance ::
  "ident \<Rightarrow> int \<Rightarrow> int \<Rightarrow> instant \<Rightarrow> ('m fed_db_scheme, store_error, RateVerdict) oper" where
  "ConsumePeerAllowance i wanted limit now =
     (if limit \<le> 0 \<or> wanted \<le> 0 then ret \<lparr>Allowed = wanted, Refused = 0\<rparr>
      else bindE (reads (peer_by_id i)) (\<lambda>found.
           bindE (the_or DBError found) (\<lambda>p.
           let w = minute_start now; allowed = new_count (peerUsed w p) wanted limit - peerUsed w p
           in thenE (writes (\<lambda>s. s\<lparr>peers := set_rows (\<lambda>p. pID p = i) (spend_peer w wanted limit) (peers s)\<rparr>))
                (ret \<lparr>Allowed = allowed, Refused = wanted - allowed\<rparr>))))"

definition SetPeerRateLimitRow :: "ident \<Rightarrow> int option \<Rightarrow> ('m fed_db_scheme, store_error, Peer) oper" where
  "SetPeerRateLimitRow i limit =
     thenE (require (\<lambda>s. has_row (\<lambda>p. pID p = i) (peers s)) ErrNotFound)
    (thenE (writes (update_peer i (\<lambda>s p. p\<lparr>pRateLimitPerMinute := limit\<rparr>)))
     (PeerByID i))"

section \<open>One organization's allowance inside a peer\<close>

definition unlimited :: int where "unlimited = 2147483647"

definition origin_key :: "ident \<Rightarrow> utext \<Rightarrow> origin_row \<Rightarrow> bool" where
  "origin_key p name g \<longleftrightarrow> ogPeer g = p \<and> ogOrganizationName g = name"

definition originLimit :: "int \<Rightarrow> origin_row \<Rightarrow> int" where
  "originLimit instanceLimit g =
     (let l = (case ogRateLimitPerMinute g of None \<Rightarrow> instanceLimit | Some l \<Rightarrow> l)
      in if l \<le> 0 then unlimited else l)"

definition originUsed :: "instant \<Rightarrow> origin_row \<Rightarrow> int" where
  "originUsed w g = window_used (ogWindowStart g) (ogWindowCount g) w"

definition originFirstAllowed :: "int \<Rightarrow> int \<Rightarrow> int" where
  "originFirstAllowed wanted instanceLimit = min wanted (if instanceLimit \<le> 0 then unlimited else instanceLimit)"

definition spend_origin :: "instant \<Rightarrow> int \<Rightarrow> int \<Rightarrow> origin_row \<Rightarrow> origin_row" where
  "spend_origin w wanted instanceLimit g =
     (let new = new_count (originUsed w g) wanted (originLimit instanceLimit g); allowed = new - originUsed w g
      in g\<lparr>ogWindowStart := window_from (ogWindowStart g) w,
           ogRateLimitedTotal := ogRateLimitedTotal g + wanted - allowed,
           ogWindowCount := new\<rparr>)"

text \<open>INSERT ... ON CONFLICT: the first demand of an organization makes its row.\<close>
definition ConsumeOriginAllowance ::
  "ident \<Rightarrow> utext \<Rightarrow> int \<Rightarrow> int \<Rightarrow> instant \<Rightarrow> ('m fed_db_scheme, store_error, RateVerdict) oper" where
  "ConsumeOriginAllowance p name wanted instanceLimit now =
     (if wanted \<le> 0 then ret \<lparr>Allowed = 0, Refused = 0\<rparr>
      else let w = minute_start now in
        bindE (reads (\<lambda>s. row (origin_key p name) (origin_stats s))) (\<lambda>found. case found of
          Some g \<Rightarrow>
            let allowed = new_count (originUsed w g) wanted (originLimit instanceLimit g) - originUsed w g
            in thenE (writes (\<lambda>s. s\<lparr>origin_stats :=
                   set_rows (origin_key p name) (spend_origin w wanted instanceLimit) (origin_stats s)\<rparr>))
                 (ret \<lparr>Allowed = allowed, Refused = wanted - allowed\<rparr>)
        | None \<Rightarrow>
            let allowed = originFirstAllowed wanted instanceLimit
            in thenE (require (\<lambda>s. has_row (\<lambda>x. pID x = p) (peers s)) DBError)
              (thenE (writes (\<lambda>s. s\<lparr>origin_stats := origin_stats s @
                   [\<lparr>ogPeer = p, ogOrganizationName = name, ogAcceptedTotal = 0, ogWindowStart = Some w,
                     ogWindowCount = allowed, ogLastReceivedAt = Some (stored_time now),
                     ogRateLimitPerMinute = None, ogRateLimitedTotal = wanted - allowed\<rparr>]\<rparr>))
               (ret \<lparr>Allowed = allowed, Refused = wanted - allowed\<rparr>))))"

text \<open>The running total; the window is the limiter's alone.\<close>
definition RecordOriginAccepted :: "ident \<Rightarrow> utext \<Rightarrow> instant \<Rightarrow> ('m fed_db_scheme, store_error, unit) oper" where
  "RecordOriginAccepted p name now =
     bindE (reads (\<lambda>s. has_row (origin_key p name) (origin_stats s))) (\<lambda>known.
     if known
     then writes (\<lambda>s. s\<lparr>origin_stats := set_rows (origin_key p name)
        (\<lambda>g. g\<lparr>ogAcceptedTotal := ogAcceptedTotal g + 1, ogLastReceivedAt := Some (stored_time now)\<rparr>) (origin_stats s)\<rparr>)
     else thenE (require (\<lambda>s. has_row (\<lambda>x. pID x = p) (peers s)) DBError)
       (writes (\<lambda>s. s\<lparr>origin_stats := origin_stats s @
          [\<lparr>ogPeer = p, ogOrganizationName = name, ogAcceptedTotal = 1, ogWindowStart = None,
            ogWindowCount = 0, ogLastReceivedAt = Some (stored_time now),
            ogRateLimitPerMinute = None, ogRateLimitedTotal = 0\<rparr>]\<rparr>)))"

section \<open>The contract\<close>

text \<open>What a demand is granted of what is left.\<close>
definition granted :: "int \<Rightarrow> int \<Rightarrow> int \<Rightarrow> int" where
  "granted wanted cap used = min wanted (max 0 (cap - used))"

text \<open>Several demands, one after the other, and what they were granted together.\<close>
fun spend :: "(int \<Rightarrow> instant \<Rightarrow> ('s, 'e, RateVerdict) oper) \<Rightarrow> (int \<times> instant) list \<Rightarrow> ('s, 'e, int) oper" where
  "spend consume [] = ret 0"
| "spend consume ((wanted, now) # rs) =
     bindE (consume wanted now) (\<lambda>v. bindE (spend consume rs) (\<lambda>n. ret (Allowed v + n)))"

locale allowance =
  fixes consume :: "int \<Rightarrow> instant \<Rightarrow> ('s, 'e, RateVerdict) oper"
    and used :: "instant \<Rightarrow> 's \<Rightarrow> int"
    and cap :: "'s \<Rightarrow> int"
    and ready :: "'s \<Rightarrow> bool"
  assumes answer: "ready s \<Longrightarrow> 0 < wanted \<Longrightarrow> \<exists>t. consume wanted now s =
      (Inr \<lparr>Allowed = granted wanted (cap s) (used (minute_start now) s),
            Refused = wanted - granted wanted (cap s) (used (minute_start now) s)\<rparr>, t)
      \<and> used (minute_start now) t = used (minute_start now) s + granted wanted (cap s) (used (minute_start now) s)
      \<and> cap t = cap s \<and> ready t"
begin

lemma minute_total:
  assumes "ready s" "\<And>w t. (w, t) \<in> set rs \<Longrightarrow> 0 < w \<and> minute_start t = m"
  shows "\<exists>t. spend consume rs s = (Inr (granted (sum_list (map fst rs)) (cap s) (used m s)), t)
     \<and> used m t = used m s + granted (sum_list (map fst rs)) (cap s) (used m s) \<and> cap t = cap s \<and> ready t"
  using assms
proof (induction rs arbitrary: s)
  case (Cons r rs)
  obtain w now where r: "r = (w, now)" by (cases r)
  with Cons.prems have w: "0 < w" "minute_start now = m" by auto
  obtain t where t: "consume w now s = (Inr \<lparr>Allowed = granted w (cap s) (used m s),
       Refused = w - granted w (cap s) (used m s)\<rparr>, t)"
    "used m t = used m s + granted w (cap s) (used m s)" "cap t = cap s" "ready t"
    using answer [OF Cons.prems(1) w(1), of now] w(2) by auto
  obtain u where u: "spend consume rs t = (Inr (granted (sum_list (map fst rs)) (cap t) (used m t)), u)"
    "used m u = used m t + granted (sum_list (map fst rs)) (cap t) (used m t)" "cap u = cap t" "ready u"
    using Cons.IH [OF t(4)] Cons.prems(2) by auto
  have "0 \<le> x" if "x \<in> set (map fst rs)" for x using that Cons.prems(2) by fastforce
  then have "0 \<le> sum_list (map fst rs)" by (rule sum_list_nonneg)
  then have "granted w (cap s) (used m s) + granted (sum_list (map fst rs)) (cap s) (used m s + granted w (cap s) (used m s))
      = granted (w + sum_list (map fst rs)) (cap s) (used m s)"
    using w(1) by (simp add: granted_def min_def max_def)
  then show ?case using t u by (simp add: r bindE_apply)
qed (simp add: granted_def)

end

section \<open>Both allowances satisfy it\<close>

lemma second_minute: "minute = 60 * second" "0 < second" "0 < minute"
  by (simp_all add: minute_def second_def)

lemma window_spent:
  "window_used (window_from start w) c w = c"
  "window_used (Some w) c w = c"
  by (auto simp: window_used_def window_from_def split: option.split)

lemma new_count_granted: "new_count u wanted cap = u + granted wanted cap u"
  by (auto simp: new_count_def granted_def min_def max_def)

lemma row_set_rows: "(\<And>x. p (f x) = p x) \<Longrightarrow> row p (set_rows p f t) = map_option f (row p t)"
  by (induction t) (auto simp: set_rows_def)

definition peer_used :: "ident \<Rightarrow> instant \<Rightarrow> 'm fed_db_scheme \<Rightarrow> int" where
  "peer_used i w s = (case peer_by_id i s of None \<Rightarrow> 0 | Some p \<Rightarrow> peerUsed w p)"

lemma spend_peer_id [simp]: "pID (spend_peer w wanted limit p) = pID p"
  by (simp add: spend_peer_def Let_def)

interpretation peer: allowance "\<lambda>wanted now. ConsumePeerAllowance i wanted limit now" "peer_used i" "\<lambda>_. limit"
  "\<lambda>s. peer_by_id i s \<noteq> None \<and> 0 < limit" for i limit
proof
  fix s :: "'m fed_db_scheme" and wanted :: int and now
  assume ready: "peer_by_id i s \<noteq> None \<and> 0 < limit" and w: "0 < wanted"
  then obtain p where p: "peer_by_id i s = Some p" by auto
  let ?w = "minute_start now"
  let ?t = "s\<lparr>peers := set_rows (\<lambda>p. pID p = i) (spend_peer ?w wanted limit) (peers s)\<rparr>"
  have t: "peer_by_id i ?t = Some (spend_peer ?w wanted limit p)"
    using p by (simp add: peer_by_id_def row_set_rows)
  have "peer_used i ?w ?t = peer_used i ?w s + granted wanted limit (peer_used i ?w s)"
    by (simp add: peer_used_def t p peerUsed_def spend_peer_def Let_def window_spent new_count_granted)
  then show "\<exists>t. ConsumePeerAllowance i wanted limit now s =
      (Inr \<lparr>Allowed = granted wanted limit (peer_used i ?w s), Refused = wanted - granted wanted limit (peer_used i ?w s)\<rparr>, t)
      \<and> peer_used i ?w t = peer_used i ?w s + granted wanted limit (peer_used i ?w s)
      \<and> limit = limit \<and> peer_by_id i t \<noteq> None \<and> 0 < limit"
    using ready w p t by (simp add: ConsumePeerAllowance_def Let_def peer_used_def new_count_granted)
qed

definition origin_used :: "ident \<Rightarrow> utext \<Rightarrow> instant \<Rightarrow> 'm fed_db_scheme \<Rightarrow> int" where
  "origin_used p name w s = (case row (origin_key p name) (origin_stats s) of None \<Rightarrow> 0 | Some g \<Rightarrow> originUsed w g)"

definition origin_cap :: "ident \<Rightarrow> utext \<Rightarrow> int \<Rightarrow> 'm fed_db_scheme \<Rightarrow> int" where
  "origin_cap p name instanceLimit s = (case row (origin_key p name) (origin_stats s) of
      None \<Rightarrow> if instanceLimit \<le> 0 then unlimited else instanceLimit
    | Some g \<Rightarrow> originLimit instanceLimit g)"

lemma origin_key_spend [simp]: "origin_key p name (spend_origin w wanted l g) = origin_key p name g"
  by (simp add: origin_key_def spend_origin_def Let_def)

interpretation origin: allowance "\<lambda>wanted now. ConsumeOriginAllowance p name wanted instanceLimit now"
  "origin_used p name" "origin_cap p name instanceLimit" "\<lambda>s. peer_by_id p s \<noteq> None" for p name instanceLimit
proof
  fix s :: "'m fed_db_scheme" and wanted :: int and now
  assume peer: "peer_by_id p s \<noteq> None" and w: "0 < wanted"
  let ?w = "minute_start now" and ?k = "origin_key p name"
  let ?g = "granted wanted (origin_cap p name instanceLimit s) (origin_used p name ?w s)"
  show "\<exists>t. ConsumeOriginAllowance p name wanted instanceLimit now s = (Inr \<lparr>Allowed = ?g, Refused = wanted - ?g\<rparr>, t)
      \<and> origin_used p name ?w t = origin_used p name ?w s + ?g
      \<and> origin_cap p name instanceLimit t = origin_cap p name instanceLimit s \<and> peer_by_id p t \<noteq> None"
  proof (cases "row ?k (origin_stats s)")
    case (Some g)
    let ?t = "s\<lparr>origin_stats := set_rows ?k (spend_origin ?w wanted instanceLimit) (origin_stats s)\<rparr>"
    have "row ?k (origin_stats ?t) = Some (spend_origin ?w wanted instanceLimit g)"
      using Some by (simp add: row_set_rows)
    then show ?thesis using Some w peer
      by (simp add: ConsumeOriginAllowance_def Let_def origin_used_def origin_cap_def new_count_granted originUsed_def
          originLimit_def spend_origin_def window_spent peer_by_id_def)
  next
    case None
    have "\<exists>x\<in>set (peers s). pID x = p" using peer row_None_iff [of "\<lambda>x. pID x = p" "peers s"] by (auto simp: peer_by_id_def)
    moreover have "?g = originFirstAllowed wanted instanceLimit"
      using None w by (auto simp: originFirstAllowed_def granted_def origin_cap_def origin_used_def unlimited_def min_def max_def)
    ultimately show ?thesis using None w peer
      by (simp add: ConsumeOriginAllowance_def Let_def origin_used_def origin_cap_def row_append originUsed_def
          window_spent origin_key_def originLimit_def peer_by_id_def)
  qed
qed

section \<open>Properties\<close>

text \<open>
  C9.  In one minute a peer is granted no more than its limit, however its demand is cut
  into batches: what the batches get together is what one batch of their total would get.
\<close>
theorem peer_minute_bound:
  assumes "peer_by_id i s \<noteq> None" "0 < limit" "\<And>w t. (w, t) \<in> set rs \<Longrightarrow> 0 < w \<and> minute_start t = m"
  shows "outcome (spend (\<lambda>w t. ConsumePeerAllowance i w limit t) rs s)
    = Inr (min (sum_list (map fst rs)) (max 0 (limit - peer_used i m s)))"
  using peer.minute_total [of i s limit rs m] assms by (auto simp: granted_def)

theorem peer_minute_bound_witness:
  "outcome (spend (\<lambda>w t. ConsumePeerAllowance ''peer'' w 60 t) [(40, 0), (40, second)] peered_db) = Inr 60"
proof -
  have p: "peer_by_id ''peer'' peered_db \<noteq> None" "peer_used ''peer'' 0 peered_db = 0"
    by (simp_all add: peer_by_id_def peered_db_def sample_peer_def sample_defs peer_used_def peerUsed_def window_used_def)
  have "outcome (spend (\<lambda>w t. ConsumePeerAllowance ''peer'' w 60 t) [(40, 0), (40, second)] peered_db)
      = Inr (min (sum_list (map fst [(40, 0), (40, second)])) (max 0 (60 - peer_used ''peer'' 0 peered_db)))"
    by (rule peer_minute_bound [OF p(1)]) (auto simp: minute_start_def minute_def second_def)
  then show ?thesis by (simp add: p)
qed

text \<open>
  In one minute one organization inside a peer is granted no more than its own limit,
  or the instance's when it has none, and no limit at all when that one is zero or less
  (2147483647), however its demand is cut into batches, from its first delivery on.
\<close>
theorem origin_minute_bound:
  assumes "peer_by_id p s \<noteq> None" "\<And>w t. (w, t) \<in> set rs \<Longrightarrow> 0 < w \<and> minute_start t = m"
  shows "outcome (spend (\<lambda>w t. ConsumeOriginAllowance p name w instanceLimit t) rs s)
    = Inr (min (sum_list (map fst rs)) (max 0 (origin_cap p name instanceLimit s - origin_used p name m s)))"
  using origin.minute_total [of p s rs m name instanceLimit] assms by (auto simp: granted_def)

theorem origin_minute_bound_witness:
  "outcome (spend (\<lambda>w t. ConsumeOriginAllowance ''peer'' [67] w 20 t) [(15, 0), (15, second)] peered_db) = Inr 20"
proof -
  have p: "peer_by_id ''peer'' peered_db \<noteq> None" "origin_used ''peer'' [67] 0 peered_db = 0"
    "origin_cap ''peer'' [67] 20 peered_db = 20"
    by (simp_all add: peer_by_id_def peered_db_def sample_peer_def sample_defs origin_used_def origin_cap_def)
  have "outcome (spend (\<lambda>w t. ConsumeOriginAllowance ''peer'' [67] w 20 t) [(15, 0), (15, second)] peered_db)
      = Inr (min (sum_list (map fst [(15, 0), (15, second)]))
          (max 0 (origin_cap ''peer'' [67] 20 peered_db - origin_used ''peer'' [67] 0 peered_db)))"
    by (rule origin_minute_bound [OF p(1)]) (auto simp: minute_start_def minute_def second_def)
  then show ?thesis by (simp add: p)
qed

text \<open>
  Taking an allowance stamps a new organization as having delivered, although nothing
  of it has been stored yet: the migration keeps that column for accepted events alone.
\<close>
theorem allowance_stamps_reception:
  "map ogLastReceivedAt (origin_stats (after (ConsumeOriginAllowance ''peer'' [67] 1 20 second peered_db))) = [Some second]
   \<and> remote_events (after (ConsumeOriginAllowance ''peer'' [67] 1 20 second peered_db)) = []"
  by (simp add: ConsumeOriginAllowance_def Let_def peered_db_def sample_peer_def sample_defs stored_time_def second_def)

end
