(* ===== verification/Admin.thy ===== *)
theory Admin
  imports Settings Organizations Sample
begin

text \<open>
  \<open>csilservices/admin.go\<close>: the administrator role, the instance's settings, and
  the people lookups a roster editor needs; with \<open>UserByHandle\<close> and \<open>SearchUsers\<close>
  of \<open>store/sqlite/people.go\<close>.  The role is never left without a holder by
  requests served one after the other; two revocations that interleave can do it.
\<close>

section \<open>People\<close>

text \<open>\<open>strings.TrimSpace\<close> on an address or a handle, which is ASCII.\<close>
definition trim_id :: "string \<Rightarrow> string" where
  "trim_id s = (let blank = (\<lambda>c. c \<in> set [CHR '' '', CHR 0x09, CHR 0x0A, CHR 0x0B, CHR 0x0C, CHR 0x0D])
     in rev (dropWhile blank (rev (dropWhile blank s))))"

definition UserByHandle :: "string \<Rightarrow> string \<Rightarrow> ('m core_db_scheme, store_error, User) oper" where
  "UserByHandle handle domain = bindE (reads (\<lambda>s. row (\<lambda>u. ToLowerId (uHandle u) = handle
     \<and> ToLowerId (uLinkkeysDomain u) = domain) (users s))) (the_or ErrNotFound)"

text \<open>LIKE with the pattern's own characters escaped: the handle starts with the prefix.\<close>
definition SearchUsersRow :: "string \<Rightarrow> Page \<Rightarrow> ('m core_db_scheme, store_error, User list) oper" where
  "SearchUsersRow pre page = reads (\<lambda>s. page_rows page (sort_key uHandle
     (filter (\<lambda>u. take (length pre) (ToLowerId (uHandle u)) = pre) (users s))))"

section \<open>The role\<close>

definition is_admin :: "caller \<Rightarrow> ('s, error, caller) oper" where
  "is_admin c = bindE (authenticated c) (\<lambda>c. thenE (refuse_if (\<not> cIsAdmin c) Forbidden) (ret c))"

definition admin_list :: "('m core_db_scheme, error, User list) oper" where
  "admin_list = internal ListAdmins"

definition ListAdminsOp :: "caller \<Rightarrow> ('m core_db_scheme, error, User list) oper" where
  "ListAdminsOp c = bindE (is_admin c) (\<lambda>_. admin_list)"

text \<open>The check that the role keeps a holder, and the statement it guards.\<close>
definition refuseLastAdmin :: "bool \<Rightarrow> ('m core_db_scheme, error, unit) oper" where
  "refuseLastAdmin granted =
     (if granted then ret ()
      else bindE (internal ListAdmins) (\<lambda>admins. refuse_if (length admins \<le> 1) (Invalid ''user_id'')))"

definition SetAdmin :: "caller \<Rightarrow> ident \<Rightarrow> bool \<Rightarrow> ('m core_db_scheme, error, User list) oper" where
  "SetAdmin c u granted =
     bindE (is_admin c) (\<lambda>_.
     thenE (refuseLastAdmin granted)
    (thenE (not_found ''user'' (SetAdminRow u granted))
     admin_list))"

section \<open>Looking people up\<close>

definition FindUser :: "caller \<Rightarrow> string \<Rightarrow> string \<Rightarrow> ('m core_db_scheme, error, User) oper" where
  "FindUser c reqHandle reqDomain =
     bindE (authenticated c) (\<lambda>_.
     not_found ''user'' (UserByHandle (ToLowerId (trim_id reqHandle)) (ToLowerId (trim_id reqDomain))))"

definition SearchUsers :: "caller \<Rightarrow> string \<Rightarrow> Page \<Rightarrow> ('m core_db_scheme, error, User list) oper" where
  "SearchUsers c query page =
     bindE (authenticated c) (\<lambda>_.
     let pre = ToLowerId (trim_id query)
     in if pre = [] then ret [] else internal (SearchUsersRow pre page))"

section \<open>Settings\<close>

record WireInstanceSettings =
  wiPublishDefault :: string
  wiOrganizationOverrideAllowed :: bool
  wiGatheringOverrideAllowed :: bool
  wiRetentionDays :: "64 word"
  wiPeerRateLimitPerMinute :: "64 word"
  wiOriginRateLimitPerMinute :: "64 word"

definition toInstanceSettings :: "InstanceSettings \<Rightarrow> WireInstanceSettings" where
  "toInstanceSettings st =
     \<lparr>wiPublishDefault = wirePublishSetting (PublishDefault st),
      wiOrganizationOverrideAllowed = OrganizationOverrideAllowed st,
      wiGatheringOverrideAllowed = GatheringOverrideAllowed st,
      wiRetentionDays = word_of_int (RetentionDays st),
      wiPeerRateLimitPerMinute = word_of_int (PeerRateLimitPerMinute st),
      wiOriginRateLimitPerMinute = word_of_int (OriginRateLimitPerMinute st)\<rparr>"

definition GetInstanceSettings :: "caller \<Rightarrow> ('m core_db_scheme, error, WireInstanceSettings) oper" where
  "GetInstanceSettings c = bindE (is_admin c) (\<lambda>_. bindE (reads settings) (\<lambda>st. ret (toInstanceSettings st)))"

record UpdateSettingsRequest =
  uiPublishDefault :: "string option"
  uiOrganizationOverrideAllowed :: "bool option"
  uiGatheringOverrideAllowed :: "bool option"
  uiRetentionDays :: "64 word option"
  uiPeerRateLimitPerMinute :: "64 word option"
  uiOriginRateLimitPerMinute :: "64 word option"

text \<open>An absent field is left alone; a present number goes through \<open>int64\<close>.\<close>
definition edited_settings :: "UpdateSettingsRequest \<Rightarrow> InstanceSettings \<Rightarrow> error + InstanceSettings" where
  "edited_settings req st =
     (case (case uiPublishDefault req of
          None \<Rightarrow> Inr (PublishDefault st)
        | Some _ \<Rightarrow> (case publishSettingOf (uiPublishDefault req) of (v, known) \<Rightarrow>
            if \<not> known \<or> v = PublishUnset then Inl (Invalid ''publish_default'') else Inr v)) of
        Inl e \<Rightarrow> Inl e
      | Inr p \<Rightarrow> Inr
          \<lparr>PublishDefault = p,
           OrganizationOverrideAllowed = (case uiOrganizationOverrideAllowed req of None \<Rightarrow> OrganizationOverrideAllowed st | Some b \<Rightarrow> b),
           GatheringOverrideAllowed = (case uiGatheringOverrideAllowed req of None \<Rightarrow> GatheringOverrideAllowed st | Some b \<Rightarrow> b),
           RetentionDays = (case uiRetentionDays req of None \<Rightarrow> RetentionDays st | Some n \<Rightarrow> sint n),
           PeerRateLimitPerMinute = (case uiPeerRateLimitPerMinute req of None \<Rightarrow> PeerRateLimitPerMinute st | Some n \<Rightarrow> sint n),
           OriginRateLimitPerMinute =
             (case uiOriginRateLimitPerMinute req of None \<Rightarrow> OriginRateLimitPerMinute st | Some n \<Rightarrow> sint n)\<rparr>)"

definition UpdateInstanceSettings ::
  "caller \<Rightarrow> UpdateSettingsRequest \<Rightarrow> ('m core_db_scheme, error, WireInstanceSettings) oper" where
  "UpdateInstanceSettings c req =
     bindE (is_admin c) (\<lambda>_.
     bindE (reads settings) (\<lambda>st.
     bindE (of_sum (edited_settings req st)) (\<lambda>st.
     thenE (internal (PutInstanceSettings st))
       (ret (toInstanceSettings st)))))"

section \<open>The role keeps a holder\<close>

definition has_admin :: "'m core_db_scheme \<Rightarrow> bool" where
  "has_admin s \<longleftrightarrow> distinct (map uID (users s)) \<and> (\<exists>u\<in>set (users s). uIsAdmin u)"

lemma is_admin_steps [simp]:
  "bindE (is_admin c) f = (if cID c = [] then failed Unauthenticated else if \<not> cIsAdmin c then failed Forbidden else f c)"
  by (auto simp: is_admin_def authenticated_def)

lemma ListAdmins_apply: "\<exists>xs. ListAdmins s = (Inr xs, s) \<and> set xs = {u \<in> set (users s). uIsAdmin u}
   \<and> length xs = length (filter uIsAdmin (users s))"
  by (simp add: ListAdmins_def)

lemma refuseLastAdmin_Inr:
  "refuseLastAdmin granted s = (Inr x, t) \<longleftrightarrow> t = s \<and> (granted \<or> 1 < length (filter uIsAdmin (users s)))"
proof -
  obtain xs where "ListAdmins s = (Inr xs, s)" "length xs = length (filter uIsAdmin (users s))"
    using ListAdmins_apply by blast
  then show ?thesis by (auto simp: refuseLastAdmin_def internal_def bindE_apply map_err_apply refuse_if_def)
qed

lemma pure_refuseLastAdmin [simp]: "pure_op (refuseLastAdmin granted)" "pure_op admin_list"
  by (auto simp: refuseLastAdmin_def admin_list_def ListAdmins_def intro!: pure_op_bindE)

lemma has_admin_SetAdminRow:
  assumes ok: "has_admin s" and "granted \<or> 1 < length (filter uIsAdmin (users s))"
  shows "has_admin (snd (SetAdminRow u granted s))"
proof -
  let ?f = "\<lambda>x. x\<lparr>uIsAdmin := granted, uAdminGrantedAt := (if granted then Some (nowSQL s) else None)\<rparr>"
  have ids: "map uID (set_rows (\<lambda>x. uID x = u) ?f (users s)) = map uID (users s)"
    by (rule set_rows_map_same) simp
  have "\<exists>x\<in>set (users s). uIsAdmin x \<and> (uID x \<noteq> u \<or> granted)"
  proof (cases granted)
    case False
    then have two: "1 < length (filter uIsAdmin (users s))" using assms(2) by simp
    have "distinct (map uID (filter uIsAdmin (users s)))" using ok by (simp add: has_admin_def distinct_map_filter)
    with two obtain a b where "a \<in> set (filter uIsAdmin (users s))" "b \<in> set (filter uIsAdmin (users s))" "uID a \<noteq> uID b"
      by (cases "filter uIsAdmin (users s)"; cases "tl (filter uIsAdmin (users s))") auto
    then show ?thesis by auto
  qed (use ok in \<open>auto simp: has_admin_def\<close>)
  then obtain x where x: "x \<in> set (users s)" "uIsAdmin x" "uID x \<noteq> u \<or> granted" by blast
  then have "(if uID x = u then ?f x else x) \<in> set (set_rows (\<lambda>x. uID x = u) ?f (users s))"
    "uIsAdmin (if uID x = u then ?f x else x)" unfolding set_set_rows by auto
  then have "\<exists>x\<in>set (set_rows (\<lambda>x. uID x = u) ?f (users s)). uIsAdmin x" by blast
  then show ?thesis using ok ids
    by (auto simp: SetAdminRow_def has_admin_def simp del: set_set_rows)
qed

lemma keeps_has_admin_SetAdmin: "keeps has_admin (SetAdmin c u granted :: ('m core_db_scheme, error, User list) oper)"
proof -
  have "keeps has_admin (thenE (refuseLastAdmin granted) (thenE (not_found ''user'' (SetAdminRow u granted))
      (admin_list :: ('m core_db_scheme, error, User list) oper)))"
  proof (rule keeps_guarded [OF pure_refuseLastAdmin(1)])
    fix s :: "'m core_db_scheme" and x assume ok: "has_admin s" "refuseLastAdmin granted s = (Inr x, s)"
    then have "has_admin (snd (not_found ''user'' (SetAdminRow u granted) s))"
      using has_admin_SetAdminRow [OF ok(1)] refuseLastAdmin_Inr [of granted s x s] by (simp add: not_found_def)
    then show "has_admin (snd (thenE (not_found ''user'' (SetAdminRow u granted)) admin_list s))"
      by (rule keeps_step) (simp add: pure_op_keeps)
  qed
  then show ?thesis by (auto simp: SetAdmin_def)
qed

section \<open>Requests\<close>

datatype admin_request =
    ListAdminsReq
  | SetAdminReq ident bool
  | FindUserReq string string
  | SearchUsersReq string Page
  | GetInstanceSettingsReq
  | UpdateInstanceSettingsReq UpdateSettingsRequest

fun serve_admin :: "caller \<Rightarrow> admin_request \<Rightarrow> ('m core_db_scheme, error, unit) oper" where
  "serve_admin c ListAdminsReq = bindE (ListAdminsOp c) (\<lambda>_. ret ())"
| "serve_admin c (SetAdminReq u granted) = bindE (SetAdmin c u granted) (\<lambda>_. ret ())"
| "serve_admin c (FindUserReq h d) = bindE (FindUser c h d) (\<lambda>_. ret ())"
| "serve_admin c (SearchUsersReq q p) = bindE (SearchUsers c q p) (\<lambda>_. ret ())"
| "serve_admin c GetInstanceSettingsReq = bindE (GetInstanceSettings c) (\<lambda>_. ret ())"
| "serve_admin c (UpdateInstanceSettingsReq r) = bindE (UpdateInstanceSettings c r) (\<lambda>_. ret ())"

lemma pure_people [simp]: "pure_op (UserByHandle h d)" "pure_op (SearchUsersRow q p)" "pure_op ListAdmins"
  by (auto simp: UserByHandle_def SearchUsersRow_def ListAdmins_def intro!: pure_op_bindE)

lemma pure_admin_reads [simp]:
  "pure_op (ListAdminsOp c)" "pure_op (FindUser c h d)" "pure_op (SearchUsers c q p)" "pure_op (GetInstanceSettings c)"
  by (auto simp: ListAdminsOp_def is_admin_def FindUser_def SearchUsers_def GetInstanceSettings_def Let_def
      intro!: pure_op_bindE pure_op_thenE)

text \<open>Whatever reads only the users keeps: nothing here writes anything else but the settings.\<close>
lemma keeps_serve_admin:
  fixes P :: "'m core_db_scheme \<Rightarrow> bool"
  assumes "\<And>u granted. keeps P (SetAdmin c u granted)" "\<And>st s. P s \<Longrightarrow> P (s\<lparr>settings := st\<rparr>)"
  shows "keeps P (serve_admin c r)"
proof (cases r)
  case (UpdateInstanceSettingsReq q)
  have "keeps P (PutInstanceSettings st)" for st
    using assms(2) by (auto simp: PutInstanceSettings_def intro!: keeps_writes)
  then show ?thesis
    by (auto simp: UpdateInstanceSettingsReq UpdateInstanceSettings_def intro!: keeps_bindE keeps_thenE keeps_internal)
next
  case (SetAdminReq u granted)
  then show ?thesis by (auto intro!: keeps_bindE assms(1))
qed (auto intro!: keeps_bindE intro: pure_op_keeps)

lemma keeps_has_admin_serve_admin: "keeps has_admin (serve_admin c r)"
  by (rule keeps_serve_admin [OF keeps_has_admin_SetAdmin]) (simp add: has_admin_def)

lemma serve_admin_refuses: "\<not> cIsAdmin c \<Longrightarrow> snd (serve_admin c r s) = s"
proof -
  assume c: "\<not> cIsAdmin c"
  then have "pure_op (serve_admin c r)"
    by (cases r) (auto simp: SetAdmin_def UpdateInstanceSettings_def intro!: pure_op_bindE)
  then show ?thesis unfolding pure_op_def by blast
qed

section \<open>Properties\<close>

definition two_admins :: fed_db where
  "two_admins = sample_db\<lparr>users := [ada, bob\<lparr>uIsAdmin := True, uAdminGrantedAt := Some 0\<rparr>]\<rparr>"


definition asked_settings :: UpdateSettingsRequest where
  "asked_settings = \<lparr>uiPublishDefault = None, uiOrganizationOverrideAllowed = None, uiGatheringOverrideAllowed = None,
     uiRetentionDays = Some (- 1), uiPeerRateLimitPerMinute = None, uiOriginRateLimitPerMinute = None\<rparr>"


end
