(* ===== verification/Federation.thy ===== *)
theory Federation
  imports RateLimit Events Admin
begin

text \<open>
  \<open>csilservices/federation.go\<close>: the peers an administrator keeps, and the two
  operations another instance calls, authenticated by a signature alone.  The
  signature schemes (\<open>federation/verify.go\<close>, the linkkeys SDK) and the decoding of
  the signed bytes are fields of the service; the code verifies the bytes as
  received before it decodes them, so \<open>inBody\<close> is those bytes.
\<close>

section \<open>Addresses\<close>

text \<open>\<open>SplitAddress\<close> of \<open>federation/sign.go\<close>: \<open>strings.Cut\<close> at the first @, and no second one.\<close>
definition SplitAddress :: "string \<Rightarrow> (string \<times> string) option" where
  "SplitAddress address =
     (let a = ToLowerId (trim_id address);
          handle = takeWhile (\<lambda>c. c \<noteq> CHR ''@'') a;
          rest = dropWhile (\<lambda>c. c \<noteq> CHR ''@'') a;
          domain = tl rest
      in if rest = [] \<or> handle = [] \<or> domain = [] \<or> CHR ''@'' \<in> set domain then None
         else Some (handle, domain))"

section \<open>The service\<close>

text \<open>\<open>csil.SignedDelivery\<close> and \<open>csil.SignedPeeringRequest\<close> as received.\<close>
record IncomingDelivery =
  inSenderAddress :: string
  inAlgorithm :: string
  inKeyId :: string
  inSignature :: string
  inBody :: string

record IncomingPeering = IncomingDelivery +
  inIdentity :: PeerIdentity

record PeeringBody =
  pbBaseUrl :: string
  pbNote :: utext

record fed_service =
  fsAddress :: string
  fsAlgorithm :: string
  fsIdentity :: PeerIdentity
  fsVerify :: "string \<Rightarrow> PeerIdentity \<Rightarrow> IncomingDelivery \<Rightarrow> bool"
  fsVerifyPeering :: "string \<Rightarrow> PeerIdentity \<Rightarrow> IncomingDelivery \<Rightarrow> bool"
  fsDecodeBatch :: "string \<Rightarrow> EventBatch option"
  fsDecodePeering :: "string \<Rightarrow> PeeringBody option"
  fsLoadLocation :: "string \<Rightarrow> zone option"
  fsParseURL :: "utext \<Rightarrow> (utext \<times> utext) option"
  fsLower :: "rune \<Rightarrow> rune"
  fsMapOrder :: "utext list \<Rightarrow> utext list"   \<comment> \<open>the order Go happens to range over a map in\<close>

definition hour_duration :: duration where "hour_duration = 60 * minute"
definition FreshnessWindow :: duration where "FreshnessWindow = hour_duration"

section \<open>Called by an administrator\<close>

definition ListPeers :: "Page \<Rightarrow> ('m fed_db_scheme, store_error, Peer list \<times> int) oper" where
  "ListPeers page = reads (\<lambda>s. (page_rows page (sort_key pAddress (peers s)), int (length (peers s))))"

definition ListPeersOp :: "caller \<Rightarrow> Page \<Rightarrow> ('m fed_db_scheme, error, Peer list \<times> int) oper" where
  "ListPeersOp c page = bindE (is_admin c) (\<lambda>_. internal (ListPeers page))"

definition AddPeer ::
  "fed_service \<Rightarrow> caller \<Rightarrow> string \<Rightarrow> string \<Rightarrow> utext \<Rightarrow> ('m fed_db_scheme, error, Peer) oper" where
  "AddPeer fs c reqAddress reqBaseUrl reqNote =
     bindE (is_admin c) (\<lambda>_.
     bindE (the_or (Invalid ''address'') (SplitAddress reqAddress)) (\<lambda>(handle, domain).
     let address = handle @ ''@'' @ domain in
     thenE (refuse_if (address = ToLowerId (fsAddress fs)) (Invalid ''address''))
    (thenE (refuse_if (trim_id reqBaseUrl = []) (Invalid ''base_url''))
    (bindE (reads (\<lambda>s. fst (PeerByAddress address s))) (\<lambda>existing. case existing of
        Inr _ \<Rightarrow> failed (Invalid ''address'')
      | Inl e \<Rightarrow>
          thenE (refuse_if (e \<noteq> ErrNotFound) Internal)
         (bindE (internal (CreatePeerRow \<lparr>pnAddress = address, pnHandle = handle, pnDomain = domain,
              pnBaseURL = trim_id reqBaseUrl, pnIdentity = noIdentity, pnNote = TrimSpace reqNote\<rparr>)) (\<lambda>peer.
          internal (SetPeerStatusRow (pID peer) None (Some PeerPending) None))))))))"

definition parsePeerStatus :: "string \<Rightarrow> PeerStatus option" where
  "parsePeerStatus v = (if v = ''none'' then Some PeerNone else if v = ''pending'' then Some PeerPending
     else if v = ''approved'' then Some PeerApproved else if v = ''blocked'' then Some PeerBlocked else None)"

definition showPeerStatus :: "PeerStatus \<Rightarrow> string" where
  "showPeerStatus v = (case v of PeerNone \<Rightarrow> ''none'' | PeerPending \<Rightarrow> ''pending''
     | PeerApproved \<Rightarrow> ''approved'' | PeerBlocked \<Rightarrow> ''blocked'')"

text \<open>An optional status: absent, known, or refused under its field's name.\<close>
definition optional_status :: "string \<Rightarrow> string option \<Rightarrow> error + PeerStatus option" where
  "optional_status field v = (case v of
      None \<Rightarrow> Inr None
    | Some x \<Rightarrow> (case parsePeerStatus x of None \<Rightarrow> Inl (Invalid field) | Some st \<Rightarrow> Inr (Some st)))"

text \<open>All four identity fields, each of them something, or none of them.\<close>
definition identityFromRequest ::
  "string option \<Rightarrow> string option \<Rightarrow> string option \<Rightarrow> string option \<Rightarrow> error + PeerIdentity option" where
  "identityFromRequest u d a i =
     (case (u, d, a, i) of
        (None, None, None, None) \<Rightarrow> Inr None
      | (Some u, Some d, Some a, Some i) \<Rightarrow>
          if trim_id u = [] \<or> trim_id d = [] \<or> trim_id a = [] \<or> trim_id i = [] then Inl (Invalid ''subject_user_id'')
          else Inr (Some \<lparr>piSubjectUserID = trim_id u, piSubjectDomain = trim_id d,
                          piApplicationID = trim_id a, piInstanceID = trim_id i\<rparr>)
      | _ \<Rightarrow> Inl (Invalid ''subject_user_id''))"

record SetPeerStatusRequest =
  psPeerID :: ident
  psInbound :: "string option"
  psOutbound :: "string option"
  psSubjectUserId :: "string option"
  psSubjectDomain :: "string option"
  psApplicationId :: "string option"
  psInstanceId :: "string option"

text \<open>Approving a peer inbound needs an identity: one given here, or the one its row holds.\<close>
definition SetPeerStatus ::
  "caller \<Rightarrow> SetPeerStatusRequest \<Rightarrow> ('m fed_db_scheme, error, Peer) oper" where
  "SetPeerStatus c req =
     bindE (is_admin c) (\<lambda>_.
     bindE (of_sum (optional_status ''inbound_status'' (psInbound req))) (\<lambda>inbound.
     bindE (of_sum (optional_status ''outbound_status'' (psOutbound req))) (\<lambda>outbound.
     bindE (of_sum (identityFromRequest (psSubjectUserId req) (psSubjectDomain req) (psApplicationId req)
        (psInstanceId req))) (\<lambda>identity.
     thenE (refuse_if (inbound = None \<and> outbound = None \<and> identity = None) (Invalid ''inbound_status''))
    (thenE (if inbound = Some PeerApproved
            then bindE (case identity of
                   Some i \<Rightarrow> ret i
                 | None \<Rightarrow> bindE (not_found ''peer'' (PeerByID (psPeerID req))) (\<lambda>p. ret (pIdentity p))) (\<lambda>resulting.
                 refuse_if (EmptyIdentity resulting) (Invalid ''subject_user_id''))
            else ret ())
     (not_found ''peer'' (SetPeerStatusRow (psPeerID req) inbound outbound identity)))))))"

definition ResumePeer :: "caller \<Rightarrow> ident \<Rightarrow> ('m fed_db_scheme, error, Peer) oper" where
  "ResumePeer c i =
     bindE (is_admin c) (\<lambda>_.
     thenE (not_found ''peer'' (PeerByID i))
    (bindE (reads clock) (\<lambda>now.
     thenE (internal (ResumePeerRow i now))
       (internal (PeerByID i)))))"

definition RemovePeer :: "caller \<Rightarrow> ident \<Rightarrow> ('m fed_db_scheme, error, unit) oper" where
  "RemovePeer c i =
     bindE (is_admin c) (\<lambda>_.
     thenE (not_found ''peer'' (PeerByID i))
       (internal (DeletePeerRow i)))"

definition SetPeerRateLimit :: "caller \<Rightarrow> ident \<Rightarrow> 64 word option \<Rightarrow> ('m fed_db_scheme, error, Peer) oper" where
  "SetPeerRateLimit c i limit =
     bindE (is_admin c) (\<lambda>_. not_found ''peer'' (SetPeerRateLimitRow i (map_option sint limit)))"

section \<open>What a peer may send\<close>

definition verifiedPeer :: "fed_service \<Rightarrow> IncomingDelivery \<Rightarrow> ('m fed_db_scheme, error, Peer) oper" where
  "verifiedPeer fs d =
     bindE (the_or (Invalid ''sender_address'') (SplitAddress (inSenderAddress d))) (\<lambda>(handle, domain).
     bindE (map_err (\<lambda>e. if e = ErrNotFound then Forbidden else Internal)
              (PeerByAddress (handle @ ''@'' @ domain))) (\<lambda>peer.
     thenE (refuse_if (\<not> fsVerify fs (pAddress peer) (pIdentity peer) d) Forbidden)
       (ret peer)))"

text \<open>\<open>validateFederatedEvent\<close>: a reason to leave one event out, or none.\<close>
definition validateFederatedEvent :: "fed_service \<Rightarrow> FederatedEvent \<Rightarrow> bool" where
  "validateFederatedEvent fs e \<longleftrightarrow>
     trim_id (feRemoteId e) \<noteq> [] \<and> TrimSpace (feTitle e) \<noteq> [] \<and> trim_id (feCanonicalUrl e) \<noteq> []
   \<and> isWebURL (fsParseURL fs) (runes (feCanonicalUrl e)) \<and> (feIsOnline e \<or> feIsInPerson e)
   \<and> \<not> feEndsAt e < feStartsAt e \<and> \<not> Option.is_none (fsLoadLocation fs (feTimezone e))"

definition remoteEventInput :: "fed_service \<Rightarrow> FederatedEvent \<Rightarrow> string \<Rightarrow> RemoteEventInput" where
  "remoteEventInput fs e originDomain =
     \<lparr>riRemoteID = feRemoteId e, riOriginDomain = originDomain, riCanonicalURL = feCanonicalUrl e,
      riTitle = feTitle e,
      riSearchText = searchText (fsLower fs)
        ([feTitle e, feGatheringName e, feOrganizationName e] @ locationSearchParts (fromLocation (feLocation e))),
      riIsOnline = feIsOnline e, riIsInPerson = feIsInPerson e, riLocation = fromLocation (feLocation e),
      riStartsAt = feStartsAt e, riEndsAt = feEndsAt e, riTimezone = feTimezone e,
      riGatheringName = feGatheringName e, riOrganizationName = feOrganizationName e\<rparr>"

text \<open>The updates the peer's allowance admits, by organization, in the batch's order.\<close>
fun admitted :: "int \<Rightarrow> FederatedEvent list \<Rightarrow> utext list" where
  "admitted n [] = []"
| "admitted n (e # es) =
     (if feDeleted e then admitted n es
      else if n \<le> 0 then [] else feOrganizationName e # admitted (n - 1) es)"

text \<open>The second budget, taken per organization; the sum of what was refused comes with it.\<close>
fun take_budgets ::
  "ident \<Rightarrow> utext list \<Rightarrow> int \<Rightarrow> instant \<Rightarrow> utext list \<Rightarrow> ('m fed_db_scheme, error, (utext \<Rightarrow> int) \<times> int) oper" where
  "take_budgets p wanted limit now [] = ret (\<lambda>_. 0, 0)"
| "take_budgets p wanted limit now (name # names) =
     bindE (internal (ConsumeOriginAllowance p name (int (count_list wanted name)) limit now)) (\<lambda>v.
     bindE (take_budgets p wanted limit now names) (\<lambda>(budget, refused).
     ret (budget(name := Allowed v), refused + Refused v)))"

text \<open>A step whose failure is logged and passed over.\<close>
definition shrugged :: "('s, store_error, unit) oper \<Rightarrow> ('s, error, unit) oper" where
  "shrugged m s = (Inr (), snd (m s))"

text \<open>The batch, in order: what is accepted and what is rejected for what it is.\<close>
fun walk_batch ::
  "fed_service \<Rightarrow> Peer \<Rightarrow> instant \<Rightarrow> int \<Rightarrow> (utext \<Rightarrow> int) \<Rightarrow> FederatedEvent list
     \<Rightarrow> ('m fed_db_scheme, error, nat \<times> nat) oper" where
  "walk_batch fs peer now peerBudget budget [] = ret (0, 0)"
| "walk_batch fs peer now peerBudget budget (e # es) =
     (if feDeleted e
      then bindE (internal (DeleteRemoteEvent (pID peer) (feRemoteId e))) (\<lambda>held.
           bindE (walk_batch fs peer now peerBudget budget es) (\<lambda>(accepted, rejected).
           ret (if held then (accepted + 1, rejected) else (accepted, rejected + 1))))
      else if peerBudget \<le> 0 \<or> budget (feOrganizationName e) \<le> 0
      then walk_batch fs peer now peerBudget budget es
      else let rest = walk_batch fs peer now (peerBudget - 1)
                 (budget(feOrganizationName e := budget (feOrganizationName e) - 1)) es
        in if \<not> validateFederatedEvent fs e
           then bindE rest (\<lambda>(accepted, rejected). ret (accepted, rejected + 1))
           else thenE (internal (UpsertRemoteEvent (pID peer) (remoteEventInput fs e (pDomain peer))))
               (thenE (shrugged (RecordOriginAccepted (pID peer) (feOrganizationName e) now))
               (bindE rest (\<lambda>(accepted, rejected). ret (accepted + 1, rejected)))))"

record DeliveryReceipt =
  rcAccepted :: nat
  rcRejected :: nat
  rcRateLimited :: nat

text \<open>One verified, fresh, new batch; the flag is \<open>applied\<close>, that nothing was held back for rate.\<close>
definition applyBatch ::
  "fed_service \<Rightarrow> Peer \<Rightarrow> EventBatch \<Rightarrow> ('m fed_db_scheme, error, DeliveryReceipt \<times> bool) oper" where
  "applyBatch fs peer batch =
     bindE (reads clock) (\<lambda>now.
     bindE (reads settings) (\<lambda>st.
     let limit = (case pRateLimitPerMinute peer of None \<Rightarrow> PeerRateLimitPerMinute st | Some l \<Rightarrow> l);
         chargeable = int (length (filter (\<lambda>e. \<not> feDeleted e) (ebEvents batch)))
     in bindE (internal (ConsumePeerAllowance (pID peer) chargeable limit now)) (\<lambda>verdict.
     let wanted = admitted (Allowed verdict) (ebEvents batch)
     in bindE (take_budgets (pID peer) wanted (OriginRateLimitPerMinute st) now (fsMapOrder fs (remdups wanted)))
       (\<lambda>(budget, refused).
     bindE (walk_batch fs peer now (Allowed verdict) budget (ebEvents batch)) (\<lambda>(accepted, rejected).
     let rateLimited = Refused verdict + refused
     in ret (\<lparr>rcAccepted = accepted, rcRejected = rejected + nat rateLimited, rcRateLimited = nat rateLimited\<rparr>,
             rateLimited = 0))))))"

text \<open>The deferred release: the batch id is forgotten unless the batch was applied in full.\<close>
definition releasing :: "ident \<Rightarrow> string \<Rightarrow> ('m fed_db_scheme, error, 'a \<times> bool) oper \<Rightarrow> ('m fed_db_scheme, error, 'a) oper" where
  "releasing p b m s = (case m s of
      (Inl e, t) \<Rightarrow> (Inl e, snd (ForgetBatch p b t))
    | (Inr (x, applied), t) \<Rightarrow> (Inr x, if applied then t else snd (ForgetBatch p b t)))"

definition DeliverEvents :: "fed_service \<Rightarrow> IncomingDelivery \<Rightarrow> ('m fed_db_scheme, error, DeliveryReceipt) oper" where
  "DeliverEvents fs d =
     bindE (verifiedPeer fs d) (\<lambda>peer.
     thenE (refuse_if (pInboundStatus peer \<noteq> PeerApproved) Forbidden)
    (bindE (the_or (Invalid ''body'') (fsDecodeBatch fs (inBody d))) (\<lambda>batch.
     thenE (refuse_if (ToLowerId (trim_id (ebOriginDomain batch)) \<noteq> ToLowerId (pDomain peer)) Forbidden)
    (bindE (reads clock) (\<lambda>now.
     thenE (refuse_if (now - ebSentAt batch > FreshnessWindow \<or> now - ebSentAt batch < - FreshnessWindow)
              (Invalid ''sent_at''))
    (thenE (refuse_if (trim_id (ebBatchId batch) = []) (Invalid ''batch_id''))
    (bindE (internal (RememberBatch (pID peer) (ebBatchId batch) now)) (\<lambda>firstTime.
     thenE (refuse_if (\<not> firstTime) (Invalid ''batch_id''))
       (releasing (pID peer) (ebBatchId batch) (applyBatch fs peer batch))))))))))"

text \<open>Always answered \<open>pending\<close>; a new address becomes a row with the identity that verified.\<close>
definition RequestPeering :: "fed_service \<Rightarrow> IncomingPeering \<Rightarrow> ('m fed_db_scheme, error, PeerStatus) oper" where
  "RequestPeering fs req =
     bindE (the_or (Invalid ''sender_address'') (SplitAddress (inSenderAddress req))) (\<lambda>(handle, domain).
     let address = handle @ ''@'' @ domain in
     thenE (refuse_if (\<not> fsVerifyPeering fs address (inIdentity req) (IncomingDelivery.truncate req)) Forbidden)
    (bindE (the_or (Invalid ''body'') (fsDecodePeering fs (inBody req))) (\<lambda>body.
     thenE (refuse_if (trim_id (pbBaseUrl body) = []) (Invalid ''base_url''))
    (bindE (reads (\<lambda>s. fst (PeerByAddress address s))) (\<lambda>known.
     thenE (refuse_if (\<exists>e. known = Inl e \<and> e \<noteq> ErrNotFound) Internal)
    (bindE (case known of
        Inr peer \<Rightarrow> ret peer
      | Inl _ \<Rightarrow> internal (CreatePeerRow \<lparr>pnAddress = address, pnHandle = handle, pnDomain = domain,
           pnBaseURL = trim_id (pbBaseUrl body), pnIdentity = inIdentity req, pnNote = TrimSpace (pbNote body)\<rparr>)) (\<lambda>peer.
     if pInboundStatus peer = PeerBlocked then ret PeerPending
     else thenE (if pInboundStatus peer = PeerNone
                 then thenE (internal (SetPeerStatusRow (pID peer) (Some PeerPending) None None)) (ret ())
                 else ret ())
            (ret PeerPending))))))))"

section \<open>The retention pass\<close>

text \<open>
  One tick of \<open>sweepExpiredRemoteEvents\<close> in \<open>cmd/serve.go\<close>: batch ids older than two
  freshness windows go, then events that ended before the retention's first day.
\<close>
definition sweepExpiredRemoteEvents :: "'m fed_db_scheme \<Rightarrow> 'm fed_db_scheme" where
  "sweepExpiredRemoteEvents s =
     (if RetentionDays (settings s) \<le> 0 then s
      else let t = snd (ForgetBatchesSeenBefore (clock s - 2 * FreshnessWindow) s)
        in snd (DeleteRemoteEventsEndedBefore (clock s - RetentionDays (settings s) * (24 * hour_duration)) t))"

section \<open>Requests\<close>

datatype fed_request =
    ListPeersReq Page
  | AddPeerReq string string utext
  | SetPeerStatusReq SetPeerStatusRequest
  | ResumePeerReq ident
  | RemovePeerReq ident
  | SetPeerRateLimitReq ident "64 word option"

fun serve_federation :: "fed_service \<Rightarrow> caller \<Rightarrow> fed_request \<Rightarrow> ('m fed_db_scheme, error, unit) oper" where
  "serve_federation fs c (ListPeersReq page) = bindE (ListPeersOp c page) (\<lambda>_. ret ())"
| "serve_federation fs c (AddPeerReq a u n) = bindE (AddPeer fs c a u n) (\<lambda>_. ret ())"
| "serve_federation fs c (SetPeerStatusReq r) = bindE (SetPeerStatus c r) (\<lambda>_. ret ())"
| "serve_federation fs c (ResumePeerReq i) = bindE (ResumePeer c i) (\<lambda>_. ret ())"
| "serve_federation fs c (RemovePeerReq i) = RemovePeer c i"
| "serve_federation fs c (SetPeerRateLimitReq i l) = bindE (SetPeerRateLimit c i l) (\<lambda>_. ret ())"

text \<open>What can happen between two deliveries.\<close>
datatype fed_step =
    DeliveryStep IncomingDelivery
  | PeeringStep IncomingPeering
  | AdminStep caller fed_request
  | SweepStep
  | TimeStep nat

fun fed_run :: "fed_service \<Rightarrow> fed_step list \<Rightarrow> 'm fed_db_scheme \<Rightarrow> 'm fed_db_scheme" where
  "fed_run fs [] s = s"
| "fed_run fs (DeliveryStep d # xs) s = fed_run fs xs (snd (DeliverEvents fs d s))"
| "fed_run fs (PeeringStep d # xs) s = fed_run fs xs (snd (RequestPeering fs d s))"
| "fed_run fs (AdminStep c r # xs) s = fed_run fs xs (snd (serve_federation fs c r s))"
| "fed_run fs (SweepStep # xs) s = fed_run fs xs (sweepExpiredRemoteEvents s)"
| "fed_run fs (TimeStep n # xs) s = fed_run fs xs (s\<lparr>clock := clock s + int n\<rparr>)"

end
