(* ===== verification/Sender.thy ===== *)
theory Sender
  imports Rpc Federation
begin

text \<open>
  \<open>federation/sender.go\<close>: the passes over the outbox, what a peer's answer makes of an
  item, and when it is tried again.  The HTTP exchange and the two generated codecs are
  fields of the sender; the envelope codecs are the ones of \<open>Rpc\<close>, so that what a peer
  answers is decoded by the code's own decoder, a panic included.  The clock stands still
  within a pass.  The texts of errors are shortened.
\<close>

record sender =
  snFailureWindow :: duration
  snBaseDelay :: duration
  snMaxDelay :: duration
  snRateDelay :: duration
  snBatchSize :: int
  snRoom :: nat
  snExchange :: "string \<Rightarrow> bytes \<Rightarrow> (nat \<times> bytes) option"   \<comment> \<open>client.Do and the whole body\<close>
  snEncodeDelivery :: "SignedDelivery \<Rightarrow> bytes"
  snDecodeReceipt :: "bytes \<Rightarrow> DeliveryReceipt option"

definition DefaultFailureWindow :: duration where "DefaultFailureWindow = 24 * hour_duration"
definition DefaultBaseDelay :: duration where "DefaultBaseDelay = 30 * second"
definition DefaultMaxDelay :: duration where "DefaultMaxDelay = hour_duration"
definition DefaultRateDelay :: duration where "DefaultRateDelay = 70 * second"
definition DefaultBatchSize :: int where "DefaultBatchSize = 50"

definition failureWindow :: "sender \<Rightarrow> duration" where
  "failureWindow sn = (if snFailureWindow sn > 0 then snFailureWindow sn else DefaultFailureWindow)"

definition rateDelay :: "sender \<Rightarrow> duration" where
  "rateDelay sn = (if snRateDelay sn > 0 then snRateDelay sn else DefaultRateDelay)"

text \<open>
  Exact while the base is below 2^53 nanoseconds (some hundred days), where the code's
  float64 product is; a product beyond the int64 range is capped like any other.
\<close>
definition nextAttempt :: "sender \<Rightarrow> instant \<Rightarrow> int \<Rightarrow> instant" where
  "nextAttempt sn now attempts =
     (let base = (if snBaseDelay sn \<le> 0 then DefaultBaseDelay else snBaseDelay sn);
          ceiling = (if snMaxDelay sn \<le> 0 then DefaultMaxDelay else snMaxDelay sn);
          delay = base * 2 ^ nat (min attempts 16)
      in now + (if delay > ceiling \<or> delay \<le> 0 then ceiling else delay))"

section \<open>One delivery\<close>

datatype deliveryOutcome = outcomeAccepted | outcomeRateLimited | outcomeRefused

fun trimSlash :: "string \<Rightarrow> string" where
  "trimSlash s = rev (dropWhile (\<lambda>c. c = CHR ''/'') (rev s))"

definition receiptOutcome :: "DeliveryReceipt \<Rightarrow> deliveryOutcome" where
  "receiptOutcome receipt =
     (if rcAccepted receipt > 0 then outcomeAccepted
      else if rcRateLimited receipt > 0 then outcomeRateLimited
      else outcomeRefused)"

definition deliverItem :: "sender \<Rightarrow> outbox_row \<times> Peer \<Rightarrow> (string + deliveryOutcome) run" where
  "deliverItem sn = (\<lambda>(item, peer).
     if pBaseURL peer = [] then Returns (Inl ''the peer has no base URL'')
     else let envelope = EncodeRpcRequest (NewRpcRequest ''federation'' ''deliver-events'' (snEncodeDelivery sn (obPayload item)))
       in (case snExchange sn (trimSlash (pBaseURL peer) @ ''/csil/v1/rpc'') envelope of
         None \<Rightarrow> Returns (Inl ''reaching the peer'')
       | Some (status, raw) \<Rightarrow>
           if status \<noteq> 200 then Returns (Inl ''answered HTTP'')
           else (case DecodeRpcResponse (snRoom sn) (take (2 ^ 20) raw) of
               Panics \<Rightarrow> Panics
             | DecodeError \<Rightarrow> Returns (Inl ''decoding the response'')
             | Returns resp \<Rightarrow>
                 if \<not> IsOk (rsStatus resp) then Returns (Inl ''refused the delivery: transport status'')
                 else if rsVariant resp = Some ''ServiceError'' then Returns (Inl ''refused the delivery'')
                 else (case snDecodeReceipt sn (rsPayload resp) of
                     None \<Rightarrow> Returns (Inl ''decoding the receipt'')
                   | Some receipt \<Rightarrow> Returns (Inr (receiptOutcome receipt))))))"

section \<open>What is recorded\<close>

text \<open>Two statements, each of whose failures is logged and passed over.\<close>
definition recordDeferral :: "sender \<Rightarrow> instant \<Rightarrow> outbox_row \<Rightarrow> 'm fed_db_scheme \<Rightarrow> 'm fed_db_scheme" where
  "recordDeferral sn now item s =
     after (RecordDeliverySuccess (obPeer item) now
       (after (DeferDelivery (obID item) ''refused for rate; will retry'' (now + rateDelay sn) s)))"

definition recordRefusal :: "instant \<Rightarrow> outbox_row \<Rightarrow> 'm fed_db_scheme \<Rightarrow> 'm fed_db_scheme" where
  "recordRefusal now item s = after (RecordDeliverySuccess (obPeer item) now (after (MarkDelivered (obID item) s)))"

definition recordSuccess :: "instant \<Rightarrow> outbox_row \<Rightarrow> 'm fed_db_scheme \<Rightarrow> 'm fed_db_scheme" where
  "recordSuccess now item s = after (RecordDeliverySuccess (obPeer item) now (after (MarkDelivered (obID item) s)))"

definition recordFailure :: "sender \<Rightarrow> instant \<Rightarrow> outbox_row \<Rightarrow> string \<Rightarrow> 'm fed_db_scheme \<Rightarrow> 'm fed_db_scheme" where
  "recordFailure sn now item cause s =
     after (RecordDeliveryFailure (obPeer item) cause now (now - failureWindow sn)
       (after (MarkDeliveryFailed (obID item) cause (nextAttempt sn now (obAttempts item)) s)))"

definition record_outcome ::
  "sender \<Rightarrow> instant \<Rightarrow> outbox_row \<Rightarrow> string + deliveryOutcome \<Rightarrow> 'm fed_db_scheme \<Rightarrow> 'm fed_db_scheme" where
  "record_outcome sn now item r = (case r of
      Inl cause \<Rightarrow> recordFailure sn now item cause
    | Inr outcomeRateLimited \<Rightarrow> recordDeferral sn now item
    | Inr outcomeRefused \<Rightarrow> recordRefusal now item
    | Inr outcomeAccepted \<Rightarrow> recordSuccess now item)"

section \<open>One pass\<close>

text \<open>The items in turn; a panic ends the pass, and with it the process.\<close>
fun pass_items ::
  "sender \<Rightarrow> instant \<Rightarrow> (outbox_row \<times> Peer) list \<Rightarrow> 'm fed_db_scheme \<Rightarrow> (nat \<times> nat) run \<times> 'm fed_db_scheme" where
  "pass_items sn now [] s = (Returns (0, 0), s)"
| "pass_items sn now (x # xs) s = (case deliverItem sn x of
      Panics \<Rightarrow> (Panics, s)
    | DecodeError \<Rightarrow> (DecodeError, s)
    | Returns r \<Rightarrow> (case pass_items sn now xs (record_outcome sn now (fst x) r s) of
          (out, t) \<Rightarrow> (bindR out (\<lambda>(delivered, failed).
             Returns (delivered + (if r = Inr outcomeAccepted then 1 else 0), failed + (if isl r then 1 else 0))), t)))"

definition batchSize :: "sender \<Rightarrow> nat" where
  "batchSize sn = nat (if snBatchSize sn \<le> 0 then DefaultBatchSize else snBatchSize sn)"

definition RunOnce :: "sender \<Rightarrow> 'm fed_db_scheme \<Rightarrow> (nat \<times> nat) run \<times> 'm fed_db_scheme" where
  "RunOnce sn s = (case DueDeliveries (clock s) (batchSize sn) s of
      (Inl e, t) \<Rightarrow> (DecodeError, t)
    | (Inr items, t) \<Rightarrow> pass_items sn (clock s) items t)"

section \<open>The wait\<close>

text \<open>
  The wait before the next attempt doubles with each failure from the base delay, is never
  longer than the ceiling nor zero, and never shrinks as attempts go on.
\<close>
theorem backoff_doubles_up_to_the_ceiling:
  assumes "0 < snBaseDelay sn" "0 < snMaxDelay sn" "0 \<le> attempts" "attempts \<le> later"
  shows "nextAttempt sn now attempts = now + min (snBaseDelay sn * 2 ^ nat (min attempts 16)) (snMaxDelay sn)
    \<and> now < nextAttempt sn now attempts \<and> nextAttempt sn now attempts \<le> nextAttempt sn now later
    \<and> nextAttempt sn now later \<le> now + snMaxDelay sn"
proof -
  have eq: "nextAttempt sn now k = now + min (snBaseDelay sn * 2 ^ nat (min k 16)) (snMaxDelay sn)" for k
  proof -
    have "0 < snBaseDelay sn * 2 ^ nat (min k 16)" using assms(1) by simp
    then have "\<not> snBaseDelay sn * 2 ^ nat (min k 16) \<le> 0" by (simp only: not_le)
    then show ?thesis using assms(1,2) by (simp only: nextAttempt_def Let_def) (simp add: min_def [of _ "snMaxDelay sn"])
  qed
  have "(2 :: int) ^ nat (min attempts 16) \<le> 2 ^ nat (min later 16)" using assms(4) by (intro power_increasing) auto
  then have "snBaseDelay sn * 2 ^ nat (min attempts 16) \<le> snBaseDelay sn * 2 ^ nat (min later 16)"
    using assms(1) by (intro mult_left_mono) auto
  then have "min (snBaseDelay sn * 2 ^ nat (min attempts 16)) (snMaxDelay sn) \<le> min (snBaseDelay sn * 2 ^ nat (min later 16)) (snMaxDelay sn)"
    by (intro min.mono) auto
  moreover have "0 < min (snBaseDelay sn * 2 ^ nat (min attempts 16)) (snMaxDelay sn)" using assms(1,2) by simp
  moreover have "min (snBaseDelay sn * 2 ^ nat (min later 16)) (snMaxDelay sn) \<le> snMaxDelay sn" by (rule min.cobounded2)
  ultimately show ?thesis by (simp only: eq) linarith
qed

definition sample_sender :: sender where
  "sample_sender = \<lparr>snFailureWindow = 0, snBaseDelay = 30 * second, snMaxDelay = 3600 * second, snRateDelay = 0, snBatchSize = 0,
     snRoom = 2 ^ 20, snExchange = (\<lambda>_ _. None), snEncodeDelivery = (\<lambda>_. []), snDecodeReceipt = (\<lambda>_. None)\<rparr>"

theorem backoff_doubles_up_to_the_ceiling_witness:
  "nextAttempt sample_sender 0 3 = 240 * second"
  using backoff_doubles_up_to_the_ceiling [of sample_sender 3 9 0] by (simp add: sample_sender_def second_def)

section \<open>What leaves the outbox\<close>

definition outbox_key :: "outbox_row \<Rightarrow> ident \<times> ident \<times> ident \<times> SignedDelivery" where
  "outbox_key b = (obID b, obPeer b, obEvent b, obPayload b)"

lemma outbox_update_peer [simp]: "outbox (update_peer i f s) = outbox s"
  by (simp add: update_peer_def)

lemma outbox_key_set_rows: "(\<And>x. outbox_key (f x) = outbox_key x) \<Longrightarrow> outbox_key ` set (set_rows p f t) = outbox_key ` set t"
  by (rule set_rows_key_set)

lemma record_outcome_outbox:
  "outbox_key ` set (outbox (record_outcome sn now item r s)) =
     (if r = Inr outcomeAccepted \<or> r = Inr outcomeRefused
      then outbox_key ` {b \<in> set (outbox s). obID b \<noteq> obID item} else outbox_key ` set (outbox s))"
  by (auto simp: record_outcome_def recordFailure_def recordDeferral_def recordRefusal_def recordSuccess_def
      RecordDeliverySuccess_def RecordDeliveryFailure_def MarkDelivered_def MarkDeliveryFailed_def DeferDelivery_def
      outbox_key_set_rows [unfolded outbox_key_def] outbox_key_def
      simp del: set_set_rows split: sum.split deliveryOutcome.split)

lemma pass_items_outbox:
  assumes "pass_items sn now items s = (out, t)" "k \<in> outbox_key ` set (outbox s)"
  shows "k \<in> outbox_key ` set (outbox t)
    \<or> (\<exists>x\<in>set items. obID (fst x) = fst k \<and> deliverItem sn x \<in> {Returns (Inr outcomeAccepted), Returns (Inr outcomeRefused)})"
  using assms
proof (induction items arbitrary: s out)
  case (Cons x items)
  show ?case
  proof (cases "deliverItem sn x")
    case (Returns r)
    let ?u = "record_outcome sn now (fst x) r s"
    obtain out' where rest: "pass_items sn now items ?u = (out', t)"
      using Cons.prems(1) Returns by (auto split: prod.splits)
    show ?thesis
    proof (cases "k \<in> outbox_key ` set (outbox ?u)")
      case True
      then show ?thesis using Cons.IH [OF rest] by auto
    next
      case False
      obtain b where b: "b \<in> set (outbox s)" "k = outbox_key b" using Cons.prems(2) by blast
      note keys = record_outcome_outbox [of sn now "fst x" r s]
      have taken: "r = Inr outcomeAccepted \<or> r = Inr outcomeRefused"
        using False Cons.prems(2) unfolding keys by (simp only: split: if_splits)
      have "k \<notin> outbox_key ` {b \<in> set (outbox s). obID b \<noteq> obID (fst x)}" using False unfolding keys if_P [OF taken] .
      then have "obID b = obID (fst x)" using b by blast
      then show ?thesis using taken b Returns by (auto simp: outbox_key_def)
    qed
  qed (use Cons.prems in auto)
qed simp


definition sample_item :: outbox_row where
  "sample_item = \<lparr>obID = ''o1'', obPeer = ''peer'', obEvent = ''e1'',
     obPayload = \<lparr>sdSenderAddress = ''us@a.org'', sdAlgorithm = ''test'', sdKeyId = ''k'', sdSignature = ''good'',
       sdBody = \<lparr>ebOriginDomain = ''a.org'', ebBatchId = ''b1'', ebSentAt = 0, ebEvents = []\<rparr>\<rparr>,
     obAttempts = 0, obNextAttemptAt = 0, obLastError = [], obCreatedAt = 0\<rparr>"

definition queued_db :: fed_db where
  "queued_db = peered_db\<lparr>outbox := [sample_item], clock := 100 * 3600 * second\<rparr>"

lemma sample_unreachable: "\<exists>cause. deliverItem sample_sender x = Returns (Inl cause)"
  by (cases x) (auto simp: deliverItem_def sample_sender_def)


section \<open>Suspension\<close>

text \<open>How a peer's row may have come from the row it had before the pass.\<close>
definition came_from :: "instant \<Rightarrow> instant \<Rightarrow> Peer \<Rightarrow> Peer \<Rightarrow> bool" where
  "came_from now cutoff p0 p \<longleftrightarrow> pID p = pID p0
     \<and> (pSuspendedAt p = pSuspendedAt p0 \<or> (\<exists>f. pFirstFailureAt p0 = Some f \<and> f \<le> stored_time cutoff))
     \<and> pFirstFailureAt p \<in> {pFirstFailureAt p0, None, Some (stored_time now)}"

definition rows_from :: "instant \<Rightarrow> instant \<Rightarrow> Peer list \<Rightarrow> Peer list \<Rightarrow> bool" where
  "rows_from now cutoff ps0 ps \<longleftrightarrow> (\<forall>p\<in>set ps. \<exists>p0\<in>set ps0. came_from now cutoff p0 p)"

lemma came_from_failed:
  assumes "stored_time cutoff < stored_time now" "came_from now cutoff p0 p"
  shows "came_from now cutoff p0 ((failed_peer reason now cutoff p)\<lparr>pUpdatedAt := u\<rparr>)"
  using assms by (auto simp: came_from_def failed_peer_def Let_def split: option.splits)

lemma came_from_success:
  "came_from now cutoff p0 p \<Longrightarrow> came_from now cutoff p0 (p\<lparr>pLastSuccessAt := a, pFirstFailureAt := None, pLastFailureReason := r, pUpdatedAt := u\<rparr>)"
  by (auto simp: came_from_def)

lemma rows_from_set_rows:
  assumes "rows_from now cutoff ps0 ps" "\<And>p0 p. came_from now cutoff p0 p \<Longrightarrow> came_from now cutoff p0 (f p)"
  shows "rows_from now cutoff ps0 (set_rows q f ps)"
  using assms unfolding rows_from_def by (fastforce simp: set_rows_def)

lemma record_outcome_rows:
  assumes "stored_time (now - failureWindow sn) < stored_time now"
    "rows_from now (now - failureWindow sn) ps0 (peers s)"
  shows "rows_from now (now - failureWindow sn) ps0 (peers (record_outcome sn now item r s))"
proof -
  let ?c = "now - failureWindow sn"
  have ok: "rows_from now ?c ps0 (peers (after (RecordDeliverySuccess i now u)))" if "peers u = peers s" for i u
    using assms that by (auto simp: RecordDeliverySuccess_def update_peer_def intro!: rows_from_set_rows came_from_success)
  have bad: "rows_from now ?c ps0 (peers (after (RecordDeliveryFailure i cause now ?c u)))" if "peers u = peers s" for i cause u
    using assms that by (auto simp: RecordDeliveryFailure_def update_peer_def intro!: rows_from_set_rows came_from_failed)
  show ?thesis
    by (auto simp: record_outcome_def recordFailure_def recordDeferral_def recordRefusal_def recordSuccess_def
        MarkDelivered_def MarkDeliveryFailed_def DeferDelivery_def intro!: ok bad split: sum.split deliveryOutcome.split)
qed

lemma pass_items_rows:
  assumes "stored_time (now - failureWindow sn) < stored_time now" "pass_items sn now items s = (out, t)"
    "rows_from now (now - failureWindow sn) ps0 (peers s)"
  shows "rows_from now (now - failureWindow sn) ps0 (peers t)"
  using assms(2,3)
proof (induction items arbitrary: s out)
  case (Cons x items)
  show ?case
  proof (cases "deliverItem sn x")
    case (Returns r)
    then obtain out' where "pass_items sn now items (record_outcome sn now (fst x) r s) = (out', t)"
      using Cons.prems(1) by (auto split: prod.splits)
    then show ?thesis using record_outcome_rows [OF assms(1) Cons.prems(2)] by (rule Cons.IH)
  qed (use Cons.prems in auto)
qed simp

text \<open>
  A pass suspends a peer only at the end of a long run: a row that is suspended after it
  either was so before, at the same instant, or stood before the pass with an unbroken run of
  failures that began at least the failure window ago.
\<close>
theorem suspension_needs_a_long_run:
  assumes "RunOnce sn s = (out, t)" "second \<le> failureWindow sn" "p \<in> set (peers t)"
  shows "\<exists>p0\<in>set (peers s). pID p0 = pID p \<and> (pSuspendedAt p = pSuspendedAt p0
    \<or> (\<exists>f. pFirstFailureAt p0 = Some f \<and> f \<le> stored_time (clock s - failureWindow sn)))"
proof -
  obtain items where run: "pass_items sn (clock s) items s = (out, t)"
    using assms(1) by (auto simp: RunOnce_def DueDeliveries_def)
  have "(clock s - failureWindow sn) div second + 1 \<le> clock s div second"
    using zdiv_mono1 [of "clock s - failureWindow sn + second" "clock s" second] assms(2) by (simp add: second_def)
  then have lt: "stored_time (clock s - failureWindow sn) < stored_time (clock s)" by (simp add: stored_time_def second_def)
  have "rows_from (clock s) (clock s - failureWindow sn) (peers s) (peers s)" by (auto simp: rows_from_def came_from_def)
  from pass_items_rows [OF lt run this] show ?thesis using assms(3) by (fastforce simp: rows_from_def came_from_def)
qed

definition failing_db :: fed_db where
  "failing_db = queued_db\<lparr>peers := [sample_peer\<lparr>pBaseURL := [], pFirstFailureAt := Some 0\<rparr>]\<rparr>"

theorem suspension_needs_a_long_run_witness:
  "\<exists>p0\<in>set (peers failing_db). pID p0 = ''peer'' \<and> (Some (100 * 3600 * second) = pSuspendedAt p0
    \<or> (\<exists>f. pFirstFailureAt p0 = Some f \<and> f \<le> stored_time (100 * 3600 * second - failureWindow sample_sender)))"
proof -
  obtain out t where run: "RunOnce sample_sender failing_db = (out, t)" by fastforce
  have p: "\<exists>p. peers (snd (RunOnce sample_sender failing_db)) = [p] \<and> pID p = ''peer'' \<and> pSuspendedAt p = Some (100 * 3600 * second)"
    by (simp add: RunOnce_def DueDeliveries_def failing_db_def queued_db_def peered_db_def sample_peer_def sample_item_def
        deliverable_def stored_time_def deliverItem_def record_outcome_def recordFailure_def MarkDeliveryFailed_def
        RecordDeliveryFailure_def update_peer_def failed_peer_def failureWindow_def sample_sender_def DefaultFailureWindow_def
        hour_duration_def minute_def second_def batchSize_def DefaultBatchSize_def map_filter_def set_rows_def)
  then obtain p where "p \<in> set (peers t)" "pID p = ''peer''" "pSuspendedAt p = Some (100 * 3600 * second)"
    using run by auto
  moreover have "second \<le> failureWindow sample_sender"
    by (simp add: failureWindow_def sample_sender_def DefaultFailureWindow_def hour_duration_def minute_def second_def)
  moreover have "clock failing_db = 100 * 3600 * second" by (simp add: failing_db_def queued_db_def)
  ultimately show ?thesis using suspension_needs_a_long_run [OF run] by metis
qed

section \<open>A peer that answers nine bytes\<close>

text \<open>
  A peer's answer can end the process: nine bytes, a text header whose length wraps, make
  the response decoder panic, and the pass runs in a goroutine that recovers nothing.
\<close>
theorem a_peer_can_end_the_pass:
  assumes "pBaseURL peer \<noteq> []" "\<forall>endpoint body. snExchange sn endpoint body = Some (200, writeHead 3 0xffffffffffffffff)"
  shows "fst (pass_items sn now ((item, peer) # rest) s) = Panics \<and> length (writeHead 3 0xffffffffffffffff) = 9"
proof -
  have "DecodeRpcResponse (snRoom sn) (writeHead 3 0xffffffffffffffff) = Panics"
    by (simp add: DecodeRpcResponse_def decodeEnvelope_def text_header_panics)
  moreover have "length (writeHead 3 0xffffffffffffffff) = 9" by (simp add: writeHead_def)
  ultimately show ?thesis using assms by (simp add: deliverItem_def)
qed

theorem a_peer_can_end_the_pass_witness:
  "fst (pass_items (sample_sender\<lparr>snExchange := \<lambda>_ _. Some (200, writeHead 3 0xffffffffffffffff)\<rparr>) 0
     [(sample_item, sample_peer)] peered_db) = Panics"
  using a_peer_can_end_the_pass [of sample_peer "sample_sender\<lparr>snExchange := \<lambda>_ _. Some (200, writeHead 3 0xffffffffffffffff)\<rparr>"
      0 sample_item "[]" peered_db]
  by (simp add: sample_peer_def)

end
