(* ===== verification/Server.thy ===== *)
theory Server
  imports Rpc Errors
begin

text \<open>
  \<open>server/dispatch.go\<close> and the carrier of \<open>server/server.go\<close>: the routing table, the two
  kinds of route, what a request body is answered with, and the metrics a call leaves.
  The generated codecs and the services' methods are the fields of \<open>services\<close>: for a
  service and an operation, from a payload, a decoding failure, an error, or the encoded
  response, with the state left behind.
\<close>

section \<open>Routes\<close>

datatype call_failure = Undecodable | Failed error

type_synonym 's call = "bytes \<Rightarrow> 's \<Rightarrow> (call_failure + bytes) \<times> 's"
type_synonym 's typedHandler = "bytes \<Rightarrow> 's \<Rightarrow> HandlerOutcome \<times> 's"

text \<open>\<open>encodeError\<close> is the generated encoder of a \<open>ServiceError\<close>.\<close>
definition routeFallible :: "(ServiceError \<Rightarrow> bytes) \<Rightarrow> 's call \<Rightarrow> string \<Rightarrow> 's typedHandler" where
  "routeFallible encodeError call variant payload s = (case call payload s of
      (Inl Undecodable, t) \<Rightarrow> (Transport StatusMalformedEnvelope (''decode '' @ variant @ '' request''), s)
    | (Inl (Failed e), t) \<Rightarrow> (case AsAppError e of
          Some a \<Rightarrow> (Reply ''ServiceError'' (encodeError (toServiceError a)), t)
        | None \<Rightarrow> (Transport StatusInternal ''internal error'', t))
    | (Inr out, t) \<Rightarrow> (Reply variant out, t))"

definition routeInfallible :: "'s call \<Rightarrow> string \<Rightarrow> 's typedHandler" where
  "routeInfallible call variant payload s = (case call payload s of
      (Inl Undecodable, t) \<Rightarrow> (Transport StatusMalformedEnvelope (''decode '' @ variant @ '' request''), s)
    | (Inl (Failed e), t) \<Rightarrow> (Transport StatusInternal ''internal error'', t)
    | (Inr out, t) \<Rightarrow> (Reply variant out, t))"

text \<open>The table: an operation, whether it has an error arm, and the variant of its reply.\<close>
definition baseRoutes :: "(string \<times> (string \<times> bool \<times> string) list) list" where
  "baseRoutes =
    [(''auth'',
       [(''begin-login'', True, ''BeginLoginResponse''), (''logout'', False, ''Empty''), (''whoami'', True, ''UserProfile'')]),
     (''greeting'',
       [(''list-greetings'', False, ''GreetingList''), (''get-greeting'', True, ''Greeting''), (''create-greeting'', True, ''Greeting'')]),
     (''organization'',
       [(''list-organizations'', True, ''OrganizationList''), (''get-organization'', True, ''Organization''),
        (''create-organization'', True, ''Organization''), (''update-organization'', True, ''Organization''),
        (''delete-organization'', True, ''Empty''), (''list-organization-members'', True, ''OrganizationMemberList''),
        (''set-organization-member'', True, ''OrganizationMemberList''),
        (''remove-organization-member'', True, ''OrganizationMemberList'')]),
     (''gathering'',
       [(''list-gatherings'', True, ''GatheringList''), (''get-gathering'', True, ''Gathering''),
        (''create-gathering'', True, ''Gathering''), (''update-gathering'', True, ''Gathering''),
        (''delete-gathering'', True, ''Empty''), (''list-gathering-members'', True, ''GatheringMemberList''),
        (''join-gathering'', True, ''Gathering''), (''leave-gathering'', True, ''Gathering''),
        (''add-gathering-owner'', True, ''Gathering''), (''remove-gathering-owner'', True, ''Gathering''),
        (''offer-gathering'', True, ''GatheringOffer''), (''list-gathering-offers'', True, ''GatheringOfferList''),
        (''respond-to-gathering-offer'', True, ''GatheringOffer''), (''withdraw-gathering-offer'', True, ''Empty''),
        (''adopt-gathering'', True, ''Gathering'')]),
     (''webhook'',
       [(''list-webhooks'', True, ''WebhookList''), (''create-webhook'', True, ''WebhookWithSecret''),
        (''update-webhook'', True, ''Webhook''), (''delete-webhook'', True, ''Empty'')]),
     (''event'',
       [(''list-events'', True, ''EventList''), (''get-event'', True, ''Event''), (''create-event'', True, ''Event''),
        (''update-event'', True, ''Event''), (''delete-event'', True, ''Empty''), (''attend-event'', True, ''Event''),
        (''unattend-event'', True, ''Event''), (''list-attendees'', True, ''AttendeeList''),
        (''list-event-series'', True, ''EventSeriesList''), (''get-event-series'', True, ''EventSeries''),
        (''create-event-series'', True, ''EventSeries''), (''update-event-series'', True, ''EventSeries''),
        (''delete-event-series'', True, ''Empty''), (''expand-event-series'', True, ''EventList''),
        (''set-event-role'', True, ''EventRoleList''), (''remove-event-role'', True, ''EventRoleList''),
        (''list-event-roles'', True, ''EventRoleList'')]),
     (''search'', [(''search'', True, ''SearchResults'')]),
     (''admin'',
       [(''list-admins'', True, ''AdminList''), (''set-admin'', True, ''AdminList''), (''find-user'', True, ''UserRef''),
        (''search-users'', True, ''UserRefList''), (''get-instance-settings'', True, ''InstanceSettings''),
        (''update-instance-settings'', True, ''InstanceSettings'')])]"

definition federationRoutes :: "(string \<times> bool \<times> string) list" where
  "federationRoutes =
    [(''federation-identity'', True, ''FederationIdentity''), (''list-peers'', True, ''PeerList''), (''add-peer'', True, ''Peer''),
     (''set-peer-status'', True, ''Peer''), (''resume-peer'', True, ''Peer''), (''remove-peer'', True, ''Empty''),
     (''deliver-events'', True, ''DeliveryReceipt''), (''request-peering'', True, ''PeeringReceipt''),
     (''list-remote-events'', True, ''RemoteEventList''), (''set-peer-rate-limit'', True, ''Peer''),
     (''list-origin-volume'', True, ''OriginVolumeList''), (''set-origin-rate-limit'', True, ''OriginVolume'')]"

record 's services =
  svFederation :: bool
  svDevAuth :: bool
  svCall :: "string \<Rightarrow> string \<Rightarrow> 's call"
  svEncodeError :: "ServiceError \<Rightarrow> bytes"
  svLowerName :: "string \<Rightarrow> string"     \<comment> \<open>strings.ToLower\<close>

definition routeTable :: "'s services \<Rightarrow> (string \<times> (string \<times> bool \<times> string) list) list" where
  "routeTable svcs = baseRoutes
     @ (if svFederation svcs then [(''federation'', federationRoutes)] else [])
     @ (if svDevAuth svcs then [(''devauth'', [(''dev-login'', True, ''UserProfile'')])] else [])"

text \<open>\<open>buildRoutes\<close>: a map of maps of handlers.\<close>
definition buildRoutes :: "'s services \<Rightarrow> string \<Rightarrow> (string \<Rightarrow> 's typedHandler option) option" where
  "buildRoutes svcs service = map_option (\<lambda>ops op. map_option (\<lambda>(fallible, variant).
       if fallible then routeFallible (svEncodeError svcs) (svCall svcs service op) variant
       else routeInfallible (svCall svcs service op) variant) (map_of ops op))
     (map_of (routeTable svcs) service)"

section \<open>Dispatch\<close>

definition unroutedLabel :: string where "unroutedLabel = ''unrouted''"

definition outcomeLabel :: "HandlerOutcome \<Rightarrow> string" where
  "outcomeLabel out = (case out of
      Transport status message \<Rightarrow> StatusName status
    | Reply variant payload \<Rightarrow> if variant = ''ServiceError'' then ''service_error'' else ''ok'')"

text \<open>\<open>strings.TrimSuffix(_, "Service")\<close>.\<close>
definition trim_service :: "string \<Rightarrow> string" where
  "trim_service name =
     (if length name \<ge> 7 \<and> drop (length name - 7) name = ''Service'' then take (length name - 7) name else name)"

text \<open>The outcome, the labels the call is counted under, and the state.\<close>
definition dispatchRPC ::
  "'s services \<Rightarrow> RpcRequest \<Rightarrow> 's \<Rightarrow> (HandlerOutcome \<times> (string \<times> string \<times> string)) \<times> 's" where
  "dispatchRPC svcs req s =
     (let service = svLowerName svcs (trim_service (rqService req)) in
      case buildRoutes svcs service of
        None \<Rightarrow> ((Transport StatusUnknownServiceOrOp (''unknown service: '' @ rqService req),
                  (unroutedLabel, unroutedLabel, ''unknown_service_or_op'')), s)
      | Some ops \<Rightarrow> (case ops (rqOp req) of
            None \<Rightarrow> ((Transport StatusUnknownServiceOrOp (''unknown op: '' @ rqService req @ ''/'' @ rqOp req),
                      (service, unroutedLabel, ''unknown_service_or_op'')), s)
          | Some handler \<Rightarrow> (case handler (rqPayload req) s of
                (out, t) \<Rightarrow> ((out, (service, rqOp req, outcomeLabel out)), t))))"

section \<open>The carrier\<close>

definition maxRPCBodyBytes :: nat where "maxRPCBodyBytes = MaxFrameDefault"

datatype http_answer = Answered nat bytes | HandlerPanicked

text \<open>\<open>handleRPC\<close> on a body that was read whole: the HTTP answer, the labels counted, the state.\<close>
definition handleRPC ::
  "nat \<Rightarrow> 's services \<Rightarrow> bytes \<Rightarrow> 's \<Rightarrow> (http_answer \<times> (string \<times> string \<times> string) list) \<times> 's" where
  "handleRPC room svcs body s =
     (if length body > maxRPCBodyBytes then ((Answered 413 [], []), s)
      else (case DecodeRpcRequest room body of
          Panics \<Rightarrow> ((HandlerPanicked, []), s)
        | DecodeError \<Rightarrow>
            ((Answered 200 (EncodeRpcResponse (NewRpcResponseTransportError StatusMalformedEnvelope ''malformed envelope'')), []), s)
        | Returns req \<Rightarrow> (case dispatchRPC svcs req s of
              ((out, labels), t) \<Rightarrow> ((Answered 200 (EncodeRpcResponse (outcome_response (rqID req) out)), [labels]), t))))"

section \<open>What is answered, and counted\<close>

text \<open>The names a metric can carry: the table's own, whatever a request says.\<close>
definition label_space :: "'s services \<Rightarrow> (string \<times> string \<times> string) set" where
  "label_space svcs =
     insert unroutedLabel (fst ` set (routeTable svcs))
     \<times> insert unroutedLabel (fst ` (\<Union>(service, ops)\<in>set (routeTable svcs). set ops))
     \<times> {''ok'', ''service_error'', ''unknown_service_or_op'', ''malformed-envelope'', ''internal''}"

lemma map_of_key: "map_of xs k = Some v \<Longrightarrow> k \<in> fst ` set xs"
  by (force dest: map_of_SomeD)

lemma handler_label:
  "outcomeLabel (fst (routeFallible enc call variant payload s)) \<in> {''ok'', ''service_error'', ''malformed-envelope'', ''internal''}"
  "outcomeLabel (fst (routeInfallible call variant payload s)) \<in> {''ok'', ''service_error'', ''malformed-envelope'', ''internal''}"
  by (auto simp: routeFallible_def routeInfallible_def outcomeLabel_def StatusName_def StatusMalformedEnvelope_def StatusInternal_def
      split: prod.split sum.split call_failure.split option.split)

text \<open>
  The labels a call is counted under are drawn from a fixed finite set, the names of the
  routing table, two stand-ins and five outcomes, whatever strings the request carries.
\<close>
theorem labels_are_bounded:
  "finite (label_space svcs) \<and> snd (fst (dispatchRPC svcs req s)) \<in> label_space svcs"
proof
  show "finite (label_space svcs)" 
    unfolding label_space_def by (intro finite_cartesian_product finite.insertI finite_imageI finite_UN_I) auto
  let ?service = "svLowerName svcs (trim_service (rqService req))"
  show "snd (fst (dispatchRPC svcs req s)) \<in> label_space svcs"
  proof (cases "map_of (routeTable svcs) ?service")
    case None
    then show ?thesis by (simp add: dispatchRPC_def buildRoutes_def label_space_def)
  next
    case (Some ops)
    note service = map_of_key [OF Some]
    show ?thesis
    proof (cases "map_of ops (rqOp req)")
      case None
      then show ?thesis using Some service by (simp add: dispatchRPC_def buildRoutes_def label_space_def Let_def)
    next
      case op: (Some row)
      have "rqOp req \<in> fst ` (\<Union>(service, ops)\<in>set (routeTable svcs). set ops)"
        using map_of_SomeD [OF Some] map_of_SomeD [OF op] by force
      obtain fallible variant where r: "row = (fallible, variant)" by (cases row)
      let ?h = "if fallible then routeFallible (svEncodeError svcs) (svCall svcs ?service (rqOp req)) variant
         else routeInfallible (svCall svcs ?service (rqOp req)) variant"
      have "snd (fst (dispatchRPC svcs req s)) = (?service, rqOp req, outcomeLabel (fst (?h (rqPayload req) s)))"
        using Some op by (simp add: dispatchRPC_def buildRoutes_def Let_def r case_prod_unfold)
      moreover have "outcomeLabel (fst (?h (rqPayload req) s)) \<in> {''ok'', ''service_error'', ''malformed-envelope'', ''internal''}"
        using handler_label by (cases fallible) simp_all
      ultimately obtain l where "snd (fst (dispatchRPC svcs req s)) = (?service, rqOp req, l)"
        "l \<in> {''ok'', ''service_error'', ''malformed-envelope'', ''internal''}" by metis
      then show ?thesis using service \<open>rqOp req \<in> _\<close> by (auto simp: label_space_def)
    qed
  qed
qed

text \<open>
  C24. A body of at most sixteen MiB that decodes is answered with HTTP 200 and an envelope
  the client reads as the dispatched outcome under its own correlation id, whatever the
  service did, an error included; and a request of a service that is not switched on is
  answered as one of a service that does not exist, without any effect.
\<close>
theorem requests_are_answered:
  assumes "length body \<le> maxRPCBodyBytes" "DecodeRpcRequest room body = Returns req"
    "dispatchRPC svcs req s = ((out, labels), t)" "small_response room (outcome_response (rqID req) out)"
  shows "\<exists>b. handleRPC room svcs body s = ((Answered 200 b, [labels]), t)
     \<and> client_response room (Some b) = Returns (call_result (rqID req) out)
     \<and> (map_of (routeTable svcs) (svLowerName svcs (trim_service (rqService req))) = None \<longrightarrow>
          out = Transport StatusUnknownServiceOrOp (''unknown service: '' @ rqService req) \<and> t = s)"
  using assms client_reads [OF assms(4)]
  by (auto simp: handleRPC_def dispatchRPC_def buildRoutes_def Let_def)

definition sample_services :: "unit services" where
  "sample_services = \<lparr>svFederation = False, svDevAuth = False, svCall = (\<lambda>service op payload s. (Inl (Failed Forbidden), s)),
     svEncodeError = (\<lambda>_. [9]), svLowerName = (\<lambda>_. ''federation'')\<rparr>"

theorem requests_are_answered_witness:
  "\<exists>b. handleRPC 1000 sample_services (EncodeRpcRequest sample_request) () =
     ((Answered 200 b, [(unroutedLabel, unroutedLabel, ''unknown_service_or_op'')]), ())"
proof -
  have b: "length (EncodeRpcRequest sample_request) \<le> 100"
    by (simp add: EncodeRpcRequest_def sample_request_def length_envelope optional_def tag24_def writeHead_def VERSION_def TagEncodedCBOR_def)
  then have "DecodeRpcRequest 1000 (EncodeRpcRequest sample_request) = Returns sample_request"
    by (intro decode_request) (simp_all add: sample_request_def)
  moreover have "dispatchRPC sample_services sample_request () = ((Transport StatusUnknownServiceOrOp ''unknown service: S'',
      (unroutedLabel, unroutedLabel, ''unknown_service_or_op'')), ())"
    by (simp add: dispatchRPC_def buildRoutes_def sample_services_def routeTable_def baseRoutes_def sample_request_def)
  moreover have "length (EncodeRpcResponse (outcome_response (rqID sample_request)
      (Transport StatusUnknownServiceOrOp ''unknown service: S''))) \<le> 100"
    by (simp add: EncodeRpcResponse_def sample_request_def outcome_response_def NewRpcResponseTransportError_def length_envelope
        optional_def tag24_def writeHead_def StatusUnknownServiceOrOp_def VERSION_def TagEncodedCBOR_def)
  then have "small_response 1000 (outcome_response (rqID sample_request) (Transport StatusUnknownServiceOrOp ''unknown service: S''))"
    by (simp add: small_response_def outcome_response_def NewRpcResponseTransportError_def)
  moreover have "length (EncodeRpcRequest sample_request) \<le> maxRPCBodyBytes"
    using b by (simp add: maxRPCBodyBytes_def MaxFrameDefault_def)
  ultimately show ?thesis using requests_are_answered [of "EncodeRpcRequest sample_request" 1000 sample_request sample_services "()"]
    by blast
qed

end
