(* ===== verification/FederationSafety.thy ===== *)
theory FederationSafety
  imports Federation
begin

text \<open>
  What the receiving side promises: nothing is written for a sender that is not
  verified, approved and fresh; a batch applied in full is never applied again;
  a deletion is never lost to a rate limit; every event of a batch is accounted
  for; asking for peering admits nobody; an approved peer has an identity.
\<close>

section \<open>What each statement leaves alone\<close>

lemma leaves_internal [simp]: "leaves f (internal m) = leaves f m" "leaves f (not_found r m) = leaves f m"
  by (simp_all add: internal_def not_found_def)

lemma leaves_shrugged [simp]: "leaves f (shrugged m) = leaves f m"
  by (simp add: leaves_def shrugged_def)

lemma leaves_NewID [simp]: "leaves seen_batches NewID" "leaves peers NewID" "leaves remote_events NewID"
  by (simp_all add: leaves_def NewID_def)

lemma leaves_allowances [leaves_intros]:
  "leaves seen_batches (ConsumePeerAllowance i w l t)" "leaves remote_events (ConsumePeerAllowance i w l t)"
  "leaves seen_batches (ConsumeOriginAllowance i name w l t)" "leaves remote_events (ConsumeOriginAllowance i name w l t)"
  "leaves peers (ConsumeOriginAllowance i name w l t)"
  "leaves seen_batches (RecordOriginAccepted i name t)" "leaves remote_events (RecordOriginAccepted i name t)"
  "leaves peers (RecordOriginAccepted i name t)"
  unfolding ConsumePeerAllowance_def ConsumeOriginAllowance_def RecordOriginAccepted_def Let_def
  by (auto intro!: leaves_intros leaves_writes)

lemma leaves_remote_writes [leaves_intros]:
  "leaves seen_batches (UpsertRemoteEvent p r)" "leaves peers (UpsertRemoteEvent p r)"
  "leaves seen_batches (DeleteRemoteEvent p i)" "leaves peers (DeleteRemoteEvent p i)"
  unfolding UpsertRemoteEvent_def DeleteRemoteEvent_def by (auto intro!: leaves_intros leaves_writes)

lemma leaves_take_budgets [leaves_intros]:
  "leaves seen_batches (take_budgets p w l t names)" "leaves remote_events (take_budgets p w l t names)"
  "leaves peers (take_budgets p w l t names)"
  by (induction names) (auto intro!: leaves_intros)

lemma leaves_walk_batch [leaves_intros]:
  "leaves seen_batches (walk_batch fs peer now pb budget es)" "leaves peers (walk_batch fs peer now pb budget es)"
  by (induction es arbitrary: pb budget) (auto simp: Let_def intro!: leaves_intros)

lemma leaves_applyBatch [leaves_intros]: "leaves seen_batches (applyBatch fs peer batch)"
  unfolding applyBatch_def Let_def by (auto intro!: leaves_intros split: prod.split)

section \<open>Who is let in\<close>

definition sender_address :: "IncomingDelivery \<Rightarrow> string option" where
  "sender_address d = map_option (\<lambda>(handle, domain). handle @ ''@'' @ domain) (SplitAddress (inSenderAddress d))"

text \<open>The peer a delivery is from, and the batch it carries, when both are what the code asks for.\<close>
definition admissible :: "fed_service \<Rightarrow> IncomingDelivery \<Rightarrow> 'm fed_db_scheme \<Rightarrow> Peer \<Rightarrow> EventBatch \<Rightarrow> bool" where
  "admissible fs d s peer batch \<longleftrightarrow>
     (\<exists>a. sender_address d = Some a \<and> row (\<lambda>p. pAddress p = a) (peers s) = Some peer)
   \<and> fsVerify fs (pAddress peer) (pIdentity peer) d \<and> pInboundStatus peer = PeerApproved
   \<and> fsDecodeBatch fs (inBody d) = Some batch \<and> ToLowerId (trim_id (ebOriginDomain batch)) = ToLowerId (pDomain peer)
   \<and> \<bar>clock s - ebSentAt batch\<bar> \<le> FreshnessWindow \<and> trim_id (ebBatchId batch) \<noteq> []
   \<and> \<not> seen (pID peer) (ebBatchId batch) s"

definition remembered :: "ident \<Rightarrow> string \<Rightarrow> 'm fed_db_scheme \<Rightarrow> 'm fed_db_scheme" where
  "remembered p b s = s\<lparr>seen_batches := seen_batches s @ [\<lparr>snPeer = p, snBatch = b, snSeenAt = stored_time (clock s)\<rparr>]\<rparr>"

lemma verifiedPeer_cases:
  obtains (refused) e where "verifiedPeer fs d s = (Inl e, s)"
  | (verified) peer a where "verifiedPeer fs d s = (Inr peer, s)" "sender_address d = Some a"
      "row (\<lambda>p. pAddress p = a) (peers s) = Some peer" "fsVerify fs (pAddress peer) (pIdentity peer) d"
proof (cases "SplitAddress (inSenderAddress d)")
  case (Some hd)
  obtain h dm where hd: "hd = (h, dm)" by (cases hd)
  show ?thesis
  proof (cases "row (\<lambda>p. pAddress p = h @ ''@'' @ dm) (peers s)")
    case row: (Some peer)
    then have "verifiedPeer fs d s = (if fsVerify fs (pAddress peer) (pIdentity peer) d then Inr peer else Inl Forbidden, s)"
      using Some by (simp add: verifiedPeer_def hd PeerByAddress_def bindE_apply map_err_apply)
    then show ?thesis using Some row hd
      by (cases "fsVerify fs (pAddress peer) (pIdentity peer) d") (auto simp: sender_address_def intro: that)
  next
    case None
    then have "verifiedPeer fs d s = (Inl Forbidden, s)"
      using Some by (simp add: verifiedPeer_def hd PeerByAddress_def bindE_apply map_err_apply)
    then show ?thesis by (rule that(1))
  qed
qed (auto simp: verifiedPeer_def intro: that)

lemma RememberBatch_apply:
  "RememberBatch p b (clock s) s =
     (if seen p b s then (Inr False, s)
      else if has_row (\<lambda>x. pID x = p) (peers s) then (Inr True, remembered p b s) else (Inl DBError, s))"
  by (simp add: RememberBatch_def remembered_def bindE_apply del: has_row_iff)

lemma delivery_cases:
  obtains (refused) e where "DeliverEvents fs d s = (Inl e, s)"
  | (admitted) peer batch where "admissible fs d s peer batch"
      "DeliverEvents fs d s = releasing (pID peer) (ebBatchId batch) (applyBatch fs peer batch)
         (remembered (pID peer) (ebBatchId batch) s)"
proof (cases rule: verifiedPeer_cases [of fs d s])
  case (refused e)
  then show ?thesis by (intro that(1) [of e]) (simp add: DeliverEvents_def bindE_apply)
next
  case (verified peer a)
  note v = verified(1)
  show ?thesis
  proof (cases "fsDecodeBatch fs (inBody d)")
    case None
    then show ?thesis using v
      by (cases "pInboundStatus peer = PeerApproved") (auto simp: DeliverEvents_def bindE_apply intro: that(1))
  next
    case (Some batch)
    let ?ok = "pInboundStatus peer = PeerApproved \<and> ToLowerId (trim_id (ebOriginDomain batch)) = ToLowerId (pDomain peer)
       \<and> \<bar>clock s - ebSentAt batch\<bar> \<le> FreshnessWindow \<and> trim_id (ebBatchId batch) \<noteq> [] \<and> \<not> seen (pID peer) (ebBatchId batch) s"
    have peer: "has_row (\<lambda>x. pID x = pID peer) (peers s)" using row_SomeD [OF verified(3)] by auto
    show ?thesis
    proof (cases ?ok)
      case True
      then have "DeliverEvents fs d s = releasing (pID peer) (ebBatchId batch) (applyBatch fs peer batch)
         (remembered (pID peer) (ebBatchId batch) s)"
        using v Some peer by (auto simp: DeliverEvents_def bindE_apply thenE_apply internal_def map_err_apply RememberBatch_apply
            refuse_if_def simp del: has_row_iff)
      moreover have "admissible fs d s peer batch" using True verified Some by (auto simp: admissible_def)
      ultimately show ?thesis by (intro that(2))
    next
      case False
      then have "\<exists>e. DeliverEvents fs d s = (Inl e, s)"
        using v Some peer by (auto simp: DeliverEvents_def bindE_apply thenE_apply internal_def map_err_apply RememberBatch_apply
            refuse_if_def simp del: has_row_iff)
      then show ?thesis using that(1) by blast
    qed
  qed
qed

section \<open>Only the sender's own rows\<close>

lemma leaves_comp: "leaves f m \<Longrightarrow> leaves (\<lambda>s. g (f s)) m"
  by (simp add: leaves_def)

definition others_events :: "ident \<Rightarrow> 'm fed_db_scheme \<Rightarrow> remote_event_row list" where
  "others_events p s = filter (\<lambda>r. rePeer r \<noteq> p) (remote_events s)"

lemma filter_set_rows_other: "(\<And>x. p x \<Longrightarrow> \<not> q x) \<Longrightarrow> (\<And>x. p x \<Longrightarrow> \<not> q (f x)) \<Longrightarrow> filter q (set_rows p f t) = filter q t"
  by (induction t) (auto simp: set_rows_def)

lemma filter_del_rows_other: "(\<And>x. p x \<Longrightarrow> \<not> q x) \<Longrightarrow> filter q (del_rows p t) = filter q t"
  by (induction t) (auto simp: del_rows_def)

lemma leaves_others [leaves_intros]:
  "leaves (others_events p) (UpsertRemoteEvent p r)" "leaves (others_events p) (DeleteRemoteEvent p i)"
  "leaves (others_events p) (take_budgets p w l t names)" "leaves (others_events p) (RecordOriginAccepted p name t)"
  "leaves (others_events p) (ConsumePeerAllowance p w' l t)" "leaves (others_events p) (ForgetBatch p b)"
proof -
  have remote: "leaves (others_events p) m" if "leaves remote_events m" for m :: "('m fed_db_scheme, 'e, 'a) oper"
    using that by (simp add: leaves_def others_events_def)
  show "leaves (others_events p) (take_budgets p w l t names)" "leaves (others_events p) (RecordOriginAccepted p name t)"
    "leaves (others_events p) (ConsumePeerAllowance p w' l t)"
    by (auto simp: leaves_def others_events_def leavesD [OF leaves_take_budgets(2)] leavesD [OF leaves_allowances(7)]
        leavesD [OF leaves_allowances(2)])
  show "leaves (others_events p) (ForgetBatch p b)"
    by (simp add: ForgetBatch_def leaves_writes others_events_def)
  have "filter (\<lambda>r. rePeer r \<noteq> p) (set_rows (remote_key p i) (\<lambda>r. r\<lparr>reOwn := x, reReceivedAt := t\<rparr>) rs)
      = filter (\<lambda>r. rePeer r \<noteq> p) rs"
    "filter (\<lambda>r. rePeer r \<noteq> p) (del_rows (remote_key p i) rs) = filter (\<lambda>r. rePeer r \<noteq> p) rs" for i x t rs
    by (rule filter_set_rows_other filter_del_rows_other; auto simp: remote_key_def)+
  then show "leaves (others_events p) (UpsertRemoteEvent p r)" "leaves (others_events p) (DeleteRemoteEvent p i)"
    unfolding UpsertRemoteEvent_def DeleteRemoteEvent_def
    by (auto simp: others_events_def NewID_def leaves_def
        intro!: leaves_bindE [unfolded leaves_def, rule_format] leaves_thenE [unfolded leaves_def, rule_format]
        simp del: leaves_pure)
qed

lemma leaves_others_walk [leaves_intros]: "leaves (others_events (pID peer)) (walk_batch fs peer now pb budget es)"
  by (induction es arbitrary: pb budget) (auto simp: Let_def intro!: leaves_intros)

lemma leaves_others_apply [leaves_intros]: "leaves (others_events (pID peer)) (applyBatch fs peer batch)"
  unfolding applyBatch_def Let_def by (auto intro!: leaves_intros split: prod.split)

lemma releasing_after:
  "\<exists>t \<in> {after (m s), after (ForgetBatch p b (after (m s)))}. after (releasing p b m s) = t"
  by (auto simp: releasing_def split: prod.split sum.split)

section \<open>A batch id, once claimed\<close>

text \<open>Which peer an address names, and that the id of a batch claimed at \<open>at\<close> is held while it matters.\<close>
definition address_book :: "'m fed_db_scheme \<Rightarrow> (string \<times> ident) list" where
  "address_book s = map (\<lambda>p. (pAddress p, pID p)) (peers s)"

definition claimed :: "string \<Rightarrow> ident \<Rightarrow> string \<Rightarrow> instant \<Rightarrow> 'm fed_db_scheme \<Rightarrow> bool" where
  "claimed a p b at s \<longleftrightarrow> map_of (address_book s) a = Some p
     \<and> ((\<exists>x\<in>set (seen_batches s). snPeer x = p \<and> snBatch x = b \<and> snSeenAt x = stored_time at)
        \<or> clock s > at + 2 * FreshnessWindow)"

lemma map_of_address: "map_of (address_book s) a = map_option pID (row (\<lambda>p. pAddress p = a) (peers s))"
proof -
  have "map_of (map (\<lambda>p. (pAddress p, pID p)) t) a = map_option pID (row (\<lambda>p. pAddress p = a) t)" for t
    by (induction t) auto
  then show ?thesis by (simp add: address_book_def)
qed

lemma claimed_frame:
  "claimed a p b at s \<Longrightarrow> address_book t = address_book s \<Longrightarrow> seen_batches t = seen_batches s \<Longrightarrow> clock t = clock s \<Longrightarrow>
   claimed a p b at t"
  by (simp add: claimed_def)

lemma keeps_claimed_frame:
  "leaves address_book m \<Longrightarrow> leaves seen_batches m \<Longrightarrow> leaves clock m \<Longrightarrow> keeps (claimed a p b at) m"
  using claimed_frame by (fastforce simp: keeps_def leaves_def)

lemma leaves_book: "leaves peers m \<Longrightarrow> leaves address_book m"
  by (simp add: leaves_def address_book_def)

lemma address_book_set_rows:
  "(\<And>x. pAddress (f x) = pAddress x) \<Longrightarrow> (\<And>x. pID (f x) = pID x) \<Longrightarrow>
   map (\<lambda>p. (pAddress p, pID p)) (set_rows q f t) = map (\<lambda>p. (pAddress p, pID p)) t"
  by (rule set_rows_keys) simp

lemma leaves_update_peer [leaves_intros]:
  assumes "\<And>s x. pAddress (f s x) = pAddress x" "\<And>s x. pID (f s x) = pID x"
  shows "leaves address_book (writes (update_peer i f))" "leaves seen_batches (writes (update_peer i f))"
    "leaves clock (writes (update_peer i f))"
  by (auto intro!: leaves_writes simp: update_peer_def address_book_def address_book_set_rows assms)

lemma leaves_clock_NewID [simp]: "leaves clock NewID"
  by (simp add: leaves_def NewID_def)

lemma leaves_clock [leaves_intros]:
  "leaves clock (ConsumePeerAllowance i w l t)" "leaves clock (ConsumeOriginAllowance i name w l t)"
  "leaves clock (RecordOriginAccepted i name t)" "leaves clock (UpsertRemoteEvent p r)" "leaves clock (DeleteRemoteEvent p j)"
  "leaves clock (ForgetBatch p b)"
  unfolding ConsumePeerAllowance_def ConsumeOriginAllowance_def RecordOriginAccepted_def UpsertRemoteEvent_def
    DeleteRemoteEvent_def ForgetBatch_def Let_def
  by (auto intro!: leaves_intros leaves_writes)

lemma leaves_book_allowance [leaves_intros]: "leaves address_book (ConsumePeerAllowance i w l t)"
proof -
  have "pAddress (spend_peer w' w l x) = pAddress x" for w' x by (simp add: spend_peer_def Let_def)
  then show ?thesis unfolding ConsumePeerAllowance_def Let_def
    by (auto intro!: leaves_intros leaves_writes simp: address_book_def address_book_set_rows)
qed

lemma leaves_clock_apply [leaves_intros]:
  "leaves clock (take_budgets p w l t names)" "leaves clock (walk_batch fs peer now pb budget es)"
  "leaves clock (applyBatch fs peer batch)" "leaves address_book (applyBatch fs peer batch)"
proof -
  show t: "leaves clock (take_budgets p w l t names)" for p w l t names
    by (induction names) (auto intro!: leaves_intros)
  show w: "leaves clock (walk_batch fs peer now pb budget es)" for now pb budget es
    by (induction es arbitrary: pb budget) (auto simp: Let_def intro!: leaves_intros)
  show "leaves clock (applyBatch fs peer batch)" "leaves address_book (applyBatch fs peer batch)"
    unfolding applyBatch_def Let_def
    by (auto intro!: leaves_intros t w leaves_book [OF leaves_walk_batch(2)] leaves_book [OF leaves_take_budgets(3)]
        split: prod.split)
qed

section \<open>Every step keeps the claim\<close>

lemma seen_iff: "seen p b s \<longleftrightarrow> (\<exists>x\<in>set (seen_batches s). snPeer x = p \<and> snBatch x = b)"
  by (simp add: seen_def)

lemma claimed_forget_other:
  assumes "claimed a p b at s" "(q, c) \<noteq> (p, b)"
  shows "claimed a p b at (after (ForgetBatch q c s))"
  using assms by (auto simp: claimed_def ForgetBatch_def address_book_def)

lemma claimed_remembered: "claimed a p b at s \<Longrightarrow> claimed a p b at (remembered q c s)"
  by (auto simp: claimed_def remembered_def address_book_def)

lemma FreshnessWindow_pos: "0 < FreshnessWindow"
  by (simp add: FreshnessWindow_def hour_duration_def minute_def second_def)

lemma claimed_not_fresh:
  assumes "claimed a p b at s" "\<not> seen p b s"
  shows "clock s > at + 2 * FreshnessWindow"
  using assms by (auto simp: claimed_def seen_iff)

lemma keeps_claimed_DeliverEvents:
  fixes fs :: fed_service
  shows "keeps (claimed a p b at) (DeliverEvents fs d :: ('m fed_db_scheme, error, DeliveryReceipt) oper)"
proof (rule keepsI)
  fix s :: "'m fed_db_scheme" assume c: "claimed a p b at s"
  show "claimed a p b at (after (DeliverEvents fs d s))"
  proof (cases rule: delivery_cases [of fs d s])
    case (admitted peer batch)
    let ?q = "pID peer" and ?c = "ebBatchId batch"
    let ?m = "applyBatch fs peer batch :: ('m fed_db_scheme, error, DeliveryReceipt \<times> bool) oper"
    let ?u = "after (?m (remembered ?q ?c s))"
    have new: "\<not> seen ?q ?c s" using admitted(1) by (simp add: admissible_def)
    have u: "claimed a p b at ?u"
      by (rule claimed_frame [OF claimed_remembered [OF c, of ?q ?c]])
        (simp_all add: leavesD [OF leaves_clock_apply(4)] leavesD [OF leaves_applyBatch] leavesD [OF leaves_clock_apply(3)])
    have "claimed a p b at (after (ForgetBatch ?q ?c ?u))"
    proof (cases "(?q, ?c) = (p, b)")
      case True
      then have "clock s > at + 2 * FreshnessWindow" using claimed_not_fresh [OF c] new by simp
      moreover have "clock ?u = clock s" by (simp add: leavesD [OF leaves_clock_apply(3)] remembered_def)
      moreover have "address_book (after (ForgetBatch ?q ?c ?u)) = address_book ?u" "clock (after (ForgetBatch ?q ?c ?u)) = clock ?u"
        by (simp_all add: ForgetBatch_def address_book_def)
      ultimately show ?thesis using u by (simp add: claimed_def)
    qed (use claimed_forget_other [OF u] in blast)
    then show ?thesis using u admitted(2) releasing_after [of ?m "remembered ?q ?c s" ?q ?c] by auto
  qed (use c in simp)
qed

lemma leaves_SetPeerStatusRow [leaves_intros]:
  "leaves address_book (SetPeerStatusRow i x y z)" "leaves seen_batches (SetPeerStatusRow i x y z)"
  "leaves clock (SetPeerStatusRow i x y z)"
  unfolding SetPeerStatusRow_def PeerByID_def by (auto intro!: leaves_intros)

lemma leaves_other_peer_rows [leaves_intros]:
  "leaves address_book (SetPeerRateLimitRow i l)" "leaves seen_batches (SetPeerRateLimitRow i l)" "leaves clock (SetPeerRateLimitRow i l)"
  "leaves address_book (ResumePeerRow i t)" "leaves seen_batches (ResumePeerRow i t)" "leaves clock (ResumePeerRow i t)"
  unfolding SetPeerRateLimitRow_def PeerByID_def ResumePeerRow_def Let_def
  by (auto intro!: leaves_intros leaves_writes simp: update_peer_def address_book_def address_book_set_rows)

lemma pure_peers [simp]: "pure_op (PeerByID i)" "pure_op (PeerByAddress x)" "pure_op (ListPeersOp c page)"
  by (auto simp: PeerByID_def PeerByAddress_def ListPeersOp_def ListPeers_def is_admin_def intro!: pure_op_bindE pure_op_thenE)

lemma keeps_claimed_CreatePeerRow: "keeps (claimed a p b at) (CreatePeerRow own)"
  unfolding CreatePeerRow_def
proof (intro keeps_bindE keeps_thenE keeps_require keeps_writes)
  show "keeps (claimed a p b at) NewID" by (simp add: keeps_claimed_frame leaves_def NewID_def address_book_def)
next
  fix i and s :: "'m fed_db_scheme"
  assume c: "claimed a p b at s"
  show "claimed a p b at (s\<lparr>peers := peers s @
        [\<lparr>pID = i, pAddress = pnAddress own, pHandle = pnHandle own, pDomain = pnDomain own,
          pIdentity = pnIdentity own, pBaseURL = pnBaseURL own, pInboundStatus = PeerNone,
          pOutboundStatus = PeerNone, pNote = pnNote own, pSuspendedAt = None, pFirstFailureAt = None,
          pLastFailureAt = None, pLastFailureReason = [], pLastSuccessAt = None,
          pRateLimitPerMinute = None, pRateLimitedTotal = 0, pRateWindowStart = None,
          pRateWindowCount = 0, pCreatedAt = nowSQL s, pUpdatedAt = nowSQL s\<rparr>]\<rparr>)"
    using c by (auto simp: claimed_def address_book_def map_add_def split: option.split)
qed (simp add: pure_op_keeps)

lemma keeps_claimed_requests:
  "keeps (claimed a p b at) (RequestPeering fs q)"
  "(\<And>i. r \<noteq> RemovePeerReq i) \<Longrightarrow> keeps (claimed a p b at) (serve_federation fs c r)"
proof -
  have status: "keeps (claimed a p b at) (SetPeerStatusRow i x y z)" for i x y z
    by (rule keeps_claimed_frame) (rule leaves_intros)+
  have others: "keeps (claimed a p b at) (SetPeerRateLimitRow i l)" "keeps (claimed a p b at) (ResumePeerRow i t)" for i l t
    by (rule keeps_claimed_frame; rule leaves_intros)+
  show "keeps (claimed a p b at) (RequestPeering fs q)"
    unfolding RequestPeering_def Let_def
    by (auto intro!: keeps_bindE keeps_thenE keeps_if keeps_internal keeps_claimed_CreatePeerRow status
        split: sum.split prod.split)
  show "(\<And>i. r \<noteq> RemovePeerReq i) \<Longrightarrow> keeps (claimed a p b at) (serve_federation fs c r)"
    by (cases r)
      (auto simp: AddPeer_def SetPeerStatus_def ResumePeer_def SetPeerRateLimit_def not_found_def Let_def
        intro!: keeps_bindE keeps_thenE keeps_if keeps_internal keeps_map_err keeps_case_option keeps_claimed_CreatePeerRow
          status others
        split: sum.split prod.split option.split intro: pure_op_keeps)
qed

lemma stored_time_mono: "x \<le> y \<Longrightarrow> stored_time x \<le> stored_time y"
  by (simp add: stored_time_def second_def zdiv_mono1)

lemma sweep_effect:
  "address_book (sweepExpiredRemoteEvents s) = address_book s" "clock (sweepExpiredRemoteEvents s) = clock s"
  "seen_batches (sweepExpiredRemoteEvents s) = (if RetentionDays (settings s) \<le> 0 then seen_batches s
     else del_rows (\<lambda>x. snSeenAt x < stored_time (clock s - 2 * FreshnessWindow)) (seen_batches s))"
  by (auto simp: sweepExpiredRemoteEvents_def Let_def ForgetBatchesSeenBefore_def DeleteRemoteEventsEndedBefore_def address_book_def)

lemma claimed_sweep:
  assumes "claimed a p b at s"
  shows "claimed a p b at (sweepExpiredRemoteEvents s)"
proof (cases "clock s > at + 2 * FreshnessWindow")
  case False
  then obtain x where x: "x \<in> set (seen_batches s)" "snPeer x = p" "snBatch x = b" "snSeenAt x = stored_time at"
    using assms by (auto simp: claimed_def)
  have "stored_time (clock s - 2 * FreshnessWindow) \<le> stored_time at" using False by (intro stored_time_mono) simp
  then have "x \<in> set (seen_batches (sweepExpiredRemoteEvents s))" using x by (auto simp: sweep_effect)
  then show ?thesis using assms x by (auto simp: claimed_def sweep_effect)
qed (use assms in \<open>simp add: claimed_def sweep_effect\<close>)

lemma claimed_time: "claimed a p b at s \<Longrightarrow> claimed a p b at (s\<lparr>clock := clock s + int n\<rparr>)"
  by (auto simp: claimed_def address_book_def)

lemma claimed_run:
  assumes "claimed a p b at s" "\<And>c i. AdminStep c (RemovePeerReq i) \<notin> set xs"
  shows "claimed a p b at (fed_run fs xs s)"
  using assms
proof (induction fs xs s rule: fed_run.induct)
  case (2 fs d xs s)
  then show ?case by (simp add: keepsD [OF keeps_claimed_DeliverEvents])
next
  case (3 fs d xs s)
  then show ?case by (simp add: keepsD [OF keeps_claimed_requests(1)])
next
  case (4 fs c r xs s)
  then have "keeps (claimed a p b at) (serve_federation fs c r)" by (intro keeps_claimed_requests(2)) auto
  then have "claimed a p b at (after (serve_federation fs c r s))" using 4(2) by (rule keepsD)
  moreover have "AdminStep c (RemovePeerReq i) \<notin> set xs" for c i using 4(3) by (metis list.set_intros(2))
  ultimately show ?case using 4(1) by simp
qed (simp_all add: claimed_sweep claimed_time)

section \<open>Nothing is refused for rate when nothing is left over\<close>

lemma granted_bounds: "0 \<le> wanted \<Longrightarrow> 0 \<le> granted wanted cap used \<and> granted wanted cap used \<le> wanted"
  by (simp add: granted_def)

lemma peer_allowance_bounds:
  assumes "ConsumePeerAllowance i wanted limit now s = (Inr v, t)" "0 \<le> wanted"
  shows "0 \<le> Allowed v \<and> Allowed v + Refused v = wanted \<and> 0 \<le> Refused v"
  using assms granted_bounds
  by (auto simp: ConsumePeerAllowance_def bindE_Inr thenE_Inr new_count_granted Let_def split: if_splits)

lemma origin_allowance_bounds:
  assumes "ConsumeOriginAllowance p name wanted limit now s = (Inr v, t)" "0 \<le> wanted"
  shows "0 \<le> Allowed v \<and> Allowed v + Refused v = wanted \<and> 0 \<le> Refused v"
proof -
  have "0 \<le> originFirstAllowed wanted limit \<and> originFirstAllowed wanted limit \<le> wanted"
    using assms(2) by (simp add: originFirstAllowed_def unlimited_def)
  then show ?thesis using assms granted_bounds
    by (auto simp: ConsumeOriginAllowance_def bindE_Inr thenE_Inr new_count_granted Let_def split: if_splits option.splits)
qed

lemma take_budgets_bounds:
  assumes "take_budgets p wanted limit now names s = (Inr (budget, refused), t)" "distinct names"
  shows "(\<forall>name\<in>set names. 0 \<le> budget name \<and> budget name \<le> int (count_list wanted name))
    \<and> (\<forall>name. name \<notin> set names \<longrightarrow> budget name = 0)
    \<and> sum_list (map budget names) + refused = sum_list (map (\<lambda>n. int (count_list wanted n)) names) \<and> 0 \<le> refused"
  using assms
proof (induction names arbitrary: s budget refused t)
  case (Cons name names)
  obtain v u b r where v: "ConsumeOriginAllowance p name (int (count_list wanted name)) limit now s = (Inr v, u)"
    and rest: "take_budgets p wanted limit now names u = (Inr (b, r), t)"
    and eq: "budget = b(name := Allowed v)" "refused = r + Refused v"
    using Cons.prems(1) by (auto simp: bindE_Inr)
  note this(1) [THEN origin_allowance_bounds] and IH = Cons.IH [OF rest]
  moreover have "(\<Sum>a\<leftarrow>names. if a = name then Allowed v else b a) = sum_list (map b names)"
    using Cons.prems(2) by (intro arg_cong [of _ _ sum_list] map_cong) auto
  ultimately show ?case using Cons.prems(2) by (auto simp: eq)
qed simp

section \<open>Every event is accounted for\<close>

text \<open>How many updates the walk takes up.\<close>
fun walked :: "int \<Rightarrow> (utext \<Rightarrow> int) \<Rightarrow> FederatedEvent list \<Rightarrow> nat" where
  "walked pb b [] = 0"
| "walked pb b (e # es) =
     (if feDeleted e then walked pb b es
      else if pb \<le> 0 \<or> b (feOrganizationName e) \<le> 0 then walked pb b es
      else Suc (walked (pb - 1) (b(feOrganizationName e := b (feOrganizationName e) - 1)) es))"

definition updates_of :: "FederatedEvent list \<Rightarrow> utext \<Rightarrow> nat" where
  "updates_of es name = length (filter (\<lambda>e. \<not> feDeleted e \<and> feOrganizationName e = name) es)"

lemma walk_batch_counts:
  "walk_batch fs peer now pb b es s = (Inr (a, r), t) \<Longrightarrow> a + r = length (filter feDeleted es) + walked pb b es"
proof (induction es arbitrary: pb b s a r t)
  case (Cons e es)
  then show ?case by (fastforce simp: bindE_Inr thenE_Inr Let_def split: if_splits)
qed simp

lemma walked_budget:
  assumes "distinct names" "\<And>n. n \<notin> set names \<Longrightarrow> b n = 0" "\<And>n. 0 \<le> b n \<and> b n \<le> int (updates_of es n)"
    "sum_list (map b names) \<le> pb"
  shows "int (walked pb b es) = sum_list (map b names)"
  using assms
proof (induction es arbitrary: pb b)
  case Nil
  have "b n = 0" for n using Nil(3) [of n] by (simp add: updates_of_def)
  then show ?case by (simp add: sum_list_0)
next
  case (Cons e es)
  let ?o = "feOrganizationName e"
  have up: "updates_of (e # es) n = (if \<not> feDeleted e \<and> ?o = n then 1 else 0) + updates_of es n" for n
    by (simp add: updates_of_def)
  show ?case
  proof (cases "feDeleted e \<or> b ?o = 0")
    case True
    have "0 \<le> b n \<and> b n \<le> int (updates_of es n)" for n using Cons.prems(3) [of n] up [of n] True by (auto split: if_splits)
    then have "int (walked pb b es) = sum_list (map b names)" using Cons by blast
    then show ?thesis using True by auto
  next
    case False
    let ?b = "b(?o := b ?o - 1)"
    have pos: "1 \<le> b ?o" using False Cons.prems(3) [of ?o] by auto
    then have o: "?o \<in> set names" using Cons.prems(2) by force
    have rest: "(\<Sum>n\<leftarrow>remove1 ?o names. ?b n) = (\<Sum>n\<leftarrow>remove1 ?o names. b n)"
      using Cons.prems(1) by (intro arg_cong [of _ _ sum_list] map_cong) auto
    have nonneg: "0 \<le> (\<Sum>n\<leftarrow>remove1 ?o names. b n)" using Cons.prems(3) by (intro sum_list_nonneg) auto
    have sum: "sum_list (map ?b names) = sum_list (map b names) - 1"
      using sum_list_map_remove1 [OF o, of b] sum_list_map_remove1 [OF o, of ?b] rest by simp
    have pb: "0 < pb" using Cons.prems(4) sum_list_map_remove1 [OF o, of b] pos nonneg by simp
    have z: "?b n = 0" if "n \<notin> set names" for n using that Cons.prems(2) o by auto
    have c: "0 \<le> ?b n \<and> ?b n \<le> int (updates_of es n)" for n
      using Cons.prems(3) [of n] up [of n] pos False by (auto split: if_splits)
    have "sum_list (map ?b names) \<le> pb - 1" using sum Cons.prems(4) by linarith
    then have "int (walked (pb - 1) ?b es) = sum_list (map ?b names)" by (intro Cons.IH [OF Cons.prems(1)] z c)
    then show ?thesis using False pos pb sum by simp
  qed
qed

lemma admitted_counts: "count_list (admitted k es) n \<le> updates_of es n"
  by (induction k es rule: admitted.induct) (auto simp: updates_of_def)

lemma admitted_length:
  "0 \<le> k \<Longrightarrow> k \<le> int (length (filter (\<lambda>e. \<not> feDeleted e) es)) \<Longrightarrow> int (length (admitted k es)) = k"
  by (induction k es rule: admitted.induct) auto

lemma sum_counts:
  assumes "distinct names" "set names = set xs"
  shows "(\<Sum>n\<leftarrow>names. int (count_list xs n)) = int (length xs)"
proof -
  have "(\<Sum>n\<leftarrow>names. int (count_list xs n)) = (\<Sum>n\<in>set xs. int (count_list xs n))"
    using assms by (simp add: sum_list_distinct_conv_sum_set)
  also have "\<dots> = int (length xs)" using sum_count_set [of xs "set xs"] by (simp flip: of_nat_sum)
  finally show ?thesis .
qed

text \<open>Go ranges over every key of a map once, in some order.\<close>
definition ranges_over_keys :: "fed_service \<Rightarrow> bool" where
  "ranges_over_keys fs \<longleftrightarrow> (\<forall>names. distinct names \<longrightarrow> distinct (fsMapOrder fs names) \<and> set (fsMapOrder fs names) = set names)"

lemma applyBatch_accounts:
  assumes run: "applyBatch fs peer batch s = (Inr (r, applied), t)" and order: "ranges_over_keys fs"
  shows "rcAccepted r + rcRejected r = length (ebEvents batch) \<and> (applied \<longleftrightarrow> rcRateLimited r = 0)"
proof -
  let ?es = "ebEvents batch"
  let ?c = "int (length (filter (\<lambda>e. \<not> feDeleted e) ?es))"
  obtain limit v u where v: "ConsumePeerAllowance (pID peer) ?c limit (clock s) s = (Inr v, u)"
    and rest: "\<exists>budget refused u' a j. take_budgets (pID peer) (admitted (Allowed v) ?es) (OriginRateLimitPerMinute (settings s)) (clock s)
         (fsMapOrder fs (remdups (admitted (Allowed v) ?es))) u = (Inr (budget, refused), u')
       \<and> walk_batch fs peer (clock s) (Allowed v) budget ?es u' = (Inr (a, j), t)
       \<and> r = \<lparr>rcAccepted = a, rcRejected = j + nat (Refused v + refused), rcRateLimited = nat (Refused v + refused)\<rparr>
       \<and> applied = (Refused v + refused = 0)"
    using run by (auto simp: applyBatch_def Let_def bindE_Inr split: prod.splits)
  then obtain budget refused u' a j where
    b: "take_budgets (pID peer) (admitted (Allowed v) ?es) (OriginRateLimitPerMinute (settings s)) (clock s)
         (fsMapOrder fs (remdups (admitted (Allowed v) ?es))) u = (Inr (budget, refused), u')"
    and w: "walk_batch fs peer (clock s) (Allowed v) budget ?es u' = (Inr (a, j), t)"
    and r: "r = \<lparr>rcAccepted = a, rcRejected = j + nat (Refused v + refused), rcRateLimited = nat (Refused v + refused)\<rparr>"
    and ap: "applied = (Refused v + refused = 0)" by blast
  let ?w = "admitted (Allowed v) ?es"
  let ?names = "fsMapOrder fs (remdups ?w)"
  have names: "distinct ?names" "set ?names = set ?w" using order by (auto simp: ranges_over_keys_def)
  note pv = peer_allowance_bounds [OF v]
  note bb = take_budgets_bounds [OF b names(1)]
  have len: "int (length ?w) = Allowed v" using pv by (intro admitted_length) auto
  have sum: "sum_list (map budget ?names) + refused = Allowed v" using bb sum_counts [OF names] len by simp
  have "0 \<le> budget n \<and> budget n \<le> int (updates_of ?es n)" for n
    using bb admitted_counts [of "Allowed v" ?es n] by (cases "n \<in> set ?names") (force intro: order_trans)+
  then have "int (walked (Allowed v) budget ?es) = sum_list (map budget ?names)"
    using bb sum names(1) by (intro walked_budget) auto
  moreover have "a + j = length (filter feDeleted ?es) + walked (Allowed v) budget ?es" by (rule walk_batch_counts [OF w])
  moreover have "length (filter feDeleted ?es) + length (filter (\<lambda>e. \<not> feDeleted e) ?es) = length ?es"
    by (rule sum_length_filter_compl)
  ultimately show ?thesis using pv bb sum r ap by auto
qed

section \<open>Deletions\<close>

definition no_row :: "ident \<Rightarrow> ident \<Rightarrow> 'm fed_db_scheme \<Rightarrow> bool" where
  "no_row p i s \<longleftrightarrow> (\<forall>r\<in>set (remote_events s). \<not> remote_key p i r)"

lemma no_row_frame: "leaves remote_events m \<Longrightarrow> keeps (no_row p i) m"
  by (simp add: leaves_def keeps_def no_row_def)

lemma keeps_no_row_writes:
  "keeps (no_row p i) (DeleteRemoteEvent q j)"
  "riRemoteID own \<noteq> i \<Longrightarrow> keeps (no_row p i) (UpsertRemoteEvent q own)"
proof -
  show "keeps (no_row p i) (DeleteRemoteEvent q j)"
    unfolding DeleteRemoteEvent_def by (auto intro!: keeps_bindE keeps_thenE keeps_writes simp: no_row_def)
  assume i: "riRemoteID own \<noteq> i"
  have id: "keeps (no_row p i) NewID" by (rule no_row_frame) simp
  show "keeps (no_row p i) (UpsertRemoteEvent q own)"
    unfolding UpsertRemoteEvent_def
    by (auto intro!: keeps_bindE keeps_thenE keeps_if keeps_writes id simp: no_row_def remote_key_def stored_remote_def i)
qed

lemma keeps_no_row_walk:
  "(\<And>e. e \<in> set es \<Longrightarrow> feRemoteId e = i \<Longrightarrow> feDeleted e) \<Longrightarrow> keeps (no_row p i) (walk_batch fs peer now pb b es :: ('m fed_db_scheme, error, nat \<times> nat) oper)"
proof (induction es arbitrary: pb b)
  case (Cons e es)
  have origin: "keeps (no_row p i) (shrugged (RecordOriginAccepted (pID peer) (feOrganizationName e) now))"
    by (rule no_row_frame) (simp add: leaves_allowances)
  have upsert: "keeps (no_row p i) (UpsertRemoteEvent (pID peer) (remoteEventInput fs e (pDomain peer)))" if "\<not> feDeleted e"
    using that Cons.prems by (intro keeps_no_row_writes) (auto simp: remoteEventInput_def)
  have IH: "keeps (no_row p i) (walk_batch fs peer now pb b es :: ('m fed_db_scheme, error, nat \<times> nat) oper)" for pb b
    using Cons by auto
  show ?case
    by (auto simp: Let_def intro!: keeps_bindE keeps_thenE keeps_internal keeps_no_row_writes IH origin upsert split: prod.split)
qed simp

lemma no_row_after_delete: "no_row p i (after (DeleteRemoteEvent p i s))"
  by (simp add: DeleteRemoteEvent_def no_row_def)

lemma walk_deletes:
  assumes "walk_batch fs peer now pb b es s = (Inr x, t)" "e \<in> set es" "feDeleted e"
    "\<And>e'. e' \<in> set es \<Longrightarrow> feRemoteId e' = feRemoteId e \<Longrightarrow> feDeleted e'"
  shows "no_row (pID peer) (feRemoteId e) t"
  using assms
proof (induction es arbitrary: pb b s x)
  case (Cons f es)
  have rest: "keeps (no_row (pID peer) (feRemoteId e)) (walk_batch fs peer now pb b es)" for pb b
    using Cons.prems(4) by (intro keeps_no_row_walk) auto
  show ?case
  proof (cases "f = e")
    case True
    obtain held u y where u: "DeleteRemoteEvent (pID peer) (feRemoteId e) s = (Inr held, u)"
      and w: "walk_batch fs peer now pb b es u = (Inr y, t)"
      using Cons.prems(1,3) True by (auto simp: bindE_Inr split: prod.splits)
    have "no_row (pID peer) (feRemoteId e) u" using no_row_after_delete [of "pID peer" "feRemoteId e" s] u by simp
    then show ?thesis using keepsD [OF rest, of u pb b] w by simp
  next
    case False
    then have e: "e \<in> set es" using Cons.prems(2) by simp
    obtain pb' b' u y where "walk_batch fs peer now pb' b' es u = (Inr y, t)"
      using Cons.prems(1) by (auto simp: bindE_Inr thenE_Inr Let_def split: if_splits prod.splits)
    then show ?thesis using Cons.IH [of pb' b' u y] e Cons.prems(3,4) by auto
  qed
qed simp

section \<open>Instances\<close>

definition sample_update :: FederatedEvent where
  "sample_update = \<lparr>feRemoteId = ''e1'', feCanonicalUrl = ''https://b.org/events/e1'', feTitle = [68], feIsOnline = True,
     feIsInPerson = False, feLocation = None, feStartsAt = 10 * second, feEndsAt = 20 * second, feTimezone = ''UTC'',
     feGatheringName = [69], feOrganizationName = [70], feDeleted = False\<rparr>"

definition sample_batch :: EventBatch where
  "sample_batch = \<lparr>ebOriginDomain = ''b.org'', ebBatchId = ''b1'', ebSentAt = second,
     ebEvents = [sample_update, sample_update\<lparr>feRemoteId := ''e2'', feDeleted := True\<rparr>]\<rparr>"

definition sample_fed :: fed_service where
  "sample_fed = \<lparr>fsAddress = ''us@a.org'', fsAlgorithm = ''test'', fsIdentity = noIdentity,
     fsVerify = (\<lambda>_ _ d. inSignature d = ''good''), fsVerifyPeering = (\<lambda>_ _ d. inSignature d = ''good''),
     fsDecodeBatch = (\<lambda>bytes. if bytes = ''b1'' then Some sample_batch else None),
     fsDecodePeering = (\<lambda>_. None), fsLoadLocation = (\<lambda>_. Some (\<lambda>_. 0)), fsParseURL = (\<lambda>_. Some (runes ''https'', runes ''b.org'')),
     fsLower = ascii_lower_rune, fsMapOrder = id\<rparr>"

definition sample_delivery :: IncomingDelivery where
  "sample_delivery = \<lparr>inSenderAddress = ''Dir@b.org'', inAlgorithm = ''test'', inKeyId = ''k'', inSignature = ''good'',
     inBody = ''b1''\<rparr>"

lemma sample_admissible: "admissible sample_fed sample_delivery peered_db sample_peer sample_batch"
proof -
  have "sender_address sample_delivery = Some ''dir@b.org''" by code_simp
  moreover have "row (\<lambda>p. pAddress p = ''dir@b.org'') (peers peered_db) = Some sample_peer"
    by (simp add: peered_db_def sample_peer_def)
  moreover have "fsVerify sample_fed (pAddress sample_peer) (pIdentity sample_peer) sample_delivery"
    "pInboundStatus sample_peer = PeerApproved" "fsDecodeBatch sample_fed (inBody sample_delivery) = Some sample_batch"
    by (simp_all add: sample_fed_def sample_delivery_def sample_peer_def)
  moreover have "ToLowerId (trim_id (ebOriginDomain sample_batch)) = ToLowerId (pDomain sample_peer)"
    "\<bar>clock peered_db - ebSentAt sample_batch\<bar> \<le> FreshnessWindow" "trim_id (ebBatchId sample_batch) \<noteq> []"
    "\<not> seen (pID sample_peer) (ebBatchId sample_batch) peered_db"
    by code_simp+
  ultimately show ?thesis by (simp add: admissible_def)
qed

lemma sample_delivered:
  "DeliverEvents sample_fed sample_delivery peered_db
     = (Inr \<lparr>rcAccepted = 1, rcRejected = 1, rcRateLimited = 0\<rparr>, after (DeliverEvents sample_fed sample_delivery peered_db))"
proof -
  have "fst (DeliverEvents sample_fed sample_delivery peered_db) = Inr \<lparr>rcAccepted = 1, rcRejected = 1, rcRateLimited = 0\<rparr>"
    by code_simp
  then show ?thesis by (metis prod.collapse)
qed

end
