(* ===== verification/Delivery.thy ===== *)
theory Delivery
  imports Sender Server FederationSafety
begin

text \<open>
  One instance's sender and another's server put together: the pass of \<open>federation/sender.go\<close>
  posts an envelope that \<open>server/server.go\<close> reads, dispatches to \<open>DeliverEvents\<close> and answers.
  The generated codecs of a \<open>SignedDelivery\<close> and of a \<open>DeliveryReceipt\<close> are arguments.
\<close>

section \<open>The receiving end\<close>

text \<open>The route of \<open>deliver-events\<close>: the generated decoder, the operation, the generated encoder.\<close>
definition deliver_call ::
  "fed_service \<Rightarrow> (bytes \<Rightarrow> IncomingDelivery option) \<Rightarrow> (DeliveryReceipt \<Rightarrow> bytes) \<Rightarrow> 'm fed_db_scheme call" where
  "deliver_call fs decode encode payload s = (case decode payload of
      None \<Rightarrow> (Inl Undecodable, s)
    | Some d \<Rightarrow> (case DeliverEvents fs d s of
          (Inl e, t) \<Rightarrow> (Inl (Failed e), t)
        | (Inr receipt, t) \<Rightarrow> (Inr (encode receipt), t)))"

text \<open>A POST to an instance in the state \<open>s\<close>: a handler that panics has its connection closed.\<close>
definition post_to :: "nat \<Rightarrow> 's services \<Rightarrow> 's \<Rightarrow> string \<Rightarrow> bytes \<Rightarrow> (nat \<times> bytes) option" where
  "post_to room svcs s endpoint body = (case fst (fst (handleRPC room svcs body s)) of
      Answered status out \<Rightarrow> Some (status, out)
    | HandlerPanicked \<Rightarrow> None)"

text \<open>What makes the server \<open>svcs\<close> a federating instance with the service \<open>fs\<close>.\<close>
definition federating ::
  "fed_service \<Rightarrow> (bytes \<Rightarrow> IncomingDelivery option) \<Rightarrow> (DeliveryReceipt \<Rightarrow> bytes) \<Rightarrow> 'm fed_db_scheme services \<Rightarrow> bool" where
  "federating fs decode encode svcs \<longleftrightarrow> svFederation svcs \<and> svLowerName svcs ''federation'' = ''federation''
     \<and> svCall svcs ''federation'' ''deliver-events'' = deliver_call fs decode encode"

text \<open>The answer to \<open>d\<close> is encoded in at most 64 KiB, whether it is a receipt or a declared error.\<close>
definition answer_fits :: "'m fed_db_scheme services \<Rightarrow> (DeliveryReceipt \<Rightarrow> bytes) \<Rightarrow> error + DeliveryReceipt \<Rightarrow> bool" where
  "answer_fits svcs encode answer = (case answer of
      Inr receipt \<Rightarrow> length (encode receipt) \<le> 2 ^ 16
    | Inl (App e) \<Rightarrow> length (svEncodeError svcs (toServiceError e)) \<le> 2 ^ 16
    | Inl Internal \<Rightarrow> True)"

abbreviation delivery_request :: "sender \<Rightarrow> outbox_row \<Rightarrow> RpcRequest" where
  "delivery_request sn item \<equiv> NewRpcRequest ''federation'' ''deliver-events'' (snEncodeDelivery sn (obPayload item))"

text \<open>An item a pass can post: an address, an envelope within the server's limit, room to read it.\<close>
definition postable :: "nat \<Rightarrow> sender \<Rightarrow> outbox_row \<Rightarrow> Peer \<Rightarrow> bool" where
  "postable room sn item peer \<longleftrightarrow> pBaseURL peer \<noteq> [] \<and> length (EncodeRpcRequest (delivery_request sn item)) \<le> maxRPCBodyBytes
     \<and> maxRPCBodyBytes \<le> room \<and> 2 ^ 20 \<le> snRoom sn"

lemma length_writeHead: "length (writeHead m n) \<le> 9"
  by (simp add: writeHead_def Let_def)

lemma heads_add: "k \<le> b - 9 \<Longrightarrow> 9 \<le> b \<Longrightarrow> length (writeHead m n) + k \<le> b"
  using length_writeHead [of m n] by simp

lemma payload_in_envelope: "length (rqPayload r) \<le> length (EncodeRpcRequest r)"
  by (simp add: EncodeRpcRequest_def length_envelope tag24_def)

lemma length_response:
  "length (EncodeRpcResponse (outcome_response None out)) \<le> 200
     + (case out of Reply variant payload \<Rightarrow> length variant + length payload | Transport status message \<Rightarrow> length message)"
  by (cases out) (auto simp: EncodeRpcResponse_def outcome_response_def NewRpcResponseOk_def NewRpcResponseTransportError_def
      length_envelope optional_def tag24_def intro!: heads_add order_trans [OF length_writeHead])

section \<open>A delivery, end to end\<close>

lemma routed:
  assumes "federating fs decode encode svcs"
    "routeFallible (svEncodeError svcs) (deliver_call fs decode encode) ''DeliveryReceipt'' (rqPayload r) s = (out, t)"
    "rqService r = ''federation''" "rqOp r = ''deliver-events''"
  shows "dispatchRPC svcs r s = ((out, (''federation'', ''deliver-events'', outcomeLabel out)), t)"
proof -
  have "trim_service ''federation'' = ''federation''" by (simp add: trim_service_def)
  then show ?thesis using assms
    by (simp add: dispatchRPC_def buildRoutes_def federating_def routeTable_def baseRoutes_def federationRoutes_def)
qed

lemma route_variants:
  assumes "decode payload = Some d" "answer_fits svcs encode (fst (DeliverEvents fs d s))"
    "routeFallible (svEncodeError svcs) (deliver_call fs decode encode) ''DeliveryReceipt'' payload s = (out, t)"
  shows "length (EncodeRpcResponse (outcome_response None out)) \<le> 2 ^ 20 \<and> length (rsPayload (outcome_response None out)) \<le> 2 ^ 20"
proof -
  have "(case out of Reply variant payload \<Rightarrow> length variant + length payload | Transport status message \<Rightarrow> length message) \<le> 20 + 2 ^ 16"
    using assms by (auto simp: routeFallible_def deliver_call_def answer_fits_def AsAppError_def
        split: prod.splits sum.splits error.splits)
  then show ?thesis using length_response [of out]
    by (auto simp: outcome_response_def NewRpcResponseOk_def NewRpcResponseTransportError_def split: HandlerOutcome.splits)
qed

lemma posted:
  assumes fed: "federating fs decode encode svcs" and item: "postable room sn item peer"
    and read: "decode (snEncodeDelivery sn (obPayload item)) = Some d" "answer_fits svcs encode (fst (DeliverEvents fs d s))"
    and route: "routeFallible (svEncodeError svcs) (deliver_call fs decode encode) ''DeliveryReceipt'' (snEncodeDelivery sn (obPayload item)) s = (out, t)"
  shows "handleRPC room svcs (EncodeRpcRequest (delivery_request sn item)) s
      = ((Answered 200 (EncodeRpcResponse (outcome_response None out)), [(''federation'', ''deliver-events'', outcomeLabel out)]), t)"
    "DecodeRpcResponse (snRoom sn) (take (2 ^ 20) (EncodeRpcResponse (outcome_response None out))) = Returns (outcome_response None out)"
proof -
  let ?r = "delivery_request sn item"
  have payload: "rqPayload ?r = snEncodeDelivery sn (obPayload item)" "rqService ?r = ''federation''" "rqOp ?r = ''deliver-events''" "rqID ?r = None"
    by (simp_all add: NewRpcRequest_def)
  have big: "maxRPCBodyBytes < 2 ^ 63" "192 \<le> maxRPCBodyBytes" by (simp_all add: maxRPCBodyBytes_def MaxFrameDefault_def)
  have len: "length (EncodeRpcRequest ?r) \<le> maxRPCBodyBytes" "maxRPCBodyBytes \<le> room" using item by (simp_all add: postable_def)
  have "length (rqPayload ?r) \<le> maxRPCBodyBytes" using payload_in_envelope len(1) by (rule order_trans)
  then have dec: "DecodeRpcRequest room (EncodeRpcRequest ?r) = Returns ?r"
    using len big by (intro decode_request) linarith+
  have disp: "dispatchRPC svcs ?r s = ((out, (''federation'', ''deliver-events'', outcomeLabel out)), t)"
    using fed route payload by (intro routed) simp_all
  show "handleRPC room svcs (EncodeRpcRequest ?r) s
      = ((Answered 200 (EncodeRpcResponse (outcome_response None out)), [(''federation'', ''deliver-events'', outcomeLabel out)]), t)"
    using len(1) unfolding handleRPC_def dec run.case disp prod.case payload(4) by (simp only: not_le [symmetric] if_False simp_thms)
  have small: "length (EncodeRpcResponse (outcome_response None out)) \<le> 2 ^ 20" "length (rsPayload (outcome_response None out)) \<le> 2 ^ 20"
    using route_variants [OF read route] by blast+
  have room: "2 ^ 20 \<le> snRoom sn" using item by (simp add: postable_def)
  show "DecodeRpcResponse (snRoom sn) (take (2 ^ 20) (EncodeRpcResponse (outcome_response None out))) = Returns (outcome_response None out)"
    unfolding take_all [OF small(1)]
  proof (rule decode_response)
    show "length (EncodeRpcResponse (outcome_response None out)) < 2 ^ 63" by (rule le_less_trans [OF small(1)]) simp
    show "length (rsPayload (outcome_response None out)) \<le> snRoom sn" using small(2) room by (rule order_trans)
    show "192 \<le> snRoom sn" by (rule order_trans [OF _ room]) simp
  qed
qed

lemma delivered_at_both_ends:
  assumes "federating fs decode encode svcs" "postable room sn item peer"
    "snExchange sn = post_to room svcs s" "decode (snEncodeDelivery sn (obPayload item)) = Some d"
    "\<And>r. fst (DeliverEvents fs d s) = Inr r \<Longrightarrow> snDecodeReceipt sn (encode r) = Some r"
    "answer_fits svcs encode (fst (DeliverEvents fs d s))"
  shows "snd (handleRPC room svcs (EncodeRpcRequest (delivery_request sn item)) s) = snd (DeliverEvents fs d s)
    \<and> deliverItem sn (item, peer) = Returns (case fst (DeliverEvents fs d s) of
        Inr receipt \<Rightarrow> Inr (receiptOutcome receipt)
      | Inl (App e) \<Rightarrow> Inl ''refused the delivery''
      | Inl Internal \<Rightarrow> Inl ''refused the delivery: transport status'')"
proof -
  obtain r t where d: "DeliverEvents fs d s = (r, t)" by fastforce
  let ?payload = "snEncodeDelivery sn (obPayload item)"
  obtain out t' where route: "routeFallible (svEncodeError svcs) (deliver_call fs decode encode) ''DeliveryReceipt'' ?payload s = (out, t')"
    by fastforce
  note p = posted [OF assms(1,2,4,6) route]
  have out: "t' = t" "out = (case r of Inr receipt \<Rightarrow> Reply ''DeliveryReceipt'' (encode receipt)
      | Inl (App e) \<Rightarrow> Reply ''ServiceError'' (svEncodeError svcs (toServiceError e))
      | Inl Internal \<Rightarrow> Transport StatusInternal ''internal error'')"
    using route assms(4) d by (auto simp: routeFallible_def deliver_call_def AsAppError_def split: sum.splits error.splits)
  have "pBaseURL peer \<noteq> []" using assms(2) by (simp add: postable_def)
  then have "deliverItem sn (item, peer) = (case DecodeRpcResponse (snRoom sn) (take (2 ^ 20) (EncodeRpcResponse (outcome_response None out))) of
      Panics \<Rightarrow> Panics | DecodeError \<Rightarrow> Returns (Inl ''decoding the response'')
    | Returns resp \<Rightarrow>
        if \<not> IsOk (rsStatus resp) then Returns (Inl ''refused the delivery: transport status'')
        else if rsVariant resp = Some ''ServiceError'' then Returns (Inl ''refused the delivery'')
        else (case snDecodeReceipt sn (rsPayload resp) of None \<Rightarrow> Returns (Inl ''decoding the receipt'')
          | Some receipt \<Rightarrow> Returns (Inr (receiptOutcome receipt))))"
    unfolding deliverItem_def prod.case assms(3) post_to_def Let_def p(1) fst_conv http_answer.case option.case by simp
  then show ?thesis
    unfolding p(1,2) d using assms(5) [unfolded d fst_conv] out
    by (auto simp: outcome_response_def NewRpcResponseOk_def NewRpcResponseTransportError_def IsOk_def StatusOk_def StatusInternal_def
        split: sum.split error.split)
qed

section \<open>Stale batches\<close>

lemma stale_refused:
  assumes "fsDecodeBatch fs (inBody d) = Some batch" "ebSentAt batch + FreshnessWindow < clock s"
  shows "\<exists>e. DeliverEvents fs d s = (Inl e, s)"
proof (cases rule: delivery_cases [of fs d s])
  case (admitted peer batch')
  then have "fsDecodeBatch fs (inBody d) = Some batch'" "clock s - ebSentAt batch' \<le> FreshnessWindow"
    by (auto simp: admissible_def)
  then show ?thesis using assms by simp
qed blast

text \<open>A failure recorded at the end of a long run suspends the peer.\<close>
lemma failure_suspends:
  assumes "p \<in> set (peers u)" "pID p = obPeer item" "pFirstFailureAt p = Some f" "f \<le> stored_time (now - failureWindow sn)"
  shows "\<exists>p'\<in>set (peers (record_outcome sn now item (Inl cause) u)). pID p' = pID p \<and> pSuspendedAt p' \<noteq> None"
proof -
  let ?v = "after (MarkDeliveryFailed (obID item) cause (nextAttempt sn now (obAttempts item)) u)"
  let ?p = "(failed_peer cause now (now - failureWindow sn) p)\<lparr>pUpdatedAt := nowSQL ?v\<rparr>"
  have "p \<in> set (peers ?v)" using assms(1) by (simp add: MarkDeliveryFailed_def)
  then have "?p \<in> set (peers (record_outcome sn now item (Inl cause) u))"
    using assms(2) by (auto simp: record_outcome_def recordFailure_def RecordDeliveryFailure_def update_peer_def)
  moreover have "pSuspendedAt ?p \<noteq> None" "pID ?p = pID p"
    using assms(3,4) by (simp_all add: failed_peer_def Let_def split: option.split)
  ultimately show ?thesis by blast
qed

text \<open>
  C16. A batch that is older than the freshness window when it arrives is refused whatever
  else holds; the refusal is a failure of the peer, the item stays queued with the same
  bytes, and a failure at the end of a long run suspends the peer.  The batch is stamped and
  signed once, when it is queued, so no retry of it can ever succeed.
\<close>
theorem stale_batches_are_never_delivered:
  assumes "federating fs decode encode svcs" "postable room sn item peer"
    "snExchange sn = post_to room svcs s" "decode (snEncodeDelivery sn (obPayload item)) = Some d"
    "answer_fits svcs encode (fst (DeliverEvents fs d s))"
    "fsDecodeBatch fs (inBody d) = Some batch" "ebSentAt batch + FreshnessWindow < clock s"
  shows "\<exists>cause. deliverItem sn (item, peer) = Returns (Inl cause)
    \<and> outbox_key ` set (outbox (record_outcome sn now item (Inl cause) u)) = outbox_key ` set (outbox u)
    \<and> (\<forall>p\<in>set (peers u). \<forall>f. pID p = obPeer item \<and> pFirstFailureAt p = Some f \<and> f \<le> stored_time (now - failureWindow sn)
         \<longrightarrow> (\<exists>p'\<in>set (peers (record_outcome sn now item (Inl cause) u)). pID p' = pID p \<and> pSuspendedAt p' \<noteq> None))"
proof -
  obtain e where e: "DeliverEvents fs d s = (Inl e, s)" using stale_refused [OF assms(6,7)] by blast
  have "deliverItem sn (item, peer) = Returns (case fst (DeliverEvents fs d s) of
        Inr receipt \<Rightarrow> Inr (receiptOutcome receipt)
      | Inl (App e) \<Rightarrow> Inl ''refused the delivery''
      | Inl Internal \<Rightarrow> Inl ''refused the delivery: transport status'')"
    using delivered_at_both_ends [OF assms(1-4)] e assms(5) by simp
  then obtain cause where "deliverItem sn (item, peer) = Returns (Inl cause)" unfolding e by (cases e) auto
  moreover have "outbox_key ` set (outbox (record_outcome sn now item (Inl cause) u)) = outbox_key ` set (outbox u)"
    using record_outcome_outbox [of sn now item "Inl cause" u] by simp
  ultimately show ?thesis by (intro exI [of _ cause] conjI ballI allI impI) (assumption | elim conjE, erule (3) failure_suspends)+
qed

section \<open>Instances\<close>

definition receiving_services :: "fed_db services" where
  "receiving_services = \<lparr>svFederation = True, svDevAuth = False,
     svCall = (\<lambda>_ _. deliver_call sample_fed (\<lambda>b. if b = [1] then Some sample_delivery else None) (\<lambda>_. [7])),
     svEncodeError = (\<lambda>_. [9]), svLowerName = (\<lambda>name. name)\<rparr>"

definition posting_sender :: "fed_db \<Rightarrow> sender" where
  "posting_sender s = sample_sender\<lparr>snExchange := post_to maxRPCBodyBytes receiving_services s, snEncodeDelivery := (\<lambda>_. [1]),
     snDecodeReceipt := (\<lambda>b. if b = [7] then Some \<lparr>rcAccepted = 1, rcRejected = 1, rcRateLimited = 0\<rparr> else None)\<rparr>"

lemma sample_federating:
  "federating sample_fed (\<lambda>b. if b = [1] then Some sample_delivery else None) (\<lambda>_. [7]) receiving_services"
  by (simp add: federating_def receiving_services_def)

lemma sample_postable: "postable maxRPCBodyBytes (posting_sender s) item sample_peer"
proof -
  have "length (EncodeRpcRequest (delivery_request (posting_sender s) item)) \<le> 200"
    by (auto simp: EncodeRpcRequest_def NewRpcRequest_def posting_sender_def length_envelope optional_def tag24_def add.assoc
        intro!: heads_add order_trans [OF length_writeHead])
  then show ?thesis
    by (simp add: postable_def sample_peer_def maxRPCBodyBytes_def MaxFrameDefault_def posting_sender_def sample_sender_def)
qed

lemma sample_fits: "answer_fits receiving_services (\<lambda>_. [7]) answer"
  by (simp add: answer_fits_def receiving_services_def split: sum.split error.split)

theorem stale_batches_are_never_delivered_witness:
  "\<exists>cause. deliverItem (posting_sender (peered_db\<lparr>clock := 2 * hour_duration\<rparr>)) (sample_item, sample_peer) = Returns (Inl cause)"
  using stale_batches_are_never_delivered [OF sample_federating sample_postable _ _ sample_fits,
      of "peered_db\<lparr>clock := 2 * hour_duration\<rparr>" "peered_db\<lparr>clock := 2 * hour_duration\<rparr>" sample_item sample_delivery sample_batch 0 peered_db]
  by (auto simp: posting_sender_def sample_fed_def sample_delivery_def sample_batch_def FreshnessWindow_def hour_duration_def minute_def second_def)

end
