(* ===== verification/Signing.thy ===== *)
theory Signing
  imports Cbor
begin

text \<open>
  \<open>federation/cbor.go\<close>, \<open>sign.go\<close>, \<open>verify.go\<close>, \<open>keyring.go\<close> and \<open>enrollment.go\<close>: what a
  signature is made over, the keys an instance holds, and when it renews them.  Ed25519,
  base64, JSON, the relying party's resolver and its minimum number of keys are outside the
  repository: they are the fields of \<open>crypto\<close>, and \<open>'j\<close> is the text of a secret.
\<close>

section \<open>What a signature covers\<close>

definition cborHead :: "byte \<Rightarrow> 64 word \<Rightarrow> bytes" where
  "cborHead major n =
     (let m = push_bit 5 major in
      if n < 24 then [m OR byte_at n 0]
      else if n \<le> 0xff then [m OR 24, byte_at n 0]
      else if n \<le> 0xffff then [m OR 25, byte_at n 8, byte_at n 0]
      else if n \<le> 0xffffffff then [m OR 26, byte_at n 24, byte_at n 16, byte_at n 8, byte_at n 0]
      else [m OR 27, byte_at n 56, byte_at n 48, byte_at n 40, byte_at n 32,
            byte_at n 24, byte_at n 16, byte_at n 8, byte_at n 0])"

definition signatureInput :: "string \<Rightarrow> bytes \<Rightarrow> bytes" where
  "signatureInput tag payload =
     cborHead 4 2 @ (cborHead 3 (of_nat (length tag)) @ text_bytes tag) @ (cborHead 2 (of_nat (length payload)) @ payload)"

definition BatchSignatureTag :: string where "BatchSignatureTag = ''tinku-federation-batch-v1''"
definition PeeringSignatureTag :: string where "PeeringSignatureTag = ''tinku-federation-peering-v1''"

section \<open>The parameters\<close>

record KeyIdentity =
  kiSubjectUserID :: string
  kiSubjectDomain :: string
  kiApplicationID :: string
  kiInstanceID :: string

definition KeyIdentityEmpty :: "KeyIdentity \<Rightarrow> bool" where
  "KeyIdentityEmpty k \<longleftrightarrow> kiSubjectUserID k = [] \<and> kiSubjectDomain k = [] \<and> kiApplicationID k = [] \<and> kiInstanceID k = []"

text \<open>A key as its secret form stores it (\<open>keyringSecretKey\<close>), the seed as text.\<close>
record keyringSecretKey =
  skKeyID :: string
  skSeed :: string
  skCreatedAt :: instant
  skRetiredAt :: "instant option"

record keyringSecretV1 =
  ksVersion :: int
  ksAddress :: string
  ksKeys :: "keyringSecretKey list"

record 'j crypto =
  crPublic :: "bytes \<Rightarrow> bytes"                       \<comment> \<open>the public key of a seed\<close>
  crSign :: "bytes \<Rightarrow> bytes \<Rightarrow> bytes"
  crVerify :: "bytes \<Rightarrow> bytes \<Rightarrow> bytes \<Rightarrow> bool"
  crEncode :: "bytes \<Rightarrow> string"                       \<comment> \<open>base64.RawURLEncoding\<close>
  crDecode :: "string \<Rightarrow> bytes option"
  crMarshal :: "keyringSecretV1 \<Rightarrow> 'j"                 \<comment> \<open>encoding/json\<close>
  crUnmarshal :: "'j \<Rightarrow> keyringSecretV1 option"
  crMinKeys :: nat                                   \<comment> \<open>regularrp.MinSigningKeys\<close>
  crQuorum :: nat                                    \<comment> \<open>regularrp.AdditionQuorum\<close>
  crResolve :: "KeyIdentity \<Rightarrow> (string \<Rightarrow> bytes option) option"  \<comment> \<open>the keys attested for signing\<close>

definition SeedSize :: nat where "SeedSize = 32"

section \<open>The keyring\<close>

record localKey =
  lkKeyID :: string
  lkSeed :: bytes
  lkPublicKey :: bytes
  lkCreatedAt :: instant
  lkRetiredAt :: "instant option"

record LocalKeyring =
  krAddress :: string
  krKeys :: "localKey list"

definition active :: "localKey \<Rightarrow> bool" where
  "active k \<longleftrightarrow> lkRetiredAt k = None"

text \<open>The generator's answer: nothing when randomness fails, else a seed and a key id.\<close>
definition addKeyLocked :: "'j crypto \<Rightarrow> (bytes \<times> string) option \<Rightarrow> instant \<Rightarrow> LocalKeyring \<Rightarrow> (localKey \<times> LocalKeyring) option" where
  "addKeyLocked cr generated now kr = (case generated of
      None \<Rightarrow> None
    | Some (seed, i) \<Rightarrow>
        (let key = \<lparr>lkKeyID = i, lkSeed = seed, lkPublicKey = crPublic cr seed, lkCreatedAt = now, lkRetiredAt = None\<rparr>
         in Some (key, kr\<lparr>krKeys := krKeys kr @ [key]\<rparr>)))"

fun add_each :: "'j crypto \<Rightarrow> (bytes \<times> string) option list \<Rightarrow> instant \<Rightarrow> LocalKeyring \<Rightarrow> LocalKeyring option" where
  "add_each cr [] now kr = Some kr"
| "add_each cr (g # gs) now kr = Option.bind (addKeyLocked cr g now kr) (\<lambda>(_, kr). add_each cr gs now kr)"

definition NewKeyring :: "'j crypto \<Rightarrow> string \<Rightarrow> (bytes \<times> string) option list \<Rightarrow> instant \<Rightarrow> LocalKeyring option" where
  "NewKeyring cr address generated now =
     (if length generated < crMinKeys cr then None
      else if address = [] then None
      else add_each cr generated now \<lparr>krAddress = address, krKeys = []\<rparr>)"

record KeyInfo =
  kfKeyID :: string
  kfPublicKey :: bytes
  kfCreatedAt :: instant
  kfActive :: bool

definition keyInfoOf :: "localKey \<Rightarrow> KeyInfo" where
  "keyInfoOf k = \<lparr>kfKeyID = lkKeyID k, kfPublicKey = lkPublicKey k, kfCreatedAt = lkCreatedAt k, kfActive = active k\<rparr>"

definition AddKey :: "'j crypto \<Rightarrow> (bytes \<times> string) option \<Rightarrow> instant \<Rightarrow> LocalKeyring \<Rightarrow> (KeyInfo \<times> LocalKeyring) option" where
  "AddKey cr generated now kr = map_option (\<lambda>(k, kr). (keyInfoOf k, kr)) (addKeyLocked cr generated now kr)"

fun retire_first :: "string \<Rightarrow> instant \<Rightarrow> localKey list \<Rightarrow> localKey list option" where
  "retire_first i at [] = None"
| "retire_first i at (k # ks) =
     (if lkKeyID k = i then Some ((if lkRetiredAt k = None then k\<lparr>lkRetiredAt := Some at\<rparr> else k) # ks)
      else map_option ((#) k) (retire_first i at ks))"

definition RetireKey :: "string \<Rightarrow> instant \<Rightarrow> LocalKeyring \<Rightarrow> LocalKeyring option" where
  "RetireKey i at kr = map_option (\<lambda>ks. kr\<lparr>krKeys := ks\<rparr>) (retire_first i at (krKeys kr))"

definition Keys :: "LocalKeyring \<Rightarrow> KeyInfo list" where
  "Keys kr = map keyInfoOf (krKeys kr)"

text \<open>An \<open>ApplicationSigner\<close> is a key id with its seed.\<close>
definition ActiveSigners :: "string \<Rightarrow> LocalKeyring \<Rightarrow> (string \<times> bytes) list" where
  "ActiveSigners excluded kr =
     map (\<lambda>k. (lkKeyID k, lkSeed k)) (filter (\<lambda>k. \<not> (\<not> active k \<or> lkKeyID k = excluded)) (krKeys kr))"

definition SignerFor :: "string \<Rightarrow> LocalKeyring \<Rightarrow> (string \<times> bytes) option" where
  "SignerFor i kr = map_option (\<lambda>k. (lkKeyID k, lkSeed k)) (row (\<lambda>k. lkKeyID k = i) (krKeys kr))"

text \<open>Signing with one of the active keys; \<open>pick n\<close> is the random choice below \<open>n\<close>, or its failure.\<close>
definition SignWithContext ::
  "'j crypto \<Rightarrow> (nat \<Rightarrow> nat option) \<Rightarrow> string \<Rightarrow> bytes \<Rightarrow> LocalKeyring \<Rightarrow> (string \<times> string) option" where
  "SignWithContext cr pick sigContext body kr =
     (let usable = filter active (krKeys kr) in
      if usable = [] then None
      else Option.bind (if length usable > 1 then pick (length usable) else Some 0) (\<lambda>n.
        let key = usable ! n in
        Some (crEncode cr (crSign cr (lkSeed key) (signatureInput sigContext body)), lkKeyID key)))"

definition Sign :: "'j crypto \<Rightarrow> (nat \<Rightarrow> nat option) \<Rightarrow> bytes \<Rightarrow> LocalKeyring \<Rightarrow> (string \<times> string) option" where
  "Sign cr pick body kr = SignWithContext cr pick BatchSignatureTag body kr"

definition ApplicationKeyAlgorithm :: string where
  "ApplicationKeyAlgorithm = ''linkkeys-application-key-ed25519-v1''"

text \<open>\<open>ApplicationKeyVerifier.Verify\<close> under its context: every reason to refuse is one.\<close>
definition Verify ::
  "'j crypto \<Rightarrow> string \<Rightarrow> KeyIdentity \<Rightarrow> string \<Rightarrow> string \<Rightarrow> bytes \<Rightarrow> string \<Rightarrow> bool" where
  "Verify cr context identity algorithm keyID body signature =
     (algorithm = ApplicationKeyAlgorithm \<and> \<not> KeyIdentityEmpty identity \<and>
      (case crDecode cr signature of None \<Rightarrow> False
       | Some sig \<Rightarrow> (case crResolve cr identity of None \<Rightarrow> False
           | Some keyForUse \<Rightarrow> (case keyForUse keyID of None \<Rightarrow> False
               | Some public \<Rightarrow> crVerify cr public (signatureInput context body) sig))))"

section \<open>The scheme that authenticates nothing\<close>

definition DevAlgorithm :: string where "DevAlgorithm = ''dev-unsigned-v1''"
definition devKeyID :: string where "devKeyID = ''dev''"

text \<open>\<open>developmentEnv\<close>, on a name whose blanks and capitals the callers' \<open>normal\<close> removes.\<close>
definition developmentEnv :: "(string \<Rightarrow> string) \<Rightarrow> string \<Rightarrow> bool" where
  "developmentEnv normal env \<longleftrightarrow> normal env \<in> {''dev'', ''development'', ''nonprod'', ''test''}"

definition NewDevSigner :: "(string \<Rightarrow> string) \<Rightarrow> string \<Rightarrow> string \<Rightarrow> string option" where
  "NewDevSigner normal address env =
     (if \<not> developmentEnv normal env then None else if address = [] then None else Some address)"

text \<open>The digest of the address, a newline and the body; \<open>digest\<close> is SHA-256 in base64.\<close>
definition devSignature :: "(bytes \<Rightarrow> string) \<Rightarrow> string \<Rightarrow> bytes \<Rightarrow> string" where
  "devSignature digest address body = DevAlgorithm @ '':'' @ digest (text_bytes (address @ [CHR 0x0A]) @ body)"

definition DevSign :: "(bytes \<Rightarrow> string) \<Rightarrow> string \<Rightarrow> bytes \<Rightarrow> string \<times> string" where
  "DevSign digest address body = (devSignature digest address body, devKeyID)"

definition DevVerify :: "(bytes \<Rightarrow> string) \<Rightarrow> string \<Rightarrow> string \<Rightarrow> bytes \<Rightarrow> string \<Rightarrow> bool" where
  "DevVerify digest address algorithm body signature =
     (algorithm = DevAlgorithm \<and> signature = devSignature digest address body)"

section \<open>Secret storage\<close>

definition secret_key :: "'j crypto \<Rightarrow> localKey \<Rightarrow> keyringSecretKey" where
  "secret_key cr k = \<lparr>skKeyID = lkKeyID k, skSeed = crEncode cr (lkSeed k), skCreatedAt = lkCreatedAt k, skRetiredAt = lkRetiredAt k\<rparr>"

definition MarshalSecret :: "'j crypto \<Rightarrow> LocalKeyring \<Rightarrow> 'j" where
  "MarshalSecret cr kr = crMarshal cr \<lparr>ksVersion = 1, ksAddress = krAddress kr, ksKeys = map (secret_key cr) (krKeys kr)\<rparr>"

text \<open>The loop of \<open>LoadKeyring\<close>: the ids seen so far, the keys read in order.\<close>
fun load_keys :: "'j crypto \<Rightarrow> string list \<Rightarrow> keyringSecretKey list \<Rightarrow> localKey list option" where
  "load_keys cr seen [] = Some []"
| "load_keys cr seen (k # ks) =
     (if skKeyID k = [] then None
      else if skKeyID k \<in> set seen then None
      else (case crDecode cr (skSeed k) of
          None \<Rightarrow> None
        | Some seed \<Rightarrow> if length seed \<noteq> SeedSize then None
            else map_option (\<lambda>rest. \<lparr>lkKeyID = skKeyID k, lkSeed = seed, lkPublicKey = crPublic cr seed,
                   lkCreatedAt = skCreatedAt k, lkRetiredAt = skRetiredAt k\<rparr> # rest)
                 (load_keys cr (skKeyID k # seen) ks)))"

definition LoadKeyring :: "'j crypto \<Rightarrow> 'j \<Rightarrow> LocalKeyring option" where
  "LoadKeyring cr data =
     Option.bind (crUnmarshal cr data) (\<lambda>inp.
       if ksVersion inp \<noteq> 1 then None
       else if ksAddress inp = [] then None
       else if ksKeys inp = [] then None
       else Option.bind (load_keys cr [] (ksKeys inp)) (\<lambda>ks.
         if length (filter active ks) < crMinKeys cr then None
         else Some \<lparr>krAddress = ksAddress inp, krKeys = ks\<rparr>))"

section \<open>Renewal\<close>

text \<open>\<open>lifetime / 2\<close> truncates toward zero; it is reached only when positive.\<close>
definition NeedsRenewal :: "instant \<Rightarrow> instant \<Rightarrow> instant \<Rightarrow> bool" where
  "NeedsRenewal attestedAt expiresAt now =
     (let lifetime = expiresAt - attestedAt in
      if lifetime \<le> 0 then True else \<not> now < attestedAt + lifetime div 2)"

text \<open>
  One pass over the keys: \<open>renew\<close> is \<open>RenewKey\<close> with the decoding of what it brought back,
  the window of the fresh attestation or nothing.
\<close>
fun renew_each ::
  "(string \<Rightarrow> (instant \<times> instant) option) \<Rightarrow> instant \<Rightarrow> KeyInfo list \<Rightarrow> (string \<rightharpoonup> instant \<times> instant) \<Rightarrow> (string \<rightharpoonup> instant \<times> instant)" where
  "renew_each renew now [] expiry = expiry"
| "renew_each renew now (k # ks) expiry =
     (if \<not> kfActive k then renew_each renew now ks expiry
      else if (case expiry (kfKeyID k) of None \<Rightarrow> False | Some (a, e) \<Rightarrow> \<not> NeedsRenewal a e now)
      then renew_each renew now ks expiry
      else (case renew (kfKeyID k) of
          None \<Rightarrow> renew_each renew now ks expiry
        | Some w \<Rightarrow> renew_each renew now ks (expiry(kfKeyID k \<mapsto> w))))"

definition renewalPass ::
  "(string \<Rightarrow> (instant \<times> instant) option) \<Rightarrow> instant \<Rightarrow> LocalKeyring \<Rightarrow> (string \<rightharpoonup> instant \<times> instant) \<Rightarrow> (string \<rightharpoonup> instant \<times> instant)" where
  "renewalPass renew now kr expiry = renew_each renew now (Keys kr) expiry"

text \<open>The signers of an addition: the first two of the others, or the refusal.\<close>
definition addition_quorum :: "'j crypto \<Rightarrow> string \<Rightarrow> LocalKeyring \<Rightarrow> (string \<times> bytes) list option" where
  "addition_quorum cr newKeyID kr =
     (let quorum = ActiveSigners newKeyID kr in
      if length quorum < crQuorum cr then None
      else if SignerFor newKeyID kr = None then None
      else Some (take (crQuorum cr) quorum))"

section \<open>Contexts\<close>

lemma cborHead_writeHead: "cborHead major n = writeHead major n"
proof -
  have "n \<le> 0xff \<longleftrightarrow> n < 2 ^ 8" "n \<le> 0xffff \<longleftrightarrow> n < 2 ^ 16" "n \<le> 0xffffffff \<longleftrightarrow> n < 2 ^ 32"
    by (auto simp: word_less_nat_alt word_le_nat_alt)
  then show ?thesis by (simp add: cborHead_def writeHead_def Let_def)
qed

text \<open>The hand-written encoder writes what the transport's codec would.\<close>
lemma signatureInput_encode: "signatureInput tag payload = encodeValue (cArray [cText tag, cBytes payload])"
  by (simp add: signatureInput_def cborHead_writeHead)

lemma head_length: "length (writeHead major n) \<le> 9"
  by (simp add: writeHead_def Let_def)

lemma signatureInput_inj:
  assumes "length tag + length payload < 2 ^ 62" "length tag' + length payload' < 2 ^ 62"
    "signatureInput tag payload = signatureInput tag' payload'"
  shows "tag = tag' \<and> payload = payload'"
proof -
  let ?v = "cArray [cText tag, cBytes payload]" and ?w = "cArray [cText tag', cBytes payload']"
  let ?room = "2 ^ 62 :: nat"
  have d: "decodeEnvelope ?room (encodeValue (cArray [cText t, cBytes p]))
      = Returns (norm (cArray [cText t, cBytes p]), length (encodeValue (cArray [cText t, cBytes p])))"
    if small: "length t + length p < 2 ^ 62" for t p
  proof (rule decode_envelope_encode)
    show "wire ?room (cArray [cText t, cBytes p])" using small by simp
    have "length (encodeValue (cArray [cText t, cBytes p])) = length (writeHead 4 2)
        + (length (writeHead 3 (of_nat (length t))) + length t) + (length (writeHead 2 (of_nat (length p))) + length p)"
      by simp
    moreover have "(2 :: nat) ^ 62 + 27 \<le> 2 ^ 63" by simp
    ultimately show "length (encodeValue (cArray [cText t, cBytes p])) < 2 ^ 63"
      using small head_length [of 4 2] head_length [of 3 "of_nat (length t)"] head_length [of 2 "of_nat (length p)"]
      by linarith
  qed
  have e: "encodeValue ?v = encodeValue ?w" using assms(3) unfolding signatureInput_encode .
  have "norm ?v = norm ?w" using d [OF assms(1)] d [OF assms(2)] unfolding e by (metis prod.inject run.inject)
  then show ?thesis by simp
qed

text \<open>
  C25. A signature's context cannot be confused: the bytes signed for one tag and body are
  the bytes signed for another exactly when both are the same, so what is signed for a batch
  is never what is signed for a peering request.
\<close>
theorem signature_contexts_are_separate:
  assumes "length tag + length payload < 2 ^ 62" "length tag' + length payload' < 2 ^ 62"
  shows "(signatureInput tag payload = signatureInput tag' payload') = (tag = tag' \<and> payload = payload')"
  using signatureInput_inj [OF assms] by auto

theorem signature_contexts_are_separate_witness:
  "signatureInput BatchSignatureTag [1, 2, 3] \<noteq> signatureInput PeeringSignatureTag [1, 2, 3]"
  using signature_contexts_are_separate [of BatchSignatureTag "[1, 2, 3]" PeeringSignatureTag "[1, 2, 3]"]
  by (simp add: BatchSignatureTag_def PeeringSignatureTag_def)

section \<open>Keyrings\<close>

text \<open>What the constructors establish and every operation keeps.\<close>
definition key_ok :: "'j crypto \<Rightarrow> localKey \<Rightarrow> bool" where
  "key_ok cr k \<longleftrightarrow> lkKeyID k \<noteq> [] \<and> length (lkSeed k) = SeedSize \<and> lkPublicKey k = crPublic cr (lkSeed k)"

definition keyring_ok :: "'j crypto \<Rightarrow> LocalKeyring \<Rightarrow> bool" where
  "keyring_ok cr kr \<longleftrightarrow> krAddress kr \<noteq> [] \<and> distinct (map lkKeyID (krKeys kr)) \<and> list_all (key_ok cr) (krKeys kr)"

text \<open>What is relied on of the encoders: decoding undoes encoding.\<close>
definition encoders_ok :: "'j crypto \<Rightarrow> bool" where
  "encoders_ok cr \<longleftrightarrow> (\<forall>b. crDecode cr (crEncode cr b) = Some b) \<and> (\<forall>x. crUnmarshal cr (crMarshal cr x) = Some x)"

lemma load_saved:
  assumes "encoders_ok cr" "distinct (map lkKeyID ks)" "list_all (key_ok cr) ks" "set seen \<inter> lkKeyID ` set ks = {}"
  shows "load_keys cr seen (map (secret_key cr) ks) = Some ks"
  using assms by (induction ks arbitrary: seen) (auto simp: secret_key_def encoders_ok_def key_ok_def)

lemma keyring_ok_add:
  assumes "keyring_ok cr kr" "addKeyLocked cr (Some (seed, i)) now kr = Some (k, kr')"
    "length seed = SeedSize" "i \<noteq> []" "i \<notin> lkKeyID ` set (krKeys kr)"
  shows "keyring_ok cr kr'"
  using assms by (auto simp: keyring_ok_def addKeyLocked_def key_ok_def Let_def)

lemma retire_first_map:
  "retire_first i at ks = Some ks' \<Longrightarrow> map lkKeyID ks' = map lkKeyID ks \<and> (list_all (key_ok cr) ks \<longrightarrow> list_all (key_ok cr) ks')"
  by (induction ks arbitrary: ks') (auto simp: key_ok_def split: if_splits)

lemma keyring_ok_retire: "keyring_ok cr kr \<Longrightarrow> RetireKey i at kr = Some kr' \<Longrightarrow> keyring_ok cr kr'"
  using retire_first_map [of i at "krKeys kr" _ cr] by (auto simp: keyring_ok_def RetireKey_def)

text \<open>
  A well-formed keyring is read back from its secret form as it was, keys, dates and
  retirements, unless fewer of its keys are active than the minimum, which loading refuses.
\<close>
theorem keyrings_roundtrip:
  assumes "encoders_ok cr" "keyring_ok cr kr" "0 < crMinKeys cr"
  shows "LoadKeyring cr (MarshalSecret cr kr)
    = (if length (filter active (krKeys kr)) < crMinKeys cr then None else Some kr)"
proof -
  have "load_keys cr [] (map (secret_key cr) (krKeys kr)) = Some (krKeys kr)"
    using assms(1,2) by (intro load_saved) (auto simp: keyring_ok_def)
  then show ?thesis using assms by (auto simp: LoadKeyring_def MarshalSecret_def encoders_ok_def keyring_ok_def)
qed

section \<open>Signing and verifying\<close>

lemma signed_verifies:
  assumes signed: "SignWithContext cr pick context body kr = Some (signature, keyID)"
    and ok: "keyring_ok cr kr" "encoders_ok cr"
    and pick: "\<forall>n m. pick n = Some m \<longrightarrow> m < n"
    and scheme: "\<forall>seed m. crVerify cr (crPublic cr seed) m (crSign cr seed m)"
    and attested: "\<forall>k\<in>set (krKeys kr). crResolve cr identity = Some keys \<and> keys (lkKeyID k) = Some (lkPublicKey k)"
    and identity: "\<not> KeyIdentityEmpty identity"
  shows "Verify cr context identity ApplicationKeyAlgorithm keyID body signature
    \<and> (\<exists>k\<in>set (krKeys kr). active k \<and> lkKeyID k = keyID)"
proof -
  let ?usable = "filter active (krKeys kr)"
  obtain n where n: "n < length ?usable" and
    s: "signature = crEncode cr (crSign cr (lkSeed (?usable ! n)) (signatureInput context body))" "keyID = lkKeyID (?usable ! n)"
  proof (cases "length ?usable > 1")
    case True
    then obtain n where "pick (length ?usable) = Some n"
      "signature = crEncode cr (crSign cr (lkSeed (?usable ! n)) (signatureInput context body))" "keyID = lkKeyID (?usable ! n)"
      using signed by (auto simp: SignWithContext_def Let_def bind_eq_Some_conv split: if_splits)
    then show ?thesis using pick that by blast
  next
    case False
    then show ?thesis using signed that [of 0] by (auto simp: SignWithContext_def Let_def split: if_splits)
  qed
  have k: "?usable ! n \<in> set (krKeys kr)" "active (?usable ! n)" using nth_mem [OF n] by auto
  then have "lkPublicKey (?usable ! n) = crPublic cr (lkSeed (?usable ! n))"
    using ok(1) by (auto simp: keyring_ok_def list_all_iff key_ok_def)
  then show ?thesis using k s ok(2) scheme attested identity by (auto simp: Verify_def encoders_ok_def)
qed


section \<open>An instance\<close>

lemma text_bytes_inverse [simp]: "text_bytes (bytes_text b) = b"
proof -
  have "word_of_nat (of_char (char_of (unat x))) = x" for x :: byte
    using unsigned_less [of x, where ?'a = nat] by (simp add: take_bit_nat_eq_self)
  then show ?thesis by (induction b) (simp_all add: text_bytes_def bytes_text_def)
qed

definition sample_crypto :: "keyringSecretV1 crypto" where
  "sample_crypto = \<lparr>crPublic = id, crSign = (\<lambda>seed m. seed @ m), crVerify = (\<lambda>p m s. s = p @ m), crEncode = bytes_text,
     crDecode = (\<lambda>t. Some (text_bytes t)), crMarshal = id, crUnmarshal = Some, crMinKeys = 2, crQuorum = 2,
     crResolve = (\<lambda>_. Some (\<lambda>_. Some (replicate 32 1)))\<rparr>"

definition sample_key :: "string \<Rightarrow> localKey" where
  "sample_key i = \<lparr>lkKeyID = i, lkSeed = replicate 32 1, lkPublicKey = replicate 32 1, lkCreatedAt = 0, lkRetiredAt = None\<rparr>"

definition sample_keyring :: LocalKeyring where
  "sample_keyring = \<lparr>krAddress = ''us@a.org'', krKeys = [sample_key ''k1'', sample_key ''k2'', (sample_key ''k3'')\<lparr>lkRetiredAt := Some 5\<rparr>]\<rparr>"

definition sample_identity :: KeyIdentity where
  "sample_identity = \<lparr>kiSubjectUserID = ''u'', kiSubjectDomain = ''a.org'', kiApplicationID = ''tinku'', kiInstanceID = ''1''\<rparr>"

lemma sample_keyring_ok: "encoders_ok sample_crypto" "keyring_ok sample_crypto sample_keyring"
  by (simp_all add: encoders_ok_def keyring_ok_def key_ok_def sample_crypto_def sample_keyring_def sample_key_def SeedSize_def)

theorem keyrings_roundtrip_witness:
  "LoadKeyring sample_crypto (MarshalSecret sample_crypto sample_keyring) = Some sample_keyring"
  using keyrings_roundtrip [OF sample_keyring_ok]
  by (simp add: sample_crypto_def sample_keyring_def sample_key_def active_def)


section \<open>The renewal loop\<close>

lemma renew_each_others: "i \<notin> kfKeyID ` set ks \<Longrightarrow> renew_each renew now ks expiry i = expiry i"
  by (induction ks arbitrary: expiry) (auto split: option.split)

lemma renew_each_unknown:
  assumes "distinct (map kfKeyID ks)" "k \<in> set ks" "kfActive k" "expiry (kfKeyID k) = None"
  shows "renew_each renew now ks expiry (kfKeyID k) = renew (kfKeyID k)"
  using assms
proof (induction ks arbitrary: expiry)
  case (Cons x ks)
  show ?case
  proof (cases "x = k")
    case True
    then show ?thesis using Cons.prems by (auto simp: renew_each_others split: option.split)
  next
    case False
    then have k: "k \<in> set ks" "kfKeyID x \<noteq> kfKeyID k" using Cons.prems by (auto simp: image_iff)
    then show ?thesis using Cons.IH Cons.prems by (auto split: option.split)
  qed
qed simp

text \<open>
  A pass that knows no expiry yet renews every active key, however fresh its
  attestation: after a start each active key has the window its renewal brought back.
\<close>
theorem first_pass_renews_everything:
  assumes "distinct (map lkKeyID (krKeys kr))" "k \<in> set (krKeys kr)" "active k"
  shows "renewalPass renew now kr (\<lambda>_. None) (lkKeyID k) = renew (lkKeyID k)"
proof -
  have d: "distinct (map kfKeyID (Keys kr))" using assms(1) by (simp add: Keys_def keyInfoOf_def comp_def)
  have k: "keyInfoOf k \<in> set (Keys kr)" "kfActive (keyInfoOf k)" "kfKeyID (keyInfoOf k) = lkKeyID k"
    using assms(2,3) by (simp_all add: Keys_def keyInfoOf_def)
  show ?thesis using renew_each_unknown [OF d k(1,2), of "\<lambda>_. None" renew now] k(3) by (simp add: renewalPass_def)
qed

theorem first_pass_renews_everything_witness:
  "renewalPass (\<lambda>_. Some (1, 9)) 2 sample_keyring (\<lambda>_. None) ''k1'' = Some (1, 9)"
  using first_pass_renews_everything [of sample_keyring "sample_key ''k1''" "\<lambda>_. Some (1, 9)" 2]
  by (simp add: sample_keyring_def sample_key_def active_def)

end
