(* ===== verification/FederationWire.thy ===== *)
theory FederationWire
  imports CodecFederation Delivery Signing
begin

text \<open>
  What one instance publishes, as the bytes another receives: the generated codec of
  \<open>csil/codec.gen.go\<close> in the places where \<open>federation/publish.go\<close>, \<open>federation/sender.go\<close>,
  \<open>server/dispatch.go\<close> and \<open>csilservices/federation.go\<close> call it, and the signature of
  \<open>federation/keyring.go\<close> over those bytes.  The rest of the model keeps a human text as runes and
  a batch as its record; here both become the strings and the bytes the code has.
\<close>

section \<open>The records as the codec's structs\<close>

definition wire_location :: "Location \<Rightarrow> csil_Location" where
  "wire_location l = \<lparr>Location_Name = go_string (locName l), Location_Address = go_string (locAddress l),
     Location_Locality = go_string (locLocality l), Location_Region = go_string (locRegion l),
     Location_PostalCode = go_string (locPostalCode l), Location_Country = go_string (locCountry l),
     Location_Latitude = locLatitude l, Location_Longitude = locLongitude l\<rparr>"

definition read_location :: "csil_Location \<Rightarrow> Location" where
  "read_location l = \<lparr>locName = runes_of (Location_Name l), locAddress = runes_of (Location_Address l),
     locLocality = runes_of (Location_Locality l), locRegion = runes_of (Location_Region l),
     locPostalCode = runes_of (Location_PostalCode l), locCountry = runes_of (Location_Country l),
     locLatitude = Location_Latitude l, locLongitude = Location_Longitude l\<rparr>"

definition wire_event :: "FederatedEvent \<Rightarrow> csil_FederatedEvent" where
  "wire_event e = \<lparr>FederatedEvent_RemoteId = feRemoteId e, FederatedEvent_CanonicalUrl = feCanonicalUrl e,
     FederatedEvent_Title = go_string (feTitle e), FederatedEvent_IsOnline = feIsOnline e,
     FederatedEvent_IsInPerson = feIsInPerson e, FederatedEvent_Location = map_option wire_location (feLocation e),
     FederatedEvent_StartsAt = feStartsAt e, FederatedEvent_EndsAt = feEndsAt e, FederatedEvent_Timezone = feTimezone e,
     FederatedEvent_GatheringName = go_string (feGatheringName e),
     FederatedEvent_OrganizationName = go_string (feOrganizationName e), FederatedEvent_Deleted = feDeleted e\<rparr>"

definition read_event :: "csil_FederatedEvent \<Rightarrow> FederatedEvent" where
  "read_event e = \<lparr>feRemoteId = FederatedEvent_RemoteId e, feCanonicalUrl = FederatedEvent_CanonicalUrl e,
     feTitle = runes_of (FederatedEvent_Title e), feIsOnline = FederatedEvent_IsOnline e,
     feIsInPerson = FederatedEvent_IsInPerson e, feLocation = map_option read_location (FederatedEvent_Location e),
     feStartsAt = FederatedEvent_StartsAt e, feEndsAt = FederatedEvent_EndsAt e, feTimezone = FederatedEvent_Timezone e,
     feGatheringName = runes_of (FederatedEvent_GatheringName e),
     feOrganizationName = runes_of (FederatedEvent_OrganizationName e), feDeleted = FederatedEvent_Deleted e\<rparr>"

definition wire_batch :: "EventBatch \<Rightarrow> csil_EventBatch" where
  "wire_batch b = \<lparr>EventBatch_OriginDomain = ebOriginDomain b, EventBatch_BatchId = ebBatchId b,
     EventBatch_SentAt = ebSentAt b, EventBatch_Events = map wire_event (ebEvents b)\<rparr>"

definition read_batch :: "csil_EventBatch \<Rightarrow> EventBatch" where
  "read_batch b = \<lparr>ebOriginDomain = EventBatch_OriginDomain b, ebBatchId = EventBatch_BatchId b,
     ebSentAt = EventBatch_SentAt b, ebEvents = map read_event (EventBatch_Events b)\<rparr>"

section \<open>The bytes\<close>

definition EncodeEventBatch :: "csil_EventBatch \<Rightarrow> bytes" where
  "EncodeEventBatch v = csil_cborEnc (csilEncEventBatch v)"

definition DecodeEventBatch :: "bytes \<Rightarrow> csil_error + csil_EventBatch" where
  "DecodeEventBatch b = bindS (csil_cborDecode b) csilDecEventBatch"

definition EncodeSignedDelivery :: "csil_SignedDelivery \<Rightarrow> bytes" where
  "EncodeSignedDelivery v = csil_cborEnc (csilEncSignedDelivery v)"

definition DecodeSignedDelivery :: "bytes \<Rightarrow> csil_error + csil_SignedDelivery" where
  "DecodeSignedDelivery b = bindS (csil_cborDecode b) csilDecSignedDelivery"

definition EncodeDeliveryReceipt :: "csil_DeliveryReceipt \<Rightarrow> bytes" where
  "EncodeDeliveryReceipt v = csil_cborEnc (csilEncDeliveryReceipt v)"

definition DecodeDeliveryReceipt :: "bytes \<Rightarrow> csil_error + csil_DeliveryReceipt" where
  "DecodeDeliveryReceipt b = bindS (csil_cborDecode b) csilDecDeliveryReceipt"

definition EncodePeeringBody :: "csil_PeeringBody \<Rightarrow> bytes" where
  "EncodePeeringBody v = csil_cborEnc (csilEncPeeringBody v)"

definition DecodePeeringBody :: "bytes \<Rightarrow> csil_error + csil_PeeringBody" where
  "DecodePeeringBody b = bindS (csil_cborDecode b) csilDecPeeringBody"

section \<open>Where the code uses them\<close>

text \<open>The body an envelope signs and carries, and the envelope.\<close>
definition batch_bytes :: "EventBatch \<Rightarrow> bytes" where
  "batch_bytes b = EncodeEventBatch (wire_batch b)"

definition envelope_bytes :: "SignedDelivery \<Rightarrow> bytes" where
  "envelope_bytes d = EncodeSignedDelivery \<lparr>SignedDelivery_SenderAddress = sdSenderAddress d,
     SignedDelivery_Algorithm = sdAlgorithm d, SignedDelivery_KeyId = sdKeyId d, SignedDelivery_Signature = sdSignature d,
     SignedDelivery_Body = batch_bytes (sdBody d)\<rparr>"

text \<open>\<open>Signer.Sign\<close> of the publisher: the keyring's signature over the body.\<close>
definition keyring_signer ::
  "'j crypto \<Rightarrow> (nat \<Rightarrow> nat option) \<Rightarrow> LocalKeyring \<Rightarrow> EventBatch \<Rightarrow> (string \<times> string) option" where
  "keyring_signer cr pick kr b = Sign cr pick (batch_bytes b) kr"

text \<open>The delivery as the receiving route decodes it.\<close>
definition incoming :: "bytes \<Rightarrow> IncomingDelivery option" where
  "incoming b = (case DecodeSignedDelivery b of
      Inl e \<Rightarrow> None
    | Inr d \<Rightarrow> Some \<lparr>inSenderAddress = SignedDelivery_SenderAddress d, inAlgorithm = SignedDelivery_Algorithm d,
        inKeyId = SignedDelivery_KeyId d, inSignature = SignedDelivery_Signature d, inBody = bytes_text (SignedDelivery_Body d)\<rparr>)"

text \<open>\<open>csil.DecodeEventBatch(req.Body)\<close>.\<close>
definition batch_of :: "string \<Rightarrow> EventBatch option" where
  "batch_of body = (case DecodeEventBatch (text_bytes body) of Inl e \<Rightarrow> None | Inr b \<Rightarrow> Some (read_batch b))"

definition key_identity :: "PeerIdentity \<Rightarrow> KeyIdentity" where
  "key_identity i = \<lparr>kiSubjectUserID = piSubjectUserID i, kiSubjectDomain = piSubjectDomain i,
     kiApplicationID = piApplicationID i, kiInstanceID = piInstanceID i\<rparr>"

text \<open>\<open>Verifier.Verify\<close> with the peer's identity, over the bytes as received.\<close>
definition key_verifier :: "'j crypto \<Rightarrow> string \<Rightarrow> PeerIdentity \<Rightarrow> IncomingDelivery \<Rightarrow> bool" where
  "key_verifier cr address identity d =
     Verify cr BatchSignatureTag (key_identity identity) (inAlgorithm d) (inKeyId d) (text_bytes (inBody d)) (inSignature d)"

text \<open>The receipt, with what the handler says about the events it left out, which no sender reads.\<close>
definition receipt_bytes :: "(DeliveryReceipt \<Rightarrow> string option) \<Rightarrow> DeliveryReceipt \<Rightarrow> bytes" where
  "receipt_bytes remark r = EncodeDeliveryReceipt \<lparr>DeliveryReceipt_Accepted = of_nat (rcAccepted r),
     DeliveryReceipt_Rejected = of_nat (rcRejected r), DeliveryReceipt_Message = remark r,
     DeliveryReceipt_RateLimited = of_nat (rcRateLimited r)\<rparr>"

definition receipt_of :: "bytes \<Rightarrow> DeliveryReceipt option" where
  "receipt_of b = (case DecodeDeliveryReceipt b of
      Inl e \<Rightarrow> None
    | Inr r \<Rightarrow> Some \<lparr>rcAccepted = unat (DeliveryReceipt_Accepted r), rcRejected = unat (DeliveryReceipt_Rejected r),
        rcRateLimited = unat (DeliveryReceipt_RateLimited r)\<rparr>)"

section \<open>What can be sent\<close>

text \<open>Texts of code points, strings of valid UTF-8, times of four-digit years.\<close>
definition runes_ok :: "utext \<Rightarrow> bool" where
  "runes_ok t \<longleftrightarrow> list_all scalar t \<and> length (go_string t) < 2 ^ 64"

definition location_sendable :: "Location \<Rightarrow> bool" where
  "location_sendable l \<longleftrightarrow> runes_ok (locName l) \<and> runes_ok (locAddress l) \<and> runes_ok (locLocality l)
     \<and> runes_ok (locRegion l) \<and> runes_ok (locPostalCode l) \<and> runes_ok (locCountry l)"

definition event_sendable :: "FederatedEvent \<Rightarrow> bool" where
  "event_sendable e \<longleftrightarrow> text_ok (feRemoteId e) \<and> text_ok (feCanonicalUrl e) \<and> runes_ok (feTitle e)
     \<and> pred_option location_sendable (feLocation e) \<and> time_ok (feStartsAt e) \<and> time_ok (feEndsAt e)
     \<and> text_ok (feTimezone e) \<and> runes_ok (feGatheringName e) \<and> runes_ok (feOrganizationName e)"

definition batch_sendable :: "EventBatch \<Rightarrow> bool" where
  "batch_sendable b \<longleftrightarrow> text_ok (ebOriginDomain b) \<and> text_ok (ebBatchId b) \<and> time_ok (ebSentAt b)
     \<and> list_ok event_sendable (ebEvents b)"

definition delivery_sendable :: "SignedDelivery \<Rightarrow> bool" where
  "delivery_sendable d \<longleftrightarrow> text_ok (sdSenderAddress d) \<and> text_ok (sdAlgorithm d) \<and> text_ok (sdKeyId d)
     \<and> text_ok (sdSignature d) \<and> batch_sendable (sdBody d) \<and> length (batch_bytes (sdBody d)) < 2 ^ 64"

lemma runes_text_ok: "runes_ok t \<Longrightarrow> text_ok (go_string t)"
  by (simp add: runes_ok_def text_ok_def valid_go_string)

lemma runes_read: "runes_ok t \<Longrightarrow> runes_of (go_string t) = t"
  by (simp add: runes_ok_def)

lemma location_wire: "location_sendable l \<Longrightarrow> Location_ok (wire_location l)"
  "location_sendable l \<Longrightarrow> read_location (wire_location l) = l"
  by (cases l; simp add: location_sendable_def Location_ok_def wire_location_def read_location_def runes_text_ok runes_read)+

lemma event_wire: "event_sendable e \<Longrightarrow> FederatedEvent_ok (wire_event e)" "event_sendable e \<Longrightarrow> read_event (wire_event e) = e"
  by (cases e; cases "feLocation e";
      simp add: event_sendable_def FederatedEvent_ok_def wire_event_def read_event_def location_wire runes_text_ok runes_read)+

lemma events_wire: "list_all event_sendable es \<Longrightarrow> list_all FederatedEvent_ok (map wire_event es) \<and> map read_event (map wire_event es) = es"
  by (induction es) (simp_all add: event_wire)

lemma batch_wire: "batch_sendable b \<Longrightarrow> EventBatch_ok (wire_batch b)" "batch_sendable b \<Longrightarrow> read_batch (wire_batch b) = b"
  using events_wire [of "ebEvents b"]
  by (cases b; auto simp: batch_sendable_def EventBatch_ok_def wire_batch_def read_batch_def list_ok_def)+

lemma batch_of_batch_bytes:
  assumes "batch_sendable b"
  shows "batch_of (bytes_text (batch_bytes b)) = Some b"
  using EventBatch_message.over_the_wire [OF batch_wire(1) [OF assms]] batch_wire(2) [OF assms]
  by (simp add: batch_of_def batch_bytes_def EncodeEventBatch_def DecodeEventBatch_def)

lemma incoming_envelope_bytes:
  assumes "delivery_sendable d"
  shows "incoming (envelope_bytes d) = Some \<lparr>inSenderAddress = sdSenderAddress d, inAlgorithm = sdAlgorithm d,
    inKeyId = sdKeyId d, inSignature = sdSignature d, inBody = bytes_text (batch_bytes (sdBody d))\<rparr>"
proof -
  let ?v = "\<lparr>SignedDelivery_SenderAddress = sdSenderAddress d,
     SignedDelivery_Algorithm = sdAlgorithm d, SignedDelivery_KeyId = sdKeyId d, SignedDelivery_Signature = sdSignature d,
     SignedDelivery_Body = batch_bytes (sdBody d)\<rparr>"
  have "SignedDelivery_ok ?v" using assms by (simp add: SignedDelivery_ok_def delivery_sendable_def bytes_ok_def)
  from SignedDelivery_message.over_the_wire [OF this] show ?thesis
    by (simp add: incoming_def envelope_bytes_def EncodeSignedDelivery_def DecodeSignedDelivery_def)
qed

lemma receipt_of_receipt_bytes:
  assumes "rcAccepted r < 2 ^ 64" "rcRejected r < 2 ^ 64" "rcRateLimited r < 2 ^ 64" "pred_option text_ok (remark r)"
  shows "receipt_of (receipt_bytes remark r) = Some r"
proof -
  let ?v = "\<lparr>DeliveryReceipt_Accepted = of_nat (rcAccepted r), DeliveryReceipt_Rejected = of_nat (rcRejected r),
     DeliveryReceipt_Message = remark r, DeliveryReceipt_RateLimited = of_nat (rcRateLimited r)\<rparr> :: csil_DeliveryReceipt"
  have "DeliveryReceipt_ok ?v" using assms(4) by (simp add: DeliveryReceipt_ok_def)
  from DeliveryReceipt_message.over_the_wire [OF this] assms(1-3) show ?thesis
    by (cases r) (simp add: receipt_of_def receipt_bytes_def EncodeDeliveryReceipt_def DecodeDeliveryReceipt_def unat_of_nat)
qed

end
