(* ===== verification/FederationProperties.thy ===== *)
theory FederationProperties
  imports FederationSafety
begin

text \<open>
  The properties of the receiving side over the lemmas of \<open>FederationSafety\<close>:
  who may write and what, a batch applied once, the receipt's accounts,
  deletions, and the invariant of the peers' table.
\<close>

section \<open>Deliveries\<close>

text \<open>
  C5. A delivery either is refused and changes nothing at all, or comes from a peer whose
  signature verifies under the identity its row holds, who is approved inbound, whose batch
  decodes, names the peer's own domain, is at most an hour from the receiver's clock, carries
  an id and was not applied before; and even then it leaves every event of every other peer
  as it was.
\<close>
theorem deliveries_are_guarded:
  "(\<exists>e. DeliverEvents fs d s = (Inl e, s))
   \<or> (\<exists>peer batch. admissible fs d s peer batch
        \<and> others_events (pID peer) (after (DeliverEvents fs d s)) = others_events (pID peer) s)"
proof (cases rule: delivery_cases [of fs d s])
  case (admitted peer batch)
  let ?u = "remembered (pID peer) (ebBatchId batch) s"
  have "others_events (pID peer) ?u = others_events (pID peer) s" by (simp add: others_events_def remembered_def)
  then have "others_events (pID peer) (after (DeliverEvents fs d s)) = others_events (pID peer) s"
    using releasing_after [of "applyBatch fs peer batch" ?u "pID peer" "ebBatchId batch"] admitted(2)
    by (auto simp: leavesD [OF leaves_others_apply] leavesD [OF leaves_others(6)])
  then show ?thesis using admitted(1) by blast
qed blast

text \<open>A delivery that was answered: who sent it, what it carried, and the run behind it.\<close>
lemma delivery_Inr:
  assumes "DeliverEvents fs d s = (Inr r, t)"
  obtains peer batch applied u where "admissible fs d s peer batch"
    "applyBatch fs peer batch (remembered (pID peer) (ebBatchId batch) s) = (Inr (r, applied), u)"
    "t = (if applied then u else after (ForgetBatch (pID peer) (ebBatchId batch) u))"
proof (cases rule: delivery_cases [of fs d s])
  case (admitted peer batch)
  obtain x u where run: "applyBatch fs peer batch (remembered (pID peer) (ebBatchId batch) s) = (x, u)" by fastforce
  show ?thesis
  proof (cases x)
    case (Inr y)
    obtain r' applied where y: "y = (r', applied)" by (cases y)
    have "r' = r" "t = (if applied then u else after (ForgetBatch (pID peer) (ebBatchId batch) u))"
      using assms admitted(2) run Inr y by (auto simp: releasing_def)
    then show ?thesis using that [OF admitted(1)] run Inr y by blast
  qed (use assms admitted(2) run in \<open>simp add: releasing_def\<close>)
qed (use assms in simp)

lemma admissible_unique:
  "admissible fs d s peer batch \<Longrightarrow> fsDecodeBatch fs (inBody d) = Some b \<Longrightarrow> batch = b"
  by (simp add: admissible_def)


lemma sample_order: "ranges_over_keys sample_fed"
  by (simp add: ranges_over_keys_def sample_fed_def)


text \<open>
  C7. The receipt accounts for every event of the batch: what was accepted and what was
  rejected, the rate-limited included, add up to the number of events sent.
\<close>
theorem receipts_account_for_every_event:
  assumes "DeliverEvents fs d s = (Inr r, t)" "ranges_over_keys fs" "fsDecodeBatch fs (inBody d) = Some batch"
  shows "rcAccepted r + rcRejected r = length (ebEvents batch)"
proof -
  obtain peer b applied u where a: "admissible fs d s peer b"
    and run: "applyBatch fs peer b (remembered (pID peer) (ebBatchId b) s) = (Inr (r, applied), u)"
    using delivery_Inr [OF assms(1)] by metis
  then show ?thesis using applyBatch_accounts [OF run assms(2)] admissible_unique [OF a assms(3)] by simp
qed

theorem receipts_account_for_every_event_witness:
  "rcAccepted \<lparr>rcAccepted = 1, rcRejected = 1, rcRateLimited = 0\<rparr> + rcRejected \<lparr>rcAccepted = 1, rcRejected = 1, rcRateLimited = 0\<rparr>
     = length (ebEvents sample_batch)"
  by (rule receipts_account_for_every_event [OF sample_delivered sample_order])
    (simp add: sample_fed_def sample_delivery_def)



section \<open>Peers\<close>

text \<open>What the table of peers satisfies: its keys, and that whoever is approved has an identity.\<close>
definition peers_ok :: "'m fed_db_scheme \<Rightarrow> bool" where
  "peers_ok s \<longleftrightarrow> distinct (map pID (peers s)) \<and> distinct (map pAddress (peers s))
     \<and> (\<forall>p\<in>set (peers s). pInboundStatus p = PeerApproved \<longrightarrow> \<not> EmptyIdentity (pIdentity p))"

lemma keeps_peers_ok_frame: "leaves peers m \<Longrightarrow> keeps peers_ok m"
  by (simp add: leaves_def keeps_def peers_ok_def)

lemma peers_ok_set_rows:
  assumes "peers_ok s" "\<And>x. pID (f x) = pID x" "\<And>x. pAddress (f x) = pAddress x"
    "\<And>x. x \<in> set (peers s) \<Longrightarrow> q x \<Longrightarrow> pInboundStatus (f x) = PeerApproved \<Longrightarrow> \<not> EmptyIdentity (pIdentity (f x))"
  shows "peers_ok (s\<lparr>peers := set_rows q f (peers s)\<rparr>)"
  using assms by (auto simp: peers_ok_def set_rows_keys simp flip: set_rows_def)

lemma keeps_peers_ok_update:
  fixes f :: "'m fed_db_scheme \<Rightarrow> Peer \<Rightarrow> Peer"
  assumes "\<And>s x. pID (f s x) = pID x" "\<And>s x. pAddress (f s x) = pAddress x"
    "\<And>s x. pInboundStatus (f s x) = pInboundStatus x" "\<And>s x. pIdentity (f s x) = pIdentity x"
  shows "keeps peers_ok (writes (update_peer i f))"
proof (rule keeps_writes)
  fix s :: "'m fed_db_scheme" assume ok: "peers_ok s"
  show "peers_ok (update_peer i f s)"
    unfolding update_peer_def by (rule peers_ok_set_rows [OF ok]) (use ok assms in \<open>simp_all add: peers_ok_def\<close>)
qed

lemma keeps_peers_ok_CreatePeerRow: "keeps peers_ok (CreatePeerRow own)"
  unfolding CreatePeerRow_def
proof (rule keeps_bindE)
  show "keeps peers_ok NewID" by (rule keeps_peers_ok_frame) simp
next
  fix i
  show "keeps peers_ok (thenE (require (\<lambda>s. \<not> has_row (\<lambda>p. pID p = i \<or> pAddress p = pnAddress own) (peers s)) DBError)
    (thenE (writes (\<lambda>s. s\<lparr>peers := peers s @
        [\<lparr>pID = i, pAddress = pnAddress own, pHandle = pnHandle own, pDomain = pnDomain own,
          pIdentity = pnIdentity own, pBaseURL = pnBaseURL own, pInboundStatus = PeerNone,
          pOutboundStatus = PeerNone, pNote = pnNote own, pSuspendedAt = None, pFirstFailureAt = None,
          pLastFailureAt = None, pLastFailureReason = [], pLastSuccessAt = None,
          pRateLimitPerMinute = None, pRateLimitedTotal = 0, pRateWindowStart = None,
          pRateWindowCount = 0, pCreatedAt = nowSQL s, pUpdatedAt = nowSQL s\<rparr>]\<rparr>))
     (PeerByID i)))"
    by (rule keeps_guarded [OF pure_op_require]; rule keeps_step [OF _ pure_op_keeps [OF pure_peers(1)]])
      (auto simp: peers_ok_def)
qed

lemma keeps_peers_ok_allowance: "keeps peers_ok (ConsumePeerAllowance i w l t)"
  unfolding ConsumePeerAllowance_def Let_def
  by (auto intro!: keeps_if keeps_bindE keeps_thenE keeps_writes peers_ok_set_rows simp: spend_peer_def Let_def)
    (auto simp: peers_ok_def)

lemma keeps_peers_ok_rows:
  "keeps peers_ok (SetPeerRateLimitRow i l)" "keeps peers_ok (DeletePeerRow i)" "keeps peers_ok (ResumePeerRow i t)"
proof -
  show "keeps peers_ok (SetPeerRateLimitRow i l)"
    unfolding SetPeerRateLimitRow_def 
    by (intro keeps_thenE keeps_peers_ok_update keeps_require pure_op_keeps pure_peers) simp_all
  show "keeps peers_ok (DeletePeerRow i)"
    unfolding DeletePeerRow_def by (rule keeps_writes) (auto simp: peers_ok_def)
  have "keeps peers_ok (writes (update_peer i (\<lambda>s p. p\<lparr>pSuspendedAt := None, pFirstFailureAt := None, pLastFailureReason := []\<rparr>)))"
    by (rule keeps_peers_ok_update) simp_all
  then show "keeps peers_ok (ResumePeerRow i t)"
    by (simp add: ResumePeerRow_def keeps_def peers_ok_def Let_def)
qed

text \<open>A status row is safe to write when approval comes with an identity, given or held.\<close>
lemma peers_ok_status:
  assumes "peers_ok s" "\<And>v. identity = Some v \<Longrightarrow> \<not> EmptyIdentity v"
    "inbound = Some PeerApproved \<Longrightarrow> identity = None \<Longrightarrow>
       \<exists>p\<in>set (peers s). pID p = i \<and> \<not> EmptyIdentity (pIdentity p)"
  shows "peers_ok (after (SetPeerStatusRow i inbound outbound identity s))"
proof -
  have "\<not> EmptyIdentity (pIdentity x)" if "x \<in> set (peers s)" "pID x = i" "inbound = Some PeerApproved" "identity = None" for x
    using assms(3) [OF that(3,4)] assms(1) that(1,2) distinct_map_inj by (metis peers_ok_def)
  then have w: "peers_ok (update_peer i (\<lambda>s p. p\<lparr>
         pInboundStatus := (case inbound of None \<Rightarrow> pInboundStatus p | Some v \<Rightarrow> v),
         pOutboundStatus := (case outbound of None \<Rightarrow> pOutboundStatus p | Some v \<Rightarrow> v),
         pIdentity := (case identity of None \<Rightarrow> pIdentity p | Some v \<Rightarrow> v)\<rparr>) s)"
    unfolding update_peer_def using assms(1,2)
    by (intro peers_ok_set_rows) (auto simp: peers_ok_def split: option.splits)
  have "pure_op (PeerByID i)" by simp
  then show ?thesis using assms(1) w
    by (simp add: SetPeerStatusRow_def keepsD [OF pure_op_keeps])
qed

lemma keeps_peers_ok_pending: "keeps peers_ok (SetPeerStatusRow i (Some PeerPending) None None)"
  "keeps peers_ok (SetPeerStatusRow i None x None)"
  by (auto intro!: keepsI peers_ok_status)

lemma identity_given: "identityFromRequest u d a j = Inr (Some v) \<Longrightarrow> \<not> EmptyIdentity v"
  by (auto simp: identityFromRequest_def EmptyIdentity_def trim_id_def split: option.splits if_splits)

lemma keeps_of_sum: "(\<And>x. r = Inr x \<Longrightarrow> keeps P (f x)) \<Longrightarrow> keeps P (bindE (of_sum r) f)"
  by (cases r) auto

lemma pure_is_admin [simp]: "pure_op (is_admin c)"
  by (auto simp: is_admin_def intro!: pure_op_bindE pure_op_thenE)

text \<open>The approval's guard, and the row written behind it.\<close>
lemma keeps_peers_ok_guarded_status:
  assumes "\<And>v. identity = Some v \<Longrightarrow> \<not> EmptyIdentity v"
  shows "keeps peers_ok (thenE (if inbound = Some PeerApproved
            then bindE (case identity of Some i \<Rightarrow> ret i
                 | None \<Rightarrow> bindE (not_found ''peer'' (PeerByID j)) (\<lambda>p. ret (pIdentity p))) (\<lambda>resulting.
                 refuse_if (EmptyIdentity resulting) (Invalid ''subject_user_id''))
            else ret ())
     (not_found ''peer'' (SetPeerStatusRow j inbound outbound identity)))" (is "keeps _ (thenE ?g _)")
proof (rule keeps_guarded)
  fix s x
  assume ok: "peers_ok s" and g: "?g s = (Inr x, s)"
  have "peers_ok (after (SetPeerStatusRow j inbound outbound identity s))"
    using g by (intro peers_ok_status [OF ok assms])
      (auto simp: bindE_Inr not_found_def PeerByID_def peer_by_id_def dest!: row_SomeD)
  then show "peers_ok (after (not_found ''peer'' (SetPeerStatusRow j inbound outbound identity) s))"
    by (simp add: not_found_def)
qed (auto simp: not_found_def intro!: pure_op_bindE split: option.split)

lemma keeps_peers_ok_SetPeerStatus: "keeps peers_ok (SetPeerStatus c req)"
  unfolding SetPeerStatus_def
  by (rule keeps_bindE [OF pure_op_keeps [OF pure_is_admin]], rule keeps_of_sum, rule keeps_of_sum, rule keeps_of_sum,
      rule keeps_thenE [OF keeps_pure(5)], rule keeps_peers_ok_guarded_status) (use identity_given in blast)

lemma keeps_peers_ok_serve: "keeps peers_ok (serve_federation fs c r)"
  by (cases r)
    (auto simp: AddPeer_def ResumePeer_def SetPeerRateLimit_def RemovePeer_def not_found_def Let_def
      intro!: keeps_bindE keeps_thenE keeps_if keeps_internal keeps_map_err keeps_peers_ok_CreatePeerRow
        keeps_peers_ok_SetPeerStatus keeps_peers_ok_pending keeps_peers_ok_rows
      split: sum.split prod.split option.split intro: pure_op_keeps)

lemma keeps_peers_ok_RequestPeering: "keeps peers_ok (RequestPeering fs q)"
  unfolding RequestPeering_def Let_def
  by (auto intro!: keeps_bindE keeps_thenE keeps_if keeps_internal keeps_peers_ok_CreatePeerRow keeps_peers_ok_pending
      split: sum.split prod.split)

lemma keeps_peers_ok_applyBatch: "keeps peers_ok (applyBatch fs p b)"
proof -
  have "keeps peers_ok (walk_batch fs p n pb bd es)" "keeps peers_ok (take_budgets j w l n names)"
    for n pb bd es j w l names by (rule keeps_peers_ok_frame, rule leaves_intros)+
  then show ?thesis
    unfolding applyBatch_def Let_def
    by (auto intro!: keeps_bindE keeps_internal keeps_peers_ok_allowance split: prod.split)
qed

lemma keeps_peers_ok_DeliverEvents: "keeps peers_ok (DeliverEvents fs d :: ('m fed_db_scheme, error, DeliveryReceipt) oper)"
proof (rule keepsI)
  fix s :: "'m fed_db_scheme" assume ok: "peers_ok s"
  have forget: "keeps peers_ok (ForgetBatch p b)" for p b
    by (rule keeps_peers_ok_frame) (simp add: ForgetBatch_def leaves_writes)
  show "peers_ok (after (DeliverEvents fs d s))"
  proof (cases rule: delivery_cases [of fs d s])
    case (admitted peer batch)
    let ?u = "remembered (pID peer) (ebBatchId batch) s"
    have "peers_ok ?u" using ok by (simp add: peers_ok_def remembered_def)
    then have u: "peers_ok (after (applyBatch fs peer batch ?u))" by (rule keepsD [OF keeps_peers_ok_applyBatch])
    then show ?thesis
      using keepsD [OF forget u] releasing_after [of "applyBatch fs peer batch" ?u "pID peer" "ebBatchId batch"] admitted(2)
      by auto
  qed (simp add: ok)
qed

text \<open>
  Approval without an identity to verify against is unreachable: whatever deliveries,
  peering requests, administrators' requests, sweeps and ticks happen, every peer approved
  inbound has an identity, and ids and addresses stay unique.
\<close>
theorem approved_peers_have_an_identity:
  assumes "peers_ok s"
  shows "peers_ok (fed_run fs xs s)"
  using assms
proof (induction fs xs s rule: fed_run.induct)
  case (5 fs xs s)
  then show ?case by (simp add: peers_ok_def sweepExpiredRemoteEvents_def ForgetBatchesSeenBefore_def
        DeleteRemoteEventsEndedBefore_def Let_def)
next
  case (6 fs n xs s)
  then show ?case by (simp add: peers_ok_def)
qed (simp_all add: keepsD [OF keeps_peers_ok_DeliverEvents] keepsD [OF keeps_peers_ok_RequestPeering]
    keepsD [OF keeps_peers_ok_serve])

theorem approved_peers_have_an_identity_witness:
  "peers_ok (fed_run sample_fed [DeliveryStep sample_delivery, SweepStep] peered_db)"
  by (rule approved_peers_have_an_identity)
    (simp add: peers_ok_def peered_db_def sample_peer_def EmptyIdentity_def)

lemma keeps_approved:
  fixes A :: "Peer set" and q :: IncomingPeering
  defines "P \<equiv> \<lambda>s :: 'm fed_db_scheme. {p \<in> set (peers s). pInboundStatus p = PeerApproved} \<subseteq> A"
  shows "keeps P (RequestPeering fs q)"
proof -
  have status: "keeps P (SetPeerStatusRow i (Some PeerPending) None None)" for i
    unfolding SetPeerStatusRow_def P_def
    by (rule keeps_thenE [OF keeps_require], rule keeps_thenE [OF keeps_writes pure_op_keeps [OF pure_peers(1)]])
      (auto simp: update_peer_def)
  have id: "keeps P NewID" unfolding P_def by (simp add: NewID_def keeps_def)
  have create: "keeps P (CreatePeerRow own)" for own
    unfolding CreatePeerRow_def
    by (rule keeps_bindE [OF id], rule keeps_thenE [OF keeps_require],
        rule keeps_thenE [OF keeps_writes pure_op_keeps [OF pure_peers(1)]]) (auto simp: P_def)
  show ?thesis
    unfolding RequestPeering_def Let_def
    by (auto intro!: keeps_bindE keeps_thenE keeps_if keeps_internal status create split: sum.split prod.split)
qed

lemma peering_answer: "RequestPeering fs q s = (Inr v, t) \<Longrightarrow> v = PeerPending"
  by (auto simp: RequestPeering_def Let_def bindE_Inr thenE_Inr split: if_splits)

text \<open>
  Asking to peer admits nobody and tells nothing: whoever is approved inbound after a
  peering request was so before it, as the very same row, and every answer that is not an
  error is \<open>pending\<close>, for a blocked sender too.
\<close>
theorem peering_requests_admit_nobody:
  "{p \<in> set (peers (after (RequestPeering fs q s))). pInboundStatus p = PeerApproved} \<subseteq> set (peers s)
   \<and> outcome (RequestPeering fs q s) \<in> {Inr PeerPending} \<union> range Inl"
proof
  show "{p \<in> set (peers (after (RequestPeering fs q s))). pInboundStatus p = PeerApproved} \<subseteq> set (peers s)"
    by (rule keepsD [OF keeps_approved]) auto
  obtain r t where r: "RequestPeering fs q s = (r, t)" by fastforce
  then show "outcome (RequestPeering fs q s) \<in> {Inr PeerPending} \<union> range Inl"
    using peering_answer by (cases r) fastforce+
qed

end
