(* ===== verification/FederationWireProperties.thy ===== *)
theory FederationWireProperties
  imports FederationWire FederationProperties
begin

text \<open>
  An event from the instance that publishes it to the instance that shows it: signed by
  \<open>federation/keyring.go\<close> over the bytes of the codec, decoded and verified by
  \<open>csilservices/federation.go\<close>, and stored.
\<close>

section \<open>Every admissible delivery is applied\<close>

lemma verifiedPeer_accepts:
  assumes "sender_address d = Some a" "row (\<lambda>p. pAddress p = a) (peers s) = Some peer"
    "fsVerify fs (pAddress peer) (pIdentity peer) d"
  shows "verifiedPeer fs d s = (Inr peer, s)"
  using assms by (auto simp: verifiedPeer_def sender_address_def PeerByAddress_def bindE_apply thenE_apply map_err_apply refuse_if_def)

lemma admissible_delivers:
  assumes "admissible fs d s peer batch"
  shows "DeliverEvents fs d s = releasing (pID peer) (ebBatchId batch) (applyBatch fs peer batch)
    (remembered (pID peer) (ebBatchId batch) s)"
proof -
  obtain a where a: "sender_address d = Some a" "row (\<lambda>p. pAddress p = a) (peers s) = Some peer"
    using assms by (auto simp: admissible_def)
  have "verifiedPeer fs d s = (Inr peer, s)"
    using a assms by (intro verifiedPeer_accepts) (auto simp: admissible_def)
  moreover have "has_row (\<lambda>x. pID x = pID peer) (peers s)" using row_SomeD [OF a(2)] by auto
  ultimately show ?thesis using assms
    by (auto simp: admissible_def DeliverEvents_def bindE_apply thenE_apply internal_def map_err_apply RememberBatch_apply
        refuse_if_def simp del: has_row_iff)
qed

section \<open>What becomes of a batch of one event\<close>

definition arrived :: "fed_service \<Rightarrow> Peer \<Rightarrow> FederatedEvent \<Rightarrow> 'm fed_db_scheme \<Rightarrow> bool" where
  "arrived fs peer e s \<longleftrightarrow>
     (if feDeleted e then no_row (pID peer) (feRemoteId e) s
      else \<exists>r\<in>set (remote_events s). remote_key (pID peer) (feRemoteId e) r
             \<and> reOwn r = stored_remote (remoteEventInput fs e (pDomain peer)))"

lemma internal_err: "internal m s = (Inl e, t) \<Longrightarrow> e = Internal"
  by (auto simp: internal_def map_err_apply split: sum.splits prod.splits)

lemma upserted:
  assumes "UpsertRemoteEvent p own s = (Inr x, t)"
  shows "\<exists>r\<in>set (remote_events t). remote_key p (riRemoteID own) r \<and> reOwn r = stored_remote own"
proof -
  obtain i u where i: "NewID s = ((Inr i :: store_error + ident), u)" by (simp add: NewID_def)
  show ?thesis
  proof (cases "has_row (remote_key p (riRemoteID own)) (remote_events u)")
    case True
    then obtain r where "r \<in> set (remote_events u)" "remote_key p (riRemoteID own) r" by auto
    moreover have "t = u\<lparr>remote_events := set_rows (remote_key p (riRemoteID own))
        (\<lambda>r. r\<lparr>reOwn := stored_remote own, reReceivedAt := nowSQL u\<rparr>) (remote_events u)\<rparr>"
      using assms True by (simp add: UpsertRemoteEvent_def bindE_apply i del: has_row_iff)
    ultimately show ?thesis by (auto simp: remote_key_def stored_remote_def intro!: bexI [of _ "r\<lparr>reOwn := stored_remote own, reReceivedAt := nowSQL u\<rparr>"])
  next
    case False
    then show ?thesis using assms
      by (auto simp: UpsertRemoteEvent_def bindE_apply i remote_key_def stored_remote_def
          simp del: has_row_iff split: if_splits)
  qed
qed

lemma walked_alone:
  assumes "walk_batch fs peer now pb b [e] s = (Inr (accepted, rejected), t)" "feDeleted e \<or> accepted = 1"
  shows "arrived fs peer e t"
proof (cases "feDeleted e")
  case True
  then show ?thesis using assms(1) no_row_after_delete [of "pID peer" "feRemoteId e" s]
    by (auto simp: arrived_def bindE_Inr split: if_splits)
next
  case False
  then obtain u where u: "UpsertRemoteEvent (pID peer) (remoteEventInput fs e (pDomain peer)) s = (Inr (), u)"
    and t: "t = after (RecordOriginAccepted (pID peer) (feOrganizationName e) now u)"
    using assms by (auto simp: Let_def bindE_Inr thenE_Inr shrugged_def split: if_splits)
  have "remote_events t = remote_events u" unfolding t by (rule leavesD) (rule leaves_intros)
  then show ?thesis using upserted [OF u] False by (simp add: arrived_def remoteEventInput_def)
qed

lemma applied_alone:
  assumes "applyBatch fs peer batch s = (Inr (r, applied), t)" "ebEvents batch = [e]" "feDeleted e \<or> rcAccepted r = 1"
  shows "arrived fs peer e t"
  using assms by (auto simp: applyBatch_def Let_def bindE_Inr intro!: walked_alone split: prod.splits simp del: walk_batch.simps)

lemma budgets_fail_inside: "take_budgets p wanted limit now names s = (Inl err, t) \<Longrightarrow> err = Internal"
  by (induction names arbitrary: s t) (auto simp: bindE_Inl split: prod.splits intro: internal_err)

lemma walk_fails_inside: "walk_batch fs peer now pb b es s = (Inl err, t) \<Longrightarrow> err = Internal"
proof (induction es arbitrary: pb b s t)
  case (Cons e es)
  then show ?case
    by (auto simp: bindE_Inl thenE_def Let_def shrugged_def split: if_splits prod.splits dest: internal_err)
qed simp

lemma failed_inside: "applyBatch fs peer batch s = (Inl err, t) \<Longrightarrow> err = Internal"
  by (auto simp: applyBatch_def Let_def bindE_Inl split: prod.splits dest: internal_err budgets_fail_inside walk_fails_inside)

lemma released_alone:
  assumes "ebEvents batch = [e]" "ranges_over_keys fs"
  shows "case releasing p b (applyBatch fs peer batch) s of
      (Inl err, u) \<Rightarrow> err = Internal
    | (Inr r, u) \<Rightarrow> rcAccepted r + rcRejected r = 1 \<and> (feDeleted e \<or> rcAccepted r = 1 \<longrightarrow> arrived fs peer e u)"
proof (cases "applyBatch fs peer batch s")
  case (Pair x t)
  show ?thesis
  proof (cases x)
    case (Inl err)
    then show ?thesis using failed_inside Pair by (simp add: releasing_def)
  next
    case (Inr v)
    obtain r applied where v: "v = (r, applied)" by (cases v)
    note run = Pair [unfolded Inr v]
    have "remote_events (after (ForgetBatch p b t)) = remote_events t" by (simp add: ForgetBatch_def)
    then have "arrived fs peer e (after (ForgetBatch p b t)) \<longleftrightarrow> arrived fs peer e t" by (simp add: arrived_def no_row_def)
    then show ?thesis using run applyBatch_accounts [OF run assms(2)] applied_alone [OF run assms(1)] assms(1)
      by (simp add: releasing_def)
  qed
qed

section \<open>From one instance to another\<close>

text \<open>The receiving instance's peer at the publisher's address, and what it holds of it.\<close>
definition peered :: "Publisher \<Rightarrow> 'm fed_db_scheme \<Rightarrow> Peer \<Rightarrow> bool" where
  "peered p t peer \<longleftrightarrow>
     (\<exists>handle domain. SplitAddress (pbAddress p) = Some (handle, domain)
        \<and> row (\<lambda>q. pAddress q = handle @ ''@'' @ domain) (peers t) = Some peer)
   \<and> pInboundStatus peer = PeerApproved \<and> ToLowerId (trim_id (pbOriginDomain p)) = ToLowerId (pDomain peer)"

text \<open>Its trust: the relying party attests to it every key of the publisher's keyring.\<close>
definition trusts :: "'j crypto \<Rightarrow> Peer \<Rightarrow> LocalKeyring \<Rightarrow> bool" where
  "trusts cr peer kr \<longleftrightarrow> \<not> KeyIdentityEmpty (key_identity (pIdentity peer))
     \<and> (\<exists>keys. crResolve cr (key_identity (pIdentity peer)) = Some keys
          \<and> (\<forall>k\<in>set (krKeys kr). keys (lkKeyID k) = Some (lkPublicKey k)))"

lemma envelope_signed:
  assumes "envelope p ev deleted s = (Inr sd, s')"
  shows "sdSenderAddress sd = pbAddress p" "sdAlgorithm sd = pbAlgorithm p" "pbSign p (sdBody sd) = Some (sdSignature sd, sdKeyId sd)"
    "ebOriginDomain (sdBody sd) = pbOriginDomain p" "ebSentAt (sdBody sd) = clock s" "ebEvents (sdBody sd) = [federatedEvent p ev deleted]"
  using assms by (auto simp: envelope_def bindE_Inr NewID_def Let_def split: prod.splits)

lemma published_admissible:
  assumes published: "envelope p ev deleted s = (Inr sd, s')" "delivery_sendable sd"
    and signer: "pbSign p = keyring_signer cr pick kr" "pbAlgorithm p = ApplicationKeyAlgorithm"
    and keys: "keyring_ok cr kr" "encoders_ok cr" "\<forall>n m. pick n = Some m \<longrightarrow> m < n" "\<forall>seed m. crVerify cr (crPublic cr seed) m (crSign cr seed m)"
    and receiver: "fsVerify fs = key_verifier cr" "fsDecodeBatch fs = batch_of" "peered p t peer" "trusts cr peer kr"
    and fresh: "\<bar>clock t - clock s\<bar> \<le> FreshnessWindow" "trim_id (ebBatchId (sdBody sd)) \<noteq> []" "\<not> seen (pID peer) (ebBatchId (sdBody sd)) t"
  shows "\<exists>d. incoming (envelope_bytes sd) = Some d \<and> admissible fs d t peer (sdBody sd)"
proof -
  note e = envelope_signed [OF published(1)]
  obtain ks where ks: "crResolve cr (key_identity (pIdentity peer)) = Some ks" "\<forall>k\<in>set (krKeys kr). ks (lkKeyID k) = Some (lkPublicKey k)"
    and identity: "\<not> KeyIdentityEmpty (key_identity (pIdentity peer))" using receiver(4) by (auto simp: trusts_def)
  have "SignWithContext cr pick BatchSignatureTag (batch_bytes (sdBody sd)) kr = Some (sdSignature sd, sdKeyId sd)"
    using e(3) by (simp add: signer keyring_signer_def Sign_def)
  from signed_verifies [OF this keys _ identity, of ks] ks
  have "Verify cr BatchSignatureTag (key_identity (pIdentity peer)) ApplicationKeyAlgorithm (sdKeyId sd) (batch_bytes (sdBody sd)) (sdSignature sd)"
    by blast
  moreover have "batch_of (bytes_text (batch_bytes (sdBody sd))) = Some (sdBody sd)"
    using published(2) by (intro batch_of_batch_bytes) (simp add: delivery_sendable_def)
  ultimately show ?thesis using receiver(3) fresh
    by (auto simp: incoming_envelope_bytes [OF published(2)] admissible_def receiver(1,2) key_verifier_def e signer(2) sender_address_def peered_def)
qed

text \<open>
  C14. An event published here arrives there: what the publisher signs with its keyring and
  sends as bytes, an instance that has approved it, trusts its keys and gets it in time decodes
  and applies.  Nothing but its own store can fail it; the receipt accounts for the one event,
  and an event it counts as accepted is stored with what was published, a deletion is gone.
\<close>
theorem published_events_arrive:
  assumes "envelope p ev deleted s = (Inr sd, s')" "delivery_sendable sd"
    "pbSign p = keyring_signer cr pick kr" "pbAlgorithm p = ApplicationKeyAlgorithm"
    "keyring_ok cr kr" "encoders_ok cr" "\<forall>n m. pick n = Some m \<longrightarrow> m < n" "\<forall>seed m. crVerify cr (crPublic cr seed) m (crSign cr seed m)"
    "fsVerify fs = key_verifier cr" "fsDecodeBatch fs = batch_of" "peered p t peer" "trusts cr peer kr"
    "\<bar>clock t - clock s\<bar> \<le> FreshnessWindow" "trim_id (ebBatchId (sdBody sd)) \<noteq> []" "\<not> seen (pID peer) (ebBatchId (sdBody sd)) t"
    "ranges_over_keys fs"
  shows "\<exists>d. incoming (envelope_bytes sd) = Some d
    \<and> (case DeliverEvents fs d t of
         (Inl err, u) \<Rightarrow> err = Internal
       | (Inr r, u) \<Rightarrow> rcAccepted r + rcRejected r = 1
           \<and> (deleted \<or> rcAccepted r = 1 \<longrightarrow> arrived fs peer (federatedEvent p ev deleted) u))"
proof -
  obtain d where d: "incoming (envelope_bytes sd) = Some d" "admissible fs d t peer (sdBody sd)"
    using published_admissible [OF assms(1-15)] by blast
  have "feDeleted (federatedEvent p ev deleted) = deleted" by (simp add: federatedEvent_def)
  note r = released_alone [OF envelope_signed(6) [OF assms(1)] assms(16), unfolded this]
  have "case DeliverEvents fs d t of
         (Inl err, u) \<Rightarrow> err = Internal
       | (Inr r, u) \<Rightarrow> rcAccepted r + rcRejected r = 1
           \<and> (deleted \<or> rcAccepted r = 1 \<longrightarrow> arrived fs peer (federatedEvent p ev deleted) u)"
    unfolding admissible_delivers [OF d(2)] by (rule r)
  with d(1) show ?thesis by (intro exI [of _ d] conjI)
qed

section \<open>Over the transport\<close>

lemma length_csil_cborHead: "length (csil_cborHead m n) \<le> 9"
  by (simp add: csil_cborHead_def Let_def)

text \<open>What the handler says beside the counts: a short text of its own, or nothing.\<close>
definition remark_ok :: "(DeliveryReceipt \<Rightarrow> string option) \<Rightarrow> bool" where
  "remark_ok remark \<longleftrightarrow> (\<forall>r. pred_option (\<lambda>m. text_ok m \<and> length m \<le> 2 ^ 15) (remark r))"

lemma receipt_bytes_small:
  assumes "remark_ok remark"
  shows "length (receipt_bytes remark r) \<le> 2 ^ 16"
proof -
  have m: "length m \<le> 2 ^ 15" if "remark r = Some m" for m using assms that by (auto simp: remark_ok_def dest: spec [of _ r])
  note h = length_csil_cborHead
  note heads = h [of 5 3] h [of 5 4] h [of 3 7] h [of 3 8] h [of 3 12] h [of 0 "of_nat (rcAccepted r)"] h [of 0 "of_nat (rcRejected r)"]
    h [of 0 "of_nat (rcRateLimited r)"]
  have "length (receipt_bytes remark r) \<le> 200 + 2 ^ 15"
  proof (cases "remark r")
    case None
    then show ?thesis using heads
      by (simp add: receipt_bytes_def EncodeDeliveryReceipt_def csilEncDeliveryReceipt_def entry_def opt_entry_def)
  next
    case (Some a)
    then show ?thesis using heads h [of 3 "of_nat (length a)"] m [OF Some]
      by (simp add: receipt_bytes_def EncodeDeliveryReceipt_def csilEncDeliveryReceipt_def entry_def opt_entry_def)
  qed
  then show ?thesis by (rule order_trans) simp
qed

lemma applied_counts:
  assumes "applyBatch fs peer batch s = (Inr (r, applied), t)" "ranges_over_keys fs" "length (ebEvents batch) < 2 ^ 64"
  shows "rcAccepted r < 2 ^ 64" "rcRejected r < 2 ^ 64" "rcRateLimited r < 2 ^ 64"
proof -
  have "rcAccepted r + rcRejected r < 2 ^ 64" using applyBatch_accounts [OF assms(1,2)] assms(3) by simp
  moreover have "rcRateLimited r \<le> rcRejected r" using assms(1) by (auto simp: applyBatch_def Let_def bindE_Inr split: prod.splits)
  ultimately show "rcAccepted r < 2 ^ 64" "rcRejected r < 2 ^ 64" "rcRateLimited r < 2 ^ 64" by linarith+
qed

lemma receipt_returned:
  assumes "DeliverEvents fs d s = (Inr r, t)" "fsDecodeBatch fs (inBody d) = Some batch" "ranges_over_keys fs"
    "length (ebEvents batch) < 2 ^ 64" "remark_ok remark"
  shows "receipt_of (receipt_bytes remark r) = Some r"
proof (cases rule: delivery_cases [of fs d s])
  case (admitted peer batch')
  have "batch' = batch" using admitted(1) assms(2) by (simp add: admissible_def)
  then obtain applied u where "applyBatch fs peer batch (remembered (pID peer) (ebBatchId batch) s) = (Inr (r, applied), u)"
    using admitted(2) assms(1) by (auto simp: releasing_def split: prod.splits sum.splits)
  from applied_counts [OF this assms(3,4)] show ?thesis
    using assms(5) by (intro receipt_of_receipt_bytes) (auto simp: remark_ok_def pred_option_def)
qed (use assms in simp)

text \<open>
  C15. A delivery means the same at both ends, through the codec and the transport: the other
  instance decodes what this one sent and is left as \<open>DeliverEvents\<close> leaves it, and the sender's
  pass makes of the item what that receipt says, or a failure of every error it answers.
\<close>
theorem deliveries_end_to_end:
  assumes "federating fs incoming (receipt_bytes remark) svcs" "fsDecodeBatch fs = batch_of" "ranges_over_keys fs" "remark_ok remark"
    "\<forall>e. length (svEncodeError svcs e) \<le> 2 ^ 16"
    "postable room sn item peer" "snExchange sn = post_to room svcs s" "snEncodeDelivery sn = envelope_bytes" "snDecodeReceipt sn = receipt_of"
    "delivery_sendable (obPayload item)"
  shows "\<exists>d. incoming (envelope_bytes (obPayload item)) = Some d
    \<and> snd (handleRPC room svcs (EncodeRpcRequest (delivery_request sn item)) s) = snd (DeliverEvents fs d s)
    \<and> deliverItem sn (item, peer) = Returns (case fst (DeliverEvents fs d s) of
        Inr receipt \<Rightarrow> Inr (receiptOutcome receipt)
      | Inl (App e) \<Rightarrow> Inl ''refused the delivery''
      | Inl Internal \<Rightarrow> Inl ''refused the delivery: transport status'')"
proof -
  let ?b = "sdBody (obPayload item)"
  obtain d where d: "incoming (envelope_bytes (obPayload item)) = Some d" "inBody d = bytes_text (batch_bytes ?b)"
    using incoming_envelope_bytes [OF assms(10)] by auto
  have sendable: "batch_sendable ?b" using assms(10) by (simp add: delivery_sendable_def)
  have batch: "fsDecodeBatch fs (inBody d) = Some ?b" unfolding assms(2) d(2) by (rule batch_of_batch_bytes [OF sendable])
  have "length (ebEvents ?b) < 2 ^ 64" using sendable by (simp add: batch_sendable_def list_ok_def)
  then have read: "snDecodeReceipt sn (receipt_bytes remark r) = Some r" if "fst (DeliverEvents fs d s) = Inr r" for r
    using receipt_returned [OF _ batch assms(3) _ assms(4)] that by (metis assms(9) prod.collapse)
  have fits: "answer_fits svcs (receipt_bytes remark) (fst (DeliverEvents fs d s))"
    using assms(5) receipt_bytes_small [OF assms(4)] by (auto simp: answer_fits_def split: sum.split error.split)
  show ?thesis
    using delivered_at_both_ends [OF assms(1,6,7) _ read fits] d(1) assms(8) by (intro exI [of _ d]) simp
qed

section \<open>Two instances\<close>

text \<open>A scheme whose signatures show the key and the start of the message, in two letters for a byte.\<close>
fun letters :: "bytes \<Rightarrow> string" where
  "letters [] = []"
| "letters (b # bs) = char_of (65 + unat b div 16) # char_of (65 + unat b mod 16) # letters bs"

fun of_letters :: "string \<Rightarrow> bytes" where
  "of_letters (a # b # s) = of_nat (16 * (of_char a - 65) + (of_char b - 65)) # of_letters s"
| "of_letters s = []"

lemma of_letters_letters [simp]: "of_letters (letters b) = b"
proof (induction b)
  case (Cons x b)
  have "unat x < 256" using unsigned_less [of x, where ?'a = nat] by simp
  then have "unat x div 16 < 16" "unat x mod 16 < 16" by simp_all
  then have "of_char (char_of (65 + unat x div 16)) = 65 + unat x div 16" "of_char (char_of (65 + unat x mod 16)) = 65 + unat x mod 16"
    by (simp_all add: take_bit_nat_eq_self)
  then show ?case using Cons by simp
qed simp

lemma letters_text_ok: "2 * length b < 2 ^ 64 \<Longrightarrow> text_ok (letters b)"
proof (rule ascii_text_ok)
  have "(of_char (char_of (65 + unat x div 16)) :: nat) < 128 \<and> (of_char (char_of (65 + unat x mod 16)) :: nat) < 128" for x :: byte
  proof -
    have "unat x div 16 < 16" "unat x mod 16 < 16" using unsigned_less [of x, where ?'a = nat] by simp_all
    then show ?thesis by simp
  qed
  then show "list_all (\<lambda>c. (of_char c :: nat) < 128) (letters b)" by (induction b) simp_all
  have "length (letters b) = 2 * length b" by (induction b) simp_all
  then show "2 * length b < 2 ^ 64 \<Longrightarrow> length (letters b) < 2 ^ 64" by simp
qed

definition wire_crypto :: "keyringSecretV1 crypto" where
  "wire_crypto = sample_crypto\<lparr>crSign := (\<lambda>seed m. seed @ take 32 m), crVerify := (\<lambda>p m s. s = p @ take 32 m),
     crEncode := letters, crDecode := (\<lambda>t. Some (of_letters t))\<rparr>"

definition first_choice :: "nat \<Rightarrow> nat option" where
  "first_choice n = (if 0 < n then Some 0 else None)"

definition sample_publisher :: Publisher where
  "sample_publisher = \<lparr>pbAddress = ''Dir@b.org'', pbAlgorithm = ApplicationKeyAlgorithm,
     pbSign = keyring_signer wire_crypto first_choice sample_keyring, pbPublicBaseURL = ''https://b.org/'', pbOriginDomain = ''b.org''\<rparr>"

definition sample_receiver :: fed_service where
  "sample_receiver = sample_fed\<lparr>fsVerify := key_verifier wire_crypto, fsDecodeBatch := batch_of\<rparr>"

definition sample_published :: FederatedEventInput where
  "sample_published = \<lparr>fiEventID = ''e1'', fiTitle = [72, 233], fiIsOnline = True, fiIsInPerson = False, fiLocation = fromLocation None,
     fiStartsAt = 10 * second, fiEndsAt = 20 * second, fiTimezone = ''UTC'', fiGatheringName = [69], fiOrganizationName = [70]\<rparr>"

definition sample_body :: EventBatch where
  "sample_body = \<lparr>ebOriginDomain = ''b.org'', ebBatchId = ulid sample_db (minted sample_db), ebSentAt = clock sample_db,
     ebEvents = [federatedEvent sample_publisher sample_published False]\<rparr>"

definition sample_envelope :: SignedDelivery where
  "sample_envelope = \<lparr>sdSenderAddress = ''Dir@b.org'', sdAlgorithm = ApplicationKeyAlgorithm, sdKeyId = ''k1'',
     sdSignature = letters (replicate 32 1 @ take 32 (signatureInput BatchSignatureTag (batch_bytes sample_body))), sdBody = sample_body\<rparr>"

lemma sample_enveloped: "fst (envelope sample_publisher sample_published False sample_db) = Inr sample_envelope"
  by (simp add: envelope_def bindE_apply NewID_def Let_def sample_publisher_def keyring_signer_def Sign_def SignWithContext_def
      sample_keyring_def sample_key_def active_def first_choice_def wire_crypto_def sample_crypto_def sample_envelope_def sample_body_def)

lemma sample_sendable: "delivery_sendable sample_envelope"
proof -
  have "text_ok ''b.org'' \<and> text_ok ''e1'' \<and> text_ok ''https://b.org/events/e1'' \<and> text_ok ''UTC'' \<and> text_ok (ulid sample_db (minted sample_db))
    \<and> runes_ok [72, 233] \<and> runes_ok [69] \<and> runes_ok [70] \<and> time_ok (10 * second) \<and> time_ok (20 * second) \<and> time_ok (clock sample_db)"
    by code_simp
  then have "batch_sendable sample_body"
    by (simp add: batch_sendable_def sample_body_def event_sendable_def list_ok_def federatedEvent_def canonicalURL_def
        sample_publisher_def sample_published_def fromLocation_def IsZero_def emptyLocation_def)
  moreover have "length (batch_bytes sample_body) < 2 ^ 64" by code_simp
  moreover have "text_ok (sdSignature sample_envelope)" unfolding sample_envelope_def SignedDelivery.simps by (rule letters_text_ok) simp
  moreover have "text_ok (sdSenderAddress sample_envelope)" "text_ok (sdAlgorithm sample_envelope)" "text_ok (sdKeyId sample_envelope)"
    unfolding sample_envelope_def SignedDelivery.simps by code_simp+
  ultimately show ?thesis by (simp add: delivery_sendable_def) (simp add: sample_envelope_def)
qed

lemma sample_peered: "peered sample_publisher peered_db sample_peer" "trusts wire_crypto sample_peer sample_keyring"
proof -
  have "SplitAddress (pbAddress sample_publisher) = Some (''dir'', ''b.org'')"
    "ToLowerId (trim_id (pbOriginDomain sample_publisher)) = ToLowerId (pDomain sample_peer)" by code_simp+
  then show "peered sample_publisher peered_db sample_peer" by (simp add: peered_def peered_db_def) (simp add: sample_peer_def)
  show "trusts wire_crypto sample_peer sample_keyring"
    by (auto simp: trusts_def key_identity_def KeyIdentityEmpty_def sample_peer_def wire_crypto_def sample_crypto_def sample_keyring_def sample_key_def)
qed

lemma sample_published_ok:
  "envelope sample_publisher sample_published False sample_db
     = (Inr sample_envelope, snd (envelope sample_publisher sample_published False sample_db :: (store_error + SignedDelivery) \<times> _))"
  "pbSign sample_publisher = keyring_signer wire_crypto first_choice sample_keyring" "pbAlgorithm sample_publisher = ApplicationKeyAlgorithm"
  "keyring_ok wire_crypto sample_keyring" "encoders_ok wire_crypto" "\<forall>n m. first_choice n = Some m \<longrightarrow> m < n"
  "\<forall>seed m. crVerify wire_crypto (crPublic wire_crypto seed) m (crSign wire_crypto seed m)"
  "fsVerify sample_receiver = key_verifier wire_crypto" "fsDecodeBatch sample_receiver = batch_of" "ranges_over_keys sample_receiver"
  using sample_enveloped prod.collapse [of "envelope sample_publisher sample_published False sample_db :: (store_error + SignedDelivery) \<times> _"]
  by (auto simp: sample_publisher_def keyring_ok_def key_ok_def encoders_ok_def wire_crypto_def sample_crypto_def sample_keyring_def sample_key_def
      SeedSize_def first_choice_def ranges_over_keys_def sample_receiver_def sample_fed_def split: if_splits)

lemma sample_envelope_body: "sdBody sample_envelope = sample_body"
  by (simp add: sample_envelope_def)

lemma sample_in_time:
  "\<bar>clock peered_db - clock sample_db\<bar> \<le> FreshnessWindow" "trim_id (ebBatchId (sdBody sample_envelope)) \<noteq> []"
  "\<not> seen (pID sample_peer) (ebBatchId (sdBody sample_envelope)) peered_db"
  unfolding sample_envelope_body by code_simp+

lemma sample_admitted:
  "\<exists>d. incoming (envelope_bytes sample_envelope) = Some d
    \<and> fst (DeliverEvents sample_receiver d peered_db) = Inr \<lparr>rcAccepted = 1, rcRejected = 0, rcRateLimited = 0\<rparr>"
proof -
  obtain d where d: "incoming (envelope_bytes sample_envelope) = Some d" "admissible sample_receiver d peered_db sample_peer (sdBody sample_envelope)"
    using published_admissible [OF sample_published_ok(1) sample_sendable sample_published_ok(2-9) sample_peered sample_in_time] by blast
  have "fst (DeliverEvents sample_receiver d peered_db) = Inr \<lparr>rcAccepted = 1, rcRejected = 0, rcRateLimited = 0\<rparr>"
    unfolding admissible_delivers [OF d(2)] sample_envelope_body by code_simp
  with d(1) show ?thesis by blast
qed

theorem published_events_arrive_witness:
  "\<exists>d u. incoming (envelope_bytes sample_envelope) = Some d
    \<and> DeliverEvents sample_receiver d peered_db = (Inr \<lparr>rcAccepted = 1, rcRejected = 0, rcRateLimited = 0\<rparr>, u)
    \<and> arrived sample_receiver sample_peer (federatedEvent sample_publisher sample_published False) u"
proof -
  note ok = sample_published_ok(1) sample_sendable sample_published_ok(2-9) sample_peered sample_in_time
  obtain d where d: "incoming (envelope_bytes sample_envelope) = Some d"
    "fst (DeliverEvents sample_receiver d peered_db) = Inr \<lparr>rcAccepted = 1, rcRejected = 0, rcRateLimited = 0\<rparr>"
    using sample_admitted by blast
  then obtain u where u: "DeliverEvents sample_receiver d peered_db = (Inr \<lparr>rcAccepted = 1, rcRejected = 0, rcRateLimited = 0\<rparr>, u)"
    by (metis prod.collapse)
  show ?thesis using published_events_arrive [OF ok sample_published_ok(10)] d(1) u by auto
qed

definition wired_services :: "fed_db services" where
  "wired_services = \<lparr>svFederation = True, svDevAuth = False,
     svCall = (\<lambda>_ _. deliver_call sample_receiver incoming (receipt_bytes (\<lambda>_. None))), svEncodeError = (\<lambda>_. [9]), svLowerName = (\<lambda>name. name)\<rparr>"

definition wired_sender :: "fed_db \<Rightarrow> sender" where
  "wired_sender s = sample_sender\<lparr>snExchange := post_to maxRPCBodyBytes wired_services s, snEncodeDelivery := envelope_bytes,
     snDecodeReceipt := receipt_of\<rparr>"

lemma sample_envelope_length: "length (envelope_bytes sample_envelope) \<le> 2000"
proof -
  note h = length_csil_cborHead
  note heads = h [of 5 5] h [of 3 4] h [of 3 6] h [of 3 9] h [of 3 14] h [of 3 2] h [of 3 35]
    h [of 2 "of_nat (length (batch_bytes sample_body))"] h [of 3 "of_nat (length (sdSignature sample_envelope))"]
  have b: "length (batch_bytes sample_body) \<le> 1000" by code_simp
  have l: "length (letters b) = 2 * length b" for b by (induction b) simp_all
  have "length (sdSenderAddress sample_envelope) = 9 \<and> length (sdAlgorithm sample_envelope) = 35 \<and> length (sdKeyId sample_envelope) = 2
      \<and> length (sdSignature sample_envelope) \<le> 128"
    by (simp add: sample_envelope_def ApplicationKeyAlgorithm_def l)
  then show ?thesis using heads b
    by (simp add: envelope_bytes_def EncodeSignedDelivery_def csilEncSignedDelivery_def entry_def sample_envelope_body)
qed

lemma sample_wired_postable: "postable maxRPCBodyBytes (wired_sender s) (sample_item\<lparr>obPayload := sample_envelope\<rparr>) sample_peer"
proof -
  note h = length_writeHead
  have "length (EncodeRpcRequest (delivery_request (wired_sender s) (sample_item\<lparr>obPayload := sample_envelope\<rparr>))) \<le> 2200"
    using sample_envelope_length
    by (auto simp: EncodeRpcRequest_def NewRpcRequest_def wired_sender_def length_envelope optional_def tag24_def add.assoc
        intro!: heads_add order_trans [OF length_writeHead])
  then show ?thesis
    by (simp add: postable_def sample_peer_def maxRPCBodyBytes_def MaxFrameDefault_def wired_sender_def sample_sender_def)
qed

theorem deliveries_end_to_end_witness:
  "deliverItem (wired_sender peered_db) (sample_item\<lparr>obPayload := sample_envelope\<rparr>, sample_peer) = Returns (Inr outcomeAccepted)"
proof -
  let ?item = "sample_item\<lparr>obPayload := sample_envelope\<rparr>"
  obtain d where d: "incoming (envelope_bytes sample_envelope) = Some d"
    "fst (DeliverEvents sample_receiver d peered_db) = Inr \<lparr>rcAccepted = 1, rcRejected = 0, rcRateLimited = 0\<rparr>"
    using sample_admitted by blast
  have "federating sample_receiver incoming (receipt_bytes (\<lambda>_. None)) wired_services"
    by (simp add: federating_def wired_services_def)
  from deliveries_end_to_end [OF this sample_published_ok(9,10) _ _ sample_wired_postable, of peered_db peered_db] d
  show ?thesis by (simp add: sample_sendable remark_ok_def wired_services_def wired_sender_def receiptOutcome_def)
qed

end
