(* ===== verification/PayloadSafety.thy ===== *)
theory PayloadSafety
  imports Payload
begin

text \<open>
  What the decoder of \<open>csil/codec.gen.go\<close> answers, for any bytes at all: a value no larger than
  the bytes it was read from, nested no deeper than the limit, its texts valid UTF-8, and in the
  form its own encoder would send.
\<close>

text \<open>The size of a value: its nodes, and the bytes its texts and byte strings hold.\<close>
fun weight :: "csil_value \<Rightarrow> nat" where
  "weight (pText s) = Suc (length s)"
| "weight (pBytes b) = Suc (length b)"
| "weight (pArray xs) = Suc (sum_list (map weight xs))"
| "weight (pMap es) = Suc (sum_list (map (\<lambda>(k, v). weight k + weight v) es))"
| "weight (pTag num v) = Suc (weight v)"
| "weight v = 1"

text \<open>What is read at a depth: within the nesting that is left, as received, and paid for in bytes.\<close>
definition well_read :: "nat \<Rightarrow> csil_value \<Rightarrow> bool" where
  "well_read d v \<longleftrightarrow> sendable (65 - d) v \<and> received v = v"

lemma read_arg_shorter: "csil_cborReadArg b low = Inr (a, r) \<Longrightarrow> b \<noteq> [] \<Longrightarrow> length r < length b"
  by (auto simp: csil_cborReadArg_def neq_Nil_conv split: if_splits)

lemma codes_of_bytes: "map of_char (bytes_text b) = map unat b"
proof -
  have "of_char (char_of (unat x)) = unat x" for x :: byte
    using unsigned_less [of x, where ?'a = nat] by (simp add: take_bit_nat_eq_self)
  then show ?thesis by (simp add: bytes_text_def)
qed

lemma length_bytes_text [simp]: "length (bytes_text b) = length b"
  by (simp add: bytes_text_def)

lemma negative_read:
  assumes "\<not> arg > 0x7fffffffffffffff"
  shows "received (pInt (- 1 - arg)) = pInt (- 1 - arg)"
proof -
  have "sint (- 1 - arg) < 0" using sint_sign [of "- 1 - arg"] assms by simp
  then show ?thesis by simp
qed

lemma sendable_leaf [simp]: "sendable n (pUint x)" "sendable n (pInt x)" "sendable n (pBool c)" "sendable n (pFloat f)" "sendable n pNull"
  by (cases n; simp)+

lemma decoder_reads:
  "csil_cborDec d b = Inr (v, r) \<Longrightarrow> length b < 2 ^ 64 \<Longrightarrow> well_read d v \<and> weight v + length r \<le> length b"
  "csil_items d k b = Inr (vs, r) \<Longrightarrow> length b < 2 ^ 64 \<Longrightarrow>
     list_all (well_read d) vs \<and> length vs = k \<and> sum_list (map weight vs) + length r \<le> length b"
  "csil_entries d k b = Inr (es, r) \<Longrightarrow> length b < 2 ^ 64 \<Longrightarrow>
     list_all (\<lambda>(k, v). well_read d k \<and> well_read d v) es \<and> length es = k
       \<and> sum_list (map (\<lambda>(k, v). weight k + weight v) es) + length r \<le> length b"
proof (induction d b and d k b and d k b arbitrary: v r and vs r and es r rule: csil_cborDec_csil_items_csil_entries.induct)
  case (3 depth k b)
  then show ?case by (fastforce simp: bindS_Inr)
next
  case (5 depth k b)
  then show ?case by (fastforce simp: bindS_Inr)
next
  case (1 depth b)
  let ?major = "drop_bit 5 (hd b)" and ?low = "hd b AND 0x1f"
  have d: "depth \<le> 64" "b \<noteq> []" using "1.prems"(1) by (auto simp: csil_cborDec.simps [of depth b] split: if_splits)
  then have n: "65 - depth = Suc (64 - depth)" "65 - (depth + 1) = 64 - depth" by simp_all
  show ?case
  proof (cases "?major = 7")
    case True
    then show ?thesis using "1.prems" d
      by (auto simp: csil_cborDec.simps [of depth b] Let_def bindS_Inr well_read_def neq_Nil_conv dest: read_arg_shorter split: if_splits)
  next
    case False
    then obtain arg u where a: "csil_cborReadArg b ?low = Inr (arg, u)" using "1.prems"(1) d
      by (auto simp: csil_cborDec.simps [of depth b] Let_def bindS_Inr)
    have u: "length u < length b" using read_arg_shorter [OF a d(2)] .
    note run = "1.prems"(1) [unfolded csil_cborDec.simps [of depth b] Let_def a bindS.simps prod.case]
    have lim: "length u < 2 ^ 64" using u "1.prems"(2) by simp
    consider "?major = 0" | "?major = 1" | "?major = 2" | "?major = 3" | "?major = 4" | "?major = 5"
      | "?major \<noteq> 0" "?major \<noteq> 1" "?major \<noteq> 2" "?major \<noteq> 3" "?major \<noteq> 4" "?major \<noteq> 5" by blast
    then show ?thesis
    proof cases
      case 1
      then show ?thesis using run d u by (auto simp: well_read_def)
    next
      case 2
      then show ?thesis using run d u negative_read [of arg] by (auto simp: well_read_def split: if_splits)
    next
      case 3
      then show ?thesis using run d u lim by (auto simp: well_read_def split: if_splits)
    next
      case 4
      then show ?thesis using run d u lim by (auto simp: well_read_def text_ok_def codes_of_bytes split: if_splits)
    next
      case 5
      then obtain vs where vs: "csil_items (depth + 1) (unat arg) u = Inr (vs, r)" "v = pArray vs"
        using run d by (auto simp: bindS_Inr split: if_splits)
      have "list_all (well_read (depth + 1)) vs \<and> length vs = unat arg \<and> sum_list (map weight vs) + length r \<le> length u"
        using "1.IH"(1) [OF _ d(2) refl refl False a refl] d(1) 5 vs(1) lim run by (auto split: if_splits)
      moreover have "map received vs = vs" if "list_all (well_read (depth + 1)) vs"
        using that by (induction vs) (auto simp: well_read_def)
      ultimately show ?thesis using vs(2) u unsigned_less [of arg, where ?'a = nat]
        by (auto simp: well_read_def n list_all_iff)
    next
      case 6
      then obtain es where es: "csil_entries (depth + 1) (unat arg) u = Inr (es, r)" "v = pMap es"
        using run d by (auto simp: bindS_Inr split: if_splits)
      have "list_all (\<lambda>(k, v). well_read (depth + 1) k \<and> well_read (depth + 1) v) es \<and> length es = unat arg
          \<and> sum_list (map (\<lambda>(k, v). weight k + weight v) es) + length r \<le> length u"
        using "1.IH"(2) [OF _ d(2) refl refl False a refl] d(1) 6 es(1) lim run by (auto split: if_splits)
      moreover have "map (\<lambda>(k, v). (received k, received v)) es = es"
        if "list_all (\<lambda>(k, v). well_read (depth + 1) k \<and> well_read (depth + 1) v) es"
        using that by (induction es) (auto simp: well_read_def)
      ultimately show ?thesis using es(2) u unsigned_less [of arg, where ?'a = nat]
        by (auto simp: well_read_def n list_all_iff)
    next
      case 7
      then obtain w where w: "csil_cborDec (depth + 1) u = Inr (w, r)" "v = pTag arg w"
        using run d False by (auto simp: bindS_Inr split: if_splits)
      then have "well_read (depth + 1) w \<and> weight w + length r \<le> length u"
        using "1.IH"(3) [OF _ d(2) refl refl False a refl] d(1) 7 lim by (auto split: if_splits)
      then show ?thesis using w(2) u by (auto simp: well_read_def n)
    qed
  qed
qed simp_all



end
