(* ===== verification/StoredTimes.thy ===== *)
theory StoredTimes
  imports Timestamps
begin

text \<open>
  A time in the SQLite store: \<open>formatTime\<close> and \<open>parseTime\<close> of \<open>store/sqlite/sqlite.go\<close>.  The rest of
  the model keeps a stored time as the instant that comes back (\<open>stored_time\<close>) and compares and sorts
  instants where SQL compares and sorts their texts; here both are proved of the texts themselves.
\<close>

definition formatTime :: "instant \<Rightarrow> string" where
  "formatTime t =
     (let n = t div nanos div 86400; c = t div nanos mod 86400 in
      appendInt (year_of n) 4 @ ''-'' @ appendInt (month_of n) 2 @ ''-'' @ appendInt (dom_of n) 2 @ ''T''
      @ appendInt (c div 3600) 2 @ '':'' @ appendInt (c div 60 mod 60) 2 @ '':'' @ appendInt (c mod 60) 2 @ ''Z'')"

definition parseTime :: "string \<Rightarrow> instant option" where
  "parseTime s = ParseRFC3339 s"

text \<open>How SQLite compares two texts: by their bytes, a prefix first.\<close>
fun text_less :: "string \<Rightarrow> string \<Rightarrow> bool" where
  "text_less s [] = False"
| "text_less [] (b # t) = True"
| "text_less (a # s) (b # t) = ((of_char a :: nat) < of_char b \<or> a = b \<and> text_less s t)"

section \<open>Reading back\<close>

lemma appendNano_zero: "appendNano 0 = []"
  by code_simp

lemma formatTime_whole: "formatTime t = FormatRFC3339Nano (stored_time t)"
  by (simp add: formatTime_def FormatRFC3339Nano_def stored_time_def second_def nanos_def Let_def appendNano_zero)

lemma time_ok_stored: "time_ok (stored_time t) = time_ok t"
  by (simp add: time_ok_def stored_time_def second_def nanos_def)

lemma parse_stored: "time_ok t \<Longrightarrow> parseTime (formatTime t) = Some (stored_time t)"
  by (simp add: parseTime_def formatTime_whole parse_format time_ok_stored)

section \<open>Order\<close>

lemma text_less_append:
  "length s = length t \<Longrightarrow> text_less (s @ u) (t @ v) \<longleftrightarrow> text_less s t \<or> s = t \<and> text_less u v"
  by (induction s t rule: list_induct2) auto

lemma number_shift: "list_all (\<lambda>c. char_digit c \<noteq> None) s \<Longrightarrow> number acc s = Some (acc * 10 ^ length s + the (number 0 s))"
proof (induction s arbitrary: acc)
  case (Cons c s)
  then obtain d where d: "char_digit c = Some d" by auto
  from Cons.IH [of "10 * acc + d"] Cons.IH [of d] Cons.prems d show ?case by (simp add: algebra_simps)
qed simp

lemma number_bound: "list_all (\<lambda>c. char_digit c \<noteq> None) s \<Longrightarrow> the (number 0 s) < 10 ^ length s"
proof (induction s)
  case (Cons c s)
  then obtain d where d: "char_digit c = Some d" by auto
  then have "d < 10" by (auto simp: char_digit_def split: if_splits)
  then have le: "d * 10 ^ length s + 10 ^ length s \<le> 10 * 10 ^ length s" using mult_le_mono1 [of "d + 1" 10 "10 ^ length s"] by simp
  have "the (number 0 s) < 10 ^ length s" using Cons by simp
  with le have "d * 10 ^ length s + the (number 0 s) < 10 * 10 ^ length s" by linarith
  then show ?case using number_shift [of s d] Cons.prems d by simp
qed simp

lemma text_less_number:
  assumes "length s = length t" "list_all (\<lambda>c. char_digit c \<noteq> None) s" "list_all (\<lambda>c. char_digit c \<noteq> None) t"
  shows "text_less s t \<longleftrightarrow> the (number 0 s) < the (number 0 t)"
  using assms
proof (induction s t rule: list_induct2)
  case (Cons a s b t)
  then obtain d e where d: "char_digit a = Some d" "char_digit b = Some e" by auto
  have o: "(of_char a :: nat) < of_char b \<longleftrightarrow> d < e" "a = b \<longleftrightarrow> d = e"
  proof -
    have c: "48 \<le> (of_char a :: nat)" "48 \<le> (of_char b :: nat)" "d = of_char a - 48" "e = of_char b - 48"
      using d by (auto simp: char_digit_def split: if_splits)
    then have "(of_char a :: nat) = of_char b \<longleftrightarrow> d = e" by linarith
    then show "(of_char a :: nat) < of_char b \<longleftrightarrow> d < e" "a = b \<longleftrightarrow> d = e" using c by auto
  qed
  let ?s = "the (number 0 s)" and ?t = "the (number 0 t)"
  have b: "?s < 10 ^ length t" "?t < 10 ^ length t" using number_bound [of s] number_bound [of t] Cons by auto
  have n: "the (number 0 (a # s)) = d * 10 ^ length t + ?s" "the (number 0 (b # t)) = e * 10 ^ length t + ?t"
    using number_shift [of s d] number_shift [of t e] Cons d by simp_all
  have "d * 10 ^ length t + ?s < e * 10 ^ length t + ?t \<longleftrightarrow> d < e \<or> d = e \<and> ?s < ?t"
  proof (cases d e rule: linorder_cases)
    case less
    then have "d * 10 ^ length t + 10 ^ length t \<le> e * 10 ^ length t" using mult_le_mono1 [of "d + 1" e "10 ^ length t"] by simp
    then show ?thesis using less b by linarith
  next
    case greater
    then have "e * 10 ^ length t + 10 ^ length t \<le> d * 10 ^ length t" using mult_le_mono1 [of "e + 1" d "10 ^ length t"] by simp
    then show ?thesis using greater b by linarith
  qed simp
  then show ?case using Cons.IH Cons.prems n o by simp
qed simp

lemma text_less_padded:
  assumes "0 \<le> x" "x < 10 ^ k" "0 \<le> y" "y < 10 ^ k" "0 < k"
  shows "text_less (appendInt x k @ u) (appendInt y k @ v) \<longleftrightarrow> x < y \<or> x = y \<and> text_less u v"
proof -
  note p = padded [OF assms(1,2,5)] padded [OF assms(3,4,5)]
  have "text_less (appendInt x k) (appendInt y k) \<longleftrightarrow> x < y" using p assms(1,3) by (auto simp: text_less_number)
  moreover have "appendInt x k = appendInt y k \<longleftrightarrow> x = y" using p(2,5) assms(1,3) by (metis eq_nat_nat_iff option.inject)
  ultimately show ?thesis using p(1,4) by (simp add: text_less_append)
qed

lemma text_less_cons [simp]: "text_less (a # s) (a # t) = text_less s t"
  by simp

lemma days_before_year_mono: "a < b \<Longrightarrow> days_before_year (a + 1) \<le> days_before_year b" for a b :: int
proof (induction b rule: int_gr_induct)
  case (step i)
  then show ?case using days_before_year_step [of i] by (simp split: if_splits)
qed simp

lemma year_mono: "year_of n < year_of m \<Longrightarrow> n < m"
  using year_of_bounds [of n] year_of_bounds [of m] days_before_year_mono [of "year_of n" "year_of m"] by linarith

lemma month_starts_mono: "i < j \<Longrightarrow> j < 13 \<Longrightarrow> month_starts l ! i < month_starts l ! j"
proof -
  have "sorted_wrt (<) (month_starts l)" "length (month_starts l) = 13" by (cases l; simp add: month_starts_def)+
  then show "i < j \<Longrightarrow> j < 13 \<Longrightarrow> ?thesis" by (simp add: sorted_wrt_nth_less)
qed

lemma month_mono:
  assumes "year_of n = year_of m" "month_of n < month_of m"
  shows "n < m"
proof -
  let ?s = "month_starts (leap (year_of m))"
  have "day_of_year n < ?s ! nat (month_of n)"
    using date_ok(4) [of n] assms(1) by (simp add: dom_of_def days_in_def)
  also have "\<dots> \<le> ?s ! nat (month_of m - 1)"
  proof (cases "month_of n = month_of m - 1")
    case False
    then show ?thesis using assms(2) date_ok(1) [of n] date_ok(2) [of m] by (intro less_imp_le month_starts_mono) auto
  qed simp
  also have "\<dots> \<le> day_of_year m" using date_ok(3) [of m] by (simp add: dom_of_def)
  finally show ?thesis using assms(1) by (simp add: day_of_year_def)
qed

lemma dom_mono: "year_of n = year_of m \<Longrightarrow> month_of n = month_of m \<Longrightarrow> dom_of n < dom_of m \<longleftrightarrow> n < m"
  by (simp add: dom_of_def day_of_year_def add1_zle_eq)

lemma date_order:
  "(year_of n < year_of m \<or> year_of n = year_of m \<and> (month_of n < month_of m \<or> month_of n = month_of m \<and> dom_of n < dom_of m)) \<longleftrightarrow> n < m"
  (is "?d n m \<longleftrightarrow> _")
proof -
  have lex: "?d n m \<Longrightarrow> n < m" for n m using year_mono month_mono dom_mono by blast
  have "?d n m \<or> ?d m n \<or> year_of n = year_of m \<and> month_of n = month_of m \<and> dom_of n = dom_of m" by linarith
  then show ?thesis using lex [of n m] lex [of m n] civil_day_of [of n] civil_day_of [of m] by (metis less_irrefl not_less_iff_gr_or_eq)
qed

lemma parts_less:
  fixes x y k :: int
  assumes "0 < k" "x div k < y div k \<or> x div k = y div k \<and> x mod k < y mod k"
  shows "x < y"
proof -
  have e: "k * (x div k) + x mod k = x" "k * (y div k) + y mod k = y" by simp_all
  have m: "x mod k < k" "0 \<le> y mod k" using assms(1) by simp_all
  show ?thesis
  proof (cases "x div k < y div k")
    case True
    then have "k * (x div k + 1) \<le> k * (y div k)" using assms(1) by (intro mult_left_mono) simp_all
    then have "k * (x div k) + k \<le> k * (y div k)" by (simp add: distrib_left)
    then show ?thesis using e m by linarith
  next
    case False
    then have q: "x div k = y div k" "x mod k < y mod k" using assms(2) by blast+
    have "k * (y div k) + x mod k = x" using e(1) unfolding q(1) .
    then show ?thesis using e(2) q(2) by linarith
  qed
qed

lemma parts_order:
  fixes x y k :: int
  assumes "0 < k"
  shows "(x div k < y div k \<or> x div k = y div k \<and> x mod k < y mod k) \<longleftrightarrow> x < y"
  using parts_less [OF assms, of x y] parts_less [OF assms, of y x] by (metis div_mult_mod_eq less_asym less_irrefl neqE)

lemma clock_order:
  fixes c d :: int
  shows "(c div 3600 < d div 3600 \<or> c div 3600 = d div 3600
    \<and> (c div 60 mod 60 < d div 60 mod 60 \<or> c div 60 mod 60 = d div 60 mod 60 \<and> c mod 60 < d mod 60)) \<longleftrightarrow> c < d"
proof -
  have h: "x div 3600 = x div 60 div 60" for x :: int using zdiv_zmult2_eq [of 60 x 60] by simp
  have "c div 60 = d div 60 \<longleftrightarrow> c div 60 div 60 = d div 60 div 60 \<and> c div 60 mod 60 = d div 60 mod 60" by (metis div_mult_mod_eq)
  then show ?thesis unfolding h using parts_order [of 60 c d] parts_order [of 60 "c div 60" "d div 60"] by auto
qed

lemma second_order: "stored_time t < stored_time u \<longleftrightarrow> t div nanos < u div nanos"
  by (simp add: stored_time_def second_def nanos_def)

lemma text_less_fields:
  "0 \<le> x \<Longrightarrow> x < 100 \<Longrightarrow> 0 \<le> y \<Longrightarrow> y < 100
    \<Longrightarrow> text_less (appendInt x 2 @ u) (appendInt y 2 @ v) \<longleftrightarrow> x < y \<or> x = y \<and> text_less u v"
  "0 \<le> x \<Longrightarrow> x \<le> 9999 \<Longrightarrow> 0 \<le> y \<Longrightarrow> y \<le> 9999
    \<Longrightarrow> text_less (appendInt x 4 @ u) (appendInt y 4 @ v) \<longleftrightarrow> x < y \<or> x = y \<and> text_less u v"
  using text_less_padded [of x 2 y u v] text_less_padded [of x 4 y u v] by simp_all

lemma formatTime_order:
  assumes "time_ok t" "time_ok u"
  shows "text_less (formatTime t) (formatTime u) \<longleftrightarrow> stored_time t < stored_time u"
proof -
  let ?n = "t div nanos div 86400" and ?c = "t div nanos mod 86400" and ?m = "u div nanos div 86400" and ?d = "u div nanos mod 86400"
  have c: "0 \<le> x mod 86400 div 3600" "x mod 86400 div 3600 < 100" "0 \<le> x mod 86400 div 60 mod 60" "x mod 86400 div 60 mod 60 < 100"
    "0 \<le> x mod 86400 mod 60" "x mod 86400 mod 60 < 100" for x :: int
  proof -
    have "0 \<le> x mod 86400" "x mod 86400 < 86400" by simp_all
    then show "0 \<le> x mod 86400 div 3600" "x mod 86400 div 3600 < 100" by (simp_all add: pos_imp_zdiv_nonneg_iff div_less_iff_less_mult)
    have "0 \<le> y mod 60" "y mod 60 < 100" for y :: int using pos_mod_bound [of 60 y] by simp_all
    then show "0 \<le> x mod 86400 div 60 mod 60" "x mod 86400 div 60 mod 60 < 100" "0 \<le> x mod 86400 mod 60" "x mod 86400 mod 60 < 100" by blast+
  qed
  have d: "0 \<le> month_of k" "month_of k < 100" "0 \<le> dom_of k" "dom_of k < 100" for k using date_ok [of k] by linarith+
  have "text_less (formatTime t) (formatTime u) \<longleftrightarrow>
      (year_of ?n < year_of ?m \<or> year_of ?n = year_of ?m \<and> (month_of ?n < month_of ?m \<or> month_of ?n = month_of ?m \<and> (dom_of ?n < dom_of ?m
        \<or> dom_of ?n = dom_of ?m \<and> (?c div 3600 < ?d div 3600 \<or> ?c div 3600 = ?d div 3600
        \<and> (?c div 60 mod 60 < ?d div 60 mod 60 \<or> ?c div 60 mod 60 = ?d div 60 mod 60 \<and> ?c mod 60 < ?d mod 60)))))"
    using assms [unfolded time_ok_def] unfolding formatTime_def Let_def append_Cons append_Nil
    by (simp only: text_less_fields c d text_less_cons text_less.simps(1) simp_thms)
  also have "\<dots> \<longleftrightarrow> ?n < ?m \<or> ?n = ?m \<and> ?c < ?d"
    unfolding clock_order using date_order [of ?n ?m] civil_day_of [of ?n] civil_day_of [of ?m] by metis
  also have "\<dots> \<longleftrightarrow> stored_time t < stored_time u" unfolding second_order using parts_order [of 86400] by simp
  finally show ?thesis .
qed



section \<open>Beyond the year 9999\<close>

text \<open>
  The wire's four digits with an offset reach an hour into the year 10000, which is accepted and
  written with five: such a text sorts before those of this century and cannot be read back.
\<close>
definition late_time :: instant where
  "late_time = the (ParseRFC3339 ''9999-12-31T23:59:59-01:00'')"

lemma late_time_accepted: "ParseRFC3339 ''9999-12-31T23:59:59-01:00'' = Some late_time \<and> \<not> time_ok late_time"
  by code_simp

lemma late_time_stored:
  "formatTime late_time = ''10000-01-01T00:59:59Z'' \<and> parseTime (formatTime late_time) = None
   \<and> text_less (formatTime late_time) (formatTime 0)"
  by code_simp

end
