(* ===== verification/Passes.thy ===== *)
theory Passes
  imports Sender
begin

text \<open>
  What repeated passes of \<open>federation/sender.go\<close> come to, while time goes by between them: the
  queue is served oldest first and whatever is not delivered goes to its back, so that peers which
  fail cannot keep a delivery from a peer which takes it.
\<close>

text \<open>Every wait is a second at least: stored times have no fraction.\<close>
definition patient :: "sender \<Rightarrow> bool" where
  "patient sn \<longleftrightarrow> (0 < snBaseDelay sn \<longrightarrow> second \<le> snBaseDelay sn) \<and> (0 < snMaxDelay sn \<longrightarrow> second \<le> snMaxDelay sn)
     \<and> (0 < snRateDelay sn \<longrightarrow> second \<le> snRateDelay sn)"

definition mounted :: "ident \<Rightarrow> 'm fed_db_scheme \<Rightarrow> bool" where
  "mounted i s \<longleftrightarrow> (\<exists>p\<in>set (peers s). pID p = i \<and> deliverable p)"

text \<open>From \<open>s\<close> to \<open>t\<close> these rows went or were put off, and no other did.\<close>
definition settled :: "instant \<Rightarrow> ident set \<Rightarrow> 'm fed_db_scheme \<Rightarrow> 'm fed_db_scheme \<Rightarrow> bool" where
  "settled now ids s t \<longleftrightarrow> distinct (map obID (outbox t))
     \<and> (\<forall>b\<in>set (outbox t). b \<in> set (outbox s) \<and> obID b \<notin> ids \<or> obID b \<in> ids \<and> stored_time now < obNextAttemptAt b)
     \<and> (\<forall>b\<in>set (outbox s). obID b \<notin> ids \<longrightarrow> b \<in> set (outbox t))
     \<and> obID ` set (outbox t) \<subseteq> obID ` set (outbox s)
     \<and> (\<forall>p\<in>set (peers t). \<exists>q\<in>set (peers s). pID p = pID q \<and> pBaseURL p = pBaseURL q)
     \<and> (\<forall>j. mounted j t \<longrightarrow> mounted j s) \<and> clock t = clock s"

lemma settled_refl: "distinct (map obID (outbox s)) \<Longrightarrow> settled now {} s s"
  by (auto simp: settled_def)

lemma settled_trans: "settled now A s u \<Longrightarrow> settled now B u t \<Longrightarrow> settled now (A \<union> B) s t"
proof -
  assume a: "settled now A s u" and b: "settled now B u t"
  have "x \<in> set (outbox s) \<and> obID x \<notin> A \<union> B \<or> obID x \<in> A \<union> B \<and> stored_time now < obNextAttemptAt x" if "x \<in> set (outbox t)" for x
    using a b that unfolding settled_def by blast
  moreover have "x \<in> set (outbox t)" if "x \<in> set (outbox s)" "obID x \<notin> A \<union> B" for x
    using a b that unfolding settled_def by simp
  moreover have "obID ` set (outbox t) \<subseteq> obID ` set (outbox s)" using a b unfolding settled_def by (meson order_trans)
  moreover have "\<exists>q\<in>set (peers s). pID p = pID q \<and> pBaseURL p = pBaseURL q" if "p \<in> set (peers t)" for p
    using a b that unfolding settled_def by metis
  ultimately show ?thesis using a b by (simp add: settled_def)
qed

lemma later_second_clock: "second \<le> d \<Longrightarrow> stored_time now < stored_time (now + d)"
  using zdiv_mono1 [of "now + second" "now + d" second] by (simp add: stored_time_def second_def)

lemma patient_nextAttempt:
  assumes "patient sn"
  shows "stored_time now < stored_time (nextAttempt sn now a)"
proof -
  let ?base = "if snBaseDelay sn \<le> 0 then DefaultBaseDelay else snBaseDelay sn"
  let ?ceiling = "if snMaxDelay sn \<le> 0 then DefaultMaxDelay else snMaxDelay sn"
  have base: "second \<le> ?base" and ceiling: "second \<le> ?ceiling"
    using assms by (auto simp: patient_def DefaultBaseDelay_def DefaultMaxDelay_def hour_duration_def minute_def second_def)
  have "0 < ?base" using base by (simp add: second_def)
  then have "?base * 1 \<le> ?base * 2 ^ nat (min a 16)" by (intro mult_left_mono) simp_all
  then have "second \<le> ?base * 2 ^ nat (min a 16)" using base by linarith
  then show ?thesis unfolding nextAttempt_def Let_def using ceiling by (intro later_second_clock) simp
qed

lemma patient_rateDelay: "patient sn \<Longrightarrow> stored_time now < stored_time (now + rateDelay sn)"
  by (rule later_second_clock) (auto simp: patient_def rateDelay_def DefaultRateDelay_def second_def)

section \<open>One outcome\<close>

lemma record_outcome_clock: "clock (record_outcome sn now item r s) = clock s"
  by (auto simp: record_outcome_def recordFailure_def recordDeferral_def recordRefusal_def recordSuccess_def
      RecordDeliverySuccess_def RecordDeliveryFailure_def MarkDelivered_def MarkDeliveryFailed_def DeferDelivery_def update_peer_def
      split: sum.split deliveryOutcome.split)

text \<open>A row goes or is put off.\<close>
lemma record_outcome_row:
  assumes "patient sn"
  shows "outbox (record_outcome sn now item r s) = del_rows (\<lambda>b. obID b = obID item) (outbox s)
    \<or> r \<noteq> Inr outcomeAccepted \<and> (\<exists>f. (\<forall>b. obID (f b) = obID b \<and> stored_time now < obNextAttemptAt (f b))
        \<and> outbox (record_outcome sn now item r s) = set_rows (\<lambda>b. obID b = obID item) f (outbox s))"
proof -
  have failed: "\<exists>f. (\<forall>b. obID (f b) = obID b \<and> stored_time now < obNextAttemptAt (f b))
      \<and> outbox (recordFailure sn now item cause s) = set_rows (\<lambda>b. obID b = obID item) f (outbox s)" for cause
    by (rule exI [of _ "\<lambda>b. b\<lparr>obAttempts := obAttempts b + 1, obLastError := cause,
        obNextAttemptAt := stored_time (nextAttempt sn now (obAttempts item))\<rparr>"])
      (simp add: patient_nextAttempt [OF assms] recordFailure_def MarkDeliveryFailed_def RecordDeliveryFailure_def update_peer_def)
  have deferred: "\<exists>f. (\<forall>b. obID (f b) = obID b \<and> stored_time now < obNextAttemptAt (f b))
      \<and> outbox (recordDeferral sn now item s) = set_rows (\<lambda>b. obID b = obID item) f (outbox s)"
    by (rule exI [of _ "\<lambda>b. b\<lparr>obLastError := ''refused for rate; will retry'',
        obNextAttemptAt := stored_time (now + rateDelay sn)\<rparr>"])
      (simp add: patient_rateDelay [OF assms] recordDeferral_def DeferDelivery_def RecordDeliverySuccess_def update_peer_def)
  show ?thesis
  proof (cases r)
    case (Inl cause)
    then show ?thesis using failed by (simp add: record_outcome_def)
  next
    case (Inr x)
    then show ?thesis using deferred
      by (cases x) (simp_all add: record_outcome_def recordSuccess_def recordRefusal_def MarkDelivered_def
          RecordDeliverySuccess_def update_peer_def)
  qed
qed

lemma mounted_rows:
  assumes "peers t = set_rows (\<lambda>p. pID p = i) f (peers s)" "\<And>p. pID (f p) = pID p" "\<And>p. j = i \<Longrightarrow> deliverable (f p) = deliverable p"
  shows "mounted j t = mounted j s"
proof -
  have "pID (if pID p = i then f p else p) = j \<and> deliverable (if pID p = i then f p else p) \<longleftrightarrow> pID p = j \<and> deliverable p" for p
    using assms(2,3) by auto
  then show ?thesis by (simp add: mounted_def assms(1) set_rows_def del: set_set_rows if_image_distrib)
qed

lemma mounted_success: "mounted j (after (RecordDeliverySuccess i now s)) = mounted j s"
proof -
  have "deliverable (p\<lparr>pLastSuccessAt := a, pFirstFailureAt := None, pLastFailureReason := [], pUpdatedAt := u\<rparr>) = deliverable p" for p a u
    by (simp add: deliverable_def)
  then show ?thesis
    by (intro mounted_rows [where i = i and f = "\<lambda>p. p\<lparr>pLastSuccessAt := Some (stored_time now), pFirstFailureAt := None,
        pLastFailureReason := [], pUpdatedAt := nowSQL s\<rparr>"]) (simp_all add: RecordDeliverySuccess_def update_peer_def)
qed

lemma mounted_failure:
  shows "mounted j (after (RecordDeliveryFailure i cause now cutoff s)) \<Longrightarrow> mounted j s"
    and "j \<noteq> i \<Longrightarrow> mounted j (after (RecordDeliveryFailure i cause now cutoff s)) = mounted j s"
proof -
  have "deliverable ((failed_peer cause now cutoff p)\<lparr>pUpdatedAt := u\<rparr>) \<Longrightarrow> deliverable p"
    and k: "pID ((failed_peer cause now cutoff p)\<lparr>pUpdatedAt := u\<rparr>) = pID p" for p u
    by (auto simp: deliverable_def failed_peer_def Let_def split: option.splits)
  then show "mounted j (after (RecordDeliveryFailure i cause now cutoff s)) \<Longrightarrow> mounted j s"
    by (auto simp: mounted_def RecordDeliveryFailure_def update_peer_def split: if_splits)
  show "j \<noteq> i \<Longrightarrow> mounted j (after (RecordDeliveryFailure i cause now cutoff s)) = mounted j s"
    using k by (intro mounted_rows [where i = i and f = "\<lambda>p. (failed_peer cause now cutoff p)\<lparr>pUpdatedAt := nowSQL s\<rparr>"]) (simp_all add: RecordDeliveryFailure_def update_peer_def)
qed

lemma mounted_statements:
  "mounted j (after (MarkDelivered i s)) = mounted j s" "mounted j (after (MarkDeliveryFailed i cause t s)) = mounted j s"
  "mounted j (after (DeferDelivery i cause t s)) = mounted j s"
  by (simp_all add: mounted_def MarkDelivered_def MarkDeliveryFailed_def DeferDelivery_def)

lemma record_outcome_mounted: "mounted j (record_outcome sn now item r s) \<Longrightarrow> mounted j s"
  by (cases r; (cases "projr r")?; auto simp: record_outcome_def recordFailure_def recordDeferral_def recordRefusal_def recordSuccess_def
      mounted_success mounted_statements dest: mounted_failure(1))

lemma record_outcome_mounts:
  "r = Inr x \<or> j \<noteq> obPeer item \<Longrightarrow> mounted j (record_outcome sn now item r s) = mounted j s"
  by (cases r; (cases "projr r")?; auto simp: record_outcome_def recordFailure_def recordDeferral_def recordRefusal_def recordSuccess_def
      mounted_success mounted_statements mounted_failure(2))

lemma record_outcome_peers:
  assumes "p \<in> set (peers (record_outcome sn now item r s))"
  shows "\<exists>q\<in>set (peers s). pID p = pID q \<and> pBaseURL p = pBaseURL q"
proof -
  let ?k = "\<lambda>p. (pID p, pBaseURL p)"
  have "?k ` set (peers (record_outcome sn now item r s)) = ?k ` set (peers s)"
    by (auto simp: record_outcome_def recordFailure_def recordDeferral_def recordRefusal_def recordSuccess_def RecordDeliverySuccess_def
        RecordDeliveryFailure_def MarkDelivered_def MarkDeliveryFailed_def DeferDelivery_def update_peer_def failed_peer_def Let_def
        set_rows_key_set simp del: set_set_rows split: sum.split deliveryOutcome.split)
  then have "?k p \<in> ?k ` set (peers s)" using assms by blast
  then show ?thesis by auto
qed

lemma record_outcome_settled:
  assumes "patient sn" "distinct (map obID (outbox s))"
  shows "settled now {obID item} s (record_outcome sn now item r s)"
  using record_outcome_row [OF assms(1), of now item r s]
proof (elim disjE conjE exE)
  assume "outbox (record_outcome sn now item r s) = del_rows (\<lambda>b. obID b = obID item) (outbox s)"
  then show ?thesis using assms(2) record_outcome_mounted [of _ sn now item r s] record_outcome_peers [of _ sn now item r s]
    by (auto simp: settled_def record_outcome_clock)
next
  fix f assume f: "\<forall>b. obID (f b) = obID b \<and> stored_time now < obNextAttemptAt (f b)"
    and eq: "outbox (record_outcome sn now item r s) = set_rows (\<lambda>b. obID b = obID item) f (outbox s)"
  have "map obID (set_rows (\<lambda>b. obID b = obID item) f (outbox s)) = map obID (outbox s)" using f by (intro set_rows_keys) simp
  then show ?thesis using assms(2) f eq record_outcome_mounted [of _ sn now item r s] record_outcome_peers [of _ sn now item r s]
    by (auto simp: settled_def record_outcome_clock split: if_splits)
qed


section \<open>One pass\<close>

lemma pass_items_step:
  "deliverItem sn x = Returns r \<Longrightarrow> snd (pass_items sn now (x # items) s) = snd (pass_items sn now items (record_outcome sn now (fst x) r s))"
  by (simp split: prod.split)

lemma pass_items_settled:
  assumes "patient sn" "\<And>x. \<exists>r. deliverItem sn x = Returns r" "distinct (map obID (outbox s))"
  shows "settled now ((\<lambda>x. obID (fst x)) ` set items) s (snd (pass_items sn now items s))"
  using assms(3)
proof (induction items arbitrary: s)
  case (Cons x items)
  obtain r where r: "deliverItem sn x = Returns r" using assms(2) by blast
  let ?u = "record_outcome sn now (fst x) r s"
  have u: "settled now {obID (fst x)} s ?u" by (rule record_outcome_settled [OF assms(1) Cons.prems])
  then have "distinct (map obID (outbox ?u))" by (simp add: settled_def)
  from settled_trans [OF u Cons.IH [OF this]] show ?case unfolding pass_items_step [OF r] by simp
qed (simp add: settled_refl)

lemma pass_items_accepts:
  assumes "patient sn" "\<And>x. \<exists>r. deliverItem sn x = Returns r" "distinct (map obID (outbox s))"
    "x \<in> set items" "deliverItem sn x = Returns (Inr outcomeAccepted)"
  shows "obID (fst x) \<notin> obID ` set (outbox (snd (pass_items sn now items s)))"
  using assms(3,4)
proof (induction items arbitrary: s)
  case (Cons y items)
  obtain r where r: "deliverItem sn y = Returns r" using assms(2) by blast
  let ?u = "record_outcome sn now (fst y) r s"
  have u: "distinct (map obID (outbox ?u))"
    using record_outcome_settled [OF assms(1) Cons.prems(1)] by (simp add: settled_def)
  have t: "snd (pass_items sn now (y # items) s) = snd (pass_items sn now items ?u)" by (rule pass_items_step [OF r])
  show ?case
  proof (cases "x \<in> set items")
    case True
    then show ?thesis using Cons.IH [OF u] t by simp
  next
    case False
    then have "y = x" using Cons.prems(2) by simp
    then have "obID (fst x) \<notin> obID ` set (outbox ?u)"
      using record_outcome_row [OF assms(1), of now "fst y" r s] r assms(5) by auto
    then show ?thesis using pass_items_settled [OF assms(1,2) u, of now items] unfolding t by (auto simp: settled_def)
  qed
qed simp

lemma pass_items_mounts:
  assumes "\<And>x. \<exists>r. deliverItem sn x = Returns r" "\<And>x. x \<in> set items \<Longrightarrow> obPeer (fst x) = i \<Longrightarrow> deliverItem sn x = Returns (Inr outcomeAccepted)"
  shows "mounted i (snd (pass_items sn now items s)) = mounted i s"
  using assms(2)
proof (induction items arbitrary: s)
  case (Cons x items)
  obtain r where r: "deliverItem sn x = Returns r" using assms(1) by blast
  then have "r = Inr outcomeAccepted \<or> i \<noteq> obPeer (fst x)" using Cons.prems [of x] by auto
  then have "mounted i (record_outcome sn now (fst x) r s) = mounted i s" by (rule record_outcome_mounts)
  then show ?case using Cons.IH [of "record_outcome sn now (fst x) r s"] Cons.prems unfolding pass_items_step [OF r] by simp
qed simp

section \<open>The queue\<close>

text \<open>The peer is where it was and takes whatever it is sent there.\<close>
definition willing :: "sender \<Rightarrow> ident \<Rightarrow> 'm fed_db_scheme \<Rightarrow> bool" where
  "willing sn i s \<longleftrightarrow> (\<forall>p\<in>set (peers s). pID p = i \<longrightarrow> (\<forall>item. deliverItem sn (item, p) = Returns (Inr outcomeAccepted)))"

lemma willing_settled: "willing sn i s \<Longrightarrow> settled now ids s t \<Longrightarrow> willing sn i t"
proof -
  have "deliverItem sn (item, p) = deliverItem sn (item, q)" if "pBaseURL p = pBaseURL q" for item p q
    using that by (simp add: deliverItem_def)
  then show "willing sn i s \<Longrightarrow> settled now ids s t \<Longrightarrow> willing sn i t"
    unfolding willing_def settled_def by metis
qed

definition queue :: "'m fed_db_scheme \<Rightarrow> outbox_row list" where
  "queue s = filter (\<lambda>b. mounted (obPeer b) s) (sort_key obNextAttemptAt (filter (\<lambda>b. obNextAttemptAt b \<le> stored_time (clock s)) (outbox s)))"

lemma map_fst_pairs: "map fst (List.map_filter (\<lambda>b. map_option (\<lambda>p. (b, p)) (g b)) xs) = filter (\<lambda>b. g b \<noteq> None) xs"
  by (induction xs) (auto simp: List.map_filter_simps split: option.split)

lemma set_pairs: "(b, p) \<in> set (List.map_filter (\<lambda>b. map_option (\<lambda>p. (b, p)) (g b)) xs) \<Longrightarrow> g b = Some p"
  by (induction xs) (auto simp: List.map_filter_simps split: option.splits)

lemma due_queue:
  obtains items where "DueDeliveries (clock s) n s = (Inr items, s)" "map fst items = take n (queue s)"
    "\<And>x. x \<in> set items \<Longrightarrow> pID (snd x) = obPeer (fst x) \<and> snd x \<in> set (peers s)"
proof -
  let ?g = "\<lambda>b. row (\<lambda>p. pID p = obPeer b \<and> deliverable p) (peers s)"
  let ?L = "List.map_filter (\<lambda>b. map_option (\<lambda>p. (b, p)) (?g b))
    (sort_key obNextAttemptAt (filter (\<lambda>b. obNextAttemptAt b \<le> stored_time (clock s)) (outbox s)))"
  have "(?g b \<noteq> None) = mounted (obPeer b) s" for b
    using row_Some_iff_has [of "\<lambda>p. pID p = obPeer b \<and> deliverable p" "peers s"] by (auto simp: has_row_iff mounted_def)
  then have "filter (\<lambda>b. ?g b \<noteq> None) xs = filter (\<lambda>b. mounted (obPeer b) s) xs" for xs by (rule filter_cong [OF refl])
  then have "map fst (take n ?L) = take n (queue s)"
    unfolding queue_def take_map [symmetric] map_fst_pairs by (rule arg_cong)
  moreover have "pID (snd x) = obPeer (fst x) \<and> snd x \<in> set (peers s)" if "x \<in> set (take n ?L)" for x
  proof -
    have "(fst x, snd x) \<in> set ?L" using in_set_takeD [OF that] by simp
    then have "?g (fst x) = Some (snd x)" by (rule set_pairs)
    then show ?thesis using row_SomeD by fastforce
  qed
  ultimately show ?thesis using that [of "take n ?L"] by (simp add: DueDeliveries_def reads_def)
qed

text \<open>The rows no younger than this one.\<close>
definition older :: "instant \<Rightarrow> 'm fed_db_scheme \<Rightarrow> outbox_row set" where
  "older T s = {b \<in> set (outbox s). obNextAttemptAt b \<le> T \<and> mounted (obPeer b) s}"

lemma older_shrinks:
  assumes "settled (clock s) (obID ` A) s t" "T \<le> stored_time (clock s)" "A \<subseteq> older T s"
  shows "card (older T t) + card A \<le> card (older T s)"
proof -
  have "b \<in> older T s - A" if "b \<in> older T t" for b
    using that assms(1,2) unfolding older_def settled_def by fastforce
  then have "older T t \<subseteq> older T s - A" by blast
  moreover have fin: "finite (older T s)" by (simp add: older_def)
  ultimately have "card (older T t) \<le> card (older T s - A)" by (simp add: card_mono)
  then show ?thesis using card_Diff_subset [OF finite_subset [OF assms(3) fin] assms(3)] card_mono [OF fin assms(3)] by linarith
qed

lemma pass_advances:
  assumes "patient sn" "\<And>x. \<exists>r. deliverItem sn x = Returns r" "distinct (map obID (outbox s))"
    "willing sn i s" "b \<in> set (outbox s)" "obPeer b = i" "mounted i s" "obNextAttemptAt b \<le> stored_time (clock s)"
  shows "obID b \<notin> obID ` set (outbox (snd (RunOnce sn s)))
    \<or> b \<in> set (outbox (snd (RunOnce sn s))) \<and> mounted i (snd (RunOnce sn s))
      \<and> card (older (obNextAttemptAt b) (snd (RunOnce sn s))) + batchSize sn \<le> card (older (obNextAttemptAt b) s)"
proof -
  obtain items where items: "DueDeliveries (clock s) (batchSize sn) s = (Inr items, s)" "map fst items = take (batchSize sn) (queue s)"
    "\<And>x. x \<in> set items \<Longrightarrow> pID (snd x) = obPeer (fst x) \<and> snd x \<in> set (peers s)" using due_queue [of s "batchSize sn"] by blast
  let ?t = "snd (pass_items sn (clock s) items s)"
  have t: "snd (RunOnce sn s) = ?t" using items(1) by (simp add: RunOnce_def)
  have takes: "deliverItem sn x = Returns (Inr outcomeAccepted)" if "x \<in> set items" "obPeer (fst x) = i" for x
    using assms(4) items(3) [OF that(1)] that(2) by (cases x) (auto simp: willing_def)
  let ?A = "set (take (batchSize sn) (queue s))"
  have A: "fst ` set items = ?A" using arg_cong [OF items(2), of set] by simp
  have st: "settled (clock s) (obID ` ?A) s ?t"
    using pass_items_settled [OF assms(1,2,3), of "clock s" items] unfolding A [symmetric] by (simp add: image_image)
  show ?thesis
  proof (cases "b \<in> ?A")
    case True
    then obtain x where x: "x \<in> set items" "fst x = b" using A by force
    then have "deliverItem sn x = Returns (Inr outcomeAccepted)" using takes assms(6) by simp
    from pass_items_accepts [OF assms(1,2,3) x(1) this] show ?thesis using x(2) t by simp
  next
    case False
    have sorted: "sorted (map obNextAttemptAt (queue s))" unfolding queue_def by (simp add: sorted_filter)
    have uniq: "distinct (map obID (queue s))" unfolding queue_def using assms(3)
      by (intro distinct_map_filter) (simp add: distinct_map inj_on_def)
    have b: "b \<in> set (queue s)" using assms(5-8) by (simp add: queue_def)
    then have late: "b \<in> set (drop (batchSize sn) (queue s))" using False by (metis Un_iff append_take_drop_id set_append)
    have "sorted (map obNextAttemptAt (take (batchSize sn) (queue s) @ drop (batchSize sn) (queue s)))" using sorted by simp
    then have "\<forall>a\<in>?A. obNextAttemptAt a \<le> obNextAttemptAt b" using late unfolding map_append sorted_append by simp
    moreover have in_queue: "a \<in> set (outbox s) \<and> mounted (obPeer a) s" if "a \<in> ?A" for a
      using in_set_takeD [OF that] by (simp add: queue_def)
    ultimately have old: "?A \<subseteq> older (obNextAttemptAt b) s" by (auto simp: older_def)
    have "distinct (take (batchSize sn) (queue s))" using uniq by (simp add: distinct_map distinct_take)
    moreover have "batchSize sn < length (queue s)" using late by (metis drop_all empty_iff empty_set not_le)
    ultimately have card: "card ?A = batchSize sn" by (simp add: distinct_card)
    have fresh: "obID b \<notin> obID ` ?A"
    proof
      assume "obID b \<in> obID ` ?A"
      then obtain a where "a \<in> ?A" "obID a = obID b" by force
      then have "a = b" using in_queue assms(3,5) by (auto simp: distinct_map dest: inj_onD)
      then show False using \<open>a \<in> ?A\<close> False by simp
    qed
    then have "b \<in> set (outbox ?t)" using st assms(5) by (simp add: settled_def)
    moreover have "mounted i ?t"
      using assms(7) pass_items_mounts [OF assms(2) takes, where now = "clock s" and s = s] by simp
    ultimately show ?thesis using older_shrinks [OF st assms(8) old] card t by simp
  qed
qed


section \<open>Pass after pass\<close>

text \<open>Before each pass some time goes by; what else happens on the instance is left out.\<close>
fun passes :: "sender \<Rightarrow> duration list \<Rightarrow> 'm fed_db_scheme \<Rightarrow> 'm fed_db_scheme" where
  "passes sn [] s = s"
| "passes sn (d # ds) s = passes sn ds (snd (RunOnce sn (s\<lparr>clock := clock s + d\<rparr>)))"

lemma RunOnce_settled:
  assumes "patient sn" "\<And>x. \<exists>r. deliverItem sn x = Returns r" "distinct (map obID (outbox s))"
  shows "distinct (map obID (outbox (snd (RunOnce sn s))))" "clock (snd (RunOnce sn s)) = clock s"
    "obID ` set (outbox (snd (RunOnce sn s))) \<subseteq> obID ` set (outbox s)"
proof -
  obtain items where items: "DueDeliveries (clock s) (batchSize sn) s = (Inr items, s)" using due_queue [of s "batchSize sn"] by blast
  then have "snd (RunOnce sn s) = snd (pass_items sn (clock s) items s)" by (simp add: RunOnce_def)
  then show "distinct (map obID (outbox (snd (RunOnce sn s))))" "clock (snd (RunOnce sn s)) = clock s"
    "obID ` set (outbox (snd (RunOnce sn s))) \<subseteq> obID ` set (outbox s)"
    using pass_items_settled [OF assms, of "clock s" items] by (simp_all add: settled_def)
qed

lemma willing_RunOnce:
  assumes "patient sn" "\<And>x. \<exists>r. deliverItem sn x = Returns r" "distinct (map obID (outbox s))" "willing sn i s"
  shows "willing sn i (snd (RunOnce sn s))"
proof -
  obtain items where items: "DueDeliveries (clock s) (batchSize sn) s = (Inr items, s)" using due_queue [of s "batchSize sn"] by blast
  then have "snd (RunOnce sn s) = snd (pass_items sn (clock s) items s)" by (simp add: RunOnce_def)
  then show ?thesis using willing_settled [OF assms(4) pass_items_settled [OF assms(1-3)]] by simp
qed

lemma passes_gone:
  assumes "patient sn" "\<And>x. \<exists>r. deliverItem sn x = Returns r"
  shows "distinct (map obID (outbox s)) \<Longrightarrow> i \<notin> obID ` set (outbox s) \<Longrightarrow> i \<notin> obID ` set (outbox (passes sn ds s))"
proof (induction ds arbitrary: s)
  case (Cons d ds)
  let ?s = "s\<lparr>clock := clock s + d\<rparr>"
  have "distinct (map obID (outbox ?s))" using Cons.prems(1) by simp
  note one = RunOnce_settled [OF assms this]
  then show ?case using Cons.IH [OF one(1)] Cons.prems(2) by auto
qed simp



text \<open>One peer takes everything, the other has no base URL to be reached at.\<close>
definition sample_answer :: RpcResponse where
  "sample_answer = \<lparr>rsID = None, rsStatus = StatusOk, rsVariant = Some ''DeliveryReceipt'', rsError = None, rsPayload = []\<rparr>"

definition answered_sender :: sender where
  "answered_sender = sample_sender\<lparr>snBatchSize := 1, snExchange := (\<lambda>_ _. Some (200, EncodeRpcResponse sample_answer)),
     snDecodeReceipt := (\<lambda>_. Some \<lparr>rcAccepted = 1, rcRejected = 0, rcRateLimited = 0\<rparr>)\<rparr>"

definition crowded_db :: fed_db where
  "crowded_db = queued_db\<lparr>peers := [sample_peer, sample_peer\<lparr>pID := ''lost'', pAddress := ''dir@c.org'', pBaseURL := []\<rparr>],
     outbox := [sample_item\<lparr>obID := ''o0'', obPeer := ''lost''\<rparr>, sample_item]\<rparr>"

lemma answered_returns:
  "deliverItem answered_sender (item, p) = (if pBaseURL p = [] then Returns (Inl ''the peer has no base URL'') else Returns (Inr outcomeAccepted))"
proof -
  have len: "length (EncodeRpcResponse sample_answer) < 200"
    by (simp add: sample_answer_def EncodeRpcResponse_def length_envelope optional_def tag24_def writeHead_def StatusOk_def VERSION_def TagEncodedCBOR_def)
  then have "DecodeRpcResponse (2 ^ 20) (EncodeRpcResponse sample_answer) = Returns sample_answer"
    by (intro decode_response) (simp_all add: sample_answer_def)
  moreover have "take (2 ^ 20) (EncodeRpcResponse sample_answer) = EncodeRpcResponse sample_answer" using len by simp
  ultimately show ?thesis
    by (simp add: deliverItem_def answered_sender_def sample_sender_def Let_def receiptOutcome_def)
      (simp add: sample_answer_def IsOk_def StatusOk_def)
qed


end
