(* ===== verification/Standing.thy ===== *)
theory Standing
  imports Requests FederationProperties Sender
begin

text \<open>
  What a service leaves alone.  OrganizationService, GatheringService and EventService write the
  core tables, the queue of webhook deliveries and the outbox: whatever does not look at these
  (the locale \<open>bystander\<close>) survives every one of their requests.  The federation's requests,
  deliveries and passes write the federation's tables and nothing else.
\<close>

named_theorems stays_intros "operations a bystander survives"

lemmas stays_rules [stays_intros] =
  keeps_bindE keeps_thenE keeps_if keeps_case_option keeps_each keeps_map_err keeps_pure keeps_require
  keeps_internal keeps_not_found keeps_reads keeps_organization_reads keeps_answered

lemmas stays_reads [stays_intros] =
  pure_viewers [THEN pure_op_keeps] pure_event_reads [THEN pure_op_keeps] pure_store_event_reads [THEN pure_op_keeps]
  pure_eventViewerFor [THEN pure_op_keeps] pure_gathering_reads [THEN pure_op_keeps]
  pure_publishDecisionFor [THEN pure_op_keeps] pure_refuseLastOwnerChange [THEN pure_op_keeps]

lemma stays_split [stays_intros]: "(\<And>a b. keeps P (k a b)) \<Longrightarrow> keeps P (case x of (a, b) \<Rightarrow> k a b)"
  by (cases x) simp

lemma stays_reading [simp]: "keeps P (\<lambda>s. (f s, s))"
  by (simp add: keeps_def)

section \<open>Beside the core services\<close>

text \<open>
  \<open>P\<close> looks at none of the tables the three services write, and survives the two statements on
  the webhooks' tables they use.
\<close>
locale bystander =
  fixes P :: "'m fed_db_scheme \<Rightarrow> bool"
  assumes untouched [simp]:
    "P (s\<lparr>minted := n\<rparr>) = P s" "P (s\<lparr>organizations := a\<rparr>) = P s" "P (s\<lparr>organization_members := b\<rparr>) = P s"
    "P (s\<lparr>gatherings := c\<rparr>) = P s" "P (s\<lparr>gathering_owners := d\<rparr>) = P s" "P (s\<lparr>gathering_members := e\<rparr>) = P s"
    "P (s\<lparr>event_series := f\<rparr>) = P s" "P (s\<lparr>events := g\<rparr>) = P s" "P (s\<lparr>event_attendance := h\<rparr>) = P s"
    "P (s\<lparr>event_roles := i\<rparr>) = P s" "P (s\<lparr>gathering_offers := j\<rparr>) = P s" "P (s\<lparr>outbox := k\<rparr>) = P s"
  and queueing [stays_intros]: "keeps P (QueueWebhookDelivery w body t)" "keeps P (DeleteWebhooksFor kind level)"
begin

lemma stays_NewID [stays_intros]: "keeps P NewID"
  by (simp add: keeps_def NewID_def)

lemma stays_gathering_statements [stays_intros]:
  "keeps P (CreateGatheringRow own kind i)" "keeps P (UpdateGatheringRow g own)"
  "keeps P (AddGatheringOwnerRow g kind i)" "keeps P (RemoveGatheringOwnerRow g kind i)"
  "keeps P (JoinGatheringRow g u)" "keeps P (LeaveGatheringRow g u)"
  "keeps P (DeleteGatheringRow g)" "keeps P (CreateGatheringOfferRow g i u note)"
  "keeps P (ResolveGatheringOffer i status)"
  unfolding CreateGatheringRow_def UpdateGatheringRow_def AddGatheringOwnerRow_def RemoveGatheringOwnerRow_def
    JoinGatheringRow_def LeaveGatheringRow_def CreateGatheringOfferRow_def ResolveGatheringOffer_def DeleteGatheringRow_def
  by (auto simp: Let_def delete_events_def delete_series_def intro!: stays_intros keeps_writes)

lemma stays_organization_statements [stays_intros]:
  "keeps P (CreateOrganizationRow org u)" "keeps P (UpdateOrganizationRow i org)"
  "keeps P (DeleteOrganizationRow i)" "keeps P (SetOrganizationMemberRow i u role)"
  "keeps P (RemoveOrganizationMemberRow i u)"
  unfolding CreateOrganizationRow_def UpdateOrganizationRow_def DeleteOrganizationRow_def SetOrganizationMemberRow_def
    RemoveOrganizationMemberRow_def
  by (auto simp: Let_def delete_events_def delete_series_def intro!: stays_intros keeps_writes)

lemma P_insert_event [simp]: "P (insert_event i e s) = P s"
  by (simp add: insert_event_def)

lemma stays_event_statements [stays_intros]:
  "keeps P (CreateEventRow e)" "keeps P (UpdateEventRow i e)" "keeps P (DeleteEventRow i)"
  "keeps P (AttendEventRow i u)" "keeps P (UnattendEventRow i u)" "keeps P (CreateEventSeriesRow x)"
  "keeps P (UpdateEventSeriesRow i x)" "keeps P (DeleteEventSeriesRow i)" "keeps P (DeleteOccurrencesFrom i t)"
  "keeps P (SetMaterializedThrough i t)" "keeps P (SetEventRoleRow sc u role)" "keeps P (RemoveEventRoleRow sc u role)"
  unfolding CreateEventRow_def UpdateEventRow_def DeleteEventRow_def AttendEventRow_def UnattendEventRow_def
    CreateEventSeriesRow_def UpdateEventSeriesRow_def DeleteEventSeriesRow_def DeleteOccurrencesFrom_def
    SetMaterializedThrough_def SetEventRoleRow_def RemoveEventRoleRow_def
  by (auto simp: Let_def delete_events_def delete_series_def intro!: stays_intros keeps_writes)

lemma stays_upsert_each: "keeps P (upsert_each es n)"
  by (induction es arbitrary: n) (auto simp: Let_def intro!: stays_intros keeps_writes)

lemma stays_UpsertOccurrences [stays_intros]: "keeps P (UpsertOccurrences i es)"
proof (rule keepsI)
  fix s assume ok: "P s"
  let ?es = "map (\<lambda>e. e\<lparr>eiSeriesID := Some i\<rparr>) es"
  obtain r t where r: "upsert_each ?es 0 s = (r, t)" by fastforce
  then have "P t" using keepsD [OF stays_upsert_each ok, of ?es 0] by simp
  with r ok show "P (snd (UpsertOccurrences i es s))"
    by (auto simp: UpsertOccurrences_def split: sum.split)
qed

lemma stays_Dispatch [stays_intros]: "keeps P (Dispatch d change)"
proof -
  have "keeps P (dispatch e change)" for e
    by (auto simp: dispatch_def matching_def ListWebhooks_def intro!: stays_intros)
  then show ?thesis by (cases d) (auto simp: keeps_def Dispatch_def)
qed

lemma stays_notify [stays_intros]:
  "keeps P (notifyOrganization d a g)" "keeps P (notifyGathering d a x xs)"
  "keeps P (notifyEvent d a e)" "keeps P (notifySeries d a y)"
  by (auto simp: notifyOrganization_def notifyGathering_def notifyEvent_def notifySeries_def Let_def
      intro!: stays_intros split: prod.splits)

lemma stays_PublishEvent [stays_intros]: "keeps P (PublishEvent p ev deleted)"
proof -
  have "keeps P (EnqueueDelivery q i body now)" for q i body now
    unfolding EnqueueDelivery_def by (auto intro!: stays_intros keeps_writes simp: Let_def)
  then show ?thesis
    by (auto simp: PublishEvent_def OutboundPeers_def envelope_def Let_def intro!: stays_intros)
qed

lemma stays_publish [stays_intros]: "keeps P (publish sv e deleted)"
  unfolding publish_def
  by (rule keepsI) (auto simp: by_id_apply publishDecisionFor_apply bindE_apply keepsD [OF stays_PublishEvent]
      split: option.split)

lemma stays_organization_handlers:
  "keeps P (GetOrganization os c i)"
  "keeps P (CreateOrganization os c n b d)" "keeps P (UpdateOrganization os c i n' b' d' p)"
  "keeps P (DeleteOrganization c i)" "keeps P (RemoveOrganizationMember c i u)"
  "keeps P (SetOrganizationMember c i u r)"
  unfolding GetOrganization_def CreateOrganization_def UpdateOrganization_def DeleteOrganization_def RemoveOrganizationMember_def
    SetOrganizationMember_def
  by (auto intro!: stays_intros)

lemma stays_gathering_handlers:
  "keeps P (GetGathering os c i)"
  "keeps P (CreateGathering os c n b d ow)" "keeps P (UpdateGathering os c i n' b' d' p)"
  "keeps P (DeleteGathering os c i)" "keeps P (JoinGathering os c i)"
  "keeps P (LeaveGathering os c i)" "keeps P (AddGatheringOwner os c i k j)"
  "keeps P (RemoveGatheringOwner os c i k j)" "keeps P (OfferGathering c i j note)"
  "keeps P (WithdrawGatheringOffer c i)" "keeps P (AdoptGathering os c i j)"
  "keeps P (RespondToGatheringOffer c i accept)"
  unfolding GetGathering_def CreateGathering_def UpdateGathering_def DeleteGathering_def JoinGathering_def LeaveGathering_def
    AddGatheringOwner_def RemoveGatheringOwner_def OfferGathering_def WithdrawGatheringOffer_def AdoptGathering_def
    RespondToGatheringOffer_def acceptOffer_def
  by (auto intro!: stays_intros)

lemma stays_event_handlers:
  "keeps P (GetEvent sv c i)"
  "keeps P (CreateEvent sv c req)" "keeps P (UpdateEvent sv c i req')"
  "keeps P (DeleteEvent sv c i)" "keeps P (AttendEvent sv c i)" "keeps P (UnattendEvent sv c i)"
  unfolding GetEvent_def CreateEvent_def UpdateEvent_def DeleteEvent_def AttendEvent_def UnattendEvent_def
  by (auto intro!: stays_intros)

lemma stays_ensureHorizon [stays_intros]: "keeps P (ensureHorizon sv x through)"
  by (auto simp: ensureHorizon_def intro!: stays_intros)

lemma stays_series_handlers:
  "keeps P (GetEventSeries sv c i)" "keeps P (CreateEventSeries sv c req)"
  "keeps P (UpdateEventSeries sv c i req')" "keeps P (DeleteEventSeries sv c i)"
  "keeps P (ExpandEventSeries sv c i t)" "keeps P (SetEventRole c ei si u r)"
  "keeps P (RemoveEventRole c ei si u r)"
  unfolding GetEventSeries_def CreateEventSeries_def UpdateEventSeries_def DeleteEventSeries_def ExpandEventSeries_def
    SetEventRole_def RemoveEventRole_def
  by (auto intro!: stays_intros)

end

section \<open>The federation's own tables\<close>

text \<open>Everything but the federation's tables and the supply of ids.\<close>
definition home :: "'m fed_db_scheme \<Rightarrow> 'm fed_db_scheme" where
  "home s = s\<lparr>minted := 0, peers := [], outbox := [], remote_events := [], origin_stats := [], seen_batches := []\<rparr>"

lemma home_of [simp]:
  "home (s\<lparr>minted := n\<rparr>) = home s" "home (s\<lparr>peers := a\<rparr>) = home s" "home (s\<lparr>outbox := b\<rparr>) = home s"
  "home (s\<lparr>remote_events := c\<rparr>) = home s" "home (s\<lparr>origin_stats := d\<rparr>) = home s" "home (s\<lparr>seen_batches := e\<rparr>) = home s"
  "home (update_peer i f s) = home s"
  by (simp_all add: home_def update_peer_def)

lemma leaves_home_NewID [leaves_intros]: "leaves home NewID"
  by (simp add: leaves_def NewID_def)

lemma leaves_split [leaves_intros]: "(\<And>a b. leaves f (k a b)) \<Longrightarrow> leaves f (case x of (a, b) \<Rightarrow> k a b)"
  by (cases x) simp

lemma leaves_sum [leaves_intros]: "(\<And>x. leaves f (m x)) \<Longrightarrow> (\<And>x. leaves f (k x)) \<Longrightarrow> leaves f (case y of Inl x \<Rightarrow> m x | Inr x \<Rightarrow> k x)"
  by (cases y) simp_all

lemma leaves_translated [simp]:
  "leaves f (shrugged m) = leaves f m" "leaves f (not_found x m') = leaves f m'" "leaves f (internal m'') = leaves f m''"
  by (simp_all add: leaves_def shrugged_def not_found_def internal_def)

lemma leaves_reading [simp]: "leaves f (\<lambda>s. (g s, s))" "leaves f (Pair r)"
  by (simp_all add: leaves_def)

lemma leaves_home_PeerByID [simp]: "leaves home (PeerByID i)"
  using pure_peers by blast

lemma leaves_home_fed_statements [leaves_intros]:
  "leaves home (CreatePeerRow own)" "leaves home (SetPeerStatusRow i inb outb ident)" "leaves home (SetPeerRateLimitRow i l)"
  "leaves home (DeletePeerRow i)" "leaves home (ResumePeerRow i t)" "leaves home (RememberBatch i b t)"
  "leaves home (ForgetBatch i b)" "leaves home (ForgetBatchesSeenBefore t)" "leaves home (UpsertRemoteEvent i r)"
  "leaves home (DeleteRemoteEvent i x)" "leaves home (DeleteRemoteEventsEndedBefore t)"
  "leaves home (ConsumePeerAllowance i w lim t)" "leaves home (ConsumeOriginAllowance i n w lim t)"
  "leaves home (RecordOriginAccepted i n t)" "leaves home (MarkDelivered i)" "leaves home (MarkDeliveryFailed i m t)"
  "leaves home (DeferDelivery i m t)" "leaves home (RecordDeliverySuccess i t)" "leaves home (RecordDeliveryFailure i m t u)"
  unfolding CreatePeerRow_def SetPeerStatusRow_def SetPeerRateLimitRow_def DeletePeerRow_def ResumePeerRow_def RememberBatch_def
    ForgetBatch_def ForgetBatchesSeenBefore_def UpsertRemoteEvent_def DeleteRemoteEvent_def DeleteRemoteEventsEndedBefore_def
    ConsumePeerAllowance_def ConsumeOriginAllowance_def RecordOriginAccepted_def MarkDelivered_def MarkDeliveryFailed_def
    DeferDelivery_def RecordDeliverySuccess_def RecordDeliveryFailure_def Let_def
  by (auto intro!: leaves_intros leaves_writes pure_peers [THEN pure_op_leaves] simp: spend_peer_def)

lemma leaves_home_take_budgets [leaves_intros]: "leaves home (take_budgets p w l t names)"
  by (induction names) (auto intro!: leaves_intros)

lemma leaves_home_walk_batch [leaves_intros]: "leaves home (walk_batch fs peer now pb budget es)"
  by (induction es arbitrary: pb budget) (auto simp: Let_def intro!: leaves_intros)

lemma leaves_home_applyBatch [leaves_intros]: "leaves home (applyBatch fs peer batch)"
  by (auto simp: applyBatch_def Let_def intro!: leaves_intros)

lemma leaves_home_DeliverEvents: "leaves home (DeliverEvents fs d :: ('m fed_db_scheme, error, DeliveryReceipt) oper)"
  unfolding leaves_def
proof
  fix s :: "'m fed_db_scheme"
  show "home (after (DeliverEvents fs d s)) = home s"
  proof (cases rule: delivery_cases [of fs d s])
    case (admitted peer batch)
    let ?u = "remembered (pID peer) (ebBatchId batch) s"
    have "home ?u = home s" by (simp add: remembered_def)
    moreover have "home (after (applyBatch fs peer batch ?u)) = home ?u" by (rule leavesD [OF leaves_home_applyBatch])
    moreover have "home (after (ForgetBatch p b t)) = home t" for p b and t :: "'m fed_db_scheme"
      by (rule leavesD [OF leaves_home_fed_statements(7)])
    ultimately show ?thesis
      by (cases "applyBatch fs peer batch ?u") (auto simp: admitted(2) releasing_def split: sum.split)
  qed simp
qed

lemma leaves_home_RequestPeering: "leaves home (RequestPeering fs q)"
  by (auto simp: RequestPeering_def Let_def intro!: leaves_intros split: sum.split)

lemma leaves_home_is_admin [simp]: "leaves home (is_admin c)"
  using pure_is_admin by blast

lemma leaves_home_peer_requests:
  "leaves home (ListPeersOp c page)" "leaves home (ResumePeer c i)" "leaves home (RemovePeer c i)" "leaves home (SetPeerRateLimit c i l)"
  "leaves home (AddPeer fs c a u n)" "leaves home (SetPeerStatus c q)"
  unfolding ListPeersOp_def ListPeers_def ResumePeer_def RemovePeer_def SetPeerRateLimit_def AddPeer_def SetPeerStatus_def
  by (auto intro!: leaves_intros simp: Let_def split: option.split)

lemma leaves_home_serve_federation: "leaves home (serve_federation fs c r)"
  by (cases r) (simp_all add: leaves_bindE leaves_home_peer_requests)

lemma home_sweep:
  fixes s :: "'m fed_db_scheme"
  shows "home (sweepExpiredRemoteEvents s) = home s"
proof -
  have "home (after (ForgetBatchesSeenBefore t u)) = home u" "home (after (DeleteRemoteEventsEndedBefore t u)) = home u"
    for t and u :: "'m fed_db_scheme"
    by (rule leavesD [OF leaves_home_fed_statements(8)] leavesD [OF leaves_home_fed_statements(11)])+
  then show ?thesis by (simp add: sweepExpiredRemoteEvents_def Let_def)
qed

lemma home_record_outcome: "home (record_outcome sn now item r s) = home s"
proof -
  note statements = leavesD [OF leaves_home_fed_statements(15)] leavesD [OF leaves_home_fed_statements(16)]
    leavesD [OF leaves_home_fed_statements(17)] leavesD [OF leaves_home_fed_statements(18)] leavesD [OF leaves_home_fed_statements(19)]
  show ?thesis
    by (cases r; simp add: record_outcome_def recordFailure_def statements)
      (simp add: recordDeferral_def recordRefusal_def recordSuccess_def statements split: deliveryOutcome.split)
qed

lemma home_pass_items: "home (snd (pass_items sn now xs s)) = home s"
proof (induction xs arbitrary: s)
  case (Cons x xs)
  show ?case
  proof (cases "deliverItem sn x")
    case (Returns r)
    obtain out t where r: "pass_items sn now xs (record_outcome sn now (fst x) r s) = (out, t)" by fastforce
    then have "home t = home s" using Cons.IH [of "record_outcome sn now (fst x) r s"] by (simp add: home_record_outcome)
    then show ?thesis using Returns r by simp
  qed simp_all
qed simp

lemma home_RunOnce: "home (snd (RunOnce sn s)) = home s"
  by (auto simp: RunOnce_def DueDeliveries_def home_pass_items split: prod.split sum.split)

end
