(* ===== verification/Webhooks.thy ===== *)
theory Webhooks
  imports Organizations StoreGatherings
begin

text \<open>
  \<open>csilservices/webhooks.go\<close>: the operations of WebhookService.  \<open>url.Parse\<close> is a field of
  the service (scheme and host of a text it accepts), and so is the configuration's answer
  to whether this is a development environment.  A fresh secret is an argument, absent when
  the system's randomness fails.  The wire form of a webhook has no secret.
\<close>

definition WebhooksPerOwner :: int where "WebhooksPerOwner = 5"

record webhook_service =
  whDevAuthAllowed :: bool
  whParseURL :: "utext \<Rightarrow> (utext \<times> utext) option"

record WireWebhook =
  wwID :: ident
  wwOwnerKind :: string
  wwOwnerId :: ident
  wwUrl :: utext
  wwScope :: string
  wwNote :: utext
  wwActive :: bool
  wwIncludeDetails :: bool
  wwFailureCount :: "64 word"
  wwLastStatus :: "64 word option"
  wwLastAttemptAt :: "instant option"
  wwCreatedAt :: instant
  wwUpdatedAt :: instant

section \<open>Values on the wire\<close>

definition showOwnerKind :: "WebhookOwnerKind \<Rightarrow> string" where
  "showOwnerKind k = (case k of WebhookOwnerOrganization \<Rightarrow> ''organization'' | WebhookOwnerGathering \<Rightarrow> ''gathering'')"

definition showScope :: "WebhookScope \<Rightarrow> string" where
  "showScope k = (case k of WebhookScopeAll \<Rightarrow> ''all'' | WebhookScopeStructure \<Rightarrow> ''structure_only'')"

definition ownerKindOf :: "string \<Rightarrow> error + WebhookOwnerKind" where
  "ownerKindOf kind = (if kind = ''organization'' then Inr WebhookOwnerOrganization
     else if kind = ''gathering'' then Inr WebhookOwnerGathering else Inl (Invalid ''owner_kind''))"

definition scopeOf :: "string \<Rightarrow> error + WebhookScope" where
  "scopeOf scope = (if scope = ''all'' then Inr WebhookScopeAll
     else if scope = ''structure_only'' then Inr WebhookScopeStructure else Inl (Invalid ''scope''))"

definition toWebhook :: "Webhook \<Rightarrow> WireWebhook" where
  "toWebhook w =
     \<lparr>wwID = wID w, wwOwnerKind = showOwnerKind (wOwnerKind w), wwOwnerId = wOwnerID w, wwUrl = wURL w,
      wwScope = showScope (wScope w), wwNote = wNote w, wwActive = wActive w, wwIncludeDetails = wIncludeDetails w,
      wwFailureCount = word_of_int (wFailureCount w), wwLastStatus = map_option word_of_int (wLastStatus w),
      wwLastAttemptAt = wLastAttemptAt w, wwCreatedAt = wCreatedAt w, wwUpdatedAt = wUpdatedAt w\<rparr>"

section \<open>Guards\<close>

definition canManage :: "caller \<Rightarrow> WebhookOwnerKind \<Rightarrow> ident \<Rightarrow> ('m core_db_scheme, error, bool) oper" where
  "canManage c kind ownerID =
     (if cIsAdmin c then ret True
      else case kind of
        WebhookOwnerOrganization \<Rightarrow>
          bindE (internal (OrganizationRoleFor ownerID (cID c))) (\<lambda>role. ret (role = Some RoleOwner))
      | WebhookOwnerGathering \<Rightarrow>
          bindE (internal (GatheringAccessFor ownerID (cID c))) (\<lambda>access. ret (IsOwner access)))"

text \<open>HTTPS, or plain HTTP where sessions are minted without an identity anyway.\<close>
definition checkURL :: "webhook_service \<Rightarrow> utext \<Rightarrow> error option" where
  "checkURL ws raw = (case whParseURL ws (TrimSpace raw) of
      None \<Rightarrow> Some (Invalid ''url'')
    | Some (scheme, host) \<Rightarrow>
        if host = [] then Some (Invalid ''url'')
        else if scheme = runes ''https'' then None
        else if scheme = runes ''http'' \<and> whDevAuthAllowed ws then None
        else Some (Invalid ''url''))"

definition refuse_url :: "webhook_service \<Rightarrow> utext \<Rightarrow> ('s, error, unit) oper" where
  "refuse_url ws raw = (case checkURL ws raw of None \<Rightarrow> ret () | Some e \<Rightarrow> failed e)"

section \<open>Operations\<close>

definition ListWebhooksOp ::
  "caller \<Rightarrow> string \<Rightarrow> ident \<Rightarrow> ('m hook_db_scheme, error, WireWebhook list \<times> 64 word) oper" where
  "ListWebhooksOp c reqKind reqOwner =
     bindE (authenticated c) (\<lambda>c.
     bindE (of_sum (ownerKindOf reqKind)) (\<lambda>kind.
     bindE (canManage c kind reqOwner) (\<lambda>allowed.
     thenE (refuse_if (\<not> allowed) Forbidden)
    (bindE (internal (ListWebhooks kind reqOwner)) (\<lambda>hooks.
       ret (map toWebhook hooks, word_of_int WebhooksPerOwner))))))"

record CreateWebhookRequest =
  cwOwnerKind :: string
  cwOwnerId :: ident
  cwUrl :: utext
  cwScope :: string
  cwNote :: utext
  cwIncludeDetails :: bool

text \<open>The level has to exist; the answer carries the secret, this once.\<close>
definition CreateWebhook ::
  "webhook_service \<Rightarrow> string option \<Rightarrow> caller \<Rightarrow> CreateWebhookRequest \<Rightarrow> ('m hook_db_scheme, error, WireWebhook \<times> string) oper" where
  "CreateWebhook ws newWebhookSecret c req =
     bindE (authenticated c) (\<lambda>c.
     bindE (of_sum (ownerKindOf (cwOwnerKind req))) (\<lambda>kind.
     bindE (of_sum (scopeOf (cwScope req))) (\<lambda>scope.
     bindE (canManage c kind (cwOwnerId req)) (\<lambda>allowed.
     thenE (refuse_if (\<not> allowed) Forbidden)
    (thenE (refuse_url ws (cwUrl req))
    (thenE (case kind of
        WebhookOwnerOrganization \<Rightarrow> bindE (not_found ''organization'' (OrganizationByID (cwOwnerId req))) (\<lambda>_. ret ())
      | WebhookOwnerGathering \<Rightarrow> bindE (not_found ''gathering'' (GatheringByID (cwOwnerId req))) (\<lambda>_. ret ()))
    (bindE (the_or Internal newWebhookSecret) (\<lambda>secret.
     bindE (map_err (\<lambda>e. if e = ErrLimitReached then Invalid ''url'' else Internal)
        (CreateWebhookRow kind (cwOwnerId req)
          \<lparr>wiURL = TrimSpace (cwUrl req), wiScope = scope, wiNote = cwNote req, wiActive = True,
           wiIncludeDetails = cwIncludeDetails req\<rparr> secret WebhooksPerOwner)) (\<lambda>created.
       ret (toWebhook created, secret))))))))))"

record UpdateWebhookRequest =
  uwId :: ident
  uwUrl :: "utext option"
  uwScope :: "string option"
  uwNote :: "utext option"
  uwActive :: "bool option"
  uwIncludeDetails :: "bool option"

text \<open>The webhook, when the caller may manage the level it hangs off.\<close>
definition managed :: "caller \<Rightarrow> ident \<Rightarrow> ('m hook_db_scheme, error, Webhook) oper" where
  "managed c i =
     bindE (authenticated c) (\<lambda>c.
     bindE (not_found ''webhook'' (WebhookByID i)) (\<lambda>current.
     bindE (canManage c (wOwnerKind current) (wOwnerID current)) (\<lambda>allowed.
     thenE (refuse_if (\<not> allowed) Forbidden) (ret current))))"

definition edited_webhook :: "Webhook \<Rightarrow> WebhookScope option \<Rightarrow> UpdateWebhookRequest \<Rightarrow> WebhookInput" where
  "edited_webhook current scope req =
     \<lparr>wiURL = (case uwUrl req of None \<Rightarrow> wURL current | Some raw \<Rightarrow> TrimSpace raw),
      wiScope = (case scope of None \<Rightarrow> wScope current | Some v \<Rightarrow> v),
      wiNote = (case uwNote req of None \<Rightarrow> wNote current | Some v \<Rightarrow> v),
      wiActive = (case uwActive req of None \<Rightarrow> wActive current | Some v \<Rightarrow> v),
      wiIncludeDetails = (case uwIncludeDetails req of None \<Rightarrow> wIncludeDetails current | Some v \<Rightarrow> v)\<rparr>"

definition UpdateWebhook ::
  "webhook_service \<Rightarrow> caller \<Rightarrow> UpdateWebhookRequest \<Rightarrow> ('m hook_db_scheme, error, WireWebhook) oper" where
  "UpdateWebhook ws c req =
     bindE (managed c (uwId req)) (\<lambda>current.
     thenE (case uwUrl req of None \<Rightarrow> ret () | Some raw \<Rightarrow> refuse_url ws raw)
    (bindE (of_sum (case uwScope req of None \<Rightarrow> Inr None
        | Some v \<Rightarrow> (case scopeOf v of Inl e \<Rightarrow> Inl e | Inr scope \<Rightarrow> Inr (Some scope)))) (\<lambda>scope.
     bindE (internal (UpdateWebhookRow (wID current) (edited_webhook current scope req))) (\<lambda>updated.
       ret (toWebhook updated)))))"

definition DeleteWebhook :: "caller \<Rightarrow> ident \<Rightarrow> ('m hook_db_scheme, error, unit) oper" where
  "DeleteWebhook c i = bindE (managed c i) (\<lambda>current. internal (DeleteWebhookRow (wID current)))"

section \<open>Requests\<close>

datatype webhook_request =
    ListWebhooksReq string ident
  | CreateWebhookReq "string option" CreateWebhookRequest
  | UpdateWebhookReq UpdateWebhookRequest
  | DeleteWebhookReq ident

fun serve_webhook :: "webhook_service \<Rightarrow> caller \<Rightarrow> webhook_request \<Rightarrow> ('m hook_db_scheme, error, unit) oper" where
  "serve_webhook ws c (ListWebhooksReq kind owner) = bindE (ListWebhooksOp c kind owner) (\<lambda>_. ret ())"
| "serve_webhook ws c (CreateWebhookReq secret req) = bindE (CreateWebhook ws secret c req) (\<lambda>_. ret ())"
| "serve_webhook ws c (UpdateWebhookReq req) = bindE (UpdateWebhook ws c req) (\<lambda>_. ret ())"
| "serve_webhook ws c (DeleteWebhookReq i) = DeleteWebhook c i"

end
