(* ===== verification/WebhookService.thy ===== *)
theory WebhookService
  imports Webhooks Dispatch Sample
begin

text \<open>
  What the operations of WebhookService promise: nobody but an owner of the level touches
  its webhooks, no level has more than five, every address stored passes the check, every
  queued delivery belongs to a webhook, and a delivery that keeps failing is dropped and its
  webhook switched off.
\<close>

section \<open>Who may\<close>

definition manages :: "caller \<Rightarrow> WebhookOwnerKind \<Rightarrow> ident \<Rightarrow> 'm core_db_scheme \<Rightarrow> bool" where
  "manages c kind owner s \<longleftrightarrow> cIsAdmin c \<or> (case kind of
      WebhookOwnerOrganization \<Rightarrow> organization_role owner (cID c) s = Some RoleOwner
    | WebhookOwnerGathering \<Rightarrow> IsOwner (gathering_access owner (cID c) s))"

text \<open>The level a request is about.\<close>
fun webhook_level :: "webhook_request \<Rightarrow> 'm hook_db_scheme \<Rightarrow> (WebhookOwnerKind \<times> ident) option" where
  "webhook_level (ListWebhooksReq kind owner) s = (case ownerKindOf kind of Inl _ \<Rightarrow> None | Inr k \<Rightarrow> Some (k, owner))"
| "webhook_level (CreateWebhookReq secret req) s = (case ownerKindOf (cwOwnerKind req) of Inl _ \<Rightarrow> None | Inr k \<Rightarrow> Some (k, cwOwnerId req))"
| "webhook_level (UpdateWebhookReq req) s = map_option (\<lambda>w. (wOwnerKind w, wOwnerID w)) (webhook_by_id (uwId req) s)"
| "webhook_level (DeleteWebhookReq i) s = map_option (\<lambda>w. (wOwnerKind w, wOwnerID w)) (webhook_by_id i s)"

definition entitled_webhook :: "caller \<Rightarrow> webhook_request \<Rightarrow> 'm hook_db_scheme \<Rightarrow> bool" where
  "entitled_webhook c r s \<longleftrightarrow> cID c \<noteq> []
     \<and> (case webhook_level r s of None \<Rightarrow> False | Some (kind, owner) \<Rightarrow> manages c kind owner s)"

lemma canManage_apply [oper_simps]: "canManage c kind owner s = (Inr (manages c kind owner s), s)"
  by (simp add: canManage_def manages_def OrganizationRoleFor_def GatheringAccessFor_def internal_def oper_simps
      split: WebhookOwnerKind.split)

lemma authenticated_apply [oper_simps]: "authenticated c s = (if cID c = [] then Inl Unauthenticated else Inr c, s)"
  by (simp add: authenticated_def)

lemma managed_apply [oper_simps]:
  "managed c i s = (if cID c = [] then (Inl Unauthenticated, s) else case webhook_by_id i s of
      None \<Rightarrow> (Inl (NotFound ''webhook''), s)
    | Some w \<Rightarrow> (if manages c (wOwnerKind w) (wOwnerID w) s then Inr w else Inl Forbidden, s))"
  by (simp add: managed_def oper_simps WebhookByID_def not_found_def the_or_def refuse_if_def split: option.split)

lemma webhook_request_refused:
  assumes "\<not> entitled_webhook c r s"
  shows "\<exists>e\<in>{Unauthenticated, Forbidden, NotFound ''webhook'', Invalid ''owner_kind'', Invalid ''scope''}.
    serve_webhook ws c r s = (Inl e, s)"
  using assms
  by (cases r)
    (auto simp: entitled_webhook_def ListWebhooksOp_def CreateWebhook_def UpdateWebhook_def DeleteWebhook_def oper_simps refuse_if_def
      ownerKindOf_def scopeOf_def split: option.splits sum.splits if_splits)

text \<open>
  C27. Nobody but an owner of the level, or an administrator, reads, adds, changes or removes
  its webhooks: any other request is answered unauthenticated, forbidden, not found or
  invalid, and changes nothing.
\<close>
theorem webhook_requests_are_guarded:
  assumes "\<not> entitled_webhook c r s"
  shows "snd (serve_webhook ws c r s) = s
    \<and> fst (serve_webhook ws c r s) \<in> Inl ` {Unauthenticated, Forbidden, NotFound ''webhook'', Invalid ''owner_kind'', Invalid ''scope''}"
  using webhook_request_refused [OF assms, of ws] by auto

section \<open>Limits\<close>

definition hooks_ok :: "webhook_service \<Rightarrow> 'm hook_db_scheme \<Rightarrow> bool" where
  "hooks_ok ws s \<longleftrightarrow> distinct (map wID (webhooks s))
     \<and> (\<forall>kind owner. count_rows (on_level kind owner) (webhooks s) \<le> WebhooksPerOwner)
     \<and> (\<forall>w\<in>set (webhooks s). checkURL ws (wURL w) = None)
     \<and> distinct (map wdID (webhook_deliveries s))
     \<and> (\<forall>d\<in>set (webhook_deliveries s). wdWebhook d \<in> wID ` set (webhooks s) \<and> 0 \<le> wdAttempts d \<and> wdAttempts d < MaxAttempts)"

lemma TrimSpace_idem [simp]: "TrimSpace (TrimSpace t) = TrimSpace t"
proof -
  let ?u = "dropWhile IsSpace t" and ?v = "TrimSpace t"
  have v: "?v = rev (dropWhile IsSpace (rev ?u))" by (simp add: TrimSpace_def trim_runes_def)
  have "prefix ?v ?u" unfolding v by (metis rev_rev_ident suffix_dropWhile suffix_to_prefix)
  have "dropWhile IsSpace ?v = ?v"
  proof (cases ?v)
    case (Cons x xs)
    then have "hd ?u = x \<and> ?u \<noteq> []" using \<open>prefix ?v ?u\<close> by (metis Nil_is_append_conv append_Cons list.distinct(1) list.sel(1) prefixE)
    then have "\<not> IsSpace x" using hd_dropWhile by metis
    then show ?thesis using Cons by simp
  qed simp
  then have "TrimSpace ?v = rev (dropWhile IsSpace (rev ?v))" by (simp add: TrimSpace_def trim_runes_def)
  also have "rev ?v = dropWhile IsSpace (rev ?u)" by (simp add: v)
  finally show ?thesis by (simp add: v dropWhile_eq_self_iff hd_dropWhile)
qed

lemma hooks_ok_frame:
  "hooks_ok ws s \<Longrightarrow> webhooks t = webhooks s \<Longrightarrow> webhook_deliveries t = webhook_deliveries s \<Longrightarrow> hooks_ok ws t"
  by (simp add: hooks_ok_def)

lemma hooks_ok_minted [simp]: "hooks_ok ws (s\<lparr>minted := n\<rparr>) = hooks_ok ws s"
  by (simp add: hooks_ok_def)

lemma keeps_hooks_NewID [keeps_intros]: "keeps (hooks_ok ws) NewID"
  by (rule keeps_NewID) simp

lemma count_set_rows:
  "(\<And>x. q (f x) = q x) \<Longrightarrow> count_rows q (set_rows p f t) = count_rows q t"
  by (induction t) (auto simp: count_rows_def set_rows_def)

lemma count_del_rows: "count_rows q (del_rows p t) \<le> count_rows q t"
  by (induction t) (auto simp: count_rows_def del_rows_def)

text \<open>Webhook rows rewritten in place, with their ids, levels and addresses kept or checked.\<close>
lemma hooks_ok_set_rows:
  assumes "hooks_ok ws s" "\<And>x. wID (f x) = wID x" "\<And>x. wOwnerKind (f x) = wOwnerKind x" "\<And>x. wOwnerID (f x) = wOwnerID x"
    "\<And>x. checkURL ws (wURL x) = None \<Longrightarrow> checkURL ws (wURL (f x)) = None"
  shows "hooks_ok ws (s\<lparr>webhooks := set_rows p f (webhooks s)\<rparr>)"
proof -
  have "wID ` set (set_rows p f (webhooks s)) = wID ` set (webhooks s)"
    using assms(2) by (rule set_rows_key_set)
  moreover have "map wID (set_rows p f (webhooks s)) = map wID (webhooks s)" using assms(2) by (rule set_rows_keys)
  moreover have "count_rows (on_level kind owner) (set_rows p f (webhooks s)) = count_rows (on_level kind owner) (webhooks s)" for kind owner
    by (rule count_set_rows) (simp add: on_level_def assms)
  ultimately show ?thesis using assms(1,5) by (auto simp: hooks_ok_def simp del: set_set_rows) (auto simp: set_rows_def)
qed

lemma distinct_del_rows: "distinct (map k t) \<Longrightarrow> distinct (map k (del_rows p t))"
  by (simp add: del_rows_def distinct_map_filter)

lemma hooks_ok_delete:
  assumes "hooks_ok ws s"
  shows "hooks_ok ws (delete_webhooks p s)"
proof -
  have count: "count_rows (on_level kind owner) (del_rows p (webhooks s)) \<le> WebhooksPerOwner" for kind owner
    using assms order_trans [OF count_del_rows] unfolding hooks_ok_def by blast
  have "wdWebhook d \<in> wID ` {x \<in> set (webhooks s). \<not> p x}"
    if "d \<in> set (webhook_deliveries s)" "\<forall>x\<in>set (webhooks s). p x \<longrightarrow> wID x \<noteq> wdWebhook d" for d
    using assms that by (fastforce simp: hooks_ok_def)
  then show ?thesis using assms count
    by (auto simp: hooks_ok_def delete_webhooks_def distinct_map_filter distinct_del_rows)
qed

lemma hooks_ok_deliveries:
  assumes "hooks_ok ws s" "distinct (map wdID ds)"
    "\<And>d. d \<in> set ds \<Longrightarrow> wdWebhook d \<in> wID ` set (webhooks s) \<and> 0 \<le> wdAttempts d \<and> wdAttempts d < MaxAttempts"
  shows "hooks_ok ws (s\<lparr>webhook_deliveries := ds\<rparr>)"
  using assms by (simp add: hooks_ok_def)

lemma keeps_hooks_CreateWebhookRow:
  assumes "checkURL ws (wiURL own) = None"
  shows "keeps (hooks_ok ws) (CreateWebhookRow kind owner own secret WebhooksPerOwner)"
  unfolding CreateWebhookRow_def
proof (rule keeps_bindE [OF keeps_hooks_NewID], rule keepsI)
  fix i and s :: "'m hook_db_scheme" assume ok: "hooks_ok ws s"
  let ?w = "\<lparr>wID = i, wOwnerKind = kind, wOwnerID = owner, wURL = wiURL own, wSecret = secret,
          wScope = wiScope own, wNote = wiNote own, wActive = True, wIncludeDetails = wiIncludeDetails own,
          wFailureCount = 0, wLastStatus = None, wLastAttemptAt = None,
          wCreatedAt = nowSQL s, wUpdatedAt = nowSQL s\<rparr>"
  have "hooks_ok ws (s\<lparr>webhooks := webhooks s @ [?w]\<rparr>)"
    if "count_rows (on_level kind owner) (webhooks s) < WebhooksPerOwner" "\<forall>w\<in>set (webhooks s). wID w \<noteq> i"
    using ok that assms by (auto simp: hooks_ok_def count_rows_def on_level_def)
  then show "hooks_ok ws (after (thenE (require (\<lambda>s. count_rows (on_level kind owner) (webhooks s) < WebhooksPerOwner) ErrLimitReached)
    (thenE (require (\<lambda>s. \<not> has_row (\<lambda>w. wID w = i) (webhooks s)) DBError)
    (thenE (writes (\<lambda>s. s\<lparr>webhooks := webhooks s @
        [\<lparr>wID = i, wOwnerKind = kind, wOwnerID = owner, wURL = wiURL own, wSecret = secret,
          wScope = wiScope own, wNote = wiNote own, wActive = True, wIncludeDetails = wiIncludeDetails own,
          wFailureCount = 0, wLastStatus = None, wLastAttemptAt = None,
          wCreatedAt = nowSQL s, wUpdatedAt = nowSQL s\<rparr>]\<rparr>))
     (WebhookByID i))) s))"
    using ok by (auto simp: WebhookByID_def the_or_def bindE_apply split: option.split)
qed

lemma pure_webhook_reads [simp]:
  "pure_op (WebhookByID i)" "pure_op (ListWebhooks kind i)" "pure_op (canManage c kind i)" "pure_op (managed c i)" "pure_op (refuse_url ws t)"
  by (auto simp: pure_op_def WebhookByID_def ListWebhooks_def oper_simps the_or_def refuse_url_def split: option.split)

lemma keeps_hooks_UpdateWebhookRow:
  assumes "checkURL ws (wiURL own) = None"
  shows "keeps (hooks_ok ws) (UpdateWebhookRow i own)"
  unfolding UpdateWebhookRow_def
  by (intro keeps_thenE keeps_writes hooks_ok_set_rows pure_op_keeps pure_webhook_reads) (simp_all add: assms)

lemma keeps_hooks_statements:
  "keeps (hooks_ok ws) (DeleteWebhookRow i)" "keeps (hooks_ok ws) (DeleteWebhooksFor kind j)"
  "keeps (hooks_ok ws) (QueueWebhookDelivery w body now)" "keeps (hooks_ok ws) (WebhookDelivered d w status now)"
proof -
  show "keeps (hooks_ok ws) (DeleteWebhookRow i)" "keeps (hooks_ok ws) (DeleteWebhooksFor kind j)"
    by (simp_all add: DeleteWebhookRow_def DeleteWebhooksFor_def keeps_writes hooks_ok_delete)
  show "keeps (hooks_ok ws) (QueueWebhookDelivery w body now)"
    unfolding QueueWebhookDelivery_def
    by (rule keeps_bindE [OF keeps_hooks_NewID], rule keepsI) (auto intro!: hooks_ok_deliveries simp: hooks_ok_def MaxAttempts_def)
  show "keeps (hooks_ok ws) (WebhookDelivered d w status now)"
    unfolding WebhookDelivered_def
    by (intro keeps_thenE keeps_writes hooks_ok_set_rows hooks_ok_deliveries)
      (auto simp: hooks_ok_def distinct_map_filter del_rows_def)
qed

lemma keeps_hooks_WebhookFailed: "keeps (hooks_ok ws) (WebhookFailed d w status reason nextTry MaxAttempts)"
proof (rule keepsI)
  fix s :: "'m hook_db_scheme" assume ok: "hooks_ok ws s"
  let ?f = "\<lambda>x. x\<lparr>wFailureCount := wFailureCount x + 1, wLastStatus := Some status, wLastAttemptAt := Some (stored_time nextTry)\<rparr>"
  let ?g = "\<lambda>x. x\<lparr>wdAttempts := wdAttempts x + 1, wdNextTryAt := stored_time nextTry, wdLastError := reason\<rparr>"
  let ?u = "s\<lparr>webhooks := set_rows (\<lambda>x. wID x = w) ?f (webhooks s)\<rparr>"
  have u: "hooks_ok ws ?u" using ok by (rule hooks_ok_set_rows) simp_all
  have keys: "map wdID (set_rows p ?g ds) = map wdID ds" for p ds by (rule set_rows_keys) simp
  have off: "hooks_ok ws (t\<lparr>webhooks := set_rows (\<lambda>x. wID x = w) (\<lambda>x. x\<lparr>wActive := False\<rparr>) (webhooks t)\<rparr>)" if "hooks_ok ws t" for t :: "'m hook_db_scheme"
    using that by (rule hooks_ok_set_rows) simp_all
  let ?set = "set_rows (\<lambda>x. wdID x = d) ?g (webhook_deliveries s)"
  show "hooks_ok ws (after (WebhookFailed d w status reason nextTry MaxAttempts s))"
  proof (cases "row (\<lambda>x. wdID x = d) (webhook_deliveries s)")
    case None
    then show ?thesis using ok by (simp add: WebhookFailed_def)
  next
    case (Some x)
    note x = row_SomeD [OF Some]
    have unique: "y = x" if "y \<in> set (webhook_deliveries s)" "wdID y = d" for y
      using ok x that distinct_map_inj [of wdID] by (metis hooks_ok_def)
    have rows: "wdWebhook y \<in> wID ` set (webhooks ?u) \<and> 0 \<le> wdAttempts y \<and> wdAttempts y < MaxAttempts"
      if "y \<in> set (webhook_deliveries s)" for y using u that by (simp add: hooks_ok_def)
    show ?thesis
    proof (cases "MaxAttempts \<le> wdAttempts x + 1")
      case True
      have "distinct (map wdID (del_rows (\<lambda>x. wdID x = d) ?set))" using ok by (intro distinct_del_rows) (simp add: keys hooks_ok_def)
      then have "hooks_ok ws (?u\<lparr>webhook_deliveries := del_rows (\<lambda>x. wdID x = d) ?set\<rparr>)"
        by (rule hooks_ok_deliveries [OF u]) (use rows in \<open>auto split: if_splits\<close>)
      from off [OF this] show ?thesis using Some True by (simp add: WebhookFailed_def Let_def)
    next
      case False
      have "hooks_ok ws (?u\<lparr>webhook_deliveries := ?set\<rparr>)"
        by (rule hooks_ok_deliveries [OF u]) (use ok rows unique False in \<open>auto simp: keys hooks_ok_def split: if_splits\<close>)
      then show ?thesis using Some False by (rule_tac hooks_ok_frame) (auto simp: WebhookFailed_def Let_def)
    qed
  qed
qed

lemma scope_choice_keeps [simp]: "keeps P (of_sum r)"
  by (simp add: keeps_def)

lemma keeps_hooks_url:
  assumes "\<And>u. checkURL ws raw = None \<Longrightarrow> keeps (hooks_ok ws) m"
  shows "keeps (hooks_ok ws) (thenE (refuse_url ws raw) m)"
  using assms by (cases "checkURL ws raw") (auto simp: refuse_url_def)

lemma checkURL_trim [simp]: "checkURL ws (TrimSpace raw) = checkURL ws raw"
  by (simp add: checkURL_def)

lemma keeps_levels [simp]: "keeps P (OrganizationByID i)" "keeps P (GatheringByID j)"
  by (auto simp: GatheringByID_def intro!: pure_op_keeps pure_op_bindE)

lemma keeps_hooks_CreateWebhook: "keeps (hooks_ok ws) (CreateWebhook ws secret c req)"
  unfolding CreateWebhook_def
  by (auto simp: not_found_def intro!: keeps_bindE keeps_thenE keeps_hooks_url keeps_map_err keeps_hooks_CreateWebhookRow split: WebhookOwnerKind.split
      intro: pure_op_keeps)

lemma keeps_hooks_UpdateWebhook: "keeps (hooks_ok ws) (UpdateWebhook ws c req)"
proof (rule keepsI)
  fix s :: "'m hook_db_scheme" assume ok: "hooks_ok ws s"
  show "hooks_ok ws (after (UpdateWebhook ws c req s))"
  proof (cases "managed c (uwId req) s")
    case (Pair r t)
    then have t: "t = s" using pure_opD [OF pure_webhook_reads(4)] by blast
    show ?thesis
    proof (cases r)
      case (Inr w)
      then have "webhook_by_id (uwId req) s = Some w" using Pair by (auto simp: managed_apply split: option.splits if_splits)
      then have "w \<in> set (webhooks s)" using row_SomeD by (fastforce simp: webhook_by_id_def)
      then have w: "checkURL ws (wURL w) = None" using ok by (simp add: hooks_ok_def)
      have "keeps (hooks_ok ws) (thenE (case uwUrl req of None \<Rightarrow> ret () | Some raw \<Rightarrow> refuse_url ws raw)
        (bindE (of_sum x) (\<lambda>scope. bindE (internal (UpdateWebhookRow (wID w) (edited_webhook w scope req))) (\<lambda>updated. ret (toWebhook updated)))))"
        (is "keeps _ (thenE _ (?m x))") for x
      proof (cases "uwUrl req")
        case None
        then show ?thesis using w by (auto simp: edited_webhook_def intro!: keeps_bindE keeps_internal keeps_hooks_UpdateWebhookRow)
      next
        case (Some raw)
        then show ?thesis by (auto simp: edited_webhook_def intro!: keeps_hooks_url keeps_bindE keeps_internal keeps_hooks_UpdateWebhookRow)
      qed
      from keepsD [OF this ok] show ?thesis using Pair Inr t by (simp add: UpdateWebhook_def bindE_apply)
    qed (use Pair t ok in \<open>simp add: UpdateWebhook_def bindE_apply\<close>)
  qed
qed

lemma keeps_hooks_serve: "keeps (hooks_ok ws) (serve_webhook ws c r)"
proof (cases r)
  case (ListWebhooksReq kind owner)
  then show ?thesis
    by (auto simp: ListWebhooksOp_def bindE_assoc intro!: pure_op_keeps pure_op_bindE pure_op_thenE)
next
  case (DeleteWebhookReq i)
  then show ?thesis by (auto simp: DeleteWebhook_def intro!: keeps_bindE keeps_internal keeps_hooks_statements intro: pure_op_keeps)
qed (auto intro!: keeps_bindE keeps_hooks_CreateWebhook keeps_hooks_UpdateWebhook)

lemma hooks_ok_Drain: "hooks_ok ws s \<Longrightarrow> hooks_ok ws (Drain post s)"
proof -
  have one: "keeps (hooks_ok ws) (deliver post d)" for d
    unfolding deliver_def
    by (cases "post d") (auto intro!: keeps_bindE keeps_hooks_statements(4) keeps_hooks_WebhookFailed split: option.split)
  have "hooks_ok ws t \<Longrightarrow> hooks_ok ws (drain_each post ds t)" for ds and t :: "'a hook_db_scheme"
    by (induction ds arbitrary: t) (auto simp: keepsD [OF one])
  then show "hooks_ok ws s \<Longrightarrow> hooks_ok ws (Drain post s)" by (simp add: Drain_def DueWebhookDeliveries_def)
qed

section \<open>A failing receiver\<close>

lemma backoff_attempts:
  assumes "0 \<le> n" "n < MaxAttempts"
  shows "backoff n = 2 ^ nat n * minute" "minute \<le> backoff n" "backoff n \<le> 32 * minute"
proof -
  have "n \<in> {0, 1, 2, 3, 4, 5}" using assms by (auto simp: MaxAttempts_def)
  then have "backoff n = 2 ^ nat n * minute \<and> minute \<le> backoff n \<and> backoff n \<le> 32 * minute"
    by (elim insertE emptyE) (simp_all add: backoff_def minute_def second_def)
  then show "backoff n = 2 ^ nat n * minute" "minute \<le> backoff n" "backoff n \<le> 32 * minute" by blast+
qed

lemma in_set_rows: "x \<in> set t \<Longrightarrow> p x \<Longrightarrow> f x \<in> set (set_rows p f t)"
  by (auto simp: set_rows_def)

lemma later_second: "second \<le> x \<Longrightarrow> now < stored_time (now + x)"
  by (simp add: stored_time_def second_def)

text \<open>
  A failed delivery is tried again after one, two, four, eight, sixteen minutes, and the
  sixth failure drops it and switches its webhook off; but what the webhook's owner is shown
  as the time of the last attempt is the time of the next one, which has not come yet.
\<close>
theorem failed_attempts_are_dated_in_the_future:
  assumes ok: "hooks_ok ws s" and x: "x \<in> set (webhook_deliveries s)" "wdID x = dvID d" "wdWebhook x = dvWebhookID d"
    "wdAttempts x = dvAttempts d" and post: "post d = (status, Some reason)"
  shows "\<exists>w\<in>set (webhooks (after (deliver post d s))). wID w = dvWebhookID d
     \<and> wLastAttemptAt w = Some (stored_time (clock s + 2 ^ nat (dvAttempts d) * minute)) \<and> clock s < the (wLastAttemptAt w)
     \<and> (dvAttempts d = 5 \<longrightarrow> \<not> wActive w \<and> dvID d \<notin> wdID ` set (webhook_deliveries (after (deliver post d s))))
     \<and> (dvAttempts d < 5 \<longrightarrow> (\<exists>y\<in>set (webhook_deliveries (after (deliver post d s))). wdID y = dvID d
          \<and> wdAttempts y = dvAttempts d + 1 \<and> wdNextTryAt y = stored_time (clock s + 2 ^ nat (dvAttempts d) * minute)))"
proof -
  let ?n = "dvAttempts d" and ?next = "stored_time (clock s + 2 ^ nat (dvAttempts d) * minute)"
  have "wdWebhook x \<in> wID ` set (webhooks s) \<and> 0 \<le> wdAttempts x \<and> wdAttempts x < MaxAttempts"
    using ok x(1) unfolding hooks_ok_def by blast
  then have n: "0 \<le> ?n" "?n < MaxAttempts" and hook: "\<exists>w\<in>set (webhooks s). wID w = dvWebhookID d"
    using x by auto
  note b = backoff_attempts [OF n]
  have "second \<le> minute" by (simp add: minute_def second_def)
  then have late: "clock s < ?next" using b(2) unfolding b(1) by (intro later_second) (rule order_trans)
  have row: "row (\<lambda>y. wdID y = dvID d) (webhook_deliveries s) = Some x"
  proof -
    obtain y where y: "row (\<lambda>y. wdID y = dvID d) (webhook_deliveries s) = Some y"
      using x row_Some_iff_has [of "\<lambda>y. wdID y = dvID d"] by auto
    then have "y = x" using row_SomeD [OF y] x ok distinct_map_inj [of wdID] by (metis hooks_ok_def)
    then show ?thesis using y by simp
  qed
  obtain w where w: "w \<in> set (webhooks s)" "wID w = dvWebhookID d" using hook by blast
  let ?w = "w\<lparr>wFailureCount := wFailureCount w + 1, wLastStatus := Some status, wLastAttemptAt := Some ?next\<rparr>"
  have failed: "?w \<in> set (set_rows (\<lambda>x. wID x = dvWebhookID d) (\<lambda>x. x\<lparr>wFailureCount := wFailureCount x + 1, wLastStatus := Some status,
      wLastAttemptAt := Some ?next\<rparr>) (webhooks s))"
    using in_set_rows [OF w(1), of "\<lambda>x. wID x = dvWebhookID d" "\<lambda>x. x\<lparr>wFailureCount := wFailureCount x + 1, wLastStatus := Some status,
      wLastAttemptAt := Some ?next\<rparr>"] w(2) by simp
  note failed_off = in_set_rows [OF failed, of "\<lambda>x. wID x = dvWebhookID d" "\<lambda>x. x\<lparr>wActive := False\<rparr>"]
  show ?thesis
  proof (cases "?n = 5")
    case True
    have "?w\<lparr>wActive := False\<rparr> \<in> set (webhooks (after (deliver post d s)))"
      using row x(4) True w(2) failed_off by (simp add: deliver_def post WebhookFailed_def MaxAttempts_def Let_def b(1) [unfolded True] del: set_set_rows)
    moreover have "dvID d \<notin> wdID ` set (webhook_deliveries (after (deliver post d s)))"
      using row x(4) True by (simp add: deliver_def post WebhookFailed_def MaxAttempts_def Let_def image_iff del: set_set_rows) metis
    ultimately show ?thesis using w(2) late True by (intro bexI [of _ "?w\<lparr>wActive := False\<rparr>"] conjI) (simp_all del: set_set_rows)
  next
    case False
    then have lt: "?n < 5" using n(2) by (simp add: MaxAttempts_def)
    have "?w \<in> set (webhooks (after (deliver post d s)))"
      using row x(4) lt w(2) failed by (simp add: deliver_def post WebhookFailed_def MaxAttempts_def Let_def b(1) del: set_set_rows)
    moreover have "x\<lparr>wdAttempts := wdAttempts x + 1, wdNextTryAt := ?next, wdLastError := reason\<rparr>
        \<in> set (webhook_deliveries (after (deliver post d s)))"
      using in_set_rows [OF x(1), of "\<lambda>y. wdID y = dvID d" "\<lambda>y. y\<lparr>wdAttempts := wdAttempts y + 1, wdNextTryAt := ?next, wdLastError := reason\<rparr>"]
        row x(2,4) lt by (simp add: deliver_def post WebhookFailed_def MaxAttempts_def Let_def b(1) del: set_set_rows)
    ultimately show ?thesis using w(2) late lt x(2,4)
      by (intro bexI [of _ ?w] conjI impI bexI [of _ "x\<lparr>wdAttempts := wdAttempts x + 1, wdNextTryAt := ?next, wdLastError := reason\<rparr>"])
        (simp_all del: set_set_rows)
  qed
qed

section \<open>Instances\<close>

definition sample_webhooks :: webhook_service where
  "sample_webhooks = \<lparr>whDevAuthAllowed = False, whParseURL = (\<lambda>raw. if raw = [1] then Some (runes ''https'', [2]) else None)\<rparr>"

definition sample_hook :: Webhook where
  "sample_hook = \<lparr>wID = ''h1'', wOwnerKind = WebhookOwnerOrganization, wOwnerID = ''org'', wURL = [1], wSecret = ''s'',
     wScope = WebhookScopeAll, wNote = [], wActive = True, wIncludeDetails = False, wFailureCount = 5, wLastStatus = None,
     wLastAttemptAt = None, wCreatedAt = 0, wUpdatedAt = 0\<rparr>"

definition sample_queued :: delivery_row where
  "sample_queued = \<lparr>wdID = ''d1'', wdWebhook = ''h1'', wdPayload = \<lparr>plAction = ActionCreated, plSubject = SubjectOrganization,
       plID = ''org'', plName = [], plGathering = [], plURL = [], plAt = 0, plInstance = ''a.org'', plDetails = None\<rparr>,
     wdAttempts = 5, wdNextTryAt = 0, wdLastError = [], wdCreatedAt = 0\<rparr>"

definition hooked_db :: fed_db where
  "hooked_db = sample_db\<lparr>webhooks := [sample_hook], webhook_deliveries := [sample_queued]\<rparr>"

definition sample_dv :: WebhookDelivery where
  "sample_dv = \<lparr>dvID = ''d1'', dvWebhookID = ''h1'', dvPayload = wdPayload sample_queued, dvAttempts = 5, dvURL = [1], dvSecret = ''s''\<rparr>"

lemma sample_hooks_ok: "hooks_ok sample_webhooks hooked_db"
proof -
  have "TrimSpace [1] = [1]" by code_simp
  then have "checkURL sample_webhooks [1] = None" by (simp add: checkURL_def sample_webhooks_def)
  then show ?thesis
    by (simp add: hooks_ok_def hooked_db_def sample_hook_def sample_queued_def count_rows_def WebhooksPerOwner_def MaxAttempts_def)
qed

theorem failed_attempts_are_dated_in_the_future_witness:
  "\<exists>w\<in>set (webhooks (after (deliver (\<lambda>_. (500, Some ''refused'')) sample_dv hooked_db))).
     wLastAttemptAt w = Some (stored_time (clock hooked_db + 32 * minute)) \<and> \<not> wActive w"
  using failed_attempts_are_dated_in_the_future [OF sample_hooks_ok, of sample_queued sample_dv "\<lambda>_. (500, Some ''refused'')" 500 "''refused''"]
  by (auto simp: hooked_db_def sample_queued_def sample_dv_def)

theorem webhook_requests_are_guarded_witness:
  "snd (serve_webhook sample_webhooks \<lparr>cID = ''eve'', cIsAdmin = False\<rparr> (DeleteWebhookReq ''h1'') hooked_db) = hooked_db"
proof -
  have "\<not> entitled_webhook \<lparr>cID = ''eve'', cIsAdmin = False\<rparr> (DeleteWebhookReq ''h1'') hooked_db"
    by (simp add: entitled_webhook_def hooked_db_def sample_hook_def webhook_by_id_def manages_def organization_role_def sample_defs)
  then show ?thesis using webhook_requests_are_guarded by blast
qed

end
