(* ===== verification/StoreSessions.thy ===== *)
theory StoreSessions
  imports StoreFederation Text
begin

text \<open>
  The rest of \<open>store/sqlite/sqlite.go\<close>: the statements on \<open>users\<close>, \<open>sessions\<close> and \<open>greetings\<close>,
  with their constraints (000001, 000008).  A session row holds the hash of its token, never the
  token.
\<close>

section \<open>Rows\<close>

record Session =
  ssID :: ident
  ssUserID :: ident
  ssTokenHash :: string
  ssCreatedAt :: instant
  ssExpiresAt :: instant

record greeting_row =
  gtID :: ident
  gtAuthor :: "ident option"
  gtMessage :: utext
  gtCreatedAt :: instant

record session_db = fed_db +
  sessions :: "Session list"
  greetings :: "greeting_row list"

section \<open>People\<close>

record UpsertUserParams =
  upLinkkeysDomain :: string
  upLinkkeysUserID :: string
  upHandle :: string
  upDisplayName :: utext
  upKind :: UserKind

definition same_identity :: "UpsertUserParams \<Rightarrow> User \<Rightarrow> bool" where
  "same_identity p u \<longleftrightarrow> uLinkkeysDomain u = upLinkkeysDomain p \<and> uLinkkeysUserID u = upLinkkeysUserID p"

text \<open>\<open>users_domain_handle_idx\<close>: somebody else at the domain has the handle.\<close>
definition handle_taken :: "UpsertUserParams \<Rightarrow> 'm core_db_scheme \<Rightarrow> bool" where
  "handle_taken p s = has_row (\<lambda>u. \<not> same_identity p u \<and> uLinkkeysDomain u = upLinkkeysDomain p \<and> uHandle u = upHandle p) (users s)"

text \<open>INSERT ... ON CONFLICT (linkkeys_domain, linkkeys_user_id) DO UPDATE ... RETURNING.\<close>
definition UpsertUser :: "UpsertUserParams \<Rightarrow> ('m core_db_scheme, store_error, User) oper" where
  "UpsertUser p =
     bindE NewID (\<lambda>i.
     thenE (require (\<lambda>s. \<not> handle_taken p s \<and> (has_row (same_identity p) (users s) \<or> \<not> user_exists i s)) DBError)
    (thenE (writes (\<lambda>s. s\<lparr>users :=
        (if has_row (same_identity p) (users s)
         then set_rows (same_identity p) (\<lambda>u. u\<lparr>uHandle := upHandle p, uDisplayName := upDisplayName p\<rparr>) (users s)
         else users s @ [\<lparr>uID = i, uLinkkeysDomain = upLinkkeysDomain p, uLinkkeysUserID = upLinkkeysUserID p,
                uHandle = upHandle p, uDisplayName = upDisplayName p, uKind = upKind p, uCreatedAt = nowSQL s,
                uIsAdmin = False, uAdminGrantedAt = None\<rparr>])\<rparr>))
     (bindE (reads (\<lambda>s. row (same_identity p) (users s))) (the_or DBError))))"

section \<open>Sessions\<close>

text \<open>The caller's row comes back with the time the database gave it.\<close>
definition CreateSession :: "Session \<Rightarrow> ('m session_db_scheme, store_error, Session) oper" where
  "CreateSession sess =
     thenE (require (\<lambda>s. \<not> has_row (\<lambda>x. ssID x = ssID sess \<or> ssTokenHash x = ssTokenHash sess) (sessions s)
        \<and> user_exists (ssUserID sess) s) DBError)
    (bindE (reads nowSQL) (\<lambda>now.
     thenE (writes (\<lambda>s. s\<lparr>sessions := sessions s @ [sess\<lparr>ssCreatedAt := now, ssExpiresAt := stored_time (ssExpiresAt sess)\<rparr>]\<rparr>))
       (ret (sess\<lparr>ssCreatedAt := now\<rparr>))))"

text \<open>\<open>sessionByTokenHashSQL\<close>: the unexpired session with this hash, joined to its person.\<close>
definition session_of :: "string \<Rightarrow> 'm session_db_scheme \<Rightarrow> (Session \<times> User) option" where
  "session_of h s = Option.bind (row (\<lambda>x. ssTokenHash x = h \<and> nowSQL s < ssExpiresAt x) (sessions s))
     (\<lambda>x. map_option (\<lambda>u. (x, u)) (row (\<lambda>u. uID u = ssUserID x) (users s)))"

definition SessionByTokenHash :: "string \<Rightarrow> ('m session_db_scheme, store_error, Session \<times> User) oper" where
  "SessionByTokenHash h = bindE (reads (session_of h)) (the_or ErrNotFound)"

definition DeleteSession :: "ident \<Rightarrow> ('m session_db_scheme, store_error, unit) oper" where
  "DeleteSession i = writes (\<lambda>s. s\<lparr>sessions := del_rows (\<lambda>x. ssID x = i) (sessions s)\<rparr>)"

definition DeleteExpiredSessions :: "('m session_db_scheme, store_error, int) oper" where
  "DeleteExpiredSessions =
     bindE (reads (\<lambda>s. count_rows (\<lambda>x. ssExpiresAt x \<le> nowSQL s) (sessions s))) (\<lambda>n.
     thenE (writes (\<lambda>s. s\<lparr>sessions := del_rows (\<lambda>x. ssExpiresAt x \<le> nowSQL s) (sessions s)\<rparr>)) (ret n))"

section \<open>Greetings\<close>

record Greeting =
  gID :: ident
  gAuthorID :: "ident option"
  gAuthorHandle :: "string option"
  gMessage :: utext
  gCreatedAt :: instant

text \<open>\<open>greetingColumnsSQL\<close>: a greeting left-joined to its author.\<close>
definition scanGreeting :: "'m session_db_scheme \<Rightarrow> greeting_row \<Rightarrow> Greeting" where
  "scanGreeting s g =
     \<lparr>gID = gtID g, gAuthorID = gtAuthor g,
      gAuthorHandle = Option.bind (gtAuthor g) (\<lambda>a. map_option uHandle (row (\<lambda>u. uID u = a) (users s))),
      gMessage = gtMessage g, gCreatedAt = gtCreatedAt g\<rparr>"

definition greeting_by_id :: "ident \<Rightarrow> 'm session_db_scheme \<Rightarrow> Greeting option" where
  "greeting_by_id i s = map_option (scanGreeting s) (row (\<lambda>g. gtID g = i) (greetings s))"

definition GreetingByID :: "ident \<Rightarrow> ('m session_db_scheme, store_error, Greeting) oper" where
  "GreetingByID i = bindE (reads (greeting_by_id i)) (the_or ErrNotFound)"

definition CreateGreetingRow :: "ident \<Rightarrow> utext \<Rightarrow> ('m session_db_scheme, store_error, Greeting) oper" where
  "CreateGreetingRow author message =
     bindE NewID (\<lambda>i.
     thenE (require (\<lambda>s. \<not> has_row (\<lambda>g. gtID g = i) (greetings s) \<and> user_exists author s) DBError)
    (thenE (writes (\<lambda>s. s\<lparr>greetings := greetings s @
        [\<lparr>gtID = i, gtAuthor = Some author, gtMessage = message, gtCreatedAt = nowSQL s\<rparr>]\<rparr>))
     (GreetingByID i)))"

text \<open>Newest first, the ids deciding between greetings of one second.\<close>
definition ListGreetingsRow :: "('m session_db_scheme, store_error, Greeting list) oper" where
  "ListGreetingsRow = reads (\<lambda>s. map (scanGreeting s) (rev (sort_key (\<lambda>g. (gtCreatedAt g, gtID g)) (greetings s))))"

end
