(* ===== verification/Nonce.thy ===== *)
theory Nonce
  imports Cbor Store
begin

text \<open>
  \<open>linkkeys/nonce.go\<close>: the nonce that travels to the identity provider and back, and the
  parts of Go's \<open>encoding/base64\<close> (\<open>RawURLEncoding\<close>), \<open>encoding/binary\<close> and \<open>time\<close> it is
  written with.  HMAC-SHA256 is a parameter \<open>hm\<close>, from a secret and a text to 32 bytes; the
  time is what \<open>time.Now\<close> reads, the 16 random bytes are an argument.
\<close>

section \<open>base64.RawURLEncoding\<close>

definition alphabet :: string where
  "alphabet = ''ABCDEFGHIJKLMNOPQRSTUVWXYZabcdefghijklmnopqrstuvwxyz0123456789-_''"

definition sextet_char :: "nat \<Rightarrow> char" where
  "sextet_char n = alphabet ! (n mod 64)"

definition char_sextet :: "char \<Rightarrow> nat option" where
  "char_sextet c = index_of c alphabet"

text \<open>Three bytes give four characters; one and two left over give two and three.\<close>
fun EncodeToString :: "bytes \<Rightarrow> string" where
  "EncodeToString (a # b # c # bs) =
     (let v = unat a * 65536 + unat b * 256 + unat c
      in sextet_char (v div 262144) # sextet_char (v div 4096) # sextet_char (v div 64) # sextet_char v # EncodeToString bs)"
| "EncodeToString [a, b] =
     (let v = unat a * 65536 + unat b * 256
      in [sextet_char (v div 262144), sextet_char (v div 4096), sextet_char (v div 64)])"
| "EncodeToString [a] =
     (let v = unat a * 65536 in [sextet_char (v div 262144), sextet_char (v div 4096)])"
| "EncodeToString [] = []"

text \<open>The bits left over at the end are dropped: the decoding is not strict.\<close>
fun decode_quanta :: "nat list \<Rightarrow> bytes option" where
  "decode_quanta (x # y # z # w # xs) =
     (let v = x * 262144 + y * 4096 + z * 64 + w
      in map_option (\<lambda>bs. of_nat (v div 65536) # of_nat (v div 256) # of_nat v # bs) (decode_quanta xs))"
| "decode_quanta [x, y, z] =
     (let v = x * 262144 + y * 4096 + z * 64 in Some [of_nat (v div 65536), of_nat (v div 256)])"
| "decode_quanta [x, y] = (let v = x * 262144 + y * 4096 in Some [of_nat (v div 65536)])"
| "decode_quanta [x] = None"
| "decode_quanta [] = Some []"

text \<open>Line ends are skipped; any other character outside the alphabet is refused.\<close>
definition DecodeString :: "string \<Rightarrow> bytes option" where
  "DecodeString s = Option.bind (those (map char_sextet (filter (\<lambda>c. c \<noteq> CHR 0x0A \<and> c \<noteq> CHR 0x0D) s))) decode_quanta"

section \<open>The nonce\<close>

definition NonceTTL :: duration where "NonceTTL = 10 * 60 * second"
definition nonceTimeLen :: nat where "nonceTimeLen = 8"
definition nonceRandomLen :: nat where "nonceRandomLen = 16"
definition nonceBodyLen :: nat where "nonceBodyLen = nonceTimeLen + nonceRandomLen"
definition nonceMACLen :: nat where "nonceMACLen = 32"

text \<open>\<open>binary.BigEndian\<close>, and \<open>time.Unix\<close>, which counts from the year 1 and wraps around.\<close>
definition PutUint64 :: "64 word \<Rightarrow> bytes" where
  "PutUint64 n = map (byte_at n) [56, 48, 40, 32, 24, 16, 8, 0]"

definition Unix :: "64 word \<Rightarrow> instant" where
  "Unix n = (sint (n + 62135596800) - 62135596800) * second"

definition MintNonce :: "(string \<Rightarrow> bytes \<Rightarrow> bytes) \<Rightarrow> string \<Rightarrow> instant \<Rightarrow> bytes \<Rightarrow> string" where
  "MintNonce hm secret now random =
     (let body = PutUint64 (word_of_int (now div second)) @ random in EncodeToString (body @ hm secret body))"

datatype nonce_error = NonceNotBase64 | NonceLength | NonceSignature | NonceExpired

definition VerifyNonce :: "(string \<Rightarrow> bytes \<Rightarrow> bytes) \<Rightarrow> string \<Rightarrow> instant \<Rightarrow> string \<Rightarrow> nonce_error option" where
  "VerifyNonce hm secret now nonce =
     (case DecodeString nonce of
        None \<Rightarrow> Some NonceNotBase64
      | Some raw \<Rightarrow>
          if length raw \<noteq> nonceBodyLen + nonceMACLen then Some NonceLength
          else let body = take nonceBodyLen raw; mac = drop nonceBodyLen raw in
            if mac \<noteq> hm secret body then Some NonceSignature
            else let issued = Unix (join_bytes 0 (take nonceTimeLen body)) in
              if NonceTTL < now - issued then Some NonceExpired else None)"

section \<open>What is encoded is read back\<close>

lemma char_sextet_char: "n < 64 \<Longrightarrow> char_sextet (sextet_char n) = Some n"
proof -
  have "\<forall>n\<in>set [0..<64]. char_sextet (sextet_char n) = Some n" by code_simp
  then show "n < 64 \<Longrightarrow> char_sextet (sextet_char n) = Some n" by simp
qed

lemma sextet_char_mod: "sextet_char n = sextet_char (n mod 64)"
  by (simp add: sextet_char_def)

lemma sextet_not_newline: "sextet_char n \<noteq> CHR 0x0A" "sextet_char n \<noteq> CHR 0x0D"
proof -
  have "\<forall>n\<in>set [0..<64]. sextet_char n \<noteq> CHR 0x0A \<and> sextet_char n \<noteq> CHR 0x0D" by code_simp
  then show "sextet_char n \<noteq> CHR 0x0A" "sextet_char n \<noteq> CHR 0x0D" unfolding sextet_char_mod [of n] by simp_all
qed

lemma char_sextet_any [simp]: "char_sextet (sextet_char n) = Some (n mod 64)"
  unfolding sextet_char_mod [of n] by (rule char_sextet_char) simp

lemma horner4:
  assumes "(v :: nat) < 16777216"
  shows "v div 262144 mod 64 * 262144 + v div 4096 mod 64 * 4096 + v div 64 mod 64 * 64 + v mod 64 = v"
proof -
  have v: "v div 262144 mod 64 = v div 262144" using assms by simp
  have d: "v div 4096 = v div 64 div 64" "v div 262144 = v div 64 div 64 div 64" by (simp_all add: div_mult2_eq)
  have "v = v div 64 * 64 + v mod 64" by simp
  moreover have "v div 64 = v div 4096 * 64 + v div 64 mod 64" unfolding d by simp
  moreover have "v div 4096 = v div 262144 * 64 + v div 4096 mod 64" unfolding d by simp
  ultimately show ?thesis using v by linarith
qed

lemma byte_bound [simp]: "unat (a :: byte) < 256"
  using unsigned_less [of a, where 'a = nat] by simp

lemma bytes_of_sum:
  fixes a b c :: byte
  shows "of_nat ((unat a * 65536 + unat b * 256 + unat c) div 65536) = a"
    "of_nat ((unat a * 65536 + unat b * 256 + unat c) div 256) = b"
    "of_nat (unat a * 65536 + unat b * 256 + unat c) = c"
proof -
  have bound: "unat a < 256" "unat b < 256" "unat c < 256" by (rule byte_bound)+
  have wrap: "(256 :: byte) = 0" by (rule unsigned_word_eqI [where 'a = nat]) simp
  have "(unat a * 65536 + unat b * 256 + unat c) div 65536 = unat a" using bound by linarith
  then show "of_nat ((unat a * 65536 + unat b * 256 + unat c) div 65536) = a" by (simp del: of_nat_add of_nat_mult)
  have "(unat a * 65536 + unat b * 256 + unat c) div 256 = unat a * 256 + unat b" using bound by linarith
  then have "of_nat ((unat a * 65536 + unat b * 256 + unat c) div 256) = (of_nat (unat a) * 256 + of_nat (unat b) :: byte)" by simp
  also have "\<dots> = b" unfolding wrap by simp
  finally show "of_nat ((unat a * 65536 + unat b * 256 + unat c) div 256) = b" .
  have "of_nat (unat a * 65536 + unat b * 256 + unat c) = (of_nat (unat a) * 256 * 256 + of_nat (unat b) * 256 + of_nat (unat c) :: byte)"
    by simp
  also have "\<dots> = c" unfolding wrap by simp
  finally show "of_nat (unat a * 65536 + unat b * 256 + unat c) = c" .
qed

lemma sum_bound: "unat (a :: byte) * 65536 + unat (b :: byte) * 256 + unat (c :: byte) < 16777216"
  using byte_bound [of a] byte_bound [of b] byte_bound [of c] by linarith

text \<open>One quantum of a value of at most 24 bits.\<close>
lemma decode_quantum:
  assumes "v < 16777216"
  shows "Option.bind (those (map char_sextet (sextet_char (v div 262144) # sextet_char (v div 4096) # sextet_char (v div 64)
       # sextet_char v # cs))) decode_quanta
     = map_option (\<lambda>bs. of_nat (v div 65536) # of_nat (v div 256) # of_nat v # bs) (Option.bind (those (map char_sextet cs)) decode_quanta)"
  by (cases "those (map char_sextet cs)") (simp_all add: Let_def horner4 [OF assms] del: of_nat_add of_nat_mult)

lemma decode_last:
  assumes "v < 16777216" "v mod 64 = 0"
  shows "decode_quanta [v div 262144 mod 64, v div 4096 mod 64, v div 64 mod 64] = Some [of_nat (v div 65536), of_nat (v div 256)]"
    "v div 64 mod 64 = 0 \<Longrightarrow> decode_quanta [v div 262144 mod 64, v div 4096 mod 64] = Some [of_nat (v div 65536)]"
proof -
  have v: "v div 262144 mod 64 * 262144 + v div 4096 mod 64 * 4096 + v div 64 mod 64 * 64 = v"
    using horner4 [OF assms(1)] unfolding assms(2) by (simp only: add_0_right)
  then show "decode_quanta [v div 262144 mod 64, v div 4096 mod 64, v div 64 mod 64] = Some [of_nat (v div 65536), of_nat (v div 256)]"
    by (simp only: decode_quanta.simps Let_def)
  assume "v div 64 mod 64 = 0"
  then have "v div 262144 mod 64 * 262144 + v div 4096 mod 64 * 4096 = v"
    using v by (simp only: mult_zero_left add_0_right)
  then show "decode_quanta [v div 262144 mod 64, v div 4096 mod 64] = Some [of_nat (v div 65536)]"
    by (simp only: decode_quanta.simps Let_def)
qed

lemma sextets_of_encoding:
  "filter (\<lambda>c. c \<noteq> CHR 0x0A \<and> c \<noteq> CHR 0x0D) (EncodeToString bs) = EncodeToString bs
   \<and> Option.bind (those (map char_sextet (EncodeToString bs))) decode_quanta = Some bs"
proof (induction bs rule: EncodeToString.induct)
  case (1 a b c bs)
  then show ?case
    unfolding EncodeToString.simps Let_def decode_quantum [OF sum_bound]
    by (simp add: sextet_not_newline bytes_of_sum del: of_nat_add of_nat_mult)
next
  case (2 a b)
  have "unat a * 65536 + unat b * 256 < 16777216" using sum_bound [of a b 0] by simp
  from decode_last(1) [OF this] show ?case using bytes_of_sum [of a b 0]
    by (simp add: Let_def sextet_not_newline del: decode_quanta.simps)
next
  case (3 a)
  have "unat a * 65536 < 16777216" using sum_bound [of a 0 0] by simp
  from decode_last(2) [OF this] show ?case using bytes_of_sum [of a 0 0]
    by (simp add: Let_def sextet_not_newline del: decode_quanta.simps)
qed simp

lemma DecodeString_EncodeToString: "DecodeString (EncodeToString bs) = Some bs"
  using sextets_of_encoding [of bs] by (simp add: DecodeString_def)

lemma join_PutUint64: "join_bytes 0 (PutUint64 n) = n"
  using join_from_zero(4) [of n] by (simp add: PutUint64_def)

section \<open>How long a nonce lives\<close>

lemma issued_time:
  assumes "0 \<le> t" "t div second < 2 ^ 62"
  shows "Unix (word_of_int (t div second)) = stored_time t"
proof -
  have "0 \<le> t div second" using assms(1) by (simp add: second_def pos_imp_zdiv_nonneg_iff)
  then have "signed_take_bit 63 (t div second + 62135596800) = t div second + 62135596800"
    using assms(2) by (intro signed_take_bit_int_eq_self) simp_all
  moreover have "word_of_int (t div second) + 62135596800 = (word_of_int (t div second + 62135596800) :: 64 word)" by simp
  ultimately have "sint (word_of_int (t div second) + 62135596800 :: 64 word) = t div second + 62135596800"
    by (simp add: sint_sbintrunc' del: of_int_add)
  then show ?thesis by (simp add: Unix_def stored_time_def)
qed

lemma VerifyNonce_minted:
  fixes t :: instant
  assumes "\<And>k b. length (hm k b) = nonceMACLen" "length random = nonceRandomLen"
  defines "body \<equiv> PutUint64 (word_of_int (t div second)) @ random"
  shows "VerifyNonce hm other now (MintNonce hm secret t random) =
     (if hm secret body \<noteq> hm other body then Some NonceSignature
      else if NonceTTL < now - Unix (word_of_int (t div second)) then Some NonceExpired else None)"
proof -
  have len: "length body = nonceBodyLen" and time: "join_bytes 0 (take nonceTimeLen body) = word_of_int (t div second)"
    using assms(2) join_PutUint64 by (simp_all add: body_def nonceBodyLen_def nonceTimeLen_def PutUint64_def)
  then show ?thesis using assms(1)
    unfolding VerifyNonce_def MintNonce_def Let_def body_def [symmetric] DecodeString_EncodeToString by simp
qed

text \<open>
  C28. A nonce is accepted by whoever holds the secret it was minted with, from then on until
  ten minutes have passed, by the second it was minted in; with any other secret it is
  accepted only where the two MACs agree.
\<close>
theorem nonces_live_ten_minutes:
  assumes "\<And>k b. length (hm k b) = nonceMACLen" "length random = nonceRandomLen" "0 \<le> t" "t div second < 2 ^ 62"
  shows "VerifyNonce hm secret now (MintNonce hm secret t random) = (if now \<le> stored_time t + NonceTTL then None else Some NonceExpired)
    \<and> (VerifyNonce hm other now (MintNonce hm secret t random) = None \<longrightarrow>
        (let body = PutUint64 (word_of_int (t div second)) @ random in hm other body = hm secret body))"
  unfolding VerifyNonce_minted [OF assms(1,2)] issued_time [OF assms(3,4)] by (auto simp: Let_def)

text \<open>A sum of the text and the secret stands for the MAC.\<close>
definition sample_hm :: "string \<Rightarrow> bytes \<Rightarrow> bytes" where
  "sample_hm k b = replicate nonceMACLen (sum_list b + of_nat (length k))"

theorem nonces_live_ten_minutes_witness:
  "VerifyNonce sample_hm ''key'' (700 * second) (MintNonce sample_hm ''key'' (100 * second + 5) (replicate 16 7)) = None
   \<and> VerifyNonce sample_hm ''key'' (700 * second + 1) (MintNonce sample_hm ''key'' (100 * second + 5) (replicate 16 7)) = Some NonceExpired
   \<and> VerifyNonce sample_hm ''other'' 0 (MintNonce sample_hm ''key'' (100 * second + 5) (replicate 16 7)) \<noteq> None"
proof -
  have "length (sample_hm k b) = nonceMACLen" for k b by (simp add: sample_hm_def)
  note now = nonces_live_ten_minutes [of sample_hm "replicate 16 7" "100 * second + 5" "''key''", OF this]
  have t: "stored_time (100 * second + 5) = 100 * second" by (simp add: stored_time_def second_def)
  have "sample_hm ''other'' b \<noteq> sample_hm ''key'' b" for b by (simp add: sample_hm_def nonceMACLen_def)
  then show ?thesis using now [of _ "''other''"] unfolding t
    by (auto simp: nonceRandomLen_def second_def NonceTTL_def Let_def)
qed

end
