(* ===== verification/Auth.thy ===== *)
theory Auth
  imports StoreSessions Nonce Config
begin

text \<open>
  \<open>csilservices/auth.go\<close>, \<open>devauth.go\<close>, \<open>greetings.go\<close>, \<open>linkkeys/client.go\<close>, \<open>server/session.go\<close>
  and \<open>server/authcallback.go\<close>: how somebody gets a session, what a cookie says of its bearer, and
  how a session ends.  SHA-256 and HMAC are parameters; the relying party's sidecar is an exchange
  that answers a request or fails; random bytes are arguments, absent when there are none.
\<close>

section \<open>linkkeys/client.go\<close>

record Assertion =
  asUserID :: string
  asDomain :: string
  asAudience :: string
  asNonce :: string
  asDisplayName :: utext

text \<open>What an answer decodes to; a field that is not there is empty.\<close>
record sidecar_answer =
  saSignedRequest :: string
  saSignedAssertion :: string
  saAssertion :: Assertion
  saVerified :: bool

text \<open>The status of an answer, and the body when it decodes; nothing when the exchange fails.\<close>
type_synonym sidecar = "string \<Rightarrow> (string \<times> string) list \<Rightarrow> (int \<times> sidecar_answer option) option"

definition linkkeys_post :: "sidecar \<Rightarrow> string \<Rightarrow> (string \<times> string) list \<Rightarrow> sidecar_answer option" where
  "linkkeys_post sc path body = (case sc path body of
      None \<Rightarrow> None
    | Some (status, out) \<Rightarrow> if status < 200 \<or> 300 \<le> status then None else out)"

definition SignRequest :: "sidecar \<Rightarrow> string \<Rightarrow> string \<Rightarrow> string option" where
  "SignRequest sc callbackURL nonce = map_option saSignedRequest
     (linkkeys_post sc ''/v1alpha/sign-request.json'' [(''callback_url'', callbackURL), (''nonce'', nonce)])"

definition DecryptToken :: "sidecar \<Rightarrow> string \<Rightarrow> string option" where
  "DecryptToken sc encryptedToken = map_option saSignedAssertion
     (linkkeys_post sc ''/v1alpha/decrypt-token.json'' [(''encrypted_token'', encryptedToken)])"

definition VerifyAssertion :: "sidecar \<Rightarrow> string \<Rightarrow> string \<Rightarrow> Assertion option" where
  "VerifyAssertion sc signedAssertion expectedDomain =
     (case linkkeys_post sc ''/v1alpha/verify-assertion.json''
         [(''signed_assertion'', signedAssertion), (''expected_domain'', expectedDomain)] of
        None \<Rightarrow> None
      | Some out \<Rightarrow> if saVerified out then Some (saAssertion out) else None)"

section \<open>The service\<close>

text \<open>The fields of AuthService and DevAuthService, and the hash functions; PKI may be nil.\<close>
record auth_service =
  auCfg :: Config
  auPKI :: "sidecar option"
  auSHA256 :: "string \<Rightarrow> bytes"
  auHMAC :: "string \<Rightarrow> bytes \<Rightarrow> bytes"

record LoginResult =
  lrUser :: User
  lrSession :: Session
  lrRawToken :: string
  lrExpiresAt :: instant

text \<open>\<open>sessionSink\<close>: what an operation decided about the cookie of the request in hand.\<close>
record request_db = session_db +
  sink_result :: "LoginResult option"
  sink_cleared :: bool

definition SetSession :: "LoginResult \<Rightarrow> ('m request_db_scheme, 'e, unit) oper" where
  "SetSession r = writes (\<lambda>s. s\<lparr>sink_result := Some r, sink_cleared := False\<rparr>)"

definition ClearSession :: "('m request_db_scheme, 'e, unit) oper" where
  "ClearSession = writes (\<lambda>s. s\<lparr>sink_result := None, sink_cleared := True\<rparr>)"

text \<open>\<open>encoding/hex\<close>.\<close>
definition hex_digit :: "nat \<Rightarrow> char" where "hex_digit n = ''0123456789abcdef'' ! (n mod 16)"

definition hex_text :: "bytes \<Rightarrow> string" where
  "hex_text bs = concat (map (\<lambda>b. [hex_digit (unat b div 16), hex_digit (unat b)]) bs)"

definition HashToken :: "auth_service \<Rightarrow> string \<Rightarrow> string" where
  "HashToken au token = hex_text (auSHA256 au token)"

section \<open>Signing in\<close>

text \<open>\<open>url.Values.Encode\<close> of one value: \<open>url.QueryEscape\<close>.\<close>
definition unreserved :: "char \<Rightarrow> bool" where
  "unreserved c \<longleftrightarrow> c \<in> set ''ABCDEFGHIJKLMNOPQRSTUVWXYZabcdefghijklmnopqrstuvwxyz0123456789-_.~''"

definition QueryEscape :: "string \<Rightarrow> string" where
  "QueryEscape v = concat (map (\<lambda>c. if unreserved c then [c] else if c = CHR '' '' then ''+''
     else [CHR ''%'', ''0123456789ABCDEF'' ! (of_char c div 16), ''0123456789ABCDEF'' ! (of_char c mod 16)]) v)"

definition trim_slashes :: "string \<Rightarrow> string" where
  "trim_slashes u = rev (dropWhile (\<lambda>c. c = CHR ''/'') (rev u))"

definition BeginLogin :: "auth_service \<Rightarrow> bytes \<Rightarrow> string \<Rightarrow> ('m core_db_scheme, error, string) oper" where
  "BeginLogin au random reqDomain =
     thenE (refuse_if (trim_id reqDomain = []) (Invalid ''domain''))
    (bindE (the_or Unavailable (auPKI au)) (\<lambda>pki.
     bindE (reads (\<lambda>s. MintNonce (auHMAC au) (cfSessionNonceSecret (auCfg au)) (clock s) random)) (\<lambda>nonce.
     bindE (the_or Unavailable (SignRequest pki (cfAppCallbackURL (auCfg au)) nonce)) (\<lambda>signedRequest.
       ret (trim_slashes (cfLinkkeysIDPURL (auCfg au)) @ ''/auth/authorize?signed_request='' @ QueryEscape signedRequest)))))"

text \<open>32 random bytes, in hex, are the cookie's value; the row has their hash.\<close>
definition MintSession :: "auth_service \<Rightarrow> bytes option \<Rightarrow> User \<Rightarrow> ('m session_db_scheme, error, LoginResult) oper" where
  "MintSession au random user =
     bindE (the_or Internal random) (\<lambda>raw.
     let token = hex_text raw in
     bindE NewID (\<lambda>i.
     bindE (reads clock) (\<lambda>now.
     let expires = now + cfSessionTTL (auCfg au) in
     bindE (internal (CreateSession \<lparr>ssID = i, ssUserID = uID user, ssTokenHash = HashToken au token,
          ssCreatedAt = 0, ssExpiresAt = expires\<rparr>)) (\<lambda>sess.
       ret \<lparr>lrUser = user, lrSession = sess, lrRawToken = token, lrExpiresAt = expires\<rparr>))))"

text \<open>The part of a user id before its first @, unless that is empty.\<close>
definition local_part :: "string \<Rightarrow> string" where
  "local_part userID = (let n = takeWhile (\<lambda>c. c \<noteq> CHR ''@'') userID
     in if n \<noteq> userID \<and> n \<noteq> [] then n else userID)"

definition CompleteLogin ::
  "auth_service \<Rightarrow> bytes option \<Rightarrow> string \<Rightarrow> ('m session_db_scheme, error, LoginResult) oper" where
  "CompleteLogin au random encryptedToken =
     (let cfg = auCfg au in
     bindE (the_or Unavailable (auPKI au)) (\<lambda>pki.
     bindE (the_or (Invalid ''encrypted_token'') (DecryptToken pki encryptedToken)) (\<lambda>signedAssertion.
     bindE (the_or (Invalid ''encrypted_token'') (VerifyAssertion pki signedAssertion (cfLinkkeysIDPDomain cfg))) (\<lambda>assertion.
     thenE (refuse_if (LinkkeysRPDomain cfg \<noteq> [] \<and> asAudience assertion \<noteq> LinkkeysRPDomain cfg) Forbidden)
    (bindE (reads clock) (\<lambda>now.
     thenE (refuse_if (VerifyNonce (auHMAC au) (cfSessionNonceSecret cfg) now (asNonce assertion) \<noteq> None) (Invalid ''nonce''))
    (bindE (internal (UpsertUser
        \<lparr>upLinkkeysDomain = ToLowerId (asDomain assertion), upLinkkeysUserID = asUserID assertion,
         upHandle = ToLowerId (local_part (asUserID assertion)), upDisplayName = asDisplayName assertion,
         upKind = UserKindHuman\<rparr>)) (\<lambda>user.
       MintSession au random user))))))))"

section \<open>Development\<close>

definition DevAdminHandle :: string where "DevAdminHandle = ''devadmin''"

definition ToUserProfile :: "User \<Rightarrow> ident \<times> string \<times> string \<times> utext \<times> UserKind \<times> instant" where
  "ToUserProfile u = (uID u, uLinkkeysDomain u, uHandle u, uDisplayName u, uKind u, uCreatedAt u)"

definition DevLogin :: "auth_service \<Rightarrow> bytes option \<Rightarrow> string \<Rightarrow> string \<Rightarrow>
    ('m request_db_scheme, error, ident \<times> string \<times> string \<times> utext \<times> UserKind \<times> instant) oper" where
  "DevLogin au random reqHandle reqDomain =
     thenE (refuse_if (\<not> DevAuthAllowed (auCfg au)) Forbidden)
    (let handle = ToLowerId (trim_id reqHandle); domain = trim_id reqDomain in
     thenE (refuse_if (handle = []) (Invalid ''handle''))
    (thenE (refuse_if (domain = []) (Invalid ''domain''))
    (bindE (internal (UpsertUser
        \<lparr>upLinkkeysDomain = domain, upLinkkeysUserID = handle @ ''@'' @ domain, upHandle = handle,
         upDisplayName = runes handle, upKind = UserKindHuman\<rparr>)) (\<lambda>user.
     bindE (if uHandle user = DevAdminHandle \<and> \<not> uIsAdmin user
            then thenE (internal (SetAdminRow (uID user) True)) (ret (user\<lparr>uIsAdmin := True\<rparr>))
            else ret user) (\<lambda>user.
     bindE (MintSession au random user) (\<lambda>result.
     thenE (SetSession result)
       (ret (ToUserProfile user))))))))"

section \<open>The bearer of a cookie\<close>

text \<open>\<open>sessionMiddleware\<close>: an unknown, expired or empty cookie is nobody; nothing is refused here.\<close>
definition sessionMiddleware :: "auth_service \<Rightarrow> string option \<Rightarrow> 'm session_db_scheme \<Rightarrow> (Session \<times> User) option" where
  "sessionMiddleware au cookie s = (case cookie of
      None \<Rightarrow> None
    | Some v \<Rightarrow> if v = [] then None
        else (case fst (SessionByTokenHash (HashToken au v) s) of Inl _ \<Rightarrow> None | Inr su \<Rightarrow> Some su))"

text \<open>Logout asks for the cookie to be cleared whether or not there is a session behind it.\<close>
definition Logout :: "Session option \<Rightarrow> ('m request_db_scheme, error, unit) oper" where
  "Logout session = thenE ClearSession (case session of
      None \<Rightarrow> ret ()
    | Some sess \<Rightarrow> internal (DeleteSession (ssID sess)))"

definition Whoami :: "User option \<Rightarrow> ('s, error, ident \<times> string \<times> string \<times> utext \<times> UserKind \<times> instant) oper" where
  "Whoami user = bindE (the_or Unauthenticated user) (\<lambda>u. ret (ToUserProfile u))"

section \<open>Greetings\<close>

definition maxGreetingLength :: nat where "maxGreetingLength = 280"

definition ListGreetings :: "('m session_db_scheme, error, Greeting list) oper" where
  "ListGreetings = internal ListGreetingsRow"

definition GetGreeting :: "ident \<Rightarrow> ('m session_db_scheme, error, Greeting) oper" where
  "GetGreeting i = not_found ''greeting'' (GreetingByID i)"

definition CreateGreeting :: "User option \<Rightarrow> utext \<Rightarrow> ('m session_db_scheme, error, Greeting) oper" where
  "CreateGreeting user reqMessage =
     bindE (the_or Unauthenticated user) (\<lambda>u.
     let message = TrimSpace reqMessage in
     thenE (refuse_if (message = []) (Invalid ''message''))
    (thenE (refuse_if (length message > maxGreetingLength) (Invalid ''message''))
     (internal (CreateGreetingRow (uID u) message))))"

section \<open>Cookies\<close>

record Cookie =
  ckValue :: string
  ckExpires :: "instant option"
  ckMaxAge :: "int option"
  ckHttpOnly :: bool
  ckSecure :: bool
  ckSameSite :: SameSiteMode

definition SetSessionCookie :: "Config \<Rightarrow> string \<Rightarrow> instant \<Rightarrow> Cookie" where
  "SetSessionCookie cfg token expires =
     \<lparr>ckValue = token, ckExpires = Some expires, ckMaxAge = None, ckHttpOnly = True, ckSecure = CookieSecure cfg,
      ckSameSite = SameSite cfg\<rparr>"

definition ClearSessionCookie :: "Config \<Rightarrow> Cookie" where
  "ClearSessionCookie cfg =
     \<lparr>ckValue = [], ckExpires = None, ckMaxAge = Some (- 1), ckHttpOnly = True, ckSecure = CookieSecure cfg,
      ckSameSite = SameSite cfg\<rparr>"

definition emitCookie :: "Config \<Rightarrow> 'm request_db_scheme \<Rightarrow> Cookie option" where
  "emitCookie cfg s = (case sink_result s of
      Some result \<Rightarrow> Some (SetSessionCookie cfg (lrRawToken result) (lrExpiresAt result))
    | None \<Rightarrow> if sink_cleared s then Some (ClearSessionCookie cfg) else None)"

text \<open>\<open>sessionCookieMiddleware\<close>: a fresh sink around the request, and the cookie it decided on.\<close>
definition with_cookies :: "Config \<Rightarrow> ('m request_db_scheme, 'e, 'a) oper \<Rightarrow> 'm request_db_scheme \<Rightarrow>
    (('e + 'a) \<times> Cookie option) \<times> 'm request_db_scheme" where
  "with_cookies cfg m s = (case m (s\<lparr>sink_result := None, sink_cleared := False\<rparr>) of
      (r, t) \<Rightarrow> ((r, emitCookie cfg t), t))"

section \<open>The callback\<close>

datatype callback_answer = CallbackError int | CallbackRedirect Cookie string

definition authCallbackError :: "error \<Rightarrow> int" where
  "authCallbackError err = (case AsAppError err of
      None \<Rightarrow> 500
    | Some e \<Rightarrow> if Code e = CodeInvalid then 400 else if Code e = CodeUnauthenticated then 401
        else if Code e = CodeForbidden then 403 else if Code e = CodeUnavailable then 502 else 500)"

definition handleAuthCallback ::
  "auth_service \<Rightarrow> bytes option \<Rightarrow> string \<Rightarrow> 'm session_db_scheme \<Rightarrow> callback_answer \<times> 'm session_db_scheme" where
  "handleAuthCallback au random encryptedToken s =
     (if encryptedToken = [] then (CallbackError 400, s)
      else if auPKI au = None then (CallbackError 500, s)
      else (case CompleteLogin au random encryptedToken s of
          (Inl err, t) \<Rightarrow> (CallbackError (authCallbackError err), t)
        | (Inr result, t) \<Rightarrow>
            let redirectTo = cfPostLoginRedirectURL (auCfg au)
            in (CallbackRedirect (SetSessionCookie (auCfg au) (lrRawToken result) (lrExpiresAt result))
                  (if redirectTo = [] then ''/'' else redirectTo), t)))"

end
