(* ===== verification/Sessions.thy ===== *)
theory Sessions
  imports Auth Sample
begin

text \<open>
  What a session is worth: the tables of \<open>StoreSessions\<close> stay well-formed, a login needs what the
  code says it needs and touches nobody else, and a cookie names its bearer from the login until
  the logout or the expiry, whatever else the instance is asked in between.
\<close>

section \<open>The tables\<close>

definition sessions_ok :: "'m session_db_scheme \<Rightarrow> bool" where
  "sessions_ok s \<longleftrightarrow> distinct (map uID (users s)) \<and> distinct (map ssID (sessions s)) \<and> distinct (map ssTokenHash (sessions s))
     \<and> (\<forall>x\<in>set (sessions s). ssUserID x \<in> uID ` set (users s))"

lemma NewID_apply: "NewID s = (Inr (ulid s (minted s)), s\<lparr>minted := Suc (minted s)\<rparr>)"
  by (simp add: NewID_def)

text \<open>An upsert of a person: the ids there are stay, and other identities' rows with them.\<close>
definition users_after :: "UpsertUserParams \<Rightarrow> User list \<Rightarrow> User list \<Rightarrow> bool" where
  "users_after p us vs \<longleftrightarrow> (distinct (map uID us) \<longrightarrow> distinct (map uID vs)) \<and> uID ` set us \<subseteq> uID ` set vs
     \<and> (\<forall>u. \<not> same_identity p u \<longrightarrow> (u \<in> set vs \<longleftrightarrow> u \<in> set us))
     \<and> ((\<exists>u\<in>set vs. uIsAdmin u) \<longleftrightarrow> (\<exists>u\<in>set us. uIsAdmin u))"

lemma users_after_refl [simp]: "users_after p us us"
  by (simp add: users_after_def)

lemma UpsertUser_cases:
  obtains e t where "UpsertUser p s = (Inl e, t)" "t = s\<lparr>minted := Suc (minted s)\<rparr>"
  | u vs where "UpsertUser p s = (Inr u, s\<lparr>minted := Suc (minted s), users := vs\<rparr>)" "users_after p (users s) vs"
      "u \<in> set vs" "same_identity p u" "uHandle u = upHandle p"
proof (cases "\<not> handle_taken p s \<and> (has_row (same_identity p) (users s) \<or> \<not> user_exists (ulid s (minted s)) s)")
  case False
  then have "UpsertUser p s = (Inl DBError, s\<lparr>minted := Suc (minted s)\<rparr>)"
    by (auto simp: UpsertUser_def NewID_apply bindE_apply require_def thenE_apply handle_taken_def user_exists_def)
  then show ?thesis by (rule that(1)) simp
next
  case ok: True
  let ?f = "\<lambda>u. u\<lparr>uHandle := upHandle p, uDisplayName := upDisplayName p\<rparr>"
  let ?new = "\<lparr>uID = ulid s (minted s), uLinkkeysDomain = upLinkkeysDomain p, uLinkkeysUserID = upLinkkeysUserID p,
                uHandle = upHandle p, uDisplayName = upDisplayName p, uKind = upKind p, uCreatedAt = nowSQL s,
                uIsAdmin = False, uAdminGrantedAt = None\<rparr>"
  define vs where "vs = (if has_row (same_identity p) (users s) then set_rows (same_identity p) ?f (users s) else users s @ [?new])"
  have keep: "same_identity p (?f u) = same_identity p u" for u by (simp add: same_identity_def)
  have after: "users_after p (users s) vs"
  proof (cases "has_row (same_identity p) (users s)")
    case True
    have "map uID vs = map uID (users s)" using True by (simp add: vs_def set_rows_keys)
    moreover have "u \<in> set vs \<longleftrightarrow> u \<in> set (users s)" if "\<not> same_identity p u" for u
      using True that keep by (auto simp: vs_def)
    moreover have "uID ` set vs = uID ` set (users s)" using True by (simp add: vs_def set_rows_key_set del: set_set_rows)
    moreover have "(\<exists>u\<in>set vs. uIsAdmin u) \<longleftrightarrow> (\<exists>u\<in>set (users s). uIsAdmin u)"
    proof -
      have "(\<exists>u\<in>A. uIsAdmin u) \<longleftrightarrow> True \<in> uIsAdmin ` A" for A :: "User set" by (simp add: image_iff)
      moreover have "uIsAdmin ` set vs = uIsAdmin ` set (users s)" using True by (simp add: vs_def set_rows_key_set del: set_set_rows)
      ultimately show ?thesis by (simp only:)
    qed
    ultimately show ?thesis unfolding users_after_def by simp
  next
    case False
    moreover have "same_identity p ?new" by (simp add: same_identity_def)
    ultimately show ?thesis using ok False by (auto simp: users_after_def vs_def user_exists_def)
  qed
  have "has_row (same_identity p) vs"
  proof (cases "has_row (same_identity p) (users s)")
    case True
    then show ?thesis using keep by (auto simp: vs_def)
  next
    case False
    then have "vs = users s @ [?new]" unfolding vs_def by (simp only: if_False)
    moreover have "same_identity p ?new" by (simp add: same_identity_def)
    ultimately show ?thesis by simp
  qed
  then obtain u where u: "row (same_identity p) vs = Some u" unfolding row_Some_iff_has [symmetric] by (elim exE)
  then have mem: "u \<in> set vs" "same_identity p u" using row_SomeD [OF u] by simp_all
  have "uHandle u = upHandle p"
  proof (cases "has_row (same_identity p) (users s)")
    case True
    then have "vs = set_rows (same_identity p) ?f (users s)" unfolding vs_def by (simp only: if_True)
    then have "u \<in> (\<lambda>y. if same_identity p y then ?f y else y) ` set (users s)" using mem(1) by (simp only: set_set_rows)
    then obtain y where "u = (if same_identity p y then ?f y else y)" by (rule imageE)
    then show ?thesis using mem(2) by (cases "same_identity p y") simp_all
  next
    case False
    then have vs: "vs = users s @ [?new]" unfolding vs_def by (simp only: if_False)
    have "u \<notin> set (users s)" using False mem(2) by auto
    then have "u = ?new" using mem(1) unfolding vs by simp
    then show ?thesis by simp
  qed
  moreover have "UpsertUser p s = (Inr u, s\<lparr>minted := Suc (minted s), users := vs\<rparr>)"
  proof -
    have "handle_taken p (s\<lparr>minted := Suc (minted s)\<rparr>) = handle_taken p s" "user_exists i (s\<lparr>minted := Suc (minted s)\<rparr>) = user_exists i s"
      "nowSQL (s\<lparr>minted := Suc (minted s)\<rparr>) = nowSQL s" for i
      by (simp_all add: handle_taken_def user_exists_def nowSQL_def)
    then show ?thesis using ok u unfolding vs_def
      by (auto simp add: UpsertUser_def NewID_apply bindE_apply thenE_apply require_def simp del: has_row_iff split: if_splits)
  qed
  ultimately show ?thesis using that(2) after mem by blast
qed

lemma now_core [simp]: "nowSQL (s\<lparr>minted := n\<rparr>) = nowSQL s" "nowSQL (s\<lparr>users := a\<rparr>) = nowSQL s"
  by (simp_all add: nowSQL_def)

lemma now_sessions [simp]: "nowSQL (s\<lparr>sessions := b\<rparr>) = nowSQL s" "nowSQL (s\<lparr>greetings := c\<rparr>) = nowSQL s"
  by (simp_all add: nowSQL_def)

lemma now_sink [simp]: "nowSQL (s\<lparr>sink_result := d\<rparr>) = nowSQL s" "nowSQL (s\<lparr>sink_cleared := e\<rparr>) = nowSQL s"
  by (simp_all add: nowSQL_def)

text \<open>The row a login makes.\<close>
definition session_row :: "auth_service \<Rightarrow> bytes \<Rightarrow> User \<Rightarrow> 'm session_db_scheme \<Rightarrow> Session" where
  "session_row au raw u s = \<lparr>ssID = ulid s (minted s), ssUserID = uID u, ssTokenHash = HashToken au (hex_text raw),
     ssCreatedAt = nowSQL s, ssExpiresAt = stored_time (clock s + cfSessionTTL (auCfg au))\<rparr>"

lemma MintSession_cases:
  obtains e n where "MintSession au random u s = (Inl e, s\<lparr>minted := n\<rparr>)"
  | raw r where "random = Some raw" "lrUser r = u" "lrRawToken r = hex_text raw" "lrExpiresAt r = clock s + cfSessionTTL (auCfg au)"
      "MintSession au random u s = (Inr r, s\<lparr>minted := Suc (minted s), sessions := sessions s @ [session_row au raw u s]\<rparr>)"
      "ulid s (minted s) \<notin> ssID ` set (sessions s)" "HashToken au (hex_text raw) \<notin> ssTokenHash ` set (sessions s)"
      "uID u \<in> uID ` set (users s)"
proof (cases random)
  case None
  then show ?thesis using that(1) [of Internal "minted s"] by (simp add: MintSession_def)
next
  case (Some raw)
  let ?i = "ulid s (minted s)" and ?h = "HashToken au (hex_text raw)" and ?exp = "clock s + cfSessionTTL (auCfg au)"
  let ?u = "s\<lparr>minted := Suc (minted s)\<rparr>"
  let ?new = "\<lparr>ssID = ?i, ssUserID = uID u, ssTokenHash = ?h, ssCreatedAt = 0, ssExpiresAt = ?exp\<rparr>"
  have mint: "MintSession au random u s = bindE (internal (CreateSession ?new)) (\<lambda>sess.
       ret \<lparr>lrUser = u, lrSession = sess, lrRawToken = hex_text raw, lrExpiresAt = ?exp\<rparr>) ?u"
    using Some by (simp add: MintSession_def NewID_apply bindE_apply Let_def split: sum.split prod.split)
  show ?thesis
  proof (cases "\<not> has_row (\<lambda>x. ssID x = ?i \<or> ssTokenHash x = ?h) (sessions s) \<and> user_exists (uID u) s")
    case True
    then have fresh: "?i \<notin> ssID ` set (sessions s)" "?h \<notin> ssTokenHash ` set (sessions s)" "uID u \<in> uID ` set (users s)"
      by (auto simp: user_exists_def) (metis image_eqI)
    have "CreateSession ?new ?u = (Inr (?new\<lparr>ssCreatedAt := nowSQL s\<rparr>),
        s\<lparr>minted := Suc (minted s), sessions := sessions s @ [session_row au raw u s]\<rparr>)"
      using True by (simp add: CreateSession_def session_row_def user_exists_def)
    then have minted: "MintSession au random u s = (Inr \<lparr>lrUser = u, lrSession = ?new\<lparr>ssCreatedAt := nowSQL s\<rparr>, lrRawToken = hex_text raw,
        lrExpiresAt = ?exp\<rparr>, s\<lparr>minted := Suc (minted s), sessions := sessions s @ [session_row au raw u s]\<rparr>)"
      unfolding mint by (simp add: bindE_apply internal_def map_err_apply)
    show ?thesis by (rule that(2) [OF Some _ _ _ minted fresh]) simp_all
  next
    case False
    then have "CreateSession ?new ?u = (Inl DBError, ?u)"
      by (auto simp: CreateSession_def require_def thenE_apply user_exists_def)
    then have "MintSession au random u s = (Inl Internal, ?u)"
      unfolding mint by (simp add: bindE_apply internal_def map_err_apply)
    then show ?thesis by (rule that(1))
  qed
qed

section \<open>What an operation does to the sessions\<close>

text \<open>No session goes, none comes but with the given hash, and the tables stay well-formed.\<close>
definition logged :: "string option \<Rightarrow> 'm session_db_scheme \<Rightarrow> 'm session_db_scheme \<Rightarrow> bool" where
  "logged h s t \<longleftrightarrow> clock t = clock s \<and> set (sessions s) \<subseteq> set (sessions t)
     \<and> (\<forall>x\<in>set (sessions t). x \<in> set (sessions s) \<or> h = Some (ssTokenHash x))
     \<and> (sessions_ok s \<longrightarrow> sessions_ok t)"

lemma logged_same: "clock t = clock s \<Longrightarrow> sessions t = sessions s \<Longrightarrow> users t = users s \<Longrightarrow> logged h s t"
  by (simp add: logged_def sessions_ok_def)

lemma logged_users: "clock t = clock s \<Longrightarrow> sessions t = sessions s \<Longrightarrow> users_after p (users s) (users t) \<Longrightarrow> logged h s t"
  unfolding logged_def sessions_ok_def users_after_def by auto

lemma logged_refl [simp]: "logged h s s"
  by (simp add: logged_same)

lemma logged_trans: "logged h s t \<Longrightarrow> logged h t u \<Longrightarrow> logged h s u"
  unfolding logged_def by (auto dest: subsetD)

lemma logged_mint: "logged (map_option (\<lambda>raw. HashToken au (hex_text raw)) random) s (snd (MintSession au random u s))"
proof (cases rule: MintSession_cases [of au random u s])
  case (1 e n)
  then show ?thesis by (simp add: logged_same)
next
  case (2 raw r)
  then show ?thesis by (auto simp: logged_def sessions_ok_def session_row_def)
qed

lemma logged_UpsertUser: "logged h s (snd (UpsertUser p s))"
  by (rule UpsertUser_cases [of p s]) (auto intro: logged_same logged_users)

lemma logged_bindE:
  "logged h s (snd (m s)) \<Longrightarrow> (\<And>x t. logged h t (snd (f x t))) \<Longrightarrow> logged h s (snd (bindE m f s))"
  by (cases "m s"; cases "fst (m s)") (auto simp: bindE_apply intro: logged_trans)

lemma logged_thenE: "logged h s (snd (m s)) \<Longrightarrow> (\<And>t. logged h t (snd (k t))) \<Longrightarrow> logged h s (snd (thenE m k s))"
  by (simp add: thenE_def logged_bindE)

lemma logged_pure: "pure_op m \<Longrightarrow> logged h s (snd (m s))"
  by (simp add: pure_op_def logged_same)

lemma logged_internal: "logged h s (snd (m s)) \<Longrightarrow> logged h s (snd (internal m s))"
  by (simp add: internal_def)

definition hash_of :: "auth_service \<Rightarrow> bytes option \<Rightarrow> string option" where
  "hash_of au random = map_option (\<lambda>raw. HashToken au (hex_text raw)) random"

lemma logged_MintSession: "logged (hash_of au random) s (snd (MintSession au random u s))"
  unfolding hash_of_def by (rule logged_mint)

lemma logged_CompleteLogin: "logged (hash_of au random) s (snd (CompleteLogin au random tok s))"
  unfolding CompleteLogin_def Let_def
  by (intro logged_bindE logged_thenE logged_internal logged_UpsertUser logged_MintSession; intro logged_pure; simp)

lemma logged_callback: "logged (hash_of au random) s (snd (handleAuthCallback au random tok s))"
proof -
  obtain r t where r: "CompleteLogin au random tok s = (r, t)" by fastforce
  then have "logged (hash_of au random) s t" using logged_CompleteLogin [of au random s tok] by simp
  then show ?thesis using r by (cases r) (auto simp: handleAuthCallback_def Let_def logged_same)
qed

lemma logged_SetAdminRow: "logged h s (snd (SetAdminRow u granted s))"
proof -
  have "map uID (set_rows p (\<lambda>x. x\<lparr>uIsAdmin := a, uAdminGrantedAt := b\<rparr>) us) = map uID us"
    "uID ` set (set_rows p (\<lambda>x. x\<lparr>uIsAdmin := a, uAdminGrantedAt := b\<rparr>) us) = uID ` set us" for us :: "User list" and p a b
    by (rule set_rows_keys set_rows_key_set; simp)+
  then show ?thesis
    by (simp add: SetAdminRow_def thenE_apply require_def logged_def sessions_ok_def del: set_set_rows)
qed

lemma logged_SetSession: "logged h s (snd (SetSession r s))"
  by (simp add: SetSession_def logged_same)

lemma the_or_parts [simp]: "snd (the_or e q s) = s" "fst (the_or e q s) = Inr x \<longleftrightarrow> q = Some x"
  by (cases q; simp)+

lemma logged_grant: "logged h s (snd ((if b then thenE (internal (SetAdminRow i True)) (ret v) else ret w) s))"
  by (simp add: logged_thenE logged_internal logged_SetAdminRow logged_same)

lemma logged_DevLogin: "logged (hash_of au random) s (snd (DevLogin au random name domain s))"
  unfolding DevLogin_def Let_def
  by (intro logged_bindE logged_thenE logged_internal logged_UpsertUser logged_MintSession logged_SetSession logged_grant)
    (simp_all add: logged_pure)

lemma logged_CreateGreeting: "logged h s (snd (CreateGreeting user message s))"
proof -
  have "logged h t (snd (CreateGreetingRow a m t))" for a m and t :: "'a session_db_scheme"
    unfolding CreateGreetingRow_def
    by (auto simp: NewID_apply bindE_apply thenE_apply require_def GreetingByID_def logged_same split: option.split)
  then show ?thesis unfolding CreateGreeting_def Let_def
    by (intro logged_bindE logged_thenE logged_internal; simp add: logged_pure)
qed

section \<open>Histories\<close>

datatype auth_event =
    SignedIn "bytes option" string              \<comment> \<open>the callback, with the provider's token\<close>
  | DevSignedIn "bytes option" string string
  | SignedOut "string option"                   \<comment> \<open>with the cookie presented\<close>
  | Greeted "string option" utext
  | Swept
  | Waited duration

fun auth_step :: "auth_service \<Rightarrow> auth_event \<Rightarrow> 'm request_db_scheme \<Rightarrow> 'm request_db_scheme" where
  "auth_step au (SignedIn random tok) s = snd (handleAuthCallback au random tok s)"
| "auth_step au (DevSignedIn random name domain) s = snd (with_cookies (auCfg au) (DevLogin au random name domain) s)"
| "auth_step au (SignedOut cookie) s =
     snd (with_cookies (auCfg au) (Logout (map_option fst (sessionMiddleware au cookie s))) s)"
| "auth_step au (Greeted cookie message) s =
     snd (CreateGreeting (map_option snd (sessionMiddleware au cookie s)) message s)"
| "auth_step au Swept s = snd (DeleteExpiredSessions s)"
| "auth_step au (Waited d) s = s\<lparr>clock := clock s + d\<rparr>"

text \<open>An event makes no session with this hash, and time does not run backwards.\<close>
fun other_login :: "auth_service \<Rightarrow> string \<Rightarrow> auth_event \<Rightarrow> bool" where
  "other_login au h (SignedIn random tok) = (hash_of au random \<noteq> Some h)"
| "other_login au h (DevSignedIn random name domain) = (hash_of au random \<noteq> Some h)"
| "other_login au h (Waited d) = (0 \<le> d)"
| "other_login au h _ = True"

fun signs_out :: "auth_service \<Rightarrow> string \<Rightarrow> auth_event \<Rightarrow> bool" where
  "signs_out au h (SignedOut (Some v)) = (v \<noteq> [] \<and> HashToken au v = h)"
| "signs_out au h _ = False"

lemma sessionMiddleware_Some:
  "sessionMiddleware au cookie s = Some (y, u) \<longleftrightarrow> (\<exists>v. cookie = Some v \<and> v \<noteq> [] \<and> session_of (HashToken au v) s = Some (y, u))"
  by (auto simp: sessionMiddleware_def SessionByTokenHash_def split: option.splits sum.splits)

lemma session_of_Some:
  assumes "sessions_ok s"
  shows "session_of h s = Some (y, u) \<longleftrightarrow> y \<in> set (sessions s) \<and> ssTokenHash y = h \<and> nowSQL s < ssExpiresAt y
    \<and> u \<in> set (users s) \<and> uID u = ssUserID y" (is "?l \<longleftrightarrow> ?r")
proof
  assume ?l
  then show ?r using row_SomeD [of _ "sessions s"] row_SomeD [of _ "users s"]
    by (fastforce simp: session_of_def bind_eq_Some_conv)
next
  assume r: ?r
  have "row (\<lambda>x. ssTokenHash x = h \<and> nowSQL s < ssExpiresAt x) (sessions s) = Some y"
  proof -
    have "has_row (\<lambda>x. ssTokenHash x = h \<and> nowSQL s < ssExpiresAt x) (sessions s)" using r by auto
    then obtain z where z: "row (\<lambda>x. ssTokenHash x = h \<and> nowSQL s < ssExpiresAt x) (sessions s) = Some z"
      unfolding row_Some_iff_has [symmetric] by (elim exE)
    then have "z = y" using row_SomeD [OF z] r assms distinct_map_inj [of ssTokenHash "sessions s" z y]
      by (simp add: sessions_ok_def)
    then show ?thesis using z by simp
  qed
  moreover have "row (\<lambda>u. uID u = ssUserID y) (users s) = Some u"
    using r assms by (intro row_unique [of uID]) (auto simp: sessions_ok_def)
  ultimately show ?l by (simp add: session_of_def)
qed

section \<open>From the login to the end of a session\<close>

definition only_row :: "Session \<Rightarrow> 'm session_db_scheme \<Rightarrow> bool" where
  "only_row x s \<longleftrightarrow> sessions_ok s \<and> (\<forall>y\<in>set (sessions s). ssTokenHash y = ssTokenHash x \<longrightarrow> y = x)"

definition alive :: "Session \<Rightarrow> 'm session_db_scheme \<Rightarrow> bool" where
  "alive x s \<longleftrightarrow> x \<in> set (sessions s) \<and> nowSQL s < ssExpiresAt x"

lemma logged_alive:
  assumes "logged h s t" "only_row x s" "h \<noteq> Some (ssTokenHash x)"
  shows "only_row x t \<and> nowSQL s \<le> nowSQL t \<and> (alive x t \<longleftrightarrow> alive x s \<and> nowSQL t < ssExpiresAt x)"
proof -
  have "nowSQL t = nowSQL s" using assms(1) by (simp add: logged_def nowSQL_def)
  moreover have "x \<in> set (sessions t) \<longleftrightarrow> x \<in> set (sessions s)" using assms(1,3) unfolding logged_def by blast
  moreover have "only_row x t" using assms unfolding logged_def only_row_def by metis
  ultimately show ?thesis by (simp add: alive_def)
qed

lemma cookie_scrubbed [simp]: "snd (with_cookies cfg m s) = snd (m (s\<lparr>sink_result := None, sink_cleared := False\<rparr>))"
  by (simp add: with_cookies_def split: prod.split)

lemma nowSQL_waits: "0 \<le> d \<Longrightarrow> nowSQL s \<le> nowSQL (s\<lparr>clock := clock s + d\<rparr>)"
  by (simp add: nowSQL_def stored_time_def second_def zdiv_mono1)

lemma sessions_ok_del: "sessions_ok s \<Longrightarrow> sessions_ok (s\<lparr>sessions := del_rows p (sessions s)\<rparr>)"
  by (auto simp: sessions_ok_def)

lemma sessions_ok_clock: "sessions_ok (s\<lparr>clock := t\<rparr>) = sessions_ok s"
  by (simp add: sessions_ok_def)

lemma sessions_ok_sink: "sessions_ok (s\<lparr>sink_result := a, sink_cleared := b\<rparr>) = sessions_ok s"
  by (simp add: sessions_ok_def)

lemma bearer_of_row:
  assumes "sessions_ok s" "alive x s" "v \<noteq> []" "HashToken au v = ssTokenHash x"
  obtains u where "sessionMiddleware au (Some v) s = Some (x, u)" "uID u = ssUserID x"
proof -
  obtain u where "u \<in> set (users s)" "uID u = ssUserID x" using assms(1,2) by (force simp: sessions_ok_def alive_def)
  then show ?thesis using that assms by (auto simp: sessionMiddleware_Some session_of_Some alive_def)
qed

lemma sign_out_step:
  assumes "only_row x s"
  shows "only_row x (auth_step au (SignedOut cookie) s) \<and> nowSQL s \<le> nowSQL (auth_step au (SignedOut cookie) s)
    \<and> (alive x (auth_step au (SignedOut cookie) s) \<longleftrightarrow> alive x s \<and> \<not> signs_out au (ssTokenHash x) (SignedOut cookie))"
proof -
  have ok: "sessions_ok s" using assms by (simp add: only_row_def)
  show ?thesis
  proof (cases "sessionMiddleware au cookie s")
    case None
    have "\<not> (alive x s \<and> signs_out au (ssTokenHash x) (SignedOut cookie))"
    proof
      assume a: "alive x s \<and> signs_out au (ssTokenHash x) (SignedOut cookie)"
      then obtain v where "cookie = Some v" "v \<noteq> []" "HashToken au v = ssTokenHash x" by (cases cookie) auto
      then show False using None bearer_of_row [OF ok, of x v au] a by auto
    qed
    then show ?thesis using None assms
      by (auto simp: Logout_def ClearSession_def only_row_def alive_def sessions_ok_def)
  next
    case (Some yu)
    obtain y u where yu: "yu = (y, u)" by fastforce
    obtain v where v: "cookie = Some v" "v \<noteq> []" "y \<in> set (sessions s)" "ssTokenHash y = HashToken au v"
      using Some yu by (auto simp: sessionMiddleware_Some session_of_Some [OF ok])
    have same: "x \<in> set (sessions s) \<Longrightarrow> ssID x = ssID y \<longleftrightarrow> HashToken au v = ssTokenHash x"
      using v(3,4) ok assms distinct_map_inj [of ssID "sessions s" x y] by (auto simp: sessions_ok_def only_row_def)
    have step: "auth_step au (SignedOut cookie) s = (s\<lparr>sink_result := None, sink_cleared := True\<rparr>)
        \<lparr>sessions := del_rows (\<lambda>z. ssID z = ssID y) (sessions s)\<rparr>"
      using Some yu by (simp add: Logout_def ClearSession_def DeleteSession_def internal_def)
    have "only_row x (auth_step au (SignedOut cookie) s)"
      using assms ok unfolding step only_row_def by (auto simp: sessions_ok_def)
    moreover have "alive x (auth_step au (SignedOut cookie) s) \<longleftrightarrow> alive x s \<and> \<not> signs_out au (ssTokenHash x) (SignedOut cookie)"
      using same v(1,2) unfolding step by (auto simp: alive_def)
    ultimately show ?thesis unfolding step by simp
  qed
qed

lemma auth_step_alive:
  assumes "only_row x s" "other_login au (ssTokenHash x) e"
  shows "only_row x (auth_step au e s) \<and> nowSQL s \<le> nowSQL (auth_step au e s)
    \<and> (alive x (auth_step au e s) \<longleftrightarrow> alive x s \<and> \<not> signs_out au (ssTokenHash x) e \<and> nowSQL (auth_step au e s) < ssExpiresAt x)"
proof (cases e)
  case (SignedIn random tok)
  then show ?thesis using logged_alive [OF logged_callback [of au random s tok] assms(1)] assms(2) by simp
next
  case (DevSignedIn random name domain)
  have "logged (hash_of au random) s (s\<lparr>sink_result := None, sink_cleared := False\<rparr>)" by (simp add: logged_same)
  from logged_alive [OF logged_trans [OF this logged_DevLogin [of au random _ name domain]] assms(1)]
  show ?thesis using DevSignedIn assms(2) by simp
next
  case (SignedOut cookie)
  then show ?thesis using sign_out_step [OF assms(1), of au cookie] by (auto simp: alive_def)
next
  case (Greeted cookie message)
  then show ?thesis
    using logged_alive [OF logged_CreateGreeting [of None s "map_option snd (sessionMiddleware au cookie s)" message] assms(1)] by simp
next
  case Swept
  have step: "auth_step au e s = s\<lparr>sessions := del_rows (\<lambda>x. ssExpiresAt x \<le> nowSQL s) (sessions s)\<rparr>"
    unfolding Swept by (simp add: DeleteExpiredSessions_def)
  then show ?thesis using assms(1) sessions_ok_del [of s] Swept unfolding step by (auto simp: only_row_def alive_def)
next
  case (Waited d)
  then show ?thesis using assms nowSQL_waits [of d s] by (auto simp: only_row_def alive_def sessions_ok_clock)
qed

lemma auth_run_alive:
  assumes "only_row x s" "\<forall>e\<in>set es. other_login au (ssTokenHash x) e"
  shows "only_row x (fold (auth_step au) es s) \<and> nowSQL s \<le> nowSQL (fold (auth_step au) es s)
    \<and> (alive x (fold (auth_step au) es s) \<longleftrightarrow> alive x s \<and> (\<forall>e\<in>set es. \<not> signs_out au (ssTokenHash x) e)
        \<and> nowSQL (fold (auth_step au) es s) < ssExpiresAt x)"
  using assms
proof (induction es arbitrary: s)
  case Nil
  then show ?case by (auto simp: alive_def)
next
  case (Cons e es)
  let ?t = "auth_step au e s"
  have step: "only_row x ?t" "nowSQL s \<le> nowSQL ?t"
    "alive x ?t \<longleftrightarrow> alive x s \<and> \<not> signs_out au (ssTokenHash x) e \<and> nowSQL ?t < ssExpiresAt x"
    using auth_step_alive [OF Cons.prems(1), of au e] Cons.prems(2) by auto
  note Cons.IH [OF step(1)]
  then have rest: "only_row x (fold (auth_step au) es ?t)" "nowSQL ?t \<le> nowSQL (fold (auth_step au) es ?t)"
    "alive x (fold (auth_step au) es ?t) \<longleftrightarrow> alive x ?t \<and> (\<forall>e\<in>set es. \<not> signs_out au (ssTokenHash x) e)
        \<and> nowSQL (fold (auth_step au) es ?t) < ssExpiresAt x"
    using Cons.prems(2) by auto
  show ?case using step rest by auto
qed

text \<open>
  C29. A cookie names its bearer for as long as nobody signs out with it and its session has not
  expired, to the second: after any history of logins, logouts, greetings, sweeps and waiting,
  the middleware finds the session exactly then, and it is the one the login made.
\<close>
theorem sessions_end_at_logout_or_expiry:
  assumes "sessions_ok s" "x \<in> set (sessions s)" "tok \<noteq> []" "HashToken au tok = ssTokenHash x"
    "\<forall>e\<in>set es. other_login au (ssTokenHash x) e" "nowSQL s < ssExpiresAt x"
  shows "map_option (\<lambda>(y, u). (y, uID u)) (sessionMiddleware au (Some tok) (fold (auth_step au) es s)) =
    (if (\<forall>e\<in>set es. \<not> signs_out au (ssTokenHash x) e) \<and> nowSQL (fold (auth_step au) es s) < ssExpiresAt x
     then Some (x, ssUserID x) else None)"
proof -
  let ?t = "fold (auth_step au) es s"
  have "only_row x s" using assms(1,2) distinct_map_inj [of ssTokenHash "sessions s" _ x] by (auto simp: only_row_def sessions_ok_def)
  from auth_run_alive [OF this assms(5)] have t: "only_row x ?t" "sessions_ok ?t"
    "alive x ?t \<longleftrightarrow> alive x s \<and> (\<forall>e\<in>set es. \<not> signs_out au (ssTokenHash x) e) \<and> nowSQL ?t < ssExpiresAt x"
    by (auto simp: only_row_def)
  have "alive x s" using assms(2,6) by (simp add: alive_def)
  show ?thesis
  proof (cases "alive x ?t")
    case True
    then obtain u where "sessionMiddleware au (Some tok) ?t = Some (x, u)" "uID u = ssUserID x"
      using bearer_of_row [OF t(2), of x tok au] assms(3,4) by auto
    then show ?thesis using True t(3) by simp
  next
    case False
    have "sessionMiddleware au (Some tok) ?t = None"
    proof (rule ccontr)
      assume "sessionMiddleware au (Some tok) ?t \<noteq> None"
      then obtain y u where "sessionMiddleware au (Some tok) ?t = Some (y, u)" by (cases "sessionMiddleware au (Some tok) ?t") auto
      then have "y \<in> set (sessions ?t)" "ssTokenHash y = ssTokenHash x" "nowSQL ?t < ssExpiresAt y"
        using assms(4) by (auto simp: sessionMiddleware_Some session_of_Some [OF t(2)])
      then show False using False t(1) by (auto simp: only_row_def alive_def)
    qed
    then show ?thesis using False t(3) \<open>alive x s\<close> by auto
  qed
qed

section \<open>What a login needs\<close>

text \<open>The part of \<open>CompleteLogin\<close> that writes, once the assertion is accepted.\<close>
lemma login_writes:
  assumes "bindE (internal (UpsertUser p)) (MintSession au random) s = (r, t)"
  shows "case r of
      Inl e \<Rightarrow> sessions t = sessions s
    | Inr l \<Rightarrow> (\<exists>x. same_identity p (lrUser l) \<and> lrUser l \<in> set (users t)
        \<and> (\<forall>u. \<not> same_identity p u \<longrightarrow> (u \<in> set (users t) \<longleftrightarrow> u \<in> set (users s)))
        \<and> sessions t = sessions s @ [x] \<and> ssUserID x = uID (lrUser l) \<and> ssTokenHash x = HashToken au (lrRawToken l))"
proof (cases rule: UpsertUser_cases [of p s])
  case (1 e t')
  then show ?thesis using assms by (auto simp: bindE_apply internal_def map_err_apply)
next
  case (2 u vs)
  let ?s = "s\<lparr>minted := Suc (minted s), users := vs\<rparr>"
  have mint: "MintSession au random u ?s = (r, t)" using assms 2(1) by (simp add: bindE_apply internal_def map_err_apply)
  show ?thesis
  proof (cases rule: MintSession_cases [of au random u ?s])
    case (1 e n)
    then show ?thesis using mint by auto
  next
    case (2 raw l)
    let ?x = "session_row au raw u ?s"
    have r: "r = Inr l" and t: "t = ?s\<lparr>minted := Suc (minted ?s), sessions := sessions ?s @ [?x]\<rparr>" using mint 2(5) by auto
    have "ssUserID ?x = uID u" "ssTokenHash ?x = HashToken au (hex_text raw)" by (simp_all add: session_row_def)
    then show ?thesis using \<open>users_after p (users s) vs\<close> \<open>u \<in> set vs\<close> \<open>same_identity p u\<close> 2(2,3)
      unfolding r t users_after_def by (auto intro!: exI [of _ ?x])
  qed
qed

text \<open>
  C30. A login is answered with a session only when the sidecar decrypts the token, the assertion
  in it verifies, was made for this service where it has a name, and carries a fresh nonce; the
  session is then of the person with that domain and user id, and every other person and every
  earlier session is as before.  A login that is refused makes no session.
\<close>
theorem logins_are_verified:
  assumes "CompleteLogin au random tok s = (r, t)"
  shows "case r of
      Inl e \<Rightarrow> sessions t = sessions s
    | Inr l \<Rightarrow> (\<exists>pki signed a x. auPKI au = Some pki \<and> DecryptToken pki tok = Some signed
        \<and> VerifyAssertion pki signed (cfLinkkeysIDPDomain (auCfg au)) = Some a
        \<and> (LinkkeysRPDomain (auCfg au) = [] \<or> asAudience a = LinkkeysRPDomain (auCfg au))
        \<and> VerifyNonce (auHMAC au) (cfSessionNonceSecret (auCfg au)) (clock s) (asNonce a) = None
        \<and> uLinkkeysDomain (lrUser l) = ToLowerId (asDomain a) \<and> uLinkkeysUserID (lrUser l) = asUserID a
        \<and> lrUser l \<in> set (users t)
        \<and> (\<forall>u. uLinkkeysDomain u \<noteq> ToLowerId (asDomain a) \<or> uLinkkeysUserID u \<noteq> asUserID a \<longrightarrow> (u \<in> set (users t) \<longleftrightarrow> u \<in> set (users s)))
        \<and> sessions t = sessions s @ [x] \<and> ssUserID x = uID (lrUser l) \<and> ssTokenHash x = HashToken au (lrRawToken l))"
proof -
  let ?cfg = "auCfg au"
  show ?thesis
  proof (cases "auPKI au")
    case None
    then show ?thesis using assms by (auto simp: CompleteLogin_def Let_def)
  next
    case pki: (Some pki)
    show ?thesis
    proof (cases "DecryptToken pki tok")
      case None
      then show ?thesis using assms pki by (auto simp: CompleteLogin_def Let_def)
    next
      case signed: (Some signed)
      show ?thesis
      proof (cases "VerifyAssertion pki signed (cfLinkkeysIDPDomain ?cfg)")
        case None
        then show ?thesis using assms pki signed by (auto simp: CompleteLogin_def Let_def)
      next
        case a: (Some a)
        let ?p = "\<lparr>upLinkkeysDomain = ToLowerId (asDomain a), upLinkkeysUserID = asUserID a,
           upHandle = ToLowerId (local_part (asUserID a)), upDisplayName = asDisplayName a, upKind = UserKindHuman\<rparr>"
        let ?bad = "LinkkeysRPDomain ?cfg \<noteq> [] \<and> asAudience a \<noteq> LinkkeysRPDomain ?cfg"
        let ?stale = "VerifyNonce (auHMAC au) (cfSessionNonceSecret ?cfg) (clock s) (asNonce a) \<noteq> None"
        show ?thesis
        proof (cases "?bad \<or> ?stale")
          case True
          then show ?thesis using assms pki signed a by (auto simp: CompleteLogin_def Let_def split: if_splits)
        next
          case False
          then have "bindE (internal (UpsertUser ?p)) (MintSession au random) s = (r, t)"
            using assms pki signed a by (auto simp: CompleteLogin_def Let_def)
          from login_writes [OF this] show ?thesis using False pki signed a
            by (cases r) (auto simp: same_identity_def)
        qed
      qed
    qed
  qed
qed


section \<open>Instances\<close>

definition sample_config :: Config where
  "sample_config = (Load (\<lambda>_. None) ''key'' (\<lambda>_. []) Map.empty)\<lparr>cfLinkkeysIDPDomain := ''idp.org''\<rparr>"

definition sample_assertion :: Assertion where
  "sample_assertion = \<lparr>asUserID = ''eve@idp.org'', asDomain = ''IDP.org'', asAudience = ''idp.org'',
     asNonce = MintNonce sample_hm ''key'' second (replicate 16 7), asDisplayName = []\<rparr>"

definition sample_sidecar :: sidecar where
  "sample_sidecar path body = Some (200, Some \<lparr>saSignedRequest = [], saSignedAssertion = ''signed'', saAssertion = sample_assertion,
     saVerified = True\<rparr>)"

definition sample_auth :: auth_service where
  "sample_auth = \<lparr>auCfg = sample_config, auPKI = Some sample_sidecar, auSHA256 = text_bytes, auHMAC = sample_hm\<rparr>"

definition sample_session :: Session where
  "sample_session = \<lparr>ssID = ''s1'', ssUserID = ''ada'', ssTokenHash = HashToken sample_auth ''tok'', ssCreatedAt = 0,
     ssExpiresAt = 100 * second\<rparr>"

definition sample_request_db :: request_db where
  "sample_request_db = \<lparr>clock = second, ulid = sample_id, minted = 0, settings = DefaultInstanceSettings,
     users = [ada, bob], organizations = [], organization_members = [], gatherings = [], gathering_owners = [],
     gathering_members = [], event_series = [], events = [], event_attendance = [], event_roles = [],
     gathering_offers = [], webhooks = [], webhook_deliveries = [], peers = [], outbox = [], remote_events = [],
     origin_stats = [], seen_batches = [], sessions = [sample_session], greetings = [], sink_result = None, sink_cleared = False\<rparr>"

lemma sample_sessions_ok: "sessions_ok sample_request_db"
  by (simp add: sessions_ok_def sample_request_db_def sample_session_def ada_def bob_def)

theorem sessions_end_at_logout_or_expiry_witness:
  "map_option (\<lambda>(y, u). (y, uID u)) (sessionMiddleware sample_auth (Some ''tok'')
      (fold (auth_step sample_auth) [Waited (50 * second), Swept] sample_request_db)) = Some (sample_session, ''ada'')
   \<and> sessionMiddleware sample_auth (Some ''tok'')
      (fold (auth_step sample_auth) [Waited (50 * second), SignedOut (Some ''tok''), Waited second] sample_request_db) = None"
proof -
  note now = sessions_end_at_logout_or_expiry [OF sample_sessions_ok, of sample_session "''tok''" sample_auth]
  have s: "sample_session \<in> set (sessions sample_request_db)" "HashToken sample_auth ''tok'' = ssTokenHash sample_session"
    "nowSQL sample_request_db < ssExpiresAt sample_session" "ssUserID sample_session = ''ada''"
    by (simp_all add: sample_request_db_def sample_session_def nowSQL_def stored_time_def second_def)
  have n: "nowSQL (fold (auth_step sample_auth) [Waited (50 * second), Swept] sample_request_db) < ssExpiresAt sample_session"
    by (simp add: DeleteExpiredSessions_def nowSQL_def sample_request_db_def sample_session_def stored_time_def second_def)
  show ?thesis
    using now [of "[Waited (50 * second), Swept]"] now [of "[Waited (50 * second), SignedOut (Some ''tok''), Waited second]"] s n
    by (simp add: second_def)
qed

lemma sample_nonce_fresh: "VerifyNonce sample_hm ''key'' second (asNonce sample_assertion) = None"
proof -
  have len: "length (sample_hm k b) = nonceMACLen" for k b by (simp add: sample_hm_def)
  have "length (replicate 16 7 :: bytes) = nonceRandomLen" by (simp add: nonceRandomLen_def)
  from VerifyNonce_minted [where hm = sample_hm and secret = "''key''" and other = "''key''" and t = second and now = second, OF len this] issued_time [of second]
  show ?thesis by (simp add: sample_assertion_def second_def stored_time_def NonceTTL_def)
qed

lemma sample_token_fresh: "HashToken sample_auth (hex_text (replicate 32 1)) \<noteq> HashToken sample_auth ''tok''"
proof
  have len: "length (hex_text bs) = 2 * length bs" for bs by (induction bs) (simp_all add: hex_text_def)
  assume "HashToken sample_auth (hex_text (replicate 32 1)) = HashToken sample_auth ''tok''"
  then have "length (HashToken sample_auth (hex_text (replicate 32 1))) = length (HashToken sample_auth ''tok'')" by simp
  then show False by (simp add: HashToken_def len sample_auth_def text_bytes_def)
qed

theorem logins_are_verified_witness:
  "\<exists>l t x. CompleteLogin sample_auth (Some (replicate 32 1)) ''encrypted'' sample_request_db = (Inr l, t)
     \<and> uLinkkeysDomain (lrUser l) = ''idp.org'' \<and> sessions t = [sample_session, x]"
proof -
  obtain r t where r: "CompleteLogin sample_auth (Some (replicate 32 1)) ''encrypted'' sample_request_db = (r, t)" by fastforce
  have cfg: "cfLinkkeysIDPDomain sample_config = ''idp.org''" "LinkkeysRPDomain sample_config = ''idp.org''"
    "cfSessionNonceSecret sample_config = ''key''"
    by (simp_all add: sample_config_def LinkkeysRPDomain_def Load_def applyFlags_def loaded_def flagged_def getEnv_def Let_def)
  let ?p = "\<lparr>upLinkkeysDomain = ''idp.org'', upLinkkeysUserID = ''eve@idp.org'', upHandle = ''eve'', upDisplayName = [], upKind = UserKindHuman\<rparr>"
  have name: "ToLowerId ''IDP.org'' = ''idp.org''" "ToLowerId (local_part ''eve@idp.org'') = ''eve''" by code_simp+
  have "bindE (internal (UpsertUser ?p)) (MintSession sample_auth (Some (replicate 32 1))) sample_request_db = (r, t)"
    using r sample_nonce_fresh cfg name
    by (simp add: CompleteLogin_def Let_def sample_auth_def sample_sidecar_def DecryptToken_def VerifyAssertion_def linkkeys_post_def
        sample_request_db_def) (simp add: sample_assertion_def name)
  then have "\<exists>l. r = Inr l"
    using sample_token_fresh
    by (auto simp: UpsertUser_def MintSession_def CreateSession_def handle_taken_def same_identity_def user_exists_def sample_request_db_def
        sample_session_def ada_def bob_def NewID_apply bindE_apply thenE_apply require_def internal_def map_err_apply Let_def sample_id_def)
  then obtain l where l: "r = Inr l" by blast
  have "ToLowerId ''IDP.org'' = ''idp.org''" by code_simp
  moreover have "sessions sample_request_db = [sample_session]" by (simp add: sample_request_db_def)
  ultimately show ?thesis using logins_are_verified [OF r] r unfolding l
    by (auto simp: sample_auth_def sample_sidecar_def VerifyAssertion_def linkkeys_post_def sample_assertion_def)
qed


end
