(* ===== verification/Directory.thy ===== *)
theory Directory
  imports Standing WebhookService Sessions
begin

text \<open>
  One instance, whole: the requests its services answer, each made by whoever bears the cookie
  that comes with it, the passes that run beside them, and the time that goes by.  A step is one
  of these, run to its end; the reachable states are what any sequence of them leads to from an
  empty database.
\<close>

section \<open>Requests\<close>

datatype gathering_request =
    GetGatheringReq ident
  | CreateGatheringReq utext utext utext "(string \<times> ident) option"
  | UpdateGatheringReq ident "utext option" "utext option" "utext option" "string option"
  | DeleteGatheringReq ident
  | JoinGatheringReq ident
  | LeaveGatheringReq ident
  | AddGatheringOwnerReq ident string ident
  | RemoveGatheringOwnerReq ident string ident
  | OfferGatheringReq ident ident utext
  | RespondToGatheringOfferReq ident bool
  | WithdrawGatheringOfferReq ident
  | AdoptGatheringReq ident ident

fun serve_gathering :: "service \<Rightarrow> caller \<Rightarrow> gathering_request \<Rightarrow> ('m hook_db_scheme, error, unit) oper" where
  "serve_gathering sv c (GetGatheringReq i) = answered (GetGathering sv c i)"
| "serve_gathering sv c (CreateGatheringReq n b d ow) = answered (CreateGathering sv c n b d ow)"
| "serve_gathering sv c (UpdateGatheringReq i n b d p) = answered (UpdateGathering sv c i n b d p)"
| "serve_gathering sv c (DeleteGatheringReq i) = DeleteGathering sv c i"
| "serve_gathering sv c (JoinGatheringReq i) = answered (JoinGathering sv c i)"
| "serve_gathering sv c (LeaveGatheringReq i) = answered (LeaveGathering sv c i)"
| "serve_gathering sv c (AddGatheringOwnerReq i k j) = answered (AddGatheringOwner sv c i k j)"
| "serve_gathering sv c (RemoveGatheringOwnerReq i k j) = answered (RemoveGatheringOwner sv c i k j)"
| "serve_gathering sv c (OfferGatheringReq i j note) = answered (OfferGathering c i j note)"
| "serve_gathering sv c (RespondToGatheringOfferReq i a) = answered (RespondToGatheringOffer c i a)"
| "serve_gathering sv c (WithdrawGatheringOfferReq i) = WithdrawGatheringOffer c i"
| "serve_gathering sv c (AdoptGatheringReq i j) = answered (AdoptGathering sv c i j)"

datatype event_request =
    GetEventReq ident
  | CreateEventReq CreateEventRequest
  | UpdateEventReq ident UpdateEventRequest
  | DeleteEventReq ident
  | AttendEventReq ident
  | UnattendEventReq ident
  | GetEventSeriesReq ident
  | CreateEventSeriesReq CreateSeriesRequest
  | UpdateEventSeriesReq ident UpdateSeriesRequest
  | DeleteEventSeriesReq ident
  | ExpandEventSeriesReq ident "instant option"
  | SetEventRoleReq "ident option" "ident option" ident string
  | RemoveEventRoleReq "ident option" "ident option" ident string

fun serve_event :: "event_service \<Rightarrow> caller \<Rightarrow> event_request \<Rightarrow> ('m fed_db_scheme, error, unit) oper" where
  "serve_event sv c (GetEventReq i) = answered (GetEvent sv c i)"
| "serve_event sv c (CreateEventReq q) = answered (CreateEvent sv c q)"
| "serve_event sv c (UpdateEventReq i q) = answered (UpdateEvent sv c i q)"
| "serve_event sv c (DeleteEventReq i) = DeleteEvent sv c i"
| "serve_event sv c (AttendEventReq i) = answered (AttendEvent sv c i)"
| "serve_event sv c (UnattendEventReq i) = answered (UnattendEvent sv c i)"
| "serve_event sv c (GetEventSeriesReq i) = answered (GetEventSeries sv c i)"
| "serve_event sv c (CreateEventSeriesReq q) = answered (CreateEventSeries sv c q)"
| "serve_event sv c (UpdateEventSeriesReq i q) = answered (UpdateEventSeries sv c i q)"
| "serve_event sv c (DeleteEventSeriesReq i) = DeleteEventSeries sv c i"
| "serve_event sv c (ExpandEventSeriesReq i t) = answered (ExpandEventSeries sv c i t)"
| "serve_event sv c (SetEventRoleReq e x u r) = answered (SetEventRole c e x u r)"
| "serve_event sv c (RemoveEventRoleReq e x u r) = answered (RemoveEventRole c e x u r)"

section \<open>Steps\<close>

record deployment =
  dpService :: service
  dpEvents :: event_service
  dpFederation :: fed_service
  dpWebhooks :: webhook_service
  dpAuth :: auth_service

text \<open>The caller a handler sees: whoever bears the cookie, or nobody.\<close>
definition bearer :: "deployment \<Rightarrow> string option \<Rightarrow> 'm session_db_scheme \<Rightarrow> caller" where
  "bearer I cookie s = callerOf (map_option snd (sessionMiddleware (dpAuth I) cookie s))"

inductive instance_step :: "deployment \<Rightarrow> 'm request_db_scheme \<Rightarrow> 'm request_db_scheme \<Rightarrow> bool" for I where
  organization: "instance_step I s (snd (serve_organization (dpService I) (bearer I cookie s) ro s))"
| gathering: "instance_step I s (snd (serve_gathering (dpService I) (bearer I cookie s) rg s))"
| event: "instance_step I s (snd (serve_event (dpEvents I) (bearer I cookie s) re s))"
| admin: "instance_step I s (snd (serve_admin (bearer I cookie s) ra s))"
| webhook: "instance_step I s (snd (serve_webhook (dpWebhooks I) (bearer I cookie s) rw s))"
| federation: "instance_step I s (snd (serve_federation (dpFederation I) (bearer I cookie s) rf s))"
| peering: "instance_step I s (snd (RequestPeering (dpFederation I) q s))"
| delivery: "instance_step I s (snd (DeliverEvents (dpFederation I) d s))"
| identity: "(\<And>n. e \<noteq> Waited n) \<Longrightarrow> instance_step I s (auth_step (dpAuth I) e s)"
| sending: "instance_step I s (snd (RunOnce sn s))"
| posting: "instance_step I s (Drain post s)"
| sweeping: "instance_step I s (sweepExpiredRemoteEvents s)"
| waiting: "0 \<le> n \<Longrightarrow> instance_step I s (s\<lparr>clock := clock s + n\<rparr>)"

inductive_cases instance_stepE: "instance_step I s t"

inductive reachable :: "deployment \<Rightarrow> 'm request_db_scheme \<Rightarrow> 'm request_db_scheme \<Rightarrow> bool" for I s where
  here: "reachable I s s"
| there: "reachable I s t \<Longrightarrow> instance_step I t u \<Longrightarrow> reachable I s u"

lemma reachable_keeps:
  assumes "reachable I s t" "P s" "\<And>u v. instance_step I u v \<Longrightarrow> P u \<Longrightarrow> P v"
  shows "P t"
  using assms(1,2) by (induction rule: reachable.induct) (auto intro: assms(3))

section \<open>What the requests of the three core services leave alone\<close>

context bystander begin

lemma stays_serve_organization: "keeps P (serve_organization sv c r)"
  by (cases r) (auto intro!: keeps_answered stays_organization_handlers)

lemma stays_serve_gathering: "keeps P (serve_gathering sv c r)"
  by (cases r) (auto intro!: keeps_answered stays_gathering_handlers)

lemma stays_serve_event: "keeps P (serve_event sv c r)"
  by (cases r) (auto intro!: keeps_answered stays_event_handlers stays_series_handlers)

end

text \<open>The people, the peers and the sessions are beside the three services, and so are the webhooks' limits.\<close>
definition unmoved :: "User list \<Rightarrow> Peer list \<Rightarrow> Session list \<Rightarrow> 'm session_db_scheme \<Rightarrow> bool" where
  "unmoved us ps ss s \<longleftrightarrow> users s = us \<and> peers s = ps \<and> sessions s = ss"

interpretation crowd: bystander "unmoved us ps ss"
  by unfold_locales
    (simp_all add: unmoved_def keeps_def QueueWebhookDelivery_def NewID_def bindE_apply thenE_apply require_def
      DeleteWebhooksFor_def delete_webhooks_def)

interpretation hooked: bystander "hooks_ok ws"
  by (unfold_locales; (rule keeps_hooks_statements | simp add: hooks_ok_def))

lemma keeps_directory_serve_organization: "keeps directory_ok (serve_organization sv c r)"
  by (cases r) (auto intro!: keeps_answered keeps_directory_organization_handlers keeps_directory_SetOrganizationMember
      pure_op_keeps [OF pure_GetOrganization])

lemma keeps_directory_serve_gathering: "keeps directory_ok (serve_gathering sv c r)"
  by (cases r) (auto intro!: keeps_answered keeps_directory_gathering_handlers keeps_directory_RespondToGatheringOffer
      keeps_reads simp: GetGathering_def)

lemma keeps_directory_serve_event: "keeps directory_ok (serve_event sv c r)"
  by (cases r) (auto intro!: keeps_answered keeps_directory_event_handlers keeps_directory_series_handlers
      keeps_bindE keeps_reads simp: GetEvent_def)

section \<open>The other services and the passes\<close>

text \<open>Everything but the webhooks' tables; everything but the people, the sessions and the greetings.\<close>
definition unhooked :: "'m hook_db_scheme \<Rightarrow> 'm hook_db_scheme" where
  "unhooked s = s\<lparr>minted := 0, webhooks := [], webhook_deliveries := []\<rparr>"

definition abroad :: "'m request_db_scheme \<Rightarrow> 'm request_db_scheme" where
  "abroad s = s\<lparr>minted := 0, users := [], sessions := [], greetings := [], sink_result := None, sink_cleared := False\<rparr>"

lemma unhooked_of [simp]:
  "unhooked (s\<lparr>minted := n\<rparr>) = unhooked s" "unhooked (s\<lparr>webhooks := a\<rparr>) = unhooked s" "unhooked (s\<lparr>webhook_deliveries := b\<rparr>) = unhooked s"
  by (simp_all add: unhooked_def)

lemma leaves_unhooked_NewID [leaves_intros]: "leaves unhooked NewID"
  by (simp add: leaves_def NewID_def)

lemma leaves_webhook_reads [leaves_intros]:
  "leaves f (WebhookByID i)" "leaves f (ListWebhooks kind i)" "leaves f (canManage c kind i)" "leaves f (managed c i)"
  "leaves f (refuse_url ws t)"
  by (rule pure_op_leaves, rule pure_webhook_reads)+

lemma leaves_level_reads [leaves_intros]: "leaves f (OrganizationByID i)" "leaves f (GatheringByID j)" "leaves f (authenticated c)"
  by (auto simp: GatheringByID_def authenticated_def intro!: pure_op_leaves pure_op_bindE)

lemma leaves_unhooked_statements [leaves_intros]:
  "leaves unhooked (CreateWebhookRow k i own secret n)" "leaves unhooked (UpdateWebhookRow i own)" "leaves unhooked (DeleteWebhookRow i)"
  "leaves unhooked (WebhookDelivered d w status now)" "leaves unhooked (WebhookFailed d w status reason nextTry m)"
  unfolding CreateWebhookRow_def UpdateWebhookRow_def DeleteWebhookRow_def WebhookDelivered_def WebhookFailed_def
  by (auto simp: Let_def delete_webhooks_def intro!: leaves_intros leaves_writes)

lemma leaves_unhooked_serve: "leaves unhooked (serve_webhook ws c r)"
  by (cases r)
    (auto simp: ListWebhooksOp_def CreateWebhook_def UpdateWebhook_def DeleteWebhook_def
      intro!: leaves_intros split: WebhookOwnerKind.split)

lemma unhooked_Drain:
  fixes s :: "'m hook_db_scheme"
  shows "unhooked (Drain post s) = unhooked s"
proof -
  have one: "unhooked (after (deliver post d t)) = unhooked t" for d and t :: "'m hook_db_scheme"
    unfolding deliver_def by (rule leavesD) (auto intro!: leaves_intros split: prod.split option.split)
  have "unhooked (drain_each post ds t) = unhooked t" for ds and t :: "'m hook_db_scheme"
    by (induction ds arbitrary: t) (simp_all add: one)
  then show ?thesis by (simp add: Drain_def DueWebhookDeliveries_def)
qed

lemma abroad_of [simp]:
  "abroad (s\<lparr>minted := n\<rparr>) = abroad s" "abroad (s\<lparr>users := a\<rparr>) = abroad s" "abroad (s\<lparr>sessions := b\<rparr>) = abroad s"
  "abroad (s\<lparr>greetings := c\<rparr>) = abroad s" "abroad (s\<lparr>sink_result := d\<rparr>) = abroad s" "abroad (s\<lparr>sink_cleared := e\<rparr>) = abroad s"
  by (simp_all add: abroad_def)

section \<open>People come, and stay\<close>

text \<open>A relation every state is in with itself, and that chains, holds across an operation whose parts have it.\<close>
definition across :: "('s \<Rightarrow> 's \<Rightarrow> bool) \<Rightarrow> ('s, 'e, 'a) oper \<Rightarrow> bool" where
  "across R m \<longleftrightarrow> (\<forall>s. R s (snd (m s)))"

locale chaining =
  fixes R :: "'s \<Rightarrow> 's \<Rightarrow> bool"
  assumes refl [simp]: "R s s" and chain: "R s t \<Longrightarrow> R t u \<Longrightarrow> R s u"
begin

lemma across_pure: "pure_op m \<Longrightarrow> across R m"
  by (simp add: across_def pure_op_def)

lemma across_bindE: "across R m \<Longrightarrow> (\<And>x. across R (f x)) \<Longrightarrow> across R (bindE m f)"
  unfolding across_def bindE_def by (auto split: prod.splits sum.splits) (metis chain snd_conv)+

lemma across_thenE: "across R m \<Longrightarrow> across R k \<Longrightarrow> across R (thenE m k)"
  by (simp add: thenE_def across_bindE)

lemma across_internal: "across R m \<Longrightarrow> across R (internal m)"
  by (simp add: across_def internal_def)

end

text \<open>No id goes and the role keeps a holder; and nobody comes by the role.\<close>
definition kept_people :: "'m request_db_scheme \<Rightarrow> 'm request_db_scheme \<Rightarrow> bool" where
  "kept_people s t \<longleftrightarrow> abroad t = abroad s \<and> uID ` set (users s) \<subseteq> uID ` set (users t) \<and> (has_admin s \<longrightarrow> has_admin t)"

definition welcomed :: "'m request_db_scheme \<Rightarrow> 'm request_db_scheme \<Rightarrow> bool" where
  "welcomed s t \<longleftrightarrow> kept_people s t \<and> ((\<exists>u\<in>set (users t). uIsAdmin u) \<longrightarrow> (\<exists>u\<in>set (users s). uIsAdmin u))"

interpretation kept: chaining kept_people
  by unfold_locales (auto simp: kept_people_def)

interpretation arrival: chaining welcomed
  by unfold_locales (auto simp: welcomed_def kept_people_def)

lemma across_welcomed: "across welcomed m \<Longrightarrow> across kept_people m"
  by (simp add: across_def welcomed_def)

lemma welcomed_same: "abroad t = abroad s \<Longrightarrow> users t = users s \<Longrightarrow> welcomed s t"
  by (simp add: welcomed_def kept_people_def has_admin_def)

lemma welcomed_UpsertUser: "across welcomed (UpsertUser p :: ('m request_db_scheme, store_error, User) oper)"
  unfolding across_def
proof
  fix s :: "'m request_db_scheme"
  show "welcomed s (snd (UpsertUser p s))"
  proof (cases rule: UpsertUser_cases [of p s])
    case (1 e t)
    then show ?thesis by (simp add: welcomed_same)
  next
    case (2 u vs)
    then show ?thesis by (auto simp: welcomed_def kept_people_def has_admin_def users_after_def)
  qed
qed

lemma welcomed_MintSession: "across welcomed (MintSession au random u :: ('m request_db_scheme, error, LoginResult) oper)"
  unfolding across_def
proof
  fix s :: "'m request_db_scheme"
  show "welcomed s (snd (MintSession au random u s))"
    by (cases rule: MintSession_cases [of au random u s]) (auto intro: welcomed_same)
qed

lemma welcomed_CompleteLogin: "across welcomed (CompleteLogin au random tok)"
  unfolding CompleteLogin_def Let_def
  by (intro arrival.across_bindE arrival.across_thenE arrival.across_internal welcomed_UpsertUser welcomed_MintSession;
      rule arrival.across_pure; simp)

lemma welcomed_callback: "welcomed s (snd (handleAuthCallback au random tok s))"
proof -
  obtain r t where r: "CompleteLogin au random tok s = (r, t)" by fastforce
  then have "welcomed s t" using welcomed_CompleteLogin [of au random tok, unfolded across_def, rule_format, of s] by simp
  then show ?thesis using r by (cases r) (auto simp: handleAuthCallback_def Let_def)
qed

lemma has_admin_granted:
  assumes "has_admin s"
  shows "has_admin (s\<lparr>users := set_rows p (\<lambda>x. x\<lparr>uIsAdmin := True, uAdminGrantedAt := a\<rparr>) (users s)\<rparr>)"
proof -
  let ?f = "\<lambda>x. x\<lparr>uIsAdmin := True, uAdminGrantedAt := a\<rparr>"
  obtain u where u: "u \<in> set (users s)" "uIsAdmin u" and d: "distinct (map uID (users s))" using assms by (auto simp: has_admin_def)
  have "map uID (set_rows p ?f (users s)) = map uID (users s)" by (rule set_rows_keys) simp
  moreover have "(if p u then ?f u else u) \<in> set (set_rows p ?f (users s))" using u(1) by (simp add: set_rows_def)
  moreover have "uIsAdmin (if p u then ?f u else u)" using u(2) by simp
  ultimately show ?thesis using d unfolding has_admin_def by (auto simp del: set_set_rows)
qed

lemma kept_grant: "across kept_people (if b then thenE (internal (SetAdminRow i True)) (ret v) else ret w)"
proof -
  have "uID ` set (set_rows p (\<lambda>x. x\<lparr>uIsAdmin := True, uAdminGrantedAt := a\<rparr>) us) = uID ` set us" for p a and us :: "User list"
    by (rule set_rows_key_set) simp
  then show ?thesis
    by (simp add: across_def SetAdminRow_def thenE_apply require_def internal_def map_err_apply kept_people_def has_admin_granted del: set_set_rows)
qed

lemma kept_DevLogin: "across kept_people (DevLogin au random name domain)"
proof -
  have "across kept_people (SetSession r)" for r by (simp add: SetSession_def across_def kept_people_def has_admin_def)
  then show ?thesis unfolding DevLogin_def Let_def
    by (intro kept.across_bindE kept.across_thenE kept.across_internal across_welcomed [OF welcomed_UpsertUser]
        across_welcomed [OF welcomed_MintSession] kept_grant) (simp_all add: kept.across_pure)
qed

text \<open>Every event of identities keeps the people, and none but a development login makes an administrator.\<close>
lemma arrivals:
  fixes s :: "'m request_db_scheme"
  assumes "\<And>n. e \<noteq> Waited n"
  shows "kept_people s (auth_step au e s) \<and> (sessions_ok s \<longrightarrow> sessions_ok (auth_step au e s))
    \<and> (DevAuthAllowed (auCfg au) \<or> welcomed s (auth_step au e s))"
proof (cases e)
  case (SignedIn random tok)
  then show ?thesis using welcomed_callback [of s au random tok] logged_callback [of au random s tok]
    by (simp add: welcomed_def logged_def)
next
  case (DevSignedIn random name domain)
  let ?s = "s\<lparr>sink_result := None, sink_cleared := False\<rparr>"
  have "kept_people s ?s" by (simp add: kept_people_def has_admin_def)
  moreover have "kept_people ?s (snd (DevLogin au random name domain ?s))"
    using kept_DevLogin unfolding across_def by blast
  ultimately have "kept_people s (auth_step au e s)" using kept.chain DevSignedIn by simp
  moreover have "sessions_ok s \<longrightarrow> sessions_ok (auth_step au e s)"
    using logged_DevLogin [of au random ?s name domain] DevSignedIn by (simp add: logged_def sessions_ok_sink)
  moreover have "DevAuthAllowed (auCfg au) \<or> welcomed s (auth_step au e s)"
    using DevSignedIn by (simp add: DevLogin_def welcomed_same)
  ultimately show ?thesis by blast
next
  case (SignedOut cookie)
  have "welcomed s (auth_step au e s)"
    using SignedOut by (intro welcomed_same) (simp_all add: Logout_def ClearSession_def DeleteSession_def internal_def split: option.split)
  moreover have "sessions_ok s \<longrightarrow> sessions_ok (auth_step au e s)"
    using SignedOut by (auto simp: Logout_def ClearSession_def DeleteSession_def internal_def sessions_ok_def split: option.split)
  ultimately show ?thesis by (simp add: welcomed_def)
next
  case (Greeted cookie message)
  have "across welcomed (CreateGreetingRow a m :: ('m request_db_scheme, store_error, Greeting) oper)" for a m
    unfolding CreateGreetingRow_def GreetingByID_def
    by (auto simp: across_def NewID_apply bindE_apply thenE_apply require_def welcomed_same)
  then have "across welcomed (CreateGreeting user m :: ('m request_db_scheme, error, Greeting) oper)" for user m
    unfolding CreateGreeting_def Let_def
    by (intro arrival.across_bindE arrival.across_thenE arrival.across_internal; simp add: arrival.across_pure)
  then have "welcomed s (auth_step au e s)" unfolding Greeted across_def by simp
  moreover have "sessions_ok s \<longrightarrow> sessions_ok (auth_step au e s)"
    using logged_CreateGreeting [of None s "map_option snd (sessionMiddleware au cookie s)" message] Greeted by (simp add: logged_def)
  ultimately show ?thesis by (simp add: welcomed_def)
next
  case Swept
  have "welcomed s (auth_step au e s)" using Swept by (intro welcomed_same) (simp_all add: DeleteExpiredSessions_def)
  then show ?thesis using Swept by (auto simp: welcomed_def DeleteExpiredSessions_def sessions_ok_del)
qed (use assms in simp)

section \<open>What everything else keeps\<close>

lemma directory_ok_people:
  assumes "directory_ok s" "uID ` set (users s) \<subseteq> uID ` set us"
  shows "directory_ok (s\<lparr>users := us\<rparr>)"
proof -
  let ?t = "s\<lparr>users := us\<rparr>"
  have "user_exists u t \<longleftrightarrow> u \<in> uID ` set (users t)" for u and t :: "'a core_db_scheme" by (auto simp: user_exists_def)
  then have user: "user_exists u s \<Longrightarrow> user_exists u ?t" for u using assms(2) by auto
  have other: "gathering_exists g ?t = gathering_exists g s" "organization_exists i ?t = organization_exists i s"
    "event_exists j ?t = event_exists j s" "series_exists k ?t = series_exists k s" "event_references e ?t = event_references e s" for g i j k e
    by (simp_all add: gathering_exists_def organization_exists_def event_exists_def series_exists_def event_references_def)
  have "organizations_inv s" "gatherings_ok s" "offers_ok s" "events_ok s" using assms(1) by (simp_all add: directory_ok_def)
  then have "organizations_inv ?t" "gatherings_ok ?t" "offers_ok ?t" "events_ok ?t"
    using user assms(2)
    by (auto simp: organizations_inv_def organizations_ok_def organizations_owned_def)
      (auto simp: gatherings_ok_def owner_row_ok_def offers_ok_def events_ok_defs role_row_ok_def other)
  then show ?thesis by (simp add: directory_ok_def)
qed

lemma directory_ok_settings: "directory_ok s \<Longrightarrow> directory_ok (s\<lparr>settings := st\<rparr>)"
proof -
  let ?t = "s\<lparr>settings := st\<rparr>"
  assume "directory_ok s"
  then have "organizations_inv s" "gatherings_ok s" "offers_ok s" "events_ok s" by (simp_all add: directory_ok_def)
  then have "organizations_inv ?t" "gatherings_ok ?t" "offers_ok ?t" "events_ok ?t"
    by (auto simp: organizations_inv_def organizations_ok_def organizations_owned_def)
      (auto simp: gatherings_ok_def owner_row_ok_def offers_ok_def events_ok_defs role_row_ok_def user_exists_def
        gathering_exists_def organization_exists_def event_exists_def series_exists_def event_references_def)
  then show ?thesis by (simp add: directory_ok_def)
qed

text \<open>What two states agree on when one is the other's with these tables replaced.\<close>
lemma tables_of_abroad:
  assumes "abroad t = abroad s"
  shows "same_core (s\<lparr>users := users t\<rparr>) t" "peers t = peers s" "webhooks t = webhooks s" "webhook_deliveries t = webhook_deliveries s"
proof -
  show "peers t = peers s" "webhooks t = webhooks s" "webhook_deliveries t = webhook_deliveries s"
    using arg_cong [OF assms, of peers] arg_cong [OF assms, of webhooks] arg_cong [OF assms, of webhook_deliveries] by (simp_all add: abroad_def)
  show "same_core (s\<lparr>users := users t\<rparr>) t"
    using arg_cong [OF assms, of clock] arg_cong [OF assms, of settings] arg_cong [OF assms, of organizations]
      arg_cong [OF assms, of organization_members] arg_cong [OF assms, of gatherings] arg_cong [OF assms, of gathering_owners]
      arg_cong [OF assms, of gathering_members] arg_cong [OF assms, of event_series] arg_cong [OF assms, of events]
      arg_cong [OF assms, of event_attendance] arg_cong [OF assms, of event_roles] arg_cong [OF assms, of gathering_offers]
    by (simp add: abroad_def same_core_def)
qed

lemma tables_of_home:
  assumes "home t = home s"
  shows "same_core s t" "users t = users s" "webhooks t = webhooks s" "webhook_deliveries t = webhook_deliveries s"
proof -
  show "users t = users s" "webhooks t = webhooks s" "webhook_deliveries t = webhook_deliveries s"
    using arg_cong [OF assms, of users] arg_cong [OF assms, of webhooks] arg_cong [OF assms, of webhook_deliveries]
    by (simp_all add: home_def)
  show "same_core s t"
    using arg_cong [OF assms, of clock] arg_cong [OF assms, of settings] arg_cong [OF assms, of users] arg_cong [OF assms, of organizations]
      arg_cong [OF assms, of organization_members] arg_cong [OF assms, of gatherings] arg_cong [OF assms, of gathering_owners]
      arg_cong [OF assms, of gathering_members] arg_cong [OF assms, of event_series] arg_cong [OF assms, of events]
      arg_cong [OF assms, of event_attendance] arg_cong [OF assms, of event_roles] arg_cong [OF assms, of gathering_offers]
    by (simp add: home_def same_core_def)
qed

lemma tables_of_unhooked:
  assumes "unhooked t = unhooked s"
  shows "same_core s t" "users t = users s"
proof -
  show "users t = users s" using arg_cong [OF assms, of users] by (simp add: unhooked_def)
  show "same_core s t"
    using arg_cong [OF assms, of clock] arg_cong [OF assms, of settings] arg_cong [OF assms, of users] arg_cong [OF assms, of organizations]
      arg_cong [OF assms, of organization_members] arg_cong [OF assms, of gatherings] arg_cong [OF assms, of gathering_owners]
      arg_cong [OF assms, of gathering_members] arg_cong [OF assms, of event_series] arg_cong [OF assms, of events]
      arg_cong [OF assms, of event_attendance] arg_cong [OF assms, of event_roles] arg_cong [OF assms, of gathering_offers]
    by (simp add: unhooked_def same_core_def)
qed

section \<open>The invariant\<close>

definition instance_ok :: "deployment \<Rightarrow> 'm request_db_scheme \<Rightarrow> bool" where
  "instance_ok I s \<longleftrightarrow> directory_ok s \<and> peers_ok s \<and> hooks_ok (dpWebhooks I) s \<and> sessions_ok s"

lemma sessions_ok_same: "sessions_ok s \<Longrightarrow> users t = users s \<Longrightarrow> sessions t = sessions s \<Longrightarrow> sessions_ok t"
  by (simp add: sessions_ok_def)

lemma peers_ok_same: "peers_ok s \<Longrightarrow> peers t = peers s \<Longrightarrow> peers_ok t"
  by (simp add: peers_ok_def)

lemma core_service_ok:
  assumes "instance_ok I s" "keeps directory_ok m" "keeps (hooks_ok (dpWebhooks I)) m"
    "keeps (unmoved (users s) (peers s) (sessions s)) m"
  shows "instance_ok I (snd (m s))"
proof -
  have "unmoved (users s) (peers s) (sessions s) (snd (m s))" by (rule keepsD [OF assms(4)]) (simp add: unmoved_def)
  then show ?thesis using assms(1) keepsD [OF assms(2)] keepsD [OF assms(3)]
    by (auto simp: instance_ok_def unmoved_def intro: peers_ok_same sessions_ok_same)
qed

lemma federation_ok:
  assumes "instance_ok I s" "home t = home s" "peers_ok t"
  shows "instance_ok I t"
proof -
  note tables = tables_of_home [OF assms(2)]
  have "sessions t = sessions s" using arg_cong [OF assms(2), of sessions] by (simp add: home_def)
  then show ?thesis using assms(1,3) tables core_onlyD [OF core_only_directory tables(1)]
    by (auto simp: instance_ok_def intro: sessions_ok_same hooks_ok_frame)
qed

lemma webhooks_ok:
  assumes "instance_ok I s" "unhooked t = unhooked s" "hooks_ok (dpWebhooks I) t"
  shows "instance_ok I t"
proof -
  note tables = tables_of_unhooked [OF assms(2)]
  have "sessions t = sessions s" "peers t = peers s"
    using arg_cong [OF assms(2), of sessions] arg_cong [OF assms(2), of peers] by (simp_all add: unhooked_def)
  then show ?thesis using assms(1,3) tables core_onlyD [OF core_only_directory tables(1)]
    by (auto simp: instance_ok_def intro: sessions_ok_same peers_ok_same)
qed

lemma people_ok:
  assumes "instance_ok I s" "kept_people s t" "sessions_ok t"
  shows "instance_ok I t"
proof -
  have a: "abroad t = abroad s" "uID ` set (users s) \<subseteq> uID ` set (users t)" using assms(2) by (simp_all add: kept_people_def)
  note tables = tables_of_abroad [OF a(1)]
  have "directory_ok (s\<lparr>users := users t\<rparr>)" using assms(1) a(2) by (intro directory_ok_people) (simp_all add: instance_ok_def)
  then have "directory_ok t" by (rule core_onlyD [OF core_only_directory tables(1)])
  then show ?thesis using assms(1,3) tables by (auto simp: instance_ok_def intro: peers_ok_same hooks_ok_frame)
qed

lemma instance_ok_set_admin:
  assumes "instance_ok I s"
  shows "instance_ok I (s\<lparr>users := set_rows p (\<lambda>x. x\<lparr>uIsAdmin := b, uAdminGrantedAt := a\<rparr>) (users s)\<rparr>)"
proof -
  let ?us = "set_rows p (\<lambda>x. x\<lparr>uIsAdmin := b, uAdminGrantedAt := a\<rparr>) (users s)"
  have ids: "uID ` set ?us = uID ` set (users s)" by (rule set_rows_key_set) simp
  have "directory_ok (s\<lparr>users := ?us\<rparr>)" using assms ids by (intro directory_ok_people) (simp_all add: instance_ok_def del: set_set_rows)
  moreover have "map uID ?us = map uID (users s)" by (rule set_rows_keys) simp
  ultimately show ?thesis using assms ids
    by (simp add: instance_ok_def peers_ok_def hooks_ok_def sessions_ok_def del: set_set_rows)
qed

lemma instance_ok_settings: "instance_ok I s \<Longrightarrow> instance_ok I (s\<lparr>settings := st\<rparr>)"
  by (simp add: instance_ok_def directory_ok_settings peers_ok_def hooks_ok_def sessions_ok_def)

lemma admin_ok: "instance_ok I s \<Longrightarrow> instance_ok I (snd (serve_admin c r s))"
proof -
  have users: "keeps (instance_ok I) (SetAdminRow u granted)" for u granted
    by (rule keepsI)
      (simp add: SetAdminRow_def thenE_apply require_def instance_ok_set_admin del: set_set_rows)
  have guard: "pure_op (refuseLastAdmin granted)" for granted
    by (auto simp: refuseLastAdmin_def intro!: pure_op_bindE)
  have "keeps (instance_ok I) (SetAdmin c u granted)" for u granted
    unfolding SetAdmin_def admin_list_def
    by (intro keeps_bindE keeps_thenE keeps_not_found keeps_internal users pure_op_keeps [OF guard] pure_op_keeps [OF pure_is_admin]
        pure_op_keeps [OF pure_people(3)])
  then have "keeps (instance_ok I) (serve_admin c r)" by (rule keeps_serve_admin) (rule instance_ok_settings)
  then show "instance_ok I s \<Longrightarrow> instance_ok I (snd (serve_admin c r s))" by (rule keepsD)
qed


lemma keeps_peers_ok_outcomes:
  "keeps peers_ok (RecordDeliverySuccess i t)" "keeps peers_ok (RecordDeliveryFailure i reason t cutoff)"
  "keeps peers_ok (MarkDelivered j)" "keeps peers_ok (MarkDeliveryFailed j reason t)" "keeps peers_ok (DeferDelivery j reason t)"
proof -
  show "keeps peers_ok (RecordDeliverySuccess i t)" "keeps peers_ok (RecordDeliveryFailure i reason t cutoff)"
    unfolding RecordDeliverySuccess_def RecordDeliveryFailure_def
    by (rule keeps_peers_ok_update; simp add: failed_peer_def Let_def)+
  show "keeps peers_ok (MarkDelivered j)" "keeps peers_ok (MarkDeliveryFailed j reason t)" "keeps peers_ok (DeferDelivery j reason t)"
    by (rule keeps_peers_ok_frame; simp add: MarkDelivered_def MarkDeliveryFailed_def DeferDelivery_def leaves_writes)+
qed

lemma peers_ok_RunOnce:
  fixes s :: "'m fed_db_scheme"
  assumes "peers_ok s"
  shows "peers_ok (snd (RunOnce sn s))"
proof -
  note statements = keeps_peers_ok_outcomes [THEN keepsD]
  have one: "peers_ok (record_outcome sn now item r u)" if "peers_ok u" for now item r and u :: "'m fed_db_scheme"
    using that
    by (cases r; simp add: record_outcome_def recordFailure_def statements)
      (simp add: recordDeferral_def recordRefusal_def recordSuccess_def statements split: deliveryOutcome.split)
  have all: "peers_ok u \<Longrightarrow> peers_ok (snd (pass_items sn now xs u))" for now xs and u :: "'m fed_db_scheme"
  proof (induction xs arbitrary: u)
    case (Cons x xs)
    show ?case
    proof (cases "deliverItem sn x")
      case (Returns r)
      obtain out t where r: "pass_items sn now xs (record_outcome sn now (fst x) r u) = (out, t)" by fastforce
      then have "peers_ok t" using Cons.IH [of "record_outcome sn now (fst x) r u"] one [OF Cons.prems] by simp
      then show ?thesis using Returns r by simp
    qed (simp_all add: Cons.prems)
  qed simp
  then show ?thesis using assms by (auto simp: RunOnce_def DueDeliveries_def split: prod.split sum.split)
qed

lemma peers_ok_sweep: "peers_ok s \<Longrightarrow> peers_ok (sweepExpiredRemoteEvents s)"
  by (simp add: peers_ok_def sweepExpiredRemoteEvents_def ForgetBatchesSeenBefore_def DeleteRemoteEventsEndedBefore_def Let_def)

lemma instance_ok_waits: "instance_ok I s \<Longrightarrow> instance_ok I (s\<lparr>clock := t\<rparr>)"
proof -
  assume ok: "instance_ok I s"
  then have "organizations_inv s" "gatherings_ok s" "offers_ok s" "events_ok s" by (simp_all add: instance_ok_def directory_ok_def)
  then have "organizations_inv (s\<lparr>clock := t\<rparr>)" "gatherings_ok (s\<lparr>clock := t\<rparr>)" "offers_ok (s\<lparr>clock := t\<rparr>)" "events_ok (s\<lparr>clock := t\<rparr>)"
    by (auto simp: organizations_inv_def organizations_ok_def organizations_owned_def)
      (auto simp: gatherings_ok_def owner_row_ok_def offers_ok_def events_ok_defs role_row_ok_def user_exists_def
        gathering_exists_def organization_exists_def event_exists_def series_exists_def event_references_def)
  then show ?thesis using ok by (simp add: instance_ok_def directory_ok_def peers_ok_def hooks_ok_def sessions_ok_def)
qed

lemma step_instance_ok:
  assumes "instance_step I s t" "instance_ok I s"
  shows "instance_ok I t"
  using assms(1)
proof (cases rule: instance_step.cases)
  case (identity e)
  have "sessions_ok s" using assms(2) by (simp add: instance_ok_def)
  then show ?thesis unfolding identity(1) using arrivals [OF identity(2), where au = "dpAuth I" and s = s] by (intro people_ok [OF assms(2)]) auto
next
  case (sending sn)
  have "peers_ok s" using assms(2) by (simp add: instance_ok_def)
  then show ?thesis unfolding sending by (intro federation_ok [OF assms(2)] home_RunOnce peers_ok_RunOnce)
next
  case sweeping
  have "peers_ok s" using assms(2) by (simp add: instance_ok_def)
  then show ?thesis unfolding sweeping by (intro federation_ok [OF assms(2)] home_sweep peers_ok_sweep)
next
  case (posting post)
  have "hooks_ok (dpWebhooks I) s" using assms(2) by (simp add: instance_ok_def)
  then show ?thesis unfolding posting by (intro webhooks_ok [OF assms(2)] unhooked_Drain hooks_ok_Drain)
next
  case (webhook cookie rw)
  have "hooks_ok (dpWebhooks I) s" using assms(2) by (simp add: instance_ok_def)
  then show ?thesis unfolding webhook
    by (intro webhooks_ok [OF assms(2)] leavesD [OF leaves_unhooked_serve] keepsD [OF keeps_hooks_serve])
next
  case (federation cookie rf)
  have "peers_ok s" using assms(2) by (simp add: instance_ok_def)
  then show ?thesis unfolding federation
    by (intro federation_ok [OF assms(2)] leavesD [OF leaves_home_serve_federation] keepsD [OF keeps_peers_ok_serve])
next
  case (peering q)
  have "peers_ok s" using assms(2) by (simp add: instance_ok_def)
  then show ?thesis unfolding peering
    by (intro federation_ok [OF assms(2)] leavesD [OF leaves_home_RequestPeering] keepsD [OF keeps_peers_ok_RequestPeering])
next
  case (delivery d)
  have "peers_ok s" using assms(2) by (simp add: instance_ok_def)
  then show ?thesis unfolding delivery
    by (intro federation_ok [OF assms(2)] leavesD [OF leaves_home_DeliverEvents] keepsD [OF keeps_peers_ok_DeliverEvents])
qed (use assms(2) in \<open>auto intro: admin_ok instance_ok_waits
  core_service_ok keeps_directory_serve_organization keeps_directory_serve_gathering keeps_directory_serve_event
  crowd.stays_serve_organization crowd.stays_serve_gathering crowd.stays_serve_event
  hooked.stays_serve_organization hooked.stays_serve_gathering hooked.stays_serve_event\<close>)


section \<open>Properties\<close>

text \<open>A freshly migrated database.\<close>
definition installed :: "instant \<Rightarrow> (nat \<Rightarrow> ident) \<Rightarrow> request_db" where
  "installed now ids = \<lparr>clock = now, ulid = ids, minted = 0, settings = DefaultInstanceSettings,
     users = [], organizations = [], organization_members = [], gatherings = [], gathering_owners = [],
     gathering_members = [], event_series = [], events = [], event_attendance = [], event_roles = [],
     gathering_offers = [], webhooks = [], webhook_deliveries = [], peers = [], outbox = [], remote_events = [],
     origin_stats = [], seen_batches = [], sessions = [], greetings = [], sink_result = None, sink_cleared = False\<rparr>"

lemma instance_ok_installed: "instance_ok I (installed now ids)"
  by (simp add: instance_ok_def installed_def directory_ok_def organizations_inv_def organizations_ok_def
      organizations_owned_def gatherings_ok_def offers_ok_def events_ok_defs peers_ok_def hooks_ok_def sessions_ok_def count_rows_def WebhooksPerOwner_def)

text \<open>
  C32. Whatever sequence of requests, deliveries, passes and logins an instance serves from an empty
  database, its tables stay consistent: the directory's rows refer to rows that exist, every
  organization and gathering is owned as it must be, an approved peer has an identity, the webhooks
  stay within their limits and have acceptable URLs, and every session belongs to somebody.
\<close>
theorem reachable_instances_are_consistent:
  assumes "reachable I (installed now ids) t"
  shows "directory_ok t \<and> peers_ok t \<and> hooks_ok (dpWebhooks I) t \<and> sessions_ok t"
proof -
  have "instance_ok I t"
    using assms instance_ok_installed by (rule reachable_keeps) (rule step_instance_ok)
  then show ?thesis by (simp add: instance_ok_def)
qed

definition sample_instance :: deployment where
  "sample_instance = \<lparr>dpService = sample_service, dpEvents =
       \<lparr>svOriginDomain = ''a.org'', svNotify = None, svLower = ascii_lower_rune, svPublisher = None,
        svLoadLocation = (\<lambda>_. Some (\<lambda>_. 0)), svParseURL = (\<lambda>_. None)\<rparr>,
      dpFederation = sample_fed, dpWebhooks = sample_webhooks,
     dpAuth = sample_auth\<lparr>auCfg := sample_config\<lparr>cfEnv := ''dev'', cfDevAuthEnabled := True\<rparr>\<rparr>\<rparr>"

lemma sample_dev_login:
  fixes ids :: "nat \<Rightarrow> ident"
  defines "t \<equiv> auth_step (dpAuth sample_instance) (DevSignedIn (Some (replicate 32 1)) ''ann'' ''a.org'') (installed 0 ids)"
  shows "map uHandle (users t) = [''ann''] \<and> length (sessions t) = 1"
proof -
  have name: "ToLowerId ''ann'' = ''ann''" "ToLowerId ''dev'' = ''dev''" "trim_id ''ann'' = ''ann''" "trim_id ''a.org'' = ''a.org''" by code_simp+
  show ?thesis unfolding t_def sample_instance_def
    by (simp add: DevLogin_def DevAuthAllowed_def name Let_def installed_def sample_auth_def UpsertUser_def MintSession_def CreateSession_def
        handle_taken_def same_identity_def user_exists_def NewID_apply bindE_apply thenE_apply require_def internal_def map_err_apply
        DevAdminHandle_def SetSession_def with_cookies_def)
qed

theorem reachable_instances_are_consistent_witness:
  "let t = auth_step (dpAuth sample_instance) (DevSignedIn (Some (replicate 32 1)) ''ann'' ''a.org'') (installed 0 sample_id)
   in map uHandle (users t) = [''ann''] \<and> length (sessions t) = 1 \<and> directory_ok t \<and> sessions_ok t"
proof -
  let ?t = "auth_step (dpAuth sample_instance) (DevSignedIn (Some (replicate 32 1)) ''ann'' ''a.org'') (installed 0 sample_id)"
  have "reachable sample_instance (installed 0 sample_id) ?t"
    by (rule there [OF here]) (rule identity, simp)
  from reachable_instances_are_consistent [OF this] show ?thesis
    using sample_dev_login [of sample_id] unfolding Let_def by blast
qed

lemma bearer_row: "cIsAdmin (bearer I cookie s) \<Longrightarrow> \<exists>u\<in>set (users s). uIsAdmin u"
  by (auto simp: bearer_def callerOf_def sessionMiddleware_def SessionByTokenHash_def session_of_def bindE_apply
      bind_eq_Some_conv split: option.splits sum.splits if_splits dest!: row_SomeD)

text \<open>Who holds the role after a step.\<close>
lemma step_people:
  assumes "instance_step I s t"
  shows "users t = users s \<or> (\<exists>c r. t = snd (serve_admin c r s) \<and> (\<exists>cookie. c = bearer I cookie s))
    \<or> (\<exists>e. (\<forall>n. e \<noteq> Waited n) \<and> t = auth_step (dpAuth I) e s)"
proof -
  have core: "users (snd (m s)) = users s" if "keeps (unmoved (users s) (peers s) (sessions s)) m" for m :: "('a request_db_scheme, error, unit) oper"
    using keepsD [OF that, of s] by (simp add: unmoved_def)
  note rest = tables_of_home(2) [OF leavesD [OF leaves_home_serve_federation]] tables_of_home(2) [OF leavesD [OF leaves_home_RequestPeering]]
    tables_of_home(2) [OF leavesD [OF leaves_home_DeliverEvents]] tables_of_home(2) [OF home_RunOnce] tables_of_home(2) [OF home_sweep]
    tables_of_unhooked(2) [OF unhooked_Drain] tables_of_unhooked(2) [OF leavesD [OF leaves_unhooked_serve]]
    core [OF crowd.stays_serve_organization] core [OF crowd.stays_serve_gathering] core [OF crowd.stays_serve_event]
  show ?thesis using assms by (cases rule: instance_step.cases) (auto simp: rest)
qed

lemma reachable_has_admin: "reachable I s t \<Longrightarrow> has_admin s \<Longrightarrow> has_admin t"
proof (erule reachable_keeps, assumption)
  fix u v :: "'a request_db_scheme"
  assume "instance_step I u v" and h: "has_admin u"
  from step_people [OF this(1)] show "has_admin v"
  proof (elim disjE exE conjE)
    fix c r assume "v = snd (serve_admin c r u)"
    then show ?thesis using keepsD [OF keeps_has_admin_serve_admin h] by simp
  next
    fix e assume "\<forall>n. e \<noteq> Waited n" "v = auth_step (dpAuth I) e u"
    then show ?thesis using arrivals [of e u "dpAuth I"] h by (auto simp: kept_people_def)
  qed (use h in \<open>simp add: has_admin_def\<close>)
qed



text \<open>
  C34. The role comes only from somebody who has it: where the development login is not allowed
  (which, by the previous claims on the configuration, is everywhere but in a development environment),
  an instance nobody administers is still administered by nobody after any sequence of steps.
\<close>
theorem administrators_come_from_administrators:
  assumes "\<not> DevAuthAllowed (auCfg (dpAuth I))" "\<forall>u\<in>set (users s). \<not> uIsAdmin u" "reachable I s t"
  shows "\<forall>u\<in>set (users t). \<not> uIsAdmin u"
  using assms(3,2)
proof (rule reachable_keeps)
  fix u v :: "'a request_db_scheme"
  assume "instance_step I u v" and none: "\<forall>x\<in>set (users u). \<not> uIsAdmin x"
  from step_people [OF this(1)] show "\<forall>x\<in>set (users v). \<not> uIsAdmin x"
  proof (elim disjE exE conjE)
    fix c r cookie assume v: "v = snd (serve_admin c r u)" "c = bearer I cookie u"
    have "\<not> cIsAdmin c" using none by (auto simp: v(2) dest: bearer_row)
    then have "v = u" unfolding v(1) by (rule serve_admin_refuses)
    then show ?thesis using none by simp
  next
    fix e assume "\<forall>n. e \<noteq> Waited n" "v = auth_step (dpAuth I) e u"
    then show ?thesis using arrivals [of e u "dpAuth I"] assms(1) none by (auto simp: welcomed_def)
  qed (use none in simp)
qed


theorem administrators_come_from_administrators_witness:
  "let s = sample_request_db\<lparr>users := [bob], sessions := [sample_session\<lparr>ssUserID := ''bob''\<rparr>]\<rparr>;
       I = sample_instance\<lparr>dpAuth := sample_auth\<rparr>
   in \<forall>u\<in>set (users (snd (serve_admin (bearer I (Some ''tok'') s) (SetAdminReq ''bob'' True) s))). \<not> uIsAdmin u"
  unfolding Let_def
proof (rule administrators_come_from_administrators [where I = "sample_instance\<lparr>dpAuth := sample_auth\<rparr>"])
  let ?s = "sample_request_db\<lparr>users := [bob], sessions := [sample_session\<lparr>ssUserID := ''bob''\<rparr>]\<rparr>"
  have "ParseBool [] = None" by code_simp
  then show "\<not> DevAuthAllowed (auCfg (dpAuth (sample_instance\<lparr>dpAuth := sample_auth\<rparr>)))"
    by (simp add: sample_auth_def DevAuthAllowed_def sample_config_def Load_def applyFlags_def loaded_def flagged_def getEnv_def
        getEnvBool_def parseBoolOr_def Let_def)
  show "\<forall>u\<in>set (users ?s). \<not> uIsAdmin u" by (simp add: bob_def)
  show "reachable (sample_instance\<lparr>dpAuth := sample_auth\<rparr>) ?s
    (snd (serve_admin (bearer (sample_instance\<lparr>dpAuth := sample_auth\<rparr>) (Some ''tok'') ?s) (SetAdminReq ''bob'' True) ?s))"
    by (rule there [OF here]) (rule admin)
qed

end
