(* ===== verification/Listing.thy ===== *)
theory Listing
  imports StoreEvents RateLimit Complex_Main
begin

text \<open>
  The filtered lists of \<open>store/sqlite\<close>: the predicates a filter turns into, how a page is cut out
  of what they select, and \<open>query.go\<close>, which turns a term into a LIKE pattern.  A coordinate is
  stored as the bits of a float64; a comparison reads it as the real number it denotes, and the
  bounds it is compared with are real numbers, their arithmetic exact.
\<close>

section \<open>LIKE\<close>

text \<open>
  SQLite's LIKE: a percent sign stands for any text, an underscore for any rune, the escape
  character, where the expression names one, for the rune after it; ASCII letters match in
  either case.
\<close>
function like_match :: "rune option \<Rightarrow> utext \<Rightarrow> utext \<Rightarrow> bool" where
  "like_match esc [] t = (t = [])"
| "like_match esc (p # ps) t =
     (if esc = Some p
      then (case (ps, t) of (q # qs, c # cs) \<Rightarrow> ascii_lower_rune q = ascii_lower_rune c \<and> like_match esc qs cs | _ \<Rightarrow> False)
      else if p = 37
      then like_match esc ps t \<or> (case t of [] \<Rightarrow> False | c # cs \<Rightarrow> like_match esc (p # ps) cs)
      else (case t of [] \<Rightarrow> False
            | c # cs \<Rightarrow> (p = 95 \<or> ascii_lower_rune p = ascii_lower_rune c) \<and> like_match esc ps cs))"
  by pat_completeness auto
termination by (relation "measure (\<lambda>(esc, ps, t). length ps + length t)") auto

text \<open>\<open>strings.NewReplacer\<close> on the three characters LIKE treats as syntax.\<close>
definition escaped :: "utext \<Rightarrow> utext" where
  "escaped q = concat (map (\<lambda>r. if r = 92 \<or> r = 37 \<or> r = 95 then [92, r] else [r]) q)"

definition like :: "utext \<Rightarrow> utext" where
  "like query = [37] @ escaped query @ [37]"

definition likeFoldBody :: "(rune \<Rightarrow> rune) \<Rightarrow> utext \<Rightarrow> utext" where
  "likeFoldBody lower query = escaped (ToLower lower query)"

definition likePrefix :: "(rune \<Rightarrow> rune) \<Rightarrow> utext \<Rightarrow> utext" where
  "likePrefix lower query = likeFoldBody lower query @ [37]"

definition likeFold :: "(rune \<Rightarrow> rune) \<Rightarrow> utext \<Rightarrow> utext" where
  "likeFold lower query = [37] @ likeFoldBody lower query @ [37]"

text \<open>SQLite's \<open>lower()\<close> folds ASCII only.\<close>
definition sql_lower :: "utext \<Rightarrow> utext" where
  "sql_lower t = map ascii_lower_rune t"

definition found_in :: "utext \<Rightarrow> utext \<Rightarrow> bool" where
  "found_in query text \<longleftrightarrow> query = [] \<or> like_match (Some 92) (like query) text"

section \<open>Places\<close>

text \<open>The number a float64's bits denote, when it is finite.\<close>
definition float_value :: "float64 \<Rightarrow> real" where
  "float_value w =
     (let e = unat (take_bit 11 (drop_bit 52 w)); m = real (unat (take_bit 52 w));
          v = (if e = 0 then m / 2 ^ 1074 else (m + 2 ^ 52) * 2 ^ e / 2 ^ 1075)
      in if bit w 63 then - v else v)"

record GeoBox =
  gbMinLatitude :: real
  gbMaxLatitude :: real
  gbMinLongitude :: real
  gbMaxLongitude :: real

record PlaceFilter =
  pfLocality :: utext
  pfRegion :: utext
  pfCountry :: utext
  pfBox :: "GeoBox option"

definition IsEmpty :: "PlaceFilter \<Rightarrow> bool" where
  "IsEmpty p \<longleftrightarrow> pfLocality p = [] \<and> pfRegion p = [] \<and> pfCountry p = [] \<and> pfBox p = None"

text \<open>BETWEEN on two columns, of which a NULL makes the row fail.\<close>
definition in_box :: "GeoBox \<Rightarrow> Location \<Rightarrow> bool" where
  "in_box b l = (case (locLatitude l, locLongitude l) of
      (Some lat, Some lon) \<Rightarrow> gbMinLatitude b \<le> float_value lat \<and> float_value lat \<le> gbMaxLatitude b
        \<and> gbMinLongitude b \<le> float_value lon \<and> float_value lon \<le> gbMaxLongitude b
    | _ \<Rightarrow> False)"

definition placePredicates :: "PlaceFilter \<Rightarrow> Location \<Rightarrow> bool" where
  "placePredicates p l \<longleftrightarrow>
     (pfLocality p \<noteq> [] \<longrightarrow> sql_lower (locLocality l) = pfLocality p)
   \<and> (pfRegion p \<noteq> [] \<longrightarrow> sql_lower (locRegion l) = pfRegion p)
   \<and> (pfCountry p \<noteq> [] \<longrightarrow> sql_lower (locCountry l) = pfCountry p)
   \<and> (case pfBox p of None \<Rightarrow> True | Some b \<Rightarrow> in_box b l)"

section \<open>The lists\<close>

text \<open>A page of the rows a filter selects, in this order, and how many it selects in all.\<close>
definition listed :: "('r \<Rightarrow> bool) \<Rightarrow> ('r list \<Rightarrow> 'r list) \<Rightarrow> Page \<Rightarrow> 'r list \<Rightarrow> 'r list \<times> int" where
  "listed selects ordered page rows = (page_rows page (ordered (filter selects rows)), count_rows selects rows)"

record OrganizationFilter =
  ofQuery :: utext
  ofMemberID :: ident
  ofPage :: Page

definition organization_selected :: "OrganizationFilter \<Rightarrow> 'm core_db_scheme \<Rightarrow> organization_row \<Rightarrow> bool" where
  "organization_selected f s r \<longleftrightarrow> found_in (ofQuery f) (oiSearchText (orOwn r))
     \<and> (ofMemberID f \<noteq> [] \<longrightarrow> has_row (\<lambda>m. omrOrganization m = orID r \<and> omrUser m = ofMemberID f) (organization_members s))"

text \<open>The ORDER BY: with a query, the two bands first; their LIKE has no ESCAPE clause.\<close>
definition organization_order :: "(rune \<Rightarrow> rune) \<Rightarrow> utext \<Rightarrow> organization_row list \<Rightarrow> organization_row list" where
  "organization_order lower query rows =
     (if query = [] then rev (sort_key (\<lambda>r. (orCreatedAt r, orID r)) rows)
      else rev (sort_key (\<lambda>r. (like_match None (likePrefix lower query) (sql_lower (oiName (orOwn r))),
             like_match None (likeFold lower query) (sql_lower (oiName (orOwn r))), orCreatedAt r, orID r)) rows))"

definition ListOrganizations ::
  "(rune \<Rightarrow> rune) \<Rightarrow> OrganizationFilter \<Rightarrow> ('m core_db_scheme, store_error, Organization list \<times> int) oper" where
  "ListOrganizations lower f = reads (\<lambda>s.
     case listed (organization_selected f s) (organization_order lower (ofQuery f)) (ofPage f) (organizations s) of
       (rows, n) \<Rightarrow> (map (scanOrganization s) rows, n))"

record GatheringFilter =
  gfQuery :: utext
  gfMemberID :: ident
  gfOwnedByOrganization :: ident
  gfPlace :: PlaceFilter
  gfPage :: Page

definition gathering_selected :: "GatheringFilter \<Rightarrow> 'm core_db_scheme \<Rightarrow> gathering_row \<Rightarrow> bool" where
  "gathering_selected f s r \<longleftrightarrow> found_in (gfQuery f) (oiSearchText (grOwn r))
     \<and> (gfMemberID f \<noteq> [] \<longrightarrow>
          has_row (\<lambda>m. gmrGathering m = grID r \<and> gmrUser m = gfMemberID f) (gathering_members s)
        \<or> owns_directly (grID r) (gfMemberID f) s \<or> owns_through (grID r) (gfMemberID f) s)
     \<and> (gfOwnedByOrganization f \<noteq> [] \<longrightarrow>
          has_row (\<lambda>w. gorGathering w = grID r \<and> gorOrganization w = Some (gfOwnedByOrganization f)) (gathering_owners s))
     \<and> (\<not> IsEmpty (gfPlace f) \<longrightarrow>
          has_row (\<lambda>e. eiGatheringID (erOwn e) = grID r \<and> placePredicates (gfPlace f) (eiLocation (erOwn e))) (events s))"

definition ListGatherings :: "GatheringFilter \<Rightarrow> ('m core_db_scheme, store_error, Gathering list \<times> int) oper" where
  "ListGatherings f = reads (\<lambda>s.
     case listed (gathering_selected f s) (\<lambda>rows. rev (sort_key (\<lambda>r. (grCreatedAt r, grID r)) rows)) (gfPage f) (gatherings s) of
       (rows, n) \<Rightarrow> (map (scanGathering s) rows, n))"

text \<open>A zero time is no bound.\<close>
record EventFilter =
  efQuery :: utext
  efGatheringID :: ident
  efSeriesID :: ident
  efAttendeeID :: ident
  efMemberID :: ident
  efOwnedByOrganization :: ident
  efPlace :: PlaceFilter
  efStartsAfter :: "instant option"
  efStartsBefore :: "instant option"
  efOnlineOnly :: bool
  efInPersonOnly :: bool
  efIncludeStarted :: bool
  efNow :: instant
  efPage :: Page

definition starts_selected :: "instant option \<Rightarrow> instant option \<Rightarrow> bool \<Rightarrow> instant \<Rightarrow> instant \<Rightarrow> bool" where
  "starts_selected earliest latest started now start \<longleftrightarrow>
     (case earliest of None \<Rightarrow> True | Some t \<Rightarrow> stored_time t \<le> start)
   \<and> (case latest of None \<Rightarrow> True | Some t \<Rightarrow> start \<le> stored_time t)
   \<and> (\<not> started \<longrightarrow> stored_time now < start)"

definition event_selected :: "EventFilter \<Rightarrow> 'm core_db_scheme \<Rightarrow> event_row \<Rightarrow> bool" where
  "event_selected f s r \<longleftrightarrow> (let e = erOwn r in
       found_in (efQuery f) (eiSearchText e)
     \<and> (efGatheringID f \<noteq> [] \<longrightarrow> eiGatheringID e = efGatheringID f)
     \<and> (efSeriesID f \<noteq> [] \<longrightarrow> eiSeriesID e = Some (efSeriesID f))
     \<and> (efAttendeeID f \<noteq> [] \<longrightarrow> has_row (\<lambda>a. arEvent a = erID r \<and> arUser a = efAttendeeID f) (event_attendance s))
     \<and> (efOwnedByOrganization f \<noteq> [] \<longrightarrow>
          has_row (\<lambda>w. gorGathering w = eiGatheringID e \<and> gorOrganization w = Some (efOwnedByOrganization f)) (gathering_owners s))
     \<and> (efMemberID f \<noteq> [] \<longrightarrow>
          has_row (\<lambda>m. gmrGathering m = eiGatheringID e \<and> gmrUser m = efMemberID f) (gathering_members s)
        \<or> owns_directly (eiGatheringID e) (efMemberID f) s \<or> owns_through (eiGatheringID e) (efMemberID f) s)
     \<and> starts_selected (efStartsAfter f) (efStartsBefore f) (efIncludeStarted f) (efNow f) (eiStartsAt e)
     \<and> (efOnlineOnly f \<longrightarrow> eiIsOnline e) \<and> (efInPersonOnly f \<longrightarrow> eiIsInPerson e)
     \<and> placePredicates (efPlace f) (eiLocation e))"

definition ListEvents :: "EventFilter \<Rightarrow> ('m core_db_scheme, store_error, Event list \<times> int) oper" where
  "ListEvents f = reads (\<lambda>s.
     case listed (event_selected f s) (sort_key (\<lambda>r. (eiStartsAt (erOwn r), erID r))) (efPage f) (events s) of
       (rows, n) \<Rightarrow> (map (scanEvent s) rows, n))"

record EventSeriesFilter =
  sfQuery :: utext
  sfGatheringID :: ident
  sfPlace :: PlaceFilter
  sfPage :: Page

definition series_selected :: "EventSeriesFilter \<Rightarrow> series_row \<Rightarrow> bool" where
  "series_selected f r \<longleftrightarrow> found_in (sfQuery f) (siSearchText (srOwn r))
     \<and> (sfGatheringID f \<noteq> [] \<longrightarrow> siGatheringID (srOwn r) = sfGatheringID f)
     \<and> placePredicates (sfPlace f) (siLocation (srOwn r))"

definition ListEventSeries :: "EventSeriesFilter \<Rightarrow> ('m core_db_scheme, store_error, EventSeries list \<times> int) oper" where
  "ListEventSeries f = reads (\<lambda>s.
     case listed (series_selected f) (\<lambda>rows. rev (sort_key (\<lambda>r. (srCreatedAt r, srID r)) rows)) (sfPage f) (event_series s) of
       (rows, n) \<Rightarrow> (map (scanSeries s) rows, n))"


section \<open>Offers\<close>

record GatheringOfferFilter =
  ffOrganizationID :: ident
  ffGatheringID :: ident
  ffViewerID :: ident
  ffIncludeResolved :: bool

definition offer_selected :: "GatheringOfferFilter \<Rightarrow> 'm core_db_scheme \<Rightarrow> offer_row \<Rightarrow> bool" where
  "offer_selected f s r \<longleftrightarrow>
       (ffOrganizationID f \<noteq> [] \<longrightarrow> frOrganization r = ffOrganizationID f)
     \<and> (ffGatheringID f \<noteq> [] \<longrightarrow> frGathering r = ffGatheringID f)
     \<and> (\<not> ffIncludeResolved f \<longrightarrow> frStatus r = OfferPending)
     \<and> (ffViewerID f \<noteq> [] \<longrightarrow> frOfferedBy r = ffViewerID f
          \<or> has_row (\<lambda>m. omrOrganization m = frOrganization r \<and> omrUser m = ffViewerID f \<and> omrRole m = RoleOwner) (organization_members s)
          \<or> owns_directly (frGathering r) (ffViewerID f) s \<or> owns_through (frGathering r) (ffViewerID f) s)"

text \<open>No page: every offer selected, the newest first.\<close>
definition ListGatheringOffers :: "GatheringOfferFilter \<Rightarrow> ('m core_db_scheme, store_error, GatheringOffer list \<times> int) oper" where
  "ListGatheringOffers f = reads (\<lambda>s.
     (List.map_filter (scanOffer s) (sort_key (\<lambda>r. - frCreatedAt r) (filter (offer_selected f s) (gathering_offers s))),
      count_rows (offer_selected f s) (gathering_offers s)))"

section \<open>What peers sent\<close>

record RemoteEventFilter =
  rfQuery :: utext
  rfPlace :: PlaceFilter
  rfStartsAfter :: "instant option"
  rfStartsBefore :: "instant option"
  rfOnlineOnly :: bool
  rfInPersonOnly :: bool
  rfIncludeStarted :: bool
  rfNow :: instant
  rfPage :: Page

record RemoteEvent =
  rvID :: ident
  rvPeerID :: ident
  rvPeerAddress :: string
  rvOwn :: RemoteEventInput
  rvReceivedAt :: instant

definition remote_selected :: "RemoteEventFilter \<Rightarrow> remote_event_row \<Rightarrow> bool" where
  "remote_selected f r \<longleftrightarrow> (let e = reOwn r in
       found_in (rfQuery f) (riSearchText e)
     \<and> starts_selected (rfStartsAfter f) (rfStartsBefore f) (rfIncludeStarted f) (rfNow f) (riStartsAt e)
     \<and> (rfOnlineOnly f \<longrightarrow> riIsOnline e) \<and> (rfInPersonOnly f \<longrightarrow> riIsInPerson e)
     \<and> placePredicates (rfPlace f) (riLocation e))"

text \<open>\<open>remoteEventColumnsSQL\<close> joins the peer, of which there is always one.\<close>
definition scanRemoteEvent :: "'m fed_db_scheme \<Rightarrow> remote_event_row \<Rightarrow> RemoteEvent option" where
  "scanRemoteEvent s r = map_option (\<lambda>p. \<lparr>rvID = reID r, rvPeerID = rePeer r, rvPeerAddress = pAddress p, rvOwn = reOwn r,
     rvReceivedAt = reReceivedAt r\<rparr>) (row (\<lambda>p. pID p = rePeer r) (peers s))"

definition ListRemoteEvents :: "RemoteEventFilter \<Rightarrow> ('m fed_db_scheme, store_error, RemoteEvent list \<times> int) oper" where
  "ListRemoteEvents f = reads (\<lambda>s.
     (page_rows (rfPage f) (List.map_filter (scanRemoteEvent s)
        (sort_key (\<lambda>r. (riStartsAt (reOwn r), reID r)) (filter (remote_selected f) (remote_events s)))),
      count_rows (remote_selected f) (remote_events s)))"

section \<open>The volume of an origin\<close>

record OriginVolume =
  ovPeerID :: ident
  ovPeerAddress :: string
  ovOrganizationName :: utext
  ovHeld :: int
  ovAcceptedTotal :: int
  ovAcceptedThisMinute :: int
  ovLastReceivedAt :: "instant option"
  ovPeerRateLimitPerMinute :: int
  ovPeerRateLimitedTotal :: int
  ovPeerSuspended :: bool
  ovRateLimitPerMinute :: "int option"
  ovEffectiveRateLimitPerMinute :: int
  ovRateLimitedTotal :: int

text \<open>\<open>originVolumeSQL\<close>: a window that has rolled over counts as zero.\<close>
definition scanOrigin :: "int \<Rightarrow> instant \<Rightarrow> 'm fed_db_scheme \<Rightarrow> origin_row \<Rightarrow> OriginVolume option" where
  "scanOrigin instanceLimit now s o' = map_option (\<lambda>p.
     \<lparr>ovPeerID = ogPeer o', ovPeerAddress = pAddress p, ovOrganizationName = ogOrganizationName o',
      ovHeld = count_rows (\<lambda>r. rePeer r = ogPeer o' \<and> riOrganizationName (reOwn r) = ogOrganizationName o') (remote_events s),
      ovAcceptedTotal = ogAcceptedTotal o', ovAcceptedThisMinute = originUsed (minute_start now) o',
      ovLastReceivedAt = ogLastReceivedAt o',
      ovPeerRateLimitPerMinute = (case pRateLimitPerMinute p of None \<Rightarrow> 0 | Some l \<Rightarrow> l),
      ovPeerRateLimitedTotal = pRateLimitedTotal p, ovPeerSuspended = (pSuspendedAt p \<noteq> None),
      ovRateLimitPerMinute = ogRateLimitPerMinute o',
      ovEffectiveRateLimitPerMinute = (case ogRateLimitPerMinute o' of None \<Rightarrow> instanceLimit | Some l \<Rightarrow> l),
      ovRateLimitedTotal = ogRateLimitedTotal o'\<rparr>) (row (\<lambda>p. pID p = ogPeer o') (peers s))"

definition origin_listing :: "ident \<Rightarrow> int \<Rightarrow> instant \<Rightarrow> 'm fed_db_scheme \<Rightarrow> OriginVolume list" where
  "origin_listing peer instanceLimit now s = List.map_filter (scanOrigin instanceLimit now s)
     (sort_key (\<lambda>o'. (- ogAcceptedTotal o', ogOrganizationName o'))
        (filter (\<lambda>o'. peer \<noteq> [] \<longrightarrow> ogPeer o' = peer) (origin_stats s)))"

definition ListOriginVolume ::
  "ident \<Rightarrow> int \<Rightarrow> instant \<Rightarrow> Page \<Rightarrow> ('m fed_db_scheme, store_error, OriginVolume list \<times> int) oper" where
  "ListOriginVolume peer instanceLimit now page = reads (\<lambda>s.
     (page_rows page (origin_listing peer instanceLimit now s),
      count_rows (\<lambda>o'. peer \<noteq> [] \<longrightarrow> ogPeer o' = peer) (origin_stats s)))"

text \<open>The read-back: page after page, until the origin turns up or a page is empty.\<close>
function find_origin :: "utext \<Rightarrow> OriginVolume list \<Rightarrow> nat \<Rightarrow> OriginVolume option" where
  "find_origin name rows offset =
     (let page = page_rows \<lparr>pLimit = maxLimit, pOffset = int offset\<rparr> rows in
      if page = [] then None
      else (case find (\<lambda>v. ovOrganizationName v = name) page of
          Some v \<Rightarrow> Some v
        | None \<Rightarrow> find_origin name rows (offset + nat maxLimit)))"
  by pat_completeness auto
termination
  by (relation "measure (\<lambda>(name, rows, offset). length rows - offset)")
    (auto simp: page_rows_def clamp_def maxLimit_def Let_def)

declare find_origin.simps [simp del]

definition SetOriginRateLimitRow ::
  "ident \<Rightarrow> utext \<Rightarrow> int option \<Rightarrow> int \<Rightarrow> instant \<Rightarrow> ('m fed_db_scheme, store_error, OriginVolume) oper" where
  "SetOriginRateLimitRow peer name limit instanceLimit now =
     thenE (require (\<lambda>s. has_row (origin_key peer name) (origin_stats s)) ErrNotFound)
    (thenE (writes (\<lambda>s. s\<lparr>origin_stats := set_rows (origin_key peer name) (\<lambda>o'. o'\<lparr>ogRateLimitPerMinute := limit\<rparr>) (origin_stats s)\<rparr>))
    (bindE (reads (\<lambda>s. find_origin name (origin_listing peer instanceLimit now s) 0))
       (the_or ErrNotFound)))"

end
