(* ===== verification/Search.thy ===== *)
theory Search
  imports Listing Federation SeriesService
begin

text \<open>
  \<open>csilservices/search.go\<close> and the list operations of the other services: what a request asks the
  store for, how a circle on the globe becomes a box of coordinates and is made a circle again, and
  what the caller is shown of each record.  Angles, distances and the coordinates of a request are
  real numbers, with the sine, cosine and arctangent of the library: the rounding of float64 and its
  two infinities are left out.
\<close>

section \<open>Pages and lists\<close>

record WirePage =
  wpLimit :: "64 word option"
  wpOffset :: "64 word option"

definition pageOf :: "WirePage option \<Rightarrow> Page" where
  "pageOf p = (case p of
      None \<Rightarrow> \<lparr>pLimit = 0, pOffset = 0\<rparr>
    | Some w \<Rightarrow> \<lparr>pLimit = (case wpLimit w of None \<Rightarrow> 0 | Some l \<Rightarrow> sint l),
                 pOffset = (case wpOffset w of None \<Rightarrow> 0 | Some k \<Rightarrow> sint k)\<rparr>)"

fun shown :: "('a \<Rightarrow> ('s, 'e, 'b) oper) \<Rightarrow> 'a list \<Rightarrow> ('s, 'e, 'b list) oper" where
  "shown f [] = ret []"
| "shown f (x # xs) = bindE (f x) (\<lambda>y. bindE (shown f xs) (\<lambda>ys. ret (y # ys)))"

definition boolValue :: "bool option \<Rightarrow> bool" where
  "boolValue b \<longleftrightarrow> b = Some True"

definition text_of :: "'a option \<Rightarrow> ('a \<Rightarrow> 'b list) \<Rightarrow> 'b list" where
  "text_of x f = (case x of None \<Rightarrow> [] | Some v \<Rightarrow> f v)"

section \<open>The list operations\<close>

text \<open>An anonymous caller who asks for their own gets an empty list.\<close>
definition ListOrganizationsOp ::
  "service \<Rightarrow> caller \<Rightarrow> bool option \<Rightarrow> utext option \<Rightarrow> WirePage option \<Rightarrow> ('m core_db_scheme, error, WireOrganization list \<times> int) oper" where
  "ListOrganizationsOp sv c mine query page =
     (if boolValue mine \<and> cID c = [] then ret ([], 0)
      else bindE (internal (ListOrganizations (svLower sv)
          \<lparr>ofQuery = text_of query TrimSpace, ofMemberID = (if boolValue mine then cID c else []), ofPage = pageOf page\<rparr>)) (\<lambda>(gs, n).
        bindE (shown (\<lambda>g. bindE (orgViewerFor c (oID g)) (\<lambda>viewer. ret (toOrganization g viewer (svOriginDomain sv)))) gs) (\<lambda>out.
        ret (out, n))))"

definition noPlace :: PlaceFilter where
  "noPlace = \<lparr>pfLocality = [], pfRegion = [], pfCountry = [], pfBox = None\<rparr>"

definition ListGatheringsOp ::
  "service \<Rightarrow> caller \<Rightarrow> bool option \<Rightarrow> ident option \<Rightarrow> WirePage option \<Rightarrow> ('m core_db_scheme, error, WireGathering list \<times> int) oper" where
  "ListGatheringsOp sv c mine owner page =
     (if boolValue mine \<and> cID c = [] then ret ([], 0)
      else bindE (internal (ListGatherings \<lparr>gfQuery = [], gfMemberID = (if boolValue mine then cID c else []),
          gfOwnedByOrganization = text_of owner id, gfPlace = noPlace, gfPage = pageOf page\<rparr>)) (\<lambda>(gs, n).
        bindE (shown (\<lambda>g. bindE (gatheringViewerFor c (gID g)) (\<lambda>viewer.
            bindE (publishDecisionFor (Some g)) (\<lambda>publish. ret (toGathering g viewer publish (svOriginDomain sv))))) gs) (\<lambda>out.
        ret (out, n))))"

record ListEventsRequest =
  leGatheringId :: "ident option"
  leStartsAfter :: "instant option"
  leStartsBefore :: "instant option"
  leIncludeStarted :: "bool option"
  leAttendingOnly :: "bool option"
  leOwnedByOrganization :: "ident option"
  leMine :: "bool option"
  lePage :: "WirePage option"

definition ListEventsOp ::
  "'v event_service_scheme \<Rightarrow> caller \<Rightarrow> ListEventsRequest \<Rightarrow> ('m core_db_scheme, error, WireEvent list \<times> int) oper" where
  "ListEventsOp sv c req =
     (if (boolValue (leAttendingOnly req) \<or> boolValue (leMine req)) \<and> cID c = [] then ret ([], 0)
      else bindE (reads clock) (\<lambda>now.
        bindE (internal (ListEvents \<lparr>efQuery = [], efGatheringID = text_of (leGatheringId req) id, efSeriesID = [],
          efAttendeeID = (if boolValue (leAttendingOnly req) then cID c else []),
          efMemberID = (if boolValue (leMine req) then cID c else []),
          efOwnedByOrganization = text_of (leOwnedByOrganization req) id, efPlace = noPlace,
          efStartsAfter = leStartsAfter req, efStartsBefore = leStartsBefore req, efOnlineOnly = False, efInPersonOnly = False,
          efIncludeStarted = boolValue (leIncludeStarted req), efNow = now, efPage = pageOf (lePage req)\<rparr>)) (\<lambda>(es, n).
        bindE (presentAll sv c es) (\<lambda>out.
        ret (out, n)))))"

definition ListEventSeriesOp ::
  "'v event_service_scheme \<Rightarrow> caller \<Rightarrow> ident option \<Rightarrow> WirePage option \<Rightarrow> ('m core_db_scheme, error, WireSeries list \<times> int) oper" where
  "ListEventSeriesOp sv c gathering page =
     bindE (internal (ListEventSeries \<lparr>sfQuery = [], sfGatheringID = text_of gathering id, sfPlace = noPlace, sfPage = pageOf page\<rparr>)) (\<lambda>(xs, n).
     bindE (shown (\<lambda>x. bindE (seriesViewerFor c x) (\<lambda>viewer. ret (toEventSeries x viewer (svOriginDomain sv)))) xs) (\<lambda>out.
     ret (out, n)))"

definition ListAttendeesOp :: "ident \<Rightarrow> WirePage option \<Rightarrow> ('m core_db_scheme, error, Attendee list \<times> int) oper" where
  "ListAttendeesOp i page = internal (ListAttendees i (pageOf page))"

definition ListGatheringMembersOp :: "ident \<Rightarrow> WirePage option \<Rightarrow> ('m core_db_scheme, error, GatheringMember list \<times> int) oper" where
  "ListGatheringMembersOp g page = internal (ListGatheringMembers g (pageOf page))"

definition ListGatheringOffersOp ::
  "caller \<Rightarrow> ident option \<Rightarrow> ident option \<Rightarrow> bool option \<Rightarrow> ('m core_db_scheme, error, (GatheringOffer \<times> ViewerContext) list \<times> int) oper" where
  "ListGatheringOffersOp c organization gathering includeResolved =
     bindE (authenticated c) (\<lambda>c.
     bindE (internal (ListGatheringOffers \<lparr>ffOrganizationID = text_of organization id, ffGatheringID = text_of gathering id,
         ffViewerID = cID c, ffIncludeResolved = boolValue includeResolved\<rparr>)) (\<lambda>(offs, n).
     bindE (shown (offerReply c) offs) (\<lambda>out.
     ret (out, n))))"

section \<open>What peers sent, and how much\<close>

definition FederationIdentity :: "fed_service \<Rightarrow> ('m fed_db_scheme, error, string \<times> bool \<times> string \<times> PeerIdentity) oper" where
  "FederationIdentity fs = ret (fsAddress fs, True, fsAlgorithm fs, fsIdentity fs)"

definition ListRemoteEventsOp ::
  "fed_service \<Rightarrow> utext option \<Rightarrow> instant option \<Rightarrow> instant option \<Rightarrow> WirePage option
     \<Rightarrow> ('m fed_db_scheme, error, RemoteEvent list \<times> int) oper" where
  "ListRemoteEventsOp fs query earliest latest page =
     bindE (reads clock) (\<lambda>now.
     internal (ListRemoteEvents \<lparr>rfQuery = text_of query (\<lambda>q. ToLower (fsLower fs) (TrimSpace q)), rfPlace = noPlace,
       rfStartsAfter = earliest, rfStartsBefore = latest, rfOnlineOnly = False, rfInPersonOnly = False,
       rfIncludeStarted = False, rfNow = now, rfPage = pageOf page\<rparr>))"

definition ListOriginVolumeOp ::
  "caller \<Rightarrow> ident option \<Rightarrow> WirePage option \<Rightarrow> ('m fed_db_scheme, error, OriginVolume list \<times> int) oper" where
  "ListOriginVolumeOp c peer page =
     bindE (is_admin c) (\<lambda>_.
     bindE (reads settings) (\<lambda>st.
     bindE (reads clock) (\<lambda>now.
     internal (ListOriginVolume (text_of peer id) (OriginRateLimitPerMinute st) now (pageOf page)))))"

definition SetOriginRateLimit ::
  "caller \<Rightarrow> ident \<Rightarrow> utext \<Rightarrow> 64 word option \<Rightarrow> ('m fed_db_scheme, error, OriginVolume) oper" where
  "SetOriginRateLimit c peer name limit =
     bindE (is_admin c) (\<lambda>_.
     bindE (reads settings) (\<lambda>st.
     bindE (reads clock) (\<lambda>now.
     not_found ''origin'' (SetOriginRateLimitRow peer name (map_option sint limit) (OriginRateLimitPerMinute st) now))))"

section \<open>Circles\<close>

record GeoCircle =
  gcLatitude :: real
  gcLongitude :: real
  gcRadiusKm :: real

record LocationFilter =
  lfLocality :: "utext option"
  lfRegion :: "utext option"
  lfCountry :: "utext option"
  lfNear :: "GeoCircle option"

definition maxRadiusKM :: real where "maxRadiusKM = 500"
definition earthRadiusKM :: real where "earthRadiusKM = 6371"

text \<open>\<open>math.Atan2\<close>.\<close>
definition Atan2 :: "real \<Rightarrow> real \<Rightarrow> real" where
  "Atan2 y x = (if 0 < x then arctan (y / x)
     else if x < 0 then arctan (y / x) + (if 0 \<le> y then pi else - pi)
     else if 0 < y then pi / 2 else if y < 0 then - (pi / 2) else 0)"

definition haversineKM :: "real \<Rightarrow> real \<Rightarrow> real \<Rightarrow> real \<Rightarrow> real" where
  "haversineKM lat1 lon1 lat2 lon2 =
     (let toRad = pi / 180; dLat = (lat2 - lat1) * toRad; dLon = (lon2 - lon1) * toRad;
          a = sin (dLat / 2) * sin (dLat / 2) + cos (lat1 * toRad) * cos (lat2 * toRad) * sin (dLon / 2) * sin (dLon / 2)
      in earthRadiusKM * 2 * Atan2 (sqrt a) (sqrt (1 - a)))"

definition boundingBox :: "GeoCircle \<Rightarrow> GeoBox" where
  "boundingBox c =
     (let latDelta = gcRadiusKm c / 111;
          box = \<lparr>gbMinLatitude = max (gcLatitude c - latDelta) (- 90), gbMaxLatitude = min (gcLatitude c + latDelta) 90,
                 gbMinLongitude = - 180, gbMaxLongitude = 180\<rparr>;
          cosine = cos (gcLatitude c * pi / 180); lonDelta = gcRadiusKm c / (111 * cosine)
      in if cosine > 1 / 100 \<and> lonDelta < 180
         then box\<lparr>gbMinLongitude := gcLongitude c - lonDelta, gbMaxLongitude := gcLongitude c + lonDelta\<rparr>
         else box)"

definition placeFilterOf :: "(rune \<Rightarrow> rune) \<Rightarrow> LocationFilter option \<Rightarrow> error + (PlaceFilter \<times> GeoCircle option)" where
  "placeFilterOf lower f = (case f of
      None \<Rightarrow> Inr (noPlace, None)
    | Some f \<Rightarrow>
        let fold_name = (\<lambda>t. ToLower lower (TrimSpace t));
            place = \<lparr>pfLocality = text_of (lfLocality f) fold_name, pfRegion = text_of (lfRegion f) fold_name,
                     pfCountry = text_of (lfCountry f) fold_name, pfBox = None\<rparr>
        in (case lfNear f of
              None \<Rightarrow> Inr (place, None)
            | Some circle \<Rightarrow>
                if gcLatitude circle < - 90 \<or> 90 < gcLatitude circle then Inl (Invalid ''location'')
                else if gcLongitude circle < - 180 \<or> 180 < gcLongitude circle then Inl (Invalid ''location'')
                else if gcRadiusKm circle \<le> 0 then Inl (Invalid ''location'')
                else let circle = circle\<lparr>gcRadiusKm := min (gcRadiusKm circle) maxRadiusKM\<rparr>
                     in Inr (place\<lparr>pfBox := Some (boundingBox circle)\<rparr>, Some circle)))"

text \<open>Something without coordinates is not near anything.\<close>
definition in_circle :: "GeoCircle \<Rightarrow> Location \<Rightarrow> bool" where
  "in_circle c l = (case (locLatitude l, locLongitude l) of
      (Some lat, Some lon) \<Rightarrow> haversineKM (gcLatitude c) (gcLongitude c) (float_value lat) (float_value lon) \<le> gcRadiusKm c
    | _ \<Rightarrow> False)"

definition refineToCircle :: "Event list \<Rightarrow> GeoCircle option \<Rightarrow> Event list \<times> int" where
  "refineToCircle es circle = (case circle of
      None \<Rightarrow> (es, 0)
    | Some c \<Rightarrow> (filter (\<lambda>e. in_circle c (eiLocation (eOwn e))) es,
                int (length (filter (\<lambda>e. \<not> in_circle c (eiLocation (eOwn e))) es))))"

definition refineRemoteToCircle :: "RemoteEvent list \<Rightarrow> GeoCircle option \<Rightarrow> RemoteEvent list \<times> int" where
  "refineRemoteToCircle es circle = (case circle of
      None \<Rightarrow> (es, 0)
    | Some c \<Rightarrow> (filter (\<lambda>e. in_circle c (riLocation (rvOwn e))) es,
                int (length (filter (\<lambda>e. \<not> in_circle c (riLocation (rvOwn e))) es))))"


section \<open>One query across everything\<close>

record SearchRequest =
  srQuery :: "utext option"
  srKinds :: "string list"
  srLocation :: "LocationFilter option"
  srStartsAfter :: "instant option"
  srStartsBefore :: "instant option"
  srOnlineOnly :: "bool option"
  srInPersonOnly :: "bool option"
  srIncludeStarted :: "bool option"
  srPage :: "WirePage option"

record SearchResults =
  rsOrganizations :: "WireOrganization list \<times> int"
  rsGatherings :: "WireGathering list \<times> int"
  rsEvents :: "WireEvent list \<times> int"
  rsSeries :: "WireSeries list \<times> int"
  rsRemoteEvents :: "RemoteEvent list \<times> int"

definition kindsWanted :: "string list \<Rightarrow> string \<Rightarrow> bool" where
  "kindsWanted kinds k \<longleftrightarrow>
     (if kinds = [] then k \<in> {''organization'', ''gathering'', ''event'', ''series'', ''remote-event''} else k \<in> set kinds)"

text \<open>The event service a search presents with: the store, the domain and the clock, nothing else set.\<close>
definition presenting :: "service \<Rightarrow> event_service" where
  "presenting sv = \<lparr>svOriginDomain = svOriginDomain sv, svNotify = None, svLower = svLower sv, svPublisher = None,
     svLoadLocation = (\<lambda>_. None), svParseURL = (\<lambda>_. None)\<rparr>"

text \<open>An organization has no place and no time: a query that constrains either finds none.\<close>
definition search_organizations ::
  "service \<Rightarrow> caller \<Rightarrow> utext \<Rightarrow> Page \<Rightarrow> ('m core_db_scheme, error, WireOrganization list \<times> int) oper" where
  "search_organizations sv c query page =
     bindE (internal (ListOrganizations (svLower sv) \<lparr>ofQuery = query, ofMemberID = [], ofPage = page\<rparr>)) (\<lambda>(gs, n).
     bindE (shown (\<lambda>g. bindE (internal (OrganizationRoleFor (oID g) (cID c))) (\<lambda>role.
         ret (toOrganization g (organizationViewer c role) (svOriginDomain sv)))) gs) (\<lambda>out.
     ret (out, n)))"

definition search_gatherings ::
  "service \<Rightarrow> caller \<Rightarrow> utext \<Rightarrow> PlaceFilter \<Rightarrow> Page \<Rightarrow> ('m core_db_scheme, error, WireGathering list \<times> int) oper" where
  "search_gatherings sv c query place page =
     bindE (internal (ListGatherings \<lparr>gfQuery = query, gfMemberID = [], gfOwnedByOrganization = [], gfPlace = place, gfPage = page\<rparr>)) (\<lambda>(gs, n).
     bindE (shown (\<lambda>g. bindE (internal (GatheringAccessFor (gID g) (cID c))) (\<lambda>access.
         bindE (publishDecisionFor (Some g)) (\<lambda>publish.
         ret (toGathering g (gatheringViewer c access) publish (svOriginDomain sv))))) gs) (\<lambda>out.
     ret (out, n)))"

definition event_query :: "SearchRequest \<Rightarrow> utext \<Rightarrow> PlaceFilter \<Rightarrow> instant \<Rightarrow> Page \<Rightarrow> EventFilter" where
  "event_query req query place now page =
     \<lparr>efQuery = query, efGatheringID = [], efSeriesID = [], efAttendeeID = [], efMemberID = [], efOwnedByOrganization = [],
      efPlace = place, efStartsAfter = srStartsAfter req, efStartsBefore = srStartsBefore req,
      efOnlineOnly = boolValue (srOnlineOnly req), efInPersonOnly = boolValue (srInPersonOnly req),
      efIncludeStarted = boolValue (srIncludeStarted req), efNow = now, efPage = page\<rparr>"

text \<open>The box is what the store was asked for, the circle what the caller wants; the total loses what this page lost.\<close>
definition search_events ::
  "service \<Rightarrow> caller \<Rightarrow> EventFilter \<Rightarrow> GeoCircle option \<Rightarrow> ('m core_db_scheme, error, WireEvent list \<times> int) oper" where
  "search_events sv c f circle =
     bindE (internal (ListEvents f)) (\<lambda>(es, n).
     (case refineToCircle es circle of (kept, dropped) \<Rightarrow>
       bindE (presentAll (presenting sv) c kept) (\<lambda>out. ret (out, n - dropped))))"

definition search_series ::
  "service \<Rightarrow> caller \<Rightarrow> utext \<Rightarrow> PlaceFilter \<Rightarrow> Page \<Rightarrow> ('m core_db_scheme, error, WireSeries list \<times> int) oper" where
  "search_series sv c query place page =
     bindE (internal (ListEventSeries \<lparr>sfQuery = query, sfGatheringID = [], sfPlace = place, sfPage = page\<rparr>)) (\<lambda>(xs, n).
     bindE (shown (\<lambda>x. bindE (seriesViewerFor c x) (\<lambda>viewer. ret (toEventSeries x viewer (svOriginDomain sv)))) xs) (\<lambda>out.
     ret (out, n)))"

definition search_remote :: "RemoteEventFilter \<Rightarrow> GeoCircle option \<Rightarrow> ('m fed_db_scheme, error, RemoteEvent list \<times> int) oper" where
  "search_remote f circle =
     bindE (internal (ListRemoteEvents f)) (\<lambda>(es, n).
     (case refineRemoteToCircle es circle of (kept, dropped) \<Rightarrow> ret (kept, n - dropped)))"

definition Search :: "service \<Rightarrow> caller \<Rightarrow> SearchRequest \<Rightarrow> ('m fed_db_scheme, error, SearchResults) oper" where
  "Search sv c req =
     bindE (reads clock) (\<lambda>now.
     let query = text_of (srQuery req) (\<lambda>q. ToLower (svLower sv) (TrimSpace q)) in
     bindE (of_sum (placeFilterOf (svLower sv) (srLocation req))) (\<lambda>(place, circle).
     let page = pageOf (srPage req);
         want = kindsWanted (srKinds req);
         constrained = \<not> IsEmpty place \<or> srStartsAfter req \<noteq> None \<or> srStartsBefore req \<noteq> None
           \<or> boolValue (srOnlineOnly req) \<or> boolValue (srInPersonOnly req) in
     bindE (if want ''organization'' \<and> \<not> constrained then search_organizations sv c query page else ret ([], 0)) (\<lambda>organizations.
     bindE (if want ''gathering'' then search_gatherings sv c query place page else ret ([], 0)) (\<lambda>gatherings.
     bindE (if want ''event'' then search_events sv c (event_query req query place now page) circle else ret ([], 0)) (\<lambda>events.
     bindE (if want ''series'' then search_series sv c query place page else ret ([], 0)) (\<lambda>series.
     bindE (if want ''remote-event''
            then search_remote \<lparr>rfQuery = query, rfPlace = place, rfStartsAfter = srStartsAfter req, rfStartsBefore = srStartsBefore req,
              rfOnlineOnly = boolValue (srOnlineOnly req), rfInPersonOnly = boolValue (srInPersonOnly req),
              rfIncludeStarted = boolValue (srIncludeStarted req), rfNow = now, rfPage = page\<rparr> circle
            else ret ([], 0)) (\<lambda>remote.
     ret \<lparr>rsOrganizations = organizations, rsGatherings = gatherings, rsEvents = events, rsSeries = series, rsRemoteEvents = remote\<rparr>)))))))"

end
