(* ===== verification/SearchProperties.thy ===== *)
theory SearchProperties
  imports Search Requests
begin

text \<open>
  What the searches find: terms are taken literally, pages cover what a filter selects, whatever
  is found near a place is near it, and where each of these stops being true.
\<close>

section \<open>LIKE and its escapes\<close>

declare like_match.simps(2) [simp del]

lemma like_percent: "esc \<noteq> Some 37 \<Longrightarrow> like_match esc (37 # ps) t \<longleftrightarrow> (\<exists>a b. t = a @ b \<and> like_match esc ps b)"
proof (induction t)
  case (Cons c t)
  have "like_match esc (37 # ps) (c # t) \<longleftrightarrow> like_match esc ps (c # t) \<or> like_match esc (37 # ps) t"
    using Cons.prems by (simp add: like_match.simps(2))
  also have "\<dots> \<longleftrightarrow> (\<exists>a b. c # t = a @ b \<and> like_match esc ps b)"
    using Cons by (auto simp: Cons_eq_append_conv)
  finally show ?case .
qed (simp add: like_match.simps(2))

lemma like_percent_only: "esc \<noteq> Some 37 \<Longrightarrow> like_match esc [37] t"
  by (auto simp: like_percent intro: exI [of _ t])

lemma like_literal:
  assumes "esc \<noteq> Some p" "p \<noteq> 37" "p \<noteq> 95"
  shows "like_match esc (p # ps) t \<longleftrightarrow> (\<exists>c cs. t = c # cs \<and> ascii_lower_rune p = ascii_lower_rune c \<and> like_match esc ps cs)"
  using assms by (cases t) (simp_all add: like_match.simps(2))

lemma like_escape: "like_match (Some p) (p # q # ps) t \<longleftrightarrow> (\<exists>c cs. t = c # cs \<and> ascii_lower_rune q = ascii_lower_rune c \<and> like_match (Some p) ps cs)"
  by (cases t) (simp_all add: like_match.simps(2))

lemma escaped_Cons: "escaped (r # q) = (if r = 92 \<or> r = 37 \<or> r = 95 then [92, r] else [r]) @ escaped q"
  by (simp add: escaped_def)

lemma like_escaped:
  "like_match (Some 92) (escaped q @ ps) t \<longleftrightarrow> (\<exists>m b. t = m @ b \<and> sql_lower m = sql_lower q \<and> like_match (Some 92) ps b)"
proof (induction q arbitrary: t)
  case (Cons r q)
  have "like_match (Some 92) (escaped (r # q) @ ps) t
    \<longleftrightarrow> (\<exists>c cs. t = c # cs \<and> ascii_lower_rune r = ascii_lower_rune c \<and> like_match (Some 92) (escaped q @ ps) cs)"
    by (auto simp: escaped_Cons like_literal like_escape)
  also have "\<dots> \<longleftrightarrow> (\<exists>m b. t = m @ b \<and> sql_lower m = sql_lower (r # q) \<and> like_match (Some 92) ps b)"
    unfolding Cons.IH by (auto simp: sql_lower_def map_eq_Cons_conv Cons_eq_append_conv) (metis append_Cons)+
  finally show ?case .
qed (auto simp: escaped_def sql_lower_def)

lemma found_literally: "found_in query content \<longleftrightarrow> (\<exists>a m b. content = a @ m @ b \<and> sql_lower m = sql_lower query)"
proof -
  have "like_match (Some 92) (like query) content \<longleftrightarrow> (\<exists>a m b. content = a @ m @ b \<and> sql_lower m = sql_lower query)"
    by (simp add: like_def like_percent like_escaped like_percent_only) blast
  moreover have "query = [] \<Longrightarrow> (\<exists>a m b. content = a @ m @ b \<and> sql_lower m = sql_lower query)" by (auto simp: sql_lower_def)
  ultimately show ?thesis by (auto simp: found_in_def)
qed

text \<open>
  C36. A search term is taken literally: with its percent signs, underscores and backslashes escaped
  it matches exactly the texts that contain it, up to the case of ASCII letters.
\<close>
theorem search_terms_are_literal:
  "found_in query content \<longleftrightarrow> (\<exists>a m b. content = a @ m @ b \<and> sql_lower m = sql_lower query)"
  by (rule found_literally)

section \<open>Pages\<close>

lemma page_rows_take: "0 < l \<Longrightarrow> l \<le> maxLimit \<Longrightarrow> page_rows \<lparr>pLimit = l, pOffset = int k\<rparr> rows = take (nat l) (drop k rows)"
  by (simp add: page_rows_def clamp_def Let_def)

lemma pages_cover:
  assumes "0 < l" "int l \<le> maxLimit"
  shows "concat (map (\<lambda>k. page_rows \<lparr>pLimit = int l, pOffset = int (k * l)\<rparr> rows) [0..<n]) = take (n * l) rows"
proof (induction n)
  case (Suc n)
  have "page_rows \<lparr>pLimit = int l, pOffset = int (n * l)\<rparr> rows = take l (drop (n * l) rows)"
    using page_rows_take [of "int l" "n * l" rows] assms by simp
  then show ?case using Suc take_add [of "n * l" l rows] by (simp add: add.commute)
qed simp

lemma count_rows_length: "count_rows p rows = int (length (filter p rows))"
  by (induction rows) simp_all


text \<open>
  Paging through the events a filter selects, with any page size the store accepts, shows each of them
  once, in the order of their starts, and every page tells how many there are.
\<close>
theorem event_pages_cover:
  assumes "0 < l" "int l \<le> maxLimit" "length (filter (event_selected f s) (events s)) \<le> n * l"
  shows "(\<forall>k. \<exists>es. ListEvents (f\<lparr>efPage := \<lparr>pLimit = int l, pOffset = int (k * l)\<rparr>\<rparr>) s
        = (Inr (es, int (length (filter (event_selected f s) (events s)))), s))
    \<and> concat (map (\<lambda>k. fst (projr (outcome (ListEvents (f\<lparr>efPage := \<lparr>pLimit = int l, pOffset = int (k * l)\<rparr>\<rparr>) s)))) [0..<n])
        = map (scanEvent s) (sort_key (\<lambda>r. (eiStartsAt (erOwn r), erID r)) (filter (event_selected f s) (events s)))"
proof -
  let ?rows = "sort_key (\<lambda>r. (eiStartsAt (erOwn r), erID r)) (filter (event_selected f s) (events s))"
  have sel: "event_selected (f\<lparr>efPage := p\<rparr>) s = event_selected f s" for p by (simp add: event_selected_def fun_eq_iff)
  have page: "ListEvents (f\<lparr>efPage := p\<rparr>) s
      = (Inr (map (scanEvent s) (page_rows p ?rows), int (length (filter (event_selected f s) (events s)))), s)" for p
    by (simp add: ListEvents_def listed_def sel count_rows_length reads_def)
  have "concat (map (\<lambda>k. map (scanEvent s) (page_rows \<lparr>pLimit = int l, pOffset = int (k * l)\<rparr> ?rows)) [0..<n])
      = map (scanEvent s) (concat (map (\<lambda>k. page_rows \<lparr>pLimit = int l, pOffset = int (k * l)\<rparr> ?rows) [0..<n]))"
    by (simp add: map_concat comp_def)
  also have "\<dots> = map (scanEvent s) ?rows" unfolding pages_cover [OF assms(1,2)] using assms(3) by simp
  finally show ?thesis by (simp add: page)
qed

text \<open>Two events, the later one stored first.\<close>
definition meeting :: "ident \<Rightarrow> instant \<Rightarrow> event_row" where
  "meeting i start = \<lparr>erID = i, erOwn = \<lparr>eiGatheringID = ''gat'', eiSeriesID = None, eiTitle = runes ''Meeting'', eiDescription = [],
     eiSearchText = runes ''meeting'', eiIsOnline = True, eiIsInPerson = False, eiOnlineURL = [], eiLocation = emptyLocation,
     eiStartsAt = start, eiEndsAt = start, eiTimezone = ''UTC''\<rparr>, erCreatedAt = 0, erUpdatedAt = 0\<rparr>"

definition meetings :: EventFilter where
  "meetings = \<lparr>efQuery = runes ''meet'', efGatheringID = [], efSeriesID = [], efAttendeeID = [], efMemberID = [], efOwnedByOrganization = [],
     efPlace = noPlace, efStartsAfter = None, efStartsBefore = None, efOnlineOnly = False, efInPersonOnly = False, efIncludeStarted = True,
     efNow = 0, efPage = \<lparr>pLimit = 0, pOffset = 0\<rparr>\<rparr>"

theorem event_pages_cover_witness:
  "map eID (concat (map (\<lambda>k. fst (projr (outcome (ListEvents (meetings\<lparr>efPage := \<lparr>pLimit = 1, pOffset = int (k * 1)\<rparr>\<rparr>)
     (sample_db\<lparr>events := [meeting ''e2'' 20, meeting ''e1'' 10]\<rparr>))))) [0..<2])) = [''e1'', ''e2'']"
proof -
  let ?s = "sample_db\<lparr>events := [meeting ''e2'' 20, meeting ''e1'' 10]\<rparr>"
  have "found_in (runes ''meet'') (runes ''meeting'')" by code_simp
  then have sel: "filter (event_selected meetings ?s) (events ?s) = events ?s"
    by (simp add: event_selected_def meetings_def meeting_def placePredicates_def noPlace_def starts_selected_def)
  have "(0 :: nat) < 1" "int 1 \<le> maxLimit" "length (filter (event_selected meetings ?s) (events ?s)) \<le> 2 * 1"
    unfolding sel by (simp_all add: maxLimit_def)
  from event_pages_cover [OF this, THEN conjunct2] show ?thesis
    unfolding sel by (simp add: scanEvent_def meeting_def)
qed

section \<open>Circles\<close>

text \<open>In a circle that crosses the antimeridian, on the other side of it.\<close>
definition fiji :: GeoCircle where
  "fiji = \<lparr>gcLatitude = 0, gcLongitude = 719 / 4, gcRadiusKm = 100\<rparr>"

definition across_the_line :: Location where
  "across_the_line = emptyLocation\<lparr>locLatitude := Some 0, locLongitude := Some 0xC066780000000000\<rparr>"

lemma across_value: "float_value 0 = 0" "float_value 0xC066780000000000 = - (719 / 4)"
  by (simp_all add: float_value_def take_bit_eq_mask drop_bit_eq_div mask_eq_exp_minus_1)

lemma haversine_across: "haversineKM 0 (719 / 4) 0 (- (719 / 4)) = earthRadiusKM * pi / 360"
proof -
  let ?x = "pi / 720"
  have x: "0 < ?x" "?x < pi / 2" by (simp_all add: pi_gt_zero)
  have "(- (719 / 4) - 719 / 4) * (pi / 180) / 2 = - (pi - ?x)" by (simp add: field_simps)
  then have half: "sin ((- (719 / 4) - 719 / 4) * (pi / 180) / 2) = - sin ?x" by (simp only: sin_minus sin_pi_minus)
  have pos: "0 < sin ?x" "0 < cos ?x" using x by (auto intro: sin_gt_zero_02 sin_gt_zero cos_gt_zero)
  have "1 - (sin ?x)\<^sup>2 = (cos ?x)\<^sup>2" by (simp add: cos_squared_eq)
  then have "sqrt ((sin ?x)\<^sup>2) = sin ?x" "sqrt (1 - (sin ?x)\<^sup>2) = cos ?x" using pos by simp_all
  moreover have "Atan2 (sin ?x) (cos ?x) = ?x" using pos x arctan_tan [of ?x] by (simp add: Atan2_def tan_def)
  ultimately show ?thesis unfolding haversineKM_def Let_def half by (simp add: power2_eq_square)
qed


text \<open>
  C38. The bounding box of a circle does not go round the globe: an event 56 km from the centre of a
  search over 100 km, on the other side of the antimeridian, is outside the box the store is asked
  for, so it is not found.
\<close>
theorem circles_end_at_the_antimeridian:
  "placeFilterOf lower (Some \<lparr>lfLocality = None, lfRegion = None, lfCountry = None, lfNear = Some fiji\<rparr>)
     = Inr (noPlace\<lparr>pfBox := Some (boundingBox fiji)\<rparr>, Some fiji)
   \<and> in_circle fiji across_the_line \<and> \<not> placePredicates (noPlace\<lparr>pfBox := Some (boundingBox fiji)\<rparr>) across_the_line"
proof (intro conjI)
  have "earthRadiusKM * pi / 360 \<le> 100" using pi_less_4 by (simp add: earthRadiusKM_def)
  then show "in_circle fiji across_the_line"
    by (simp add: in_circle_def across_the_line_def fiji_def across_value haversine_across)
  have "boundingBox fiji = \<lparr>gbMinLatitude = - 100 / 111, gbMaxLatitude = 100 / 111, gbMinLongitude = 719 / 4 - 100 / 111,
      gbMaxLongitude = 719 / 4 + 100 / 111\<rparr>"
    by (simp add: boundingBox_def fiji_def Let_def)
  then show "\<not> placePredicates (noPlace\<lparr>pfBox := Some (boundingBox fiji)\<rparr>) across_the_line"
    by (simp add: placePredicates_def noPlace_def in_box_def across_the_line_def across_value)
qed (simp add: placeFilterOf_def text_of_def fiji_def maxRadiusKM_def noPlace_def Let_def)


section \<open>What a search finds near a place\<close>

lemma pure_bindE_Inr: "pure_op m \<Longrightarrow> bindE m f s = (Inr y, t) \<Longrightarrow> \<exists>x. m s = (Inr x, s) \<and> f x s = (Inr y, t)"
  by (auto simp: bindE_Inr dest: pure_opD)

lemma pure_shown: "(\<And>x. pure_op (f x)) \<Longrightarrow> pure_op (shown f xs)"
  by (induction xs) (auto intro!: pure_op_bindE)

lemma pure_lists [simp]:
  "pure_op (ListOrganizations lower fo)" "pure_op (ListGatherings fg)" "pure_op (ListEvents fe)" "pure_op (ListEventSeries fs)"
  "pure_op (ListRemoteEvents fr)"
  by (simp_all add: ListOrganizations_def ListGatherings_def ListEvents_def ListEventSeries_def ListRemoteEvents_def)

lemma pure_searches [simp]:
  "pure_op (search_organizations sv c query page)" "pure_op (search_gatherings sv c query place page)"
  "pure_op (search_events sv c fe circle)" "pure_op (search_series sv c query place page)" "pure_op (search_remote fr circle)"
  unfolding search_organizations_def search_gatherings_def search_events_def search_series_def search_remote_def
  by (auto intro!: pure_op_bindE pure_shown simp: refineToCircle_def refineRemoteToCircle_def split: option.split prod.split)

lemma present_each_ids: "present_each sv c att es s = (Inr out, t) \<Longrightarrow> map weID out = map eID es"
  by (induction es arbitrary: s out) (auto simp: bindE_Inr toEvent_def Let_def)

lemma presentAll_ids: "presentAll sv c es s = (Inr out, t) \<Longrightarrow> map weID out = map eID es"
  by (auto simp: presentAll_def bindE_Inr dest: present_each_ids)

lemma search_events_found:
  assumes "search_events sv c f (Some circle) s = (Inr (out, n), t)" "e \<in> set out"
  shows "\<exists>r\<in>set (events s). weID e = erID r \<and> event_selected f s r \<and> in_circle circle (eiLocation (erOwn r))"
proof -
  obtain es k where es: "ListEvents f s = (Inr (es, k), s)" by (fastforce simp: ListEvents_def reads_def split: prod.split)
  let ?kept = "filter (\<lambda>e. in_circle circle (eiLocation (eOwn e))) es"
  have "presentAll (presenting sv) c ?kept s = (Inr out, t)"
    using assms(1) es by (auto simp: search_events_def bindE_Inr refineToCircle_def internal_def)
  then have "weID e \<in> eID ` set ?kept" using presentAll_ids [of "presenting sv" c ?kept s out t] assms(2) by (metis image_eqI list.set_map)
  then obtain x where x: "x \<in> set es" "in_circle circle (eiLocation (eOwn x))" "weID e = eID x" by auto
  then obtain r where "r \<in> set (filter (event_selected f s) (events s))" "x = scanEvent s r"
    using es by (auto simp: ListEvents_def listed_def reads_def page_rows_def split: prod.splits dest!: in_set_takeD in_set_dropD)
  then show ?thesis using x by (auto simp: scanEvent_def)
qed

lemma search_remote_found:
  "search_remote f (Some circle) s = (Inr (out, n), t) \<Longrightarrow> e \<in> set out \<Longrightarrow> in_circle circle (riLocation (rvOwn e))"
  by (auto simp: search_remote_def bindE_Inr refineRemoteToCircle_def)

text \<open>The circle asked for, its radius capped.\<close>
definition capped :: "GeoCircle \<Rightarrow> GeoCircle" where
  "capped c = c\<lparr>gcRadiusKm := min (gcRadiusKm c) maxRadiusKM\<rparr>"

lemma placed:
  assumes "placeFilterOf lower (Some loc) = Inr (place, circle)" "lfNear loc = Some c"
  shows "circle = Some (capped c)" "\<not> IsEmpty place" "\<bar>gcLatitude c\<bar> \<le> 90" "\<bar>gcLongitude c\<bar> \<le> 180" "0 < gcRadiusKm c"
  using assms by (auto simp: placeFilterOf_def capped_def IsEmpty_def Let_def split: if_splits)



text \<open>A peer's event at the very centre, where no rounding shows.\<close>
definition remote_meeting :: remote_event_row where
  "remote_meeting = \<lparr>reID = ''r'', rePeer = ''peer'', reOwn = \<lparr>riRemoteID = ''x'', riOriginDomain = ''b.org'', riCanonicalURL = ''https://b.org/x'',
     riTitle = runes ''Meeting'', riSearchText = runes ''meeting'', riIsOnline = False, riIsInPerson = True,
     riLocation = emptyLocation\<lparr>locLatitude := Some 0, locLongitude := Some 0\<rparr>, riStartsAt = 10, riEndsAt = 20, riTimezone = ''UTC'',
     riGatheringName = [], riOrganizationName = []\<rparr>, reReceivedAt = 0\<rparr>"

definition null_island :: GeoCircle where
  "null_island = \<lparr>gcLatitude = 0, gcLongitude = 0, gcRadiusKm = 1000\<rparr>"

definition near_null :: SearchRequest where
  "near_null = \<lparr>srQuery = None, srKinds = [''remote-event''],
     srLocation = Some \<lparr>lfLocality = None, lfRegion = None, lfCountry = None, lfNear = Some null_island\<rparr>,
     srStartsAfter = None, srStartsBefore = None, srOnlineOnly = None, srInPersonOnly = None, srIncludeStarted = Some True, srPage = None\<rparr>"

lemma null_distance: "haversineKM 0 0 0 0 = 0"
  by (simp add: haversineKM_def Atan2_def)

lemma near_null_found:
  "Search sample_service (callerOf None) near_null (peered_db\<lparr>remote_events := [remote_meeting]\<rparr>)
   = (Inr \<lparr>rsOrganizations = ([], 0), rsGatherings = ([], 0), rsEvents = ([], 0), rsSeries = ([], 0),
       rsRemoteEvents = ([\<lparr>rvID = ''r'', rvPeerID = ''peer'', rvPeerAddress = ''dir@b.org'', rvOwn = reOwn remote_meeting,
         rvReceivedAt = 0\<rparr>], 1)\<rparr>, peered_db\<lparr>remote_events := [remote_meeting]\<rparr>)"
proof -
  let ?s = "peered_db\<lparr>remote_events := [remote_meeting]\<rparr>" and ?place = "noPlace\<lparr>pfBox := Some (boundingBox (capped null_island))\<rparr>"
  let ?f = "\<lparr>rfQuery = [], rfPlace = ?place, rfStartsAfter = None, rfStartsBefore = None, rfOnlineOnly = False, rfInPersonOnly = False,
    rfIncludeStarted = True, rfNow = clock ?s, rfPage = pageOf None\<rparr>"
  let ?e = "\<lparr>rvID = ''r'', rvPeerID = ''peer'', rvPeerAddress = ''dir@b.org'', rvOwn = reOwn remote_meeting, rvReceivedAt = 0\<rparr>"
  have place: "placeFilterOf lower (srLocation near_null) = Inr (?place, Some (capped null_island))" for lower
    by (simp add: placeFilterOf_def near_null_def null_island_def text_of_def noPlace_def capped_def Let_def)
  have box: "boundingBox (capped null_island) = \<lparr>gbMinLatitude = - (500 / 111), gbMaxLatitude = 500 / 111,
      gbMinLongitude = - (500 / 111), gbMaxLongitude = 500 / 111\<rparr>"
    by (simp add: boundingBox_def capped_def null_island_def maxRadiusKM_def Let_def)
  have "remote_selected ?f remote_meeting"
    by (simp add: remote_selected_def remote_meeting_def found_in_def starts_selected_def placePredicates_def noPlace_def box
        in_box_def across_value)
  then have "ListRemoteEvents ?f ?s = (Inr ([?e], 1), ?s)"
    by (simp add: ListRemoteEvents_def reads_def scanRemoteEvent_def peered_db_def sample_peer_def pageOf_def page_rows_def
        List.map_filter_def clamp_def Let_def remote_meeting_def maxLimit_def defaultLimit_def)
  then have "search_remote ?f (Some (capped null_island)) ?s = (Inr ([?e], 1), ?s)"
    by (simp add: search_remote_def bindE_apply internal_def map_err_def refineRemoteToCircle_def in_circle_def remote_meeting_def
        capped_def null_island_def maxRadiusKM_def across_value null_distance)
  then show ?thesis
    unfolding Search_def Let_def place
    by (simp add: bindE_apply of_sum_def reads_def near_null_def kindsWanted_def boolValue_def text_of_def)
qed


section \<open>Typing a name\<close>

lemma folded_literal:
  assumes "\<And>r. lower (lower r) = lower r" "128 \<le> r" "lower r \<noteq> r" "r \<in> set q"
  shows "\<not> found_in q (ToLower lower x)"
proof
  assume "found_in q (ToLower lower x)"
  then obtain a m b where m: "ToLower lower x = a @ m @ b" "sql_lower m = sql_lower q" unfolding found_literally by blast
  have "ascii_lower_rune r = r" using assms(2) by (simp add: ascii_lower_rune_def)
  then have "r \<in> ascii_lower_rune ` set q" using assms(4) by force
  then have "r \<in> set (sql_lower m)" unfolding m(2) by (simp add: sql_lower_def)
  then obtain y where y: "y \<in> set m" "ascii_lower_rune y = r" by (auto simp: sql_lower_def)
  have "y = r" using y(2) assms(2) by (auto simp: ascii_lower_rune_def split: if_splits)
  moreover have "y \<in> set (ToLower lower x)" using m(1) y(1) by simp
  ultimately have "lower r = r" using assms(1) by (auto simp: ToLower_def)
  then show False using assms(3) by simp
qed

text \<open>
  C39. The list of organizations does not fold what is typed, as the search does: a query with a
  capital outside ASCII finds no organization at all, even one whose name it is, while the same
  query folded finds every text that contains it.
\<close>
theorem capitals_outside_ascii_find_no_organization:
  assumes "\<And>r. svLower sv (svLower sv r) = svLower sv r"
    "\<forall>x\<in>set (organizations s). \<exists>content. oiSearchText (orOwn x) = ToLower (svLower sv) content"
    "r \<in> set (TrimSpace query)" "128 \<le> r" "svLower sv r \<noteq> r"
  shows "ListOrganizationsOp sv c mine (Some query) page s = (Inr ([], 0), s)
    \<and> found_in (ToLower (svLower sv) (TrimSpace query)) (ToLower (svLower sv) (a @ TrimSpace query @ b))"
proof
  have "\<not> organization_selected f s x" if "ofQuery f = TrimSpace query" "x \<in> set (organizations s)" for f x
    using that assms folded_literal [OF assms(1,4,5,3)] by (fastforce simp: organization_selected_def)
  then have "filter (organization_selected f s) (organizations s) = []" if "ofQuery f = TrimSpace query" for f
    using that by (simp add: filter_empty_conv)
  then have "ListOrganizations lower f s = (Inr ([], 0), s)" if "ofQuery f = TrimSpace query" for f lower
    using that by (simp add: ListOrganizations_def listed_def reads_def count_rows_length organization_order_def page_rows_def)
  then show "ListOrganizationsOp sv c mine (Some query) page s = (Inr ([], 0), s)"
    by (simp add: ListOrganizationsOp_def text_of_def bindE_apply internal_def map_err_def)
  have "ToLower (svLower sv) (a @ TrimSpace query @ b)
      = ToLower (svLower sv) a @ ToLower (svLower sv) (TrimSpace query) @ ToLower (svLower sv) b" by (simp add: ToLower_def)
  then show "found_in (ToLower (svLower sv) (TrimSpace query)) (ToLower (svLower sv) (a @ TrimSpace query @ b))"
    unfolding found_literally by blast
qed

text \<open>An organization called E-circumflex-lan, in a directory that folds that letter.\<close>
definition folding_service :: service where
  "folding_service = \<lparr>svOriginDomain = ''a.org'', svNotify = None, svLower = (\<lambda>r. if r = 202 then 234 else ascii_lower_rune r)\<rparr>"

theorem capitals_outside_ascii_find_no_organization_witness:
  "let s = sample_db\<lparr>organizations := [\<lparr>orID = ''org'', orOwn = (sample_text ''org'')\<lparr>oiName := 202 # runes ''lan'',
         oiSearchText := 234 # runes ''lan''\<rparr>, orCreatedAt = 0, orUpdatedAt = 0\<rparr>]\<rparr>
   in ListOrganizationsOp folding_service (callerOf None) None (Some (202 # runes ''lan'')) None s = (Inr ([], 0), s)"
proof -
  let ?s = "sample_db\<lparr>organizations := [\<lparr>orID = ''org'', orOwn = (sample_text ''org'')\<lparr>oiName := 202 # runes ''lan'',
         oiSearchText := 234 # runes ''lan''\<rparr>, orCreatedAt = 0, orUpdatedAt = 0\<rparr>]\<rparr>"
  have trim: "TrimSpace (202 # runes ''lan'') = 202 # runes ''lan''" by code_simp
  have fold: "ToLower (svLower folding_service) (202 # runes ''lan'') = 234 # runes ''lan''"
    by (simp add: ToLower_def folding_service_def runes_def ascii_lower_rune_def)
  show ?thesis unfolding Let_def
  proof (rule capitals_outside_ascii_find_no_organization [where r = 202 and a = "[]" and b = "[]", THEN conjunct1])
    show "\<forall>x\<in>set (organizations ?s). \<exists>content. oiSearchText (orOwn x) = ToLower (svLower folding_service) content"
      using fold by (simp, metis)
  qed (simp_all add: trim folding_service_def ascii_lower_rune_def)
qed

text \<open>
  A percent sign in a name that is being typed: the pattern escapes it, the comparison that ranks
  does not know the escape, and the organization of that name is listed below a newer one that
  only mentions it.
\<close>
lemma typed_percent_signs_are_not_ranked:
  "like_match None (likePrefix ascii_lower_rune (runes ''50%'')) (sql_lower (runes ''50% club'')) = False
   \<and> like_match (Some 92) (likePrefix ascii_lower_rune (runes ''50%'')) (sql_lower (runes ''50% club'')) = True"
  by (simp add: likePrefix_def likeFoldBody_def escaped_def ToLower_def runes_def sql_lower_def ascii_lower_rune_def like_match.simps)


section \<open>The limit of an origin\<close>

lemma find_append: "find P (xs @ ys) = (case find P xs of Some x \<Rightarrow> Some x | None \<Rightarrow> find P ys)"
  by (induction xs) simp_all

lemma find_origin_find: "find_origin name rows k = find (\<lambda>v. ovOrganizationName v = name) (drop k rows)"
proof (induction name rows k rule: find_origin.induct)
  case (1 name rows k)
  let ?is = "\<lambda>v. ovOrganizationName v = name" and ?page = "take (nat maxLimit) (drop k rows)"
  have page: "page_rows \<lparr>pLimit = maxLimit, pOffset = int k\<rparr> rows = ?page"
    by (rule page_rows_take) (simp_all add: maxLimit_def)
  have split: "drop k rows = ?page @ drop (nat maxLimit + k) rows"
    using append_take_drop_id [of "nat maxLimit" "drop k rows"] by (simp add: add.commute)
  show ?case
  proof (cases "?page = []")
    case True
    then have "drop k rows = []" by (simp add: maxLimit_def)
    then show ?thesis using True by (subst find_origin.simps) (simp add: page)
  next
    case False
    have "find ?is (drop k rows) = (case find ?is ?page of Some v \<Rightarrow> Some v | None \<Rightarrow> find ?is (drop (nat maxLimit + k) rows))"
      by (subst split) (simp add: find_append)
    then show ?thesis using False 1 [OF page [symmetric]]
      by (subst find_origin.simps) (simp add: page add.commute split: option.split)
  qed
qed

lemma set_limit_member:
  assumes "h \<in> set (set_rows (origin_key p n) (\<lambda>g. g\<lparr>ogRateLimitPerMinute := l\<rparr>) rows)" "ogPeer h = p" "ogOrganizationName h = n"
  shows "ogRateLimitPerMinute h = l"
proof -
  obtain x where x: "h = (if origin_key p n x then x\<lparr>ogRateLimitPerMinute := l\<rparr> else x)"
    using assms(1) unfolding set_rows_def set_map by blast
  show ?thesis
  proof (cases "origin_key p n x")
    case False
    then have "h = x" using x by simp
    then show ?thesis using False assms(2,3) by (simp add: origin_key_def)
  qed (simp add: x)
qed

lemma other_limits_kept: "filter (\<lambda>g. \<not> origin_key p n g) (set_rows (origin_key p n) (\<lambda>g. g\<lparr>ogRateLimitPerMinute := l\<rparr>) rows)
    = filter (\<lambda>g. \<not> origin_key p n g) rows"
  by (induction rows) (auto simp: set_rows_def origin_key_def)

lemma listing_members: "set (origin_listing peer instanceLimit now s)
    = {v. \<exists>g\<in>set (origin_stats s). (peer \<noteq> [] \<longrightarrow> ogPeer g = peer) \<and> scanOrigin instanceLimit now s g = Some v}"
  by (force simp: origin_listing_def List.map_filter_def)

lemma listing_member: "g \<in> set (origin_stats s) \<Longrightarrow> ogPeer g = peer \<Longrightarrow> scanOrigin instanceLimit now s g = Some v
    \<Longrightarrow> v \<in> set (origin_listing peer instanceLimit now s)"
  unfolding listing_members by blast

text \<open>
  C40. Setting the limit of an origin answers with that origin under its new limit (no limit is the
  instance's, zero refuses everything), however many origins the peer has: the read-back goes past
  the page the store caps; and no other origin's limit changes.
\<close>
theorem origin_limits_are_read_back:
  assumes "has_row (origin_key peer name) (origin_stats s)" "has_row (\<lambda>p. pID p = peer) (peers s)" "peer \<noteq> []"
  shows "\<exists>v t. SetOriginRateLimitRow peer name limit instanceLimit now s = (Inr v, t)
    \<and> ovPeerID v = peer \<and> ovOrganizationName v = name \<and> ovRateLimitPerMinute v = limit
    \<and> ovEffectiveRateLimitPerMinute v = (case limit of None \<Rightarrow> instanceLimit | Some l \<Rightarrow> l)
    \<and> filter (\<lambda>g. \<not> origin_key peer name g) (origin_stats t) = filter (\<lambda>g. \<not> origin_key peer name g) (origin_stats s)"
proof -
  let ?set = "\<lambda>g. g\<lparr>ogRateLimitPerMinute := limit\<rparr>" and ?rows = "set_rows (origin_key peer name) (\<lambda>g. g\<lparr>ogRateLimitPerMinute := limit\<rparr>) (origin_stats s)"
  let ?t = "s\<lparr>origin_stats := ?rows\<rparr>"
  let ?all = "origin_listing peer instanceLimit now ?t" and ?is = "\<lambda>v. ovOrganizationName v = name"
  obtain g where g: "g \<in> set (origin_stats s)" "origin_key peer name g" using assms(1) by auto
  obtain p where p: "row (\<lambda>p. pID p = peer) (peers s) = Some p" using assms(2) using row_Some_iff_has by metis
  have rows: "?set g \<in> set ?rows" using g by (auto simp: set_rows_def)
  have peer: "ogPeer (?set g) = peer" using g by (simp add: origin_key_def)
  obtain w where w: "scanOrigin instanceLimit now ?t (?set g) = Some w" "?is w"
    using g p by (auto simp: scanOrigin_def origin_key_def)
  have "w \<in> set ?all" by (rule listing_member [of "?set g"]) (simp_all del: set_set_rows add: rows peer w)
  then obtain v where v: "find ?is ?all = Some v" using w(2) by (cases "find ?is ?all") (auto simp: find_None_iff)
  have found: "v \<in> set ?all" "?is v" using v by (auto simp: find_Some_iff)
  obtain h where h: "h \<in> set ?rows" "peer \<noteq> [] \<longrightarrow> ogPeer h = peer" "scanOrigin instanceLimit now ?t h = Some v"
    using found(1) unfolding listing_members by (auto simp del: set_set_rows)
  have name: "ogOrganizationName h = name" using h(3) found(2) by (auto simp: scanOrigin_def)
  have lim: "ogRateLimitPerMinute h = limit"
    using set_limit_member [OF h(1)] h(2) name assms(3) by blast
  have "ovPeerID v = peer \<and> ovRateLimitPerMinute v = limit
      \<and> ovEffectiveRateLimitPerMinute v = (case limit of None \<Rightarrow> instanceLimit | Some l \<Rightarrow> l)"
    using h(2,3) lim assms(3) by (auto simp: scanOrigin_def)
  moreover have "SetOriginRateLimitRow peer name limit instanceLimit now s = (Inr v, ?t)"
    using assms(1) v by (simp add: SetOriginRateLimitRow_def thenE_def bindE_apply require_def writes_def reads_def find_origin_find the_or_def ret_def)
  moreover have "filter (\<lambda>g. \<not> origin_key peer name g) ?rows = filter (\<lambda>g. \<not> origin_key peer name g) (origin_stats s)"
    by (rule other_limits_kept)
  ultimately show ?thesis using found(2) by fastforce
qed

theorem origin_limits_are_read_back_witness:
  "\<exists>v t. SetOriginRateLimitRow ''peer'' (runes ''Club'') (Some 0) 60 0 (peered_db\<lparr>origin_stats :=
      [\<lparr>ogPeer = ''peer'', ogOrganizationName = runes ''Club'', ogAcceptedTotal = 7, ogWindowStart = None, ogWindowCount = 0,
        ogLastReceivedAt = None, ogRateLimitPerMinute = None, ogRateLimitedTotal = 0\<rparr>]\<rparr>) = (Inr v, t)
    \<and> ovEffectiveRateLimitPerMinute v = 0"
proof -
  let ?s = "peered_db\<lparr>origin_stats :=
      [\<lparr>ogPeer = ''peer'', ogOrganizationName = runes ''Club'', ogAcceptedTotal = 7, ogWindowStart = None, ogWindowCount = 0,
        ogLastReceivedAt = None, ogRateLimitPerMinute = None, ogRateLimitedTotal = 0\<rparr>]\<rparr>"
  have "has_row (origin_key ''peer'' (runes ''Club'')) (origin_stats ?s)" "has_row (\<lambda>p. pID p = ''peer'') (peers ?s)" "''peer'' \<noteq> []"
    by (simp_all add: origin_key_def peered_db_def sample_peer_def)
  from origin_limits_are_read_back [OF this, of "Some 0" 60 0] show ?thesis by fastforce
qed

end
