(* ===== verification/CodecOrganizations.thy ===== *)
theory CodecOrganizations
  imports CodecCommon
begin

text \<open>
  The messages of \<open>csil/codec.gen.go\<close> and \<open>csil/types.gen.go\<close>: organizations and their rosters.  A struct is a record, its
  encoder the entries in the order of the wire, its decoder the fields in the order of the schema; each
  is an interpretation of the contract \<open>message\<close> with the deepest nesting it can have.
\<close>

definition PublishSetting_names :: "string list" where
  "PublishSetting_names = [''unset'', ''in'', ''out'']"

interpretation PublishSetting_value: message "enum_ok PublishSetting_names" pText "as_enum PublishSetting_names" 0
  by (rule enum_message)

lemmas PublishSetting_codec [codec] = PublishSetting_value.undone [simplified] PublishSetting_value.behind_pointer [simplified] PublishSetting_value.in_slice [simplified]
  PublishSetting_value.sent [simplified] PublishSetting_value.sent_behind_pointer [simplified] PublishSetting_value.sent_in_slice

record csil_Organization =
  Organization_Id :: string
  Organization_Slug :: string
  Organization_OriginDomain :: string
  Organization_Name :: string
  Organization_Blurb :: string
  Organization_Description :: string
  Organization_MemberCount :: "64 word"
  Organization_OwnerCount :: "64 word"
  Organization_PublishEvents :: string
  Organization_Origin :: csil_Origin
  Organization_Viewer :: csil_ViewerContext
  Organization_CreatedAt :: instant
  Organization_UpdatedAt :: instant

definition csilEncOrganization :: "csil_Organization \<Rightarrow> csil_value" where
  "csilEncOrganization v = pMap (concat [
     entry ''id'' (pText (Organization_Id v)),
     entry ''name'' (pText (Organization_Name v)),
     entry ''slug'' (pText (Organization_Slug v)),
     entry ''blurb'' (pText (Organization_Blurb v)),
     entry ''origin'' (csilEncOrigin (Organization_Origin v)),
     entry ''viewer'' (csilEncViewerContext (Organization_Viewer v)),
     entry ''created_at'' (csilEncTimestamp (Organization_CreatedAt v)),
     entry ''updated_at'' (csilEncTimestamp (Organization_UpdatedAt v)),
     entry ''description'' (pText (Organization_Description v)),
     entry ''owner_count'' (pUint (Organization_OwnerCount v)),
     entry ''member_count'' (pUint (Organization_MemberCount v)),
     entry ''origin_domain'' (pText (Organization_OriginDomain v)),
     entry ''publish_events'' (pText (Organization_PublishEvents v))])"

definition csilDecOrganization :: "csil_value \<Rightarrow> csil_error + csil_Organization" where
  "csilDecOrganization r =
     bindS (required r ''id'' cborAsText) (\<lambda>Id.
     bindS (required r ''slug'' cborAsText) (\<lambda>Slug.
     bindS (required r ''origin_domain'' cborAsText) (\<lambda>OriginDomain.
     bindS (required r ''name'' cborAsText) (\<lambda>Name.
     bindS (required r ''blurb'' cborAsText) (\<lambda>Blurb.
     bindS (required r ''description'' cborAsText) (\<lambda>Description.
     bindS (required r ''member_count'' cborAsU64) (\<lambda>MemberCount.
     bindS (required r ''owner_count'' cborAsU64) (\<lambda>OwnerCount.
     bindS (required r ''publish_events'' (as_enum PublishSetting_names)) (\<lambda>PublishEvents.
     bindS (required r ''origin'' csilDecOrigin) (\<lambda>Origin.
     bindS (required r ''viewer'' csilDecViewerContext) (\<lambda>Viewer.
     bindS (required r ''created_at'' csilAsTimestamp) (\<lambda>CreatedAt.
     bindS (required r ''updated_at'' csilAsTimestamp) (\<lambda>UpdatedAt.
     Inr \<lparr>Organization_Id = Id, Organization_Slug = Slug, Organization_OriginDomain = OriginDomain, Organization_Name = Name,
       Organization_Blurb = Blurb, Organization_Description = Description, Organization_MemberCount = MemberCount, Organization_OwnerCount = OwnerCount,
       Organization_PublishEvents = PublishEvents, Organization_Origin = Origin, Organization_Viewer = Viewer, Organization_CreatedAt = CreatedAt,
       Organization_UpdatedAt = UpdatedAt\<rparr>)))))))))))))"

definition Organization_ok :: "csil_Organization \<Rightarrow> bool" where
  "Organization_ok v \<longleftrightarrow> text_ok (Organization_Id v) \<and> text_ok (Organization_Slug v) \<and> text_ok (Organization_OriginDomain v)
    \<and> text_ok (Organization_Name v) \<and> text_ok (Organization_Blurb v) \<and> text_ok (Organization_Description v)
    \<and> enum_ok PublishSetting_names (Organization_PublishEvents v) \<and> Origin_ok (Organization_Origin v) \<and> ViewerContext_ok (Organization_Viewer v)
    \<and> time_ok (Organization_CreatedAt v) \<and> time_ok (Organization_UpdatedAt v)"

lemma Organization_undone: "Organization_ok v \<Longrightarrow> csilDecOrganization (received (csilEncOrganization v)) = Inr v"
  by (cases v) (simp add: csilEncOrganization_def csilDecOrganization_def Organization_ok_def codec)

lemma Organization_sound: "Organization_ok v \<Longrightarrow> sendable 2 (csilEncOrganization v)"
  unfolding csilEncOrganization_def Organization_ok_def by (rule sendable_map) (simp_all add: codec)

interpretation Organization_message: message Organization_ok csilEncOrganization csilDecOrganization 2
  by unfold_locales (fact Organization_undone, fact Organization_sound)

lemmas Organization_codec [codec] = Organization_message.undone Organization_message.behind_pointer Organization_message.in_slice
  Organization_message.sent Organization_message.sent_behind_pointer Organization_message.sent_in_slice

definition OrganizationRole_names :: "string list" where
  "OrganizationRole_names = [''owner'', ''member'']"

interpretation OrganizationRole_value: message "enum_ok OrganizationRole_names" pText "as_enum OrganizationRole_names" 0
  by (rule enum_message)

lemmas OrganizationRole_codec [codec] = OrganizationRole_value.undone [simplified] OrganizationRole_value.behind_pointer [simplified] OrganizationRole_value.in_slice [simplified]
  OrganizationRole_value.sent [simplified] OrganizationRole_value.sent_behind_pointer [simplified] OrganizationRole_value.sent_in_slice

record csil_OrganizationMember =
  OrganizationMember_UserId :: string
  OrganizationMember_Handle :: string
  OrganizationMember_LinkkeysDomain :: string
  OrganizationMember_DisplayName :: string
  OrganizationMember_Role :: string
  OrganizationMember_JoinedAt :: instant

definition csilEncOrganizationMember :: "csil_OrganizationMember \<Rightarrow> csil_value" where
  "csilEncOrganizationMember v = pMap (concat [
     entry ''role'' (pText (OrganizationMember_Role v)),
     entry ''handle'' (pText (OrganizationMember_Handle v)),
     entry ''user_id'' (pText (OrganizationMember_UserId v)),
     entry ''joined_at'' (csilEncTimestamp (OrganizationMember_JoinedAt v)),
     entry ''display_name'' (pText (OrganizationMember_DisplayName v)),
     entry ''linkkeys_domain'' (pText (OrganizationMember_LinkkeysDomain v))])"

definition csilDecOrganizationMember :: "csil_value \<Rightarrow> csil_error + csil_OrganizationMember" where
  "csilDecOrganizationMember r =
     bindS (required r ''user_id'' cborAsText) (\<lambda>UserId.
     bindS (required r ''handle'' cborAsText) (\<lambda>Handle.
     bindS (required r ''linkkeys_domain'' cborAsText) (\<lambda>LinkkeysDomain.
     bindS (required r ''display_name'' cborAsText) (\<lambda>DisplayName.
     bindS (required r ''role'' (as_enum OrganizationRole_names)) (\<lambda>Role.
     bindS (required r ''joined_at'' csilAsTimestamp) (\<lambda>JoinedAt.
     Inr \<lparr>OrganizationMember_UserId = UserId, OrganizationMember_Handle = Handle, OrganizationMember_LinkkeysDomain = LinkkeysDomain, OrganizationMember_DisplayName = DisplayName,
       OrganizationMember_Role = Role, OrganizationMember_JoinedAt = JoinedAt\<rparr>))))))"

definition OrganizationMember_ok :: "csil_OrganizationMember \<Rightarrow> bool" where
  "OrganizationMember_ok v \<longleftrightarrow> text_ok (OrganizationMember_UserId v) \<and> text_ok (OrganizationMember_Handle v) \<and> text_ok (OrganizationMember_LinkkeysDomain v)
    \<and> text_ok (OrganizationMember_DisplayName v) \<and> enum_ok OrganizationRole_names (OrganizationMember_Role v) \<and> time_ok (OrganizationMember_JoinedAt v)"

lemma OrganizationMember_undone: "OrganizationMember_ok v \<Longrightarrow> csilDecOrganizationMember (received (csilEncOrganizationMember v)) = Inr v"
  by (cases v) (simp add: csilEncOrganizationMember_def csilDecOrganizationMember_def OrganizationMember_ok_def codec)

lemma OrganizationMember_sound: "OrganizationMember_ok v \<Longrightarrow> sendable 2 (csilEncOrganizationMember v)"
  unfolding csilEncOrganizationMember_def OrganizationMember_ok_def by (rule sendable_map) (simp_all add: codec)

interpretation OrganizationMember_message: message OrganizationMember_ok csilEncOrganizationMember csilDecOrganizationMember 2
  by unfold_locales (fact OrganizationMember_undone, fact OrganizationMember_sound)

lemmas OrganizationMember_codec [codec] = OrganizationMember_message.undone OrganizationMember_message.behind_pointer OrganizationMember_message.in_slice
  OrganizationMember_message.sent OrganizationMember_message.sent_behind_pointer OrganizationMember_message.sent_in_slice

record csil_CreateOrganizationRequest =
  CreateOrganizationRequest_Name :: string
  CreateOrganizationRequest_Blurb :: string
  CreateOrganizationRequest_Description :: string

definition csilEncCreateOrganizationRequest :: "csil_CreateOrganizationRequest \<Rightarrow> csil_value" where
  "csilEncCreateOrganizationRequest v = pMap (concat [
     entry ''name'' (pText (CreateOrganizationRequest_Name v)),
     entry ''blurb'' (pText (CreateOrganizationRequest_Blurb v)),
     entry ''description'' (pText (CreateOrganizationRequest_Description v))])"

definition csilDecCreateOrganizationRequest :: "csil_value \<Rightarrow> csil_error + csil_CreateOrganizationRequest" where
  "csilDecCreateOrganizationRequest r =
     bindS (required r ''name'' cborAsText) (\<lambda>Name.
     bindS (required r ''blurb'' cborAsText) (\<lambda>Blurb.
     bindS (required r ''description'' cborAsText) (\<lambda>Description.
     Inr \<lparr>CreateOrganizationRequest_Name = Name, CreateOrganizationRequest_Blurb = Blurb, CreateOrganizationRequest_Description = Description\<rparr>)))"

definition CreateOrganizationRequest_ok :: "csil_CreateOrganizationRequest \<Rightarrow> bool" where
  "CreateOrganizationRequest_ok v \<longleftrightarrow> text_ok (CreateOrganizationRequest_Name v) \<and> text_ok (CreateOrganizationRequest_Blurb v) \<and> text_ok (CreateOrganizationRequest_Description v)"

lemma CreateOrganizationRequest_undone: "CreateOrganizationRequest_ok v \<Longrightarrow> csilDecCreateOrganizationRequest (received (csilEncCreateOrganizationRequest v)) = Inr v"
  by (cases v) (simp add: csilEncCreateOrganizationRequest_def csilDecCreateOrganizationRequest_def CreateOrganizationRequest_ok_def codec)

lemma CreateOrganizationRequest_sound: "CreateOrganizationRequest_ok v \<Longrightarrow> sendable 1 (csilEncCreateOrganizationRequest v)"
  unfolding csilEncCreateOrganizationRequest_def CreateOrganizationRequest_ok_def by (rule sendable_map) (simp_all add: codec)

interpretation CreateOrganizationRequest_message: message CreateOrganizationRequest_ok csilEncCreateOrganizationRequest csilDecCreateOrganizationRequest 1
  by unfold_locales (fact CreateOrganizationRequest_undone, fact CreateOrganizationRequest_sound)

record csil_UpdateOrganizationRequest =
  UpdateOrganizationRequest_Id :: string
  UpdateOrganizationRequest_Name :: "string option"
  UpdateOrganizationRequest_Blurb :: "string option"
  UpdateOrganizationRequest_Description :: "string option"
  UpdateOrganizationRequest_PublishEvents :: "string option"

definition csilEncUpdateOrganizationRequest :: "csil_UpdateOrganizationRequest \<Rightarrow> csil_value" where
  "csilEncUpdateOrganizationRequest v = pMap (concat [
     entry ''id'' (pText (UpdateOrganizationRequest_Id v)),
     opt_entry ''name'' pText (UpdateOrganizationRequest_Name v),
     opt_entry ''blurb'' pText (UpdateOrganizationRequest_Blurb v),
     opt_entry ''description'' pText (UpdateOrganizationRequest_Description v),
     opt_entry ''publish_events'' pText (UpdateOrganizationRequest_PublishEvents v)])"

definition csilDecUpdateOrganizationRequest :: "csil_value \<Rightarrow> csil_error + csil_UpdateOrganizationRequest" where
  "csilDecUpdateOrganizationRequest r =
     bindS (required r ''id'' cborAsText) (\<lambda>Id.
     bindS (optional_field r ''name'' cborAsText) (\<lambda>Name.
     bindS (optional_field r ''blurb'' cborAsText) (\<lambda>Blurb.
     bindS (optional_field r ''description'' cborAsText) (\<lambda>Description.
     bindS (optional_field r ''publish_events'' (as_enum PublishSetting_names)) (\<lambda>PublishEvents.
     Inr \<lparr>UpdateOrganizationRequest_Id = Id, UpdateOrganizationRequest_Name = Name, UpdateOrganizationRequest_Blurb = Blurb, UpdateOrganizationRequest_Description = Description,
       UpdateOrganizationRequest_PublishEvents = PublishEvents\<rparr>)))))"

definition UpdateOrganizationRequest_ok :: "csil_UpdateOrganizationRequest \<Rightarrow> bool" where
  "UpdateOrganizationRequest_ok v \<longleftrightarrow> text_ok (UpdateOrganizationRequest_Id v) \<and> pred_option text_ok (UpdateOrganizationRequest_Name v) \<and> pred_option text_ok (UpdateOrganizationRequest_Blurb v)
    \<and> pred_option text_ok (UpdateOrganizationRequest_Description v) \<and> pred_option (enum_ok PublishSetting_names) (UpdateOrganizationRequest_PublishEvents v)"

lemma UpdateOrganizationRequest_undone: "UpdateOrganizationRequest_ok v \<Longrightarrow> csilDecUpdateOrganizationRequest (received (csilEncUpdateOrganizationRequest v)) = Inr v"
  by (cases v) (simp add: csilEncUpdateOrganizationRequest_def csilDecUpdateOrganizationRequest_def UpdateOrganizationRequest_ok_def codec)

lemma UpdateOrganizationRequest_sound: "UpdateOrganizationRequest_ok v \<Longrightarrow> sendable 1 (csilEncUpdateOrganizationRequest v)"
  unfolding csilEncUpdateOrganizationRequest_def UpdateOrganizationRequest_ok_def by (rule sendable_map) (simp_all add: codec)

interpretation UpdateOrganizationRequest_message: message UpdateOrganizationRequest_ok csilEncUpdateOrganizationRequest csilDecUpdateOrganizationRequest 1
  by unfold_locales (fact UpdateOrganizationRequest_undone, fact UpdateOrganizationRequest_sound)

record csil_GetOrganizationRequest =
  GetOrganizationRequest_Id :: string

definition csilEncGetOrganizationRequest :: "csil_GetOrganizationRequest \<Rightarrow> csil_value" where
  "csilEncGetOrganizationRequest v = pMap (concat [
     entry ''id'' (pText (GetOrganizationRequest_Id v))])"

definition csilDecGetOrganizationRequest :: "csil_value \<Rightarrow> csil_error + csil_GetOrganizationRequest" where
  "csilDecGetOrganizationRequest r =
     bindS (required r ''id'' cborAsText) (\<lambda>Id.
     Inr \<lparr>GetOrganizationRequest_Id = Id\<rparr>)"

definition GetOrganizationRequest_ok :: "csil_GetOrganizationRequest \<Rightarrow> bool" where
  "GetOrganizationRequest_ok v \<longleftrightarrow> text_ok (GetOrganizationRequest_Id v)"

lemma GetOrganizationRequest_undone: "GetOrganizationRequest_ok v \<Longrightarrow> csilDecGetOrganizationRequest (received (csilEncGetOrganizationRequest v)) = Inr v"
  by (cases v) (simp add: csilEncGetOrganizationRequest_def csilDecGetOrganizationRequest_def GetOrganizationRequest_ok_def codec)

lemma GetOrganizationRequest_sound: "GetOrganizationRequest_ok v \<Longrightarrow> sendable 1 (csilEncGetOrganizationRequest v)"
  unfolding csilEncGetOrganizationRequest_def GetOrganizationRequest_ok_def by (rule sendable_map) (simp_all add: codec)

interpretation GetOrganizationRequest_message: message GetOrganizationRequest_ok csilEncGetOrganizationRequest csilDecGetOrganizationRequest 1
  by unfold_locales (fact GetOrganizationRequest_undone, fact GetOrganizationRequest_sound)

record csil_DeleteOrganizationRequest =
  DeleteOrganizationRequest_Id :: string

definition csilEncDeleteOrganizationRequest :: "csil_DeleteOrganizationRequest \<Rightarrow> csil_value" where
  "csilEncDeleteOrganizationRequest v = pMap (concat [
     entry ''id'' (pText (DeleteOrganizationRequest_Id v))])"

definition csilDecDeleteOrganizationRequest :: "csil_value \<Rightarrow> csil_error + csil_DeleteOrganizationRequest" where
  "csilDecDeleteOrganizationRequest r =
     bindS (required r ''id'' cborAsText) (\<lambda>Id.
     Inr \<lparr>DeleteOrganizationRequest_Id = Id\<rparr>)"

definition DeleteOrganizationRequest_ok :: "csil_DeleteOrganizationRequest \<Rightarrow> bool" where
  "DeleteOrganizationRequest_ok v \<longleftrightarrow> text_ok (DeleteOrganizationRequest_Id v)"

lemma DeleteOrganizationRequest_undone: "DeleteOrganizationRequest_ok v \<Longrightarrow> csilDecDeleteOrganizationRequest (received (csilEncDeleteOrganizationRequest v)) = Inr v"
  by (cases v) (simp add: csilEncDeleteOrganizationRequest_def csilDecDeleteOrganizationRequest_def DeleteOrganizationRequest_ok_def codec)

lemma DeleteOrganizationRequest_sound: "DeleteOrganizationRequest_ok v \<Longrightarrow> sendable 1 (csilEncDeleteOrganizationRequest v)"
  unfolding csilEncDeleteOrganizationRequest_def DeleteOrganizationRequest_ok_def by (rule sendable_map) (simp_all add: codec)

interpretation DeleteOrganizationRequest_message: message DeleteOrganizationRequest_ok csilEncDeleteOrganizationRequest csilDecDeleteOrganizationRequest 1
  by unfold_locales (fact DeleteOrganizationRequest_undone, fact DeleteOrganizationRequest_sound)

record csil_ListOrganizationsRequest =
  ListOrganizationsRequest_Mine :: "bool option"
  ListOrganizationsRequest_Query :: "string option"
  ListOrganizationsRequest_Page :: "csil_Page option"

definition csilEncListOrganizationsRequest :: "csil_ListOrganizationsRequest \<Rightarrow> csil_value" where
  "csilEncListOrganizationsRequest v = pMap (concat [
     opt_entry ''mine'' pBool (ListOrganizationsRequest_Mine v),
     opt_entry ''page'' csilEncPage (ListOrganizationsRequest_Page v),
     opt_entry ''query'' pText (ListOrganizationsRequest_Query v)])"

definition csilDecListOrganizationsRequest :: "csil_value \<Rightarrow> csil_error + csil_ListOrganizationsRequest" where
  "csilDecListOrganizationsRequest r =
     bindS (optional_field r ''mine'' cborAsBool) (\<lambda>Mine.
     bindS (optional_field r ''query'' cborAsText) (\<lambda>Query.
     bindS (optional_field r ''page'' csilDecPage) (\<lambda>Page.
     Inr \<lparr>ListOrganizationsRequest_Mine = Mine, ListOrganizationsRequest_Query = Query, ListOrganizationsRequest_Page = Page\<rparr>)))"

definition ListOrganizationsRequest_ok :: "csil_ListOrganizationsRequest \<Rightarrow> bool" where
  "ListOrganizationsRequest_ok v \<longleftrightarrow> pred_option text_ok (ListOrganizationsRequest_Query v) \<and> pred_option Page_ok (ListOrganizationsRequest_Page v)"

lemma ListOrganizationsRequest_undone: "ListOrganizationsRequest_ok v \<Longrightarrow> csilDecListOrganizationsRequest (received (csilEncListOrganizationsRequest v)) = Inr v"
  by (cases v) (simp add: csilEncListOrganizationsRequest_def csilDecListOrganizationsRequest_def ListOrganizationsRequest_ok_def codec)

lemma ListOrganizationsRequest_sound: "ListOrganizationsRequest_ok v \<Longrightarrow> sendable 2 (csilEncListOrganizationsRequest v)"
  unfolding csilEncListOrganizationsRequest_def ListOrganizationsRequest_ok_def by (rule sendable_map) (simp_all add: codec)

interpretation ListOrganizationsRequest_message: message ListOrganizationsRequest_ok csilEncListOrganizationsRequest csilDecListOrganizationsRequest 2
  by unfold_locales (fact ListOrganizationsRequest_undone, fact ListOrganizationsRequest_sound)

record csil_OrganizationList =
  OrganizationList_Organizations :: "csil_Organization list"
  OrganizationList_Total :: "64 word"

definition csilEncOrganizationList :: "csil_OrganizationList \<Rightarrow> csil_value" where
  "csilEncOrganizationList v = pMap (concat [
     entry ''total'' (pUint (OrganizationList_Total v)),
     entry ''organizations'' (cborEncArray csilEncOrganization (OrganizationList_Organizations v))])"

definition csilDecOrganizationList :: "csil_value \<Rightarrow> csil_error + csil_OrganizationList" where
  "csilDecOrganizationList r =
     bindS (required r ''organizations'' (cborDecArray csilDecOrganization)) (\<lambda>Organizations.
     bindS (required r ''total'' cborAsU64) (\<lambda>Total.
     Inr \<lparr>OrganizationList_Organizations = Organizations, OrganizationList_Total = Total\<rparr>))"

definition OrganizationList_ok :: "csil_OrganizationList \<Rightarrow> bool" where
  "OrganizationList_ok v \<longleftrightarrow> list_ok Organization_ok (OrganizationList_Organizations v)"

lemma OrganizationList_undone: "OrganizationList_ok v \<Longrightarrow> csilDecOrganizationList (received (csilEncOrganizationList v)) = Inr v"
  by (cases v) (simp add: csilEncOrganizationList_def csilDecOrganizationList_def OrganizationList_ok_def codec)

lemma OrganizationList_sound: "OrganizationList_ok v \<Longrightarrow> sendable 4 (csilEncOrganizationList v)"
  unfolding csilEncOrganizationList_def OrganizationList_ok_def by (rule sendable_map) (simp_all add: codec)

interpretation OrganizationList_message: message OrganizationList_ok csilEncOrganizationList csilDecOrganizationList 4
  by unfold_locales (fact OrganizationList_undone, fact OrganizationList_sound)

record csil_OrganizationMemberList =
  OrganizationMemberList_OrganizationId :: string
  OrganizationMemberList_Members :: "csil_OrganizationMember list"
  OrganizationMemberList_Total :: "64 word"

definition csilEncOrganizationMemberList :: "csil_OrganizationMemberList \<Rightarrow> csil_value" where
  "csilEncOrganizationMemberList v = pMap (concat [
     entry ''total'' (pUint (OrganizationMemberList_Total v)),
     entry ''members'' (cborEncArray csilEncOrganizationMember (OrganizationMemberList_Members v)),
     entry ''organization_id'' (pText (OrganizationMemberList_OrganizationId v))])"

definition csilDecOrganizationMemberList :: "csil_value \<Rightarrow> csil_error + csil_OrganizationMemberList" where
  "csilDecOrganizationMemberList r =
     bindS (required r ''organization_id'' cborAsText) (\<lambda>OrganizationId.
     bindS (required r ''members'' (cborDecArray csilDecOrganizationMember)) (\<lambda>Members.
     bindS (required r ''total'' cborAsU64) (\<lambda>Total.
     Inr \<lparr>OrganizationMemberList_OrganizationId = OrganizationId, OrganizationMemberList_Members = Members, OrganizationMemberList_Total = Total\<rparr>)))"

definition OrganizationMemberList_ok :: "csil_OrganizationMemberList \<Rightarrow> bool" where
  "OrganizationMemberList_ok v \<longleftrightarrow> text_ok (OrganizationMemberList_OrganizationId v) \<and> list_ok OrganizationMember_ok (OrganizationMemberList_Members v)"

lemma OrganizationMemberList_undone: "OrganizationMemberList_ok v \<Longrightarrow> csilDecOrganizationMemberList (received (csilEncOrganizationMemberList v)) = Inr v"
  by (cases v) (simp add: csilEncOrganizationMemberList_def csilDecOrganizationMemberList_def OrganizationMemberList_ok_def codec)

lemma OrganizationMemberList_sound: "OrganizationMemberList_ok v \<Longrightarrow> sendable 4 (csilEncOrganizationMemberList v)"
  unfolding csilEncOrganizationMemberList_def OrganizationMemberList_ok_def by (rule sendable_map) (simp_all add: codec)

interpretation OrganizationMemberList_message: message OrganizationMemberList_ok csilEncOrganizationMemberList csilDecOrganizationMemberList 4
  by unfold_locales (fact OrganizationMemberList_undone, fact OrganizationMemberList_sound)

record csil_ListOrganizationMembersRequest =
  ListOrganizationMembersRequest_OrganizationId :: string
  ListOrganizationMembersRequest_Page :: "csil_Page option"

definition csilEncListOrganizationMembersRequest :: "csil_ListOrganizationMembersRequest \<Rightarrow> csil_value" where
  "csilEncListOrganizationMembersRequest v = pMap (concat [
     opt_entry ''page'' csilEncPage (ListOrganizationMembersRequest_Page v),
     entry ''organization_id'' (pText (ListOrganizationMembersRequest_OrganizationId v))])"

definition csilDecListOrganizationMembersRequest :: "csil_value \<Rightarrow> csil_error + csil_ListOrganizationMembersRequest" where
  "csilDecListOrganizationMembersRequest r =
     bindS (required r ''organization_id'' cborAsText) (\<lambda>OrganizationId.
     bindS (optional_field r ''page'' csilDecPage) (\<lambda>Page.
     Inr \<lparr>ListOrganizationMembersRequest_OrganizationId = OrganizationId, ListOrganizationMembersRequest_Page = Page\<rparr>))"

definition ListOrganizationMembersRequest_ok :: "csil_ListOrganizationMembersRequest \<Rightarrow> bool" where
  "ListOrganizationMembersRequest_ok v \<longleftrightarrow> text_ok (ListOrganizationMembersRequest_OrganizationId v) \<and> pred_option Page_ok (ListOrganizationMembersRequest_Page v)"

lemma ListOrganizationMembersRequest_undone: "ListOrganizationMembersRequest_ok v \<Longrightarrow> csilDecListOrganizationMembersRequest (received (csilEncListOrganizationMembersRequest v)) = Inr v"
  by (cases v) (simp add: csilEncListOrganizationMembersRequest_def csilDecListOrganizationMembersRequest_def ListOrganizationMembersRequest_ok_def codec)

lemma ListOrganizationMembersRequest_sound: "ListOrganizationMembersRequest_ok v \<Longrightarrow> sendable 2 (csilEncListOrganizationMembersRequest v)"
  unfolding csilEncListOrganizationMembersRequest_def ListOrganizationMembersRequest_ok_def by (rule sendable_map) (simp_all add: codec)

interpretation ListOrganizationMembersRequest_message: message ListOrganizationMembersRequest_ok csilEncListOrganizationMembersRequest csilDecListOrganizationMembersRequest 2
  by unfold_locales (fact ListOrganizationMembersRequest_undone, fact ListOrganizationMembersRequest_sound)

record csil_SetOrganizationMemberRequest =
  SetOrganizationMemberRequest_OrganizationId :: string
  SetOrganizationMemberRequest_UserId :: string
  SetOrganizationMemberRequest_Role :: string

definition csilEncSetOrganizationMemberRequest :: "csil_SetOrganizationMemberRequest \<Rightarrow> csil_value" where
  "csilEncSetOrganizationMemberRequest v = pMap (concat [
     entry ''role'' (pText (SetOrganizationMemberRequest_Role v)),
     entry ''user_id'' (pText (SetOrganizationMemberRequest_UserId v)),
     entry ''organization_id'' (pText (SetOrganizationMemberRequest_OrganizationId v))])"

definition csilDecSetOrganizationMemberRequest :: "csil_value \<Rightarrow> csil_error + csil_SetOrganizationMemberRequest" where
  "csilDecSetOrganizationMemberRequest r =
     bindS (required r ''organization_id'' cborAsText) (\<lambda>OrganizationId.
     bindS (required r ''user_id'' cborAsText) (\<lambda>UserId.
     bindS (required r ''role'' (as_enum OrganizationRole_names)) (\<lambda>Role.
     Inr \<lparr>SetOrganizationMemberRequest_OrganizationId = OrganizationId, SetOrganizationMemberRequest_UserId = UserId, SetOrganizationMemberRequest_Role = Role\<rparr>)))"

definition SetOrganizationMemberRequest_ok :: "csil_SetOrganizationMemberRequest \<Rightarrow> bool" where
  "SetOrganizationMemberRequest_ok v \<longleftrightarrow> text_ok (SetOrganizationMemberRequest_OrganizationId v) \<and> text_ok (SetOrganizationMemberRequest_UserId v) \<and> enum_ok OrganizationRole_names (SetOrganizationMemberRequest_Role v)"

lemma SetOrganizationMemberRequest_undone: "SetOrganizationMemberRequest_ok v \<Longrightarrow> csilDecSetOrganizationMemberRequest (received (csilEncSetOrganizationMemberRequest v)) = Inr v"
  by (cases v) (simp add: csilEncSetOrganizationMemberRequest_def csilDecSetOrganizationMemberRequest_def SetOrganizationMemberRequest_ok_def codec)

lemma SetOrganizationMemberRequest_sound: "SetOrganizationMemberRequest_ok v \<Longrightarrow> sendable 1 (csilEncSetOrganizationMemberRequest v)"
  unfolding csilEncSetOrganizationMemberRequest_def SetOrganizationMemberRequest_ok_def by (rule sendable_map) (simp_all add: codec)

interpretation SetOrganizationMemberRequest_message: message SetOrganizationMemberRequest_ok csilEncSetOrganizationMemberRequest csilDecSetOrganizationMemberRequest 1
  by unfold_locales (fact SetOrganizationMemberRequest_undone, fact SetOrganizationMemberRequest_sound)

record csil_RemoveOrganizationMemberRequest =
  RemoveOrganizationMemberRequest_OrganizationId :: string
  RemoveOrganizationMemberRequest_UserId :: string

definition csilEncRemoveOrganizationMemberRequest :: "csil_RemoveOrganizationMemberRequest \<Rightarrow> csil_value" where
  "csilEncRemoveOrganizationMemberRequest v = pMap (concat [
     entry ''user_id'' (pText (RemoveOrganizationMemberRequest_UserId v)),
     entry ''organization_id'' (pText (RemoveOrganizationMemberRequest_OrganizationId v))])"

definition csilDecRemoveOrganizationMemberRequest :: "csil_value \<Rightarrow> csil_error + csil_RemoveOrganizationMemberRequest" where
  "csilDecRemoveOrganizationMemberRequest r =
     bindS (required r ''organization_id'' cborAsText) (\<lambda>OrganizationId.
     bindS (required r ''user_id'' cborAsText) (\<lambda>UserId.
     Inr \<lparr>RemoveOrganizationMemberRequest_OrganizationId = OrganizationId, RemoveOrganizationMemberRequest_UserId = UserId\<rparr>))"

definition RemoveOrganizationMemberRequest_ok :: "csil_RemoveOrganizationMemberRequest \<Rightarrow> bool" where
  "RemoveOrganizationMemberRequest_ok v \<longleftrightarrow> text_ok (RemoveOrganizationMemberRequest_OrganizationId v) \<and> text_ok (RemoveOrganizationMemberRequest_UserId v)"

lemma RemoveOrganizationMemberRequest_undone: "RemoveOrganizationMemberRequest_ok v \<Longrightarrow> csilDecRemoveOrganizationMemberRequest (received (csilEncRemoveOrganizationMemberRequest v)) = Inr v"
  by (cases v) (simp add: csilEncRemoveOrganizationMemberRequest_def csilDecRemoveOrganizationMemberRequest_def RemoveOrganizationMemberRequest_ok_def codec)

lemma RemoveOrganizationMemberRequest_sound: "RemoveOrganizationMemberRequest_ok v \<Longrightarrow> sendable 1 (csilEncRemoveOrganizationMemberRequest v)"
  unfolding csilEncRemoveOrganizationMemberRequest_def RemoveOrganizationMemberRequest_ok_def by (rule sendable_map) (simp_all add: codec)

interpretation RemoveOrganizationMemberRequest_message: message RemoveOrganizationMemberRequest_ok csilEncRemoveOrganizationMemberRequest csilDecRemoveOrganizationMemberRequest 1
  by unfold_locales (fact RemoveOrganizationMemberRequest_undone, fact RemoveOrganizationMemberRequest_sound)

end
