(* ===== verification/CodecAdmin.thy ===== *)
theory CodecAdmin
  imports CodecCommon CodecOrganizations
begin

text \<open>
  The messages of \<open>csil/codec.gen.go\<close> and \<open>csil/types.gen.go\<close>: administrators and settings.  A struct is a record, its
  encoder the entries in the order of the wire, its decoder the fields in the order of the schema; each
  is an interpretation of the contract \<open>message\<close> with the deepest nesting it can have.
\<close>

record csil_AdminUser =
  AdminUser_UserId :: string
  AdminUser_Handle :: string
  AdminUser_LinkkeysDomain :: string
  AdminUser_DisplayName :: string
  AdminUser_GrantedAt :: instant

definition csilEncAdminUser :: "csil_AdminUser \<Rightarrow> csil_value" where
  "csilEncAdminUser v = pMap (concat [
     entry ''handle'' (pText (AdminUser_Handle v)),
     entry ''user_id'' (pText (AdminUser_UserId v)),
     entry ''granted_at'' (csilEncTimestamp (AdminUser_GrantedAt v)),
     entry ''display_name'' (pText (AdminUser_DisplayName v)),
     entry ''linkkeys_domain'' (pText (AdminUser_LinkkeysDomain v))])"

definition csilDecAdminUser :: "csil_value \<Rightarrow> csil_error + csil_AdminUser" where
  "csilDecAdminUser r =
     bindS (required r ''user_id'' cborAsText) (\<lambda>UserId.
     bindS (required r ''handle'' cborAsText) (\<lambda>Handle.
     bindS (required r ''linkkeys_domain'' cborAsText) (\<lambda>LinkkeysDomain.
     bindS (required r ''display_name'' cborAsText) (\<lambda>DisplayName.
     bindS (required r ''granted_at'' csilAsTimestamp) (\<lambda>GrantedAt.
     Inr \<lparr>AdminUser_UserId = UserId, AdminUser_Handle = Handle, AdminUser_LinkkeysDomain = LinkkeysDomain, AdminUser_DisplayName = DisplayName,
       AdminUser_GrantedAt = GrantedAt\<rparr>)))))"

definition AdminUser_ok :: "csil_AdminUser \<Rightarrow> bool" where
  "AdminUser_ok v \<longleftrightarrow> text_ok (AdminUser_UserId v) \<and> text_ok (AdminUser_Handle v) \<and> text_ok (AdminUser_LinkkeysDomain v)
    \<and> text_ok (AdminUser_DisplayName v) \<and> time_ok (AdminUser_GrantedAt v)"

lemma AdminUser_undone: "AdminUser_ok v \<Longrightarrow> csilDecAdminUser (received (csilEncAdminUser v)) = Inr v"
  by (cases v) (simp add: csilEncAdminUser_def csilDecAdminUser_def AdminUser_ok_def codec)

lemma AdminUser_sound: "AdminUser_ok v \<Longrightarrow> sendable 2 (csilEncAdminUser v)"
  unfolding csilEncAdminUser_def AdminUser_ok_def by (rule sendable_map) (simp_all add: codec)

interpretation AdminUser_message: message AdminUser_ok csilEncAdminUser csilDecAdminUser 2
  by unfold_locales (fact AdminUser_undone, fact AdminUser_sound)

lemmas AdminUser_codec [codec] = AdminUser_message.undone AdminUser_message.behind_pointer AdminUser_message.in_slice
  AdminUser_message.sent AdminUser_message.sent_behind_pointer AdminUser_message.sent_in_slice

record csil_AdminList =
  AdminList_Admins :: "csil_AdminUser list"

definition csilEncAdminList :: "csil_AdminList \<Rightarrow> csil_value" where
  "csilEncAdminList v = pMap (concat [
     entry ''admins'' (cborEncArray csilEncAdminUser (AdminList_Admins v))])"

definition csilDecAdminList :: "csil_value \<Rightarrow> csil_error + csil_AdminList" where
  "csilDecAdminList r =
     bindS (required r ''admins'' (cborDecArray csilDecAdminUser)) (\<lambda>Admins.
     Inr \<lparr>AdminList_Admins = Admins\<rparr>)"

definition AdminList_ok :: "csil_AdminList \<Rightarrow> bool" where
  "AdminList_ok v \<longleftrightarrow> list_ok AdminUser_ok (AdminList_Admins v)"

lemma AdminList_undone: "AdminList_ok v \<Longrightarrow> csilDecAdminList (received (csilEncAdminList v)) = Inr v"
  by (cases v) (simp add: csilEncAdminList_def csilDecAdminList_def AdminList_ok_def codec)

lemma AdminList_sound: "AdminList_ok v \<Longrightarrow> sendable 4 (csilEncAdminList v)"
  unfolding csilEncAdminList_def AdminList_ok_def by (rule sendable_map) (simp_all add: codec)

interpretation AdminList_message: message AdminList_ok csilEncAdminList csilDecAdminList 4
  by unfold_locales (fact AdminList_undone, fact AdminList_sound)

record csil_SetAdminRequest =
  SetAdminRequest_UserId :: string
  SetAdminRequest_Granted :: bool

definition csilEncSetAdminRequest :: "csil_SetAdminRequest \<Rightarrow> csil_value" where
  "csilEncSetAdminRequest v = pMap (concat [
     entry ''granted'' (pBool (SetAdminRequest_Granted v)),
     entry ''user_id'' (pText (SetAdminRequest_UserId v))])"

definition csilDecSetAdminRequest :: "csil_value \<Rightarrow> csil_error + csil_SetAdminRequest" where
  "csilDecSetAdminRequest r =
     bindS (required r ''user_id'' cborAsText) (\<lambda>UserId.
     bindS (required r ''granted'' cborAsBool) (\<lambda>Granted.
     Inr \<lparr>SetAdminRequest_UserId = UserId, SetAdminRequest_Granted = Granted\<rparr>))"

definition SetAdminRequest_ok :: "csil_SetAdminRequest \<Rightarrow> bool" where
  "SetAdminRequest_ok v \<longleftrightarrow> text_ok (SetAdminRequest_UserId v)"

lemma SetAdminRequest_undone: "SetAdminRequest_ok v \<Longrightarrow> csilDecSetAdminRequest (received (csilEncSetAdminRequest v)) = Inr v"
  by (cases v) (simp add: csilEncSetAdminRequest_def csilDecSetAdminRequest_def SetAdminRequest_ok_def codec)

lemma SetAdminRequest_sound: "SetAdminRequest_ok v \<Longrightarrow> sendable 1 (csilEncSetAdminRequest v)"
  unfolding csilEncSetAdminRequest_def SetAdminRequest_ok_def by (rule sendable_map) (simp_all add: codec)

interpretation SetAdminRequest_message: message SetAdminRequest_ok csilEncSetAdminRequest csilDecSetAdminRequest 1
  by unfold_locales (fact SetAdminRequest_undone, fact SetAdminRequest_sound)

record csil_FindUserRequest =
  FindUserRequest_Handle :: string
  FindUserRequest_Domain :: string

definition csilEncFindUserRequest :: "csil_FindUserRequest \<Rightarrow> csil_value" where
  "csilEncFindUserRequest v = pMap (concat [
     entry ''domain'' (pText (FindUserRequest_Domain v)),
     entry ''handle'' (pText (FindUserRequest_Handle v))])"

definition csilDecFindUserRequest :: "csil_value \<Rightarrow> csil_error + csil_FindUserRequest" where
  "csilDecFindUserRequest r =
     bindS (required r ''handle'' cborAsText) (\<lambda>Handle.
     bindS (required r ''domain'' cborAsText) (\<lambda>Domain.
     Inr \<lparr>FindUserRequest_Handle = Handle, FindUserRequest_Domain = Domain\<rparr>))"

definition FindUserRequest_ok :: "csil_FindUserRequest \<Rightarrow> bool" where
  "FindUserRequest_ok v \<longleftrightarrow> text_ok (FindUserRequest_Handle v) \<and> text_ok (FindUserRequest_Domain v)"

lemma FindUserRequest_undone: "FindUserRequest_ok v \<Longrightarrow> csilDecFindUserRequest (received (csilEncFindUserRequest v)) = Inr v"
  by (cases v) (simp add: csilEncFindUserRequest_def csilDecFindUserRequest_def FindUserRequest_ok_def codec)

lemma FindUserRequest_sound: "FindUserRequest_ok v \<Longrightarrow> sendable 1 (csilEncFindUserRequest v)"
  unfolding csilEncFindUserRequest_def FindUserRequest_ok_def by (rule sendable_map) (simp_all add: codec)

interpretation FindUserRequest_message: message FindUserRequest_ok csilEncFindUserRequest csilDecFindUserRequest 1
  by unfold_locales (fact FindUserRequest_undone, fact FindUserRequest_sound)

record csil_UserRef =
  UserRef_UserId :: string
  UserRef_Handle :: string
  UserRef_LinkkeysDomain :: string
  UserRef_DisplayName :: string
  UserRef_IsAdmin :: bool

definition csilEncUserRef :: "csil_UserRef \<Rightarrow> csil_value" where
  "csilEncUserRef v = pMap (concat [
     entry ''handle'' (pText (UserRef_Handle v)),
     entry ''user_id'' (pText (UserRef_UserId v)),
     entry ''is_admin'' (pBool (UserRef_IsAdmin v)),
     entry ''display_name'' (pText (UserRef_DisplayName v)),
     entry ''linkkeys_domain'' (pText (UserRef_LinkkeysDomain v))])"

definition csilDecUserRef :: "csil_value \<Rightarrow> csil_error + csil_UserRef" where
  "csilDecUserRef r =
     bindS (required r ''user_id'' cborAsText) (\<lambda>UserId.
     bindS (required r ''handle'' cborAsText) (\<lambda>Handle.
     bindS (required r ''linkkeys_domain'' cborAsText) (\<lambda>LinkkeysDomain.
     bindS (required r ''display_name'' cborAsText) (\<lambda>DisplayName.
     bindS (required r ''is_admin'' cborAsBool) (\<lambda>IsAdmin.
     Inr \<lparr>UserRef_UserId = UserId, UserRef_Handle = Handle, UserRef_LinkkeysDomain = LinkkeysDomain, UserRef_DisplayName = DisplayName,
       UserRef_IsAdmin = IsAdmin\<rparr>)))))"

definition UserRef_ok :: "csil_UserRef \<Rightarrow> bool" where
  "UserRef_ok v \<longleftrightarrow> text_ok (UserRef_UserId v) \<and> text_ok (UserRef_Handle v) \<and> text_ok (UserRef_LinkkeysDomain v)
    \<and> text_ok (UserRef_DisplayName v)"

lemma UserRef_undone: "UserRef_ok v \<Longrightarrow> csilDecUserRef (received (csilEncUserRef v)) = Inr v"
  by (cases v) (simp add: csilEncUserRef_def csilDecUserRef_def UserRef_ok_def codec)

lemma UserRef_sound: "UserRef_ok v \<Longrightarrow> sendable 1 (csilEncUserRef v)"
  unfolding csilEncUserRef_def UserRef_ok_def by (rule sendable_map) (simp_all add: codec)

interpretation UserRef_message: message UserRef_ok csilEncUserRef csilDecUserRef 1
  by unfold_locales (fact UserRef_undone, fact UserRef_sound)

lemmas UserRef_codec [codec] = UserRef_message.undone UserRef_message.behind_pointer UserRef_message.in_slice
  UserRef_message.sent UserRef_message.sent_behind_pointer UserRef_message.sent_in_slice

record csil_UserRefList =
  UserRefList_Users :: "csil_UserRef list"

definition csilEncUserRefList :: "csil_UserRefList \<Rightarrow> csil_value" where
  "csilEncUserRefList v = pMap (concat [
     entry ''users'' (cborEncArray csilEncUserRef (UserRefList_Users v))])"

definition csilDecUserRefList :: "csil_value \<Rightarrow> csil_error + csil_UserRefList" where
  "csilDecUserRefList r =
     bindS (required r ''users'' (cborDecArray csilDecUserRef)) (\<lambda>Users.
     Inr \<lparr>UserRefList_Users = Users\<rparr>)"

definition UserRefList_ok :: "csil_UserRefList \<Rightarrow> bool" where
  "UserRefList_ok v \<longleftrightarrow> list_ok UserRef_ok (UserRefList_Users v)"

lemma UserRefList_undone: "UserRefList_ok v \<Longrightarrow> csilDecUserRefList (received (csilEncUserRefList v)) = Inr v"
  by (cases v) (simp add: csilEncUserRefList_def csilDecUserRefList_def UserRefList_ok_def codec)

lemma UserRefList_sound: "UserRefList_ok v \<Longrightarrow> sendable 3 (csilEncUserRefList v)"
  unfolding csilEncUserRefList_def UserRefList_ok_def by (rule sendable_map) (simp_all add: codec)

interpretation UserRefList_message: message UserRefList_ok csilEncUserRefList csilDecUserRefList 3
  by unfold_locales (fact UserRefList_undone, fact UserRefList_sound)

record csil_SearchUsersRequest =
  SearchUsersRequest_Query :: string
  SearchUsersRequest_Page :: "csil_Page option"

definition csilEncSearchUsersRequest :: "csil_SearchUsersRequest \<Rightarrow> csil_value" where
  "csilEncSearchUsersRequest v = pMap (concat [
     opt_entry ''page'' csilEncPage (SearchUsersRequest_Page v),
     entry ''query'' (pText (SearchUsersRequest_Query v))])"

definition csilDecSearchUsersRequest :: "csil_value \<Rightarrow> csil_error + csil_SearchUsersRequest" where
  "csilDecSearchUsersRequest r =
     bindS (required r ''query'' cborAsText) (\<lambda>Query.
     bindS (optional_field r ''page'' csilDecPage) (\<lambda>Page.
     Inr \<lparr>SearchUsersRequest_Query = Query, SearchUsersRequest_Page = Page\<rparr>))"

definition SearchUsersRequest_ok :: "csil_SearchUsersRequest \<Rightarrow> bool" where
  "SearchUsersRequest_ok v \<longleftrightarrow> text_ok (SearchUsersRequest_Query v) \<and> pred_option Page_ok (SearchUsersRequest_Page v)"

lemma SearchUsersRequest_undone: "SearchUsersRequest_ok v \<Longrightarrow> csilDecSearchUsersRequest (received (csilEncSearchUsersRequest v)) = Inr v"
  by (cases v) (simp add: csilEncSearchUsersRequest_def csilDecSearchUsersRequest_def SearchUsersRequest_ok_def codec)

lemma SearchUsersRequest_sound: "SearchUsersRequest_ok v \<Longrightarrow> sendable 2 (csilEncSearchUsersRequest v)"
  unfolding csilEncSearchUsersRequest_def SearchUsersRequest_ok_def by (rule sendable_map) (simp_all add: codec)

interpretation SearchUsersRequest_message: message SearchUsersRequest_ok csilEncSearchUsersRequest csilDecSearchUsersRequest 2
  by unfold_locales (fact SearchUsersRequest_undone, fact SearchUsersRequest_sound)

record csil_InstanceSettings =
  InstanceSettings_PublishDefault :: string
  InstanceSettings_OrganizationOverrideAllowed :: bool
  InstanceSettings_GatheringOverrideAllowed :: bool
  InstanceSettings_RetentionDays :: "64 word"
  InstanceSettings_PeerRateLimitPerMinute :: "64 word"
  InstanceSettings_OriginRateLimitPerMinute :: "64 word"

definition csilEncInstanceSettings :: "csil_InstanceSettings \<Rightarrow> csil_value" where
  "csilEncInstanceSettings v = pMap (concat [
     entry ''retention_days'' (pUint (InstanceSettings_RetentionDays v)),
     entry ''publish_default'' (pText (InstanceSettings_PublishDefault v)),
     entry ''gathering_override_allowed'' (pBool (InstanceSettings_GatheringOverrideAllowed v)),
     entry ''peer_rate_limit_per_minute'' (pUint (InstanceSettings_PeerRateLimitPerMinute v)),
     entry ''origin_rate_limit_per_minute'' (pUint (InstanceSettings_OriginRateLimitPerMinute v)),
     entry ''organization_override_allowed'' (pBool (InstanceSettings_OrganizationOverrideAllowed v))])"

definition csilDecInstanceSettings :: "csil_value \<Rightarrow> csil_error + csil_InstanceSettings" where
  "csilDecInstanceSettings r =
     bindS (required r ''publish_default'' (as_enum PublishSetting_names)) (\<lambda>PublishDefault.
     bindS (required r ''organization_override_allowed'' cborAsBool) (\<lambda>OrganizationOverrideAllowed.
     bindS (required r ''gathering_override_allowed'' cborAsBool) (\<lambda>GatheringOverrideAllowed.
     bindS (required r ''retention_days'' cborAsU64) (\<lambda>RetentionDays.
     bindS (required r ''peer_rate_limit_per_minute'' cborAsU64) (\<lambda>PeerRateLimitPerMinute.
     bindS (required r ''origin_rate_limit_per_minute'' cborAsU64) (\<lambda>OriginRateLimitPerMinute.
     Inr \<lparr>InstanceSettings_PublishDefault = PublishDefault, InstanceSettings_OrganizationOverrideAllowed = OrganizationOverrideAllowed, InstanceSettings_GatheringOverrideAllowed = GatheringOverrideAllowed, InstanceSettings_RetentionDays = RetentionDays,
       InstanceSettings_PeerRateLimitPerMinute = PeerRateLimitPerMinute, InstanceSettings_OriginRateLimitPerMinute = OriginRateLimitPerMinute\<rparr>))))))"

definition InstanceSettings_ok :: "csil_InstanceSettings \<Rightarrow> bool" where
  "InstanceSettings_ok v \<longleftrightarrow> enum_ok PublishSetting_names (InstanceSettings_PublishDefault v)"

lemma InstanceSettings_undone: "InstanceSettings_ok v \<Longrightarrow> csilDecInstanceSettings (received (csilEncInstanceSettings v)) = Inr v"
  by (cases v) (simp add: csilEncInstanceSettings_def csilDecInstanceSettings_def InstanceSettings_ok_def codec)

lemma InstanceSettings_sound: "InstanceSettings_ok v \<Longrightarrow> sendable 1 (csilEncInstanceSettings v)"
  unfolding csilEncInstanceSettings_def InstanceSettings_ok_def by (rule sendable_map) (simp_all add: codec)

interpretation InstanceSettings_message: message InstanceSettings_ok csilEncInstanceSettings csilDecInstanceSettings 1
  by unfold_locales (fact InstanceSettings_undone, fact InstanceSettings_sound)

record csil_UpdateInstanceSettingsRequest =
  UpdateInstanceSettingsRequest_PublishDefault :: "string option"
  UpdateInstanceSettingsRequest_OrganizationOverrideAllowed :: "bool option"
  UpdateInstanceSettingsRequest_GatheringOverrideAllowed :: "bool option"
  UpdateInstanceSettingsRequest_RetentionDays :: "64 word option"
  UpdateInstanceSettingsRequest_PeerRateLimitPerMinute :: "64 word option"
  UpdateInstanceSettingsRequest_OriginRateLimitPerMinute :: "64 word option"

definition csilEncUpdateInstanceSettingsRequest :: "csil_UpdateInstanceSettingsRequest \<Rightarrow> csil_value" where
  "csilEncUpdateInstanceSettingsRequest v = pMap (concat [
     opt_entry ''retention_days'' pUint (UpdateInstanceSettingsRequest_RetentionDays v),
     opt_entry ''publish_default'' pText (UpdateInstanceSettingsRequest_PublishDefault v),
     opt_entry ''gathering_override_allowed'' pBool (UpdateInstanceSettingsRequest_GatheringOverrideAllowed v),
     opt_entry ''peer_rate_limit_per_minute'' pUint (UpdateInstanceSettingsRequest_PeerRateLimitPerMinute v),
     opt_entry ''origin_rate_limit_per_minute'' pUint (UpdateInstanceSettingsRequest_OriginRateLimitPerMinute v),
     opt_entry ''organization_override_allowed'' pBool (UpdateInstanceSettingsRequest_OrganizationOverrideAllowed v)])"

definition csilDecUpdateInstanceSettingsRequest :: "csil_value \<Rightarrow> csil_error + csil_UpdateInstanceSettingsRequest" where
  "csilDecUpdateInstanceSettingsRequest r =
     bindS (optional_field r ''publish_default'' (as_enum PublishSetting_names)) (\<lambda>PublishDefault.
     bindS (optional_field r ''organization_override_allowed'' cborAsBool) (\<lambda>OrganizationOverrideAllowed.
     bindS (optional_field r ''gathering_override_allowed'' cborAsBool) (\<lambda>GatheringOverrideAllowed.
     bindS (optional_field r ''retention_days'' cborAsU64) (\<lambda>RetentionDays.
     bindS (optional_field r ''peer_rate_limit_per_minute'' cborAsU64) (\<lambda>PeerRateLimitPerMinute.
     bindS (optional_field r ''origin_rate_limit_per_minute'' cborAsU64) (\<lambda>OriginRateLimitPerMinute.
     Inr \<lparr>UpdateInstanceSettingsRequest_PublishDefault = PublishDefault, UpdateInstanceSettingsRequest_OrganizationOverrideAllowed = OrganizationOverrideAllowed, UpdateInstanceSettingsRequest_GatheringOverrideAllowed = GatheringOverrideAllowed, UpdateInstanceSettingsRequest_RetentionDays = RetentionDays,
       UpdateInstanceSettingsRequest_PeerRateLimitPerMinute = PeerRateLimitPerMinute, UpdateInstanceSettingsRequest_OriginRateLimitPerMinute = OriginRateLimitPerMinute\<rparr>))))))"

definition UpdateInstanceSettingsRequest_ok :: "csil_UpdateInstanceSettingsRequest \<Rightarrow> bool" where
  "UpdateInstanceSettingsRequest_ok v \<longleftrightarrow> pred_option (enum_ok PublishSetting_names) (UpdateInstanceSettingsRequest_PublishDefault v)"

lemma UpdateInstanceSettingsRequest_undone: "UpdateInstanceSettingsRequest_ok v \<Longrightarrow> csilDecUpdateInstanceSettingsRequest (received (csilEncUpdateInstanceSettingsRequest v)) = Inr v"
  by (cases v) (simp add: csilEncUpdateInstanceSettingsRequest_def csilDecUpdateInstanceSettingsRequest_def UpdateInstanceSettingsRequest_ok_def codec)

lemma UpdateInstanceSettingsRequest_sound: "UpdateInstanceSettingsRequest_ok v \<Longrightarrow> sendable 1 (csilEncUpdateInstanceSettingsRequest v)"
  unfolding csilEncUpdateInstanceSettingsRequest_def UpdateInstanceSettingsRequest_ok_def by (rule sendable_map) (simp_all add: codec)

interpretation UpdateInstanceSettingsRequest_message: message UpdateInstanceSettingsRequest_ok csilEncUpdateInstanceSettingsRequest csilDecUpdateInstanceSettingsRequest 1
  by unfold_locales (fact UpdateInstanceSettingsRequest_undone, fact UpdateInstanceSettingsRequest_sound)

end
