(* ===== verification/CodecOffers.thy ===== *)
theory CodecOffers
  imports CodecCommon CodecAdmin
begin

text \<open>
  The messages of \<open>csil/codec.gen.go\<close> and \<open>csil/types.gen.go\<close>: offers of gatherings.  A struct is a record, its
  encoder the entries in the order of the wire, its decoder the fields in the order of the schema; each
  is an interpretation of the contract \<open>message\<close> with the deepest nesting it can have.
\<close>

definition GatheringOfferStatus_names :: "string list" where
  "GatheringOfferStatus_names = [''pending'', ''accepted'', ''declined'', ''withdrawn'']"

interpretation GatheringOfferStatus_value: message "enum_ok GatheringOfferStatus_names" pText "as_enum GatheringOfferStatus_names" 0
  by (rule enum_message)

lemmas GatheringOfferStatus_codec [codec] = GatheringOfferStatus_value.undone [simplified] GatheringOfferStatus_value.behind_pointer [simplified] GatheringOfferStatus_value.in_slice [simplified]
  GatheringOfferStatus_value.sent [simplified] GatheringOfferStatus_value.sent_behind_pointer [simplified] GatheringOfferStatus_value.sent_in_slice

record csil_GatheringOffer =
  GatheringOffer_Id :: string
  GatheringOffer_GatheringId :: string
  GatheringOffer_GatheringName :: string
  GatheringOffer_OrganizationId :: string
  GatheringOffer_OrganizationName :: string
  GatheringOffer_OfferedBy :: csil_UserRef
  GatheringOffer_Note :: string
  GatheringOffer_Status :: string
  GatheringOffer_CreatedAt :: instant
  GatheringOffer_ResolvedAt :: "instant option"
  GatheringOffer_Viewer :: csil_ViewerContext

definition csilEncGatheringOffer :: "csil_GatheringOffer \<Rightarrow> csil_value" where
  "csilEncGatheringOffer v = pMap (concat [
     entry ''id'' (pText (GatheringOffer_Id v)),
     entry ''note'' (pText (GatheringOffer_Note v)),
     entry ''status'' (pText (GatheringOffer_Status v)),
     entry ''viewer'' (csilEncViewerContext (GatheringOffer_Viewer v)),
     entry ''created_at'' (csilEncTimestamp (GatheringOffer_CreatedAt v)),
     entry ''offered_by'' (csilEncUserRef (GatheringOffer_OfferedBy v)),
     opt_entry ''resolved_at'' csilEncTimestamp (GatheringOffer_ResolvedAt v),
     entry ''gathering_id'' (pText (GatheringOffer_GatheringId v)),
     entry ''gathering_name'' (pText (GatheringOffer_GatheringName v)),
     entry ''organization_id'' (pText (GatheringOffer_OrganizationId v)),
     entry ''organization_name'' (pText (GatheringOffer_OrganizationName v))])"

definition csilDecGatheringOffer :: "csil_value \<Rightarrow> csil_error + csil_GatheringOffer" where
  "csilDecGatheringOffer r =
     bindS (required r ''id'' cborAsText) (\<lambda>Id.
     bindS (required r ''gathering_id'' cborAsText) (\<lambda>GatheringId.
     bindS (required r ''gathering_name'' cborAsText) (\<lambda>GatheringName.
     bindS (required r ''organization_id'' cborAsText) (\<lambda>OrganizationId.
     bindS (required r ''organization_name'' cborAsText) (\<lambda>OrganizationName.
     bindS (required r ''offered_by'' csilDecUserRef) (\<lambda>OfferedBy.
     bindS (required r ''note'' cborAsText) (\<lambda>Note.
     bindS (required r ''status'' (as_enum GatheringOfferStatus_names)) (\<lambda>Status.
     bindS (required r ''created_at'' csilAsTimestamp) (\<lambda>CreatedAt.
     bindS (optional_field r ''resolved_at'' csilAsTimestamp) (\<lambda>ResolvedAt.
     bindS (required r ''viewer'' csilDecViewerContext) (\<lambda>Viewer.
     Inr \<lparr>GatheringOffer_Id = Id, GatheringOffer_GatheringId = GatheringId, GatheringOffer_GatheringName = GatheringName, GatheringOffer_OrganizationId = OrganizationId,
       GatheringOffer_OrganizationName = OrganizationName, GatheringOffer_OfferedBy = OfferedBy, GatheringOffer_Note = Note, GatheringOffer_Status = Status,
       GatheringOffer_CreatedAt = CreatedAt, GatheringOffer_ResolvedAt = ResolvedAt, GatheringOffer_Viewer = Viewer\<rparr>)))))))))))"

definition GatheringOffer_ok :: "csil_GatheringOffer \<Rightarrow> bool" where
  "GatheringOffer_ok v \<longleftrightarrow> text_ok (GatheringOffer_Id v) \<and> text_ok (GatheringOffer_GatheringId v) \<and> text_ok (GatheringOffer_GatheringName v)
    \<and> text_ok (GatheringOffer_OrganizationId v) \<and> text_ok (GatheringOffer_OrganizationName v) \<and> UserRef_ok (GatheringOffer_OfferedBy v)
    \<and> text_ok (GatheringOffer_Note v) \<and> enum_ok GatheringOfferStatus_names (GatheringOffer_Status v) \<and> time_ok (GatheringOffer_CreatedAt v)
    \<and> pred_option time_ok (GatheringOffer_ResolvedAt v) \<and> ViewerContext_ok (GatheringOffer_Viewer v)"

lemma GatheringOffer_undone: "GatheringOffer_ok v \<Longrightarrow> csilDecGatheringOffer (received (csilEncGatheringOffer v)) = Inr v"
  by (cases v) (simp add: csilEncGatheringOffer_def csilDecGatheringOffer_def GatheringOffer_ok_def codec)

lemma GatheringOffer_sound: "GatheringOffer_ok v \<Longrightarrow> sendable 2 (csilEncGatheringOffer v)"
  unfolding csilEncGatheringOffer_def GatheringOffer_ok_def by (rule sendable_map) (simp_all add: codec)

interpretation GatheringOffer_message: message GatheringOffer_ok csilEncGatheringOffer csilDecGatheringOffer 2
  by unfold_locales (fact GatheringOffer_undone, fact GatheringOffer_sound)

lemmas GatheringOffer_codec [codec] = GatheringOffer_message.undone GatheringOffer_message.behind_pointer GatheringOffer_message.in_slice
  GatheringOffer_message.sent GatheringOffer_message.sent_behind_pointer GatheringOffer_message.sent_in_slice

record csil_OfferGatheringRequest =
  OfferGatheringRequest_GatheringId :: string
  OfferGatheringRequest_OrganizationId :: string
  OfferGatheringRequest_Note :: string

definition csilEncOfferGatheringRequest :: "csil_OfferGatheringRequest \<Rightarrow> csil_value" where
  "csilEncOfferGatheringRequest v = pMap (concat [
     entry ''note'' (pText (OfferGatheringRequest_Note v)),
     entry ''gathering_id'' (pText (OfferGatheringRequest_GatheringId v)),
     entry ''organization_id'' (pText (OfferGatheringRequest_OrganizationId v))])"

definition csilDecOfferGatheringRequest :: "csil_value \<Rightarrow> csil_error + csil_OfferGatheringRequest" where
  "csilDecOfferGatheringRequest r =
     bindS (required r ''gathering_id'' cborAsText) (\<lambda>GatheringId.
     bindS (required r ''organization_id'' cborAsText) (\<lambda>OrganizationId.
     bindS (required r ''note'' cborAsText) (\<lambda>Note.
     Inr \<lparr>OfferGatheringRequest_GatheringId = GatheringId, OfferGatheringRequest_OrganizationId = OrganizationId, OfferGatheringRequest_Note = Note\<rparr>)))"

definition OfferGatheringRequest_ok :: "csil_OfferGatheringRequest \<Rightarrow> bool" where
  "OfferGatheringRequest_ok v \<longleftrightarrow> text_ok (OfferGatheringRequest_GatheringId v) \<and> text_ok (OfferGatheringRequest_OrganizationId v) \<and> text_ok (OfferGatheringRequest_Note v)"

lemma OfferGatheringRequest_undone: "OfferGatheringRequest_ok v \<Longrightarrow> csilDecOfferGatheringRequest (received (csilEncOfferGatheringRequest v)) = Inr v"
  by (cases v) (simp add: csilEncOfferGatheringRequest_def csilDecOfferGatheringRequest_def OfferGatheringRequest_ok_def codec)

lemma OfferGatheringRequest_sound: "OfferGatheringRequest_ok v \<Longrightarrow> sendable 1 (csilEncOfferGatheringRequest v)"
  unfolding csilEncOfferGatheringRequest_def OfferGatheringRequest_ok_def by (rule sendable_map) (simp_all add: codec)

interpretation OfferGatheringRequest_message: message OfferGatheringRequest_ok csilEncOfferGatheringRequest csilDecOfferGatheringRequest 1
  by unfold_locales (fact OfferGatheringRequest_undone, fact OfferGatheringRequest_sound)

record csil_ListGatheringOffersRequest =
  ListGatheringOffersRequest_OrganizationId :: "string option"
  ListGatheringOffersRequest_GatheringId :: "string option"
  ListGatheringOffersRequest_IncludeResolved :: "bool option"

definition csilEncListGatheringOffersRequest :: "csil_ListGatheringOffersRequest \<Rightarrow> csil_value" where
  "csilEncListGatheringOffersRequest v = pMap (concat [
     opt_entry ''gathering_id'' pText (ListGatheringOffersRequest_GatheringId v),
     opt_entry ''organization_id'' pText (ListGatheringOffersRequest_OrganizationId v),
     opt_entry ''include_resolved'' pBool (ListGatheringOffersRequest_IncludeResolved v)])"

definition csilDecListGatheringOffersRequest :: "csil_value \<Rightarrow> csil_error + csil_ListGatheringOffersRequest" where
  "csilDecListGatheringOffersRequest r =
     bindS (optional_field r ''organization_id'' cborAsText) (\<lambda>OrganizationId.
     bindS (optional_field r ''gathering_id'' cborAsText) (\<lambda>GatheringId.
     bindS (optional_field r ''include_resolved'' cborAsBool) (\<lambda>IncludeResolved.
     Inr \<lparr>ListGatheringOffersRequest_OrganizationId = OrganizationId, ListGatheringOffersRequest_GatheringId = GatheringId, ListGatheringOffersRequest_IncludeResolved = IncludeResolved\<rparr>)))"

definition ListGatheringOffersRequest_ok :: "csil_ListGatheringOffersRequest \<Rightarrow> bool" where
  "ListGatheringOffersRequest_ok v \<longleftrightarrow> pred_option text_ok (ListGatheringOffersRequest_OrganizationId v) \<and> pred_option text_ok (ListGatheringOffersRequest_GatheringId v)"

lemma ListGatheringOffersRequest_undone: "ListGatheringOffersRequest_ok v \<Longrightarrow> csilDecListGatheringOffersRequest (received (csilEncListGatheringOffersRequest v)) = Inr v"
  by (cases v) (simp add: csilEncListGatheringOffersRequest_def csilDecListGatheringOffersRequest_def ListGatheringOffersRequest_ok_def codec)

lemma ListGatheringOffersRequest_sound: "ListGatheringOffersRequest_ok v \<Longrightarrow> sendable 1 (csilEncListGatheringOffersRequest v)"
  unfolding csilEncListGatheringOffersRequest_def ListGatheringOffersRequest_ok_def by (rule sendable_map) (simp_all add: codec)

interpretation ListGatheringOffersRequest_message: message ListGatheringOffersRequest_ok csilEncListGatheringOffersRequest csilDecListGatheringOffersRequest 1
  by unfold_locales (fact ListGatheringOffersRequest_undone, fact ListGatheringOffersRequest_sound)

record csil_GatheringOfferList =
  GatheringOfferList_Offers :: "csil_GatheringOffer list"
  GatheringOfferList_Total :: "64 word"

definition csilEncGatheringOfferList :: "csil_GatheringOfferList \<Rightarrow> csil_value" where
  "csilEncGatheringOfferList v = pMap (concat [
     entry ''total'' (pUint (GatheringOfferList_Total v)),
     entry ''offers'' (cborEncArray csilEncGatheringOffer (GatheringOfferList_Offers v))])"

definition csilDecGatheringOfferList :: "csil_value \<Rightarrow> csil_error + csil_GatheringOfferList" where
  "csilDecGatheringOfferList r =
     bindS (required r ''offers'' (cborDecArray csilDecGatheringOffer)) (\<lambda>Offers.
     bindS (required r ''total'' cborAsU64) (\<lambda>Total.
     Inr \<lparr>GatheringOfferList_Offers = Offers, GatheringOfferList_Total = Total\<rparr>))"

definition GatheringOfferList_ok :: "csil_GatheringOfferList \<Rightarrow> bool" where
  "GatheringOfferList_ok v \<longleftrightarrow> list_ok GatheringOffer_ok (GatheringOfferList_Offers v)"

lemma GatheringOfferList_undone: "GatheringOfferList_ok v \<Longrightarrow> csilDecGatheringOfferList (received (csilEncGatheringOfferList v)) = Inr v"
  by (cases v) (simp add: csilEncGatheringOfferList_def csilDecGatheringOfferList_def GatheringOfferList_ok_def codec)

lemma GatheringOfferList_sound: "GatheringOfferList_ok v \<Longrightarrow> sendable 4 (csilEncGatheringOfferList v)"
  unfolding csilEncGatheringOfferList_def GatheringOfferList_ok_def by (rule sendable_map) (simp_all add: codec)

interpretation GatheringOfferList_message: message GatheringOfferList_ok csilEncGatheringOfferList csilDecGatheringOfferList 4
  by unfold_locales (fact GatheringOfferList_undone, fact GatheringOfferList_sound)

record csil_RespondToGatheringOfferRequest =
  RespondToGatheringOfferRequest_OfferId :: string
  RespondToGatheringOfferRequest_Accept :: bool

definition csilEncRespondToGatheringOfferRequest :: "csil_RespondToGatheringOfferRequest \<Rightarrow> csil_value" where
  "csilEncRespondToGatheringOfferRequest v = pMap (concat [
     entry ''accept'' (pBool (RespondToGatheringOfferRequest_Accept v)),
     entry ''offer_id'' (pText (RespondToGatheringOfferRequest_OfferId v))])"

definition csilDecRespondToGatheringOfferRequest :: "csil_value \<Rightarrow> csil_error + csil_RespondToGatheringOfferRequest" where
  "csilDecRespondToGatheringOfferRequest r =
     bindS (required r ''offer_id'' cborAsText) (\<lambda>OfferId.
     bindS (required r ''accept'' cborAsBool) (\<lambda>Accept.
     Inr \<lparr>RespondToGatheringOfferRequest_OfferId = OfferId, RespondToGatheringOfferRequest_Accept = Accept\<rparr>))"

definition RespondToGatheringOfferRequest_ok :: "csil_RespondToGatheringOfferRequest \<Rightarrow> bool" where
  "RespondToGatheringOfferRequest_ok v \<longleftrightarrow> text_ok (RespondToGatheringOfferRequest_OfferId v)"

lemma RespondToGatheringOfferRequest_undone: "RespondToGatheringOfferRequest_ok v \<Longrightarrow> csilDecRespondToGatheringOfferRequest (received (csilEncRespondToGatheringOfferRequest v)) = Inr v"
  by (cases v) (simp add: csilEncRespondToGatheringOfferRequest_def csilDecRespondToGatheringOfferRequest_def RespondToGatheringOfferRequest_ok_def codec)

lemma RespondToGatheringOfferRequest_sound: "RespondToGatheringOfferRequest_ok v \<Longrightarrow> sendable 1 (csilEncRespondToGatheringOfferRequest v)"
  unfolding csilEncRespondToGatheringOfferRequest_def RespondToGatheringOfferRequest_ok_def by (rule sendable_map) (simp_all add: codec)

interpretation RespondToGatheringOfferRequest_message: message RespondToGatheringOfferRequest_ok csilEncRespondToGatheringOfferRequest csilDecRespondToGatheringOfferRequest 1
  by unfold_locales (fact RespondToGatheringOfferRequest_undone, fact RespondToGatheringOfferRequest_sound)

record csil_WithdrawGatheringOfferRequest =
  WithdrawGatheringOfferRequest_OfferId :: string

definition csilEncWithdrawGatheringOfferRequest :: "csil_WithdrawGatheringOfferRequest \<Rightarrow> csil_value" where
  "csilEncWithdrawGatheringOfferRequest v = pMap (concat [
     entry ''offer_id'' (pText (WithdrawGatheringOfferRequest_OfferId v))])"

definition csilDecWithdrawGatheringOfferRequest :: "csil_value \<Rightarrow> csil_error + csil_WithdrawGatheringOfferRequest" where
  "csilDecWithdrawGatheringOfferRequest r =
     bindS (required r ''offer_id'' cborAsText) (\<lambda>OfferId.
     Inr \<lparr>WithdrawGatheringOfferRequest_OfferId = OfferId\<rparr>)"

definition WithdrawGatheringOfferRequest_ok :: "csil_WithdrawGatheringOfferRequest \<Rightarrow> bool" where
  "WithdrawGatheringOfferRequest_ok v \<longleftrightarrow> text_ok (WithdrawGatheringOfferRequest_OfferId v)"

lemma WithdrawGatheringOfferRequest_undone: "WithdrawGatheringOfferRequest_ok v \<Longrightarrow> csilDecWithdrawGatheringOfferRequest (received (csilEncWithdrawGatheringOfferRequest v)) = Inr v"
  by (cases v) (simp add: csilEncWithdrawGatheringOfferRequest_def csilDecWithdrawGatheringOfferRequest_def WithdrawGatheringOfferRequest_ok_def codec)

lemma WithdrawGatheringOfferRequest_sound: "WithdrawGatheringOfferRequest_ok v \<Longrightarrow> sendable 1 (csilEncWithdrawGatheringOfferRequest v)"
  unfolding csilEncWithdrawGatheringOfferRequest_def WithdrawGatheringOfferRequest_ok_def by (rule sendable_map) (simp_all add: codec)

interpretation WithdrawGatheringOfferRequest_message: message WithdrawGatheringOfferRequest_ok csilEncWithdrawGatheringOfferRequest csilDecWithdrawGatheringOfferRequest 1
  by unfold_locales (fact WithdrawGatheringOfferRequest_undone, fact WithdrawGatheringOfferRequest_sound)

record csil_AdoptGatheringRequest =
  AdoptGatheringRequest_GatheringId :: string
  AdoptGatheringRequest_OrganizationId :: string

definition csilEncAdoptGatheringRequest :: "csil_AdoptGatheringRequest \<Rightarrow> csil_value" where
  "csilEncAdoptGatheringRequest v = pMap (concat [
     entry ''gathering_id'' (pText (AdoptGatheringRequest_GatheringId v)),
     entry ''organization_id'' (pText (AdoptGatheringRequest_OrganizationId v))])"

definition csilDecAdoptGatheringRequest :: "csil_value \<Rightarrow> csil_error + csil_AdoptGatheringRequest" where
  "csilDecAdoptGatheringRequest r =
     bindS (required r ''gathering_id'' cborAsText) (\<lambda>GatheringId.
     bindS (required r ''organization_id'' cborAsText) (\<lambda>OrganizationId.
     Inr \<lparr>AdoptGatheringRequest_GatheringId = GatheringId, AdoptGatheringRequest_OrganizationId = OrganizationId\<rparr>))"

definition AdoptGatheringRequest_ok :: "csil_AdoptGatheringRequest \<Rightarrow> bool" where
  "AdoptGatheringRequest_ok v \<longleftrightarrow> text_ok (AdoptGatheringRequest_GatheringId v) \<and> text_ok (AdoptGatheringRequest_OrganizationId v)"

lemma AdoptGatheringRequest_undone: "AdoptGatheringRequest_ok v \<Longrightarrow> csilDecAdoptGatheringRequest (received (csilEncAdoptGatheringRequest v)) = Inr v"
  by (cases v) (simp add: csilEncAdoptGatheringRequest_def csilDecAdoptGatheringRequest_def AdoptGatheringRequest_ok_def codec)

lemma AdoptGatheringRequest_sound: "AdoptGatheringRequest_ok v \<Longrightarrow> sendable 1 (csilEncAdoptGatheringRequest v)"
  unfolding csilEncAdoptGatheringRequest_def AdoptGatheringRequest_ok_def by (rule sendable_map) (simp_all add: codec)

interpretation AdoptGatheringRequest_message: message AdoptGatheringRequest_ok csilEncAdoptGatheringRequest csilDecAdoptGatheringRequest 1
  by unfold_locales (fact AdoptGatheringRequest_undone, fact AdoptGatheringRequest_sound)

end
