(* ===== verification/CodecSeries.thy ===== *)
theory CodecSeries
  imports CodecCommon CodecEvents
begin

text \<open>
  The messages of \<open>csil/codec.gen.go\<close> and \<open>csil/types.gen.go\<close>: series and their rules.  A struct is a record, its
  encoder the entries in the order of the wire, its decoder the fields in the order of the schema; each
  is an interpretation of the contract \<open>message\<close> with the deepest nesting it can have.
\<close>

definition RecurrenceFreq_names :: "string list" where
  "RecurrenceFreq_names = [''weekly'', ''monthly'', ''quarterly'', ''yearly'']"

interpretation RecurrenceFreq_value: message "enum_ok RecurrenceFreq_names" pText "as_enum RecurrenceFreq_names" 0
  by (rule enum_message)

lemmas RecurrenceFreq_codec [codec] = RecurrenceFreq_value.undone [simplified] RecurrenceFreq_value.behind_pointer [simplified] RecurrenceFreq_value.in_slice [simplified]
  RecurrenceFreq_value.sent [simplified] RecurrenceFreq_value.sent_behind_pointer [simplified] RecurrenceFreq_value.sent_in_slice

definition Weekday_names :: "string list" where
  "Weekday_names = [''monday'', ''tuesday'', ''wednesday'', ''thursday'', ''friday'', ''saturday'', ''sunday'']"

interpretation Weekday_value: message "enum_ok Weekday_names" pText "as_enum Weekday_names" 0
  by (rule enum_message)

lemmas Weekday_codec [codec] = Weekday_value.undone [simplified] Weekday_value.behind_pointer [simplified] Weekday_value.in_slice [simplified]
  Weekday_value.sent [simplified] Weekday_value.sent_behind_pointer [simplified] Weekday_value.sent_in_slice

record csil_RecurrenceRule =
  RecurrenceRule_Freq :: string
  RecurrenceRule_Interval :: "64 word"
  RecurrenceRule_Weekday :: "string option"
  RecurrenceRule_Ordinal :: "64 word option"
  RecurrenceRule_DayOfMonth :: "64 word option"

definition csilEncRecurrenceRule :: "csil_RecurrenceRule \<Rightarrow> csil_value" where
  "csilEncRecurrenceRule v = pMap (concat [
     entry ''freq'' (pText (RecurrenceRule_Freq v)),
     opt_entry ''ordinal'' pInt (RecurrenceRule_Ordinal v),
     opt_entry ''weekday'' pText (RecurrenceRule_Weekday v),
     entry ''interval'' (pUint (RecurrenceRule_Interval v)),
     opt_entry ''day_of_month'' pUint (RecurrenceRule_DayOfMonth v)])"

definition csilDecRecurrenceRule :: "csil_value \<Rightarrow> csil_error + csil_RecurrenceRule" where
  "csilDecRecurrenceRule r =
     bindS (required r ''freq'' (as_enum RecurrenceFreq_names)) (\<lambda>Freq.
     bindS (required r ''interval'' cborAsU64) (\<lambda>Interval.
     bindS (optional_field r ''weekday'' (as_enum Weekday_names)) (\<lambda>Weekday.
     bindS (optional_field r ''ordinal'' cborAsI64) (\<lambda>Ordinal.
     bindS (optional_field r ''day_of_month'' cborAsU64) (\<lambda>DayOfMonth.
     Inr \<lparr>RecurrenceRule_Freq = Freq, RecurrenceRule_Interval = Interval, RecurrenceRule_Weekday = Weekday, RecurrenceRule_Ordinal = Ordinal,
       RecurrenceRule_DayOfMonth = DayOfMonth\<rparr>)))))"

definition RecurrenceRule_ok :: "csil_RecurrenceRule \<Rightarrow> bool" where
  "RecurrenceRule_ok v \<longleftrightarrow> enum_ok RecurrenceFreq_names (RecurrenceRule_Freq v) \<and> pred_option (enum_ok Weekday_names) (RecurrenceRule_Weekday v)"

lemma RecurrenceRule_undone: "RecurrenceRule_ok v \<Longrightarrow> csilDecRecurrenceRule (received (csilEncRecurrenceRule v)) = Inr v"
  by (cases v) (simp add: csilEncRecurrenceRule_def csilDecRecurrenceRule_def RecurrenceRule_ok_def codec)

lemma RecurrenceRule_sound: "RecurrenceRule_ok v \<Longrightarrow> sendable 1 (csilEncRecurrenceRule v)"
  unfolding csilEncRecurrenceRule_def RecurrenceRule_ok_def by (rule sendable_map) (simp_all add: codec)

interpretation RecurrenceRule_message: message RecurrenceRule_ok csilEncRecurrenceRule csilDecRecurrenceRule 1
  by unfold_locales (fact RecurrenceRule_undone, fact RecurrenceRule_sound)

lemmas RecurrenceRule_codec [codec] = RecurrenceRule_message.undone RecurrenceRule_message.behind_pointer RecurrenceRule_message.in_slice
  RecurrenceRule_message.sent RecurrenceRule_message.sent_behind_pointer RecurrenceRule_message.sent_in_slice

record csil_EventSeries =
  EventSeries_Id :: string
  EventSeries_GatheringId :: string
  EventSeries_Title :: string
  EventSeries_Description :: string
  EventSeries_IsOnline :: bool
  EventSeries_IsInPerson :: bool
  EventSeries_OnlineUrl :: "string option"
  EventSeries_Location :: "csil_Location option"
  EventSeries_Recurrence :: csil_RecurrenceRule
  EventSeries_StartsOn :: instant
  EventSeries_EndsOn :: "instant option"
  EventSeries_StartTime :: string
  EventSeries_DurationMinutes :: "64 word"
  EventSeries_Timezone :: string
  EventSeries_OccurrenceCount :: "64 word"
  EventSeries_NextOccurrenceAt :: "instant option"
  EventSeries_Origin :: csil_Origin
  EventSeries_Viewer :: csil_ViewerContext
  EventSeries_CreatedAt :: instant
  EventSeries_UpdatedAt :: instant

definition csilEncEventSeries :: "csil_EventSeries \<Rightarrow> csil_value" where
  "csilEncEventSeries v = pMap (concat [
     entry ''id'' (pText (EventSeries_Id v)),
     entry ''title'' (pText (EventSeries_Title v)),
     entry ''origin'' (csilEncOrigin (EventSeries_Origin v)),
     entry ''viewer'' (csilEncViewerContext (EventSeries_Viewer v)),
     opt_entry ''ends_on'' csilEncTimestamp (EventSeries_EndsOn v),
     opt_entry ''location'' csilEncLocation (EventSeries_Location v),
     entry ''timezone'' (pText (EventSeries_Timezone v)),
     entry ''is_online'' (pBool (EventSeries_IsOnline v)),
     entry ''starts_on'' (csilEncTimestamp (EventSeries_StartsOn v)),
     entry ''created_at'' (csilEncTimestamp (EventSeries_CreatedAt v)),
     opt_entry ''online_url'' pText (EventSeries_OnlineUrl v),
     entry ''recurrence'' (csilEncRecurrenceRule (EventSeries_Recurrence v)),
     entry ''start_time'' (pText (EventSeries_StartTime v)),
     entry ''updated_at'' (csilEncTimestamp (EventSeries_UpdatedAt v)),
     entry ''description'' (pText (EventSeries_Description v)),
     entry ''gathering_id'' (pText (EventSeries_GatheringId v)),
     entry ''is_in_person'' (pBool (EventSeries_IsInPerson v)),
     entry ''duration_minutes'' (pUint (EventSeries_DurationMinutes v)),
     entry ''occurrence_count'' (pUint (EventSeries_OccurrenceCount v)),
     opt_entry ''next_occurrence_at'' csilEncTimestamp (EventSeries_NextOccurrenceAt v)])"

definition csilDecEventSeries :: "csil_value \<Rightarrow> csil_error + csil_EventSeries" where
  "csilDecEventSeries r =
     bindS (required r ''id'' cborAsText) (\<lambda>Id.
     bindS (required r ''gathering_id'' cborAsText) (\<lambda>GatheringId.
     bindS (required r ''title'' cborAsText) (\<lambda>Title.
     bindS (required r ''description'' cborAsText) (\<lambda>Description.
     bindS (required r ''is_online'' cborAsBool) (\<lambda>IsOnline.
     bindS (required r ''is_in_person'' cborAsBool) (\<lambda>IsInPerson.
     bindS (optional_field r ''online_url'' cborAsText) (\<lambda>OnlineUrl.
     bindS (optional_field r ''location'' csilDecLocation) (\<lambda>Location.
     bindS (required r ''recurrence'' csilDecRecurrenceRule) (\<lambda>Recurrence.
     bindS (required r ''starts_on'' csilAsTimestamp) (\<lambda>StartsOn.
     bindS (optional_field r ''ends_on'' csilAsTimestamp) (\<lambda>EndsOn.
     bindS (required r ''start_time'' cborAsText) (\<lambda>StartTime.
     bindS (required r ''duration_minutes'' cborAsU64) (\<lambda>DurationMinutes.
     bindS (required r ''timezone'' cborAsText) (\<lambda>Timezone.
     bindS (required r ''occurrence_count'' cborAsU64) (\<lambda>OccurrenceCount.
     bindS (optional_field r ''next_occurrence_at'' csilAsTimestamp) (\<lambda>NextOccurrenceAt.
     bindS (required r ''origin'' csilDecOrigin) (\<lambda>Origin.
     bindS (required r ''viewer'' csilDecViewerContext) (\<lambda>Viewer.
     bindS (required r ''created_at'' csilAsTimestamp) (\<lambda>CreatedAt.
     bindS (required r ''updated_at'' csilAsTimestamp) (\<lambda>UpdatedAt.
     Inr \<lparr>EventSeries_Id = Id, EventSeries_GatheringId = GatheringId, EventSeries_Title = Title, EventSeries_Description = Description,
       EventSeries_IsOnline = IsOnline, EventSeries_IsInPerson = IsInPerson, EventSeries_OnlineUrl = OnlineUrl, EventSeries_Location = Location,
       EventSeries_Recurrence = Recurrence, EventSeries_StartsOn = StartsOn, EventSeries_EndsOn = EndsOn, EventSeries_StartTime = StartTime,
       EventSeries_DurationMinutes = DurationMinutes, EventSeries_Timezone = Timezone, EventSeries_OccurrenceCount = OccurrenceCount, EventSeries_NextOccurrenceAt = NextOccurrenceAt,
       EventSeries_Origin = Origin, EventSeries_Viewer = Viewer, EventSeries_CreatedAt = CreatedAt, EventSeries_UpdatedAt = UpdatedAt\<rparr>))))))))))))))))))))"

definition EventSeries_ok :: "csil_EventSeries \<Rightarrow> bool" where
  "EventSeries_ok v \<longleftrightarrow> text_ok (EventSeries_Id v) \<and> text_ok (EventSeries_GatheringId v) \<and> text_ok (EventSeries_Title v)
    \<and> text_ok (EventSeries_Description v) \<and> pred_option text_ok (EventSeries_OnlineUrl v) \<and> pred_option Location_ok (EventSeries_Location v)
    \<and> RecurrenceRule_ok (EventSeries_Recurrence v) \<and> time_ok (EventSeries_StartsOn v) \<and> pred_option time_ok (EventSeries_EndsOn v)
    \<and> text_ok (EventSeries_StartTime v) \<and> text_ok (EventSeries_Timezone v) \<and> pred_option time_ok (EventSeries_NextOccurrenceAt v)
    \<and> Origin_ok (EventSeries_Origin v) \<and> ViewerContext_ok (EventSeries_Viewer v) \<and> time_ok (EventSeries_CreatedAt v)
    \<and> time_ok (EventSeries_UpdatedAt v)"

lemma EventSeries_undone: "EventSeries_ok v \<Longrightarrow> csilDecEventSeries (received (csilEncEventSeries v)) = Inr v"
  by (cases v) (simp add: csilEncEventSeries_def csilDecEventSeries_def EventSeries_ok_def codec)

lemma EventSeries_sound: "EventSeries_ok v \<Longrightarrow> sendable 2 (csilEncEventSeries v)"
  unfolding csilEncEventSeries_def EventSeries_ok_def by (rule sendable_map) (simp_all add: codec)

interpretation EventSeries_message: message EventSeries_ok csilEncEventSeries csilDecEventSeries 2
  by unfold_locales (fact EventSeries_undone, fact EventSeries_sound)

lemmas EventSeries_codec [codec] = EventSeries_message.undone EventSeries_message.behind_pointer EventSeries_message.in_slice
  EventSeries_message.sent EventSeries_message.sent_behind_pointer EventSeries_message.sent_in_slice

record csil_CreateEventSeriesRequest =
  CreateEventSeriesRequest_GatheringId :: string
  CreateEventSeriesRequest_Title :: string
  CreateEventSeriesRequest_Description :: string
  CreateEventSeriesRequest_IsOnline :: bool
  CreateEventSeriesRequest_IsInPerson :: bool
  CreateEventSeriesRequest_OnlineUrl :: "string option"
  CreateEventSeriesRequest_Location :: "csil_Location option"
  CreateEventSeriesRequest_Recurrence :: csil_RecurrenceRule
  CreateEventSeriesRequest_StartsOn :: instant
  CreateEventSeriesRequest_EndsOn :: "instant option"
  CreateEventSeriesRequest_StartTime :: string
  CreateEventSeriesRequest_DurationMinutes :: "64 word"
  CreateEventSeriesRequest_Timezone :: string

definition csilEncCreateEventSeriesRequest :: "csil_CreateEventSeriesRequest \<Rightarrow> csil_value" where
  "csilEncCreateEventSeriesRequest v = pMap (concat [
     entry ''title'' (pText (CreateEventSeriesRequest_Title v)),
     opt_entry ''ends_on'' csilEncTimestamp (CreateEventSeriesRequest_EndsOn v),
     opt_entry ''location'' csilEncLocation (CreateEventSeriesRequest_Location v),
     entry ''timezone'' (pText (CreateEventSeriesRequest_Timezone v)),
     entry ''is_online'' (pBool (CreateEventSeriesRequest_IsOnline v)),
     entry ''starts_on'' (csilEncTimestamp (CreateEventSeriesRequest_StartsOn v)),
     opt_entry ''online_url'' pText (CreateEventSeriesRequest_OnlineUrl v),
     entry ''recurrence'' (csilEncRecurrenceRule (CreateEventSeriesRequest_Recurrence v)),
     entry ''start_time'' (pText (CreateEventSeriesRequest_StartTime v)),
     entry ''description'' (pText (CreateEventSeriesRequest_Description v)),
     entry ''gathering_id'' (pText (CreateEventSeriesRequest_GatheringId v)),
     entry ''is_in_person'' (pBool (CreateEventSeriesRequest_IsInPerson v)),
     entry ''duration_minutes'' (pUint (CreateEventSeriesRequest_DurationMinutes v))])"

definition csilDecCreateEventSeriesRequest :: "csil_value \<Rightarrow> csil_error + csil_CreateEventSeriesRequest" where
  "csilDecCreateEventSeriesRequest r =
     bindS (required r ''gathering_id'' cborAsText) (\<lambda>GatheringId.
     bindS (required r ''title'' cborAsText) (\<lambda>Title.
     bindS (required r ''description'' cborAsText) (\<lambda>Description.
     bindS (required r ''is_online'' cborAsBool) (\<lambda>IsOnline.
     bindS (required r ''is_in_person'' cborAsBool) (\<lambda>IsInPerson.
     bindS (optional_field r ''online_url'' cborAsText) (\<lambda>OnlineUrl.
     bindS (optional_field r ''location'' csilDecLocation) (\<lambda>Location.
     bindS (required r ''recurrence'' csilDecRecurrenceRule) (\<lambda>Recurrence.
     bindS (required r ''starts_on'' csilAsTimestamp) (\<lambda>StartsOn.
     bindS (optional_field r ''ends_on'' csilAsTimestamp) (\<lambda>EndsOn.
     bindS (required r ''start_time'' cborAsText) (\<lambda>StartTime.
     bindS (required r ''duration_minutes'' cborAsU64) (\<lambda>DurationMinutes.
     bindS (required r ''timezone'' cborAsText) (\<lambda>Timezone.
     Inr \<lparr>CreateEventSeriesRequest_GatheringId = GatheringId, CreateEventSeriesRequest_Title = Title, CreateEventSeriesRequest_Description = Description, CreateEventSeriesRequest_IsOnline = IsOnline,
       CreateEventSeriesRequest_IsInPerson = IsInPerson, CreateEventSeriesRequest_OnlineUrl = OnlineUrl, CreateEventSeriesRequest_Location = Location, CreateEventSeriesRequest_Recurrence = Recurrence,
       CreateEventSeriesRequest_StartsOn = StartsOn, CreateEventSeriesRequest_EndsOn = EndsOn, CreateEventSeriesRequest_StartTime = StartTime, CreateEventSeriesRequest_DurationMinutes = DurationMinutes,
       CreateEventSeriesRequest_Timezone = Timezone\<rparr>)))))))))))))"

definition CreateEventSeriesRequest_ok :: "csil_CreateEventSeriesRequest \<Rightarrow> bool" where
  "CreateEventSeriesRequest_ok v \<longleftrightarrow> text_ok (CreateEventSeriesRequest_GatheringId v) \<and> text_ok (CreateEventSeriesRequest_Title v) \<and> text_ok (CreateEventSeriesRequest_Description v)
    \<and> pred_option text_ok (CreateEventSeriesRequest_OnlineUrl v) \<and> pred_option Location_ok (CreateEventSeriesRequest_Location v) \<and> RecurrenceRule_ok (CreateEventSeriesRequest_Recurrence v)
    \<and> time_ok (CreateEventSeriesRequest_StartsOn v) \<and> pred_option time_ok (CreateEventSeriesRequest_EndsOn v) \<and> text_ok (CreateEventSeriesRequest_StartTime v)
    \<and> text_ok (CreateEventSeriesRequest_Timezone v)"

lemma CreateEventSeriesRequest_undone: "CreateEventSeriesRequest_ok v \<Longrightarrow> csilDecCreateEventSeriesRequest (received (csilEncCreateEventSeriesRequest v)) = Inr v"
  by (cases v) (simp add: csilEncCreateEventSeriesRequest_def csilDecCreateEventSeriesRequest_def CreateEventSeriesRequest_ok_def codec)

lemma CreateEventSeriesRequest_sound: "CreateEventSeriesRequest_ok v \<Longrightarrow> sendable 2 (csilEncCreateEventSeriesRequest v)"
  unfolding csilEncCreateEventSeriesRequest_def CreateEventSeriesRequest_ok_def by (rule sendable_map) (simp_all add: codec)

interpretation CreateEventSeriesRequest_message: message CreateEventSeriesRequest_ok csilEncCreateEventSeriesRequest csilDecCreateEventSeriesRequest 2
  by unfold_locales (fact CreateEventSeriesRequest_undone, fact CreateEventSeriesRequest_sound)

record csil_UpdateEventSeriesRequest =
  UpdateEventSeriesRequest_Id :: string
  UpdateEventSeriesRequest_Title :: "string option"
  UpdateEventSeriesRequest_Description :: "string option"
  UpdateEventSeriesRequest_IsOnline :: "bool option"
  UpdateEventSeriesRequest_IsInPerson :: "bool option"
  UpdateEventSeriesRequest_OnlineUrl :: "string option"
  UpdateEventSeriesRequest_Location :: "csil_Location option"
  UpdateEventSeriesRequest_Recurrence :: "csil_RecurrenceRule option"
  UpdateEventSeriesRequest_StartsOn :: "instant option"
  UpdateEventSeriesRequest_EndsOn :: "instant option"
  UpdateEventSeriesRequest_StartTime :: "string option"
  UpdateEventSeriesRequest_DurationMinutes :: "64 word option"
  UpdateEventSeriesRequest_Timezone :: "string option"

definition csilEncUpdateEventSeriesRequest :: "csil_UpdateEventSeriesRequest \<Rightarrow> csil_value" where
  "csilEncUpdateEventSeriesRequest v = pMap (concat [
     entry ''id'' (pText (UpdateEventSeriesRequest_Id v)),
     opt_entry ''title'' pText (UpdateEventSeriesRequest_Title v),
     opt_entry ''ends_on'' csilEncTimestamp (UpdateEventSeriesRequest_EndsOn v),
     opt_entry ''location'' csilEncLocation (UpdateEventSeriesRequest_Location v),
     opt_entry ''timezone'' pText (UpdateEventSeriesRequest_Timezone v),
     opt_entry ''is_online'' pBool (UpdateEventSeriesRequest_IsOnline v),
     opt_entry ''starts_on'' csilEncTimestamp (UpdateEventSeriesRequest_StartsOn v),
     opt_entry ''online_url'' pText (UpdateEventSeriesRequest_OnlineUrl v),
     opt_entry ''recurrence'' csilEncRecurrenceRule (UpdateEventSeriesRequest_Recurrence v),
     opt_entry ''start_time'' pText (UpdateEventSeriesRequest_StartTime v),
     opt_entry ''description'' pText (UpdateEventSeriesRequest_Description v),
     opt_entry ''is_in_person'' pBool (UpdateEventSeriesRequest_IsInPerson v),
     opt_entry ''duration_minutes'' pUint (UpdateEventSeriesRequest_DurationMinutes v)])"

definition csilDecUpdateEventSeriesRequest :: "csil_value \<Rightarrow> csil_error + csil_UpdateEventSeriesRequest" where
  "csilDecUpdateEventSeriesRequest r =
     bindS (required r ''id'' cborAsText) (\<lambda>Id.
     bindS (optional_field r ''title'' cborAsText) (\<lambda>Title.
     bindS (optional_field r ''description'' cborAsText) (\<lambda>Description.
     bindS (optional_field r ''is_online'' cborAsBool) (\<lambda>IsOnline.
     bindS (optional_field r ''is_in_person'' cborAsBool) (\<lambda>IsInPerson.
     bindS (optional_field r ''online_url'' cborAsText) (\<lambda>OnlineUrl.
     bindS (optional_field r ''location'' csilDecLocation) (\<lambda>Location.
     bindS (optional_field r ''recurrence'' csilDecRecurrenceRule) (\<lambda>Recurrence.
     bindS (optional_field r ''starts_on'' csilAsTimestamp) (\<lambda>StartsOn.
     bindS (optional_field r ''ends_on'' csilAsTimestamp) (\<lambda>EndsOn.
     bindS (optional_field r ''start_time'' cborAsText) (\<lambda>StartTime.
     bindS (optional_field r ''duration_minutes'' cborAsU64) (\<lambda>DurationMinutes.
     bindS (optional_field r ''timezone'' cborAsText) (\<lambda>Timezone.
     Inr \<lparr>UpdateEventSeriesRequest_Id = Id, UpdateEventSeriesRequest_Title = Title, UpdateEventSeriesRequest_Description = Description, UpdateEventSeriesRequest_IsOnline = IsOnline,
       UpdateEventSeriesRequest_IsInPerson = IsInPerson, UpdateEventSeriesRequest_OnlineUrl = OnlineUrl, UpdateEventSeriesRequest_Location = Location, UpdateEventSeriesRequest_Recurrence = Recurrence,
       UpdateEventSeriesRequest_StartsOn = StartsOn, UpdateEventSeriesRequest_EndsOn = EndsOn, UpdateEventSeriesRequest_StartTime = StartTime, UpdateEventSeriesRequest_DurationMinutes = DurationMinutes,
       UpdateEventSeriesRequest_Timezone = Timezone\<rparr>)))))))))))))"

definition UpdateEventSeriesRequest_ok :: "csil_UpdateEventSeriesRequest \<Rightarrow> bool" where
  "UpdateEventSeriesRequest_ok v \<longleftrightarrow> text_ok (UpdateEventSeriesRequest_Id v) \<and> pred_option text_ok (UpdateEventSeriesRequest_Title v) \<and> pred_option text_ok (UpdateEventSeriesRequest_Description v)
    \<and> pred_option text_ok (UpdateEventSeriesRequest_OnlineUrl v) \<and> pred_option Location_ok (UpdateEventSeriesRequest_Location v) \<and> pred_option RecurrenceRule_ok (UpdateEventSeriesRequest_Recurrence v)
    \<and> pred_option time_ok (UpdateEventSeriesRequest_StartsOn v) \<and> pred_option time_ok (UpdateEventSeriesRequest_EndsOn v) \<and> pred_option text_ok (UpdateEventSeriesRequest_StartTime v)
    \<and> pred_option text_ok (UpdateEventSeriesRequest_Timezone v)"

lemma UpdateEventSeriesRequest_undone: "UpdateEventSeriesRequest_ok v \<Longrightarrow> csilDecUpdateEventSeriesRequest (received (csilEncUpdateEventSeriesRequest v)) = Inr v"
  by (cases v) (simp add: csilEncUpdateEventSeriesRequest_def csilDecUpdateEventSeriesRequest_def UpdateEventSeriesRequest_ok_def codec)

lemma UpdateEventSeriesRequest_sound: "UpdateEventSeriesRequest_ok v \<Longrightarrow> sendable 2 (csilEncUpdateEventSeriesRequest v)"
  unfolding csilEncUpdateEventSeriesRequest_def UpdateEventSeriesRequest_ok_def by (rule sendable_map) (simp_all add: codec)

interpretation UpdateEventSeriesRequest_message: message UpdateEventSeriesRequest_ok csilEncUpdateEventSeriesRequest csilDecUpdateEventSeriesRequest 2
  by unfold_locales (fact UpdateEventSeriesRequest_undone, fact UpdateEventSeriesRequest_sound)

record csil_GetEventSeriesRequest =
  GetEventSeriesRequest_Id :: string

definition csilEncGetEventSeriesRequest :: "csil_GetEventSeriesRequest \<Rightarrow> csil_value" where
  "csilEncGetEventSeriesRequest v = pMap (concat [
     entry ''id'' (pText (GetEventSeriesRequest_Id v))])"

definition csilDecGetEventSeriesRequest :: "csil_value \<Rightarrow> csil_error + csil_GetEventSeriesRequest" where
  "csilDecGetEventSeriesRequest r =
     bindS (required r ''id'' cborAsText) (\<lambda>Id.
     Inr \<lparr>GetEventSeriesRequest_Id = Id\<rparr>)"

definition GetEventSeriesRequest_ok :: "csil_GetEventSeriesRequest \<Rightarrow> bool" where
  "GetEventSeriesRequest_ok v \<longleftrightarrow> text_ok (GetEventSeriesRequest_Id v)"

lemma GetEventSeriesRequest_undone: "GetEventSeriesRequest_ok v \<Longrightarrow> csilDecGetEventSeriesRequest (received (csilEncGetEventSeriesRequest v)) = Inr v"
  by (cases v) (simp add: csilEncGetEventSeriesRequest_def csilDecGetEventSeriesRequest_def GetEventSeriesRequest_ok_def codec)

lemma GetEventSeriesRequest_sound: "GetEventSeriesRequest_ok v \<Longrightarrow> sendable 1 (csilEncGetEventSeriesRequest v)"
  unfolding csilEncGetEventSeriesRequest_def GetEventSeriesRequest_ok_def by (rule sendable_map) (simp_all add: codec)

interpretation GetEventSeriesRequest_message: message GetEventSeriesRequest_ok csilEncGetEventSeriesRequest csilDecGetEventSeriesRequest 1
  by unfold_locales (fact GetEventSeriesRequest_undone, fact GetEventSeriesRequest_sound)

record csil_DeleteEventSeriesRequest =
  DeleteEventSeriesRequest_Id :: string

definition csilEncDeleteEventSeriesRequest :: "csil_DeleteEventSeriesRequest \<Rightarrow> csil_value" where
  "csilEncDeleteEventSeriesRequest v = pMap (concat [
     entry ''id'' (pText (DeleteEventSeriesRequest_Id v))])"

definition csilDecDeleteEventSeriesRequest :: "csil_value \<Rightarrow> csil_error + csil_DeleteEventSeriesRequest" where
  "csilDecDeleteEventSeriesRequest r =
     bindS (required r ''id'' cborAsText) (\<lambda>Id.
     Inr \<lparr>DeleteEventSeriesRequest_Id = Id\<rparr>)"

definition DeleteEventSeriesRequest_ok :: "csil_DeleteEventSeriesRequest \<Rightarrow> bool" where
  "DeleteEventSeriesRequest_ok v \<longleftrightarrow> text_ok (DeleteEventSeriesRequest_Id v)"

lemma DeleteEventSeriesRequest_undone: "DeleteEventSeriesRequest_ok v \<Longrightarrow> csilDecDeleteEventSeriesRequest (received (csilEncDeleteEventSeriesRequest v)) = Inr v"
  by (cases v) (simp add: csilEncDeleteEventSeriesRequest_def csilDecDeleteEventSeriesRequest_def DeleteEventSeriesRequest_ok_def codec)

lemma DeleteEventSeriesRequest_sound: "DeleteEventSeriesRequest_ok v \<Longrightarrow> sendable 1 (csilEncDeleteEventSeriesRequest v)"
  unfolding csilEncDeleteEventSeriesRequest_def DeleteEventSeriesRequest_ok_def by (rule sendable_map) (simp_all add: codec)

interpretation DeleteEventSeriesRequest_message: message DeleteEventSeriesRequest_ok csilEncDeleteEventSeriesRequest csilDecDeleteEventSeriesRequest 1
  by unfold_locales (fact DeleteEventSeriesRequest_undone, fact DeleteEventSeriesRequest_sound)

record csil_ListEventSeriesRequest =
  ListEventSeriesRequest_GatheringId :: "string option"
  ListEventSeriesRequest_Page :: "csil_Page option"

definition csilEncListEventSeriesRequest :: "csil_ListEventSeriesRequest \<Rightarrow> csil_value" where
  "csilEncListEventSeriesRequest v = pMap (concat [
     opt_entry ''page'' csilEncPage (ListEventSeriesRequest_Page v),
     opt_entry ''gathering_id'' pText (ListEventSeriesRequest_GatheringId v)])"

definition csilDecListEventSeriesRequest :: "csil_value \<Rightarrow> csil_error + csil_ListEventSeriesRequest" where
  "csilDecListEventSeriesRequest r =
     bindS (optional_field r ''gathering_id'' cborAsText) (\<lambda>GatheringId.
     bindS (optional_field r ''page'' csilDecPage) (\<lambda>Page.
     Inr \<lparr>ListEventSeriesRequest_GatheringId = GatheringId, ListEventSeriesRequest_Page = Page\<rparr>))"

definition ListEventSeriesRequest_ok :: "csil_ListEventSeriesRequest \<Rightarrow> bool" where
  "ListEventSeriesRequest_ok v \<longleftrightarrow> pred_option text_ok (ListEventSeriesRequest_GatheringId v) \<and> pred_option Page_ok (ListEventSeriesRequest_Page v)"

lemma ListEventSeriesRequest_undone: "ListEventSeriesRequest_ok v \<Longrightarrow> csilDecListEventSeriesRequest (received (csilEncListEventSeriesRequest v)) = Inr v"
  by (cases v) (simp add: csilEncListEventSeriesRequest_def csilDecListEventSeriesRequest_def ListEventSeriesRequest_ok_def codec)

lemma ListEventSeriesRequest_sound: "ListEventSeriesRequest_ok v \<Longrightarrow> sendable 2 (csilEncListEventSeriesRequest v)"
  unfolding csilEncListEventSeriesRequest_def ListEventSeriesRequest_ok_def by (rule sendable_map) (simp_all add: codec)

interpretation ListEventSeriesRequest_message: message ListEventSeriesRequest_ok csilEncListEventSeriesRequest csilDecListEventSeriesRequest 2
  by unfold_locales (fact ListEventSeriesRequest_undone, fact ListEventSeriesRequest_sound)

record csil_EventSeriesList =
  EventSeriesList_Series :: "csil_EventSeries list"
  EventSeriesList_Total :: "64 word"

definition csilEncEventSeriesList :: "csil_EventSeriesList \<Rightarrow> csil_value" where
  "csilEncEventSeriesList v = pMap (concat [
     entry ''total'' (pUint (EventSeriesList_Total v)),
     entry ''series'' (cborEncArray csilEncEventSeries (EventSeriesList_Series v))])"

definition csilDecEventSeriesList :: "csil_value \<Rightarrow> csil_error + csil_EventSeriesList" where
  "csilDecEventSeriesList r =
     bindS (required r ''series'' (cborDecArray csilDecEventSeries)) (\<lambda>Series.
     bindS (required r ''total'' cborAsU64) (\<lambda>Total.
     Inr \<lparr>EventSeriesList_Series = Series, EventSeriesList_Total = Total\<rparr>))"

definition EventSeriesList_ok :: "csil_EventSeriesList \<Rightarrow> bool" where
  "EventSeriesList_ok v \<longleftrightarrow> list_ok EventSeries_ok (EventSeriesList_Series v)"

lemma EventSeriesList_undone: "EventSeriesList_ok v \<Longrightarrow> csilDecEventSeriesList (received (csilEncEventSeriesList v)) = Inr v"
  by (cases v) (simp add: csilEncEventSeriesList_def csilDecEventSeriesList_def EventSeriesList_ok_def codec)

lemma EventSeriesList_sound: "EventSeriesList_ok v \<Longrightarrow> sendable 4 (csilEncEventSeriesList v)"
  unfolding csilEncEventSeriesList_def EventSeriesList_ok_def by (rule sendable_map) (simp_all add: codec)

interpretation EventSeriesList_message: message EventSeriesList_ok csilEncEventSeriesList csilDecEventSeriesList 4
  by unfold_locales (fact EventSeriesList_undone, fact EventSeriesList_sound)

record csil_ExpandEventSeriesRequest =
  ExpandEventSeriesRequest_SeriesId :: string
  ExpandEventSeriesRequest_Through :: "instant option"

definition csilEncExpandEventSeriesRequest :: "csil_ExpandEventSeriesRequest \<Rightarrow> csil_value" where
  "csilEncExpandEventSeriesRequest v = pMap (concat [
     opt_entry ''through'' csilEncTimestamp (ExpandEventSeriesRequest_Through v),
     entry ''series_id'' (pText (ExpandEventSeriesRequest_SeriesId v))])"

definition csilDecExpandEventSeriesRequest :: "csil_value \<Rightarrow> csil_error + csil_ExpandEventSeriesRequest" where
  "csilDecExpandEventSeriesRequest r =
     bindS (required r ''series_id'' cborAsText) (\<lambda>SeriesId.
     bindS (optional_field r ''through'' csilAsTimestamp) (\<lambda>Through.
     Inr \<lparr>ExpandEventSeriesRequest_SeriesId = SeriesId, ExpandEventSeriesRequest_Through = Through\<rparr>))"

definition ExpandEventSeriesRequest_ok :: "csil_ExpandEventSeriesRequest \<Rightarrow> bool" where
  "ExpandEventSeriesRequest_ok v \<longleftrightarrow> text_ok (ExpandEventSeriesRequest_SeriesId v) \<and> pred_option time_ok (ExpandEventSeriesRequest_Through v)"

lemma ExpandEventSeriesRequest_undone: "ExpandEventSeriesRequest_ok v \<Longrightarrow> csilDecExpandEventSeriesRequest (received (csilEncExpandEventSeriesRequest v)) = Inr v"
  by (cases v) (simp add: csilEncExpandEventSeriesRequest_def csilDecExpandEventSeriesRequest_def ExpandEventSeriesRequest_ok_def codec)

lemma ExpandEventSeriesRequest_sound: "ExpandEventSeriesRequest_ok v \<Longrightarrow> sendable 2 (csilEncExpandEventSeriesRequest v)"
  unfolding csilEncExpandEventSeriesRequest_def ExpandEventSeriesRequest_ok_def by (rule sendable_map) (simp_all add: codec)

interpretation ExpandEventSeriesRequest_message: message ExpandEventSeriesRequest_ok csilEncExpandEventSeriesRequest csilDecExpandEventSeriesRequest 2
  by unfold_locales (fact ExpandEventSeriesRequest_undone, fact ExpandEventSeriesRequest_sound)

end
