(* ===== verification/CodecGatherings.thy ===== *)
theory CodecGatherings
  imports CodecCommon CodecOrganizations
begin

text \<open>
  The messages of \<open>csil/codec.gen.go\<close> and \<open>csil/types.gen.go\<close>: gatherings, their owners and members.  A struct is a record, its
  encoder the entries in the order of the wire, its decoder the fields in the order of the schema; each
  is an interpretation of the contract \<open>message\<close> with the deepest nesting it can have.
\<close>

definition OwnerKind_names :: "string list" where
  "OwnerKind_names = [''user'', ''organization'']"

interpretation OwnerKind_value: message "enum_ok OwnerKind_names" pText "as_enum OwnerKind_names" 0
  by (rule enum_message)

lemmas OwnerKind_codec [codec] = OwnerKind_value.undone [simplified] OwnerKind_value.behind_pointer [simplified] OwnerKind_value.in_slice [simplified]
  OwnerKind_value.sent [simplified] OwnerKind_value.sent_behind_pointer [simplified] OwnerKind_value.sent_in_slice

record csil_OwnerRef =
  OwnerRef_Kind :: string
  OwnerRef_Id :: string
  OwnerRef_DisplayName :: string
  OwnerRef_Handle :: string
  OwnerRef_OriginDomain :: string

definition csilEncOwnerRef :: "csil_OwnerRef \<Rightarrow> csil_value" where
  "csilEncOwnerRef v = pMap (concat [
     entry ''id'' (pText (OwnerRef_Id v)),
     entry ''kind'' (pText (OwnerRef_Kind v)),
     entry ''handle'' (pText (OwnerRef_Handle v)),
     entry ''display_name'' (pText (OwnerRef_DisplayName v)),
     entry ''origin_domain'' (pText (OwnerRef_OriginDomain v))])"

definition csilDecOwnerRef :: "csil_value \<Rightarrow> csil_error + csil_OwnerRef" where
  "csilDecOwnerRef r =
     bindS (required r ''kind'' (as_enum OwnerKind_names)) (\<lambda>Kind.
     bindS (required r ''id'' cborAsText) (\<lambda>Id.
     bindS (required r ''display_name'' cborAsText) (\<lambda>DisplayName.
     bindS (required r ''handle'' cborAsText) (\<lambda>Handle.
     bindS (required r ''origin_domain'' cborAsText) (\<lambda>OriginDomain.
     Inr \<lparr>OwnerRef_Kind = Kind, OwnerRef_Id = Id, OwnerRef_DisplayName = DisplayName, OwnerRef_Handle = Handle,
       OwnerRef_OriginDomain = OriginDomain\<rparr>)))))"

definition OwnerRef_ok :: "csil_OwnerRef \<Rightarrow> bool" where
  "OwnerRef_ok v \<longleftrightarrow> enum_ok OwnerKind_names (OwnerRef_Kind v) \<and> text_ok (OwnerRef_Id v) \<and> text_ok (OwnerRef_DisplayName v)
    \<and> text_ok (OwnerRef_Handle v) \<and> text_ok (OwnerRef_OriginDomain v)"

lemma OwnerRef_undone: "OwnerRef_ok v \<Longrightarrow> csilDecOwnerRef (received (csilEncOwnerRef v)) = Inr v"
  by (cases v) (simp add: csilEncOwnerRef_def csilDecOwnerRef_def OwnerRef_ok_def codec)

lemma OwnerRef_sound: "OwnerRef_ok v \<Longrightarrow> sendable 1 (csilEncOwnerRef v)"
  unfolding csilEncOwnerRef_def OwnerRef_ok_def by (rule sendable_map) (simp_all add: codec)

interpretation OwnerRef_message: message OwnerRef_ok csilEncOwnerRef csilDecOwnerRef 1
  by unfold_locales (fact OwnerRef_undone, fact OwnerRef_sound)

lemmas OwnerRef_codec [codec] = OwnerRef_message.undone OwnerRef_message.behind_pointer OwnerRef_message.in_slice
  OwnerRef_message.sent OwnerRef_message.sent_behind_pointer OwnerRef_message.sent_in_slice

record csil_OwnerRefInput =
  OwnerRefInput_Kind :: string
  OwnerRefInput_Id :: string

definition csilEncOwnerRefInput :: "csil_OwnerRefInput \<Rightarrow> csil_value" where
  "csilEncOwnerRefInput v = pMap (concat [
     entry ''id'' (pText (OwnerRefInput_Id v)),
     entry ''kind'' (pText (OwnerRefInput_Kind v))])"

definition csilDecOwnerRefInput :: "csil_value \<Rightarrow> csil_error + csil_OwnerRefInput" where
  "csilDecOwnerRefInput r =
     bindS (required r ''kind'' (as_enum OwnerKind_names)) (\<lambda>Kind.
     bindS (required r ''id'' cborAsText) (\<lambda>Id.
     Inr \<lparr>OwnerRefInput_Kind = Kind, OwnerRefInput_Id = Id\<rparr>))"

definition OwnerRefInput_ok :: "csil_OwnerRefInput \<Rightarrow> bool" where
  "OwnerRefInput_ok v \<longleftrightarrow> enum_ok OwnerKind_names (OwnerRefInput_Kind v) \<and> text_ok (OwnerRefInput_Id v)"

lemma OwnerRefInput_undone: "OwnerRefInput_ok v \<Longrightarrow> csilDecOwnerRefInput (received (csilEncOwnerRefInput v)) = Inr v"
  by (cases v) (simp add: csilEncOwnerRefInput_def csilDecOwnerRefInput_def OwnerRefInput_ok_def codec)

lemma OwnerRefInput_sound: "OwnerRefInput_ok v \<Longrightarrow> sendable 1 (csilEncOwnerRefInput v)"
  unfolding csilEncOwnerRefInput_def OwnerRefInput_ok_def by (rule sendable_map) (simp_all add: codec)

interpretation OwnerRefInput_message: message OwnerRefInput_ok csilEncOwnerRefInput csilDecOwnerRefInput 1
  by unfold_locales (fact OwnerRefInput_undone, fact OwnerRefInput_sound)

lemmas OwnerRefInput_codec [codec] = OwnerRefInput_message.undone OwnerRefInput_message.behind_pointer OwnerRefInput_message.in_slice
  OwnerRefInput_message.sent OwnerRefInput_message.sent_behind_pointer OwnerRefInput_message.sent_in_slice

record csil_Gathering =
  Gathering_Id :: string
  Gathering_Slug :: string
  Gathering_OriginDomain :: string
  Gathering_Name :: string
  Gathering_Blurb :: string
  Gathering_Description :: string
  Gathering_Owners :: "csil_OwnerRef list"
  Gathering_MemberCount :: "64 word"
  Gathering_EventCount :: "64 word"
  Gathering_NextEventAt :: "instant option"
  Gathering_PublishEvents :: string
  Gathering_Publish :: csil_PublishDecision
  Gathering_Origin :: csil_Origin
  Gathering_Viewer :: csil_ViewerContext
  Gathering_CreatedAt :: instant
  Gathering_UpdatedAt :: instant

definition csilEncGathering :: "csil_Gathering \<Rightarrow> csil_value" where
  "csilEncGathering v = pMap (concat [
     entry ''id'' (pText (Gathering_Id v)),
     entry ''name'' (pText (Gathering_Name v)),
     entry ''slug'' (pText (Gathering_Slug v)),
     entry ''blurb'' (pText (Gathering_Blurb v)),
     entry ''origin'' (csilEncOrigin (Gathering_Origin v)),
     entry ''owners'' (cborEncArray csilEncOwnerRef (Gathering_Owners v)),
     entry ''viewer'' (csilEncViewerContext (Gathering_Viewer v)),
     entry ''publish'' (csilEncPublishDecision (Gathering_Publish v)),
     entry ''created_at'' (csilEncTimestamp (Gathering_CreatedAt v)),
     entry ''updated_at'' (csilEncTimestamp (Gathering_UpdatedAt v)),
     entry ''description'' (pText (Gathering_Description v)),
     entry ''event_count'' (pUint (Gathering_EventCount v)),
     entry ''member_count'' (pUint (Gathering_MemberCount v)),
     opt_entry ''next_event_at'' csilEncTimestamp (Gathering_NextEventAt v),
     entry ''origin_domain'' (pText (Gathering_OriginDomain v)),
     entry ''publish_events'' (pText (Gathering_PublishEvents v))])"

definition csilDecGathering :: "csil_value \<Rightarrow> csil_error + csil_Gathering" where
  "csilDecGathering r =
     bindS (required r ''id'' cborAsText) (\<lambda>Id.
     bindS (required r ''slug'' cborAsText) (\<lambda>Slug.
     bindS (required r ''origin_domain'' cborAsText) (\<lambda>OriginDomain.
     bindS (required r ''name'' cborAsText) (\<lambda>Name.
     bindS (required r ''blurb'' cborAsText) (\<lambda>Blurb.
     bindS (required r ''description'' cborAsText) (\<lambda>Description.
     bindS (required r ''owners'' (cborDecArray csilDecOwnerRef)) (\<lambda>Owners.
     bindS (required r ''member_count'' cborAsU64) (\<lambda>MemberCount.
     bindS (required r ''event_count'' cborAsU64) (\<lambda>EventCount.
     bindS (optional_field r ''next_event_at'' csilAsTimestamp) (\<lambda>NextEventAt.
     bindS (required r ''publish_events'' (as_enum PublishSetting_names)) (\<lambda>PublishEvents.
     bindS (required r ''publish'' csilDecPublishDecision) (\<lambda>Publish.
     bindS (required r ''origin'' csilDecOrigin) (\<lambda>Origin.
     bindS (required r ''viewer'' csilDecViewerContext) (\<lambda>Viewer.
     bindS (required r ''created_at'' csilAsTimestamp) (\<lambda>CreatedAt.
     bindS (required r ''updated_at'' csilAsTimestamp) (\<lambda>UpdatedAt.
     Inr \<lparr>Gathering_Id = Id, Gathering_Slug = Slug, Gathering_OriginDomain = OriginDomain, Gathering_Name = Name,
       Gathering_Blurb = Blurb, Gathering_Description = Description, Gathering_Owners = Owners, Gathering_MemberCount = MemberCount,
       Gathering_EventCount = EventCount, Gathering_NextEventAt = NextEventAt, Gathering_PublishEvents = PublishEvents, Gathering_Publish = Publish,
       Gathering_Origin = Origin, Gathering_Viewer = Viewer, Gathering_CreatedAt = CreatedAt, Gathering_UpdatedAt = UpdatedAt\<rparr>))))))))))))))))"

definition Gathering_ok :: "csil_Gathering \<Rightarrow> bool" where
  "Gathering_ok v \<longleftrightarrow> text_ok (Gathering_Id v) \<and> text_ok (Gathering_Slug v) \<and> text_ok (Gathering_OriginDomain v)
    \<and> text_ok (Gathering_Name v) \<and> text_ok (Gathering_Blurb v) \<and> text_ok (Gathering_Description v)
    \<and> list_ok OwnerRef_ok (Gathering_Owners v) \<and> pred_option time_ok (Gathering_NextEventAt v) \<and> enum_ok PublishSetting_names (Gathering_PublishEvents v)
    \<and> PublishDecision_ok (Gathering_Publish v) \<and> Origin_ok (Gathering_Origin v) \<and> ViewerContext_ok (Gathering_Viewer v)
    \<and> time_ok (Gathering_CreatedAt v) \<and> time_ok (Gathering_UpdatedAt v)"

lemma Gathering_undone: "Gathering_ok v \<Longrightarrow> csilDecGathering (received (csilEncGathering v)) = Inr v"
  by (cases v) (simp add: csilEncGathering_def csilDecGathering_def Gathering_ok_def codec)

lemma Gathering_sound: "Gathering_ok v \<Longrightarrow> sendable 3 (csilEncGathering v)"
  unfolding csilEncGathering_def Gathering_ok_def by (rule sendable_map) (simp_all add: codec)

interpretation Gathering_message: message Gathering_ok csilEncGathering csilDecGathering 3
  by unfold_locales (fact Gathering_undone, fact Gathering_sound)

lemmas Gathering_codec [codec] = Gathering_message.undone Gathering_message.behind_pointer Gathering_message.in_slice
  Gathering_message.sent Gathering_message.sent_behind_pointer Gathering_message.sent_in_slice

record csil_GatheringMember =
  GatheringMember_UserId :: string
  GatheringMember_Handle :: string
  GatheringMember_LinkkeysDomain :: string
  GatheringMember_DisplayName :: string
  GatheringMember_JoinedAt :: instant

definition csilEncGatheringMember :: "csil_GatheringMember \<Rightarrow> csil_value" where
  "csilEncGatheringMember v = pMap (concat [
     entry ''handle'' (pText (GatheringMember_Handle v)),
     entry ''user_id'' (pText (GatheringMember_UserId v)),
     entry ''joined_at'' (csilEncTimestamp (GatheringMember_JoinedAt v)),
     entry ''display_name'' (pText (GatheringMember_DisplayName v)),
     entry ''linkkeys_domain'' (pText (GatheringMember_LinkkeysDomain v))])"

definition csilDecGatheringMember :: "csil_value \<Rightarrow> csil_error + csil_GatheringMember" where
  "csilDecGatheringMember r =
     bindS (required r ''user_id'' cborAsText) (\<lambda>UserId.
     bindS (required r ''handle'' cborAsText) (\<lambda>Handle.
     bindS (required r ''linkkeys_domain'' cborAsText) (\<lambda>LinkkeysDomain.
     bindS (required r ''display_name'' cborAsText) (\<lambda>DisplayName.
     bindS (required r ''joined_at'' csilAsTimestamp) (\<lambda>JoinedAt.
     Inr \<lparr>GatheringMember_UserId = UserId, GatheringMember_Handle = Handle, GatheringMember_LinkkeysDomain = LinkkeysDomain, GatheringMember_DisplayName = DisplayName,
       GatheringMember_JoinedAt = JoinedAt\<rparr>)))))"

definition GatheringMember_ok :: "csil_GatheringMember \<Rightarrow> bool" where
  "GatheringMember_ok v \<longleftrightarrow> text_ok (GatheringMember_UserId v) \<and> text_ok (GatheringMember_Handle v) \<and> text_ok (GatheringMember_LinkkeysDomain v)
    \<and> text_ok (GatheringMember_DisplayName v) \<and> time_ok (GatheringMember_JoinedAt v)"

lemma GatheringMember_undone: "GatheringMember_ok v \<Longrightarrow> csilDecGatheringMember (received (csilEncGatheringMember v)) = Inr v"
  by (cases v) (simp add: csilEncGatheringMember_def csilDecGatheringMember_def GatheringMember_ok_def codec)

lemma GatheringMember_sound: "GatheringMember_ok v \<Longrightarrow> sendable 2 (csilEncGatheringMember v)"
  unfolding csilEncGatheringMember_def GatheringMember_ok_def by (rule sendable_map) (simp_all add: codec)

interpretation GatheringMember_message: message GatheringMember_ok csilEncGatheringMember csilDecGatheringMember 2
  by unfold_locales (fact GatheringMember_undone, fact GatheringMember_sound)

lemmas GatheringMember_codec [codec] = GatheringMember_message.undone GatheringMember_message.behind_pointer GatheringMember_message.in_slice
  GatheringMember_message.sent GatheringMember_message.sent_behind_pointer GatheringMember_message.sent_in_slice

record csil_CreateGatheringRequest =
  CreateGatheringRequest_Name :: string
  CreateGatheringRequest_Blurb :: string
  CreateGatheringRequest_Description :: string
  CreateGatheringRequest_Owner :: "csil_OwnerRefInput option"

definition csilEncCreateGatheringRequest :: "csil_CreateGatheringRequest \<Rightarrow> csil_value" where
  "csilEncCreateGatheringRequest v = pMap (concat [
     entry ''name'' (pText (CreateGatheringRequest_Name v)),
     entry ''blurb'' (pText (CreateGatheringRequest_Blurb v)),
     opt_entry ''owner'' csilEncOwnerRefInput (CreateGatheringRequest_Owner v),
     entry ''description'' (pText (CreateGatheringRequest_Description v))])"

definition csilDecCreateGatheringRequest :: "csil_value \<Rightarrow> csil_error + csil_CreateGatheringRequest" where
  "csilDecCreateGatheringRequest r =
     bindS (required r ''name'' cborAsText) (\<lambda>Name.
     bindS (required r ''blurb'' cborAsText) (\<lambda>Blurb.
     bindS (required r ''description'' cborAsText) (\<lambda>Description.
     bindS (optional_field r ''owner'' csilDecOwnerRefInput) (\<lambda>Owner.
     Inr \<lparr>CreateGatheringRequest_Name = Name, CreateGatheringRequest_Blurb = Blurb, CreateGatheringRequest_Description = Description, CreateGatheringRequest_Owner = Owner\<rparr>))))"

definition CreateGatheringRequest_ok :: "csil_CreateGatheringRequest \<Rightarrow> bool" where
  "CreateGatheringRequest_ok v \<longleftrightarrow> text_ok (CreateGatheringRequest_Name v) \<and> text_ok (CreateGatheringRequest_Blurb v) \<and> text_ok (CreateGatheringRequest_Description v)
    \<and> pred_option OwnerRefInput_ok (CreateGatheringRequest_Owner v)"

lemma CreateGatheringRequest_undone: "CreateGatheringRequest_ok v \<Longrightarrow> csilDecCreateGatheringRequest (received (csilEncCreateGatheringRequest v)) = Inr v"
  by (cases v) (simp add: csilEncCreateGatheringRequest_def csilDecCreateGatheringRequest_def CreateGatheringRequest_ok_def codec)

lemma CreateGatheringRequest_sound: "CreateGatheringRequest_ok v \<Longrightarrow> sendable 2 (csilEncCreateGatheringRequest v)"
  unfolding csilEncCreateGatheringRequest_def CreateGatheringRequest_ok_def by (rule sendable_map) (simp_all add: codec)

interpretation CreateGatheringRequest_message: message CreateGatheringRequest_ok csilEncCreateGatheringRequest csilDecCreateGatheringRequest 2
  by unfold_locales (fact CreateGatheringRequest_undone, fact CreateGatheringRequest_sound)

record csil_UpdateGatheringRequest =
  UpdateGatheringRequest_Id :: string
  UpdateGatheringRequest_Name :: "string option"
  UpdateGatheringRequest_Blurb :: "string option"
  UpdateGatheringRequest_Description :: "string option"
  UpdateGatheringRequest_PublishEvents :: "string option"

definition csilEncUpdateGatheringRequest :: "csil_UpdateGatheringRequest \<Rightarrow> csil_value" where
  "csilEncUpdateGatheringRequest v = pMap (concat [
     entry ''id'' (pText (UpdateGatheringRequest_Id v)),
     opt_entry ''name'' pText (UpdateGatheringRequest_Name v),
     opt_entry ''blurb'' pText (UpdateGatheringRequest_Blurb v),
     opt_entry ''description'' pText (UpdateGatheringRequest_Description v),
     opt_entry ''publish_events'' pText (UpdateGatheringRequest_PublishEvents v)])"

definition csilDecUpdateGatheringRequest :: "csil_value \<Rightarrow> csil_error + csil_UpdateGatheringRequest" where
  "csilDecUpdateGatheringRequest r =
     bindS (required r ''id'' cborAsText) (\<lambda>Id.
     bindS (optional_field r ''name'' cborAsText) (\<lambda>Name.
     bindS (optional_field r ''blurb'' cborAsText) (\<lambda>Blurb.
     bindS (optional_field r ''description'' cborAsText) (\<lambda>Description.
     bindS (optional_field r ''publish_events'' (as_enum PublishSetting_names)) (\<lambda>PublishEvents.
     Inr \<lparr>UpdateGatheringRequest_Id = Id, UpdateGatheringRequest_Name = Name, UpdateGatheringRequest_Blurb = Blurb, UpdateGatheringRequest_Description = Description,
       UpdateGatheringRequest_PublishEvents = PublishEvents\<rparr>)))))"

definition UpdateGatheringRequest_ok :: "csil_UpdateGatheringRequest \<Rightarrow> bool" where
  "UpdateGatheringRequest_ok v \<longleftrightarrow> text_ok (UpdateGatheringRequest_Id v) \<and> pred_option text_ok (UpdateGatheringRequest_Name v) \<and> pred_option text_ok (UpdateGatheringRequest_Blurb v)
    \<and> pred_option text_ok (UpdateGatheringRequest_Description v) \<and> pred_option (enum_ok PublishSetting_names) (UpdateGatheringRequest_PublishEvents v)"

lemma UpdateGatheringRequest_undone: "UpdateGatheringRequest_ok v \<Longrightarrow> csilDecUpdateGatheringRequest (received (csilEncUpdateGatheringRequest v)) = Inr v"
  by (cases v) (simp add: csilEncUpdateGatheringRequest_def csilDecUpdateGatheringRequest_def UpdateGatheringRequest_ok_def codec)

lemma UpdateGatheringRequest_sound: "UpdateGatheringRequest_ok v \<Longrightarrow> sendable 1 (csilEncUpdateGatheringRequest v)"
  unfolding csilEncUpdateGatheringRequest_def UpdateGatheringRequest_ok_def by (rule sendable_map) (simp_all add: codec)

interpretation UpdateGatheringRequest_message: message UpdateGatheringRequest_ok csilEncUpdateGatheringRequest csilDecUpdateGatheringRequest 1
  by unfold_locales (fact UpdateGatheringRequest_undone, fact UpdateGatheringRequest_sound)

record csil_GetGatheringRequest =
  GetGatheringRequest_Id :: string

definition csilEncGetGatheringRequest :: "csil_GetGatheringRequest \<Rightarrow> csil_value" where
  "csilEncGetGatheringRequest v = pMap (concat [
     entry ''id'' (pText (GetGatheringRequest_Id v))])"

definition csilDecGetGatheringRequest :: "csil_value \<Rightarrow> csil_error + csil_GetGatheringRequest" where
  "csilDecGetGatheringRequest r =
     bindS (required r ''id'' cborAsText) (\<lambda>Id.
     Inr \<lparr>GetGatheringRequest_Id = Id\<rparr>)"

definition GetGatheringRequest_ok :: "csil_GetGatheringRequest \<Rightarrow> bool" where
  "GetGatheringRequest_ok v \<longleftrightarrow> text_ok (GetGatheringRequest_Id v)"

lemma GetGatheringRequest_undone: "GetGatheringRequest_ok v \<Longrightarrow> csilDecGetGatheringRequest (received (csilEncGetGatheringRequest v)) = Inr v"
  by (cases v) (simp add: csilEncGetGatheringRequest_def csilDecGetGatheringRequest_def GetGatheringRequest_ok_def codec)

lemma GetGatheringRequest_sound: "GetGatheringRequest_ok v \<Longrightarrow> sendable 1 (csilEncGetGatheringRequest v)"
  unfolding csilEncGetGatheringRequest_def GetGatheringRequest_ok_def by (rule sendable_map) (simp_all add: codec)

interpretation GetGatheringRequest_message: message GetGatheringRequest_ok csilEncGetGatheringRequest csilDecGetGatheringRequest 1
  by unfold_locales (fact GetGatheringRequest_undone, fact GetGatheringRequest_sound)

record csil_DeleteGatheringRequest =
  DeleteGatheringRequest_Id :: string

definition csilEncDeleteGatheringRequest :: "csil_DeleteGatheringRequest \<Rightarrow> csil_value" where
  "csilEncDeleteGatheringRequest v = pMap (concat [
     entry ''id'' (pText (DeleteGatheringRequest_Id v))])"

definition csilDecDeleteGatheringRequest :: "csil_value \<Rightarrow> csil_error + csil_DeleteGatheringRequest" where
  "csilDecDeleteGatheringRequest r =
     bindS (required r ''id'' cborAsText) (\<lambda>Id.
     Inr \<lparr>DeleteGatheringRequest_Id = Id\<rparr>)"

definition DeleteGatheringRequest_ok :: "csil_DeleteGatheringRequest \<Rightarrow> bool" where
  "DeleteGatheringRequest_ok v \<longleftrightarrow> text_ok (DeleteGatheringRequest_Id v)"

lemma DeleteGatheringRequest_undone: "DeleteGatheringRequest_ok v \<Longrightarrow> csilDecDeleteGatheringRequest (received (csilEncDeleteGatheringRequest v)) = Inr v"
  by (cases v) (simp add: csilEncDeleteGatheringRequest_def csilDecDeleteGatheringRequest_def DeleteGatheringRequest_ok_def codec)

lemma DeleteGatheringRequest_sound: "DeleteGatheringRequest_ok v \<Longrightarrow> sendable 1 (csilEncDeleteGatheringRequest v)"
  unfolding csilEncDeleteGatheringRequest_def DeleteGatheringRequest_ok_def by (rule sendable_map) (simp_all add: codec)

interpretation DeleteGatheringRequest_message: message DeleteGatheringRequest_ok csilEncDeleteGatheringRequest csilDecDeleteGatheringRequest 1
  by unfold_locales (fact DeleteGatheringRequest_undone, fact DeleteGatheringRequest_sound)

record csil_ListGatheringsRequest =
  ListGatheringsRequest_Mine :: "bool option"
  ListGatheringsRequest_OwnedByOrganization :: "string option"
  ListGatheringsRequest_Page :: "csil_Page option"

definition csilEncListGatheringsRequest :: "csil_ListGatheringsRequest \<Rightarrow> csil_value" where
  "csilEncListGatheringsRequest v = pMap (concat [
     opt_entry ''mine'' pBool (ListGatheringsRequest_Mine v),
     opt_entry ''page'' csilEncPage (ListGatheringsRequest_Page v),
     opt_entry ''owned_by_organization'' pText (ListGatheringsRequest_OwnedByOrganization v)])"

definition csilDecListGatheringsRequest :: "csil_value \<Rightarrow> csil_error + csil_ListGatheringsRequest" where
  "csilDecListGatheringsRequest r =
     bindS (optional_field r ''mine'' cborAsBool) (\<lambda>Mine.
     bindS (optional_field r ''owned_by_organization'' cborAsText) (\<lambda>OwnedByOrganization.
     bindS (optional_field r ''page'' csilDecPage) (\<lambda>Page.
     Inr \<lparr>ListGatheringsRequest_Mine = Mine, ListGatheringsRequest_OwnedByOrganization = OwnedByOrganization, ListGatheringsRequest_Page = Page\<rparr>)))"

definition ListGatheringsRequest_ok :: "csil_ListGatheringsRequest \<Rightarrow> bool" where
  "ListGatheringsRequest_ok v \<longleftrightarrow> pred_option text_ok (ListGatheringsRequest_OwnedByOrganization v) \<and> pred_option Page_ok (ListGatheringsRequest_Page v)"

lemma ListGatheringsRequest_undone: "ListGatheringsRequest_ok v \<Longrightarrow> csilDecListGatheringsRequest (received (csilEncListGatheringsRequest v)) = Inr v"
  by (cases v) (simp add: csilEncListGatheringsRequest_def csilDecListGatheringsRequest_def ListGatheringsRequest_ok_def codec)

lemma ListGatheringsRequest_sound: "ListGatheringsRequest_ok v \<Longrightarrow> sendable 2 (csilEncListGatheringsRequest v)"
  unfolding csilEncListGatheringsRequest_def ListGatheringsRequest_ok_def by (rule sendable_map) (simp_all add: codec)

interpretation ListGatheringsRequest_message: message ListGatheringsRequest_ok csilEncListGatheringsRequest csilDecListGatheringsRequest 2
  by unfold_locales (fact ListGatheringsRequest_undone, fact ListGatheringsRequest_sound)

record csil_GatheringList =
  GatheringList_Gatherings :: "csil_Gathering list"
  GatheringList_Total :: "64 word"

definition csilEncGatheringList :: "csil_GatheringList \<Rightarrow> csil_value" where
  "csilEncGatheringList v = pMap (concat [
     entry ''total'' (pUint (GatheringList_Total v)),
     entry ''gatherings'' (cborEncArray csilEncGathering (GatheringList_Gatherings v))])"

definition csilDecGatheringList :: "csil_value \<Rightarrow> csil_error + csil_GatheringList" where
  "csilDecGatheringList r =
     bindS (required r ''gatherings'' (cborDecArray csilDecGathering)) (\<lambda>Gatherings.
     bindS (required r ''total'' cborAsU64) (\<lambda>Total.
     Inr \<lparr>GatheringList_Gatherings = Gatherings, GatheringList_Total = Total\<rparr>))"

definition GatheringList_ok :: "csil_GatheringList \<Rightarrow> bool" where
  "GatheringList_ok v \<longleftrightarrow> list_ok Gathering_ok (GatheringList_Gatherings v)"

lemma GatheringList_undone: "GatheringList_ok v \<Longrightarrow> csilDecGatheringList (received (csilEncGatheringList v)) = Inr v"
  by (cases v) (simp add: csilEncGatheringList_def csilDecGatheringList_def GatheringList_ok_def codec)

lemma GatheringList_sound: "GatheringList_ok v \<Longrightarrow> sendable 5 (csilEncGatheringList v)"
  unfolding csilEncGatheringList_def GatheringList_ok_def by (rule sendable_map) (simp_all add: codec)

interpretation GatheringList_message: message GatheringList_ok csilEncGatheringList csilDecGatheringList 5
  by unfold_locales (fact GatheringList_undone, fact GatheringList_sound)

record csil_ListGatheringMembersRequest =
  ListGatheringMembersRequest_GatheringId :: string
  ListGatheringMembersRequest_Page :: "csil_Page option"

definition csilEncListGatheringMembersRequest :: "csil_ListGatheringMembersRequest \<Rightarrow> csil_value" where
  "csilEncListGatheringMembersRequest v = pMap (concat [
     opt_entry ''page'' csilEncPage (ListGatheringMembersRequest_Page v),
     entry ''gathering_id'' (pText (ListGatheringMembersRequest_GatheringId v))])"

definition csilDecListGatheringMembersRequest :: "csil_value \<Rightarrow> csil_error + csil_ListGatheringMembersRequest" where
  "csilDecListGatheringMembersRequest r =
     bindS (required r ''gathering_id'' cborAsText) (\<lambda>GatheringId.
     bindS (optional_field r ''page'' csilDecPage) (\<lambda>Page.
     Inr \<lparr>ListGatheringMembersRequest_GatheringId = GatheringId, ListGatheringMembersRequest_Page = Page\<rparr>))"

definition ListGatheringMembersRequest_ok :: "csil_ListGatheringMembersRequest \<Rightarrow> bool" where
  "ListGatheringMembersRequest_ok v \<longleftrightarrow> text_ok (ListGatheringMembersRequest_GatheringId v) \<and> pred_option Page_ok (ListGatheringMembersRequest_Page v)"

lemma ListGatheringMembersRequest_undone: "ListGatheringMembersRequest_ok v \<Longrightarrow> csilDecListGatheringMembersRequest (received (csilEncListGatheringMembersRequest v)) = Inr v"
  by (cases v) (simp add: csilEncListGatheringMembersRequest_def csilDecListGatheringMembersRequest_def ListGatheringMembersRequest_ok_def codec)

lemma ListGatheringMembersRequest_sound: "ListGatheringMembersRequest_ok v \<Longrightarrow> sendable 2 (csilEncListGatheringMembersRequest v)"
  unfolding csilEncListGatheringMembersRequest_def ListGatheringMembersRequest_ok_def by (rule sendable_map) (simp_all add: codec)

interpretation ListGatheringMembersRequest_message: message ListGatheringMembersRequest_ok csilEncListGatheringMembersRequest csilDecListGatheringMembersRequest 2
  by unfold_locales (fact ListGatheringMembersRequest_undone, fact ListGatheringMembersRequest_sound)

record csil_GatheringMemberList =
  GatheringMemberList_GatheringId :: string
  GatheringMemberList_Members :: "csil_GatheringMember list"
  GatheringMemberList_Total :: "64 word"

definition csilEncGatheringMemberList :: "csil_GatheringMemberList \<Rightarrow> csil_value" where
  "csilEncGatheringMemberList v = pMap (concat [
     entry ''total'' (pUint (GatheringMemberList_Total v)),
     entry ''members'' (cborEncArray csilEncGatheringMember (GatheringMemberList_Members v)),
     entry ''gathering_id'' (pText (GatheringMemberList_GatheringId v))])"

definition csilDecGatheringMemberList :: "csil_value \<Rightarrow> csil_error + csil_GatheringMemberList" where
  "csilDecGatheringMemberList r =
     bindS (required r ''gathering_id'' cborAsText) (\<lambda>GatheringId.
     bindS (required r ''members'' (cborDecArray csilDecGatheringMember)) (\<lambda>Members.
     bindS (required r ''total'' cborAsU64) (\<lambda>Total.
     Inr \<lparr>GatheringMemberList_GatheringId = GatheringId, GatheringMemberList_Members = Members, GatheringMemberList_Total = Total\<rparr>)))"

definition GatheringMemberList_ok :: "csil_GatheringMemberList \<Rightarrow> bool" where
  "GatheringMemberList_ok v \<longleftrightarrow> text_ok (GatheringMemberList_GatheringId v) \<and> list_ok GatheringMember_ok (GatheringMemberList_Members v)"

lemma GatheringMemberList_undone: "GatheringMemberList_ok v \<Longrightarrow> csilDecGatheringMemberList (received (csilEncGatheringMemberList v)) = Inr v"
  by (cases v) (simp add: csilEncGatheringMemberList_def csilDecGatheringMemberList_def GatheringMemberList_ok_def codec)

lemma GatheringMemberList_sound: "GatheringMemberList_ok v \<Longrightarrow> sendable 4 (csilEncGatheringMemberList v)"
  unfolding csilEncGatheringMemberList_def GatheringMemberList_ok_def by (rule sendable_map) (simp_all add: codec)

interpretation GatheringMemberList_message: message GatheringMemberList_ok csilEncGatheringMemberList csilDecGatheringMemberList 4
  by unfold_locales (fact GatheringMemberList_undone, fact GatheringMemberList_sound)

record csil_JoinGatheringRequest =
  JoinGatheringRequest_GatheringId :: string

definition csilEncJoinGatheringRequest :: "csil_JoinGatheringRequest \<Rightarrow> csil_value" where
  "csilEncJoinGatheringRequest v = pMap (concat [
     entry ''gathering_id'' (pText (JoinGatheringRequest_GatheringId v))])"

definition csilDecJoinGatheringRequest :: "csil_value \<Rightarrow> csil_error + csil_JoinGatheringRequest" where
  "csilDecJoinGatheringRequest r =
     bindS (required r ''gathering_id'' cborAsText) (\<lambda>GatheringId.
     Inr \<lparr>JoinGatheringRequest_GatheringId = GatheringId\<rparr>)"

definition JoinGatheringRequest_ok :: "csil_JoinGatheringRequest \<Rightarrow> bool" where
  "JoinGatheringRequest_ok v \<longleftrightarrow> text_ok (JoinGatheringRequest_GatheringId v)"

lemma JoinGatheringRequest_undone: "JoinGatheringRequest_ok v \<Longrightarrow> csilDecJoinGatheringRequest (received (csilEncJoinGatheringRequest v)) = Inr v"
  by (cases v) (simp add: csilEncJoinGatheringRequest_def csilDecJoinGatheringRequest_def JoinGatheringRequest_ok_def codec)

lemma JoinGatheringRequest_sound: "JoinGatheringRequest_ok v \<Longrightarrow> sendable 1 (csilEncJoinGatheringRequest v)"
  unfolding csilEncJoinGatheringRequest_def JoinGatheringRequest_ok_def by (rule sendable_map) (simp_all add: codec)

interpretation JoinGatheringRequest_message: message JoinGatheringRequest_ok csilEncJoinGatheringRequest csilDecJoinGatheringRequest 1
  by unfold_locales (fact JoinGatheringRequest_undone, fact JoinGatheringRequest_sound)

record csil_LeaveGatheringRequest =
  LeaveGatheringRequest_GatheringId :: string

definition csilEncLeaveGatheringRequest :: "csil_LeaveGatheringRequest \<Rightarrow> csil_value" where
  "csilEncLeaveGatheringRequest v = pMap (concat [
     entry ''gathering_id'' (pText (LeaveGatheringRequest_GatheringId v))])"

definition csilDecLeaveGatheringRequest :: "csil_value \<Rightarrow> csil_error + csil_LeaveGatheringRequest" where
  "csilDecLeaveGatheringRequest r =
     bindS (required r ''gathering_id'' cborAsText) (\<lambda>GatheringId.
     Inr \<lparr>LeaveGatheringRequest_GatheringId = GatheringId\<rparr>)"

definition LeaveGatheringRequest_ok :: "csil_LeaveGatheringRequest \<Rightarrow> bool" where
  "LeaveGatheringRequest_ok v \<longleftrightarrow> text_ok (LeaveGatheringRequest_GatheringId v)"

lemma LeaveGatheringRequest_undone: "LeaveGatheringRequest_ok v \<Longrightarrow> csilDecLeaveGatheringRequest (received (csilEncLeaveGatheringRequest v)) = Inr v"
  by (cases v) (simp add: csilEncLeaveGatheringRequest_def csilDecLeaveGatheringRequest_def LeaveGatheringRequest_ok_def codec)

lemma LeaveGatheringRequest_sound: "LeaveGatheringRequest_ok v \<Longrightarrow> sendable 1 (csilEncLeaveGatheringRequest v)"
  unfolding csilEncLeaveGatheringRequest_def LeaveGatheringRequest_ok_def by (rule sendable_map) (simp_all add: codec)

interpretation LeaveGatheringRequest_message: message LeaveGatheringRequest_ok csilEncLeaveGatheringRequest csilDecLeaveGatheringRequest 1
  by unfold_locales (fact LeaveGatheringRequest_undone, fact LeaveGatheringRequest_sound)

record csil_AddGatheringOwnerRequest =
  AddGatheringOwnerRequest_GatheringId :: string
  AddGatheringOwnerRequest_Owner :: csil_OwnerRefInput

definition csilEncAddGatheringOwnerRequest :: "csil_AddGatheringOwnerRequest \<Rightarrow> csil_value" where
  "csilEncAddGatheringOwnerRequest v = pMap (concat [
     entry ''owner'' (csilEncOwnerRefInput (AddGatheringOwnerRequest_Owner v)),
     entry ''gathering_id'' (pText (AddGatheringOwnerRequest_GatheringId v))])"

definition csilDecAddGatheringOwnerRequest :: "csil_value \<Rightarrow> csil_error + csil_AddGatheringOwnerRequest" where
  "csilDecAddGatheringOwnerRequest r =
     bindS (required r ''gathering_id'' cborAsText) (\<lambda>GatheringId.
     bindS (required r ''owner'' csilDecOwnerRefInput) (\<lambda>Owner.
     Inr \<lparr>AddGatheringOwnerRequest_GatheringId = GatheringId, AddGatheringOwnerRequest_Owner = Owner\<rparr>))"

definition AddGatheringOwnerRequest_ok :: "csil_AddGatheringOwnerRequest \<Rightarrow> bool" where
  "AddGatheringOwnerRequest_ok v \<longleftrightarrow> text_ok (AddGatheringOwnerRequest_GatheringId v) \<and> OwnerRefInput_ok (AddGatheringOwnerRequest_Owner v)"

lemma AddGatheringOwnerRequest_undone: "AddGatheringOwnerRequest_ok v \<Longrightarrow> csilDecAddGatheringOwnerRequest (received (csilEncAddGatheringOwnerRequest v)) = Inr v"
  by (cases v) (simp add: csilEncAddGatheringOwnerRequest_def csilDecAddGatheringOwnerRequest_def AddGatheringOwnerRequest_ok_def codec)

lemma AddGatheringOwnerRequest_sound: "AddGatheringOwnerRequest_ok v \<Longrightarrow> sendable 2 (csilEncAddGatheringOwnerRequest v)"
  unfolding csilEncAddGatheringOwnerRequest_def AddGatheringOwnerRequest_ok_def by (rule sendable_map) (simp_all add: codec)

interpretation AddGatheringOwnerRequest_message: message AddGatheringOwnerRequest_ok csilEncAddGatheringOwnerRequest csilDecAddGatheringOwnerRequest 2
  by unfold_locales (fact AddGatheringOwnerRequest_undone, fact AddGatheringOwnerRequest_sound)

record csil_RemoveGatheringOwnerRequest =
  RemoveGatheringOwnerRequest_GatheringId :: string
  RemoveGatheringOwnerRequest_Owner :: csil_OwnerRefInput

definition csilEncRemoveGatheringOwnerRequest :: "csil_RemoveGatheringOwnerRequest \<Rightarrow> csil_value" where
  "csilEncRemoveGatheringOwnerRequest v = pMap (concat [
     entry ''owner'' (csilEncOwnerRefInput (RemoveGatheringOwnerRequest_Owner v)),
     entry ''gathering_id'' (pText (RemoveGatheringOwnerRequest_GatheringId v))])"

definition csilDecRemoveGatheringOwnerRequest :: "csil_value \<Rightarrow> csil_error + csil_RemoveGatheringOwnerRequest" where
  "csilDecRemoveGatheringOwnerRequest r =
     bindS (required r ''gathering_id'' cborAsText) (\<lambda>GatheringId.
     bindS (required r ''owner'' csilDecOwnerRefInput) (\<lambda>Owner.
     Inr \<lparr>RemoveGatheringOwnerRequest_GatheringId = GatheringId, RemoveGatheringOwnerRequest_Owner = Owner\<rparr>))"

definition RemoveGatheringOwnerRequest_ok :: "csil_RemoveGatheringOwnerRequest \<Rightarrow> bool" where
  "RemoveGatheringOwnerRequest_ok v \<longleftrightarrow> text_ok (RemoveGatheringOwnerRequest_GatheringId v) \<and> OwnerRefInput_ok (RemoveGatheringOwnerRequest_Owner v)"

lemma RemoveGatheringOwnerRequest_undone: "RemoveGatheringOwnerRequest_ok v \<Longrightarrow> csilDecRemoveGatheringOwnerRequest (received (csilEncRemoveGatheringOwnerRequest v)) = Inr v"
  by (cases v) (simp add: csilEncRemoveGatheringOwnerRequest_def csilDecRemoveGatheringOwnerRequest_def RemoveGatheringOwnerRequest_ok_def codec)

lemma RemoveGatheringOwnerRequest_sound: "RemoveGatheringOwnerRequest_ok v \<Longrightarrow> sendable 2 (csilEncRemoveGatheringOwnerRequest v)"
  unfolding csilEncRemoveGatheringOwnerRequest_def RemoveGatheringOwnerRequest_ok_def by (rule sendable_map) (simp_all add: codec)

interpretation RemoveGatheringOwnerRequest_message: message RemoveGatheringOwnerRequest_ok csilEncRemoveGatheringOwnerRequest csilDecRemoveGatheringOwnerRequest 2
  by unfold_locales (fact RemoveGatheringOwnerRequest_undone, fact RemoveGatheringOwnerRequest_sound)

end
