(* ===== verification/CodecSearch.thy ===== *)
theory CodecSearch
  imports CodecCommon CodecOrganizations CodecGatherings CodecEvents CodecSeries CodecFederation
begin

text \<open>
  The messages of \<open>csil/codec.gen.go\<close> and \<open>csil/types.gen.go\<close>: the search.  A struct is a record, its
  encoder the entries in the order of the wire, its decoder the fields in the order of the schema; each
  is an interpretation of the contract \<open>message\<close> with the deepest nesting it can have.
\<close>

record csil_GeoCircle =
  GeoCircle_Latitude :: float64
  GeoCircle_Longitude :: float64
  GeoCircle_RadiusKm :: float64

definition csilEncGeoCircle :: "csil_GeoCircle \<Rightarrow> csil_value" where
  "csilEncGeoCircle v = pMap (concat [
     entry ''latitude'' (pFloat (GeoCircle_Latitude v)),
     entry ''longitude'' (pFloat (GeoCircle_Longitude v)),
     entry ''radius_km'' (pFloat (GeoCircle_RadiusKm v))])"

definition csilDecGeoCircle :: "csil_value \<Rightarrow> csil_error + csil_GeoCircle" where
  "csilDecGeoCircle r =
     bindS (required r ''latitude'' cborAsF64) (\<lambda>Latitude.
     bindS (required r ''longitude'' cborAsF64) (\<lambda>Longitude.
     bindS (required r ''radius_km'' cborAsF64) (\<lambda>RadiusKm.
     Inr \<lparr>GeoCircle_Latitude = Latitude, GeoCircle_Longitude = Longitude, GeoCircle_RadiusKm = RadiusKm\<rparr>)))"

definition GeoCircle_ok :: "csil_GeoCircle \<Rightarrow> bool" where
  "GeoCircle_ok v \<longleftrightarrow> True"

lemma GeoCircle_undone: "GeoCircle_ok v \<Longrightarrow> csilDecGeoCircle (received (csilEncGeoCircle v)) = Inr v"
  by (cases v) (simp add: csilEncGeoCircle_def csilDecGeoCircle_def GeoCircle_ok_def codec)

lemma GeoCircle_sound: "GeoCircle_ok v \<Longrightarrow> sendable 1 (csilEncGeoCircle v)"
  unfolding csilEncGeoCircle_def GeoCircle_ok_def by (rule sendable_map) (simp_all add: codec)

interpretation GeoCircle_message: message GeoCircle_ok csilEncGeoCircle csilDecGeoCircle 1
  by unfold_locales (fact GeoCircle_undone, fact GeoCircle_sound)

lemmas GeoCircle_codec [codec] = GeoCircle_message.undone GeoCircle_message.behind_pointer GeoCircle_message.in_slice
  GeoCircle_message.sent GeoCircle_message.sent_behind_pointer GeoCircle_message.sent_in_slice

record csil_LocationFilter =
  LocationFilter_Locality :: "string option"
  LocationFilter_Region :: "string option"
  LocationFilter_Country :: "string option"
  LocationFilter_Near :: "csil_GeoCircle option"

definition csilEncLocationFilter :: "csil_LocationFilter \<Rightarrow> csil_value" where
  "csilEncLocationFilter v = pMap (concat [
     opt_entry ''near'' csilEncGeoCircle (LocationFilter_Near v),
     opt_entry ''region'' pText (LocationFilter_Region v),
     opt_entry ''country'' pText (LocationFilter_Country v),
     opt_entry ''locality'' pText (LocationFilter_Locality v)])"

definition csilDecLocationFilter :: "csil_value \<Rightarrow> csil_error + csil_LocationFilter" where
  "csilDecLocationFilter r =
     bindS (optional_field r ''locality'' cborAsText) (\<lambda>Locality.
     bindS (optional_field r ''region'' cborAsText) (\<lambda>Region.
     bindS (optional_field r ''country'' cborAsText) (\<lambda>Country.
     bindS (optional_field r ''near'' csilDecGeoCircle) (\<lambda>Near.
     Inr \<lparr>LocationFilter_Locality = Locality, LocationFilter_Region = Region, LocationFilter_Country = Country, LocationFilter_Near = Near\<rparr>))))"

definition LocationFilter_ok :: "csil_LocationFilter \<Rightarrow> bool" where
  "LocationFilter_ok v \<longleftrightarrow> pred_option text_ok (LocationFilter_Locality v) \<and> pred_option text_ok (LocationFilter_Region v) \<and> pred_option text_ok (LocationFilter_Country v)
    \<and> pred_option GeoCircle_ok (LocationFilter_Near v)"

lemma LocationFilter_undone: "LocationFilter_ok v \<Longrightarrow> csilDecLocationFilter (received (csilEncLocationFilter v)) = Inr v"
  by (cases v) (simp add: csilEncLocationFilter_def csilDecLocationFilter_def LocationFilter_ok_def codec)

lemma LocationFilter_sound: "LocationFilter_ok v \<Longrightarrow> sendable 2 (csilEncLocationFilter v)"
  unfolding csilEncLocationFilter_def LocationFilter_ok_def by (rule sendable_map) (simp_all add: codec)

interpretation LocationFilter_message: message LocationFilter_ok csilEncLocationFilter csilDecLocationFilter 2
  by unfold_locales (fact LocationFilter_undone, fact LocationFilter_sound)

lemmas LocationFilter_codec [codec] = LocationFilter_message.undone LocationFilter_message.behind_pointer LocationFilter_message.in_slice
  LocationFilter_message.sent LocationFilter_message.sent_behind_pointer LocationFilter_message.sent_in_slice

definition SearchKind_names :: "string list" where
  "SearchKind_names = [''organization'', ''gathering'', ''event'', ''series'', ''remote-event'']"

interpretation SearchKind_value: message "enum_ok SearchKind_names" pText "as_enum SearchKind_names" 0
  by (rule enum_message)

lemmas SearchKind_codec [codec] = SearchKind_value.slice_behind_pointer SearchKind_value.sent_slice_behind_pointer
  SearchKind_value.undone [simplified] SearchKind_value.behind_pointer [simplified] SearchKind_value.in_slice [simplified]
  SearchKind_value.sent [simplified] SearchKind_value.sent_behind_pointer [simplified] SearchKind_value.sent_in_slice

record csil_SearchRequest =
  SearchRequest_Query :: "string option"
  SearchRequest_Kinds :: "string list option"
  SearchRequest_Location :: "csil_LocationFilter option"
  SearchRequest_StartsAfter :: "instant option"
  SearchRequest_StartsBefore :: "instant option"
  SearchRequest_OnlineOnly :: "bool option"
  SearchRequest_InPersonOnly :: "bool option"
  SearchRequest_IncludeStarted :: "bool option"
  SearchRequest_Page :: "csil_Page option"

definition csilEncSearchRequest :: "csil_SearchRequest \<Rightarrow> csil_value" where
  "csilEncSearchRequest v = pMap (concat [
     opt_entry ''page'' csilEncPage (SearchRequest_Page v),
     opt_entry ''kinds'' (cborEncArray pText) (SearchRequest_Kinds v),
     opt_entry ''query'' pText (SearchRequest_Query v),
     opt_entry ''location'' csilEncLocationFilter (SearchRequest_Location v),
     opt_entry ''online_only'' pBool (SearchRequest_OnlineOnly v),
     opt_entry ''starts_after'' csilEncTimestamp (SearchRequest_StartsAfter v),
     opt_entry ''starts_before'' csilEncTimestamp (SearchRequest_StartsBefore v),
     opt_entry ''in_person_only'' pBool (SearchRequest_InPersonOnly v),
     opt_entry ''include_started'' pBool (SearchRequest_IncludeStarted v)])"

definition csilDecSearchRequest :: "csil_value \<Rightarrow> csil_error + csil_SearchRequest" where
  "csilDecSearchRequest r =
     bindS (optional_field r ''query'' cborAsText) (\<lambda>Query.
     bindS (optional_field r ''kinds'' (cborDecArray (as_enum SearchKind_names))) (\<lambda>Kinds.
     bindS (optional_field r ''location'' csilDecLocationFilter) (\<lambda>Location.
     bindS (optional_field r ''starts_after'' csilAsTimestamp) (\<lambda>StartsAfter.
     bindS (optional_field r ''starts_before'' csilAsTimestamp) (\<lambda>StartsBefore.
     bindS (optional_field r ''online_only'' cborAsBool) (\<lambda>OnlineOnly.
     bindS (optional_field r ''in_person_only'' cborAsBool) (\<lambda>InPersonOnly.
     bindS (optional_field r ''include_started'' cborAsBool) (\<lambda>IncludeStarted.
     bindS (optional_field r ''page'' csilDecPage) (\<lambda>Page.
     Inr \<lparr>SearchRequest_Query = Query, SearchRequest_Kinds = Kinds, SearchRequest_Location = Location, SearchRequest_StartsAfter = StartsAfter,
       SearchRequest_StartsBefore = StartsBefore, SearchRequest_OnlineOnly = OnlineOnly, SearchRequest_InPersonOnly = InPersonOnly, SearchRequest_IncludeStarted = IncludeStarted,
       SearchRequest_Page = Page\<rparr>)))))))))"

definition SearchRequest_ok :: "csil_SearchRequest \<Rightarrow> bool" where
  "SearchRequest_ok v \<longleftrightarrow> pred_option text_ok (SearchRequest_Query v) \<and> pred_option (list_ok (enum_ok SearchKind_names)) (SearchRequest_Kinds v) \<and> pred_option LocationFilter_ok (SearchRequest_Location v)
    \<and> pred_option time_ok (SearchRequest_StartsAfter v) \<and> pred_option time_ok (SearchRequest_StartsBefore v) \<and> pred_option Page_ok (SearchRequest_Page v)"

lemma SearchRequest_undone: "SearchRequest_ok v \<Longrightarrow> csilDecSearchRequest (received (csilEncSearchRequest v)) = Inr v"
  by (cases v) (simp add: csilEncSearchRequest_def csilDecSearchRequest_def SearchRequest_ok_def codec)

lemma SearchRequest_sound: "SearchRequest_ok v \<Longrightarrow> sendable 3 (csilEncSearchRequest v)"
  unfolding csilEncSearchRequest_def SearchRequest_ok_def by (rule sendable_map) (simp_all add: codec)

interpretation SearchRequest_message: message SearchRequest_ok csilEncSearchRequest csilDecSearchRequest 3
  by unfold_locales (fact SearchRequest_undone, fact SearchRequest_sound)

record csil_SearchResults =
  SearchResults_Organizations :: "csil_Organization list"
  SearchResults_Gatherings :: "csil_Gathering list"
  SearchResults_Events :: "csil_Event list"
  SearchResults_Series :: "csil_EventSeries list"
  SearchResults_RemoteEvents :: "csil_RemoteEvent list"
  SearchResults_OrganizationTotal :: "64 word"
  SearchResults_GatheringTotal :: "64 word"
  SearchResults_EventTotal :: "64 word"
  SearchResults_SeriesTotal :: "64 word"
  SearchResults_RemoteEventTotal :: "64 word"

definition csilEncSearchResults :: "csil_SearchResults \<Rightarrow> csil_value" where
  "csilEncSearchResults v = pMap (concat [
     entry ''events'' (cborEncArray csilEncEvent (SearchResults_Events v)),
     entry ''series'' (cborEncArray csilEncEventSeries (SearchResults_Series v)),
     entry ''gatherings'' (cborEncArray csilEncGathering (SearchResults_Gatherings v)),
     entry ''event_total'' (pUint (SearchResults_EventTotal v)),
     entry ''series_total'' (pUint (SearchResults_SeriesTotal v)),
     entry ''organizations'' (cborEncArray csilEncOrganization (SearchResults_Organizations v)),
     entry ''remote_events'' (cborEncArray csilEncRemoteEvent (SearchResults_RemoteEvents v)),
     entry ''gathering_total'' (pUint (SearchResults_GatheringTotal v)),
     entry ''organization_total'' (pUint (SearchResults_OrganizationTotal v)),
     entry ''remote_event_total'' (pUint (SearchResults_RemoteEventTotal v))])"

definition csilDecSearchResults :: "csil_value \<Rightarrow> csil_error + csil_SearchResults" where
  "csilDecSearchResults r =
     bindS (required r ''organizations'' (cborDecArray csilDecOrganization)) (\<lambda>Organizations.
     bindS (required r ''gatherings'' (cborDecArray csilDecGathering)) (\<lambda>Gatherings.
     bindS (required r ''events'' (cborDecArray csilDecEvent)) (\<lambda>Events.
     bindS (required r ''series'' (cborDecArray csilDecEventSeries)) (\<lambda>Series.
     bindS (required r ''remote_events'' (cborDecArray csilDecRemoteEvent)) (\<lambda>RemoteEvents.
     bindS (required r ''organization_total'' cborAsU64) (\<lambda>OrganizationTotal.
     bindS (required r ''gathering_total'' cborAsU64) (\<lambda>GatheringTotal.
     bindS (required r ''event_total'' cborAsU64) (\<lambda>EventTotal.
     bindS (required r ''series_total'' cborAsU64) (\<lambda>SeriesTotal.
     bindS (required r ''remote_event_total'' cborAsU64) (\<lambda>RemoteEventTotal.
     Inr \<lparr>SearchResults_Organizations = Organizations, SearchResults_Gatherings = Gatherings, SearchResults_Events = Events, SearchResults_Series = Series,
       SearchResults_RemoteEvents = RemoteEvents, SearchResults_OrganizationTotal = OrganizationTotal, SearchResults_GatheringTotal = GatheringTotal, SearchResults_EventTotal = EventTotal,
       SearchResults_SeriesTotal = SeriesTotal, SearchResults_RemoteEventTotal = RemoteEventTotal\<rparr>))))))))))"

definition SearchResults_ok :: "csil_SearchResults \<Rightarrow> bool" where
  "SearchResults_ok v \<longleftrightarrow> list_ok Organization_ok (SearchResults_Organizations v) \<and> list_ok Gathering_ok (SearchResults_Gatherings v) \<and> list_ok Event_ok (SearchResults_Events v)
    \<and> list_ok EventSeries_ok (SearchResults_Series v) \<and> list_ok RemoteEvent_ok (SearchResults_RemoteEvents v)"

lemma SearchResults_undone: "SearchResults_ok v \<Longrightarrow> csilDecSearchResults (received (csilEncSearchResults v)) = Inr v"
  by (cases v) (simp add: csilEncSearchResults_def csilDecSearchResults_def SearchResults_ok_def codec)

lemma SearchResults_sound: "SearchResults_ok v \<Longrightarrow> sendable 5 (csilEncSearchResults v)"
  unfolding csilEncSearchResults_def SearchResults_ok_def by (rule sendable_map) (simp_all add: codec)

interpretation SearchResults_message: message SearchResults_ok csilEncSearchResults csilDecSearchResults 5
  by unfold_locales (fact SearchResults_undone, fact SearchResults_sound)

end
