(* ===== verification/CodecWebhooks.thy ===== *)
theory CodecWebhooks
  imports Messages
begin

text \<open>
  The messages of \<open>csil/codec.gen.go\<close> and \<open>csil/types.gen.go\<close>: webhooks.  A struct is a record, its
  encoder the entries in the order of the wire, its decoder the fields in the order of the schema; each
  is an interpretation of the contract \<open>message\<close> with the deepest nesting it can have.
\<close>

definition WebhookOwnerKind_names :: "string list" where
  "WebhookOwnerKind_names = [''organization'', ''gathering'']"

interpretation WebhookOwnerKind_value: message "enum_ok WebhookOwnerKind_names" pText "as_enum WebhookOwnerKind_names" 0
  by (rule enum_message)

lemmas WebhookOwnerKind_codec [codec] = WebhookOwnerKind_value.undone [simplified] WebhookOwnerKind_value.behind_pointer [simplified] WebhookOwnerKind_value.in_slice [simplified]
  WebhookOwnerKind_value.sent [simplified] WebhookOwnerKind_value.sent_behind_pointer [simplified] WebhookOwnerKind_value.sent_in_slice

definition WebhookScope_names :: "string list" where
  "WebhookScope_names = [''all'', ''structure_only'']"

interpretation WebhookScope_value: message "enum_ok WebhookScope_names" pText "as_enum WebhookScope_names" 0
  by (rule enum_message)

lemmas WebhookScope_codec [codec] = WebhookScope_value.undone [simplified] WebhookScope_value.behind_pointer [simplified] WebhookScope_value.in_slice [simplified]
  WebhookScope_value.sent [simplified] WebhookScope_value.sent_behind_pointer [simplified] WebhookScope_value.sent_in_slice

record csil_Webhook =
  Webhook_Id :: string
  Webhook_OwnerKind :: string
  Webhook_OwnerId :: string
  Webhook_Url :: string
  Webhook_Scope :: string
  Webhook_Active :: bool
  Webhook_IncludeDetails :: bool
  Webhook_Note :: string
  Webhook_LastStatus :: "64 word option"
  Webhook_LastAttemptAt :: "instant option"
  Webhook_FailureCount :: "64 word"
  Webhook_CreatedAt :: instant
  Webhook_UpdatedAt :: instant

definition csilEncWebhook :: "csil_Webhook \<Rightarrow> csil_value" where
  "csilEncWebhook v = pMap (concat [
     entry ''id'' (pText (Webhook_Id v)),
     entry ''url'' (pText (Webhook_Url v)),
     entry ''note'' (pText (Webhook_Note v)),
     entry ''scope'' (pText (Webhook_Scope v)),
     entry ''active'' (pBool (Webhook_Active v)),
     entry ''owner_id'' (pText (Webhook_OwnerId v)),
     entry ''created_at'' (csilEncTimestamp (Webhook_CreatedAt v)),
     entry ''owner_kind'' (pText (Webhook_OwnerKind v)),
     entry ''updated_at'' (csilEncTimestamp (Webhook_UpdatedAt v)),
     opt_entry ''last_status'' pUint (Webhook_LastStatus v),
     entry ''failure_count'' (pUint (Webhook_FailureCount v)),
     entry ''include_details'' (pBool (Webhook_IncludeDetails v)),
     opt_entry ''last_attempt_at'' csilEncTimestamp (Webhook_LastAttemptAt v)])"

definition csilDecWebhook :: "csil_value \<Rightarrow> csil_error + csil_Webhook" where
  "csilDecWebhook r =
     bindS (required r ''id'' cborAsText) (\<lambda>Id.
     bindS (required r ''owner_kind'' (as_enum WebhookOwnerKind_names)) (\<lambda>OwnerKind.
     bindS (required r ''owner_id'' cborAsText) (\<lambda>OwnerId.
     bindS (required r ''url'' cborAsText) (\<lambda>Url.
     bindS (required r ''scope'' (as_enum WebhookScope_names)) (\<lambda>Scope.
     bindS (required r ''active'' cborAsBool) (\<lambda>Active.
     bindS (required r ''include_details'' cborAsBool) (\<lambda>IncludeDetails.
     bindS (required r ''note'' cborAsText) (\<lambda>Note.
     bindS (optional_field r ''last_status'' cborAsU64) (\<lambda>LastStatus.
     bindS (optional_field r ''last_attempt_at'' csilAsTimestamp) (\<lambda>LastAttemptAt.
     bindS (required r ''failure_count'' cborAsU64) (\<lambda>FailureCount.
     bindS (required r ''created_at'' csilAsTimestamp) (\<lambda>CreatedAt.
     bindS (required r ''updated_at'' csilAsTimestamp) (\<lambda>UpdatedAt.
     Inr \<lparr>Webhook_Id = Id, Webhook_OwnerKind = OwnerKind, Webhook_OwnerId = OwnerId, Webhook_Url = Url,
       Webhook_Scope = Scope, Webhook_Active = Active, Webhook_IncludeDetails = IncludeDetails, Webhook_Note = Note,
       Webhook_LastStatus = LastStatus, Webhook_LastAttemptAt = LastAttemptAt, Webhook_FailureCount = FailureCount, Webhook_CreatedAt = CreatedAt,
       Webhook_UpdatedAt = UpdatedAt\<rparr>)))))))))))))"

definition Webhook_ok :: "csil_Webhook \<Rightarrow> bool" where
  "Webhook_ok v \<longleftrightarrow> text_ok (Webhook_Id v) \<and> enum_ok WebhookOwnerKind_names (Webhook_OwnerKind v) \<and> text_ok (Webhook_OwnerId v)
    \<and> text_ok (Webhook_Url v) \<and> enum_ok WebhookScope_names (Webhook_Scope v) \<and> text_ok (Webhook_Note v)
    \<and> pred_option time_ok (Webhook_LastAttemptAt v) \<and> time_ok (Webhook_CreatedAt v) \<and> time_ok (Webhook_UpdatedAt v)"

lemma Webhook_undone: "Webhook_ok v \<Longrightarrow> csilDecWebhook (received (csilEncWebhook v)) = Inr v"
  by (cases v) (simp add: csilEncWebhook_def csilDecWebhook_def Webhook_ok_def codec)

lemma Webhook_sound: "Webhook_ok v \<Longrightarrow> sendable 2 (csilEncWebhook v)"
  unfolding csilEncWebhook_def Webhook_ok_def by (rule sendable_map) (simp_all add: codec)

interpretation Webhook_message: message Webhook_ok csilEncWebhook csilDecWebhook 2
  by unfold_locales (fact Webhook_undone, fact Webhook_sound)

lemmas Webhook_codec [codec] = Webhook_message.undone Webhook_message.behind_pointer Webhook_message.in_slice
  Webhook_message.sent Webhook_message.sent_behind_pointer Webhook_message.sent_in_slice

record csil_WebhookWithSecret =
  WebhookWithSecret_Webhook :: csil_Webhook
  WebhookWithSecret_Secret :: string

definition csilEncWebhookWithSecret :: "csil_WebhookWithSecret \<Rightarrow> csil_value" where
  "csilEncWebhookWithSecret v = pMap (concat [
     entry ''secret'' (pText (WebhookWithSecret_Secret v)),
     entry ''webhook'' (csilEncWebhook (WebhookWithSecret_Webhook v))])"

definition csilDecWebhookWithSecret :: "csil_value \<Rightarrow> csil_error + csil_WebhookWithSecret" where
  "csilDecWebhookWithSecret r =
     bindS (required r ''webhook'' csilDecWebhook) (\<lambda>Webhook.
     bindS (required r ''secret'' cborAsText) (\<lambda>Secret.
     Inr \<lparr>WebhookWithSecret_Webhook = Webhook, WebhookWithSecret_Secret = Secret\<rparr>))"

definition WebhookWithSecret_ok :: "csil_WebhookWithSecret \<Rightarrow> bool" where
  "WebhookWithSecret_ok v \<longleftrightarrow> Webhook_ok (WebhookWithSecret_Webhook v) \<and> text_ok (WebhookWithSecret_Secret v)"

lemma WebhookWithSecret_undone: "WebhookWithSecret_ok v \<Longrightarrow> csilDecWebhookWithSecret (received (csilEncWebhookWithSecret v)) = Inr v"
  by (cases v) (simp add: csilEncWebhookWithSecret_def csilDecWebhookWithSecret_def WebhookWithSecret_ok_def codec)

lemma WebhookWithSecret_sound: "WebhookWithSecret_ok v \<Longrightarrow> sendable 3 (csilEncWebhookWithSecret v)"
  unfolding csilEncWebhookWithSecret_def WebhookWithSecret_ok_def by (rule sendable_map) (simp_all add: codec)

interpretation WebhookWithSecret_message: message WebhookWithSecret_ok csilEncWebhookWithSecret csilDecWebhookWithSecret 3
  by unfold_locales (fact WebhookWithSecret_undone, fact WebhookWithSecret_sound)

record csil_CreateWebhookRequest =
  CreateWebhookRequest_OwnerKind :: string
  CreateWebhookRequest_OwnerId :: string
  CreateWebhookRequest_Url :: string
  CreateWebhookRequest_Scope :: string
  CreateWebhookRequest_Note :: string
  CreateWebhookRequest_IncludeDetails :: bool

definition csilEncCreateWebhookRequest :: "csil_CreateWebhookRequest \<Rightarrow> csil_value" where
  "csilEncCreateWebhookRequest v = pMap (concat [
     entry ''url'' (pText (CreateWebhookRequest_Url v)),
     entry ''note'' (pText (CreateWebhookRequest_Note v)),
     entry ''scope'' (pText (CreateWebhookRequest_Scope v)),
     entry ''owner_id'' (pText (CreateWebhookRequest_OwnerId v)),
     entry ''owner_kind'' (pText (CreateWebhookRequest_OwnerKind v)),
     entry ''include_details'' (pBool (CreateWebhookRequest_IncludeDetails v))])"

definition csilDecCreateWebhookRequest :: "csil_value \<Rightarrow> csil_error + csil_CreateWebhookRequest" where
  "csilDecCreateWebhookRequest r =
     bindS (required r ''owner_kind'' (as_enum WebhookOwnerKind_names)) (\<lambda>OwnerKind.
     bindS (required r ''owner_id'' cborAsText) (\<lambda>OwnerId.
     bindS (required r ''url'' cborAsText) (\<lambda>Url.
     bindS (required r ''scope'' (as_enum WebhookScope_names)) (\<lambda>Scope.
     bindS (required r ''note'' cborAsText) (\<lambda>Note.
     bindS (required r ''include_details'' cborAsBool) (\<lambda>IncludeDetails.
     Inr \<lparr>CreateWebhookRequest_OwnerKind = OwnerKind, CreateWebhookRequest_OwnerId = OwnerId, CreateWebhookRequest_Url = Url, CreateWebhookRequest_Scope = Scope,
       CreateWebhookRequest_Note = Note, CreateWebhookRequest_IncludeDetails = IncludeDetails\<rparr>))))))"

definition CreateWebhookRequest_ok :: "csil_CreateWebhookRequest \<Rightarrow> bool" where
  "CreateWebhookRequest_ok v \<longleftrightarrow> enum_ok WebhookOwnerKind_names (CreateWebhookRequest_OwnerKind v) \<and> text_ok (CreateWebhookRequest_OwnerId v) \<and> text_ok (CreateWebhookRequest_Url v)
    \<and> enum_ok WebhookScope_names (CreateWebhookRequest_Scope v) \<and> text_ok (CreateWebhookRequest_Note v)"

lemma CreateWebhookRequest_undone: "CreateWebhookRequest_ok v \<Longrightarrow> csilDecCreateWebhookRequest (received (csilEncCreateWebhookRequest v)) = Inr v"
  by (cases v) (simp add: csilEncCreateWebhookRequest_def csilDecCreateWebhookRequest_def CreateWebhookRequest_ok_def codec)

lemma CreateWebhookRequest_sound: "CreateWebhookRequest_ok v \<Longrightarrow> sendable 1 (csilEncCreateWebhookRequest v)"
  unfolding csilEncCreateWebhookRequest_def CreateWebhookRequest_ok_def by (rule sendable_map) (simp_all add: codec)

interpretation CreateWebhookRequest_message: message CreateWebhookRequest_ok csilEncCreateWebhookRequest csilDecCreateWebhookRequest 1
  by unfold_locales (fact CreateWebhookRequest_undone, fact CreateWebhookRequest_sound)

record csil_UpdateWebhookRequest =
  UpdateWebhookRequest_Id :: string
  UpdateWebhookRequest_Url :: "string option"
  UpdateWebhookRequest_Scope :: "string option"
  UpdateWebhookRequest_Note :: "string option"
  UpdateWebhookRequest_Active :: "bool option"
  UpdateWebhookRequest_IncludeDetails :: "bool option"

definition csilEncUpdateWebhookRequest :: "csil_UpdateWebhookRequest \<Rightarrow> csil_value" where
  "csilEncUpdateWebhookRequest v = pMap (concat [
     entry ''id'' (pText (UpdateWebhookRequest_Id v)),
     opt_entry ''url'' pText (UpdateWebhookRequest_Url v),
     opt_entry ''note'' pText (UpdateWebhookRequest_Note v),
     opt_entry ''scope'' pText (UpdateWebhookRequest_Scope v),
     opt_entry ''active'' pBool (UpdateWebhookRequest_Active v),
     opt_entry ''include_details'' pBool (UpdateWebhookRequest_IncludeDetails v)])"

definition csilDecUpdateWebhookRequest :: "csil_value \<Rightarrow> csil_error + csil_UpdateWebhookRequest" where
  "csilDecUpdateWebhookRequest r =
     bindS (required r ''id'' cborAsText) (\<lambda>Id.
     bindS (optional_field r ''url'' cborAsText) (\<lambda>Url.
     bindS (optional_field r ''scope'' (as_enum WebhookScope_names)) (\<lambda>Scope.
     bindS (optional_field r ''note'' cborAsText) (\<lambda>Note.
     bindS (optional_field r ''active'' cborAsBool) (\<lambda>Active.
     bindS (optional_field r ''include_details'' cborAsBool) (\<lambda>IncludeDetails.
     Inr \<lparr>UpdateWebhookRequest_Id = Id, UpdateWebhookRequest_Url = Url, UpdateWebhookRequest_Scope = Scope, UpdateWebhookRequest_Note = Note,
       UpdateWebhookRequest_Active = Active, UpdateWebhookRequest_IncludeDetails = IncludeDetails\<rparr>))))))"

definition UpdateWebhookRequest_ok :: "csil_UpdateWebhookRequest \<Rightarrow> bool" where
  "UpdateWebhookRequest_ok v \<longleftrightarrow> text_ok (UpdateWebhookRequest_Id v) \<and> pred_option text_ok (UpdateWebhookRequest_Url v) \<and> pred_option (enum_ok WebhookScope_names) (UpdateWebhookRequest_Scope v)
    \<and> pred_option text_ok (UpdateWebhookRequest_Note v)"

lemma UpdateWebhookRequest_undone: "UpdateWebhookRequest_ok v \<Longrightarrow> csilDecUpdateWebhookRequest (received (csilEncUpdateWebhookRequest v)) = Inr v"
  by (cases v) (simp add: csilEncUpdateWebhookRequest_def csilDecUpdateWebhookRequest_def UpdateWebhookRequest_ok_def codec)

lemma UpdateWebhookRequest_sound: "UpdateWebhookRequest_ok v \<Longrightarrow> sendable 1 (csilEncUpdateWebhookRequest v)"
  unfolding csilEncUpdateWebhookRequest_def UpdateWebhookRequest_ok_def by (rule sendable_map) (simp_all add: codec)

interpretation UpdateWebhookRequest_message: message UpdateWebhookRequest_ok csilEncUpdateWebhookRequest csilDecUpdateWebhookRequest 1
  by unfold_locales (fact UpdateWebhookRequest_undone, fact UpdateWebhookRequest_sound)

record csil_DeleteWebhookRequest =
  DeleteWebhookRequest_Id :: string

definition csilEncDeleteWebhookRequest :: "csil_DeleteWebhookRequest \<Rightarrow> csil_value" where
  "csilEncDeleteWebhookRequest v = pMap (concat [
     entry ''id'' (pText (DeleteWebhookRequest_Id v))])"

definition csilDecDeleteWebhookRequest :: "csil_value \<Rightarrow> csil_error + csil_DeleteWebhookRequest" where
  "csilDecDeleteWebhookRequest r =
     bindS (required r ''id'' cborAsText) (\<lambda>Id.
     Inr \<lparr>DeleteWebhookRequest_Id = Id\<rparr>)"

definition DeleteWebhookRequest_ok :: "csil_DeleteWebhookRequest \<Rightarrow> bool" where
  "DeleteWebhookRequest_ok v \<longleftrightarrow> text_ok (DeleteWebhookRequest_Id v)"

lemma DeleteWebhookRequest_undone: "DeleteWebhookRequest_ok v \<Longrightarrow> csilDecDeleteWebhookRequest (received (csilEncDeleteWebhookRequest v)) = Inr v"
  by (cases v) (simp add: csilEncDeleteWebhookRequest_def csilDecDeleteWebhookRequest_def DeleteWebhookRequest_ok_def codec)

lemma DeleteWebhookRequest_sound: "DeleteWebhookRequest_ok v \<Longrightarrow> sendable 1 (csilEncDeleteWebhookRequest v)"
  unfolding csilEncDeleteWebhookRequest_def DeleteWebhookRequest_ok_def by (rule sendable_map) (simp_all add: codec)

interpretation DeleteWebhookRequest_message: message DeleteWebhookRequest_ok csilEncDeleteWebhookRequest csilDecDeleteWebhookRequest 1
  by unfold_locales (fact DeleteWebhookRequest_undone, fact DeleteWebhookRequest_sound)

record csil_ListWebhooksRequest =
  ListWebhooksRequest_OwnerKind :: string
  ListWebhooksRequest_OwnerId :: string

definition csilEncListWebhooksRequest :: "csil_ListWebhooksRequest \<Rightarrow> csil_value" where
  "csilEncListWebhooksRequest v = pMap (concat [
     entry ''owner_id'' (pText (ListWebhooksRequest_OwnerId v)),
     entry ''owner_kind'' (pText (ListWebhooksRequest_OwnerKind v))])"

definition csilDecListWebhooksRequest :: "csil_value \<Rightarrow> csil_error + csil_ListWebhooksRequest" where
  "csilDecListWebhooksRequest r =
     bindS (required r ''owner_kind'' (as_enum WebhookOwnerKind_names)) (\<lambda>OwnerKind.
     bindS (required r ''owner_id'' cborAsText) (\<lambda>OwnerId.
     Inr \<lparr>ListWebhooksRequest_OwnerKind = OwnerKind, ListWebhooksRequest_OwnerId = OwnerId\<rparr>))"

definition ListWebhooksRequest_ok :: "csil_ListWebhooksRequest \<Rightarrow> bool" where
  "ListWebhooksRequest_ok v \<longleftrightarrow> enum_ok WebhookOwnerKind_names (ListWebhooksRequest_OwnerKind v) \<and> text_ok (ListWebhooksRequest_OwnerId v)"

lemma ListWebhooksRequest_undone: "ListWebhooksRequest_ok v \<Longrightarrow> csilDecListWebhooksRequest (received (csilEncListWebhooksRequest v)) = Inr v"
  by (cases v) (simp add: csilEncListWebhooksRequest_def csilDecListWebhooksRequest_def ListWebhooksRequest_ok_def codec)

lemma ListWebhooksRequest_sound: "ListWebhooksRequest_ok v \<Longrightarrow> sendable 1 (csilEncListWebhooksRequest v)"
  unfolding csilEncListWebhooksRequest_def ListWebhooksRequest_ok_def by (rule sendable_map) (simp_all add: codec)

interpretation ListWebhooksRequest_message: message ListWebhooksRequest_ok csilEncListWebhooksRequest csilDecListWebhooksRequest 1
  by unfold_locales (fact ListWebhooksRequest_undone, fact ListWebhooksRequest_sound)

record csil_WebhookList =
  WebhookList_Webhooks :: "csil_Webhook list"
  WebhookList_Limit :: "64 word"

definition csilEncWebhookList :: "csil_WebhookList \<Rightarrow> csil_value" where
  "csilEncWebhookList v = pMap (concat [
     entry ''limit'' (pUint (WebhookList_Limit v)),
     entry ''webhooks'' (cborEncArray csilEncWebhook (WebhookList_Webhooks v))])"

definition csilDecWebhookList :: "csil_value \<Rightarrow> csil_error + csil_WebhookList" where
  "csilDecWebhookList r =
     bindS (required r ''webhooks'' (cborDecArray csilDecWebhook)) (\<lambda>Webhooks.
     bindS (required r ''limit'' cborAsU64) (\<lambda>Limit.
     Inr \<lparr>WebhookList_Webhooks = Webhooks, WebhookList_Limit = Limit\<rparr>))"

definition WebhookList_ok :: "csil_WebhookList \<Rightarrow> bool" where
  "WebhookList_ok v \<longleftrightarrow> list_ok Webhook_ok (WebhookList_Webhooks v)"

lemma WebhookList_undone: "WebhookList_ok v \<Longrightarrow> csilDecWebhookList (received (csilEncWebhookList v)) = Inr v"
  by (cases v) (simp add: csilEncWebhookList_def csilDecWebhookList_def WebhookList_ok_def codec)

lemma WebhookList_sound: "WebhookList_ok v \<Longrightarrow> sendable 4 (csilEncWebhookList v)"
  unfolding csilEncWebhookList_def WebhookList_ok_def by (rule sendable_map) (simp_all add: codec)

interpretation WebhookList_message: message WebhookList_ok csilEncWebhookList csilDecWebhookList 4
  by unfold_locales (fact WebhookList_undone, fact WebhookList_sound)

end
