(* ===== verification/Spec2Isabelle.thy ===== *)
theory Spec2Isabelle
  imports Requests Occurrences FederationWireProperties PayloadSafety StoredTimes Config Passes Directory SearchProperties CodecOrganizations CodecOffers CodecSeries CodecAdmin CodecPeers CodecSearch CodecWebhooks
begin

text \<open>
  A model of the tinku directory's API (\<open>api/internal\<close>), translated from its Go source.
\<close>

end
